(* ===== verification/Prelude.thy ===== *)
theory Prelude
  imports Main "HOL-Library.List_Lexorder" "HOL-Library.Char_ord" "HOL-Library.Sublist" "HOL-Library.Multiset"
begin

text \<open>
  What the components share: Go errors as values, the result of a Go call (a value, an error
  or a panic), the monad of the calls that read and change a state, the frame locale that lifts
  a relation between states through every such call, and the string functions of Go's standard
  library the sources use.

  Errors keep the classes the sources test for (\<open>errors.Is\<close>, \<open>errors.As\<close>,
  \<open>k8serrors.IsNotFound\<close> ...) below any number of wrappings (\<open>fmt.Errorf("...: %w")\<close>,
  \<open>errors.Wrap\<close>), as those functions look through the chain.
\<close>

section \<open>Errors and results\<close>

datatype err =
    EMsg string
  | EWrap string err
  | ENotFound string
  | EAlreadyExists string
  | EConflict string
  | ENoMatch string
  | EApi string
  | ETooLarge string
  | ENotExist string
  | EForbidden string
  | EValidation string
  | ENothingElse string
  | EPreflightsFail string
  | ENoInstallations
  | EInstallationNotFound

fun err_cause :: "err \<Rightarrow> err" where
  "err_cause (EWrap _ e) = err_cause e"
| "err_cause e = e"

fun err_text :: "err \<Rightarrow> string" where
  "err_text (EWrap c e) = c @ '': '' @ err_text e"
| "err_text (EMsg s) = s"
| "err_text (ENotFound s) = s"
| "err_text (EAlreadyExists s) = s"
| "err_text (EConflict s) = s"
| "err_text (ENoMatch s) = s"
| "err_text (EApi s) = s"
| "err_text (ETooLarge s) = s"
| "err_text (ENotExist s) = s"
| "err_text (EForbidden s) = s"
| "err_text (EValidation s) = s"
| "err_text (ENothingElse s) = s"
| "err_text (EPreflightsFail pkg) = ''host preflight failures detected''"
| "err_text ENoInstallations = ''no installations found''"
| "err_text EInstallationNotFound = ''installation not found''"

definition is_not_found :: "err \<Rightarrow> bool" where
  "is_not_found e = (case err_cause e of ENotFound _ \<Rightarrow> True | _ \<Rightarrow> False)"

definition is_already_exists :: "err \<Rightarrow> bool" where
  "is_already_exists e = (case err_cause e of EAlreadyExists _ \<Rightarrow> True | _ \<Rightarrow> False)"

definition is_conflict :: "err \<Rightarrow> bool" where
  "is_conflict e = (case err_cause e of EConflict _ \<Rightarrow> True | _ \<Rightarrow> False)"

definition is_no_match :: "err \<Rightarrow> bool" where
  "is_no_match e = (case err_cause e of ENoMatch _ \<Rightarrow> True | _ \<Rightarrow> False)"

definition is_validation :: "err \<Rightarrow> bool" where
  "is_validation e = (case err_cause e of EValidation _ \<Rightarrow> True | _ \<Rightarrow> False)"

text \<open>\<open>IsRequestEntityTooLargeError\<close>, \<open>errors.Is(err, fs.ErrNotExist)\<close> and the kubeutils sentinel.\<close>

definition is_too_large :: "err \<Rightarrow> bool" where
  "is_too_large e = (case err_cause e of ETooLarge _ \<Rightarrow> True | _ \<Rightarrow> False)"

definition is_not_exist :: "err \<Rightarrow> bool" where
  "is_not_exist e = (case err_cause e of ENotExist _ \<Rightarrow> True | _ \<Rightarrow> False)"

definition is_forbidden :: "err \<Rightarrow> bool" where
  "is_forbidden e = (case err_cause e of EForbidden _ \<Rightarrow> True | _ \<Rightarrow> False)"

definition is_installation_not_found :: "err \<Rightarrow> bool" where
  "is_installation_not_found e = (err_cause e = EInstallationNotFound)"

text \<open>
  \<open>errors.As(err, &ErrorNothingElseToAdd{})\<close>, and \<open>errors.Is(err, ErrPreflightsHaveFail)\<close>: two packages declare
  a sentinel of this name with the same text, and each is only itself.
\<close>

definition is_nothing_else :: "err \<Rightarrow> bool" where
  "is_nothing_else e = (case err_cause e of ENothingElse _ \<Rightarrow> True | _ \<Rightarrow> False)"

definition is_preflights_fail :: "string \<Rightarrow> err \<Rightarrow> bool" where
  "is_preflights_fail pkg e = (err_cause e = EPreflightsFail pkg)"

lemmas err_class_defs =
  is_not_found_def is_already_exists_def is_conflict_def is_no_match_def is_validation_def

lemma err_class_wrap [simp]:
  "is_not_found (EWrap c e) = is_not_found e"
  "is_already_exists (EWrap c e) = is_already_exists e"
  "is_conflict (EWrap c e) = is_conflict e"
  "is_no_match (EWrap c e) = is_no_match e"
  "is_validation (EWrap c e) = is_validation e"
  by (simp_all add: err_class_defs)

lemma err_class_const [simp]:
  "is_not_found (ENotFound s)" "\<not> is_not_found (EApi s)" "\<not> is_not_found (EConflict s)"
  "\<not> is_not_found (EMsg s)" "\<not> is_not_found (ENoMatch s)" "\<not> is_not_found (EAlreadyExists s)"
  "is_conflict (EConflict s)" "\<not> is_conflict (EApi s)" "\<not> is_conflict (ENotFound s)"
  "\<not> is_conflict (EMsg s)" "\<not> is_conflict (ENoMatch s)" "\<not> is_conflict (EAlreadyExists s)"
  "\<not> is_not_found (ETooLarge s)" "\<not> is_conflict (ETooLarge s)" "\<not> is_no_match (ETooLarge s)"
  "\<not> is_already_exists (ETooLarge s)"
  "is_no_match (ENoMatch s)" "\<not> is_no_match (EApi s)" "\<not> is_no_match (ENotFound s)"
  "\<not> is_no_match (EMsg s)" "\<not> is_no_match (EConflict s)" "\<not> is_no_match (EAlreadyExists s)"
  "is_already_exists (EAlreadyExists s)" "\<not> is_already_exists (EApi s)"
  "\<not> is_already_exists (ENotFound s)" "\<not> is_already_exists (EMsg s)"
  "\<not> is_already_exists (EConflict s)" "\<not> is_already_exists (ENoMatch s)"
  "is_validation (EValidation s)" "\<not> is_validation (EMsg s)" "\<not> is_validation (EApi s)"
  by (simp_all add: err_class_defs)

datatype 'a outcome = Ok 'a | Err err | Panic string

fun bindO :: "'a outcome \<Rightarrow> ('a \<Rightarrow> 'b outcome) \<Rightarrow> 'b outcome" where
  "bindO (Ok x) f = f x"
| "bindO (Err e) f = Err e"
| "bindO (Panic p) f = Panic p"

fun wrapO :: "string \<Rightarrow> 'a outcome \<Rightarrow> 'a outcome" where
  "wrapO c (Ok x) = Ok x"
| "wrapO c (Err e) = Err (EWrap c e)"
| "wrapO c (Panic p) = Panic p"

definition requireO :: "bool \<Rightarrow> err \<Rightarrow> unit outcome" where
  "requireO b e = (if b then Ok () else Err e)"

lemma bindO_Ok_iff [simp]: "bindO m f = Ok y \<longleftrightarrow> (\<exists>x. m = Ok x \<and> f x = Ok y)"
  by (cases m) auto

lemma wrapO_Ok_iff [simp]: "wrapO c m = Ok y \<longleftrightarrow> m = Ok y"
  by (cases m) auto

lemma requireO_Ok_iff [simp]: "requireO b e = Ok u \<longleftrightarrow> b"
  by (simp add: requireO_def)

lemma bindO_Err_iff:
  "bindO m f = Err e \<longleftrightarrow> m = Err e \<or> (\<exists>x. m = Ok x \<and> f x = Err e)"
  by (cases m) auto

lemma wrapO_Err_iff: "wrapO c m = Err e \<longleftrightarrow> (\<exists>e'. m = Err e' \<and> e = EWrap c e')"
  by (cases m) auto

lemma requireO_Err_iff: "requireO b e = Err e' \<longleftrightarrow> \<not> b \<and> e' = e"
  by (auto simp: requireO_def)

lemmas outcome_Err_iffs = bindO_Err_iff wrapO_Err_iff requireO_Err_iff

section \<open>Calls that read and change a state\<close>

type_synonym ('w, 'a) call = "'w \<Rightarrow> 'a outcome \<times> 'w"

definition ret :: "'a \<Rightarrow> ('w, 'a) call" where
  "ret x w = (Ok x, w)"

definition throw :: "err \<Rightarrow> ('w, 'a) call" where
  "throw e w = (Err e, w)"

definition lift :: "'a outcome \<Rightarrow> ('w, 'a) call" where
  "lift r w = (r, w)"

definition bind :: "('w, 'a) call \<Rightarrow> ('a \<Rightarrow> ('w, 'b) call) \<Rightarrow> ('w, 'b) call" where
  "bind m f w = (case m w of
      (Ok x, w') \<Rightarrow> f x w'
    | (Err e, w') \<Rightarrow> (Err e, w')
    | (Panic p, w') \<Rightarrow> (Panic p, w'))"

definition wrap :: "string \<Rightarrow> ('w, 'a) call \<Rightarrow> ('w, 'a) call" where
  "wrap c m w = (case m w of (r, w') \<Rightarrow> (wrapO c r, w'))"

text \<open>\<open>attempt\<close> is a call whose error the caller keeps in a variable and tests itself.\<close>

definition attempt :: "('w, 'a) call \<Rightarrow> ('w, err + 'a) call" where
  "attempt m w = (case m w of
      (Ok x, w') \<Rightarrow> (Ok (Inr x), w')
    | (Err e, w') \<Rightarrow> (Ok (Inl e), w')
    | (Panic p, w') \<Rightarrow> (Panic p, w'))"

definition gets :: "('w \<Rightarrow> 'a) \<Rightarrow> ('w, 'a) call" where
  "gets f w = (Ok (f w), w)"

definition modify :: "('w \<Rightarrow> 'w) \<Rightarrow> ('w, unit) call" where
  "modify f w = (Ok (), f w)"

fun for_each :: "('a \<Rightarrow> ('w, unit) call) \<Rightarrow> 'a list \<Rightarrow> ('w, unit) call" where
  "for_each f [] = ret ()"
| "for_each f (x # xs) = bind (f x) (\<lambda>_. for_each f xs)"

lemmas call_defs = ret_def throw_def lift_def bind_def wrap_def attempt_def gets_def modify_def

lemma bind_ret [simp]: "bind (ret x) f = f x"
  by (rule ext) (simp add: call_defs)

lemma bind_throw [simp]: "bind (throw e) f = throw e"
  by (rule ext) (simp add: call_defs)

lemma wrap_ret [simp]: "wrap c (ret x) = ret x"
  by (rule ext) (simp add: call_defs)

lemma wrap_throw [simp]: "wrap c (throw e) = throw (EWrap c e)"
  by (rule ext) (simp add: call_defs)

lemma bind_assoc: "bind (bind m f) g = bind m (\<lambda>x. bind (f x) g)"
  by (rule ext) (auto simp: call_defs split: prod.splits outcome.splits)

lemma bind_Ok_iff:
  "bind m f w = (Ok y, w'') \<longleftrightarrow> (\<exists>x w'. m w = (Ok x, w') \<and> f x w' = (Ok y, w''))"
  by (auto simp: bind_def split: prod.splits outcome.splits)

lemma wrap_Ok_iff: "wrap c m w = (Ok y, w') \<longleftrightarrow> m w = (Ok y, w')"
  by (auto simp: wrap_def split: prod.splits)

lemma attempt_Inr_iff: "attempt m w = (Ok (Inr y), w') \<longleftrightarrow> m w = (Ok y, w')"
  by (auto simp: attempt_def split: prod.splits outcome.splits)

lemma attempt_Inl_iff: "attempt m w = (Ok (Inl e), w') \<longleftrightarrow> m w = (Err e, w')"
  by (auto simp: attempt_def split: prod.splits outcome.splits)

lemma attempt_Ok_iff: "attempt m w = (Ok r, w') \<longleftrightarrow>
    (\<exists>e. m w = (Err e, w') \<and> r = Inl e) \<or> (\<exists>x. m w = (Ok x, w') \<and> r = Inr x)"
  by (auto simp: attempt_def split: prod.splits outcome.splits)

lemma attempt_not_Err [simp]: "attempt m w \<noteq> (Err e, w')"
  by (auto simp: attempt_def split: prod.splits outcome.splits)

lemma ret_Ok_iff [simp]: "ret x w = (Ok y, w') \<longleftrightarrow> y = x \<and> w' = w"
  by (auto simp: ret_def)

lemma ret_not_Err [simp]: "ret x w \<noteq> (Err e, w')"
  by (simp add: ret_def)

lemma throw_not_Ok [simp]: "throw e w \<noteq> (Ok y, w')"
  by (simp add: throw_def)

lemma gets_Ok_iff [simp]: "gets f w = (Ok y, w') \<longleftrightarrow> y = f w \<and> w' = w"
  by (auto simp: gets_def)

lemma modify_Ok_iff [simp]: "modify f w = (Ok u, w') \<longleftrightarrow> w' = f w"
  by (auto simp: modify_def)

lemma lift_Ok_iff [simp]: "lift r w = (Ok y, w') \<longleftrightarrow> r = Ok y \<and> w' = w"
  by (auto simp: lift_def)

lemma bind_Inr_Ok_iff: "bind m (case_sum (\<lambda>s. throw (e s)) g) w = (Ok y, w') \<longleftrightarrow>
    (\<exists>x w1. m w = (Ok (Inr x), w1) \<and> g x w1 = (Ok y, w'))"
  by (auto simp: bind_def throw_def split: prod.splits outcome.splits sum.split_asm)

lemmas call_Ok_iffs = bind_Ok_iff wrap_Ok_iff attempt_Ok_iff

lemma bind_cong_run:
  assumes "m w = m' w" and "\<And>x w'. m w = (Ok x, w') \<Longrightarrow> f x w' = g x w'"
  shows "bind m f w = bind m' g w"
  using assms by (auto simp: bind_def split: prod.split outcome.split)

lemma bind_attempt_Ok_iff: "bind (attempt m) (\<lambda>r. case r of Inl e \<Rightarrow> f e | Inr x \<Rightarrow> g x) w = (Ok y, w') \<longleftrightarrow>
    (\<exists>e v. m w = (Err e, v) \<and> f e v = (Ok y, w')) \<or> (\<exists>x v. m w = (Ok x, v) \<and> g x v = (Ok y, w'))"
  by (auto simp: bind_def attempt_def split: prod.split outcome.split)

lemma bind_case_option: "bind (case x of None \<Rightarrow> throw e | Some d \<Rightarrow> f d) g = (case x of None \<Rightarrow> throw e | Some d \<Rightarrow> bind (f d) g)"
  by (cases x) simp_all

section \<open>Frames: a relation kept by every call of a component\<close>

definition keeps :: "('w \<Rightarrow> 'w \<Rightarrow> bool) \<Rightarrow> ('w, 'a) call \<Rightarrow> bool" where
  "keeps R m \<longleftrightarrow> (\<forall>w. R w (snd (m w)))"

lemma keepsD: "keeps R m \<Longrightarrow> m w = (r, w') \<Longrightarrow> R w w'"
  unfolding keeps_def by (metis snd_conv)

text \<open>
  A frame is a reflexive and transitive relation between the state before and after a call (what
  a component never does: drop an event, touch another component's objects). The lemmas
  lift it through sequencing, error handling and loops, on every outcome.
\<close>

locale frame =
  fixes R :: "'w \<Rightarrow> 'w \<Rightarrow> bool"
  assumes frame_refl: "R w w"
    and frame_trans: "R u v \<Longrightarrow> R v w \<Longrightarrow> R u w"
begin

lemma keeps_ret: "keeps R (ret x)"
  by (simp add: keeps_def ret_def frame_refl)

lemma keeps_throw: "keeps R (throw e)"
  by (simp add: keeps_def throw_def frame_refl)

lemma keeps_lift: "keeps R (lift r)"
  by (simp add: keeps_def lift_def frame_refl)

lemma keeps_gets: "keeps R (gets f)"
  by (simp add: keeps_def gets_def frame_refl)

lemma keeps_modify: "(\<And>w. R w (f w)) \<Longrightarrow> keeps R (modify f)"
  by (simp add: keeps_def modify_def)

lemma keeps_bind_from:
  assumes m: "keeps R m" and f: "\<And>w x w'. m w = (Ok x, w') \<Longrightarrow> keeps R (f x)"
  shows "keeps R (bind m f)"
  unfolding keeps_def
proof
  fix w
  obtain r w' where mw: "m w = (r, w')" by (cases "m w")
  with m have Rw: "R w w'" by (metis keepsD)
  show "R w (snd (bind m f w))"
  proof (cases r)
    case (Ok x)
    with mw f have "R w' (snd (f x w'))" by (simp add: keeps_def)
    with Rw have "R w (snd (f x w'))" by (rule frame_trans)
    with mw Ok show ?thesis by (simp add: bind_def)
  qed (use mw Rw in \<open>simp_all add: bind_def\<close>)
qed

lemma keeps_bind: "keeps R m \<Longrightarrow> (\<And>x. keeps R (f x)) \<Longrightarrow> keeps R (bind m f)"
  by (rule keeps_bind_from)

lemma keeps_wrap: "keeps R m \<Longrightarrow> keeps R (wrap c m)"
  by (auto simp: keeps_def wrap_def split: prod.splits) (metis snd_conv)

lemma keeps_attempt: "keeps R m \<Longrightarrow> keeps R (attempt m)"
  unfolding keeps_def attempt_def
  by (auto split: prod.splits outcome.splits) (metis snd_conv)+

lemma keeps_if: "keeps R a \<Longrightarrow> keeps R b \<Longrightarrow> keeps R (if c then a else b)"
  by simp

lemma keeps_option:
  "keeps R a \<Longrightarrow> (\<And>x. keeps R (b x)) \<Longrightarrow> keeps R (case opt of None \<Rightarrow> a | Some x \<Rightarrow> b x)"
  by (cases opt) simp_all

lemma keeps_list:
  "keeps R a \<Longrightarrow> (\<And>x xs. keeps R (b x xs)) \<Longrightarrow> keeps R (case l of [] \<Rightarrow> a | x # xs \<Rightarrow> b x xs)"
  by (cases l) simp_all

lemma keeps_sum:
  "(\<And>x. keeps R (a x)) \<Longrightarrow> (\<And>y. keeps R (b y)) \<Longrightarrow>
    keeps R (case s of Inl x \<Rightarrow> a x | Inr y \<Rightarrow> b y)"
  by (cases s) simp_all

lemma keeps_prod: "(\<And>x y. keeps R (a x y)) \<Longrightarrow> keeps R (case p of (x, y) \<Rightarrow> a x y)"
  by (cases p) simp_all

lemma keeps_let: "(\<And>x. keeps R (f x)) \<Longrightarrow> keeps R (let x = t in f x)"
  by simp

lemma keeps_for_each_in: "(\<And>x. x \<in> set xs \<Longrightarrow> keeps R (f x)) \<Longrightarrow> keeps R (for_each f xs)"
  by (induction xs) (auto intro: keeps_ret keeps_bind)

lemma keeps_for_each: "(\<And>x. keeps R (f x)) \<Longrightarrow> keeps R (for_each f xs)"
  by (rule keeps_for_each_in)

lemmas frame_rules = keeps_ret keeps_throw keeps_lift keeps_gets keeps_bind
  keeps_wrap keeps_attempt keeps_if keeps_option keeps_list keeps_sum keeps_prod
  keeps_let keeps_for_each

end

section \<open>Strings: the functions of Go's standard library the sources use\<close>

fun split_on :: "char \<Rightarrow> string \<Rightarrow> string list" where
  "split_on c [] = [[]]"
| "split_on c (x # xs) =
     (if x = c then [] # split_on c xs
      else (case split_on c xs of [] \<Rightarrow> [[x]] | y # ys \<Rightarrow> (x # y) # ys))"

fun join_str :: "string \<Rightarrow> string list \<Rightarrow> string" where
  "join_str sep [] = []"
| "join_str sep [s] = s"
| "join_str sep (s # t # ts) = s @ sep @ join_str sep (t # ts)"

fun contains_str :: "string \<Rightarrow> string \<Rightarrow> bool" where
  "contains_str [] sub = (sub = [])"
| "contains_str (x # xs) sub = (prefix sub (x # xs) \<or> contains_str xs sub)"

fun replace_first :: "string \<Rightarrow> string \<Rightarrow> string \<Rightarrow> string" where
  "replace_first [] old new = (if old = [] then new else [])"
| "replace_first (x # xs) old new =
     (if prefix old (x # xs) then new @ drop (length old) (x # xs)
      else x # replace_first xs old new)"

lemma split_on_nonempty [simp]: "split_on c s \<noteq> []"
  by (induction s) (auto split: list.splits)

lemma split_on_no_sep: "x \<in> set (split_on c s) \<Longrightarrow> c \<notin> set x"
  by (induction s arbitrary: x) (auto split: list.splits if_splits)

lemma split_on_word [simp]: "c \<notin> set w \<Longrightarrow> split_on c w = [w]"
  by (induction w) auto

lemma split_on_append: "c \<notin> set w \<Longrightarrow> split_on c (w @ c # s) = w # split_on c s"
  by (induction w) auto

lemma split_join:
  "xs \<noteq> [] \<Longrightarrow> (\<And>x. x \<in> set xs \<Longrightarrow> c \<notin> set x) \<Longrightarrow> split_on c (join_str [c] xs) = xs"
  by (induction "[c]" xs rule: join_str.induct) (auto simp: split_on_append)

lemma join_split: "join_str [c] (split_on c s) = s"
proof (induction s)
  case (Cons x s)
  obtain y ys where ys: "split_on c s = y # ys"
    by (cases "split_on c s") auto
  with Cons show ?case by (cases ys) auto
qed simp

lemma contains_str_iff: "contains_str s sub \<longleftrightarrow> (\<exists>a b. s = a @ sub @ b)"
proof (induction s)
  case (Cons x s)
  have "(\<exists>a b. x # s = a @ sub @ b) \<longleftrightarrow> prefix sub (x # s) \<or> (\<exists>a b. s = a @ sub @ b)"
    by (auto simp: prefix_def Cons_eq_append_conv)
  with Cons show ?case by simp
qed simp

section \<open>Decimal numbers\<close>

definition is_digit :: "char \<Rightarrow> bool" where
  "is_digit c \<longleftrightarrow> 48 \<le> (of_char c :: nat) \<and> (of_char c :: nat) \<le> 57"

definition digit_val :: "char \<Rightarrow> nat" where
  "digit_val c = of_char c - 48"

definition digit_char :: "nat \<Rightarrow> char" where
  "digit_char d = char_of (48 + d)"

definition parse_dec :: "string \<Rightarrow> nat option" where
  "parse_dec s = (if s \<noteq> [] \<and> list_all is_digit s
     then Some (foldl (\<lambda>a c. 10 * a + digit_val c) 0 s) else None)"

fun show_nat :: "nat \<Rightarrow> string" where
  "show_nat n = (if n < 10 then [digit_char n] else show_nat (n div 10) @ [digit_char (n mod 10)])"

declare show_nat.simps [simp del]

lemma digit_char [simp]:
  assumes "d < 10"
  shows "is_digit (digit_char d)" and "digit_val (digit_char d) = d"
  using assms by (simp_all add: is_digit_def digit_val_def digit_char_def)

lemma show_nat_nonempty [simp]: "show_nat n \<noteq> []"
  by (subst show_nat.simps) simp

lemma show_nat_digits: "list_all is_digit (show_nat n)"
proof (induction n rule: show_nat.induct)
  case (1 n)
  then show ?case by (subst show_nat.simps) simp
qed

lemma show_nat_value: "foldl (\<lambda>a c. 10 * a + digit_val c) 0 (show_nat n) = n"
proof (induction n rule: show_nat.induct)
  case (1 n)
  show ?case
  proof (cases "n < 10")
    case True
    then show ?thesis by (subst show_nat.simps) simp
  next
    case False
    with 1 show ?thesis by (subst show_nat.simps) simp
  qed
qed

lemma parse_show_nat [simp]: "parse_dec (show_nat n) = Some n"
  by (simp add: parse_dec_def show_nat_digits show_nat_value)

section \<open>Paths\<close>

text \<open>\<open>path/filepath.Clean\<close> and \<open>filepath.Join\<close> of two elements on Unix.\<close>

fun clean_step :: "bool \<Rightarrow> string list \<Rightarrow> string \<Rightarrow> string list" where
  "clean_step rooted stack c =
     (if c = [] \<or> c = ''.'' then stack
      else if c = ''..'' then
        (case stack of
           [] \<Rightarrow> if rooted then [] else [c]
         | t # ts \<Rightarrow> if t = ''..'' then c # stack else ts)
      else c # stack)"

definition path_clean :: "string \<Rightarrow> string" where
  "path_clean p =
     (let rooted = (p \<noteq> [] \<and> hd p = CHR ''/'');
          comps = rev (foldl (clean_step rooted) [] (split_on CHR ''/'' p));
          body = join_str ''/'' comps
      in if rooted then ''/'' @ body else if body = [] then ''.'' else body)"

definition path_join :: "string \<Rightarrow> string \<Rightarrow> string" where
  "path_join a b =
     (if a = [] \<and> b = [] then []
      else if a = [] then path_clean b
      else path_clean (a @ ''/'' @ b))"

end
