(* ===== verification/Upgradable.thy ===== *)
theory Upgradable
  imports Prelude "HOL-Library.Word"
begin

text \<open>
  The upgrade gate of \<^verbatim>\<open>pkg-new/validation\<close>: the options of a requested upgrade, how
  the releases that must not be skipped are collected (from the airgap bundle or from the
  replicated API), and the checks of \<open>ValidateIsReleaseUpgradable\<close> in their order.

  The Masterminds semver package is a parameter (\<open>semver_api\<close>); sequences are signed 64-bit
  integers and the minor version is an unsigned 64-bit one, so \<open>Minor()+1\<close> wraps.
\<close>

section \<open>Data\<close>

type_synonym int64 = "64 word"

record 'v semver_api =
  sv_new :: "string \<Rightarrow> 'v outcome"
  sv_less :: "'v \<Rightarrow> 'v \<Rightarrow> bool"
  sv_minor :: "'v \<Rightarrow> 64 word"
  sv_metadata :: "'v \<Rightarrow> string"
  sv_string :: "'v \<Rightarrow> string"
  sv_original :: "'v \<Rightarrow> string"

record license =
  is_semver_required :: bool
  channel_id :: string

record upgradable_options =
  current_app_version :: string
  current_app_sequence :: int64
  current_ec_version :: string
  current_app_status :: string
  target_app_version :: string
  target_app_sequence :: int64
  target_ec_version :: string
  opt_license :: "license option"
  current_release_is_required :: bool
  required_releases :: "string list"

record airgap_release =
  update_cursor :: string
  ar_version_label :: string

record airgap_metadata =
  airgap_info :: "airgap_release list option"

record channel_release =
  channel_sequence :: int64
  is_required :: bool
  version_label :: string

record pending_options =
  po_semver_supported :: bool
  po_sort_order :: string
  po_current_sequence :: int64

text \<open>\<open>strconv.ParseInt(s, 10, 64)\<close>: an optional sign, decimal digits, in range.\<close>

definition parse_int64 :: "string \<Rightarrow> int64 option" where
  "parse_int64 s =
     (let (neg, ds) = (case s of
           [] \<Rightarrow> (False, [])
         | c # cs \<Rightarrow> if c = CHR ''-'' then (True, cs) else if c = CHR ''+'' then (False, cs) else (False, s))
      in case parse_dec ds of
           None \<Rightarrow> None
         | Some n \<Rightarrow>
             (if neg then (if n \<le> 2 ^ 63 then Some (word_of_int (- int n)) else None)
              else (if n < 2 ^ 63 then Some (word_of_int (int n)) else None)))"

section \<open>Collecting the required releases\<close>

fun airgap_loop :: "airgap_release list \<Rightarrow> (upgradable_options, unit) call" where
  "airgap_loop [] opts = (Ok (), opts)"
| "airgap_loop (r # rs) opts =
     (case parse_int64 (update_cursor r) of
        None \<Rightarrow> (Err (EMsg (''failed to parse airgap spec required release update cursor '' @ update_cursor r)), opts)
      | Some sequence \<Rightarrow>
          if sequence = current_app_sequence opts
          then (Ok (), opts\<lparr>current_release_is_required := True\<rparr>)
          else if sequence <s current_app_sequence opts then (Ok (), opts)
          else airgap_loop rs
                 (opts\<lparr>required_releases := required_releases opts @ [ar_version_label r]\<rparr>))"

definition with_airgap_required_releases ::
    "airgap_metadata option \<Rightarrow> (upgradable_options, unit) call" where
  "with_airgap_required_releases metadata opts =
     (case Option.bind metadata airgap_info of
        None \<Rightarrow> (Err (EMsg ''airgap metadata is required for validating airgap required releases''), opts)
      | Some releases \<Rightarrow> airgap_loop releases opts)"

fun handle_pending_releases :: "channel_release list \<Rightarrow> upgradable_options \<Rightarrow> upgradable_options" where
  "handle_pending_releases [] opts = opts"
| "handle_pending_releases (r # rs) opts =
     (if channel_sequence r = target_app_sequence opts then opts
      else if is_required r then
        (if channel_sequence r = current_app_sequence opts
         then handle_pending_releases rs (opts\<lparr>current_release_is_required := True\<rparr>)
         else handle_pending_releases rs
                (opts\<lparr>required_releases := required_releases opts @ [version_label r]\<rparr>))
      else handle_pending_releases rs opts)"

text \<open>The replicated API client is the parameter \<open>get_pending\<close>.\<close>

definition with_online_required_releases ::
    "(string \<Rightarrow> int64 \<Rightarrow> pending_options \<Rightarrow> channel_release list option outcome)
      \<Rightarrow> (upgradable_options, unit) call" where
  "with_online_required_releases get_pending opts =
     (case opt_license opts of
        None \<Rightarrow> (Err (EMsg ''license is required to check online upgrade required releases''), opts)
      | Some lic \<Rightarrow>
          (case wrapO ''failed to get pending releases while checking required releases for upgrade''
                  (get_pending (channel_id lic) (current_app_sequence opts - 1)
                     \<lparr>po_semver_supported = is_semver_required lic, po_sort_order = ''asc'',
                      po_current_sequence = current_app_sequence opts\<rparr>) of
             Err e \<Rightarrow> (Err e, opts)
           | Panic p \<Rightarrow> (Panic p, opts)
           | Ok None \<Rightarrow> (Ok (), opts)
           | Ok (Some releases) \<Rightarrow> (Ok (), handle_pending_releases releases opts)))"

section \<open>The errors of the gate\<close>

definition new_required_releases_error :: "string list \<Rightarrow> string \<Rightarrow> err" where
  "new_required_releases_error required target = EValidation
     (''this upgrade requires installing intermediate version(s) first: '' @ join_str '', '' required @
      ''. Please go through this upgrade path before upgrading to '' @ target)"

definition new_current_release_failed_error :: "string \<Rightarrow> string \<Rightarrow> err" where
  "new_current_release_failed_error current target = EValidation
     (''Cannot upgrade to version '' @ target @ '', because the required version '' @ current @
      '' did not install successfully. Version '' @ current @
      '' must be fully installed before upgrading to version '' @ target @ ''.'')"

definition new_app_version_downgrade_error :: "string \<Rightarrow> string \<Rightarrow> err" where
  "new_app_version_downgrade_error current target = EValidation
     (''downgrade detected: cannot upgrade from app version '' @ current @ '' to older version '' @ target)"

definition new_ec_version_downgrade_error :: "string \<Rightarrow> string \<Rightarrow> err" where
  "new_ec_version_downgrade_error current target = EValidation
     (''downgrade detected: cannot upgrade from Embedded Cluster version '' @ current @
      '' to older version '' @ target)"

definition new_k8s_version_skip_error :: "string \<Rightarrow> string \<Rightarrow> err" where
  "new_k8s_version_skip_error current target = EValidation
     (''Kubernetes version skip detected: cannot upgrade from k8s '' @ current @ '' to '' @ target @
      ''. Kubernetes only supports upgrading by one minor version at a time'')"

definition new_k8s_version_downgrade :: "string \<Rightarrow> string \<Rightarrow> err" where
  "new_k8s_version_downgrade current target = EValidation
     (''Kubernetes version downgrade detected: cannot downgrade from k8s '' @ current @ '' to '' @ target @
      ''. Kubernetes downgrades are not supported'')"

lemmas validation_error_defs = new_required_releases_error_def new_current_release_failed_error_def
  new_app_version_downgrade_error_def new_ec_version_downgrade_error_def
  new_k8s_version_skip_error_def new_k8s_version_downgrade_def

section \<open>The checks\<close>

definition validate_required_releases :: "upgradable_options \<Rightarrow> unit outcome" where
  "validate_required_releases opts =
     (if current_app_status opts = ''failed'' \<and> current_release_is_required opts
      then Err (new_current_release_failed_error (current_app_version opts) (target_app_version opts))
      else if required_releases opts \<noteq> []
      then Err (new_required_releases_error (required_releases opts) (target_app_version opts))
      else Ok ())"

definition validate_app_version_downgrade :: "'v semver_api \<Rightarrow> upgradable_options \<Rightarrow> unit outcome" where
  "validate_app_version_downgrade sv opts =
     (case opt_license opts of
        None \<Rightarrow> Panic ''nil pointer dereference''
      | Some lic \<Rightarrow>
          if is_semver_required lic then
            bindO (wrapO (''failed to parse current app version '' @ current_app_version opts)
                     (sv_new sv (current_app_version opts))) (\<lambda>currentVer.
            bindO (wrapO (''failed to parse target app version '' @ target_app_version opts)
                     (sv_new sv (target_app_version opts))) (\<lambda>targetVer.
            if sv_less sv targetVer currentVer
            then Err (new_app_version_downgrade_error (current_app_version opts) (target_app_version opts))
            else Ok ()))
          else if target_app_sequence opts <s current_app_sequence opts
          then Err (new_app_version_downgrade_error (current_app_version opts) (target_app_version opts))
          else Ok ())"

definition validate_ec_version_downgrade :: "'v semver_api \<Rightarrow> upgradable_options \<Rightarrow> unit outcome" where
  "validate_ec_version_downgrade sv opts =
     bindO (wrapO (''failed to parse current EC version '' @ current_ec_version opts)
              (sv_new sv (current_ec_version opts))) (\<lambda>current.
     bindO (wrapO (''failed to parse target EC version '' @ target_ec_version opts)
              (sv_new sv (target_ec_version opts))) (\<lambda>target.
     if sv_less sv target current
     then Err (new_ec_version_downgrade_error (current_ec_version opts) (target_ec_version opts))
     else Ok ()))"

text \<open>
  The regular expression \<^verbatim>\<open>k8s-(\d+\.\d+)\<close> at one position, and its leftmost match:
  the captured group.
\<close>

definition k8s_match_here :: "string \<Rightarrow> string option" where
  "k8s_match_here s =
     (if prefix ''k8s-'' s then
        let r = drop 4 s; major = takeWhile is_digit r; r' = dropWhile is_digit r in
        (case r' of
           [] \<Rightarrow> None
         | c # t \<Rightarrow>
             if major \<noteq> [] \<and> c = CHR ''.'' \<and> takeWhile is_digit t \<noteq> []
             then Some (major @ ''.'' @ takeWhile is_digit t) else None)
      else None)"

fun k8s_submatch :: "string \<Rightarrow> string option" where
  "k8s_submatch [] = None"
| "k8s_submatch (c # cs) =
     (case k8s_match_here (c # cs) of Some m \<Rightarrow> Some m | None \<Rightarrow> k8s_submatch cs)"

definition get_k8s_version :: "'v semver_api \<Rightarrow> string \<Rightarrow> 'v outcome" where
  "get_k8s_version sv version =
     bindO (wrapO (''failed to parse EC version '' @ version) (sv_new sv version)) (\<lambda>ecVersion.
     (case k8s_submatch (sv_metadata sv ecVersion) of
        None \<Rightarrow> Err (EMsg (''invalid EC version format: expected 'X.Y.Z+k8s-A.B-*', got '' @ version))
      | Some m \<Rightarrow> wrapO ''failed to parse k8s version <nil>'' (sv_new sv m)))"

definition validate_k8s_version :: "'v semver_api \<Rightarrow> upgradable_options \<Rightarrow> unit outcome" where
  "validate_k8s_version sv opts =
     bindO (wrapO (''failed to extract k8s version from current version '' @ current_ec_version opts)
              (get_k8s_version sv (current_ec_version opts))) (\<lambda>currentK8s.
     bindO (wrapO (''failed to extract k8s version from target version '' @ target_ec_version opts)
              (get_k8s_version sv (target_ec_version opts))) (\<lambda>targetK8s.
     if sv_minor sv currentK8s + 1 < sv_minor sv targetK8s
     then Err (new_k8s_version_skip_error (sv_string sv currentK8s) (sv_string sv targetK8s))
     else if sv_less sv targetK8s currentK8s
     then Err (new_k8s_version_downgrade (sv_string sv currentK8s) (sv_string sv targetK8s))
     else Ok ()))"

definition validate_is_release_upgradable :: "'v semver_api \<Rightarrow> upgradable_options \<Rightarrow> unit outcome" where
  "validate_is_release_upgradable sv opts =
     bindO (validate_app_version_downgrade sv opts) (\<lambda>_.
     bindO (validate_required_releases opts) (\<lambda>_.
     bindO (validate_ec_version_downgrade sv opts) (\<lambda>_.
     validate_k8s_version sv opts)))"

section \<open>What the collectors compute\<close>

lemma handle_pending_releases_spec:
  "handle_pending_releases rs opts =
     (let before = takeWhile (\<lambda>r. channel_sequence r \<noteq> target_app_sequence opts) rs
      in opts\<lparr>required_releases := required_releases opts @
                 map version_label (filter (\<lambda>r. is_required r \<and>
                   channel_sequence r \<noteq> current_app_sequence opts) before),
              current_release_is_required := current_release_is_required opts \<or>
                 (\<exists>r \<in> set before. is_required r \<and> channel_sequence r = current_app_sequence opts)\<rparr>)"
proof (induction rs arbitrary: opts)
  case (Cons r rs)
  show ?case
    by (cases "channel_sequence r = target_app_sequence opts"; cases "is_required r";
        cases "channel_sequence r = current_app_sequence opts")
      (simp_all add: Let_def Cons.IH)
qed simp

lemma airgap_loop_newer:
  assumes "\<forall>r \<in> set ps. \<exists>s. parse_int64 (update_cursor r) = Some s \<and> current_app_sequence opts <s s"
  shows "airgap_loop (ps @ qs) opts =
    airgap_loop qs (opts\<lparr>required_releases := required_releases opts @ map ar_version_label ps\<rparr>)"
  using assms
proof (induction ps arbitrary: opts)
  case (Cons p ps)
  then obtain s where s: "parse_int64 (update_cursor p) = Some s" "current_app_sequence opts <s s"
    by auto
  then have "s \<noteq> current_app_sequence opts" "\<not> s <s current_app_sequence opts"
    by (auto simp: word_sless_alt)
  with s Cons show ?case by simp
qed simp

lemma airgap_loop_older:
  assumes "\<forall>r \<in> set rs. \<exists>s. parse_int64 (update_cursor r) = Some s \<and> s <s current_app_sequence opts"
  shows "airgap_loop rs opts = (Ok (), opts)"
  using assms by (cases rs) (auto simp: word_sless_alt)

section \<open>What the Kubernetes part of an EC version is\<close>

lemma takeWhile_digits: "list_all P ds \<Longrightarrow> r = [] \<or> \<not> P (hd r) \<Longrightarrow>
    takeWhile P (ds @ r) = ds \<and> dropWhile P (ds @ r) = r"
  by (induction ds) (auto simp: neq_Nil_conv takeWhile_eq_Nil_iff dropWhile_eq_self_iff)

lemma dot_not_digit [simp]: "\<not> is_digit CHR ''.''"
  by (simp add: is_digit_def)

lemma k8s_match_here_version:
  assumes "rest = [] \<or> \<not> is_digit (hd rest)"
  shows "k8s_match_here (''k8s-'' @ show_nat a @ ''.'' @ show_nat b @ rest) =
    Some (show_nat a @ ''.'' @ show_nat b)"
proof -
  have "takeWhile is_digit (show_nat a @ CHR ''.'' # show_nat b @ rest) = show_nat a"
    "dropWhile is_digit (show_nat a @ CHR ''.'' # show_nat b @ rest) = CHR ''.'' # show_nat b @ rest"
    using takeWhile_digits [OF show_nat_digits, of "CHR ''.'' # show_nat b @ rest" a] by simp_all
  moreover have "takeWhile is_digit (show_nat b @ rest) = show_nat b"
    using takeWhile_digits [OF show_nat_digits, of rest b] assms by simp
  ultimately show ?thesis by (simp add: k8s_match_here_def Let_def)
qed

lemma k8s_submatch_version:
  assumes "CHR ''k'' \<notin> set pre" and "rest = [] \<or> \<not> is_digit (hd rest)"
  shows "k8s_submatch (pre @ ''k8s-'' @ show_nat a @ ''.'' @ show_nat b @ rest) =
    Some (show_nat a @ ''.'' @ show_nat b)"
  using assms
proof (induction pre)
  case Nil
  then show ?case using k8s_match_here_version [of rest a b] by simp
next
  case (Cons c pre)
  then have "k8s_match_here (c # pre @ ''k8s-'' @ show_nat a @ ''.'' @ show_nat b @ rest) = None"
    by (simp add: k8s_match_here_def)
  with Cons show ?case by simp
qed

text \<open>
  What the gate relies on from the semver package: a two-part version \<open>A.B\<close> parses, its minor
  is \<open>B\<close>, and two such versions are ordered by major, then minor.
\<close>

definition two_part_versions :: "'v semver_api \<Rightarrow> (nat \<Rightarrow> nat \<Rightarrow> 'v) \<Rightarrow> bool" where
  "two_part_versions sv mk \<longleftrightarrow>
     (\<forall>a b. a < 2 ^ 64 \<longrightarrow> b < 2 ^ 64 \<longrightarrow>
        sv_new sv (show_nat a @ ''.'' @ show_nat b) = Ok (mk a b) \<and>
        sv_minor sv (mk a b) = word_of_nat b) \<and>
     (\<forall>a b c d. sv_less sv (mk a b) (mk c d) \<longleftrightarrow> a < c \<or> a = c \<and> b < d)"

definition carries_k8s :: "'v semver_api \<Rightarrow> string \<Rightarrow> nat \<Rightarrow> nat \<Rightarrow> bool" where
  "carries_k8s sv version a b \<longleftrightarrow>
     (\<exists>v pre rest. sv_new sv version = Ok v \<and> CHR ''k'' \<notin> set pre \<and>
        (rest = [] \<or> \<not> is_digit (hd rest)) \<and>
        sv_metadata sv v = pre @ ''k8s-'' @ show_nat a @ ''.'' @ show_nat b @ rest)"

lemma get_k8s_version_carried:
  assumes "two_part_versions sv mk" "carries_k8s sv version a b" "a < 2 ^ 64" "b < 2 ^ 64"
  shows "get_k8s_version sv version = Ok (mk a b)"
proof -
  obtain v pre rest where "sv_new sv version = Ok v" and
    "sv_metadata sv v = pre @ ''k8s-'' @ show_nat a @ ''.'' @ show_nat b @ rest"
    and *: "CHR ''k'' \<notin> set pre" "rest = [] \<or> \<not> is_digit (hd rest)"
    using assms(2) unfolding carries_k8s_def by blast
  then show ?thesis
    using assms k8s_submatch_version [OF *, of a b]
    by (simp add: get_k8s_version_def two_part_versions_def)
qed

lemma validate_k8s_version_carried:
  assumes "two_part_versions sv mk"
    and "carries_k8s sv (current_ec_version opts) a b" "carries_k8s sv (target_ec_version opts) c d"
    and "a < 2 ^ 64" "b + 1 < 2 ^ 64" "c < 2 ^ 64" "d < 2 ^ 64"
  shows "validate_k8s_version sv opts = Ok () \<longleftrightarrow> d \<le> b + 1 \<and> \<not> (c < a \<or> c = a \<and> d < b)"
proof -
  have "sv_minor sv (mk a b) + 1 < sv_minor sv (mk c d) \<longleftrightarrow> b + 1 < d"
  proof -
    have "sv_minor sv (mk a b) + 1 = word_of_nat (b + 1)" "sv_minor sv (mk c d) = word_of_nat d"
      using assms by (simp_all add: two_part_versions_def)
    with assms show ?thesis
      by (simp only: word_of_nat_less_iff) (simp add: take_bit_nat_eq_self)
  qed
  with assms get_k8s_version_carried [OF assms(1,2)] get_k8s_version_carried [OF assms(1,3)]
  show ?thesis by (auto simp: validate_k8s_version_def two_part_versions_def)
qed

lemmas upgrade_gate_defs = validate_is_release_upgradable_def validate_app_version_downgrade_def
  validate_required_releases_def validate_ec_version_downgrade_def

section \<open>Properties\<close>

text \<open>A semver package for the witnesses: the core's major and minor, and the build part.\<close>

definition sample_semver :: "(nat \<times> nat \<times> string) semver_api" where
  "sample_semver = \<lparr>
     sv_new = (\<lambda>s. case split_on CHR ''+'' s of
         core # rest \<Rightarrow> (case split_on CHR ''.'' core of
             x # y # _ \<Rightarrow> (case (parse_dec x, parse_dec y) of
                 (Some a, Some b) \<Rightarrow> Ok (a, b, concat rest) | _ \<Rightarrow> Err (EMsg ''Invalid Semantic Version''))
           | _ \<Rightarrow> Err (EMsg ''Invalid Semantic Version''))
       | [] \<Rightarrow> Err (EMsg ''Invalid Semantic Version'')),
     sv_less = (\<lambda>(a, b, _) (c, d, _). a < c \<or> a = c \<and> b < d),
     sv_minor = (\<lambda>(a, b, _). word_of_nat b),
     sv_metadata = (\<lambda>(_, _, m). m),
     sv_string = (\<lambda>(a, b, _). show_nat a @ ''.'' @ show_nat b @ ''.0''),
     sv_original = (\<lambda>(a, b, m). show_nat a @ ''.'' @ show_nat b @ m)\<rparr>"

lemma sample_semver_simps [simp]:
  "sv_less sample_semver (a, b, m) (c, d, n) \<longleftrightarrow> a < c \<or> a = c \<and> b < d"
  "sv_minor sample_semver (a, b, m) = word_of_nat b"
  "sv_metadata sample_semver (a, b, m) = m"
  by (simp_all add: sample_semver_def)

lemma digits_no_sep: "list_all is_digit s \<Longrightarrow> \<not> is_digit c \<Longrightarrow> c \<notin> set s"
  by (induction s) auto

lemma sample_semver_new:
  "sv_new sample_semver (show_nat a @ ''.'' @ show_nat b) = Ok (a, b, [])"
proof -
  have dot: "CHR ''.'' \<notin> set (show_nat n)" and plus: "CHR ''+'' \<notin> set (show_nat n)" for n
    by (rule digits_no_sep [OF show_nat_digits], simp add: is_digit_def)+
  have "CHR ''+'' \<notin> set (show_nat a @ ''.'' @ show_nat b)"
    using plus by simp
  then have "split_on CHR ''+'' (show_nat a @ ''.'' @ show_nat b) = [show_nat a @ ''.'' @ show_nat b]"
    by (rule split_on_word)
  moreover have "split_on CHR ''.'' (show_nat a @ CHR ''.'' # show_nat b) = [show_nat a, show_nat b]"
    using dot by (simp add: split_on_append)
  ultimately show ?thesis by (simp add: sample_semver_def)
qed

lemma sample_semver_two_part: "two_part_versions sample_semver (\<lambda>a b. (a, b, []))"
  unfolding two_part_versions_def by (simp only: sample_semver_new sample_semver_simps) simp

definition sample_license :: license where
  "sample_license = \<lparr>is_semver_required = False, channel_id = ''chan''\<rparr>"

definition sample_options :: "string \<Rightarrow> string \<Rightarrow> upgradable_options" where
  "sample_options cur tgt = \<lparr>current_app_version = ''1.0.0'', current_app_sequence = 3,
     current_ec_version = cur, current_app_status = ''ready'', target_app_version = ''1.1.0'',
     target_app_sequence = 7, target_ec_version = tgt,
     opt_license = Some sample_license,
     current_release_is_required = False, required_releases = []\<rparr>"

lemma sample_new_132: "sv_new sample_semver ''2.11.3+k8s-1.32'' = Ok (2, 11, ''k8s-1.32'')"
  by code_simp

lemma sample_new_133: "sv_new sample_semver ''2.12.0+k8s-1.33'' = Ok (2, 12, ''k8s-1.33'')"
  by code_simp

lemma sample_carries:
  "carries_k8s sample_semver ''2.11.3+k8s-1.32'' 1 32"
  "carries_k8s sample_semver ''2.12.0+k8s-1.33'' 1 33"
proof -
  have "''k8s-1.32'' = [] @ ''k8s-'' @ show_nat 1 @ ''.'' @ show_nat 32 @ []"
    "''k8s-1.33'' = [] @ ''k8s-'' @ show_nat 1 @ ''.'' @ show_nat 33 @ []"
    by code_simp+
  with sample_new_132 sample_new_133
  show "carries_k8s sample_semver ''2.11.3+k8s-1.32'' 1 32"
    "carries_k8s sample_semver ''2.12.0+k8s-1.33'' 1 33"
    unfolding carries_k8s_def sample_new_132 sample_new_133
    by (metis sample_semver_simps(3) empty_iff list.set(1))+
qed

text \<open>
  C7: the upgrade gate accepts a release exactly when the app is not downgraded (by semver, or by
  channel sequence), the current release is not a required one that failed, no required release is
  skipped, the EC version is not downgraded, and the Kubernetes version carried by the target's
  build metadata is the current one or one minor later. A larger Kubernetes major passes
  whenever its minor is at most one more: the skip check compares minors only.
\<close>

theorem upgrade_gate_accepts_iff:
  assumes "two_part_versions sv mk"
    and "opt_license opts = Some lic"
    and "carries_k8s sv (current_ec_version opts) a b" "carries_k8s sv (target_ec_version opts) c d"
    and "a < 2 ^ 64" "b + 1 < 2 ^ 64" "c < 2 ^ 64" "d < 2 ^ 64"
  shows "validate_is_release_upgradable sv opts = Ok () \<longleftrightarrow>
    (if is_semver_required lic
     then \<exists>u v. sv_new sv (current_app_version opts) = Ok u \<and> sv_new sv (target_app_version opts) = Ok v
            \<and> \<not> sv_less sv v u
     else current_app_sequence opts \<le>s target_app_sequence opts) \<and>
    \<not> (current_app_status opts = ''failed'' \<and> current_release_is_required opts) \<and>
    required_releases opts = [] \<and>
    (\<exists>u v. sv_new sv (current_ec_version opts) = Ok u \<and> sv_new sv (target_ec_version opts) = Ok v
            \<and> \<not> sv_less sv v u) \<and>
    (c = a \<and> (d = b \<or> d = b + 1) \<or> a < c \<and> d \<le> b + 1)"
proof -
  have "validate_k8s_version sv opts = Ok () \<longleftrightarrow> (c = a \<and> (d = b \<or> d = b + 1) \<or> a < c \<and> d \<le> b + 1)"
    using validate_k8s_version_carried [OF assms(1,3,4,5,6,7,8)] by auto
  then show ?thesis
    using assms(2) by (auto simp: upgrade_gate_defs not_le word_sle_eq word_sless_alt split: if_splits)
qed

theorem upgrade_gate_accepts_iff_witness:
  "validate_is_release_upgradable sample_semver
     (sample_options ''2.11.3+k8s-1.32'' ''2.12.0+k8s-1.33'') = Ok ()"
proof (rule upgrade_gate_accepts_iff [OF sample_semver_two_part, where lic = sample_license, THEN iffD2])
  let ?opts = "sample_options ''2.11.3+k8s-1.32'' ''2.12.0+k8s-1.33''"
  show "carries_k8s sample_semver (current_ec_version ?opts) 1 32"
    "carries_k8s sample_semver (target_ec_version ?opts) 1 33"
    using sample_carries by (simp_all add: sample_options_def)
qed (simp_all add: sample_options_def sample_license_def sample_new_132 sample_new_133 word_sle_eq)

text \<open>
  When every version involved parses, the gate does not panic and whatever it rejects, it
  rejects with a \<open>ValidationError\<close> (the class the callers show to the user as a business rule,
  as opposed to an internal error).
\<close>

theorem upgrade_gate_errors_are_validation:
  assumes "opt_license opts = Some lic"
    and "is_semver_required lic \<Longrightarrow> sv_new sv (current_app_version opts) = Ok u \<and> sv_new sv (target_app_version opts) = Ok v"
    and "sv_new sv (current_ec_version opts) = Ok cur" "sv_new sv (target_ec_version opts) = Ok tgt"
    and "get_k8s_version sv (current_ec_version opts) = Ok kc" "get_k8s_version sv (target_ec_version opts) = Ok kt"
  shows "validate_is_release_upgradable sv opts = Ok () \<or>
    (\<exists>e. validate_is_release_upgradable sv opts = Err e \<and> is_validation e)"
proof -
  have "validate_app_version_downgrade sv opts \<in> {Ok (), Err (new_app_version_downgrade_error
      (current_app_version opts) (target_app_version opts))}"
    using assms(1,2) by (cases "is_semver_required lic") (simp_all add: validate_app_version_downgrade_def)
  then show ?thesis
    using assms(3-) by (auto simp: validate_is_release_upgradable_def validate_required_releases_def
        validate_ec_version_downgrade_def validate_k8s_version_def validation_error_defs)
qed

theorem upgrade_gate_errors_are_validation_witness:
  "validate_is_release_upgradable sample_semver (sample_options ''2.12.0+k8s-1.33'' ''2.11.3+k8s-1.32'') = Ok () \<or>
   (\<exists>e. validate_is_release_upgradable sample_semver
      (sample_options ''2.12.0+k8s-1.33'' ''2.11.3+k8s-1.32'') = Err e \<and> is_validation e)"
proof (rule upgrade_gate_errors_are_validation [where lic = sample_license])
  let ?opts = "sample_options ''2.12.0+k8s-1.33'' ''2.11.3+k8s-1.32''"
  show "get_k8s_version sample_semver (current_ec_version ?opts) = Ok (1, 33, [])"
    "get_k8s_version sample_semver (target_ec_version ?opts) = Ok (1, 32, [])"
    using get_k8s_version_carried [OF sample_semver_two_part sample_carries(1)]
      get_k8s_version_carried [OF sample_semver_two_part sample_carries(2)]
    by (simp_all add: sample_options_def)
qed (simp_all add: sample_options_def sample_license_def sample_new_132 sample_new_133)

text \<open>
  C38: the two ways of finding the required releases agree. On a channel history in ascending order
  that starts at the current release, the airgap path (which reads the required releases of the
  bundle newest first, down to the current one) marks the current release exactly when the online
  path does and collects the same intermediate versions in reverse order, whatever older releases
  follow in the bundle.
\<close>

theorem airgap_and_online_required_releases_agree:
  assumes "required_releases opts = []" "\<not> current_release_is_required opts"
    and "sorted_wrt (\<lambda>r s. channel_sequence r <s channel_sequence s) history"
    and "\<forall>r \<in> set history. current_app_sequence opts \<le>s channel_sequence r"
    and "\<forall>r \<in> set history. parse_int64 (cursor r) = Some (channel_sequence r)"
    and "\<forall>r \<in> set older. \<exists>s. parse_int64 (update_cursor r) = Some s \<and> s <s current_app_sequence opts"
  shows "\<exists>opts'. with_airgap_required_releases (Some \<lparr>airgap_info = Some
      (map (\<lambda>r. \<lparr>update_cursor = cursor r, ar_version_label = version_label r\<rparr>)
         (rev (filter is_required (takeWhile (\<lambda>r. channel_sequence r \<noteq> target_app_sequence opts) history)))
       @ older)\<rparr>) opts = (Ok (), opts') \<and>
    required_releases opts' = rev (required_releases (handle_pending_releases history opts)) \<and>
    current_release_is_required opts' = current_release_is_required (handle_pending_releases history opts)"
proof -
  define before where "before = takeWhile (\<lambda>r. channel_sequence r \<noteq> target_app_sequence opts) history"
  define mk where "mk = (\<lambda>r. \<lparr>update_cursor = cursor r, ar_version_label = version_label r\<rparr>)"
  have sub: "set before \<subseteq> set history" unfolding before_def by (auto dest: set_takeWhileD)
  have sorted: "sorted_wrt (\<lambda>r s. channel_sequence r <s channel_sequence s) before"
    using assms(3) unfolding before_def by (metis sorted_wrt_append takeWhile_dropWhile_id)
  let ?req = "filter is_required before"
  have online: "required_releases (handle_pending_releases history opts) =
      map version_label (filter (\<lambda>r. channel_sequence r \<noteq> current_app_sequence opts) ?req)"
    "current_release_is_required (handle_pending_releases history opts) \<longleftrightarrow>
      (\<exists>r \<in> set ?req. channel_sequence r = current_app_sequence opts)"
    using assms(1,2) by (auto simp: handle_pending_releases_spec Let_def before_def [symmetric]
        conj_commute intro!: arg_cong [where f = "map version_label"] filter_cong)
  have newer: "\<forall>r \<in> set (map mk (rev rs)). \<exists>s. parse_int64 (update_cursor r) = Some s \<and> current_app_sequence opts <s s"
    if "set rs \<subseteq> set before" "\<forall>r \<in> set rs. channel_sequence r \<noteq> current_app_sequence opts" for rs
    using that sub assms(4,5) by (auto simp: mk_def word_sless_alt word_sle_eq order_less_le)
      (metis signed_word_eqI subsetD)+
  show ?thesis
  proof (cases "\<exists>r \<in> set ?req. channel_sequence r = current_app_sequence opts")
    case False
    then have "airgap_loop (map mk (rev ?req) @ older) opts =
        airgap_loop older (opts\<lparr>required_releases := required_releases opts @ map ar_version_label (map mk (rev ?req))\<rparr>)"
      by (intro airgap_loop_newer newer) auto
    also have "\<dots> = (Ok (), opts\<lparr>required_releases := required_releases opts @ map ar_version_label (map mk (rev ?req))\<rparr>)"
      using assms(6) by (intro airgap_loop_older) simp
    finally have airgap: "airgap_loop (map mk (rev ?req) @ older) opts =
        (Ok (), opts\<lparr>required_releases := map version_label (rev ?req)\<rparr>)"
      using assms(1) by (simp add: mk_def o_def)
    have "filter (\<lambda>r. channel_sequence r \<noteq> current_app_sequence opts) ?req = ?req"
      using False by (intro filter_True) auto
    with airgap online False assms(1,2) show ?thesis
      unfolding before_def [symmetric] mk_def [symmetric]
      by (simp only: with_airgap_required_releases_def) (simp add: rev_map)
  next
    case True
    then obtain c rest where req: "?req = c # rest" and c: "channel_sequence c = current_app_sequence opts"
      and rest: "\<forall>r \<in> set rest. channel_sequence r \<noteq> current_app_sequence opts"
    proof (cases ?req)
      case (Cons c rest)
      have "sorted_wrt (\<lambda>r s. channel_sequence r <s channel_sequence s) (c # rest)"
        unfolding Cons [symmetric] by (rule sorted_wrt_filter [OF sorted])
      moreover have "current_app_sequence opts \<le>s channel_sequence c"
      proof -
        have "set (c # rest) \<subseteq> set before" unfolding Cons [symmetric] by auto
        with sub assms(4) show ?thesis by auto
      qed
      ultimately have "\<forall>r \<in> set rest. channel_sequence r \<noteq> current_app_sequence opts"
        by (auto simp: word_sless_alt word_sle_eq)
      with True Cons that [of c rest] show thesis by auto
    qed (use True in simp)
    have "set (c # rest) \<subseteq> set before" unfolding req [symmetric] by auto
    with sub have "set rest \<subseteq> set before" "c \<in> set history" by auto
    then have "airgap_loop (map mk (rev rest) @ mk c # older) opts = airgap_loop (mk c # older)
        (opts\<lparr>required_releases := required_releases opts @ map ar_version_label (map mk (rev rest))\<rparr>)"
      by (intro airgap_loop_newer newer) (use rest in auto)
    then show ?thesis
      using online req rest c assms(1,5) \<open>c \<in> set history\<close>
      by (simp add: with_airgap_required_releases_def mk_def before_def [symmetric] rev_map o_def
          filter_id_conv [THEN iffD2])
  qed
qed

definition sample_history :: "channel_release list" where
  "sample_history =
     [\<lparr>channel_sequence = 3, is_required = True, version_label = ''1.0.0''\<rparr>,
      \<lparr>channel_sequence = 5, is_required = True, version_label = ''1.0.1''\<rparr>,
      \<lparr>channel_sequence = 6, is_required = False, version_label = ''1.0.2''\<rparr>,
      \<lparr>channel_sequence = 7, is_required = True, version_label = ''1.1.0''\<rparr>]"

definition sample_older :: "airgap_release list" where
  "sample_older = [\<lparr>update_cursor = ''2'', ar_version_label = ''0.9.0''\<rparr>]"

text \<open>The cursor of a release is the decimal text of its sequence.\<close>

definition sample_cursor :: "channel_release \<Rightarrow> string" where
  "sample_cursor r = (if channel_sequence r = 3 then ''3'' else if channel_sequence r = 5 then ''5''
     else if channel_sequence r = 6 then ''6'' else ''7'')"

lemma sample_cursors:
  "parse_int64 ''2'' = Some 2" "parse_int64 ''3'' = Some 3" "parse_int64 ''5'' = Some 5"
  "parse_int64 ''6'' = Some 6" "parse_int64 ''7'' = Some 7"
  by (simp_all add: parse_int64_def parse_dec_def is_digit_def digit_val_def)

theorem airgap_and_online_required_releases_agree_witness:
  "\<exists>opts'. with_airgap_required_releases (Some \<lparr>airgap_info = Some
      (map (\<lambda>r. \<lparr>update_cursor = sample_cursor r, ar_version_label = version_label r\<rparr>)
         (rev (filter is_required (takeWhile (\<lambda>r. channel_sequence r \<noteq> target_app_sequence (sample_options [] [])) sample_history)))
       @ sample_older)\<rparr>) (sample_options [] []) = (Ok (), opts') \<and>
    required_releases opts' = rev (required_releases (handle_pending_releases sample_history (sample_options [] []))) \<and>
    current_release_is_required opts' = current_release_is_required (handle_pending_releases sample_history (sample_options [] []))"
proof (rule airgap_and_online_required_releases_agree)
  show "\<forall>r \<in> set sample_history. parse_int64 (sample_cursor r) = Some (channel_sequence r)"
    by (simp add: sample_history_def sample_cursor_def sample_cursors)
  show "\<forall>r \<in> set sample_older. \<exists>s. parse_int64 (update_cursor r) = Some s \<and> s <s current_app_sequence (sample_options [] [])"
    by (simp add: sample_cursors sample_older_def sample_options_def word_sless_alt)
qed (simp_all add: sample_options_def sample_history_def word_sless_alt word_sle_eq)

end
