(* ===== verification/Installation.thy ===== *)
theory Installation
  imports Prelude "HOL-Library.Word"
begin

text \<open>
  The Installation object (\<^verbatim>\<open>kinds/apis/v1beta1\<close>): its specification and status with the
  fields the modelled code reads, the migration that decoding an old specification performs, the
  status operations, the runtime configuration with its defaults
  (\<^verbatim>\<open>pkg/runtimeconfig\<close>) and the domains (\<^verbatim>\<open>pkg-new/domains\<close>).

  A Go \<open>int\<close> (ports, orders) is an HOL \<open>int\<close>: the code only compares and stores them.
  \<open>metav1.ConditionStatus\<close> is a string, the empty one when a condition is absent.
\<close>

section \<open>Data\<close>

record proxy_spec =
  http_proxy :: string
  https_proxy :: string
  provided_no_proxy :: string
  no_proxy :: string

record network_spec =
  network_interface :: string
  global_cidr :: string
  pod_cidr :: string
  service_cidr :: string
  node_port_range :: string

record runtime_config_spec =
  data_dir :: string
  k0s_data_dir_override :: string
  openebs_data_dir_override :: string
  host_ca_bundle_path :: string
  rc_proxy :: "proxy_spec option"
  rc_network :: network_spec
  admin_console_port :: int
  local_artifact_mirror_port :: int
  manager_port :: int

record chart =
  chart_release :: string
  chart_name :: string
  chart_version :: string
  chart_values :: string
  target_ns :: string
  chart_timeout :: int
  force_upgrade :: "bool option"
  chart_order :: int

record repository =
  repo_name :: string
  repo_url :: string
  repo_username :: string
  repo_password :: string
  repo_cert_file :: string
  repo_key_file :: string
  repo_ca_file :: string
  repo_insecure :: "bool option"

record helm_extensions =
  helm_repositories :: "repository list"
  helm_charts :: "chart list"

record built_in_extension =
  bi_name :: string
  bi_values :: string

record domains =
  replicated_app_domain :: string
  proxy_registry_domain :: string
  replicated_registry_domain :: string

record node_count =
  nc_values :: "int list"
  nc_range :: "(int option \<times> int option) option"

record node_role =
  role_name :: string
  role_description :: string
  role_node_count :: "node_count option"
  role_labels :: "(string \<times> string) list"

record velero_plugin =
  vp_name :: string
  vp_image :: string
  vp_pull_policy :: string

record config_spec =
  ec_version :: string
  binary_override_url :: string
  metadata_override_url :: string
  controller_role :: node_role
  custom_roles :: "node_role list"
  overrides_k0s :: string
  built_in_extensions :: "built_in_extension list"
  ext_helm :: "helm_extensions option"
  velero_plugins :: "velero_plugin list"
  spec_domains :: domains

record release_metadata =
  rm_versions :: "(string \<times> string) list"
  rm_k0s_sha :: string
  rm_k0s_binary_url :: string
  rm_artifacts :: "(string \<times> string) list"
  rm_images :: "string list option"
  rm_configs :: helm_extensions

record artifacts_location =
  art_images :: string
  art_helm_charts :: string
  art_binary :: string
  art_metadata :: string
  art_additional :: "(string \<times> string) list"

record license_info =
  is_dr_supported :: bool
  is_multi_node_enabled :: bool

record config_secret =
  cs_name :: string
  cs_namespace :: string

record installation_spec =
  cluster_id :: string
  metrics_base_url :: string
  spec_artifacts :: "artifacts_location option"
  spec_config :: "config_spec option"
  binary_name :: string
  spec_license_info :: "license_info option"
  spec_config_secret :: "config_secret option"
  source_type :: string
  runtime_config :: "runtime_config_spec option"
  high_availability :: bool
  air_gap :: bool
  airgap_uncompressed_size :: "64 word"
  k0s_image_size :: "64 word"
  end_user_k0s_overrides :: string
  deprecated_proxy :: "proxy_spec option"
  deprecated_network :: "network_spec option"
  deprecated_admin_console :: "int option"
  deprecated_local_artifact_mirror :: "int option"

record condition =
  cond_type :: string
  cond_status :: string
  cond_reason :: string
  cond_message :: string

record node_status =
  ns_name :: string
  ns_hash :: string

record installation_status =
  nodes_status :: "node_status list"
  in_state :: string
  in_reason :: string
  pending_charts :: "string list"
  conditions :: "condition list"

record installation =
  in_name :: string
  in_labels :: "(string \<times> string) list"
  in_spec :: installation_spec
  in_status :: installation_status

section \<open>States\<close>

definition InstallationStateWaiting :: string where "InstallationStateWaiting = ''Waiting''"
definition InstallationStateCopyingArtifacts :: string where "InstallationStateCopyingArtifacts = ''CopyingArtifacts''"
definition InstallationStateEnqueued :: string where "InstallationStateEnqueued = ''Enqueued''"
definition InstallationStateInstalling :: string where "InstallationStateInstalling = ''Installing''"
definition InstallationStateInstalled :: string where "InstallationStateInstalled = ''Installed''"
definition InstallationStateKubernetesInstalled :: string where "InstallationStateKubernetesInstalled = ''KubernetesInstalled''"
definition InstallationStateAddonsInstalling :: string where "InstallationStateAddonsInstalling = ''AddonsInstalling''"
definition InstallationStateAddonsInstalled :: string where "InstallationStateAddonsInstalled = ''AddonsInstalled''"
definition InstallationStateHelmChartUpdateFailure :: string where "InstallationStateHelmChartUpdateFailure = ''HelmChartUpdateFailure''"
definition InstallationStateObsolete :: string where "InstallationStateObsolete = ''Obsolete''"
definition InstallationStateFailed :: string where "InstallationStateFailed = ''Failed''"
definition InstallationStateUnknown :: string where "InstallationStateUnknown = ''Unknown''"
definition InstallationStatePendingChartCreation :: string where "InstallationStatePendingChartCreation = ''PendingChartCreation''"

lemmas state_defs [simp] = InstallationStateWaiting_def InstallationStateCopyingArtifacts_def
  InstallationStateEnqueued_def InstallationStateInstalling_def InstallationStateInstalled_def
  InstallationStateKubernetesInstalled_def InstallationStateAddonsInstalling_def
  InstallationStateAddonsInstalled_def InstallationStateHelmChartUpdateFailure_def
  InstallationStateObsolete_def InstallationStateFailed_def InstallationStateUnknown_def
  InstallationStatePendingChartCreation_def

section \<open>Status\<close>

definition set_state :: "string \<Rightarrow> string \<Rightarrow> string list \<Rightarrow> installation_status \<Rightarrow> installation_status" where
  "set_state state reason pending s = s\<lparr>in_state := state, in_reason := reason, pending_charts := pending\<rparr>"

text \<open>
  \<open>meta.SetStatusCondition\<close> of apimachinery is the parameter \<open>setc\<close>; its documented
  contract, on the field the code reads back, is \<open>sets_condition\<close> below.
\<close>

type_synonym set_condition_fun = "condition list \<Rightarrow> condition \<Rightarrow> condition list"

definition set_condition :: "set_condition_fun \<Rightarrow> condition \<Rightarrow> installation_status \<Rightarrow> installation_status" where
  "set_condition setc c s = s\<lparr>conditions := setc (conditions s) c\<rparr>"

fun find_condition_status :: "condition list \<Rightarrow> string \<Rightarrow> string" where
  "find_condition_status [] t = ''''"
| "find_condition_status (c # cs) t = (if cond_type c = t then cond_status c else find_condition_status cs t)"

definition check_installation_condition_status :: "installation_status \<Rightarrow> string \<Rightarrow> string" where
  "check_installation_condition_status s t = find_condition_status (conditions s) t"

definition sets_condition :: "set_condition_fun \<Rightarrow> bool" where
  "sets_condition setc \<longleftrightarrow> (\<forall>cs c t. find_condition_status (setc cs c) t =
     (if t = cond_type c then cond_status c else find_condition_status cs t))"

definition get_kubernetes_installed :: "installation_status \<Rightarrow> bool" where
  "get_kubernetes_installed s \<longleftrightarrow>
     in_state s = InstallationStateInstalled \<or>
     in_state s = InstallationStateKubernetesInstalled \<or>
     in_state s = InstallationStateAddonsInstalling \<or>
     in_state s = InstallationStatePendingChartCreation \<or>
     in_state s = InstallationStateHelmChartUpdateFailure"

section \<open>Runtime configuration\<close>

definition empty_network :: network_spec where
  "empty_network = \<lparr>network_interface = [], global_cidr = [], pod_cidr = [], service_cidr = [], node_port_range = []\<rparr>"

definition empty_proxy :: proxy_spec where
  "empty_proxy = \<lparr>http_proxy = [], https_proxy = [], provided_no_proxy = [], no_proxy = []\<rparr>"

definition empty_runtime_config :: runtime_config_spec where
  "empty_runtime_config = \<lparr>data_dir = [], k0s_data_dir_override = [], openebs_data_dir_override = [],
     host_ca_bundle_path = [], rc_proxy = None, rc_network = empty_network, admin_console_port = 0,
     local_artifact_mirror_port = 0, manager_port = 0\<rparr>"

definition default_data_dir :: string where "default_data_dir = ''/var/lib/embedded-cluster''"
definition default_admin_console_port :: int where "default_admin_console_port = 30000"
definition default_local_artifact_mirror_port :: int where "default_local_artifact_mirror_port = 50000"
definition default_network_cidr :: string where "default_network_cidr = ''10.244.0.0/16''"
definition default_node_port_range :: string where "default_node_port_range = ''80-32767''"
definition default_manager_port :: int where "default_manager_port = 30080"

definition network_spec_set_defaults :: "network_spec \<Rightarrow> network_spec" where
  "network_spec_set_defaults s =
     (let s1 = (if global_cidr s = [] then s\<lparr>global_cidr := default_network_cidr\<rparr> else s)
      in if node_port_range s1 = [] then s1\<lparr>node_port_range := default_node_port_range\<rparr> else s1)"

definition runtime_config_set_defaults :: "runtime_config_spec \<Rightarrow> runtime_config_spec" where
  "runtime_config_set_defaults c =
     c\<lparr>data_dir := (if data_dir c = [] then default_data_dir else data_dir c),
       rc_network := network_spec_set_defaults (rc_network c),
       admin_console_port := (if admin_console_port c = 0 then default_admin_console_port else admin_console_port c),
       local_artifact_mirror_port :=
         (if local_artifact_mirror_port c = 0 then default_local_artifact_mirror_port else local_artifact_mirror_port c),
       manager_port := (if manager_port c = 0 then default_manager_port else manager_port c)\<rparr>"

definition get_default_runtime_config :: runtime_config_spec where
  "get_default_runtime_config = runtime_config_set_defaults empty_runtime_config"

definition rc_new :: "runtime_config_spec option \<Rightarrow> runtime_config_spec" where
  "rc_new spec = (case spec of None \<Rightarrow> get_default_runtime_config | Some s \<Rightarrow> s)"

definition rc_set :: "runtime_config_spec option \<Rightarrow> runtime_config_spec \<Rightarrow> runtime_config_spec" where
  "rc_set spec rc = (case spec of None \<Rightarrow> rc | Some s \<Rightarrow> s)"

definition ec_home_directory :: "runtime_config_spec \<Rightarrow> string" where
  "ec_home_directory rc = (if data_dir rc \<noteq> [] then data_dir rc else default_data_dir)"

definition ec_charts_sub_dir_no_create :: "runtime_config_spec \<Rightarrow> string" where
  "ec_charts_sub_dir_no_create rc = path_join (ec_home_directory rc) ''charts''"

definition ec_k0s_sub_dir :: "runtime_config_spec \<Rightarrow> string" where
  "ec_k0s_sub_dir rc = (if k0s_data_dir_override rc \<noteq> [] then k0s_data_dir_override rc
     else path_join (ec_home_directory rc) ''k0s'')"

definition ec_seaweedfs_sub_dir :: "runtime_config_spec \<Rightarrow> string" where
  "ec_seaweedfs_sub_dir rc = path_join (ec_home_directory rc) ''seaweedfs''"

definition ec_openebs_local_sub_dir :: "runtime_config_spec \<Rightarrow> string" where
  "ec_openebs_local_sub_dir rc = (if openebs_data_dir_override rc \<noteq> [] then openebs_data_dir_override rc
     else path_join (ec_home_directory rc) ''openebs-local'')"

definition path_to_kube_config :: "runtime_config_spec \<Rightarrow> string" where
  "path_to_kube_config rc = path_join (ec_k0s_sub_dir rc) ''pki/admin.conf''"

definition path_to_kubelet_config :: "runtime_config_spec \<Rightarrow> string" where
  "path_to_kubelet_config rc = path_join (ec_k0s_sub_dir rc) ''kubelet.conf''"

definition rc_local_artifact_mirror_port :: "runtime_config_spec \<Rightarrow> int" where
  "rc_local_artifact_mirror_port rc =
     (if 0 < local_artifact_mirror_port rc then local_artifact_mirror_port rc else default_local_artifact_mirror_port)"

definition rc_admin_console_port :: "runtime_config_spec \<Rightarrow> int" where
  "rc_admin_console_port rc =
     (if 0 < admin_console_port rc then admin_console_port rc else default_admin_console_port)"

definition rc_manager_port :: "runtime_config_spec \<Rightarrow> int" where
  "rc_manager_port rc = (if 0 < manager_port rc then manager_port rc else default_manager_port)"

definition rc_global_cidr :: "runtime_config_spec \<Rightarrow> string" where
  "rc_global_cidr rc =
     (if global_cidr (rc_network rc) = [] \<and> pod_cidr (rc_network rc) = [] \<and> service_cidr (rc_network rc) = []
      then default_network_cidr else global_cidr (rc_network rc))"

definition rc_node_port_range :: "runtime_config_spec \<Rightarrow> string" where
  "rc_node_port_range rc =
     (if node_port_range (rc_network rc) = [] then default_node_port_range else node_port_range (rc_network rc))"

section \<open>Decoding an old specification\<close>

text \<open>
  \<open>InstallationSpec.UnmarshalJSON\<close>: after \<open>encoding/json\<close> has filled the fields (the parameter
  \<open>decode\<close>), the deprecated top-level settings move into the runtime configuration.
\<close>

definition rc_or_empty :: "installation_spec \<Rightarrow> runtime_config_spec" where
  "rc_or_empty i = (case runtime_config i of None \<Rightarrow> empty_runtime_config | Some c \<Rightarrow> c)"

definition nonempty_or :: "string \<Rightarrow> string \<Rightarrow> string" where
  "nonempty_or s d = (if s \<noteq> [] then s else d)"

definition migrate_proxy :: "installation_spec \<Rightarrow> installation_spec" where
  "migrate_proxy i =
     (case deprecated_proxy i of
        None \<Rightarrow> i
      | Some p \<Rightarrow>
          let rc = rc_or_empty i;
              pr = (case rc_proxy rc of None \<Rightarrow> empty_proxy | Some q \<Rightarrow> q)
          in i\<lparr>runtime_config := Some (rc\<lparr>rc_proxy := Some (pr\<lparr>
                 http_proxy := nonempty_or (http_proxy p) (http_proxy pr),
                 https_proxy := nonempty_or (https_proxy p) (https_proxy pr),
                 no_proxy := nonempty_or (no_proxy p) (no_proxy pr)\<rparr>)\<rparr>)\<rparr>)"

definition migrate_network :: "installation_spec \<Rightarrow> installation_spec" where
  "migrate_network i =
     (case deprecated_network i of
        None \<Rightarrow> i
      | Some n \<Rightarrow>
          let rc = rc_or_empty i; net = rc_network rc
          in i\<lparr>runtime_config := Some (rc\<lparr>rc_network := net\<lparr>
                 pod_cidr := nonempty_or (pod_cidr n) (pod_cidr net),
                 service_cidr := nonempty_or (service_cidr n) (service_cidr net),
                 node_port_range := nonempty_or (node_port_range n) (node_port_range net)\<rparr>\<rparr>)\<rparr>)"

definition migrate_admin_console :: "installation_spec \<Rightarrow> installation_spec" where
  "migrate_admin_console i =
     (case deprecated_admin_console i of
        None \<Rightarrow> i
      | Some port \<Rightarrow>
          if 0 < port then
            let rc = rc_or_empty i
            in i\<lparr>runtime_config := Some (if admin_console_port rc = 0 then rc\<lparr>admin_console_port := port\<rparr> else rc)\<rparr>
          else i)"

definition migrate_local_artifact_mirror :: "installation_spec \<Rightarrow> installation_spec" where
  "migrate_local_artifact_mirror i =
     (case deprecated_local_artifact_mirror i of
        None \<Rightarrow> i
      | Some port \<Rightarrow>
          if 0 < port then
            let rc = rc_or_empty i
            in i\<lparr>runtime_config := Some
                 (if local_artifact_mirror_port rc = 0 then rc\<lparr>local_artifact_mirror_port := port\<rparr> else rc)\<rparr>
          else i)"

definition migrate_spec :: "installation_spec \<Rightarrow> installation_spec" where
  "migrate_spec i =
     migrate_local_artifact_mirror (migrate_admin_console (migrate_network (migrate_proxy
       (if source_type i = [] then i\<lparr>source_type := ''CRD''\<rparr> else i))))"

definition unmarshal_installation_spec ::
    "('d \<Rightarrow> installation_spec outcome) \<Rightarrow> 'd \<Rightarrow> installation_spec outcome" where
  "unmarshal_installation_spec decode data = bindO (decode data) (\<lambda>i. Ok (migrate_spec i))"

definition parse_config_spec_from_secret ::
    "(string \<Rightarrow> config_spec outcome) \<Rightarrow> (string \<Rightarrow> string option) \<Rightarrow> string \<Rightarrow> string \<Rightarrow>
      installation_spec \<Rightarrow> installation_spec outcome" where
  "parse_config_spec_from_secret unmarshal data namespace name i =
     (case data ''config.yaml'' of
        None \<Rightarrow> Err (EMsg (''entry config.yaml not found in secret '' @ namespace @ ''/'' @ name))
      | Some d \<Rightarrow> bindO (wrapO ''failed to parse config from secret'' (unmarshal d))
                    (\<lambda>config. Ok (i\<lparr>spec_config := Some config\<rparr>)))"

lemmas migrate_defs = migrate_spec_def migrate_proxy_def migrate_network_def
  migrate_admin_console_def migrate_local_artifact_mirror_def rc_or_empty_def nonempty_or_def Let_def

section \<open>Configuration and domains\<close>

fun override_for_built_in :: "built_in_extension list \<Rightarrow> string \<Rightarrow> string" where
  "override_for_built_in [] bi = []"
| "override_for_built_in (e # es) bi = (if bi_name e \<noteq> bi then override_for_built_in es bi else bi_values e)"

definition get_domains :: "config_spec option \<Rightarrow> domains option \<Rightarrow> domains" where
  "get_domains cfgspec rel =
     (let pick = (\<lambda>(field :: domains \<Rightarrow> string) d.
            let d1 = (case rel of None \<Rightarrow> d | Some r \<Rightarrow> nonempty_or (field r) d)
            in (case cfgspec of None \<Rightarrow> d1 | Some c \<Rightarrow> nonempty_or (field (spec_domains c)) d1))
      in \<lparr>replicated_app_domain = pick replicated_app_domain ''replicated.app'',
          proxy_registry_domain = pick proxy_registry_domain ''proxy.replicated.com'',
          replicated_registry_domain = pick replicated_registry_domain ''registry.replicated.com''\<rparr>)"

section \<open>What each step of the migration does\<close>

lemma migrate_idem:
  "migrate_proxy (migrate_proxy i) = migrate_proxy i"
  "migrate_network (migrate_network i) = migrate_network i"
  "migrate_admin_console (migrate_admin_console i) = migrate_admin_console i"
  "migrate_local_artifact_mirror (migrate_local_artifact_mirror i) = migrate_local_artifact_mirror i"
  by (auto simp: migrate_defs split: option.splits if_splits)

lemma migrate_commute:
  "migrate_proxy (migrate_network i) = migrate_network (migrate_proxy i)"
  "migrate_proxy (migrate_admin_console i) = migrate_admin_console (migrate_proxy i)"
  "migrate_proxy (migrate_local_artifact_mirror i) = migrate_local_artifact_mirror (migrate_proxy i)"
  "migrate_network (migrate_admin_console i) = migrate_admin_console (migrate_network i)"
  "migrate_network (migrate_local_artifact_mirror i) = migrate_local_artifact_mirror (migrate_network i)"
  "migrate_admin_console (migrate_local_artifact_mirror i) = migrate_local_artifact_mirror (migrate_admin_console i)"
  by (auto simp: migrate_defs split: option.splits if_splits)

lemma migrate_frame [simp]:
  "source_type (migrate_proxy i) = source_type i" "source_type (migrate_network i) = source_type i"
  "source_type (migrate_admin_console i) = source_type i"
  "source_type (migrate_local_artifact_mirror i) = source_type i"
  "deprecated_network (migrate_proxy i) = deprecated_network i"
  "deprecated_admin_console (migrate_proxy i) = deprecated_admin_console i"
  "deprecated_admin_console (migrate_network i) = deprecated_admin_console i"
  "deprecated_local_artifact_mirror (migrate_proxy i) = deprecated_local_artifact_mirror i"
  "deprecated_local_artifact_mirror (migrate_network i) = deprecated_local_artifact_mirror i"
  "deprecated_local_artifact_mirror (migrate_admin_console i) = deprecated_local_artifact_mirror i"
  by (simp_all add: migrate_defs split: option.splits)

lemma migrate_rc_proxy [simp]:
  "rc_proxy (rc_or_empty (migrate_network i)) = rc_proxy (rc_or_empty i)"
  "rc_proxy (rc_or_empty (migrate_admin_console i)) = rc_proxy (rc_or_empty i)"
  "rc_proxy (rc_or_empty (migrate_local_artifact_mirror i)) = rc_proxy (rc_or_empty i)"
  by (simp_all add: migrate_defs split: option.splits)

lemma migrate_rc_network [simp]:
  "rc_network (rc_or_empty (migrate_proxy i)) = rc_network (rc_or_empty i)"
  "rc_network (rc_or_empty (migrate_admin_console i)) = rc_network (rc_or_empty i)"
  "rc_network (rc_or_empty (migrate_local_artifact_mirror i)) = rc_network (rc_or_empty i)"
  by (simp_all add: migrate_defs split: option.splits)

lemma migrate_rc_ports [simp]:
  "admin_console_port (rc_or_empty (migrate_proxy i)) = admin_console_port (rc_or_empty i)"
  "admin_console_port (rc_or_empty (migrate_network i)) = admin_console_port (rc_or_empty i)"
  "admin_console_port (rc_or_empty (migrate_local_artifact_mirror i)) = admin_console_port (rc_or_empty i)"
  "local_artifact_mirror_port (rc_or_empty (migrate_proxy i)) = local_artifact_mirror_port (rc_or_empty i)"
  "local_artifact_mirror_port (rc_or_empty (migrate_network i)) = local_artifact_mirror_port (rc_or_empty i)"
  "local_artifact_mirror_port (rc_or_empty (migrate_admin_console i)) = local_artifact_mirror_port (rc_or_empty i)"
  by (simp_all add: migrate_defs split: option.splits)

section \<open>Properties\<close>

text \<open>
  Decoding moves every deprecated setting into the runtime configuration: a non-empty old
  proxy or network value wins over the runtime configuration's own, and a positive old port is
  taken when the runtime configuration has none (and only then).
\<close>

theorem migrate_spec_keeps_old_settings:
  "let rc = rc_or_empty (migrate_spec i) in
   (case deprecated_proxy i of None \<Rightarrow> rc_proxy rc = rc_proxy (rc_or_empty i)
      | Some p \<Rightarrow> (case rc_proxy rc of None \<Rightarrow> False | Some q \<Rightarrow>
          http_proxy p \<in> {[], http_proxy q} \<and> https_proxy p \<in> {[], https_proxy q} \<and>
          no_proxy p \<in> {[], no_proxy q})) \<and>
   (case deprecated_network i of None \<Rightarrow> rc_network rc = rc_network (rc_or_empty i)
      | Some n \<Rightarrow> pod_cidr n \<in> {[], pod_cidr (rc_network rc)} \<and>
          service_cidr n \<in> {[], service_cidr (rc_network rc)} \<and>
          node_port_range n \<in> {[], node_port_range (rc_network rc)}) \<and>
   admin_console_port rc = (case deprecated_admin_console i of
        Some port \<Rightarrow> if 0 < port \<and> admin_console_port (rc_or_empty i) = 0 then port
          else admin_console_port (rc_or_empty i)
      | None \<Rightarrow> admin_console_port (rc_or_empty i)) \<and>
   local_artifact_mirror_port rc = (case deprecated_local_artifact_mirror i of
        Some port \<Rightarrow> if 0 < port \<and> local_artifact_mirror_port (rc_or_empty i) = 0 then port
          else local_artifact_mirror_port (rc_or_empty i)
      | None \<Rightarrow> local_artifact_mirror_port (rc_or_empty i))"
proof -
  define rc where "rc = rc_or_empty (migrate_spec i)"
  define j where "j = (if source_type i = [] then i\<lparr>source_type := ''CRD''\<rparr> else i)"
  have j [simp]: "rc_or_empty j = rc_or_empty i" "deprecated_proxy j = deprecated_proxy i"
    "deprecated_network j = deprecated_network i" "deprecated_admin_console j = deprecated_admin_console i"
    "deprecated_local_artifact_mirror j = deprecated_local_artifact_mirror i"
    by (simp_all add: j_def rc_or_empty_def)
  have rc: "rc = rc_or_empty (migrate_local_artifact_mirror (migrate_admin_console
      (migrate_network (migrate_proxy j))))"
    by (simp add: rc_def migrate_spec_def j_def)
  have proxy: "rc_proxy rc = rc_proxy (rc_or_empty (migrate_proxy j))"
    and network: "rc_network rc = rc_network (rc_or_empty (migrate_network (migrate_proxy j)))"
    and admin: "admin_console_port rc =
      admin_console_port (rc_or_empty (migrate_admin_console (migrate_network (migrate_proxy j))))"
    by (simp_all add: rc)
  have *: "rc_or_empty (k\<lparr>runtime_config := Some c\<rparr>) = c" for k c by (simp add: rc_or_empty_def)
  show ?thesis unfolding rc_def [symmetric] Let_def [of rc]
  proof (intro conjI)
    show "case deprecated_proxy i of None \<Rightarrow> rc_proxy rc = rc_proxy (rc_or_empty i)
      | Some p \<Rightarrow> (case rc_proxy rc of None \<Rightarrow> False | Some q \<Rightarrow>
          http_proxy p \<in> {[], http_proxy q} \<and> https_proxy p \<in> {[], https_proxy q} \<and>
          no_proxy p \<in> {[], no_proxy q})"
      unfolding proxy by (simp add: migrate_proxy_def Let_def * nonempty_or_def split: option.splits)
  qed (simp_all add: network admin, simp_all add: rc migrate_network_def migrate_admin_console_def
      migrate_local_artifact_mirror_def Let_def * nonempty_or_def split: option.splits)
qed

text \<open>Decoding a specification that was decoded and stored before changes nothing more.\<close>

theorem migrate_spec_idempotent: "migrate_spec (migrate_spec i) = migrate_spec i"
  by (simp add: migrate_spec_def migrate_idem migrate_commute)

end
