(* ===== verification/Cluster.thy ===== *)
theory Cluster
  imports Installation "HOL-Library.AList"
begin

text \<open>
  The cluster as the modelled code sees it through its Kubernetes and helm clients: the stored
  objects, the effects on the outside (\<open>log\<close>, newest last), and \<open>faults\<close>, the answers the
  clients will give to the next calls. Every call takes the next answer: none left or \<open>NoFault\<close>
  means the call does what it is documented to do on the stored objects, the others make it fail
  (\<open>LostReply\<close> performs the call and then reports an error, as a broken connection does). All
  theorems hold for every sequence of answers, so for every failure of every call.
\<close>

section \<open>State\<close>

datatype fault = NoFault | Conflicting | NoMatching | TooLarge | Failing string | LostReply string

text \<open>Decoded YAML: what a \<open>map[string]interface{}\<close> holds. A map has its keys in some order.\<close>

datatype yaml = YNull | YBool bool | YInt int | YStr string | YList "yaml list" | YMap "(string \<times> yaml) list"

type_synonym helm_values = "(string \<times> yaml) list"

text \<open>The options of a helm install or upgrade; \<open>ho_force\<close> of upgrades only.\<close>

record helm_options =
  ho_release :: string
  ho_chart :: string
  ho_version :: string
  ho_values :: helm_values
  ho_namespace :: string
  ho_timeout :: int
  ho_force :: bool
  ho_labels :: "(string \<times> string) list"
  ho_disable_ssa :: bool

record repo_entry =
  re_name :: string
  re_url :: string
  re_username :: string
  re_password :: string
  re_cert_file :: string
  re_key_file :: string
  re_ca_file :: string
  re_insecure_skip_tls :: bool

text \<open>The key of a namespaced object: its namespace and its name.\<close>

type_synonym nsname = "string \<times> string"

datatype event =
    HelmAddRepo repo_entry
  | HelmInstall helm_options
  | HelmUpgrade helm_options
  | HelmUninstall string string
  | Progress string string
  | PlanCreated string
  | PlanDeleted
  | Notified string string
  | Recorded string string
  | ChartDeleted nsname "string list"

record crd =
  crd_name :: string
  crd_spec :: string
  crd_labels :: "(string \<times> string) list"
  crd_annotations :: "(string \<times> string) list"
  crd_established :: bool
  crd_served :: "bool list"

record node =
  node_name :: string
  node_labels :: "(string \<times> string) list"
  kubelet_version :: string
  node_info :: string
  node_capacity :: string
  node_allocatable :: string
  node_conditions :: "(string \<times> string) list"

text \<open>A deployment or stateful set; no replica count means the default of one.\<close>

record workload =
  wl_replicas :: "int option"
  wl_ready :: int
  wl_containers :: "(string \<times> string list) list"

record daemon_set =
  ds_desired :: int
  ds_ready :: int

record job_object =
  jo_active :: int
  jo_succeeded :: int
  jo_failed :: int
  jo_backoff_limit :: "int option"
  jo_labels :: "(string \<times> string) list"
  jo_annotations :: "(string \<times> string) list"
  jo_image :: string
  jo_pull_policy :: string
  jo_env :: "(string \<times> string) list"
  jo_command :: "string list"
  jo_host_paths :: "(string \<times> string) list"
  jo_node :: string
  jo_conditions :: "condition list"

record pod_object =
  po_phase :: string
  po_labels :: "(string \<times> string) list"
  po_claims :: "string list"

record pvc_object =
  pvc_annotations :: "(string \<times> string) list"
  pvc_volume :: string

record config_map =
  cm_annotations :: "(string \<times> string) list"
  cm_data :: "(string \<times> string) list"

record k0s_update =
  update_version :: string
  update_controllers :: "string list"
  update_workers :: "string list"
  update_url :: string
  update_sha :: string

record airgap_update =
  airgap_version :: string
  airgap_workers :: "string list"
  airgap_url :: string

datatype plan_command = UpdateK0s k0s_update | UpdateAirgap airgap_update

record plan =
  plan_installation :: string
  plan_commands :: "plan_command list"
  plan_state :: string

text \<open>
  k0s's cluster configuration: what the code reads or changes by name, the rest as text. A
  pointer is an option; \<open>cfg_konnectivity\<close> and \<open>net_kube_router\<close> are whether theirs is set;
  \<open>cfg_extensions\<close> has the helm charts k0s manages.
\<close>

record k0s_image =
  ki_image :: string
  ki_version :: string

record k0s_images =
  img_core_dns :: "k0s_image option"
  img_calico_node :: "k0s_image option"
  img_calico_cni :: "k0s_image option"
  img_calico_controllers :: "k0s_image option"
  img_metrics_server :: "k0s_image option"
  img_kube_proxy :: "k0s_image option"
  img_pause :: "k0s_image option"
  img_pull_policy :: string
  img_rest :: string

record k0s_api =
  api_address :: string
  api_extra_args :: "(string \<times> string) list"
  api_sans :: "string list"
  api_rest :: string

record k0s_calico =
  calico_env :: "(string \<times> string) list"
  calico_rest :: string

record k0s_load_balancing =
  nllb_enabled :: bool
  nllb_type :: string
  nllb_envoy :: "k0s_image option option"
  nllb_rest :: string

record k0s_network =
  net_provider :: string
  net_kube_router :: bool
  net_calico :: "k0s_calico option"
  net_kube_proxy_mode :: "string option"
  net_nllb :: "k0s_load_balancing option"
  net_pod_cidr :: string
  net_service_cidr :: string
  net_rest :: string

record k0s_config =
  cfg_name :: string
  cfg_konnectivity :: bool
  cfg_telemetry :: "bool option"
  cfg_api :: "k0s_api option"
  cfg_network :: "k0s_network option"
  cfg_images :: "k0s_images option"
  cfg_storage :: string
  cfg_etcd_peer :: "string option"
  cfg_worker_profiles :: "string list"
  cfg_extensions :: "string list option option"
  cfg_rest :: string

record kube =
  faults :: "fault list"
  installs :: "installation list"
  crds :: "crd list"
  namespaces :: "(string \<times> string) list"
  nodes :: "node list"
  autopilot_plan :: "plan option"
  cluster_cfg :: "k0s_config option"
  deployments :: "(nsname \<times> workload) list"
  stateful_sets :: "(nsname \<times> workload) list"
  daemon_sets :: "(nsname \<times> daemon_set) list"
  services :: "(nsname \<times> string) list"
  job_objects :: "(nsname \<times> job_object) list"
  pod_objects :: "(nsname \<times> pod_object) list"
  pvc_objects :: "(nsname \<times> pvc_object) list"
  pv_objects :: "string list"
  k0s_charts :: "(nsname \<times> string list) list"
  config_maps :: "(nsname \<times> config_map) list"
  secrets :: "(nsname \<times> (string \<times> string) list) list"
  misc_objects :: "(string \<times> nsname) list"
  releases :: "(string \<times> string) list"
  meta_cache :: "(string \<times> release_metadata) list"
  log :: "event list"

text \<open>What the third-party libraries contribute: their documented functions, as parameters.\<close>

record 'v lib =
  lib_semver_new :: "string \<Rightarrow> 'v outcome"
  lib_semver_less :: "'v \<Rightarrow> 'v \<Rightarrow> bool"
  lib_semver_original :: "'v \<Rightarrow> string"
  lib_version115 :: 'v
  lib_set_condition :: set_condition_fun
  lib_retries :: nat
  lib_tick :: "kube \<Rightarrow> kube"

section \<open>Client calls\<close>

definition pop_fault :: "(kube, fault) call" where
  "pop_fault w = (case faults w of [] \<Rightarrow> (Ok NoFault, w) | f # fs \<Rightarrow> (Ok f, w\<lparr>faults := fs\<rparr>))"

definition api :: "(kube, 'a) call \<Rightarrow> (kube, 'a) call" where
  "api body = bind pop_fault (\<lambda>f. case f of
      NoFault \<Rightarrow> body
    | Conflicting \<Rightarrow> throw (EConflict ''the object has been modified'')
    | NoMatching \<Rightarrow> throw (ENoMatch ''no matches for kind'')
    | TooLarge \<Rightarrow> throw (ETooLarge ''request entity too large'')
    | Failing s \<Rightarrow> throw (EApi s)
    | LostReply s \<Rightarrow> bind body (\<lambda>_. throw (EApi s)))"

definition emit :: "event \<Rightarrow> (kube, unit) call" where
  "emit e = modify (\<lambda>w. w\<lparr>log := log w @ [e]\<rparr>)"

text \<open>
  \<open>retry.RetryOnConflict\<close>: the call is made again while it fails with a conflict, at most
  \<open>n\<close> more times; the last error is the result.
\<close>

fun retry_on_conflict :: "nat \<Rightarrow> ('w, 'a) call \<Rightarrow> ('w, 'a) call" where
  "retry_on_conflict 0 m = m"
| "retry_on_conflict (Suc n) m = bind (attempt m) (\<lambda>r. case r of
      Inr x \<Rightarrow> ret x
    | Inl e \<Rightarrow> if is_conflict e then retry_on_conflict n m else throw e)"

text \<open>
  \<open>wait.ExponentialBackoffWithContext\<close> (and the poll functions): the condition is tried at most
  \<open>n\<close> times; between two tries the rest of the system moves (\<open>tick\<close>). The condition carries
  the local variables it assigns (\<open>'s\<close>); \<open>Inl\<close> is running out of tries.
\<close>

fun poll :: "nat \<Rightarrow> ('w \<Rightarrow> 'w) \<Rightarrow> ('s \<Rightarrow> ('w, 's + 'a) call) \<Rightarrow> 's \<Rightarrow> ('w, 's + 'a) call" where
  "poll 0 tick cond s = ret (Inl s)"
| "poll (Suc n) tick cond s = bind (cond s) (\<lambda>r. case r of
      Inr x \<Rightarrow> ret (Inr x)
    | Inl s' \<Rightarrow> if n = 0 then ret (Inl s')
        else bind (modify tick) (\<lambda>_. poll n tick cond s'))"

section \<open>Objects stored by name\<close>

text \<open>
  A store the code reads by key and overwrites by key. What its clients rely on: reading after
  an overwrite gives the new object for that key and the old ones for the others, and nothing
  appears or disappears.
\<close>

locale keyed_store =
  fixes key :: "'o \<Rightarrow> 'k" and lookup :: "'s \<Rightarrow> 'k \<Rightarrow> 'o option" and put :: "'o \<Rightarrow> 's \<Rightarrow> 's"
  assumes lookup_put: "lookup (put x s) k =
      (if k = key x \<and> lookup s (key x) \<noteq> None then Some x else lookup s k)"
    and lookup_key: "lookup s k = Some x \<Longrightarrow> key x = k"
begin

lemma lookup_put_other: "k \<noteq> key x \<Longrightarrow> lookup (put x s) k = lookup s k"
  by (simp add: lookup_put)

lemma lookup_put_same: "lookup s (key x) = Some y \<Longrightarrow> lookup (put x s) (key x) = Some x"
  by (simp add: lookup_put)

lemma present_put: "lookup (put x s) k = None \<longleftrightarrow> lookup s k = None"
  by (simp add: lookup_put)

lemma lookup_put_put: "key y = key x \<Longrightarrow> lookup (put y (put x s)) = lookup (put y s)"
  by (auto simp: lookup_put fun_eq_iff)

end

definition find_install :: "installation list \<Rightarrow> string \<Rightarrow> installation option" where
  "find_install ins n = List.find (\<lambda>i. in_name i = n) ins"

definition put_install :: "installation \<Rightarrow> installation list \<Rightarrow> installation list" where
  "put_install x ins = map (\<lambda>i. if in_name i = in_name x then x else i) ins"

lemma find_install_simps [simp]:
  "find_install [] n = None"
  "find_install (i # ins) n = (if in_name i = n then Some i else find_install ins n)"
  by (simp_all add: find_install_def)

lemma put_install_simps [simp]:
  "put_install x [] = []"
  "put_install x (i # ins) = (if in_name i = in_name x then x else i) # put_install x ins"
  by (simp_all add: put_install_def)

lemma find_install_name: "find_install ins n = Some i \<Longrightarrow> in_name i = n \<and> i \<in> set ins"
  by (induction ins) (auto split: if_splits)

lemma find_install_None: "find_install ins n = None \<longleftrightarrow> n \<notin> in_name ` set ins"
  by (induction ins) auto

interpretation ist: keyed_store in_name find_install put_install
proof
  show "find_install (put_install x ins) k = (if k = in_name x \<and> find_install ins (in_name x) \<noteq> None
      then Some x else find_install ins k)" for x ins k
    by (induction ins) auto
qed (simp add: find_install_name)

lemma put_install_names [simp]: "map in_name (put_install x ins) = map in_name ins"
  by (induction ins) auto

lemma put_install_put [simp]: "in_name x = in_name y \<Longrightarrow> put_install x (put_install y ins) = put_install x ins"
  by (induction ins) auto

section \<open>Calls on the other namespaced objects\<close>

text \<open>
  One definition per verb, over the part of the state that holds the kind: \<open>get\<close> reads it and
  \<open>upd\<close> changes it (a record field and its update). Deleting takes effect at once.
\<close>

definition nsname_text :: "nsname \<Rightarrow> string" where
  "nsname_text k = fst k @ ''/'' @ snd k"

definition get_in :: "(kube \<Rightarrow> (nsname \<times> 'o) list) \<Rightarrow> nsname \<Rightarrow> (kube, 'o) call" where
  "get_in get k = api (\<lambda>w. case map_of (get w) k of
      None \<Rightarrow> (Err (ENotFound (nsname_text k)), w) | Some x \<Rightarrow> (Ok x, w))"

definition create_in :: "(kube \<Rightarrow> (nsname \<times> 'o) list) \<Rightarrow>
    (((nsname \<times> 'o) list \<Rightarrow> (nsname \<times> 'o) list) \<Rightarrow> kube \<Rightarrow> kube) \<Rightarrow> nsname \<Rightarrow> 'o \<Rightarrow> (kube, unit) call" where
  "create_in get upd k x = api (\<lambda>w. case map_of (get w) k of
      Some _ \<Rightarrow> (Err (EAlreadyExists (nsname_text k)), w)
    | None \<Rightarrow> (Ok (), upd (\<lambda>xs. (k, x) # xs) w))"

definition write_in :: "(kube \<Rightarrow> (nsname \<times> 'o) list) \<Rightarrow>
    (((nsname \<times> 'o) list \<Rightarrow> (nsname \<times> 'o) list) \<Rightarrow> kube \<Rightarrow> kube) \<Rightarrow> nsname \<Rightarrow> 'o \<Rightarrow> (kube, unit) call" where
  "write_in get upd k x = api (\<lambda>w. case map_of (get w) k of
      None \<Rightarrow> (Err (ENotFound (nsname_text k)), w)
    | Some _ \<Rightarrow> (Ok (), upd (AList.update k x) w))"

definition delete_in :: "(kube \<Rightarrow> (nsname \<times> 'o) list) \<Rightarrow>
    (((nsname \<times> 'o) list \<Rightarrow> (nsname \<times> 'o) list) \<Rightarrow> kube \<Rightarrow> kube) \<Rightarrow> nsname \<Rightarrow> (kube, unit) call" where
  "delete_in get upd k = api (\<lambda>w. case map_of (get w) k of
      None \<Rightarrow> (Err (ENotFound (nsname_text k)), w)
    | Some _ \<Rightarrow> (Ok (), upd (AList.delete k) w))"

definition create_namespace :: "string \<Rightarrow> (kube, unit) call" where
  "create_namespace n = api (\<lambda>w. case map_of (namespaces w) n of
      Some _ \<Rightarrow> (Err (EAlreadyExists n), w)
    | None \<Rightarrow> (Ok (), w\<lparr>namespaces := (n, ''Active'') # namespaces w\<rparr>))"

text \<open>\<open>client.IgnoreNotFound\<close> and \<open>client.IgnoreAlreadyExists\<close>.\<close>

definition ignore_not_found :: "(kube, unit) call \<Rightarrow> (kube, unit) call" where
  "ignore_not_found m = bind (attempt m) (\<lambda>r. case r of
      Inr u \<Rightarrow> ret u | Inl e \<Rightarrow> if is_not_found e then ret () else throw e)"

definition ignore_already_exists :: "(kube, unit) call \<Rightarrow> (kube, unit) call" where
  "ignore_already_exists m = bind (attempt m) (\<lambda>r. case r of
      Inr u \<Rightarrow> ret u | Inl e \<Rightarrow> if is_already_exists e then ret () else throw e)"

section \<open>Calls on the Installation objects\<close>

definition get_install :: "string \<Rightarrow> (kube, installation) call" where
  "get_install n = api (\<lambda>w. case find_install (installs w) n of
      None \<Rightarrow> (Err (ENotFound n), w) | Some i \<Rightarrow> (Ok i, w))"

text \<open>The main resource ignores the status of what is written, the status resource all else.\<close>

definition write_install :: "installation \<Rightarrow> (kube, unit) call" where
  "write_install x = api (\<lambda>w. case find_install (installs w) (in_name x) of
      None \<Rightarrow> (Err (ENotFound (in_name x)), w)
    | Some i \<Rightarrow> (Ok (), w\<lparr>installs := put_install (x\<lparr>in_status := in_status i\<rparr>) (installs w)\<rparr>))"

definition write_install_status :: "installation \<Rightarrow> (kube, unit) call" where
  "write_install_status x = api (\<lambda>w. case find_install (installs w) (in_name x) of
      None \<Rightarrow> (Err (ENotFound (in_name x)), w)
    | Some i \<Rightarrow> (Ok (), w\<lparr>installs := put_install (i\<lparr>in_status := in_status x\<rparr>) (installs w)\<rparr>))"

definition create_install :: "installation \<Rightarrow> (kube, unit) call" where
  "create_install x = api (\<lambda>w. case find_install (installs w) (in_name x) of
      Some _ \<Rightarrow> (Err (EAlreadyExists (in_name x)), w)
    | None \<Rightarrow> (Ok (), w\<lparr>installs := installs w @ [x\<lparr>in_status := \<lparr>nodes_status = [], in_state = [],
          in_reason = [], pending_charts = [], conditions = []\<rparr>\<rparr>]\<rparr>))"

definition list_installs :: "(kube, installation list) call" where
  "list_installs = api (gets installs)"

definition update_installation ::
    "'v lib \<Rightarrow> installation \<Rightarrow> (installation \<Rightarrow> installation) \<Rightarrow> (kube, installation) call" where
  "update_installation L i mutate = retry_on_conflict (lib_retries L)
     (bind (wrap ''get installation before updating'' (get_install (in_name i))) (\<lambda>cur.
      bind (wrap ''update installation'' (write_install (mutate cur))) (\<lambda>_.
      ret ((mutate cur)\<lparr>in_status := in_status cur\<rparr>))))"

definition update_installation_status ::
    "'v lib \<Rightarrow> installation \<Rightarrow> (installation_status \<Rightarrow> installation_status) \<Rightarrow> (kube, installation) call" where
  "update_installation_status L i mutate = retry_on_conflict (lib_retries L)
     (bind (wrap ''get installation before updating status'' (get_install (in_name i))) (\<lambda>cur.
      let new = cur\<lparr>in_status := mutate (in_status cur)\<rparr> in
      bind (wrap ''update installation status'' (write_install_status new)) (\<lambda>_.
      ret new)))"

definition set_installation_state ::
    "'v lib \<Rightarrow> installation \<Rightarrow> string \<Rightarrow> string \<Rightarrow> string list \<Rightarrow> (kube, installation) call" where
  "set_installation_state L i state reason pending =
     update_installation_status L i (set_state state reason pending)"

definition set_installation_condition_status ::
    "'v lib \<Rightarrow> installation \<Rightarrow> condition \<Rightarrow> (kube, installation) call" where
  "set_installation_condition_status L i c =
     update_installation_status L i (set_condition (lib_set_condition L) c)"

section \<open>What a client call does\<close>

lemma pop_fault_cases: "\<exists>f fs. pop_fault w = (Ok f, w\<lparr>faults := fs\<rparr>)"
proof (cases "faults w")
  case Nil
  then have "w = w\<lparr>faults := []\<rparr>" by simp
  with Nil show ?thesis unfolding pop_fault_def by (metis list.simps(4))
qed (auto simp: pop_fault_def)

lemma api_Ok: "api body w = (Ok x, w') \<Longrightarrow> \<exists>fs. body (w\<lparr>faults := fs\<rparr>) = (Ok x, w')"
  using pop_fault_cases [of w]
  by (auto simp: api_def bind_def throw_def split: fault.splits prod.splits outcome.splits)

lemma api_NoFault [simp]: "faults w = [] \<Longrightarrow> api body w = body w"
  by (simp add: api_def bind_def pop_fault_def)

lemma api_Err: "api body w = (Err e, w') \<Longrightarrow>
    (\<exists>fs. w' = w\<lparr>faults := fs\<rparr> \<and> \<not> is_not_found e) \<or>
    (\<exists>fs. body (w\<lparr>faults := fs\<rparr>) = (Err e, w')) \<or>
    (\<exists>fs x s. body (w\<lparr>faults := fs\<rparr>) = (Ok x, w') \<and> e = EApi s)"
  using pop_fault_cases [of w]
  by (auto simp: api_def bind_def throw_def split: fault.splits prod.splits outcome.splits)

lemma api_cases: "api body w = (r, w') \<Longrightarrow>
    (\<exists>fs. w' = w\<lparr>faults := fs\<rparr> \<and> (\<forall>x. r \<noteq> Ok x)) \<or>
    (\<exists>fs. body (w\<lparr>faults := fs\<rparr>) = (r, w')) \<or>
    (\<exists>fs x e. body (w\<lparr>faults := fs\<rparr>) = (Ok x, w') \<and> r = Err e \<and> \<not> is_conflict e)"
  using pop_fault_cases [of w]
  by (auto simp: api_def bind_def throw_def split: fault.splits prod.splits outcome.splits)

text \<open>A frame of the cluster state: the answers of the clients are no part of what it compares.\<close>

locale kube_frame = frame R for R :: "kube \<Rightarrow> kube \<Rightarrow> bool" +
  assumes faults_irrelevant: "R w (w\<lparr>faults := fs\<rparr>)"
begin

lemma keeps_pop_fault: "keeps R pop_fault"
  unfolding keeps_def using pop_fault_cases faults_irrelevant by (metis snd_conv)

lemma keeps_api: "keeps R body \<Longrightarrow> keeps R (api body)"
  unfolding api_def
  by (rule keeps_bind [OF keeps_pop_fault]) (auto split: fault.splits intro: frame_rules)

lemma keeps_retry: "keeps R m \<Longrightarrow> keeps R (retry_on_conflict n m)"
  by (induction n) (auto intro!: frame_rules)

lemma keeps_poll: "(\<And>s. keeps R (cond s)) \<Longrightarrow> (\<And>w. R w (tick w)) \<Longrightarrow> keeps R (poll n tick cond s)"
  by (induction n arbitrary: s) (auto intro!: frame_rules keeps_modify)

lemmas kube_frame_rules = frame_rules keeps_api keeps_retry

end

text \<open>The calls on namespaced objects keep a frame that their kind's part of the state is no part of.\<close>

context kube_frame
begin

lemma keeps_get_in: "keeps R (get_in get k)"
  unfolding get_in_def by (rule keeps_api) (auto simp: keeps_def frame_refl split: option.splits)

lemma keeps_change_in:
  assumes "\<And>f w. R w (upd f w)"
  shows "keeps R (create_in get upd k x)" "keeps R (write_in get upd k x)" "keeps R (delete_in get upd k)"
  unfolding create_in_def write_in_def delete_in_def
  by (rule keeps_api; auto simp: keeps_def frame_refl assms split: option.splits)+

lemma keeps_ignore:
  assumes "keeps R m"
  shows "keeps R (ignore_not_found m)" "keeps R (ignore_already_exists m)"
  unfolding ignore_not_found_def ignore_already_exists_def by (intro frame_rules assms)+

lemma keeps_create_namespace: "(\<And>x w. R w (w\<lparr>namespaces := x\<rparr>)) \<Longrightarrow> keeps R (create_namespace n)"
  unfolding create_namespace_def by (rule keeps_api) (auto simp: keeps_def frame_refl split: option.splits)

lemmas object_rules = kube_frame_rules keeps_get_in keeps_ignore

end

text \<open>A call that only reads.\<close>

definition faults_only :: "kube \<Rightarrow> kube \<Rightarrow> bool" where
  "faults_only w w' \<longleftrightarrow> (\<exists>fs. w' = w\<lparr>faults := fs\<rparr>)"

interpretation fo: kube_frame faults_only
proof
  show "faults_only w w" for w unfolding faults_only_def by (rule exI [of _ "faults w"]) simp
qed (auto simp: faults_only_def)

lemma get_in_Ok: "get_in get k w = (Ok x, w') \<Longrightarrow> (\<And>fs v. get (v\<lparr>faults := fs\<rparr>) = get v) \<Longrightarrow>
    map_of (get w) k = Some x \<and> faults_only w w'"
  unfolding get_in_def faults_only_def by (auto dest!: api_Ok split: option.splits)

lemma get_in_not_found: "get_in get k w = (Err e, w') \<Longrightarrow> is_not_found e \<Longrightarrow>
    (\<And>fs. get (w\<lparr>faults := fs\<rparr>) = get w) \<Longrightarrow> map_of (get w) k = None"
  unfolding get_in_def by (drule api_Err) (auto split: option.splits)

lemma faults_only_fields:
  assumes "faults_only w w'"
  shows "job_objects w' = job_objects w" "nodes w' = nodes w" "config_maps w' = config_maps w" "installs w' = installs w"
    "k0s_charts w' = k0s_charts w" "log w' = log w" "cluster_cfg w' = cluster_cfg w"
  using assms by (auto simp: faults_only_def)

text \<open>
  \<open>installs_only\<close>: nothing but the contents of the stored installations changes, and none
  appears or disappears. \<open>log_grows\<close>: effects on the outside are never forgotten.
\<close>

definition installs_only :: "kube \<Rightarrow> kube \<Rightarrow> bool" where
  "installs_only w w' \<longleftrightarrow> w'\<lparr>faults := [], installs := []\<rparr> = w\<lparr>faults := [], installs := []\<rparr> \<and>
     map in_name (installs w') = map in_name (installs w)"

definition log_grows :: "kube \<Rightarrow> kube \<Rightarrow> bool" where
  "log_grows w w' \<longleftrightarrow> prefix (log w) (log w')"

lemma installs_only_fields:
  assumes "installs_only w w'"
  shows "crds w' = crds w" "namespaces w' = namespaces w" "nodes w' = nodes w"
    "autopilot_plan w' = autopilot_plan w" "cluster_cfg w' = cluster_cfg w"
    "deployments w' = deployments w" "stateful_sets w' = stateful_sets w" "services w' = services w"
    "job_objects w' = job_objects w" "config_maps w' = config_maps w" "secrets w' = secrets w"
    "releases w' = releases w" "log w' = log w"
    "map in_name (installs w') = map in_name (installs w)"
  using assms unfolding installs_only_def by (cases w; cases w'; simp)+

lemmas installs_only_log = installs_only_fields(13)
lemmas installs_only_names = installs_only_fields(14)

interpretation io: kube_frame installs_only
  by unfold_locales (auto simp: installs_only_def)

interpretation lg: kube_frame log_grows
  by unfold_locales (auto simp: log_grows_def)

lemma keeps_get_install: "keeps installs_only (get_install n)"
  unfolding get_install_def
  by (rule io.keeps_api) (auto simp: keeps_def io.frame_refl split: option.splits)

lemma keeps_write_install: "keeps installs_only (write_install x)"
  unfolding write_install_def
  by (rule io.keeps_api) (auto simp: keeps_def installs_only_def split: option.splits)

lemma keeps_write_install_status: "keeps installs_only (write_install_status x)"
  unfolding write_install_status_def
  by (rule io.keeps_api) (auto simp: keeps_def installs_only_def split: option.splits)

lemmas keeps_install_calls = keeps_get_install keeps_write_install keeps_write_install_status

lemma keeps_update_installation: "keeps installs_only (update_installation L i f)"
  unfolding update_installation_def by (intro io.kube_frame_rules keeps_install_calls)

lemma keeps_update_installation_status: "keeps installs_only (update_installation_status L i f)"
  unfolding update_installation_status_def Let_def by (intro io.kube_frame_rules keeps_install_calls)

lemma keeps_set_installation_state: "keeps installs_only (set_installation_state L i s r ps)"
  unfolding set_installation_state_def by (rule keeps_update_installation_status)

lemma keeps_set_installation_condition_status: "keeps installs_only (set_installation_condition_status L i c)"
  unfolding set_installation_condition_status_def by (rule keeps_update_installation_status)

lemmas keeps_status_calls = keeps_update_installation keeps_update_installation_status
  keeps_set_installation_state keeps_set_installation_condition_status

section \<open>Calls on helm\<close>

text \<open>
  The helm client the code is given (an interface): the releases it has, by namespace and name.
\<close>

definition helm_add_repo :: "repo_entry \<Rightarrow> (kube, unit) call" where
  "helm_add_repo e = api (emit (HelmAddRepo e))"

definition helm_release_exists :: "string \<Rightarrow> string \<Rightarrow> (kube, bool) call" where
  "helm_release_exists ns n = api (gets (\<lambda>w. (ns, n) \<in> set (releases w)))"

definition helm_install :: "helm_options \<Rightarrow> (kube, unit) call" where
  "helm_install ho = api (\<lambda>w. if (ho_namespace ho, ho_release ho) \<in> set (releases w)
     then (Err (EApi ''cannot re-use a name that is still in use''), w)
     else (Ok (), w\<lparr>releases := (ho_namespace ho, ho_release ho) # releases w, log := log w @ [HelmInstall ho]\<rparr>))"

definition helm_upgrade :: "helm_options \<Rightarrow> (kube, unit) call" where
  "helm_upgrade ho = api (\<lambda>w. if (ho_namespace ho, ho_release ho) \<in> set (releases w)
     then (Ok (), w\<lparr>log := log w @ [HelmUpgrade ho]\<rparr>)
     else (Err (EApi (''no release named '' @ ho_release ho)), w))"

definition helm_uninstall :: "string \<Rightarrow> string \<Rightarrow> (kube, unit) call" where
  "helm_uninstall ns n = api (\<lambda>w. if (ns, n) \<in> set (releases w)
     then (Ok (), w\<lparr>releases := removeAll (ns, n) (releases w), log := log w @ [HelmUninstall ns n]\<rparr>)
     else (Err (EApi (''no release named '' @ n)), w))"

section \<open>What a call adds to the log\<close>

text \<open>
  \<open>emits A m\<close>: whatever happens, the events \<open>m\<close> adds are one of the sequences in \<open>A\<close>.
\<close>

definition emits :: "event list set \<Rightarrow> (kube, 'a) call \<Rightarrow> bool" where
  "emits A m \<longleftrightarrow> (\<forall>w. \<exists>es \<in> A. log (snd (m w)) = log w @ es)"

abbreviation quiet :: "(kube, 'a) call \<Rightarrow> bool" where
  "quiet \<equiv> emits {[]}"

definition then_events :: "event list set \<Rightarrow> event list set \<Rightarrow> event list set" where
  "then_events A B = {a @ b | a b. a \<in> A \<and> b \<in> B}"

lemma emitsD: "emits A m \<Longrightarrow> m w = (r, w') \<Longrightarrow> \<exists>es \<in> A. log w' = log w @ es"
  unfolding emits_def by (metis snd_conv)

lemma emits_mono: "emits A m \<Longrightarrow> A \<subseteq> B \<Longrightarrow> emits B m"
  unfolding emits_def by blast

lemma emits_bind:
  assumes m: "emits A m" and f: "\<And>x. emits B (f x)" and nil: "[] \<in> B"
  shows "emits (then_events A B) (bind m f)"
  unfolding emits_def
proof
  fix w
  obtain r w1 where mw: "m w = (r, w1)" by (cases "m w")
  with m obtain a where a: "a \<in> A" "log w1 = log w @ a" by (metis emitsD)
  show "\<exists>es \<in> then_events A B. log (snd (bind m f w)) = log w @ es"
  proof (cases r)
    case (Ok x)
    obtain b where "b \<in> B" "log (snd (f x w1)) = log w1 @ b" using f unfolding emits_def by blast
    then show ?thesis using a mw Ok by (auto simp: bind_def then_events_def intro!: bexI [of _ "a @ b"])
  qed (use a mw nil in \<open>auto simp: bind_def then_events_def intro!: bexI [of _ "a @ []"]\<close>)
qed

lemma then_events_nil [simp]: "then_events {[]} B = B" "then_events A {[]} = A"
  by (auto simp: then_events_def)

lemma emits_quiet_bind:
  assumes "quiet m" "\<And>x. emits B (f x)" "[] \<in> B"
  shows "emits B (bind m f)"
  using emits_bind [OF assms] by simp

lemma emits_bind_quiet:
  assumes "emits A m" "\<And>x. quiet (f x)"
  shows "emits A (bind m f)"
  using emits_bind [OF assms] by simp

lemma emits_wrap: "emits A m \<Longrightarrow> emits A (wrap c m)"
  unfolding emits_def wrap_def by (auto split: prod.splits) (metis snd_conv)

lemma emits_attempt: "emits A m \<Longrightarrow> emits A (attempt m)"
  unfolding emits_def attempt_def by (auto split: prod.splits outcome.splits) (metis snd_conv)+

lemma emits_pure: "[] \<in> A \<Longrightarrow> emits A (ret x)" "[] \<in> A \<Longrightarrow> emits A (throw e)"
  "[] \<in> A \<Longrightarrow> emits A (lift r)" "[] \<in> A \<Longrightarrow> emits A (gets f)"
  by (auto simp: emits_def ret_def throw_def lift_def gets_def intro!: bexI [of _ "[]"])

lemma quiet_pop_fault: "quiet pop_fault"
  by (auto simp: emits_def pop_fault_def split: list.splits)

lemma emits_api: "emits A body \<Longrightarrow> [] \<in> A \<Longrightarrow> emits A (api body)"
  unfolding api_def
  by (rule emits_quiet_bind [OF quiet_pop_fault])
     (auto split: fault.splits intro: emits_pure emits_bind_quiet)

lemma quiet_installs_only: "keeps installs_only m \<Longrightarrow> quiet m"
  unfolding emits_def keeps_def by (auto dest: installs_only_fields)

lemma emits_helm:
  "emits {[], [HelmAddRepo e]} (helm_add_repo e)" "quiet (helm_release_exists ns n)"
  "emits {[], [HelmInstall ho]} (helm_install ho)" "emits {[], [HelmUpgrade ho]} (helm_upgrade ho)"
  "emits {[], [HelmUninstall ns n]} (helm_uninstall ns n)"
  unfolding helm_add_repo_def helm_release_exists_def helm_install_def helm_upgrade_def helm_uninstall_def
  by (rule emits_api; auto simp: emits_def emit_def modify_def gets_def)+

lemma emits_for_each:
  assumes f: "\<And>x. x \<in> set xs \<Longrightarrow> emits A (f x)" and A: "then_events A A \<subseteq> A" "[] \<in> A"
  shows "emits A (for_each f xs)"
  using f
proof (induction xs)
  case (Cons x xs)
  have "emits (then_events A A) (bind (f x) (\<lambda>_. for_each f xs))"
    by (rule emits_bind [OF _ _ A(2)]) (simp_all add: Cons)
  then show ?case using emits_mono A(1) by auto
qed (simp add: emits_pure A)

section \<open>Updates take effect once\<close>

text \<open>
  A failed try that reports a conflict has changed nothing, so a successful retry loop has the
  effect of one try.
\<close>

definition conflict_clean :: "(kube, 'a) call \<Rightarrow> bool" where
  "conflict_clean m \<longleftrightarrow> (\<forall>w e w'. m w = (Err e, w') \<longrightarrow> is_conflict e \<longrightarrow> (\<exists>fs. w' = w\<lparr>faults := fs\<rparr>))"

lemma faults_faults [simp]: "w\<lparr>faults := fs, faults := gs\<rparr> = w\<lparr>faults := gs\<rparr>" for w :: kube
  by simp

lemma retry_Ok:
  assumes "conflict_clean m" "retry_on_conflict n m w = (Ok x, w')"
  shows "\<exists>fs. m (w\<lparr>faults := fs\<rparr>) = (Ok x, w')"
  using assms(2)
proof (induction n arbitrary: w)
  case 0
  then have "m (w\<lparr>faults := faults w\<rparr>) = (Ok x, w')" by simp
  then show ?case by blast
next
  case (Suc n)
  obtain r w1 where m: "m w = (r, w1)" by (cases "m w")
  show ?case
  proof (cases r)
    case (Ok y)
    with m Suc.prems have "m (w\<lparr>faults := faults w\<rparr>) = (Ok x, w')"
      by (simp add: bind_def attempt_def)
    then show ?thesis by blast
  next
    case (Err e)
    with m Suc.prems have retry: "is_conflict e" "retry_on_conflict n m w1 = (Ok x, w')"
      by (auto simp: bind_def attempt_def throw_def split: if_splits)
    with m Err assms(1) obtain fs where "w1 = w\<lparr>faults := fs\<rparr>"
      unfolding conflict_clean_def by blast
    with Suc.IH [OF retry(2)] show ?thesis by auto
  qed (use m Suc.prems in \<open>simp add: bind_def attempt_def\<close>)
qed

lemma retry_step: "m w = (t, w1) \<Longrightarrow> retry_on_conflict (Suc n) m w = (case t of
      Ok x \<Rightarrow> (Ok x, w1) | Panic p \<Rightarrow> (Panic p, w1)
    | Err e \<Rightarrow> if is_conflict e then retry_on_conflict n m w1 else (Err e, w1))"
  by (auto simp: bind_def attempt_def ret_def throw_def split: outcome.splits)

lemma conflict_clean_bind:
  assumes "conflict_clean m" "\<And>x w w'. m w = (Ok x, w') \<Longrightarrow> \<exists>fs. w' = w\<lparr>faults := fs\<rparr>"
    and "\<And>x. conflict_clean (f x)"
  shows "conflict_clean (bind m f)"
  unfolding conflict_clean_def
proof (intro allI impI)
  fix w e w'
  assume run: "bind m f w = (Err e, w')" and e: "is_conflict e"
  obtain r w1 where m: "m w = (r, w1)" by (cases "m w")
  show "\<exists>fs. w' = w\<lparr>faults := fs\<rparr>"
  proof (cases r)
    case (Ok x)
    with m assms(2) obtain fs where "w1 = w\<lparr>faults := fs\<rparr>" by blast
    moreover from run m Ok have "f x w1 = (Err e, w')" by (simp add: bind_def)
    ultimately show ?thesis using e assms(3) [of x] unfolding conflict_clean_def by (metis faults_faults)
  qed (use run m e assms(1) in \<open>auto simp: bind_def conflict_clean_def\<close>)
qed

lemma conflict_clean_wrap: "conflict_clean m \<Longrightarrow> conflict_clean (wrap c m)"
  by (auto simp: conflict_clean_def wrap_def wrapO_Err_iff split: prod.splits)

lemma conflict_clean_ret: "conflict_clean (ret x)"
  by (simp add: conflict_clean_def)

lemma conflict_clean_api:
  assumes "\<And>w e w'. body w = (Err e, w') \<Longrightarrow> \<not> is_conflict e"
  shows "conflict_clean (api body)"
  unfolding conflict_clean_def using assms api_Err [of body] by fastforce

lemma conflict_clean_calls:
  "conflict_clean (get_install n)" "conflict_clean (write_install x)" "conflict_clean (write_install_status x)"
  unfolding get_install_def write_install_def write_install_status_def
  by (auto intro!: conflict_clean_api split: option.splits)

lemma get_install_Ok: "get_install n w = (Ok i, w') \<Longrightarrow>
    (\<exists>fs. w' = w\<lparr>faults := fs\<rparr>) \<and> find_install (installs w) n = Some i"
  unfolding get_install_def by (drule api_Ok) (auto split: option.splits)

lemma wrap_get_install_Ok: "wrap c (get_install n) w = (Ok i, w') \<Longrightarrow> \<exists>fs. w' = w\<lparr>faults := fs\<rparr>"
  by (auto simp: wrap_Ok_iff dest: get_install_Ok)

lemma conflict_clean_then_ret: "conflict_clean m \<Longrightarrow> conflict_clean (bind m (\<lambda>x. ret (g x)))"
  by (auto simp: conflict_clean_def bind_def split: prod.splits outcome.splits)

lemmas conflict_clean_rules = conflict_clean_wrap conflict_clean_calls conflict_clean_then_ret

lemma write_install_status_Ok: "write_install_status x w = (Ok u, w') \<Longrightarrow>
    \<exists>fs i. find_install (installs w) (in_name x) = Some i \<and>
      w' = w\<lparr>faults := fs, installs := put_install (i\<lparr>in_status := in_status x\<rparr>) (installs w)\<rparr>"
  unfolding write_install_status_def by (drule api_Ok) (auto split: option.splits)

lemma write_install_Ok: "write_install x w = (Ok u, w') \<Longrightarrow>
    \<exists>fs i. find_install (installs w) (in_name x) = Some i \<and>
      w' = w\<lparr>faults := fs, installs := put_install (x\<lparr>in_status := in_status i\<rparr>) (installs w)\<rparr>"
  unfolding write_install_def by (drule api_Ok) (auto split: option.splits)

lemma update_installation_status_Ok:
  assumes "update_installation_status L i f w = (Ok x, w')"
  shows "\<exists>cur fs. find_install (installs w) (in_name i) = Some cur \<and>
    x = cur\<lparr>in_status := f (in_status cur)\<rparr> \<and>
    w' = w\<lparr>faults := fs, installs := put_install x (installs w)\<rparr>"
proof -
  let ?m = "bind (wrap ''get installation before updating status'' (get_install (in_name i))) (\<lambda>cur.
      bind (wrap ''update installation status''
        (write_install_status (cur\<lparr>in_status := f (in_status cur)\<rparr>))) (\<lambda>_.
      ret (cur\<lparr>in_status := f (in_status cur)\<rparr>)))"
  have "conflict_clean ?m"
    by (rule conflict_clean_bind [OF conflict_clean_wrap [OF conflict_clean_calls(1)] _
          conflict_clean_then_ret [OF conflict_clean_wrap [OF conflict_clean_calls(3)]]])
       (rule wrap_get_install_Ok)
  from retry_Ok [OF this assms [unfolded update_installation_status_def Let_def]]
  obtain fs where run: "?m (w\<lparr>faults := fs\<rparr>) = (Ok x, w')" by blast
  then obtain cur w1 w2 where get: "get_install (in_name i) (w\<lparr>faults := fs\<rparr>) = (Ok cur, w1)"
    and put: "write_install_status (cur\<lparr>in_status := f (in_status cur)\<rparr>) w1 = (Ok (), w2)"
    and res: "x = cur\<lparr>in_status := f (in_status cur)\<rparr>" "w' = w2"
    by (auto simp: call_Ok_iffs)
  from get_install_Ok [OF get] obtain fs' where w1: "w1 = w\<lparr>faults := fs'\<rparr>"
    and cur: "find_install (installs w) (in_name i) = Some cur" by auto
  from cur have "in_name cur = in_name i" by (rule ist.lookup_key)
  with write_install_status_Ok [OF put] w1 cur res show ?thesis by auto
qed

lemma update_installation_Ok:
  assumes "update_installation L i f w = (Ok x, w')" and "\<And>c. in_name (f c) = in_name c"
  shows "\<exists>cur fs. find_install (installs w) (in_name i) = Some cur \<and>
    x = (f cur)\<lparr>in_status := in_status cur\<rparr> \<and>
    w' = w\<lparr>faults := fs, installs := put_install x (installs w)\<rparr>"
proof -
  let ?m = "bind (wrap ''get installation before updating'' (get_install (in_name i))) (\<lambda>cur.
      bind (wrap ''update installation'' (write_install (f cur))) (\<lambda>_.
      ret ((f cur)\<lparr>in_status := in_status cur\<rparr>)))"
  have "conflict_clean ?m"
    by (rule conflict_clean_bind [OF conflict_clean_wrap [OF conflict_clean_calls(1)] _
          conflict_clean_then_ret [OF conflict_clean_wrap [OF conflict_clean_calls(2)]]])
       (rule wrap_get_install_Ok)
  from retry_Ok [OF this assms(1) [unfolded update_installation_def]]
  obtain fs where run: "?m (w\<lparr>faults := fs\<rparr>) = (Ok x, w')" by blast
  then obtain cur w1 w2 where get: "get_install (in_name i) (w\<lparr>faults := fs\<rparr>) = (Ok cur, w1)"
    and put: "write_install (f cur) w1 = (Ok (), w2)"
    and res: "x = (f cur)\<lparr>in_status := in_status cur\<rparr>" "w' = w2"
    by (auto simp: call_Ok_iffs)
  from get_install_Ok [OF get] obtain fs' where w1: "w1 = w\<lparr>faults := fs'\<rparr>"
    and cur: "find_install (installs w) (in_name i) = Some cur" by auto
  from cur have "in_name cur = in_name i" by (rule ist.lookup_key)
  with write_install_Ok [OF put] w1 cur res assms(2) show ?thesis by auto
qed

text \<open>
  On every outcome there is at most one write, and it is of the mutation of what was stored.
\<close>

lemma write_status_cases:
  assumes run: "write_install_status x w = (r, w')"
    and cur: "find_install (installs w) (in_name x) = Some cur"
  shows "(\<exists>fs. w' = w\<lparr>faults := fs\<rparr> \<and> (\<forall>u. r \<noteq> Ok u)) \<or> (\<exists>fs. w' = w\<lparr>faults := fs,
      installs := put_install (cur\<lparr>in_status := in_status x\<rparr>) (installs w)\<rparr> \<and>
      (\<forall>e. r = Err e \<longrightarrow> \<not> is_conflict e))"
  using api_cases [OF run [unfolded write_install_status_def]] cur by auto

lemma update_status_try_cases:
  assumes run: "bind (wrap c (get_install n)) (\<lambda>cur.
      bind (wrap d (write_install_status (cur\<lparr>in_status := f (in_status cur)\<rparr>))) (\<lambda>_.
      ret (cur\<lparr>in_status := f (in_status cur)\<rparr>))) w = (r, w')"
  shows "(\<exists>fs. w' = w\<lparr>faults := fs\<rparr> \<and> (\<forall>x. r \<noteq> Ok x)) \<or> (\<exists>cur fs. find_install (installs w) n = Some cur \<and>
      w' = w\<lparr>faults := fs, installs := put_install (cur\<lparr>in_status := f (in_status cur)\<rparr>) (installs w)\<rparr> \<and>
      (\<forall>e. r = Err e \<longrightarrow> \<not> is_conflict e))"
proof (cases "get_install n w")
  case (Pair g w1)
  show ?thesis
  proof (cases g)
    case (Ok cur)
    from get_install_Ok [OF Pair [unfolded Ok]] obtain fs where w1: "w1 = w\<lparr>faults := fs\<rparr>"
      and cur: "find_install (installs w) n = Some cur" by auto
    have n: "in_name cur = n" using cur by (rule ist.lookup_key)
    obtain wr w2 where put: "write_install_status (cur\<lparr>in_status := f (in_status cur)\<rparr>) w1 = (wr, w2)"
      by (cases "write_install_status (cur\<lparr>in_status := f (in_status cur)\<rparr>) w1")
    have w2: "w' = w2" "\<forall>e. r = Err e \<longrightarrow> (\<exists>e'. wr = Err e' \<and> e = EWrap d e')" "(\<exists>x. r = Ok x) \<longleftrightarrow> (\<exists>u. wr = Ok u)"
      using run Pair Ok put
      by (auto simp: bind_def wrap_def ret_def split: outcome.split_asm)
        (cases wr; simp)+
    from write_status_cases [of "cur\<lparr>in_status := f (in_status cur)\<rparr>" w1, OF put] cur n w1 w2 show ?thesis by auto
  qed (use run Pair in \<open>auto simp: bind_def wrap_def get_install_def dest!: api_cases split: option.splits\<close>)
qed

lemma update_installation_status_cases:
  assumes "update_installation_status L i f w = (r, w')"
  shows "(\<exists>fs. w' = w\<lparr>faults := fs\<rparr> \<and> (\<forall>x. r \<noteq> Ok x)) \<or> (\<exists>cur fs.
    find_install (installs w) (in_name i) = Some cur \<and>
    w' = w\<lparr>faults := fs, installs := put_install (cur\<lparr>in_status := f (in_status cur)\<rparr>) (installs w)\<rparr>)"
proof -
  let ?m = "bind (wrap ''get installation before updating status'' (get_install (in_name i))) (\<lambda>cur.
      bind (wrap ''update installation status'' (write_install_status (cur\<lparr>in_status := f (in_status cur)\<rparr>))) (\<lambda>_.
      ret (cur\<lparr>in_status := f (in_status cur)\<rparr>)))"
  have "retry_on_conflict n ?m w = (r, w') \<Longrightarrow> ?thesis" for n
  proof (induction n arbitrary: w)
    case 0
    from update_status_try_cases [OF this [unfolded retry_on_conflict.simps]] show ?case
      by (elim disjE exE conjE) auto
  next
    case (Suc n)
    obtain t w1 where t: "?m w = (t, w1)" by (cases "?m w")
    note c = update_status_try_cases [OF t]
    show ?case
    proof (cases "\<exists>e. t = Err e \<and> is_conflict e")
      case True
      with c obtain fs where w1: "w1 = w\<lparr>faults := fs\<rparr>" by auto
      from True Suc.prems have "retry_on_conflict n ?m w1 = (r, w')"
        unfolding retry_step [of ?m, OF t] by auto
      from Suc.IH [OF this] w1 show ?thesis by auto
    next
      case False
      with Suc.prems have "w' = w1" "(\<exists>x. r = Ok x) \<longleftrightarrow> (\<exists>x. t = Ok x)"
        unfolding retry_step [of ?m, OF t] by (auto split: outcome.split_asm if_split_asm)
      with c show ?thesis by (elim disjE exE conjE) auto
    qed
  qed
  with assms show ?thesis unfolding update_installation_status_def Let_def by simp
qed

section \<open>Calls that do not fail\<close>

lemma retry_first: "m w = (Ok x, w') \<Longrightarrow> retry_on_conflict n m w = (Ok x, w')"
  by (cases n) (simp_all add: bind_def attempt_def)

lemma update_installation_run:
  assumes "faults w = []" "find_install (installs w) (in_name i) = Some cur" "in_name (f cur) = in_name cur"
  shows "update_installation L i f w = (let x = (f cur)\<lparr>in_status := in_status cur\<rparr>
    in (Ok x, w\<lparr>installs := put_install x (installs w)\<rparr>))"
  unfolding update_installation_def Let_def
  by (rule retry_first) (use assms in \<open>simp add: get_install_def write_install_def bind_def wrap_def ret_def
    ist.lookup_key [OF assms(2)]\<close>)

lemma update_installation_status_run:
  assumes "faults w = []" "find_install (installs w) (in_name i) = Some cur"
  shows "update_installation_status L i f w = (let x = cur\<lparr>in_status := f (in_status cur)\<rparr>
    in (Ok x, w\<lparr>installs := put_install x (installs w)\<rparr>))"
  unfolding update_installation_status_def Let_def
  by (rule retry_first) (use assms in \<open>simp add: get_install_def write_install_status_def bind_def wrap_def
    ret_def ist.lookup_key [OF assms(2)]\<close>)

section \<open>Polling\<close>

text \<open>A poll that succeeds ends with a try that succeeds, in a state the earlier tries lead to.\<close>

lemma poll_Inr:
  assumes "poll n tick cond s w = (Ok (Inr x), w')" "I w" "\<And>v. I v \<Longrightarrow> I (tick v)"
    and "\<And>v t t' v'. I v \<Longrightarrow> cond t v = (Ok (Inl t'), v') \<Longrightarrow> I v'"
  shows "\<exists>t v. I v \<and> cond t v = (Ok (Inr x), w')"
  using assms(1,2)
proof (induction n arbitrary: s w)
  case (Suc n)
  from Suc.prems(1) obtain r w1 where c: "cond s w = (Ok r, w1)"
    and k: "(case r of Inr x \<Rightarrow> ret (Inr x) | Inl s' \<Rightarrow> if n = 0 then ret (Inl s')
        else bind (modify tick) (\<lambda>_. poll n tick cond s')) w1 = (Ok (Inr x), w')"
    unfolding poll.simps bind_Ok_iff by blast
  show ?case
  proof (cases r)
    case (Inl s')
    with k have "poll n tick cond s' (tick w1) = (Ok (Inr x), w')"
      by (auto simp: bind_Ok_iff split: if_splits)
    moreover have "I (tick w1)" using assms(3,4) c Inl Suc.prems(2) by blast
    ultimately show ?thesis by (rule Suc.IH)
  qed (use c k Suc.prems(2) in auto)
qed simp

section \<open>Sample values\<close>

text \<open>Small concrete states for the witnesses: libraries that answer trivially, few objects.\<close>

definition sample_lib :: "string lib" where
  "sample_lib = \<lparr>lib_semver_new = Ok, lib_semver_less = (\<lambda>_ _. False), lib_semver_original = id,
     lib_version115 = ''1.15.0'', lib_set_condition = (\<lambda>cs c. c # filter (\<lambda>d. cond_type d \<noteq> cond_type c) cs),
     lib_retries = 4, lib_tick = id\<rparr>"

definition sample_config :: "string \<Rightarrow> chart list \<Rightarrow> config_spec" where
  "sample_config v cs = \<lparr>ec_version = v, binary_override_url = [], metadata_override_url = [],
     controller_role = \<lparr>role_name = [], role_description = [], role_node_count = None, role_labels = []\<rparr>,
     custom_roles = [], overrides_k0s = [], built_in_extensions = [],
     ext_helm = Some \<lparr>helm_repositories = [], helm_charts = cs\<rparr>, velero_plugins = [],
     spec_domains = \<lparr>replicated_app_domain = [], proxy_registry_domain = [], replicated_registry_domain = []\<rparr>\<rparr>"

lemma sample_config_simps [simp]: "ec_version (sample_config v cs) = v"
  "ext_helm (sample_config v cs) = Some \<lparr>helm_repositories = [], helm_charts = cs\<rparr>"
  by (simp_all add: sample_config_def)

definition sample_spec :: installation_spec where
  "sample_spec = \<lparr>cluster_id = ''c'', metrics_base_url = [], spec_artifacts = None, spec_config = None, binary_name = ''app'',
     spec_license_info = None, spec_config_secret = None, source_type = ''CRD'', runtime_config = None,
     high_availability = False, air_gap = False, airgap_uncompressed_size = 0, k0s_image_size = 0,
     end_user_k0s_overrides = [], deprecated_proxy = None, deprecated_network = None,
     deprecated_admin_console = None, deprecated_local_artifact_mirror = None\<rparr>"

definition sample_install :: "string \<Rightarrow> string \<Rightarrow> installation" where
  "sample_install n state = \<lparr>in_name = n, in_labels = [], in_spec = sample_spec,
     in_status = \<lparr>nodes_status = [], in_state = state, in_reason = [], pending_charts = [], conditions = []\<rparr>\<rparr>"

definition sample_kube :: "installation list \<Rightarrow> kube" where
  "sample_kube ins = \<lparr>faults = [], installs = ins, crds = [], namespaces = [], nodes = [],
     autopilot_plan = None, cluster_cfg = None, deployments = [], stateful_sets = [], daemon_sets = [], services = [],
     job_objects = [], pod_objects = [], pvc_objects = [], pv_objects = [], k0s_charts = [], config_maps = [], secrets = [], misc_objects = [],
     releases = [], meta_cache = [], log = []\<rparr>"

lemma sample_kube_simps [simp]:
  "faults (sample_kube ins) = []" "installs (sample_kube ins) = ins"
  "(sample_kube ins)\<lparr>installs := ins'\<rparr> = sample_kube ins'"
  by (simp_all add: sample_kube_def)

lemmas sample_defs = sample_lib_def sample_spec_def sample_install_def sample_kube_def

end
