(* ===== verification/Installs.thy ===== *)
theory Installs
  imports Cluster
begin

text \<open>
  \<^verbatim>\<open>pkg/kubeutils/installation.go\<close>: recording, listing, choosing and waiting for
  Installation objects, and the legacy data directories of releases before 1.15.
  The current time (\<open>now\<close>), the decoded CRD files (\<open>crd_files\<close>) and the application slug are
  parameters; the context is never cancelled.
\<close>

section \<open>Legacy data directories\<close>

text \<open>The unanchored regular expression \<^verbatim>\<open>.*\+ec\.[0-9]+\<close>.\<close>

fun old_version_scheme :: "string \<Rightarrow> bool" where
  "old_version_scheme [] = False"
| "old_version_scheme (c # cs) =
     ((prefix ''+ec.'' (c # cs) \<and> (case drop 4 (c # cs) of [] \<Rightarrow> False | d # _ \<Rightarrow> is_digit d))
      \<or> old_version_scheme cs)"

definition less_than_ec_version_115 :: "'v lib \<Rightarrow> 'v \<Rightarrow> bool" where
  "less_than_ec_version_115 L ver \<longleftrightarrow>
     (if old_version_scheme (lib_semver_original L ver) then True
      else lib_semver_less L ver (lib_version115 L))"

definition legacy_data_dirs :: "runtime_config_spec \<Rightarrow> runtime_config_spec" where
  "legacy_data_dirs rc = rc\<lparr>k0s_data_dir_override := ''/var/lib/k0s'', openebs_data_dir_override := ''/var/openebs''\<rparr>"

definition maybe_override_installation_data_dirs ::
    "'v lib \<Rightarrow> installation \<Rightarrow> installation option \<Rightarrow> (installation \<times> bool) outcome" where
  "maybe_override_installation_data_dirs L i previous =
     (case previous of None \<Rightarrow> Ok (i, False)
      | Some p \<Rightarrow> (case spec_config (in_spec p) of None \<Rightarrow> Ok (i, False)
         | Some c \<Rightarrow>
             if ec_version c = [] then Ok (i, False)
             else bindO (wrapO ''parse version'' (lib_semver_new L (ec_version c))) (\<lambda>ver.
               if less_than_ec_version_115 L ver then
                 let rc = rc_or_empty (in_spec i);
                     did_update = (k0s_data_dir_override rc \<noteq> ''/var/lib/k0s'' \<or>
                                   openebs_data_dir_override rc \<noteq> ''/var/openebs'')
                 in Ok (i\<lparr>in_spec := (in_spec i)\<lparr>runtime_config := Some (legacy_data_dirs rc)\<rparr>\<rparr>, did_update)
               else Ok (i, False))))"

section \<open>Listing\<close>

text \<open>\<open>EnsureGVK\<close> only asks the client, which may fail; the kind is not part of the model.\<close>

definition ensure_gvk :: "(kube, unit) call" where
  "ensure_gvk = api (ret ())"

text \<open>Stable, newest (largest name) first.\<close>

definition sort_newest_first :: "installation list \<Rightarrow> installation list" where
  "sort_newest_first ins = rev (sort_key in_name (rev ins))"

text \<open>The loop runs from the oldest installation to the newest.\<close>

fun override_loop :: "'v lib \<Rightarrow> installation option \<Rightarrow> installation list \<Rightarrow> (kube, installation list) call" where
  "override_loop L previous [] = ret []"
| "override_loop L previous (i # is) =
     bind (wrap ''override installation data dirs''
             (lift (maybe_override_installation_data_dirs L i previous))) (\<lambda>(install, did_update).
     bind (if did_update
           then wrap ''update installation with legacy data dirs''
                  (update_installation L install
                     (\<lambda>x. x\<lparr>in_spec := (in_spec x)\<lparr>runtime_config := runtime_config (in_spec install)\<rparr>\<rparr>))
           else ret install) (\<lambda>install'.
     bind (wrap (''ensure gvk for installation '' @ in_name install') ensure_gvk) (\<lambda>_.
     bind (override_loop L (Some install') is) (\<lambda>rest.
     ret (install' # rest)))))"

definition list_installations :: "'v lib \<Rightarrow> (kube, installation list) call" where
  "list_installations L = bind (attempt list_installs) (\<lambda>r. case r of
      Inl e \<Rightarrow> if is_no_match e then throw ENoInstallations else throw e
    | Inr items \<Rightarrow>
        bind (override_loop L None (rev (sort_newest_first items))) (\<lambda>asc. ret (rev asc)))"

definition get_installation :: "'v lib \<Rightarrow> string \<Rightarrow> (kube, installation) call" where
  "get_installation L name = bind (list_installations L) (\<lambda>ins.
     if ins = [] then throw ENoInstallations
     else case List.find (\<lambda>i. in_name i = name) ins of
            Some i \<Rightarrow> ret i
          | None \<Rightarrow> throw EInstallationNotFound)"

definition get_latest_installation :: "'v lib \<Rightarrow> (kube, installation) call" where
  "get_latest_installation L = bind (list_installations L) (\<lambda>ins.
     case ins of [] \<Rightarrow> throw ENoInstallations | i # _ \<Rightarrow> ret i)"

definition get_previous_installation :: "'v lib \<Rightarrow> installation \<Rightarrow> (kube, installation) call" where
  "get_previous_installation L i = bind (list_installations L) (\<lambda>ins.
     if ins = [] then throw ENoInstallations
     else case List.find (\<lambda>x. in_name x \<noteq> in_name i) ins of
            Some x \<Rightarrow> ret x
          | None \<Rightarrow> throw EInstallationNotFound)"

section \<open>Recording\<close>

definition map_set :: "'k \<Rightarrow> 'v \<Rightarrow> ('k \<times> 'v) list \<Rightarrow> ('k \<times> 'v) list" where
  "map_set k v m = (k, v) # filter (\<lambda>p. fst p \<noteq> k) m"

lemma map_set_lookup: "map_of (map_set k v m) x = (if x = k then Some v else map_of m x)"
  by (induction m) (auto simp: map_set_def)

text \<open>
  \<open>CreateInstallation\<close> retries while the API server does not know the kind yet, five times.
\<close>

definition create_installation_try :: "installation \<Rightarrow> unit \<Rightarrow> (kube, unit + unit) call" where
  "create_installation_try x _ = bind (attempt (create_install x)) (\<lambda>r. case r of
      Inr _ \<Rightarrow> ret (Inr ())
    | Inl e \<Rightarrow> if is_no_match e then ret (Inl ()) else throw e)"

definition create_installation :: "'v lib \<Rightarrow> installation \<Rightarrow> (kube, installation) call" where
  "create_installation L i =
     (let x = i\<lparr>in_spec := (in_spec i)\<lparr>source_type := ''CRD''\<rparr>,
               in_labels := map_set ''replicated.com/disaster-recovery'' ''ec-install'' (in_labels i)\<rparr>
      in bind (poll 5 (lib_tick L) (create_installation_try x) ()) (\<lambda>r. case r of
             Inr _ \<Rightarrow> ret x
           | Inl _ \<Rightarrow> throw (EMsg ''timed out waiting for the condition'')))"

definition find_crd :: "crd list \<Rightarrow> string \<Rightarrow> crd option" where
  "find_crd cs n = List.find (\<lambda>c. crd_name c = n) cs"

definition get_crd :: "string \<Rightarrow> (kube, crd) call" where
  "get_crd n = api (\<lambda>w. case find_crd (crds w) n of
      None \<Rightarrow> (Err (ENotFound n), w) | Some c \<Rightarrow> (Ok c, w))"

definition create_crd :: "crd \<Rightarrow> (kube, unit) call" where
  "create_crd c = api (\<lambda>w. case find_crd (crds w) (crd_name c) of
      Some _ \<Rightarrow> (Err (EAlreadyExists (crd_name c)), w)
    | None \<Rightarrow> (Ok (), w\<lparr>crds := crds w @ [c]\<rparr>))"

definition write_crd :: "crd \<Rightarrow> (kube, unit) call" where
  "write_crd c = api (\<lambda>w. case find_crd (crds w) (crd_name c) of
      None \<Rightarrow> (Err (ENotFound (crd_name c)), w)
    | Some _ \<Rightarrow> (Ok (), w\<lparr>crds := map (\<lambda>d. if crd_name d = crd_name c then c else d) (crds w)\<rparr>))"

text \<open>
  One try of \<open>WaitForCRDToBeReady\<close>: the CRD is read, must be established, and listing its first
  served version (the answer of the client to that call) must not be a missing kind.
\<close>

definition crd_ready_try :: "string \<Rightarrow> unit \<Rightarrow> (kube, unit + unit) call" where
  "crd_ready_try n = (\<lambda>_. bind (attempt (get_crd n)) (\<lambda>r. case r of
      Inl _ \<Rightarrow> ret (Inl ())
    | Inr c \<Rightarrow>
        if \<not> crd_established c then ret (Inl ())
        else if list_all Not (crd_served c) then ret (Inl ())
        else bind (attempt (api (ret ()))) (\<lambda>l. case l of
               Inr _ \<Rightarrow> ret (Inr ())
             | Inl e \<Rightarrow> if is_no_match e then ret (Inl ()) else throw e)))"

definition wait_for_crd_to_be_ready :: "'v lib \<Rightarrow> string \<Rightarrow> (kube, unit) call" where
  "wait_for_crd_to_be_ready L n = bind (poll 600 (lib_tick L) (crd_ready_try n) ()) (\<lambda>r. case r of
      Inr _ \<Rightarrow> ret () | Inl _ \<Rightarrow> throw (EMsg ''timed out waiting for the condition''))"

definition ensure_one_crd :: "'v lib \<Rightarrow> crd outcome \<Rightarrow> (kube, unit) call" where
  "ensure_one_crd L file = bind (wrap ''unmarshal installation CRD'' (lift file)) (\<lambda>c.
     bind (attempt (get_crd (crd_name c))) (\<lambda>r. bind (case r of
       Inl e \<Rightarrow>
         if \<not> is_not_found e then throw (EWrap ''get installation CRD'' e)
         else wrap ''apply installation CRD'' (create_crd (c\<lparr>
                crd_labels := map_set ''app.kubernetes.io/managed-by'' ''Helm'' (crd_labels c),
                crd_annotations := map_set ''meta.helm.sh/release-namespace'' ''embedded-cluster''
                  (map_set ''meta.helm.sh/release-name'' ''embedded-cluster-operator'' (crd_annotations c))\<rparr>))
     | Inr existing \<Rightarrow>
         wrap ''update installation CRD'' (write_crd (existing\<lparr>crd_spec := crd_spec c\<rparr>))) (\<lambda>_.
     wrap ''wait for installation CRD to be ready'' (wait_for_crd_to_be_ready L (crd_name c)))))"

definition ensure_installation_crd :: "'v lib \<Rightarrow> crd outcome list \<Rightarrow> (kube, unit) call" where
  "ensure_installation_crd L crd_files = for_each (ensure_one_crd L) crd_files"

record record_options =
  ro_cluster_id :: string
  ro_is_airgap :: bool
  ro_is_dr_supported :: bool
  ro_is_multi_node_enabled :: bool
  ro_config_spec :: "config_spec option"
  ro_metrics_base_url :: string
  ro_runtime_config :: "runtime_config_spec option"
  ro_end_user_k0s :: "string option"
  ro_airgap_uncompressed_size :: "64 word"
  ro_k0s_image_size :: "64 word"

definition empty_status :: installation_status where
  "empty_status = \<lparr>nodes_status = [], in_state = [], in_reason = [], pending_charts = [], conditions = []\<rparr>"

definition new_installation :: "string \<Rightarrow> string \<Rightarrow> record_options \<Rightarrow> installation" where
  "new_installation now app_slug opts = \<lparr>in_name = now, in_labels = [],
     in_spec = \<lparr>cluster_id = ro_cluster_id opts, metrics_base_url = ro_metrics_base_url opts,
       spec_artifacts = None, spec_config = ro_config_spec opts, binary_name = app_slug,
       spec_license_info = Some \<lparr>is_dr_supported = ro_is_dr_supported opts,
         is_multi_node_enabled = ro_is_multi_node_enabled opts\<rparr>,
       spec_config_secret = None, source_type = [], runtime_config = ro_runtime_config opts,
       high_availability = False, air_gap = ro_is_airgap opts,
       airgap_uncompressed_size = ro_airgap_uncompressed_size opts, k0s_image_size = ro_k0s_image_size opts,
       end_user_k0s_overrides = (case ro_end_user_k0s opts of None \<Rightarrow> [] | Some s \<Rightarrow> s),
       deprecated_proxy = None, deprecated_network = None, deprecated_admin_console = None,
       deprecated_local_artifact_mirror = None\<rparr>,
     in_status = empty_status\<rparr>"

definition record_installation ::
    "'v lib \<Rightarrow> crd outcome list \<Rightarrow> string \<Rightarrow> string \<Rightarrow> record_options \<Rightarrow> (kube, installation) call" where
  "record_installation L crd_files now app_slug opts =
     bind (attempt (create_namespace ''embedded-cluster'')) (\<lambda>r.
     bind (case r of
             Inl e \<Rightarrow> if is_already_exists e then ret () else throw (EWrap ''create embedded-cluster namespace'' e)
           | Inr _ \<Rightarrow> ret ()) (\<lambda>_.
     bind (wrap ''create installation CRD'' (ensure_installation_crd L crd_files)) (\<lambda>_.
     bind (wrap ''create installation'' (create_installation L (new_installation now app_slug opts))) (\<lambda>i.
     wrap ''set installation state to KubernetesInstalled''
       (set_installation_state L i InstallationStateKubernetesInstalled ''Kubernetes installed'' [])))))"

section \<open>Waiting\<close>

definition pending_of :: "installation \<Rightarrow> chart list \<Rightarrow> nat" where
  "pending_of i charts = length (filter (\<lambda>ch. chart_release ch \<in> set (pending_charts (in_status i))) charts)"

definition write_installation_status_message :: "installation \<Rightarrow> string option" where
  "write_installation_status_message i =
     (if in_state (in_status i) \<noteq> InstallationStatePendingChartCreation then None
      else case Option.bind (spec_config (in_spec i)) ext_helm of
             None \<Rightarrow> None
           | Some h \<Rightarrow>
               let desired = length (helm_charts h); completed = desired - pending_of i (helm_charts h)
               in if completed < desired
                  then Some (''Waiting for additional components to be ready ('' @ show_nat completed @ ''/'' @
                             show_nat desired @ '')'')
                  else Some ''Finalizing additional components'')"

text \<open>The verb \<^verbatim>\<open>%q\<close>, for text without characters to escape.\<close>

definition quote_str :: "string \<Rightarrow> string" where
  "quote_str s = CHR 0x22 # s @ [CHR 0x22]"

definition installation_try :: "'v lib \<Rightarrow> bool \<Rightarrow> err option \<Rightarrow> (kube, err option + unit) call" where
  "installation_try L writer lasterr = bind (attempt (get_latest_installation L)) (\<lambda>r. case r of
      Inl e \<Rightarrow> ret (Inl (Some (EMsg (''unable to get latest installation: '' @ err_text e))))
    | Inr i \<Rightarrow>
        bind (case (if writer then write_installation_status_message i else None) of
                None \<Rightarrow> ret () | Some msg \<Rightarrow> emit (Progress ''installation'' msg)) (\<lambda>_.
        if in_state (in_status i) = InstallationStateInstalled then ret (Inr ())
        else if in_state (in_status i) = InstallationStateFailed
        then throw (EMsg (''installation failed: '' @ in_reason (in_status i)))
        else if in_state (in_status i) = InstallationStateHelmChartUpdateFailure
        then throw (EMsg (''helm chart installation failed: '' @ in_reason (in_status i)))
        else ret (Inl (Some (EMsg (''installation state is '' @ quote_str (in_state (in_status i)) @ '' ('' @
               quote_str (in_reason (in_status i)) @ '')''))))))"

definition wait_for_installation :: "'v lib \<Rightarrow> bool \<Rightarrow> (kube, unit) call" where
  "wait_for_installation L writer =
     bind (attempt (poll 300 (lib_tick L) (installation_try L writer) None)) (\<lambda>r. case r of
         Inl e \<Rightarrow> throw (EMsg (''error waiting for installation: '' @ err_text e))
       | Inr (Inr _) \<Rightarrow> ret ()
       | Inr (Inl (Some e)) \<Rightarrow> throw (EMsg (''timed out waiting for the installation to finish: '' @ err_text e))
       | Inr (Inl None) \<Rightarrow> throw (EMsg ''timed out waiting for the installation to finish''))"

section \<open>Retiring\<close>

text \<open>\<^verbatim>\<open>pkg-new/upgrade/installation.go\<close>: slicing \<open>ins[1:]\<close> of an empty list panics.\<close>

definition retire_one :: "'v lib \<Rightarrow> installation \<Rightarrow> (kube, unit) call" where
  "retire_one L i =
     (if in_state (in_status i) = InstallationStateObsolete then ret ()
      else bind (wrap ''update installation'' (update_installation_status L i
             (\<lambda>s. set_state InstallationStateObsolete ''This is not the most recent installation object'' []
                    (s\<lparr>nodes_status := []\<rparr>)))) (\<lambda>_. ret ()))"

definition disable_old_installations :: "'v lib \<Rightarrow> (kube, unit) call" where
  "disable_old_installations L = bind (wrap ''list installations'' (list_installations L)) (\<lambda>ins.
     case ins of [] \<Rightarrow> lift (Panic ''slice bounds out of range'')
     | _ # old \<Rightarrow> for_each (retire_one L) old)"

definition upgrade_create_installation ::
    "'v lib \<Rightarrow> crd outcome list \<Rightarrow> installation \<Rightarrow> (kube, unit) call" where
  "upgrade_create_installation L crd_files original =
     bind (attempt (get_installation L (in_name original))) (\<lambda>r. case r of
       Inr _ \<Rightarrow> ret ()
     | Inl _ \<Rightarrow>
         bind (wrap ''upgrade installation CRD'' (ensure_installation_crd L crd_files)) (\<lambda>_.
         bind (wrap ''create installation'' (create_installation L original)) (\<lambda>i.
         bind (wrap ''update installation status''
                 (set_installation_state L i InstallationStateInstalling ''Upgrading Kubernetes'' [''''])) (\<lambda>_.
         bind (attempt (disable_old_installations L)) (\<lambda>_. ret ())))))"

section \<open>Listing: order, contents and legacy directories\<close>

lemma mset_sort_newest_first [simp]: "mset (sort_newest_first ins) = mset ins"
  by (simp add: sort_newest_first_def)

lemma sorted_newest_first: "sorted (map in_name (rev (sort_newest_first ins)))"
  by (simp add: sort_newest_first_def)

lemma override_keeps: "maybe_override_installation_data_dirs L i p = Ok (j, False) \<Longrightarrow> j = i"
  by (auto simp: maybe_override_installation_data_dirs_def Let_def rc_or_empty_def legacy_data_dirs_def
      empty_runtime_config_def split: option.splits if_splits)

lemma override_name: "maybe_override_installation_data_dirs L i p = Ok (j, b) \<Longrightarrow> in_name j = in_name i"
  by (auto simp: maybe_override_installation_data_dirs_def Let_def split: option.splits if_splits)

text \<open>What an older installation asks of the next newer one.\<close>

definition is_legacy :: "'v lib \<Rightarrow> installation \<Rightarrow> bool" where
  "is_legacy L p \<longleftrightarrow> (case spec_config (in_spec p) of None \<Rightarrow> False
     | Some c \<Rightarrow> ec_version c \<noteq> [] \<and> (case lib_semver_new L (ec_version c) of
         Ok ver \<Rightarrow> less_than_ec_version_115 L ver | _ \<Rightarrow> False))"

definition has_legacy_dirs :: "installation \<Rightarrow> bool" where
  "has_legacy_dirs i \<longleftrightarrow> (case runtime_config (in_spec i) of None \<Rightarrow> False
     | Some rc \<Rightarrow> k0s_data_dir_override rc = ''/var/lib/k0s'' \<and> openebs_data_dir_override rc = ''/var/openebs'')"

lemma override_legacy:
  assumes over: "maybe_override_installation_data_dirs L i (Some p) = Ok (j, b)" and old: "is_legacy L p"
  shows "has_legacy_dirs j"
proof -
  from old obtain c ver where c: "spec_config (in_spec p) = Some c" "ec_version c \<noteq> []"
    and ver: "lib_semver_new L (ec_version c) = Ok ver" "less_than_ec_version_115 L ver"
    by (auto simp: is_legacy_def split: option.splits outcome.splits)
  with over show ?thesis
    by (simp add: maybe_override_installation_data_dirs_def Let_def) (auto simp: has_legacy_dirs_def legacy_data_dirs_def)
qed

lemma keeps_ensure_gvk: "keeps installs_only ensure_gvk"
  unfolding ensure_gvk_def by (intro io.kube_frame_rules)

lemma keeps_list_installs: "keeps installs_only list_installs"
  unfolding list_installs_def by (intro io.kube_frame_rules)

lemma keeps_override_loop: "keeps installs_only (override_loop L p is)"
proof (induction "is" arbitrary: p)
  case (Cons i "is")
  show ?case unfolding override_loop.simps
    by (intro io.kube_frame_rules keeps_ensure_gvk keeps_status_calls Cons.IH)
qed (simp add: io.keeps_ret)

lemma keeps_list_installations: "keeps installs_only (list_installations L)"
  unfolding list_installations_def
  by (intro io.kube_frame_rules keeps_list_installs keeps_override_loop)

lemma ensure_gvk_Ok: "ensure_gvk w = (Ok u, w') \<Longrightarrow> \<exists>fs. w' = w\<lparr>faults := fs\<rparr>"
  unfolding ensure_gvk_def by (drule api_Ok) auto

lemma list_installs_Ok: "list_installs w = (Ok ins, w') \<Longrightarrow> ins = installs w \<and> (\<exists>fs. w' = w\<lparr>faults := fs\<rparr>)"
  unfolding list_installs_def by (drule api_Ok) auto

fun legacy_chain :: "'v lib \<Rightarrow> installation option \<Rightarrow> installation list \<Rightarrow> bool" where
  "legacy_chain L p [] = True"
| "legacy_chain L p (i # is) =
     ((case p of None \<Rightarrow> True | Some q \<Rightarrow> is_legacy L q \<longrightarrow> has_legacy_dirs i) \<and> legacy_chain L (Some i) is)"

lemma legacy_chain_nth: "legacy_chain L p is \<Longrightarrow> Suc k < length is \<Longrightarrow> is_legacy L (is ! k) \<Longrightarrow>
    has_legacy_dirs (is ! Suc k)"
proof (induction "is" arbitrary: p k)
  case (Cons i "is")
  show ?case
  proof (cases k)
    case 0
    with Cons.prems show ?thesis by (cases "is") auto
  next
    case (Suc m)
    with Cons.prems Cons.IH [of "Some i" m] show ?thesis by simp
  qed
qed simp

lemma override_step:
  assumes over: "maybe_override_installation_data_dirs L i p = Ok (j, b)"
    and upd: "(if b then update_installation L j
        (\<lambda>x. x\<lparr>in_spec := (in_spec x)\<lparr>runtime_config := runtime_config (in_spec j)\<rparr>\<rparr>) else ret j) w = (Ok x, w')"
    and stored: "find_install (installs w) (in_name i) = Some i"
  shows "in_name x = in_name i" "\<exists>fs. w' = w\<lparr>faults := fs, installs := put_install x (installs w)\<rparr> \<or> w' = w \<and> x = i"
    "find_install (installs w') (in_name i) = Some x"
    "p = Some q \<Longrightarrow> is_legacy L q \<Longrightarrow> has_legacy_dirs x"
proof -
  have j: "in_name j = in_name i" using over by (rule override_name)
  have "in_name x = in_name i \<and>
    (\<exists>fs. w' = w\<lparr>faults := fs, installs := put_install x (installs w)\<rparr> \<or> w' = w \<and> x = i) \<and>
    (p = Some q \<longrightarrow> is_legacy L q \<longrightarrow> has_legacy_dirs x)"
  proof (cases b)
    case False
    with over override_keeps upd have "j = i" "x = j" "w' = w" by (auto simp: ret_def)
    with override_legacy [of L i q j b] over show ?thesis by auto
  next
    case True
    let ?f = "\<lambda>x. x\<lparr>in_spec := (in_spec x)\<lparr>runtime_config := runtime_config (in_spec j)\<rparr>\<rparr>"
    from True upd have "update_installation L j ?f w = (Ok x, w')" by simp
    from update_installation_Ok [OF this] obtain fs where
      x: "x = (?f i)\<lparr>in_status := in_status i\<rparr>"
      and w': "w' = w\<lparr>faults := fs, installs := put_install x (installs w)\<rparr>"
      using stored j by auto
    have "has_legacy_dirs x = has_legacy_dirs j" by (simp add: x has_legacy_dirs_def)
    with override_legacy [of L i q j b] over x w' show ?thesis by auto
  qed
  then show "in_name x = in_name i"
    "\<exists>fs. w' = w\<lparr>faults := fs, installs := put_install x (installs w)\<rparr> \<or> w' = w \<and> x = i"
    "find_install (installs w') (in_name i) = Some x"
    "p = Some q \<Longrightarrow> is_legacy L q \<Longrightarrow> has_legacy_dirs x"
    using stored by (auto simp: ist.lookup_put)
qed

lemma override_loop_Ok:
  assumes "override_loop L p is w = (Ok out, w')" "distinct (map in_name is)"
    and "\<And>i. i \<in> set is \<Longrightarrow> find_install (installs w) (in_name i) = Some i"
  shows "map in_name out = map in_name is \<and> legacy_chain L p out \<and>
    (\<forall>i \<in> set out. find_install (installs w') (in_name i) = Some i) \<and>
    (\<forall>n. n \<notin> in_name ` set is \<longrightarrow> find_install (installs w') n = find_install (installs w) n)"
  using assms
proof (induction "is" arbitrary: p w out)
  case (Cons i "is")
  from Cons.prems(1) obtain j b x w1 w2 rest where
    over: "maybe_override_installation_data_dirs L i p = Ok (j, b)"
    and upd: "(if b then update_installation L j
        (\<lambda>x. x\<lparr>in_spec := (in_spec x)\<lparr>runtime_config := runtime_config (in_spec j)\<rparr>\<rparr>) else ret j) w = (Ok x, w1)"
    and gvk: "ensure_gvk w1 = (Ok (), w2)"
    and rest: "override_loop L (Some x) is w2 = (Ok rest, w')" and out: "out = x # rest"
    by (auto simp: call_Ok_iffs split: if_splits)
  note step = override_step [OF over upd Cons.prems(3) [OF list.set_intros(1)]]
  have other: "find_install (installs w1) n = find_install (installs w) n" if "n \<noteq> in_name i" for n
    using step(1,2) that by (auto simp: ist.lookup_put)
  have w2: "installs w2 = installs w1" using ensure_gvk_Ok [OF gvk] by auto
  have new: "in_name k \<noteq> in_name i" if "k \<in> set is" for k
    using Cons.prems(2) that by (metis distinct.simps(2) imageI list.set_map list.simps(9))
  have "find_install (installs w2) (in_name k) = Some k" if "k \<in> set is" for k
    using Cons.prems(3) [of k] other new that w2 by simp
  from Cons.IH [OF rest _ this] Cons.prems(2)
  have IH: "map in_name rest = map in_name is" "legacy_chain L (Some x) rest"
    "\<forall>k \<in> set rest. find_install (installs w') (in_name k) = Some k"
    "\<forall>n. n \<notin> in_name ` set is \<longrightarrow> find_install (installs w') n = find_install (installs w2) n"
    by auto
  have "find_install (installs w') (in_name x) = Some x"
    using IH(4) new w2 step(1,3) by (metis imageE)
  moreover have "\<forall>n. n \<notin> in_name ` set (i # is) \<longrightarrow> find_install (installs w') n = find_install (installs w) n"
    using IH(4) w2 other by simp
  moreover have "legacy_chain L p out" using IH(2) step(4) by (auto simp: out split: option.splits)
  ultimately show ?case using IH(1,3) step(1) by (simp add: out)
qed auto

lemma find_install_distinct: "distinct (map in_name ins) \<Longrightarrow> i \<in> set ins \<Longrightarrow> find_install ins (in_name i) = Some i"
  by (induction ins) auto

text \<open>The names decide the order, so what is listed is the store after the call, newest first.\<close>

lemma list_installations_Ok:
  assumes run: "list_installations L w = (Ok ins, w')" and names: "distinct (map in_name (installs w))"
  shows "map in_name ins = rev (sort (map in_name (installs w)))"
    "distinct (map in_name ins)"
    "\<forall>i \<in> set ins. find_install (installs w') (in_name i) = Some i"
    "legacy_chain L None (rev ins)"
    "installs_only w w'"
proof -
  from run obtain items w1 asc where l: "list_installs w = (Ok items, w1)"
    and loop: "override_loop L None (rev (sort_newest_first items)) w1 = (Ok asc, w')"
    and ins: "ins = rev asc"
    unfolding list_installations_def by (auto simp: call_Ok_iffs split: if_splits)
  from list_installs_Ok [OF l] obtain fs where items: "items = installs w" and w1: "w1 = w\<lparr>faults := fs\<rparr>"
    by auto
  let ?is = "rev (sort_newest_first (installs w))"
  have perm: "mset ?is = mset (installs w)" by simp
  then have pnames: "mset (map in_name ?is) = mset (map in_name (installs w))" by simp
  have d: "distinct (map in_name ?is)" using names pnames mset_eq_imp_distinct_iff by blast
  have stored: "find_install (installs w1) (in_name i) = Some i" if "i \<in> set ?is" for i
    using that find_install_distinct [OF names] mset_eq_setD [OF perm] by (simp add: w1)
  note o = override_loop_Ok [OF loop [unfolded items] d stored]
  have "sort (map in_name (installs w)) = map in_name ?is"
    using pnames sorted_newest_first by (intro properties_for_sort) simp_all
  then show n: "map in_name ins = rev (sort (map in_name (installs w)))"
    using o by (simp add: ins rev_map [symmetric])
  then show "distinct (map in_name ins)" using names by simp
  show "\<forall>i \<in> set ins. find_install (installs w') (in_name i) = Some i"
    and "legacy_chain L None (rev ins)" using o by (simp_all add: ins)
  show "installs_only w w'" using keepsD [OF keeps_list_installations run] .
qed

lemma list_installations_set:
  assumes run: "list_installations L w = (Ok ins, w')" and names: "distinct (map in_name (installs w))"
  shows "set ins = set (installs w')"
proof (intro equalityI subsetI)
  note l = list_installations_Ok [OF run names]
  have wn: "map in_name (installs w') = map in_name (installs w)"
    using installs_only_names [OF l(5)] .
  fix i assume "i \<in> set ins"
  then show "i \<in> set (installs w')" using l(3) find_install_name by blast
next
  note l = list_installations_Ok [OF run names]
  have wn: "map in_name (installs w') = map in_name (installs w)"
    using installs_only_names [OF l(5)] .
  fix j assume j: "j \<in> set (installs w')"
  have "in_name ` set ins = in_name ` set (installs w')"
    using arg_cong [OF l(1), of set] arg_cong [OF wn, of set] by simp
  then obtain i where i: "i \<in> set ins" "in_name i = in_name j" using j by (metis imageE imageI)
  have "find_install (installs w') (in_name j) = Some j"
    using find_install_distinct j names wn by metis
  with i l(3) show "j \<in> set ins" by force
qed

lemma newest_first_nth:
  assumes "map in_name ins = rev (sort ns)" "distinct ns" "i < j" "j < length ins"
  shows "in_name (ins ! j) < in_name (ins ! i)"
proof -
  have s: "sorted_wrt (<) (sort ns)" using assms(2) by (simp add: strict_sorted_iff)
  have len: "length (sort ns) = length ins" using arg_cong [OF assms(1), of length] by simp
  have "in_name (ins ! k) = sort ns ! (length ins - Suc k)" if "k < length ins" for k
    using that len assms(1) by (metis length_rev nth_map rev_nth)
  then show ?thesis using assms(3,4) s len by (simp add: sorted_wrt_nth_less)
qed

section \<open>Choosing an installation\<close>

lemma get_latest_installation_Ok:
  assumes run: "get_latest_installation L w = (Ok i, w')" and names: "distinct (map in_name (installs w))"
  shows "i \<in> set (installs w')" "\<forall>j \<in> set (installs w'). in_name j \<le> in_name i"
    "find_install (installs w') (in_name i) = Some i" "installs_only w w'"
proof -
  from run obtain ins w1 where l1: "list_installations L w = (Ok ins, w1)"
    and c: "(case ins of [] \<Rightarrow> throw ENoInstallations | i # _ \<Rightarrow> ret i) w1 = (Ok i, w')"
    unfolding get_latest_installation_def bind_Ok_iff by blast
  then obtain rest where l: "list_installations L w = (Ok (i # rest), w')" by (cases ins) auto
  note ls = list_installations_Ok [OF l names] and st = list_installations_set [OF l names]
  show "i \<in> set (installs w')" using st by auto
  have "in_name j \<le> in_name i" if j: "j \<in> set (i # rest)" for j
  proof -
    from j obtain k where k: "k < length (i # rest)" "j = (i # rest) ! k" by (metis in_set_conv_nth)
    show ?thesis using newest_first_nth [OF ls(1) names, of 0 k] k by (cases k) auto
  qed
  then show "\<forall>j \<in> set (installs w'). in_name j \<le> in_name i" using st by auto
  show "find_install (installs w') (in_name i) = Some i" using ls(3) by simp
  show "installs_only w w'" by (rule ls(5))
qed

lemma get_previous_installation_Ok:
  assumes run: "get_previous_installation L i w = (Ok p, w')" and names: "distinct (map in_name (installs w))"
  shows "p \<in> set (installs w')" "in_name p \<noteq> in_name i"
    "\<forall>j \<in> set (installs w'). in_name j \<noteq> in_name i \<longrightarrow> in_name j \<le> in_name p"
proof -
  from run obtain ins where l: "list_installations L w = (Ok ins, w')"
    and find: "List.find (\<lambda>x. in_name x \<noteq> in_name i) ins = Some p"
    by (auto simp: get_previous_installation_def call_Ok_iffs split: if_splits option.splits)
  note ls = list_installations_Ok [OF l names] and st = list_installations_set [OF l names]
  from find obtain n where n: "n < length ins" "p = ins ! n" "in_name p \<noteq> in_name i"
    "\<forall>k < n. in_name (ins ! k) = in_name i"
    unfolding find_Some_iff by auto
  show "p \<in> set (installs w')" "in_name p \<noteq> in_name i" using st n by auto
  have "in_name j \<le> in_name p" if j: "j \<in> set ins" "in_name j \<noteq> in_name i" for j
  proof -
    from j obtain k where k: "k < length ins" "j = ins ! k" by (metis in_set_conv_nth)
    with n j(2) have "n \<le> k" using not_le by blast
    then show ?thesis using newest_first_nth [OF ls(1) names, of n k] k n(2) by (cases "n = k") auto
  qed
  then show "\<forall>j \<in> set (installs w'). in_name j \<noteq> in_name i \<longrightarrow> in_name j \<le> in_name p" using st by simp
qed

section \<open>Retiring\<close>

lemma retire_one_Ok:
  assumes run: "retire_one L i w = (Ok u, w')" and stored: "find_install (installs w) (in_name i) = Some i"
  shows "\<exists>x. find_install (installs w') (in_name i) = Some x \<and> in_state (in_status x) = InstallationStateObsolete"
    "n \<noteq> in_name i \<Longrightarrow> find_install (installs w') n = find_install (installs w) n"
proof -
  have "(\<exists>x. find_install (installs w') (in_name i) = Some x \<and> in_state (in_status x) = InstallationStateObsolete) \<and>
    (n \<noteq> in_name i \<longrightarrow> find_install (installs w') n = find_install (installs w) n)"
  proof (cases "in_state (in_status i) = InstallationStateObsolete")
    case True
    with run stored show ?thesis by (simp add: retire_one_def)
  next
    case False
    with run obtain x where "update_installation_status L i (\<lambda>s. set_state InstallationStateObsolete
        ''This is not the most recent installation object'' [] (s\<lparr>nodes_status := []\<rparr>)) w = (Ok x, w')"
      by (auto simp: retire_one_def call_Ok_iffs)
    from update_installation_status_Ok [OF this] stored show ?thesis
      by (auto simp: ist.lookup_put set_state_def)
  qed
  then show "\<exists>x. find_install (installs w') (in_name i) = Some x \<and> in_state (in_status x) = InstallationStateObsolete"
    "n \<noteq> in_name i \<Longrightarrow> find_install (installs w') n = find_install (installs w) n" by auto
qed

lemma retire_all_Ok:
  assumes "for_each (retire_one L) old w = (Ok u, w')" "distinct (map in_name old)"
    and "\<And>i. i \<in> set old \<Longrightarrow> find_install (installs w) (in_name i) = Some i"
  shows "(\<forall>i \<in> set old. \<exists>x. find_install (installs w') (in_name i) = Some x \<and>
      in_state (in_status x) = InstallationStateObsolete) \<and>
    (\<forall>n. n \<notin> in_name ` set old \<longrightarrow> find_install (installs w') n = find_install (installs w) n)"
  using assms
proof (induction old arbitrary: w)
  case (Cons i old)
  from Cons.prems(1) obtain w1 where one: "retire_one L i w = (Ok (), w1)"
    and rest: "for_each (retire_one L) old w1 = (Ok u, w')"
    by (auto simp: call_Ok_iffs)
  note o = retire_one_Ok [OF one Cons.prems(3) [OF list.set_intros(1)]]
  have i: "in_name i \<notin> in_name ` set old" using Cons.prems(2) by simp
  have "find_install (installs w1) (in_name k) = Some k" if "k \<in> set old" for k
    using Cons.prems(3) [of k] o(2) [of "in_name k"] i that by (metis imageI list.set_intros(2))
  from Cons.IH [OF rest _ this] Cons.prems(2)
  have IH: "\<forall>k \<in> set old. \<exists>x. find_install (installs w') (in_name k) = Some x \<and>
      in_state (in_status x) = InstallationStateObsolete"
    "\<forall>n. n \<notin> in_name ` set old \<longrightarrow> find_install (installs w') n = find_install (installs w1) n" by auto
  have "find_install (installs w') (in_name i) = find_install (installs w1) (in_name i)" using IH(2) i by blast
  with o IH show ?case by auto
qed simp

section \<open>Whose status a call leaves alone\<close>

definition status_of :: "kube \<Rightarrow> string \<Rightarrow> installation_status option" where
  "status_of w n = map_option in_status (find_install (installs w) n)"

definition status_kept :: "string \<Rightarrow> kube \<Rightarrow> kube \<Rightarrow> bool" where
  "status_kept n w w' \<longleftrightarrow> status_of w' n = status_of w n"

interpretation st: kube_frame "status_kept n" for n
  by unfold_locales (auto simp: status_kept_def status_of_def)

lemma keeps_status_get: "keeps (status_kept n) (get_install m)"
  unfolding get_install_def
  by (rule st.keeps_api) (auto simp: keeps_def st.frame_refl split: option.splits)

lemma keeps_status_write: "keeps (status_kept n) (write_install x)"
  unfolding write_install_def
  by (rule st.keeps_api)
     (auto simp: keeps_def status_kept_def status_of_def ist.lookup_put dest: ist.lookup_key split: option.splits)

lemma keeps_status_write_status: "in_name x \<noteq> n \<Longrightarrow> keeps (status_kept n) (write_install_status x)"
  unfolding write_install_status_def
  by (rule st.keeps_api)
     (auto simp: keeps_def status_kept_def status_of_def ist.lookup_put dest: ist.lookup_key split: option.splits)

lemma keeps_status_update: "keeps (status_kept n) (update_installation L i f)"
  unfolding update_installation_def by (intro st.kube_frame_rules keeps_status_get keeps_status_write)

lemma keeps_status_update_status:
  assumes "in_name i \<noteq> n"
  shows "keeps (status_kept n) (update_installation_status L i f)"
  unfolding update_installation_status_def Let_def
proof (intro st.keeps_retry st.keeps_bind_from st.keeps_wrap keeps_status_get st.keeps_ret)
  fix w cur w'
  assume "wrap ''get installation before updating status'' (get_install (in_name i)) w = (Ok cur, w')"
  then have "in_name cur = in_name i" 
    by (auto simp: wrap_Ok_iff dest!: get_install_Ok ist.lookup_key)
  then show "keeps (status_kept n) (write_install_status (cur\<lparr>in_status := f (in_status cur)\<rparr>))"
    using assms by (intro keeps_status_write_status) simp
qed

lemma keeps_status_override_loop: "keeps (status_kept n) (override_loop L p is)"
proof (induction "is" arbitrary: p)
  case (Cons i "is")
  show ?case unfolding override_loop.simps ensure_gvk_def
    by (intro st.kube_frame_rules keeps_status_update Cons.IH)
qed (simp add: st.keeps_ret)

lemma keeps_status_list: "keeps (status_kept n) (list_installations L)"
  unfolding list_installations_def list_installs_def
  by (intro st.kube_frame_rules keeps_status_override_loop)

lemma keeps_retire_one: "keeps installs_only (retire_one L i)"
  unfolding retire_one_def by (intro io.kube_frame_rules keeps_status_calls)

lemma keeps_retire_all: "keeps installs_only (for_each (retire_one L) is)"
  by (intro io.kube_frame_rules keeps_retire_one)

section \<open>Waiting keeps the names\<close>

definition names_kept :: "kube \<Rightarrow> kube \<Rightarrow> bool" where
  "names_kept w w' \<longleftrightarrow> map in_name (installs w') = map in_name (installs w)"

interpretation nk: kube_frame names_kept
  by unfold_locales (auto simp: names_kept_def)

lemma keeps_names: "keeps installs_only m \<Longrightarrow> keeps names_kept m"
  by (auto simp: keeps_def names_kept_def dest: installs_only_names)

lemma keeps_names_emit: "keeps names_kept (emit e)"
  by (simp add: keeps_def emit_def modify_def names_kept_def)

lemma keeps_names_installation_try: "keeps names_kept (installation_try L writer t)"
  unfolding installation_try_def get_latest_installation_def
  by (intro nk.kube_frame_rules keeps_names_emit keeps_names [OF keeps_list_installations])

section \<open>Creating\<close>

definition installs_same :: "kube \<Rightarrow> kube \<Rightarrow> bool" where
  "installs_same w w' \<longleftrightarrow> installs w' = installs w"

interpretation same: kube_frame installs_same
  by unfold_locales (auto simp: installs_same_def)

lemma keeps_same_crd:
  "keeps installs_same (get_crd n)" "keeps installs_same (create_crd c)" "keeps installs_same (write_crd c)"
  unfolding get_crd_def create_crd_def write_crd_def
  by (rule same.keeps_api; auto simp: keeps_def installs_same_def split: option.splits)+

lemma keeps_same_ensure_crd:
  assumes "\<And>v. installs (lib_tick L v) = installs v"
  shows "keeps installs_same (ensure_installation_crd L fs)"
  unfolding ensure_installation_crd_def ensure_one_crd_def wait_for_crd_to_be_ready_def crd_ready_try_def
  by (intro same.kube_frame_rules same.keeps_poll keeps_same_crd) (simp add: installs_same_def assms)

lemma create_install_Ok: "create_install x w = (Ok u, w') \<Longrightarrow>
    \<exists>fs. w' = w\<lparr>faults := fs, installs := installs w @ [x\<lparr>in_status := empty_status\<rparr>]\<rparr> \<and>
      find_install (installs w) (in_name x) = None"
  unfolding create_install_def by (drule api_Ok) (auto simp: empty_status_def split: option.splits)

lemma create_install_no_match:
  "create_install x w = (Err e, w') \<Longrightarrow> is_no_match e \<Longrightarrow> installs w' = installs w"
  unfolding create_install_def by (drule api_Err) (auto split: option.splits)

lemma create_installation_Ok:
  assumes tick: "\<And>v. installs (lib_tick L v) = installs v"
    and run: "create_installation L i w = (Ok x, w')"
  shows "in_name x = in_name i" "find_install (installs w) (in_name i) = None"
    "installs w' = installs w @ [x\<lparr>in_status := empty_status\<rparr>]"
    "in_spec x = (in_spec i)\<lparr>source_type := ''CRD''\<rparr>"
proof -
  let ?x = "i\<lparr>in_spec := (in_spec i)\<lparr>source_type := ''CRD''\<rparr>,
      in_labels := map_set ''replicated.com/disaster-recovery'' ''ec-install'' (in_labels i)\<rparr>"
  let ?t = "create_installation_try ?x"
  let ?I = "\<lambda>v. installs v = installs w"
  from run have x: "x = ?x" and "poll 5 (lib_tick L) ?t () w = (Ok (Inr ()), w')"
    unfolding create_installation_def Let_def bind_Inr_Ok_iff by auto
  note p = this(2)
  have tries: "?I v'" if "?I v" "?t t v = (Ok (Inl t'), v')" for v t t' v'
  proof -
    from that(2) obtain e where "create_install ?x v = (Err e, v')" "is_no_match e"
      by (auto simp: create_installation_try_def call_Ok_iffs split: if_split_asm)
    with that(1) create_install_no_match show ?thesis by simp
  qed
  have "\<exists>t v. ?I v \<and> ?t t v = (Ok (Inr ()), w')"
    by (rule poll_Inr [where I = ?I and cond = ?t, OF p]) (use tick in simp, use tick in simp, rule tries)
  then obtain t v where v: "?I v" and "?t t v = (Ok (Inr ()), w')" by blast
  from this(2) have "create_install ?x v = (Ok (), w')"
    by (auto simp: create_installation_try_def call_Ok_iffs split: if_split_asm)
  from create_install_Ok [OF this] obtain fs where
    "w' = v\<lparr>faults := fs, installs := installs v @ [?x\<lparr>in_status := empty_status\<rparr>]\<rparr>"
    "find_install (installs v) (in_name ?x) = None" by blast
  with v x show "in_name x = in_name i"
    "find_install (installs w) (in_name i) = None"
    "installs w' = installs w @ [x\<lparr>in_status := empty_status\<rparr>]"
    "in_spec x = (in_spec i)\<lparr>source_type := ''CRD''\<rparr>" by simp_all
qed

lemma disable_old_keeps_newest_status:
  assumes names: "distinct (map in_name (installs w))" and n: "n \<in> in_name ` set (installs w)"
    and newest: "\<forall>i \<in> set (installs w). in_name i \<le> n"
    and run: "disable_old_installations L w = (r, w')"
  shows "status_of w' n = status_of w n"
proof (cases "list_installations L w")
  case (Pair lr w1)
  have k: "status_of w1 n = status_of w n" using keepsD [OF keeps_status_list Pair] by (simp add: status_kept_def)
  show ?thesis
  proof (cases lr)
    case (Ok ins)
    note ls = list_installations_Ok [OF Pair [unfolded Ok] names]
    have set: "in_name ` set ins = in_name ` set (installs w)"
      using arg_cong [OF ls(1), of set] by simp
    then obtain i old where ins: "ins = i # old" using n by (cases ins) auto
    have "in_name j < in_name i" if "j \<in> set old" for j
    proof -
      from that obtain k where "k < length old" "j = old ! k" by (metis in_set_conv_nth)
      then show ?thesis using newest_first_nth [OF ls(1) names, of 0 "Suc k"] ins by simp
    qed
    moreover have "in_name i \<le> n" using set ins newest by (metis imageE image_eqI list.set_intros(1))
    moreover have "n \<in> insert (in_name i) (in_name ` set old)" using n set ins by simp
    ultimately have "in_name j \<noteq> n" if "j \<in> set old" for j using that by fastforce
    then have "keeps (status_kept n) (for_each (retire_one L) old)"
      unfolding retire_one_def
      by (intro st.keeps_for_each_in st.kube_frame_rules keeps_status_update_status)
    moreover have "for_each (retire_one L) old w1 = (r, w')"
      using run Pair Ok ins by (simp add: disable_old_installations_def bind_def wrap_def)
    ultimately have "status_kept n w1 w'" by (rule keepsD)
    with k show ?thesis by (simp add: status_kept_def)
  qed (use run Pair k in \<open>simp_all add: disable_old_installations_def bind_def wrap_def\<close>)
qed

lemma keeps_get_installation: "keeps installs_only (get_installation L n)"
  unfolding get_installation_def by (intro io.kube_frame_rules keeps_list_installations)

lemma keeps_disable_old: "keeps installs_only (disable_old_installations L)"
  unfolding disable_old_installations_def
  by (intro io.kube_frame_rules keeps_list_installations keeps_retire_one)

lemma get_installation_present:
  assumes "get_installation L n w = (Ok i, w')" "distinct (map in_name (installs w))"
  shows "n \<in> in_name ` set (installs w)"
proof -
  from assms(1) obtain ins where l: "list_installations L w = (Ok ins, w')"
    and "List.find (\<lambda>i. in_name i = n) ins = Some i"
    by (auto simp: get_installation_def call_Ok_iffs split: if_splits option.splits)
  then have "n \<in> in_name ` set ins" by (auto simp: find_Some_iff)
  then show ?thesis using arg_cong [OF list_installations_Ok(1) [OF l assms(2)], of set] by simp
qed

text \<open>Two installations for the witnesses, the older of a version with the old numbering.\<close>

definition sample_older :: installation where
  "sample_older = sample_install ''1'' InstallationStateInstalled
     \<lparr>in_spec := sample_spec\<lparr>spec_config := Some (sample_config ''1+ec.0'' [])\<rparr>\<rparr>"

definition sample_newer :: installation where
  "sample_newer = sample_install ''2'' InstallationStateInstalled"

definition sample_newer_legacy :: installation where
  "sample_newer_legacy = sample_newer\<lparr>in_spec := (in_spec sample_newer)\<lparr>runtime_config :=
     Some (legacy_data_dirs empty_runtime_config)\<rparr>\<rparr>"

lemma sample_names [simp]: "in_name sample_older = ''1''" "in_name sample_newer = ''2''"
  "in_name sample_newer_legacy = ''2''"
  by (simp_all add: sample_older_def sample_newer_def sample_newer_legacy_def sample_defs)

lemma sample_legacy: "is_legacy sample_lib sample_older"
  by (simp add: is_legacy_def sample_older_def sample_defs less_than_ec_version_115_def is_digit_def)

lemma sample_sort: "sort_newest_first [sample_older, sample_newer] = [sample_newer, sample_older]"
  by (simp add: sort_newest_first_def)

lemma sample_override:
  "maybe_override_installation_data_dirs sample_lib sample_newer (Some sample_older) = Ok (sample_newer_legacy, True)"
  by (simp add: maybe_override_installation_data_dirs_def sample_older_def sample_newer_def
      sample_newer_legacy_def sample_defs less_than_ec_version_115_def is_digit_def Let_def rc_or_empty_def
      empty_runtime_config_def)

lemma sample_list: "list_installations sample_lib (sample_kube [sample_older, sample_newer]) =
    (Ok [sample_newer_legacy, sample_older], sample_kube [sample_older, sample_newer_legacy])"
proof -
  let ?w = "sample_kube [sample_older, sample_newer]"
  have l: "list_installs ?w = (Ok [sample_older, sample_newer], ?w)"
    by (simp add: list_installs_def gets_def)
  have g: "ensure_gvk v = (Ok (), v)" if "faults v = []" for v
    using that by (simp add: ensure_gvk_def ret_def)

  have u: "update_installation sample_lib sample_newer_legacy (\<lambda>x. x\<lparr>in_spec := (in_spec x)\<lparr>runtime_config :=
      runtime_config (in_spec sample_newer_legacy)\<rparr>\<rparr>) ?w =
    (Ok sample_newer_legacy, sample_kube [sample_older, sample_newer_legacy])"
    by (simp add: update_installation_run [where cur = sample_newer] Let_def)
       (simp add: sample_newer_legacy_def)
  show ?thesis
    by (simp add: list_installations_def bind_def wrap_def attempt_def l sample_sort
        maybe_override_installation_data_dirs_def [of _ _ None] lift_def ret_def g sample_override u)
qed

section \<open>Properties\<close>

text \<open>
  A successful listing returns the installations as they are stored after it, each name once,
  newest (largest name) first, and an installation that follows one of an embedded cluster
  version before 1.15 keeps that version's k0s and OpenEBS data directories.
\<close>

theorem list_installations_newest_first:
  assumes "distinct (map in_name (installs w))" and "list_installations L w = (Ok ins, w')"
  shows "map in_name ins = rev (sort (map in_name (installs w'))) \<and>
    set ins = set (installs w') \<and> distinct ins \<and>
    (\<forall>k. Suc k < length ins \<longrightarrow> is_legacy L (ins ! Suc k) \<longrightarrow> has_legacy_dirs (ins ! k))"
proof -
  note ls = list_installations_Ok [OF assms(2,1)]
  have "has_legacy_dirs (ins ! k)" if k: "Suc k < length ins" "is_legacy L (ins ! Suc k)" for k
  proof -
    have "length ins - Suc (length ins - 2 - k) = Suc k" "length ins - Suc (Suc (length ins - 2 - k)) = k"
      using k(1) by auto
    then show ?thesis using legacy_chain_nth [OF ls(4), of "length ins - 2 - k"] k by (simp add: rev_nth)
  qed
  moreover have "map in_name (installs w') = map in_name (installs w)"
    using installs_only_names [OF ls(5)] .
  moreover have "distinct ins" using ls(2) by (simp add: distinct_map)
  ultimately show ?thesis
    using ls(1) list_installations_set [OF assms(2,1)] by simp
qed

theorem list_installations_newest_first_witness:
  "has_legacy_dirs (hd (case fst (list_installations sample_lib (sample_kube [sample_older, sample_newer])) of
     Ok ins \<Rightarrow> ins | _ \<Rightarrow> []))"
proof -
  have "distinct (map in_name (installs (sample_kube [sample_older, sample_newer])))"
    by (simp add: sample_kube_def)
  from list_installations_newest_first [OF this sample_list]
  have "has_legacy_dirs ([sample_newer_legacy, sample_older] ! 0)" using sample_legacy by simp
  then show ?thesis by (simp add: sample_list)
qed

text \<open>
  The previous installation of \<open>i\<close> is a stored one with another name, the newest of those:
  for the newest installation it is the one it replaces.
\<close>

theorem get_previous_installation_is_newest_other:
  assumes "distinct (map in_name (installs w))" and "get_previous_installation L i w = (Ok p, w')"
  shows "p \<in> set (installs w') \<and> in_name p \<noteq> in_name i \<and>
    (\<forall>j \<in> set (installs w'). in_name j \<noteq> in_name i \<longrightarrow> in_name j \<le> in_name p)"
  using get_previous_installation_Ok [OF assms(2,1)] by simp

theorem get_previous_installation_is_newest_other_witness:
  "sample_older \<in> set (installs (snd (get_previous_installation sample_lib sample_newer
     (sample_kube [sample_older, sample_newer]))))"
proof -
  have "distinct (map in_name (installs (sample_kube [sample_older, sample_newer])))"
    by (simp add: sample_kube_def)
  moreover have run: "get_previous_installation sample_lib sample_newer (sample_kube [sample_older, sample_newer]) =
      (Ok sample_older, sample_kube [sample_older, sample_newer_legacy])"
    by (simp add: get_previous_installation_def bind_def sample_list ret_def)
  ultimately show ?thesis using get_previous_installation_is_newest_other by (metis snd_conv)
qed

text \<open>
  When disabling old installations succeeds, every stored installation but the newest is
  Obsolete and the newest one's status is what it was.
\<close>

theorem disable_old_installations_leaves_newest:
  assumes "distinct (map in_name (installs w))" and "disable_old_installations L w = (Ok u, w')"
  shows "\<exists>i \<in> set (installs w'). status_of w' (in_name i) = status_of w (in_name i) \<and>
    (\<forall>j \<in> set (installs w'). in_name j \<le> in_name i \<and>
      (in_name j = in_name i \<or> in_state (in_status j) = InstallationStateObsolete))"
proof -
  from assms(2) obtain ins w1 where l1: "list_installations L w = (Ok ins, w1)"
    and c: "(case ins of [] \<Rightarrow> lift (Panic ''slice bounds out of range'')
      | _ # old \<Rightarrow> for_each (retire_one L) old) w1 = (Ok u, w')"
    unfolding disable_old_installations_def bind_Ok_iff wrap_Ok_iff by blast
  then obtain i old where l: "list_installations L w = (Ok (i # old), w1)"
    and ret: "for_each (retire_one L) old w1 = (Ok u, w')" by (cases ins) auto
  note ls = list_installations_Ok [OF l assms(1)]
  have i: "in_name i \<notin> in_name ` set old" and d: "distinct (map in_name old)" using ls(2) by simp_all
  note r = retire_all_Ok [OF ret d]
  have r1: "\<exists>x. find_install (installs w') (in_name j) = Some x \<and> in_state (in_status x) = InstallationStateObsolete"
    if "j \<in> set old" for j using r ls(3) that by auto
  have r2: "find_install (installs w') (in_name i) = Some i" using r i ls(3) by auto
  have names: "map in_name (installs w') = map in_name (installs w)"
    using keepsD [OF keeps_retire_all ret] ls(5) by (metis installs_only_names)
  have "status_of w1 (in_name i) = status_of w (in_name i)"
    using keepsD [OF keeps_status_list l] by (simp add: status_kept_def)
  then have "status_of w' (in_name i) = status_of w (in_name i)"
    using r2 ls(3) by (simp add: status_of_def)
  moreover have "in_name j \<le> in_name i \<and>
      (in_name j = in_name i \<or> in_state (in_status j) = InstallationStateObsolete)"
    if j: "j \<in> set (installs w')" for j
  proof -
    have fj: "find_install (installs w') (in_name j) = Some j"
      using find_install_distinct [OF _ j] names assms(1) by simp
    have "in_name j \<in> in_name ` set (i # old)"
      using j arg_cong [OF names, of set] arg_cong [OF ls(1), of set] by auto
    then consider "in_name j = in_name i" | y where "y \<in> set old" "in_name j = in_name y" by auto
    then show ?thesis
    proof cases
      case 2
      then obtain k where "k < length old" "y = old ! k" by (metis in_set_conv_nth)
      then have "in_name y < in_name i" using newest_first_nth [OF ls(1) assms(1), of 0 "Suc k"] by simp
      with r1 [OF 2(1)] 2(2) fj show ?thesis by auto
    qed simp
  qed
  ultimately show ?thesis using r2 find_install_name by metis
qed

theorem disable_old_installations_leaves_newest_witness:
  "\<exists>i \<in> set (installs (snd (disable_old_installations sample_lib (sample_kube [sample_older, sample_newer])))).
     in_name i = ''2''"
proof -
  let ?w = "sample_kube [sample_older, sample_newer]"
  have d: "distinct (map in_name (installs ?w))" by (simp add: sample_kube_def)
  have s: "in_state (in_status sample_older) = ''Installed''" by (simp add: sample_older_def sample_install_def)
  have run: "\<exists>w'. disable_old_installations sample_lib ?w = (Ok (), w') \<and> ''2'' \<in> in_name ` set (installs w')"
    by (simp add: disable_old_installations_def bind_def wrap_def sample_list retire_one_def s
        update_installation_status_run [where cur = sample_older] Let_def ret_def)
  then obtain w' where w': "disable_old_installations sample_lib ?w = (Ok (), w')"
    "''2'' \<in> in_name ` set (installs w')" by blast
  from disable_old_installations_leaves_newest [OF d w'(1)] w' show ?thesis by auto
qed

text \<open>
  Waiting for the installation returns without an error only when the newest stored
  installation was just read in state Installed.
\<close>

theorem wait_for_installation_ok:
  assumes "distinct (map in_name (installs w))"
    and "\<And>v. distinct (map in_name (installs v)) \<Longrightarrow> distinct (map in_name (installs (lib_tick L v)))"
    and "wait_for_installation L writer w = (Ok u, w')"
  shows "\<exists>i \<in> set (installs w'). in_state (in_status i) = InstallationStateInstalled \<and>
    (\<forall>j \<in> set (installs w'). in_name j \<le> in_name i)"
proof -
  let ?I = "\<lambda>v. distinct (map in_name (installs v))"
  have tries: "?I v'" if "?I v" "installation_try L writer t v = (Ok (Inl t'), v')" for v t t' v'
    using keepsD [OF keeps_names_installation_try that(2)] that(1) by (simp add: names_kept_def)
  have "\<exists>x. poll 300 (lib_tick L) (installation_try L writer) None w = (Ok (Inr x), w')"
  proof (cases "poll 300 (lib_tick L) (installation_try L writer) None w")
    case (Pair r w1)
    with assms(3) show ?thesis
      by (auto simp: wait_for_installation_def bind_def attempt_def throw_def ret_def
          split: outcome.split_asm sum.split_asm option.split_asm)
  qed
  then obtain x where "poll 300 (lib_tick L) (installation_try L writer) None w = (Ok (Inr x), w')" ..
  then have "\<exists>t v. ?I v \<and> installation_try L writer t v = (Ok (Inr x), w')"
    by (rule poll_Inr [where I = ?I, OF _ assms(1)]) (use assms(2) tries in blast)+
  then obtain t v where v: "?I v" and run: "installation_try L writer t v = (Ok (Inr x), w')" by blast
  then obtain i v1 where latest: "get_latest_installation L v = (Ok i, v1)"
    and rest: "installs w' = installs v1" "in_state (in_status i) = InstallationStateInstalled"
    by (auto simp: installation_try_def call_Ok_iffs emit_def split: if_splits option.split_asm)
  from get_latest_installation_Ok [OF latest v] rest show ?thesis by auto
qed

theorem wait_for_installation_ok_witness:
  "\<exists>i \<in> set (installs (snd (wait_for_installation sample_lib False (sample_kube [sample_older, sample_newer])))).
     in_state (in_status i) = ''Installed''"
proof -
  let ?w = "sample_kube [sample_older, sample_newer]"
  have d: "distinct (map in_name (installs ?w))" by (simp add: sample_kube_def)
  have s: "in_state (in_status sample_newer_legacy) = ''Installed''"
    by (simp add: sample_newer_legacy_def sample_newer_def sample_install_def)
  have three: "(300::nat) = Suc 299" by simp
  have run: "wait_for_installation sample_lib False ?w = (Ok (), sample_kube [sample_older, sample_newer_legacy])"
    unfolding wait_for_installation_def three poll.simps
    by (simp add: bind_def attempt_def installation_try_def get_latest_installation_def sample_list ret_def s)
  have "lib_tick sample_lib = id" by (simp add: sample_lib_def)
  then have "\<exists>i \<in> set (installs (sample_kube [sample_older, sample_newer_legacy])).
      in_state (in_status i) = InstallationStateInstalled \<and>
      (\<forall>j \<in> set (installs (sample_kube [sample_older, sample_newer_legacy])). in_name j \<le> in_name i)"
    by (intro wait_for_installation_ok [OF d _ run]) simp
  then show ?thesis unfolding run by auto
qed

text \<open>
  The first upgrade to an installation newer than all stored ones stores it once, from a CRD
  source, in state Installing, whatever happens while the old ones are retired; when an
  installation of that name is already stored and listed, the call changes nothing more.
\<close>

theorem upgrade_create_installation_stores:
  assumes "distinct (map in_name (installs w))"
    and "\<And>v. installs (lib_tick L v) = installs v"
    and "\<forall>i \<in> set (installs w). in_name i < in_name original"
    and "upgrade_create_installation L crd_files original w = (Ok u, w')"
  shows "map in_name (installs w') = map in_name (installs w) @ [in_name original] \<and>
    map_option in_state (status_of w' (in_name original)) = Some InstallationStateInstalling"
proof -
  let ?n = "in_name original"
  have "get_installation L ?n w \<noteq> (Ok i, v)" for i v
    using get_installation_present [of L ?n w i v] assms(1,3) by (metis imageE less_irrefl)
  with assms(4) obtain e w1 w2 i w3 x w4 where
    get: "get_installation L ?n w = (Err e, w1)"
    and ensure: "ensure_installation_crd L crd_files w1 = (Ok (), w2)"
    and create: "create_installation L original w2 = (Ok i, w3)"
    and set: "set_installation_state L i InstallationStateInstalling ''Upgrading Kubernetes'' [''''] w3 = (Ok x, w4)"
    and disable: "\<exists>r. disable_old_installations L w4 = (r, w')"
    unfolding upgrade_create_installation_def
    by (auto simp: call_Ok_iffs simp del: state_defs)
  have n1: "map in_name (installs w1) = map in_name (installs w)"
    using keepsD [OF keeps_get_installation get] by (rule installs_only_fields)
  have n2: "installs w2 = installs w1"
    using keepsD [OF keeps_same_ensure_crd [OF assms(2)] ensure] by (simp add: installs_same_def)
  note c = create_installation_Ok [OF assms(2) create]
  have n4: "map in_name (installs w4) = map in_name (installs w) @ [?n]"
    using keepsD [OF keeps_set_installation_state set] c(1,3) n1 n2 by (simp add: installs_only_fields)
  have st4: "map_option in_state (status_of w4 ?n) = Some InstallationStateInstalling"
  proof -
    from update_installation_status_Ok [OF set [unfolded set_installation_state_def]] c(1) obtain cur fs where
      cur: "find_install (installs w3) ?n = Some cur"
      and w4: "installs w4 = put_install (cur\<lparr>in_status := set_state InstallationStateInstalling
        ''Upgrading Kubernetes'' [''''] (in_status cur)\<rparr>) (installs w3)"
      by (auto simp del: state_defs)
    have "in_name cur = ?n" using cur by (rule ist.lookup_key)
    with cur w4 show ?thesis by (simp add: status_of_def ist.lookup_put set_state_def del: state_defs)
  qed
  have names: "distinct (map in_name (installs w4))" using n4 assms(1,3) by auto
  have set4: "in_name ` set (installs w4) = insert ?n (in_name ` set (installs w))"
    using arg_cong [OF n4, of set] by simp
  then have n: "?n \<in> in_name ` set (installs w4)" by simp
  have "in_name j \<le> ?n" if "j \<in> set (installs w4)" for j
    using imageI [OF that, of in_name] set4 assms(3) by auto
  moreover from disable obtain r where r: "disable_old_installations L w4 = (r, w')" ..
  ultimately have "status_of w' ?n = status_of w4 ?n"
    using disable_old_keeps_newest_status [OF names n _ r] by blast
  with st4 n4 keepsD [OF keeps_disable_old r] show ?thesis by (simp add: installs_only_fields)
qed

theorem upgrade_create_installation_stores_witness:
  "map in_name (installs (snd (upgrade_create_installation sample_lib [] sample_newer
     ((sample_kube [sample_older])\<lparr>faults := [Failing ''timeout'', NoFault, NoFault, NoFault, Failing ''timeout'']\<rparr>)))) =
     [''1'', ''2'']"
proof -
  let ?w = "(sample_kube [sample_older])\<lparr>faults := [Failing ''timeout'', NoFault, NoFault, NoFault, Failing ''timeout'']\<rparr>"
  have five: "(5::nat) = Suc 4" by simp
  have "lib_retries sample_lib = Suc 3" by (simp add: sample_lib_def)
  then have four: "retry_on_conflict (lib_retries sample_lib) m = bind (attempt m) (\<lambda>r. case r of
      Inr x \<Rightarrow> ret x | Inl e \<Rightarrow> if is_conflict e then retry_on_conflict 3 m else throw e)"
    for m :: "(kube, installation) call" by (simp only: retry_on_conflict.simps)
  have run: "\<exists>w'. upgrade_create_installation sample_lib [] sample_newer ?w = (Ok (), w')"
    unfolding upgrade_create_installation_def create_installation_def five poll.simps
    by (simp add: Let_def bind_def wrap_def attempt_def ret_def throw_def get_installation_def list_installations_def
        list_installs_def api_def pop_fault_def ensure_installation_crd_def create_installation_try_def
        create_install_def set_installation_state_def update_installation_status_def four
        get_install_def write_install_status_def disable_old_installations_def)
  then obtain w' where w': "upgrade_create_installation sample_lib [] sample_newer ?w = (Ok (), w')" by blast
  have "lib_tick sample_lib = id" by (simp add: sample_lib_def)
  then have "map in_name (installs w') = [''1'', ''2'']"
    using upgrade_create_installation_stores [OF _ _ _ w'] by simp
  then show ?thesis by (simp add: w')
qed

end
