(* ===== verification/Tracked.thy ===== *)
theory Tracked
  imports Installs
begin

text \<open>
  Work tracked by status conditions. The upgrades of helm extensions and of add-ons are loops over
  items: an item whose condition on the Installation is already \<open>True\<close> is skipped, otherwise its
  condition is set to \<open>False\<close>, a helm operation runs, and the condition records the outcome. The
  locale \<open>tracked\<close> is what both rely on; its lemmas say that conditions never claim more than the
  releases show, on every outcome of every call, and that a loop without errors does all the work.
\<close>

section \<open>One step\<close>

definition tracked_step :: "bool \<Rightarrow> installation \<Rightarrow> (installation \<Rightarrow> (kube, installation) call) \<Rightarrow>
    (installation \<Rightarrow> (kube, unit) call) \<Rightarrow> (installation \<Rightarrow> err \<Rightarrow> (kube, installation) call) \<Rightarrow> (err \<Rightarrow> err) \<Rightarrow>
    (installation \<Rightarrow> (kube, installation) call) \<Rightarrow> (kube, installation) call" where
  "tracked_step already i start process failed report finish =
     (if already then ret i
      else bind (start i) (\<lambda>i. bind (attempt (process i)) (\<lambda>r. case r of
             Inl e \<Rightarrow> bind (attempt (failed i e)) (\<lambda>_. throw (report e))
           | Inr _ \<Rightarrow> finish i)))"

fun fold_each :: "('a \<Rightarrow> 's \<Rightarrow> ('w, 's) call) \<Rightarrow> 'a list \<Rightarrow> 's \<Rightarrow> ('w, 's) call" where
  "fold_each f [] s = ret s"
| "fold_each f (x # xs) s = bind (f x s) (fold_each f xs)"

definition clean_error_message :: "err \<Rightarrow> string" where
  "clean_error_message e = take 1024 (err_text e)"

text \<open>A call that sets one condition of the stored installation, with any reason and message.\<close>

definition is_mark :: "'v lib \<Rightarrow> string \<Rightarrow> string \<Rightarrow> (installation \<Rightarrow> (kube, installation) call) \<Rightarrow> bool" where
  "is_mark L c status m \<longleftrightarrow> (\<forall>i w. \<exists>reason message r. set_installation_condition_status L i
     \<lparr>cond_type = c, cond_status = status, cond_reason = reason, cond_message = message\<rparr> w = (r, snd (m i w)) \<and>
     (\<forall>x. fst (m i w) = Ok x \<longrightarrow> r = Ok x))"

lemma is_mark_set: "is_mark L c s (\<lambda>i. set_installation_condition_status L i
    \<lparr>cond_type = c, cond_status = s, cond_reason = r, cond_message = m\<rparr>)"
  unfolding is_mark_def by (metis prod.collapse)

lemma is_mark_wrap: "is_mark L c s m \<Longrightarrow> is_mark L c s (\<lambda>i. wrap t (m i))"
  unfolding is_mark_def wrap_def by (simp add: split_beta)

section \<open>What a step relies on\<close>

definition marked_done :: "('r \<Rightarrow> string) \<Rightarrow> installation \<Rightarrow> 'r \<Rightarrow> bool" where
  "marked_done cond i r \<longleftrightarrow> check_installation_condition_status (in_status i) (cond r) = ''True''"

text \<open>
  \<open>i\<close> has the status that is stored, and what its conditions call done is visible in the releases.
\<close>

definition in_step :: "('r \<Rightarrow> string) \<Rightarrow> ('r \<Rightarrow> kube \<Rightarrow> bool) \<Rightarrow> 'r list \<Rightarrow> kube \<Rightarrow> installation \<Rightarrow> bool" where
  "in_step cond ok rs w i \<longleftrightarrow> status_of w (in_name i) = Some (in_status i) \<and>
     (\<forall>r \<in> set rs. marked_done cond i r \<longrightarrow> ok r w)"

definition only_release :: "nsname \<Rightarrow> kube \<Rightarrow> kube \<Rightarrow> bool" where
  "only_release p w w' \<longleftrightarrow> (\<forall>n. status_of w' n = status_of w n) \<and>
     map in_name (installs w') = map in_name (installs w) \<and>
     (\<forall>q. q \<noteq> p \<longrightarrow> (q \<in> set (releases w') \<longleftrightarrow> q \<in> set (releases w)))"

interpretation rel: kube_frame "only_release p" for p
  by unfold_locales (auto simp: only_release_def status_of_def)

lemma keeps_only_release_helm:
  "keeps (only_release (ns, n)) (helm_release_exists ns n)"
  "keeps (only_release (ho_namespace ho, ho_release ho)) (helm_install ho)"
  "keeps (only_release (ho_namespace ho, ho_release ho)) (helm_upgrade ho)"
  "keeps (only_release (ns, n)) (helm_uninstall ns n)"
  unfolding helm_release_exists_def helm_install_def helm_upgrade_def helm_uninstall_def
  by (rule rel.keeps_api; auto simp: keeps_def only_release_def gets_def status_of_def)+

lemma helm_Ok:
  "helm_release_exists ns n w = (Ok b, w') \<Longrightarrow> b = ((ns, n) \<in> set (releases w')) \<and> releases w' = releases w"
  "helm_install ho w = (Ok u, w') \<Longrightarrow> (ho_namespace ho, ho_release ho) \<in> set (releases w')"
  "helm_upgrade ho w = (Ok u, w') \<Longrightarrow> (ho_namespace ho, ho_release ho) \<in> set (releases w')"
  "helm_uninstall ns n w = (Ok u, w') \<Longrightarrow> (ns, n) \<notin> set (releases w')"
  unfolding helm_release_exists_def helm_install_def helm_upgrade_def helm_uninstall_def
  by (drule api_Ok; auto split: if_splits)+

text \<open>
  A call on the caller's installation that keeps conditions and releases in step, whatever fails,
  and when it returns has marked the items of \<open>D\<close> and unmarked none.
\<close>

definition advances :: "('r \<Rightarrow> string) \<Rightarrow> ('r \<Rightarrow> kube \<Rightarrow> bool) \<Rightarrow> 'r list \<Rightarrow> 'r set \<Rightarrow>
    (installation \<Rightarrow> (kube, installation) call) \<Rightarrow> bool" where
  "advances cond ok rs D f \<longleftrightarrow> (\<forall>i w res w'. in_step cond ok rs w i \<longrightarrow> f i w = (res, w') \<longrightarrow>
     (\<exists>j. in_name j = in_name i \<and> in_step cond ok rs w' j) \<and>
     (\<forall>i'. res = Ok i' \<longrightarrow> in_step cond ok rs w' i' \<and> in_name i' = in_name i \<and> (\<forall>r \<in> D. marked_done cond i' r) \<and>
        (\<forall>q \<in> set rs. marked_done cond i q \<longrightarrow> marked_done cond i' q)))"

lemma advances_stored:
  "\<lbrakk>advances cond ok rs D f; in_step cond ok rs w i; f i w = (res, w')\<rbrakk> \<Longrightarrow>
    \<exists>j. in_name j = in_name i \<and> in_step cond ok rs w' j"
  unfolding advances_def by blast

lemma advances_Ok:
  assumes "advances cond ok rs D f" "in_step cond ok rs w i" "f i w = (Ok i', w')"
  shows "in_step cond ok rs w' i'" "in_name i' = in_name i" "r \<in> D \<Longrightarrow> marked_done cond i' r"
    "q \<in> set rs \<Longrightarrow> marked_done cond i q \<Longrightarrow> marked_done cond i' q"
  using assms(1) [unfolded advances_def, rule_format, OF assms(2,3)] by blast+

lemma advancesI:
  assumes "\<And>i w res w'. in_step cond ok rs w i \<Longrightarrow> f i w = (res, w') \<Longrightarrow>
      \<exists>j. in_name j = in_name i \<and> in_step cond ok rs w' j"
    and "\<And>i w i' w'. in_step cond ok rs w i \<Longrightarrow> f i w = (Ok i', w') \<Longrightarrow> in_step cond ok rs w' i' \<and>
      in_name i' = in_name i \<and> (\<forall>r \<in> D. marked_done cond i' r) \<and>
      (\<forall>q \<in> set rs. marked_done cond i q \<longrightarrow> marked_done cond i' q)"
  shows "advances cond ok rs D f"
  unfolding advances_def
proof (intro allI impI conjI)
  fix i w res w' i' assume a: "in_step cond ok rs w i" "f i w = (res, w')"
  from assms(1) [OF a] show "\<exists>j. in_name j = in_name i \<and> in_step cond ok rs w' j" .
  assume "res = Ok i'"
  with a have "f i w = (Ok i', w')" by simp
  note c = assms(2) [OF a(1) this]
  show "in_step cond ok rs w' i'" by (rule conjunct1 [OF c])
  show "in_name i' = in_name i" by (rule conjunct1 [OF conjunct2 [OF c]])
  show "\<forall>r \<in> D. marked_done cond i' r" by (rule conjunct1 [OF conjunct2 [OF conjunct2 [OF c]]])
  show "\<forall>q \<in> set rs. marked_done cond i q \<longrightarrow> marked_done cond i' q"
    by (rule conjunct2 [OF conjunct2 [OF conjunct2 [OF c]]])
qed

lemma advances_ret: "advances cond ok rs {} ret"
  by (rule advancesI) (auto simp: ret_def)

lemma advances_mono: "advances cond ok rs D f \<Longrightarrow> C \<subseteq> D \<Longrightarrow> advances cond ok rs C f"
  unfolding advances_def by blast

lemma advances_wrap: "advances cond ok rs D f \<Longrightarrow> advances cond ok rs D (\<lambda>i. wrap t (f i))"
proof (rule advancesI)
  fix i w res w' assume f: "advances cond ok rs D f" and i: "in_step cond ok rs w i" and run: "wrap t (f i) w = (res, w')"
  from run obtain r where "f i w = (r, w')" by (auto simp: wrap_def split: prod.split_asm)
  from advances_stored [OF f i this] show "\<exists>j. in_name j = in_name i \<and> in_step cond ok rs w' j" .
next
  fix i w i' w' assume f: "advances cond ok rs D f" and i: "in_step cond ok rs w i" and run: "wrap t (f i) w = (Ok i', w')"
  then have "f i w = (Ok i', w')" by (simp add: wrap_Ok_iff)
  from advances_Ok [OF f i this] show "in_step cond ok rs w' i' \<and> in_name i' = in_name i \<and>
    (\<forall>r \<in> D. marked_done cond i' r) \<and> (\<forall>q \<in> set rs. marked_done cond i q \<longrightarrow> marked_done cond i' q)" by blast
qed

lemma advances_bind:
  assumes f: "advances cond ok rs C f" and g: "advances cond ok rs D g" and C: "C \<subseteq> set rs"
  shows "advances cond ok rs (C \<union> D) (\<lambda>i. bind (f i) g)"
proof (rule advancesI)
  fix i w res w' assume i: "in_step cond ok rs w i" and run: "bind (f i) g w = (res, w')"
  obtain m v where m: "f i w = (m, v)" by (cases "f i w")
  show "\<exists>j. in_name j = in_name i \<and> in_step cond ok rs w' j"
  proof (cases m)
    case (Ok j)
    note j = advances_Ok(1,2) [OF f i m [unfolded Ok]]
    from run m Ok have "g j v = (res, w')" by (simp add: bind_def)
    from advances_stored [OF g j(1) this] j(2) show ?thesis by simp
  qed (use run m advances_stored [OF f i m] in \<open>simp_all add: bind_def\<close>)
next
  fix i w i' w' assume i: "in_step cond ok rs w i" and run: "bind (f i) g w = (Ok i', w')"
  then obtain j v where m: "f i w = (Ok j, v)" and g': "g j v = (Ok i', w')" by (auto simp: bind_Ok_iff)
  note a = advances_Ok [OF f i m] and b = advances_Ok [OF g advances_Ok(1) [OF f i m] g']
  show "in_step cond ok rs w' i' \<and> in_name i' = in_name i \<and> (\<forall>r \<in> C \<union> D. marked_done cond i' r) \<and>
      (\<forall>q \<in> set rs. marked_done cond i q \<longrightarrow> marked_done cond i' q)"
    using a(2,3) b(1,2,3) C a(4) b(4) by auto
qed

lemma advances_fold_each:
  assumes "\<And>r. r \<in> set xs \<Longrightarrow> advances cond ok rs (D r) (f r)" and "\<And>r. r \<in> set xs \<Longrightarrow> D r \<subseteq> set rs"
  shows "advances cond ok rs (\<Union>r \<in> set xs. D r) (fold_each f xs)"
  using assms
proof (induction xs)
  case Nil
  have "fold_each f [] = ret" by (rule ext) simp
  with advances_ret show ?case by simp
next
  case (Cons r xs)
  have "fold_each f (r # xs) = (\<lambda>s. bind (f r s) (fold_each f xs))" by (rule ext) simp
  with Cons advances_bind [of cond ok rs "D r" "f r" _ "fold_each f xs"] show ?case by simp
qed

text \<open>A call in front that touches neither the statuses nor the releases.\<close>

definition same_work :: "kube \<Rightarrow> kube \<Rightarrow> bool" where
  "same_work w w' \<longleftrightarrow> installs w' = installs w \<and> releases w' = releases w"

interpretation sw: kube_frame same_work
  by unfold_locales (auto simp: same_work_def)

text \<open>
  Each item has a condition and a release, and whether it is in order depends on nothing but
  whether that release exists.
\<close>

locale tracked =
  fixes cond :: "'r \<Rightarrow> string" and target :: "'r \<Rightarrow> nsname" and ok :: "'r \<Rightarrow> kube \<Rightarrow> bool"
  assumes ok_release: "(target r \<in> set (releases w)) = (target r \<in> set (releases w')) \<Longrightarrow> ok r w = ok r w'"
begin

lemma ok_fields [simp]: "ok r (w\<lparr>faults := fs, installs := ins\<rparr>) = ok r w" "ok r (w\<lparr>faults := fs\<rparr>) = ok r w"
  by (rule ok_release; simp)+

lemma in_step_faults [simp]: "in_step cond ok rs (w\<lparr>faults := fs\<rparr>) i = in_step cond ok rs w i"
  by (auto simp: in_step_def status_of_def)

lemma in_step_same: "installs w' = installs w \<Longrightarrow> releases w' = releases w \<Longrightarrow> in_step cond ok rs w i \<Longrightarrow> in_step cond ok rs w' i"
  using ok_release [of _ w w'] by (auto simp: in_step_def status_of_def)

lemma mark_in_step:
  assumes L: "sets_condition (lib_set_condition L)" and good: "in_step cond ok rs w i"
    and names: "distinct (map cond rs)" and r: "r \<in> set rs"
    and fine: "status \<noteq> ''True'' \<or> ok r w" and mark: "is_mark L (cond r) status m" and run: "m i w = (res, w')"
  shows "(\<exists>j. in_name j = in_name i \<and> in_step cond ok rs w' j) \<and>
    (\<forall>i'. res = Ok i' \<longrightarrow> in_step cond ok rs w' i' \<and> in_name i' = in_name i \<and>
      (\<forall>q. marked_done cond i' q \<longleftrightarrow> (if cond q = cond r then status = ''True'' else marked_done cond i q)))"
proof -
  from mark obtain reason message r0 where u0: "set_installation_condition_status L i
      \<lparr>cond_type = cond r, cond_status = status, cond_reason = reason, cond_message = message\<rparr> w = (r0, w')"
    and res: "\<And>x. res = Ok x \<Longrightarrow> r0 = Ok x"
    unfolding is_mark_def using run by (metis fst_conv snd_conv)
  let ?f = "set_condition (lib_set_condition L)
    \<lparr>cond_type = cond r, cond_status = status, cond_reason = reason, cond_message = message\<rparr>"
  have u: "update_installation_status L i ?f w = (r0, w')"
    using u0 by (simp add: set_installation_condition_status_def)
  obtain cur where cur: "find_install (installs w) (in_name i) = Some cur" "in_status cur = in_status i"
    using good by (auto simp: in_step_def status_of_def)
  have n: "in_name cur = in_name i" using cur(1) by (rule ist.lookup_key)
  let ?x = "cur\<lparr>in_status := ?f (in_status cur)\<rparr>"
  have dn: "marked_done cond ?x q \<longleftrightarrow> (if cond q = cond r then status = ''True'' else marked_done cond i q)" for q
    using L cur(2) by (simp add: marked_done_def check_installation_condition_status_def set_condition_def sets_condition_def)
  have "ok q w" if "q \<in> set rs" "marked_done cond ?x q" for q
  proof (cases "cond q = cond r")
    case True
    then have "q = r" using names that(1) r by (auto simp: distinct_map inj_on_def)
    then show ?thesis using that(2) dn [of q] fine by auto
  qed (use that good dn in \<open>simp add: in_step_def\<close>)
  then have new: "in_step cond ok rs (w\<lparr>faults := fs, installs := put_install ?x (installs w)\<rparr>) ?x" for fs
    using cur n by (simp add: in_step_def status_of_def ist.lookup_put)
  have "\<exists>j. in_name j = in_name i \<and> in_step cond ok rs w' j"
    using update_installation_status_cases [OF u] cur new good n
    by (auto intro: exI [of _ i] exI [of _ ?x])
  moreover have "in_step cond ok rs w' i' \<and> in_name i' = in_name i \<and>
      (\<forall>q. marked_done cond i' q \<longleftrightarrow> (if cond q = cond r then status = ''True'' else marked_done cond i q))"
    if "res = Ok i'" for i'
  proof -
    from res [OF that] u have "update_installation_status L i ?f w = (Ok i', w')" by simp
    from update_installation_status_Ok [OF this] cur obtain fs where
      "i' = ?x" "w' = w\<lparr>faults := fs, installs := put_install ?x (installs w)\<rparr>" by auto
    with new dn n show ?thesis by simp
  qed
  ultimately show ?thesis by blast
qed

lemma process_in_step:
  assumes good: "in_step cond ok rs w i" and r: "r \<in> set rs" "distinct (map target rs)"
    and not: "\<not> marked_done cond i r" and o: "only_release (target r) w w'"
  shows "in_step cond ok rs w' i"
proof -
  have "ok q w'" if q: "q \<in> set rs" "marked_done cond i q" for q
  proof -
    have "q \<noteq> r" using q(2) not by auto
    then have "target q \<noteq> target r" using q(1) r by (auto simp: distinct_map inj_on_def)
    then have "ok q w' = ok q w" using o by (intro ok_release) (simp add: only_release_def del: split_paired_All)
    then show ?thesis using good q by (simp add: in_step_def)
  qed
  with good o show ?thesis by (simp add: in_step_def only_release_def del: split_paired_All)
qed

lemma advances_after:
  assumes f: "advances cond ok rs D f" and m: "keeps same_work m"
  shows "advances cond ok rs D (\<lambda>i. bind m (\<lambda>_. f i))"
proof -
  have s: "in_step cond ok rs v i" if "in_step cond ok rs w i" "m w = (r, v)" for i w r v
    using in_step_same that keepsD [OF m] unfolding same_work_def by blast
  show ?thesis
  proof (rule advancesI)
    fix i w res w' assume i: "in_step cond ok rs w i" and run: "bind m (\<lambda>_. f i) w = (res, w')"
    obtain x v where x: "m w = (x, v)" by (cases "m w")
    show "\<exists>j. in_name j = in_name i \<and> in_step cond ok rs w' j"
    proof (cases x)
      case (Ok u)
      with run x have "f i v = (res, w')" by (simp add: bind_def)
      from advances_stored [OF f s [OF i x] this] show ?thesis .
    qed (use run x s [OF i x] in \<open>auto simp: bind_def\<close>)
  next
    fix i w i' w' assume i: "in_step cond ok rs w i" and run: "bind m (\<lambda>_. f i) w = (Ok i', w')"
    then obtain u v where x: "m w = (Ok u, v)" and g: "f i v = (Ok i', w')" by (auto simp: bind_Ok_iff)
    from advances_Ok [OF f s [OF i x] g] show "in_step cond ok rs w' i' \<and> in_name i' = in_name i \<and>
      (\<forall>r \<in> D. marked_done cond i' r) \<and> (\<forall>q \<in> set rs. marked_done cond i q \<longrightarrow> marked_done cond i' q)" by auto
  qed
qed

text \<open>A call whose start and outcome are reported, as the loop over add-ons does.\<close>

lemma advances_reported:
  assumes f: "advances cond ok rs D f" and pre: "keeps same_work pre" and bad: "\<And>e. keeps same_work (bad e)"
    and fine: "keeps same_work fine"
  shows "advances cond ok rs D (\<lambda>i. bind pre (\<lambda>_. bind (attempt (f i)) (\<lambda>r. case r of
      Inl e \<Rightarrow> bind (bad e) (\<lambda>_. throw (report e)) | Inr j \<Rightarrow> bind fine (\<lambda>_. ret j))))"
proof (rule advances_after [OF _ pre], rule advancesI)
  fix i w res w' assume i: "in_step cond ok rs w i" and run: "bind (attempt (f i)) (\<lambda>r. case r of
      Inl e \<Rightarrow> bind (bad e) (\<lambda>_. throw (report e)) | Inr j \<Rightarrow> bind fine (\<lambda>_. ret j)) w = (res, w')"
  obtain m v where m: "f i w = (m, v)" by (cases "f i w")
  obtain j where j: "in_name j = in_name i" "in_step cond ok rs v j" using advances_stored [OF f i m] by blast
  have "same_work v w'"
  proof (cases m)
    case (Ok x)
    with run m have "bind fine (\<lambda>_. ret x) v = (res, w')" by (simp add: bind_def attempt_def)
    then show ?thesis by (rule keepsD [OF sw.keeps_bind [OF fine sw.keeps_ret]])
  next
    case (Err e)
    with run m have "bind (bad e) (\<lambda>_. throw (report e)) v = (res, w')" by (simp add: bind_def attempt_def)
    then show ?thesis by (rule keepsD [OF sw.keeps_bind [OF bad sw.keeps_throw]])
  qed (use run m in \<open>simp add: bind_def attempt_def sw.frame_refl\<close>)
  with j in_step_same show "\<exists>j. in_name j = in_name i \<and> in_step cond ok rs w' j"
    unfolding same_work_def by blast
next
  fix i w i' w' assume i: "in_step cond ok rs w i" and run: "bind (attempt (f i)) (\<lambda>r. case r of
      Inl e \<Rightarrow> bind (bad e) (\<lambda>_. throw (report e)) | Inr j \<Rightarrow> bind fine (\<lambda>_. ret j)) w = (Ok i', w')"
  then obtain v where m: "f i w = (Ok i', v)" and k: "bind fine (\<lambda>_. ret i') v = (Ok i', w')"
    by (auto simp: call_Ok_iffs)
  note a = advances_Ok [OF f i m]
  have "same_work v w'" by (rule keepsD [OF sw.keeps_bind [OF fine sw.keeps_ret] k])
  with a(1) have "in_step cond ok rs w' i'" unfolding same_work_def using in_step_same by blast
  with a(2-4) show "in_step cond ok rs w' i' \<and> in_name i' = in_name i \<and> (\<forall>r \<in> D. marked_done cond i' r) \<and>
      (\<forall>q \<in> set rs. marked_done cond i q \<longrightarrow> marked_done cond i' q)" by blast
qed

text \<open>What a step does to a loop's state, on every outcome.\<close>

lemma tracked_step_in_step:
  assumes L: "sets_condition (lib_set_condition L)" and good: "in_step cond ok rs w i"
    and names: "distinct (map cond rs)" "distinct (map target rs)" and r: "r \<in> set rs"
    and marks: "is_mark L (cond r) ''False'' start" "\<And>e. is_mark L (cond r) ''False'' (\<lambda>j. failed j e)"
      "is_mark L (cond r) ''True'' finish"
    and process: "\<And>j. keeps (only_release (target r)) (process j)" "\<And>j v u v'. process j v = (Ok u, v') \<Longrightarrow> ok r v'"
    and run: "tracked_step (marked_done cond i r) i start process failed report finish w = (res, w')"
  shows "(\<exists>j. in_name j = in_name i \<and> in_step cond ok rs w' j) \<and>
    (\<forall>i'. res = Ok i' \<longrightarrow> in_step cond ok rs w' i' \<and> in_name i' = in_name i \<and> marked_done cond i' r \<and>
      (\<forall>q \<in> set rs. marked_done cond i q \<longrightarrow> marked_done cond i' q))"
proof (cases "marked_done cond i r")
  case True
  with run good show ?thesis by (auto simp: tracked_step_def ret_def)
next
  case False
  note mark = mark_in_step [OF L _ names(1) r]
  have no: "''False'' \<noteq> ''True'' \<or> ok r v" for v by simp
  have inj: "cond q = cond r \<longleftrightarrow> q = r" if "q \<in> set rs" for q
    using that names(1) r by (auto simp: distinct_map inj_on_def)
  obtain m1 w1 where m1: "start i w = (m1, w1)" by (cases "start i w")
  note a1 = mark [OF good no marks(1) m1]
  show ?thesis
  proof (cases m1)
    case (Ok j)
    note b1 = conjunct2 [OF a1, rule_format, OF Ok]
    have j: "in_step cond ok rs w1 j" "in_name j = in_name i" "\<not> marked_done cond j r" using b1 by simp_all
    have jq: "marked_done cond j q" if "q \<in> set rs" "marked_done cond i q" for q
      using b1 inj [OF that(1)] that(2) False by metis
    obtain p w2 where p: "process j w1 = (p, w2)" by (cases "process j w1")
    have k: "in_step cond ok rs w2 j" using process_in_step [OF j(1) r names(2) j(3) keepsD [OF process(1) p]] .
    show ?thesis
    proof (cases p)
      case pOk: (Ok u)
      obtain m2 w3 where m2: "finish j w2 = (m2, w3)" by (cases "finish j w2")
      have "''True'' \<noteq> ''True'' \<or> ok r w2" using process(2) p pOk by blast
      note a2 = mark [OF k this marks(3) m2]
      have eq: "res = m2" "w' = w3"
        using run False m1 Ok p pOk m2 by (simp_all add: tracked_step_def bind_def attempt_def)
      show ?thesis
      proof (intro conjI allI impI)
        show "\<exists>j. in_name j = in_name i \<and> in_step cond ok rs w' j" using a2 j(2) eq(2) by auto
        fix i' assume "res = Ok i'"
        with eq(1) have m2Ok: "m2 = Ok i'" by simp
        note b2 = conjunct2 [OF a2, rule_format, OF m2Ok]
        show "in_step cond ok rs w' i'" "in_name i' = in_name i" "marked_done cond i' r"
          "\<forall>q \<in> set rs. marked_done cond i q \<longrightarrow> marked_done cond i' q"
          using b2 j(2) jq eq(2) by auto
      qed
    next
      case (Err e)
      obtain m2 w3 where m2: "failed j e w2 = (m2, w3)" by (cases "failed j e w2")
      have "w' = w3" "\<forall>x. res \<noteq> Ok x"
        using run False m1 Ok p Err m2
        by (auto simp: tracked_step_def bind_def attempt_def throw_def split: outcome.split_asm)
      with mark [OF k no marks(2) m2] j(2) show ?thesis by auto
    next
      case (Panic m)
      with run False m1 Ok p have "w' = w2" "res = Panic m" by (simp_all add: tracked_step_def bind_def attempt_def)
      with k j show ?thesis by auto
    qed
  next
    case (Err e)
    with run False m1 have "w' = w1" "res = Err e" by (simp_all add: tracked_step_def bind_def)
    with a1 show ?thesis by auto
  next
    case (Panic m)
    with run False m1 have "w' = w1" "res = Panic m" by (simp_all add: tracked_step_def bind_def)
    with a1 show ?thesis by auto
  qed
qed

lemma advances_tracked_step:
  assumes "sets_condition (lib_set_condition L)" "distinct (map cond rs)" "distinct (map target rs)" "r \<in> set rs"
    and "is_mark L (cond r) ''False'' start" "\<And>e. is_mark L (cond r) ''False'' (\<lambda>j. failed j e)"
      "is_mark L (cond r) ''True'' finish"
    and "\<And>j. keeps (only_release (target r)) (process j)" "\<And>j v u v'. process j v = (Ok u, v') \<Longrightarrow> ok r v'"
  shows "advances cond ok rs {r}
    (\<lambda>i. tracked_step (marked_done cond i r) i start process failed report finish)"
proof (rule advancesI)
  fix i w res w' assume i: "in_step cond ok rs w i"
    and run: "tracked_step (marked_done cond i r) i start process failed report finish w = (res, w')"
  show "\<exists>j. in_name j = in_name i \<and> in_step cond ok rs w' j"
    by (rule tracked_step_in_step [OF assms(1) i assms(2-8) _ run, THEN conjunct1]) (rule assms(9))
next
  fix i w i' w' assume i: "in_step cond ok rs w i"
    and run: "tracked_step (marked_done cond i r) i start process failed report finish w = (Ok i', w')"
  have "in_step cond ok rs w' i' \<and> in_name i' = in_name i \<and> marked_done cond i' r \<and>
      (\<forall>q \<in> set rs. marked_done cond i q \<longrightarrow> marked_done cond i' q)"
    by (rule tracked_step_in_step [OF assms(1) i assms(2-8) _ run, THEN conjunct2, THEN spec, THEN mp])
       (rule assms(9), assumption, rule refl)
  then show "in_step cond ok rs w' i' \<and> in_name i' = in_name i \<and> (\<forall>q \<in> {r}. marked_done cond i' q) \<and>
      (\<forall>q \<in> set rs. marked_done cond i q \<longrightarrow> marked_done cond i' q)" by blast
qed

end

section \<open>What a loop does to helm, in order\<close>

definition event_target :: "event \<Rightarrow> string \<times> string" where
  "event_target e = (case e of HelmInstall ho \<Rightarrow> (ho_namespace ho, ho_release ho)
     | HelmUpgrade ho \<Rightarrow> (ho_namespace ho, ho_release ho) | HelmUninstall ns n \<Rightarrow> (ns, n) | _ \<Rightarrow> ([], []))"

definition is_repo_event :: "event \<Rightarrow> bool" where
  "is_repo_event e = (case e of HelmAddRepo _ \<Rightarrow> True | _ \<Rightarrow> False)"

definition is_uninstall_event :: "event \<Rightarrow> bool" where
  "is_uninstall_event e = (case e of HelmUninstall _ _ \<Rightarrow> True | _ \<Rightarrow> False)"

definition is_install_event :: "event \<Rightarrow> bool" where
  "is_install_event e = (case e of HelmInstall _ \<Rightarrow> True | HelmUpgrade _ \<Rightarrow> True | _ \<Rightarrow> False)"

lemmas event_kind_defs = event_target_def is_repo_event_def is_uninstall_event_def is_install_event_def

text \<open>Event sequences of one kind that touch targets from a list, in its order, each at most once.\<close>

definition touches :: "(event \<Rightarrow> bool) \<Rightarrow> (string \<times> string) list \<Rightarrow> event list set" where
  "touches Q ps = {es. (\<forall>e \<in> set es. Q e) \<and> subseq (map event_target es) ps}"

lemma touches_nil [simp]: "[] \<in> touches Q ps"
  by (simp add: touches_def)

lemma touches_append: "then_events (touches Q ps) (touches Q qs) \<subseteq> touches Q (ps @ qs)"
  by (auto simp: touches_def then_events_def intro: list_emb_append_mono)

lemma emits_fold_each_in:
  assumes "\<And>r i. emits (T (t r)) (f r i)" and nil: "\<And>ps. [] \<in> T ps"
    and app: "\<And>ps qs. then_events (T ps) (T qs) \<subseteq> T (ps @ qs)"
  shows "emits (T (concat (map t xs))) (fold_each f xs i)"
proof (induction xs arbitrary: i)
  case (Cons r xs)
  have "emits (then_events (T (t r)) (T (concat (map t xs)))) (bind (f r i) (fold_each f xs))"
    by (rule emits_bind [OF assms(1) Cons.IH nil])
  then show ?case unfolding fold_each.simps list.map concat.simps by (rule emits_mono [OF _ app])
qed (simp add: emits_pure nil)

lemma emits_fold_each:
  "(\<And>r i. emits (touches Q (t r)) (f r i)) \<Longrightarrow> emits (touches Q (concat (map t xs))) (fold_each f xs i)"
  by (rule emits_fold_each_in) (simp_all add: touches_append)

text \<open>Installations and upgrades of releases from a list, in its order, with reports of progress between them.\<close>

definition is_progress :: "event \<Rightarrow> bool" where
  "is_progress e = (case e of Progress _ _ \<Rightarrow> True | _ \<Rightarrow> False)"

definition reported :: "nsname list \<Rightarrow> event list set" where
  "reported ps = {es. (\<forall>e \<in> set es. is_install_event e \<or> is_progress e) \<and>
     subseq (map event_target (filter is_install_event es)) ps}"

lemma reported_nil [simp]: "[] \<in> reported ps"
  by (simp add: reported_def)

lemma reported_append: "then_events (reported ps) (reported qs) \<subseteq> reported (ps @ qs)"
  by (auto simp: reported_def then_events_def intro: list_emb_append_mono)

lemma reported_touches: "touches is_install_event ps \<subseteq> reported ps"
proof
  fix es assume "es \<in> touches is_install_event ps"
  then have "filter is_install_event es = es" "\<forall>e \<in> set es. is_install_event e" "subseq (map event_target es) ps"
    by (auto simp: touches_def filter_id_conv)
  then show "es \<in> reported ps" by (simp add: reported_def)
qed

lemma reported_progress: "{[], [Progress n s]} \<subseteq> reported []"
  by (simp add: reported_def is_progress_def is_install_event_def)

lemma emits_tracked_step:
  assumes p: "\<And>i. emits A (process i)" and nil: "[] \<in> A" and start: "\<And>i. quiet (start i)"
    and failed: "\<And>i e. quiet (failed i e)" and finish: "\<And>i. quiet (finish i)"
  shows "emits A (tracked_step already i start process failed report finish)"
proof -
  have k: "quiet (case r of Inl e \<Rightarrow> bind (attempt (failed j e)) (\<lambda>_. throw (report e)) | Inr _ \<Rightarrow> finish j)" for r j
    by (cases r) (auto intro!: emits_bind_quiet emits_attempt failed finish emits_pure)
  have "emits A (bind (attempt (process j)) (\<lambda>r. case r of
      Inl e \<Rightarrow> bind (attempt (failed j e)) (\<lambda>_. throw (report e)) | Inr _ \<Rightarrow> finish j))" for j
    by (rule emits_bind_quiet [OF emits_attempt [OF p] k])
  from emits_quiet_bind [OF start this nil] show ?thesis
    unfolding tracked_step_def using nil by (cases already) (simp_all only: if_True if_False emits_pure)
qed

lemma sample_sets_condition: "sets_condition (lib_set_condition sample_lib)"
proof -
  have "find_condition_status (filter (\<lambda>d. cond_type d \<noteq> cond_type c) cs) t =
      (if t = cond_type c then [] else find_condition_status cs t)"
    for cs :: "condition list" and c :: condition and t by (induction cs) auto
  then show ?thesis by (simp add: sets_condition_def sample_lib_def)
qed

end
