(* ===== verification/Extensions.thy ===== *)
theory Extensions
  imports Tracked "HOL-Library.AList"
begin

text \<open>
  Helm extensions (\<^verbatim>\<open>pkg/extensions\<close>): the difference between two versions' charts,
  its execution with a status condition per chart, and the first installation.

  Parameters: \<open>unmarshal\<close> decodes a chart's YAML values; \<open>arrange\<close> is the order Go's map iteration
  and the unstable \<open>sort.Slice\<close> leave: a permutation sorted by \<open>Order\<close> (\<open>arranges\<close>).
\<close>

section \<open>Data\<close>

datatype helm_action = ActionInstall | ActionUpgrade | ActionUninstall | ActionNoChange

fun action_name :: "helm_action \<Rightarrow> string" where
  "action_name ActionInstall = ''Install''"
| "action_name ActionUpgrade = ''Upgrade''"
| "action_name ActionUninstall = ''Uninstall''"
| "action_name ActionNoChange = ''NoChange''"

record diff_result =
  dr_action :: helm_action
  dr_ext :: chart

section \<open>Helm operations\<close>

definition repo_entry_of :: "repository \<Rightarrow> repo_entry" where
  "repo_entry_of r = \<lparr>re_name = repo_name r, re_url = repo_url r, re_username = repo_username r,
     re_password = repo_password r, re_cert_file = repo_cert_file r, re_key_file = repo_key_file r,
     re_ca_file = repo_ca_file r,
     re_insecure_skip_tls = (case repo_insecure r of None \<Rightarrow> False | Some b \<Rightarrow> b)\<rparr>"

definition add_repos :: "repository list \<Rightarrow> (kube, unit) call" where
  "add_repos = for_each (\<lambda>r. wrap (''add helm repository '' @ repo_name r) (helm_add_repo (repo_entry_of r)))"

definition install_ext :: "(string \<Rightarrow> helm_values outcome) \<Rightarrow> chart \<Rightarrow> (kube, unit) call" where
  "install_ext unmarshal ext = bind (wrap ''unmarshal values'' (lift (unmarshal (chart_values ext)))) (\<lambda>values.
     wrap ''helm install'' (helm_install \<lparr>ho_release = chart_release ext, ho_chart = chart_name ext,
       ho_version = chart_version ext, ho_values = values, ho_namespace = target_ns ext,
       ho_timeout = chart_timeout ext, ho_force = False, ho_labels = [], ho_disable_ssa = False\<rparr>))"

definition upgrade_ext :: "(string \<Rightarrow> helm_values outcome) \<Rightarrow> chart \<Rightarrow> (kube, unit) call" where
  "upgrade_ext unmarshal ext = bind (wrap ''unmarshal values'' (lift (unmarshal (chart_values ext)))) (\<lambda>values.
     wrap ''helm upgrade'' (helm_upgrade \<lparr>ho_release = chart_release ext, ho_chart = chart_name ext,
       ho_version = chart_version ext, ho_values = values, ho_namespace = target_ns ext,
       ho_timeout = chart_timeout ext, ho_force = (case force_upgrade ext of None \<Rightarrow> True | Some b \<Rightarrow> b), ho_labels = [], ho_disable_ssa = False\<rparr>))"

definition uninstall_ext :: "chart \<Rightarrow> (kube, unit) call" where
  "uninstall_ext ext = wrap ''helm uninstall'' (helm_uninstall (target_ns ext) (chart_release ext))"

section \<open>The difference\<close>

text \<open>A Go map from chart names: a later chart of the same name replaces the earlier one.\<close>

definition charts_by_name :: "helm_extensions option \<Rightarrow> (string \<times> chart) list" where
  "charts_by_name exts = (case exts of None \<Rightarrow> []
     | Some h \<Rightarrow> fold (\<lambda>c m. AList.update (chart_release c) c m) (helm_charts h) [])"

definition new_result :: "(string \<times> chart) list \<Rightarrow> string \<times> chart \<Rightarrow> diff_result" where
  "new_result old_charts p = \<lparr>dr_action = (case map_of old_charts (fst p) of
       None \<Rightarrow> ActionInstall
     | Some old_chart \<Rightarrow> if old_chart \<noteq> snd p then ActionUpgrade else ActionNoChange), dr_ext = snd p\<rparr>"

definition diff_extensions :: "(diff_result list \<Rightarrow> diff_result list) \<Rightarrow>
    helm_extensions option \<Rightarrow> helm_extensions option \<Rightarrow> diff_result list" where
  "diff_extensions arrange old_exts new_exts =
     (let old_charts = charts_by_name old_exts; new_charts = charts_by_name new_exts
      in arrange (map (new_result old_charts) new_charts @
           map (\<lambda>p. \<lparr>dr_action = ActionUninstall, dr_ext = snd p\<rparr>)
             (filter (\<lambda>p. map_of new_charts (fst p) = None) old_charts)))"

definition arranges :: "(diff_result list \<Rightarrow> diff_result list) \<Rightarrow> bool" where
  "arranges arrange \<longleftrightarrow> (\<forall>rs. mset (arrange rs) = mset rs \<and>
     sorted (map (\<lambda>r. chart_order (dr_ext r)) (arrange rs)))"

section \<open>Processing one extension\<close>

definition condition_name :: "chart \<Rightarrow> string" where
  "condition_name ext = target_ns ext @ ''-'' @ chart_release ext"

definition extension_already_processed :: "installation \<Rightarrow> chart \<Rightarrow> bool" where
  "extension_already_processed i ext \<longleftrightarrow>
     check_installation_condition_status (in_status i) (condition_name ext) = ''True''"

definition format_action :: "helm_action \<Rightarrow> string \<times> string" where
  "format_action action = (case action of
       ActionInstall \<Rightarrow> (action_name action @ ''ing'', action_name action @ ''ed'')
     | ActionUninstall \<Rightarrow> (action_name action @ ''ing'', action_name action @ ''ed'')
     | ActionUpgrade \<Rightarrow> (''Upgrading'', ''Upgraded'')
     | _ \<Rightarrow> (''Processing'', ''Processed''))"

definition mark_extension :: "'v lib \<Rightarrow> installation \<Rightarrow> chart \<Rightarrow> string \<Rightarrow> string \<Rightarrow> string \<Rightarrow>
    (kube, installation) call" where
  "mark_extension L i ext status reason message = wrap ''failed to set condition status''
     (set_installation_condition_status L i
        \<lparr>cond_type = condition_name ext, cond_status = status, cond_reason = reason, cond_message = message\<rparr>)"

definition mark_extension_as_processing :: "'v lib \<Rightarrow> installation \<Rightarrow> chart \<Rightarrow> helm_action \<Rightarrow> (kube, installation) call" where
  "mark_extension_as_processing L i ext action = mark_extension L i ext ''False'' (fst (format_action action)) []"

definition mark_extension_as_processed :: "'v lib \<Rightarrow> installation \<Rightarrow> chart \<Rightarrow> helm_action \<Rightarrow> (kube, installation) call" where
  "mark_extension_as_processed L i ext action = mark_extension L i ext ''True'' (snd (format_action action)) []"

definition mark_extension_as_failed :: "'v lib \<Rightarrow> installation \<Rightarrow> chart \<Rightarrow> helm_action \<Rightarrow> err \<Rightarrow> (kube, installation) call" where
  "mark_extension_as_failed L i ext action e =
     mark_extension L i ext ''False'' (action_name action @ ''Failed'') (clean_error_message e)"

text \<open>The result is the caller's installation, which every status update reads again.\<close>

definition handle_extension :: "'v lib \<Rightarrow> installation \<Rightarrow> chart \<Rightarrow> helm_action \<Rightarrow> (kube, unit) call \<Rightarrow>
    (kube, installation) call" where
  "handle_extension L i ext action process =
     (if extension_already_processed i ext then ret i
      else bind (if action \<noteq> ActionNoChange
                 then wrap ''mark extension as processing'' (mark_extension_as_processing L i ext action)
                 else ret i) (\<lambda>i.
           bind (attempt process) (\<lambda>r. case r of
             Inl e \<Rightarrow> bind (attempt (mark_extension_as_failed L i ext action e)) (\<lambda>_.
                        throw (EWrap ''process extension'' e))
           | Inr _ \<Rightarrow> wrap ''mark extension as processed'' (mark_extension_as_processed L i ext action))))"

definition handle_extension_install :: "'v lib \<Rightarrow> (string \<Rightarrow> helm_values outcome) \<Rightarrow> installation \<Rightarrow> chart \<Rightarrow> (kube, installation) call" where
  "handle_extension_install L unmarshal i ext = handle_extension L i ext ActionInstall
     (bind (wrap ''check if release exists'' (helm_release_exists (target_ns ext) (chart_release ext))) (\<lambda>exists.
      if exists then ret () else wrap ''install'' (install_ext unmarshal ext)))"

definition handle_extension_upgrade :: "'v lib \<Rightarrow> (string \<Rightarrow> helm_values outcome) \<Rightarrow> installation \<Rightarrow> chart \<Rightarrow> (kube, installation) call" where
  "handle_extension_upgrade L unmarshal i ext = handle_extension L i ext ActionUpgrade
     (bind (wrap ''check if release exists'' (helm_release_exists (target_ns ext) (chart_release ext))) (\<lambda>exists.
      if \<not> exists then wrap ''install'' (install_ext unmarshal ext)
      else wrap ''upgrade'' (upgrade_ext unmarshal ext)))"

definition handle_extension_noop :: "'v lib \<Rightarrow> installation \<Rightarrow> chart \<Rightarrow> (kube, installation) call" where
  "handle_extension_noop L i ext = handle_extension L i ext ActionUpgrade (ret ())"

definition handle_extension_uninstall :: "'v lib \<Rightarrow> installation \<Rightarrow> chart \<Rightarrow> (kube, installation) call" where
  "handle_extension_uninstall L i ext = handle_extension L i ext ActionUninstall
     (bind (wrap ''check if release exists'' (helm_release_exists (target_ns ext) (chart_release ext))) (\<lambda>exists.
      if \<not> exists then ret () else wrap ''uninstall'' (uninstall_ext ext)))"

section \<open>Upgrade\<close>

definition uninstall_step :: "'v lib \<Rightarrow> diff_result \<Rightarrow> installation \<Rightarrow> (kube, installation) call" where
  "uninstall_step L r i = (if dr_action r = ActionUninstall
     then wrap (''uninstall extension '' @ chart_release (dr_ext r)) (handle_extension_uninstall L i (dr_ext r))
     else ret i)"

definition apply_step :: "'v lib \<Rightarrow> (string \<Rightarrow> helm_values outcome) \<Rightarrow> diff_result \<Rightarrow> installation \<Rightarrow> (kube, installation) call" where
  "apply_step L unmarshal r i = (case dr_action r of
       ActionInstall \<Rightarrow> wrap (''install extension '' @ chart_release (dr_ext r))
         (handle_extension_install L unmarshal i (dr_ext r))
     | ActionUpgrade \<Rightarrow> wrap (''upgrade extension '' @ chart_release (dr_ext r))
         (handle_extension_upgrade L unmarshal i (dr_ext r))
     | ActionNoChange \<Rightarrow> wrap (''noop extension '' @ chart_release (dr_ext r))
         (handle_extension_noop L i (dr_ext r))
     | ActionUninstall \<Rightarrow> ret i)"

definition exts_of :: "installation option \<Rightarrow> helm_extensions option" where
  "exts_of oi = Option.bind oi (\<lambda>i. Option.bind (spec_config (in_spec i)) ext_helm)"

text \<open>Outside air gap the configuration is dereferenced before it is tested.\<close>

definition upgrade_repos :: "installation \<Rightarrow> (kube, unit) call" where
  "upgrade_repos i = (if air_gap (in_spec i) then ret ()
     else case spec_config (in_spec i) of None \<Rightarrow> lift (Panic ''nil pointer dereference'')
       | Some c \<Rightarrow> (case ext_helm c of None \<Rightarrow> ret ()
           | Some h \<Rightarrow> wrap ''add repos'' (add_repos (helm_repositories h))))"

definition upgrade_extensions :: "'v lib \<Rightarrow> (string \<Rightarrow> helm_values outcome) \<Rightarrow> (diff_result list \<Rightarrow> diff_result list) \<Rightarrow>
    installation option \<Rightarrow> installation \<Rightarrow> (kube, installation) call" where
  "upgrade_extensions L unmarshal arrange prev i = bind (upgrade_repos i) (\<lambda>_.
     let results = diff_extensions arrange (exts_of prev) (exts_of (Some i))
     in bind (fold_each (uninstall_step L) (rev results) i) (fold_each (apply_step L unmarshal) results))"

section \<open>First installation\<close>

definition additional_charts :: "helm_extensions option \<Rightarrow> chart list" where
  "additional_charts exts = (case exts of None \<Rightarrow> []
     | Some h \<Rightarrow> map (\<lambda>c. if chart_order c = 0 then c\<lparr>chart_order := 10\<rparr> else c) (helm_charts h))"

definition install_extensions :: "(string \<Rightarrow> helm_values outcome) \<Rightarrow> (chart list \<Rightarrow> chart list) \<Rightarrow>
    helm_extensions option \<Rightarrow> bool \<Rightarrow> bool \<Rightarrow> (kube, unit) call" where
  "install_extensions unmarshal arrange exts progress is_airgap =
     (if additional_charts exts = [] then ret ()
      else bind (if \<not> is_airgap then wrap ''add additional helm repositories''
                   (add_repos (case exts of None \<Rightarrow> [] | Some h \<Rightarrow> helm_repositories h))
                 else ret ()) (\<lambda>_.
        let sorted = arrange (additional_charts exts); n = length sorted
        in for_each (\<lambda>(k, ext).
             bind (if progress then emit (Progress (show_nat (Suc k)) (show_nat n)) else ret ()) (\<lambda>_.
             wrap (''install extension '' @ chart_release ext) (install_ext unmarshal ext)))
           (enumerate 0 sorted)))"

section \<open>The difference is complete\<close>

definition last_chart :: "helm_extensions option \<Rightarrow> string \<Rightarrow> chart option" where
  "last_chart exts n = (case exts of None \<Rightarrow> None
     | Some h \<Rightarrow> List.find (\<lambda>c. chart_release c = n) (rev (helm_charts h)))"

lemma find_append: "List.find P (xs @ ys) = (case List.find P xs of None \<Rightarrow> List.find P ys | Some x \<Rightarrow> Some x)"
  by (induction xs) auto

lemma fold_update_lookup:
  "map_of (fold (\<lambda>c m. AList.update (chart_release c) c m) cs m) n =
    (case List.find (\<lambda>c. chart_release c = n) (rev cs) of None \<Rightarrow> map_of m n | Some c \<Rightarrow> Some c)"
  by (induction cs arbitrary: m) (auto simp: update_conv' find_append split: option.splits)

lemma charts_by_name_lookup: "map_of (charts_by_name exts) = last_chart exts"
  by (rule ext) (auto simp: charts_by_name_def last_chart_def fold_update_lookup split: option.splits)

lemma charts_by_name_distinct: "distinct (map fst (charts_by_name exts))"
proof -
  have "distinct (map fst m) \<Longrightarrow> distinct (map fst (fold (\<lambda>c m. AList.update (chart_release c) c m) cs m))"
    for cs :: "chart list" and m by (induction cs arbitrary: m) (auto simp: distinct_update)
  then show ?thesis by (simp add: charts_by_name_def split: option.splits)
qed

lemma last_chart_name: "last_chart exts n = Some c \<Longrightarrow> chart_release c = n"
  by (auto simp: last_chart_def find_Some_iff split: option.splits)

lemma charts_by_name_mem: "(n, c) \<in> set (charts_by_name exts) \<longleftrightarrow> last_chart exts n = Some c"
  by (metis charts_by_name_distinct charts_by_name_lookup map_of_eq_Some_iff)

definition result_name :: "diff_result \<Rightarrow> string" where
  "result_name r = chart_release (dr_ext r)"

text \<open>What the difference says of one name.\<close>

definition expected_result :: "chart option \<Rightarrow> chart option \<Rightarrow> diff_result option" where
  "expected_result old_chart new_chart = (case (new_chart, old_chart) of
     (Some c, None) \<Rightarrow> Some \<lparr>dr_action = ActionInstall, dr_ext = c\<rparr>
   | (Some c, Some d) \<Rightarrow> Some \<lparr>dr_action = (if d = c then ActionNoChange else ActionUpgrade), dr_ext = c\<rparr>
   | (None, Some d) \<Rightarrow> Some \<lparr>dr_action = ActionUninstall, dr_ext = d\<rparr>
   | (None, None) \<Rightarrow> None)"

definition raw_results :: "helm_extensions option \<Rightarrow> helm_extensions option \<Rightarrow> diff_result list" where
  "raw_results old_exts new_exts =
     map (new_result (charts_by_name old_exts)) (charts_by_name new_exts) @
     map (\<lambda>p. \<lparr>dr_action = ActionUninstall, dr_ext = snd p\<rparr>)
       (filter (\<lambda>p. map_of (charts_by_name new_exts) (fst p) = None) (charts_by_name old_exts))"

lemma raw_results_mem: "r \<in> set (raw_results old_exts new_exts) \<longleftrightarrow>
    expected_result (last_chart old_exts (result_name r)) (last_chart new_exts (result_name r)) = Some r"
proof
  assume "r \<in> set (raw_results old_exts new_exts)"
  then consider n c where "(n, c) \<in> set (charts_by_name new_exts)" "r = new_result (charts_by_name old_exts) (n, c)"
    | n c where "(n, c) \<in> set (charts_by_name old_exts)" "last_chart new_exts n = None"
        "r = \<lparr>dr_action = ActionUninstall, dr_ext = c\<rparr>"
    by (auto simp: raw_results_def charts_by_name_lookup)
  then show "expected_result (last_chart old_exts (result_name r)) (last_chart new_exts (result_name r)) = Some r"
  proof cases
    case 1
    then have c: "last_chart new_exts n = Some c" "chart_release c = n"
      using last_chart_name by (auto simp: charts_by_name_mem)
    with 1(2) show ?thesis
      by (auto simp: new_result_def charts_by_name_lookup expected_result_def result_name_def split: option.splits)
  next
    case 2
    then have "last_chart old_exts n = Some c" "chart_release c = n"
      using last_chart_name by (auto simp: charts_by_name_mem)
    with 2 show ?thesis by (simp add: expected_result_def result_name_def)
  qed
next
  assume e: "expected_result (last_chart old_exts (result_name r)) (last_chart new_exts (result_name r)) = Some r"
  show "r \<in> set (raw_results old_exts new_exts)"
  proof (cases "last_chart new_exts (result_name r)")
    case None
    with e obtain d where d: "last_chart old_exts (result_name r) = Some d" "r = \<lparr>dr_action = ActionUninstall, dr_ext = d\<rparr>"
      by (auto simp: expected_result_def split: option.splits)
    then have "(result_name r, d) \<in> set (charts_by_name old_exts)" by (simp add: charts_by_name_mem)
    with None d show ?thesis by (force simp: raw_results_def charts_by_name_lookup)
  next
    case (Some c)
    then have "(result_name r, c) \<in> set (charts_by_name new_exts)" by (simp add: charts_by_name_mem)
    moreover have "new_result (charts_by_name old_exts) (result_name r, c) = r"
      using e Some by (auto simp: new_result_def charts_by_name_lookup expected_result_def split: option.splits)
    ultimately show ?thesis by (force simp: raw_results_def)
  qed
qed

lemma raw_results_names:
  "map result_name (raw_results old_exts new_exts) = map fst (charts_by_name new_exts) @
    map fst (filter (\<lambda>p. map_of (charts_by_name new_exts) (fst p) = None) (charts_by_name old_exts))"
  by (auto simp: raw_results_def result_name_def new_result_def charts_by_name_mem dest!: last_chart_name)

lemma raw_results_distinct: "distinct (map result_name (raw_results old_exts new_exts))"
  unfolding raw_results_names
  by (simp add: charts_by_name_distinct distinct_map_filter map_of_eq_None_iff) force

lemma diff_extensions_facts:
  assumes "arranges arrange"
  shows "set (diff_extensions arrange old_exts new_exts) = set (raw_results old_exts new_exts)"
    "distinct (map result_name (diff_extensions arrange old_exts new_exts))"
    "sorted (map (\<lambda>r. chart_order (dr_ext r)) (diff_extensions arrange old_exts new_exts))"
proof -
  have eq: "diff_extensions arrange old_exts new_exts = arrange (raw_results old_exts new_exts)"
    by (simp add: diff_extensions_def raw_results_def Let_def)
  have m: "mset (arrange (raw_results old_exts new_exts)) = mset (raw_results old_exts new_exts)"
    and s: "sorted (map (\<lambda>r. chart_order (dr_ext r)) (arrange (raw_results old_exts new_exts)))"
    using assms unfolding arranges_def by blast+
  show "set (diff_extensions arrange old_exts new_exts) = set (raw_results old_exts new_exts)"
    unfolding eq using m by (rule mset_eq_setD)
  have "mset (map result_name (arrange (raw_results old_exts new_exts))) =
      mset (map result_name (raw_results old_exts new_exts))" using m by simp
  then show "distinct (map result_name (diff_extensions arrange old_exts new_exts))"
    unfolding eq using raw_results_distinct mset_eq_imp_distinct_iff by blast
  show "sorted (map (\<lambda>r. chart_order (dr_ext r)) (diff_extensions arrange old_exts new_exts))"
    unfolding eq by (rule s)
qed

section \<open>One helm operation, on every outcome\<close>

definition release_pair :: "chart \<Rightarrow> string \<times> string" where
  "release_pair ext = (target_ns ext, chart_release ext)"

text \<open>What a processed condition says of the releases.\<close>

definition release_ok :: "diff_result \<Rightarrow> kube \<Rightarrow> bool" where
  "release_ok r w = (case dr_action r of
     ActionInstall \<Rightarrow> release_pair (dr_ext r) \<in> set (releases w)
   | ActionUpgrade \<Rightarrow> release_pair (dr_ext r) \<in> set (releases w)
   | ActionUninstall \<Rightarrow> release_pair (dr_ext r) \<notin> set (releases w)
   | ActionNoChange \<Rightarrow> True)"

interpretation ext: tracked "condition_name \<circ> dr_ext" "release_pair \<circ> dr_ext" release_ok
  by unfold_locales (auto simp: release_ok_def split: helm_action.splits)

text \<open>The operation a difference calls for, as the four handlers pass it on.\<close>

definition process_of :: "(string \<Rightarrow> helm_values outcome) \<Rightarrow> diff_result \<Rightarrow> (kube, unit) call" where
  "process_of unmarshal r = (let ext = dr_ext r; exists =
       wrap ''check if release exists'' (helm_release_exists (target_ns ext) (chart_release ext))
     in case dr_action r of
       ActionInstall \<Rightarrow> bind exists (\<lambda>b. if b then ret () else wrap ''install'' (install_ext unmarshal ext))
     | ActionUpgrade \<Rightarrow> bind exists (\<lambda>b. if \<not> b then wrap ''install'' (install_ext unmarshal ext)
         else wrap ''upgrade'' (upgrade_ext unmarshal ext))
     | ActionUninstall \<Rightarrow> bind exists (\<lambda>b. if \<not> b then ret () else wrap ''uninstall'' (uninstall_ext ext))
     | ActionNoChange \<Rightarrow> ret ())"

lemma keeps_process_of: "keeps (only_release (release_pair (dr_ext r))) (process_of unmarshal r)"
proof -
  have i: "keeps (only_release (release_pair ext)) (install_ext unmarshal ext)" for ext
    unfolding install_ext_def release_pair_def
    using keeps_only_release_helm(2) [of "\<lparr>ho_release = chart_release ext, ho_chart = chart_name ext,
       ho_version = chart_version ext, ho_values = v, ho_namespace = target_ns ext,
       ho_timeout = chart_timeout ext, ho_force = False, ho_labels = [], ho_disable_ssa = False\<rparr>" for v]
    by (auto intro!: rel.kube_frame_rules)
  have u: "keeps (only_release (release_pair ext)) (upgrade_ext unmarshal ext)" for ext
    unfolding upgrade_ext_def release_pair_def
    using keeps_only_release_helm(3) [of "\<lparr>ho_release = chart_release ext, ho_chart = chart_name ext,
       ho_version = chart_version ext, ho_values = v, ho_namespace = target_ns ext,
       ho_timeout = chart_timeout ext,
       ho_force = (case force_upgrade ext of None \<Rightarrow> True | Some b \<Rightarrow> b), ho_labels = [], ho_disable_ssa = False\<rparr>" for v]
    by (auto intro!: rel.kube_frame_rules)
  have e: "keeps (only_release (release_pair ext)) (helm_release_exists (target_ns ext) (chart_release ext))"
    and d: "keeps (only_release (release_pair ext)) (uninstall_ext ext)" for ext
    unfolding release_pair_def uninstall_ext_def by (intro rel.kube_frame_rules keeps_only_release_helm)+
  show ?thesis unfolding process_of_def Let_def
    by (cases "dr_action r"; simp only: helm_action.case; intro rel.kube_frame_rules i u e d)
qed

lemma process_of_Ok: "process_of unmarshal r w = (Ok u, w') \<Longrightarrow> release_ok r w'"
  by (cases "dr_action r")
     (auto simp: process_of_def release_ok_def release_pair_def install_ext_def upgrade_ext_def uninstall_ext_def
       Let_def call_Ok_iffs split: if_splits dest!: helm_Ok)

section \<open>Conditions and releases agree\<close>

text \<open>
  \<open>exts_in_step rs w i\<close>: \<open>i\<close> has the status that is stored, and every difference its conditions
  call processed is visible in the releases. It holds before the first attempt (no condition is
  true yet) and is what a later attempt relies on when it skips what was processed.
\<close>

abbreviation processed :: "installation \<Rightarrow> diff_result \<Rightarrow> bool" where
  "processed \<equiv> marked_done (condition_name \<circ> dr_ext)"

abbreviation exts_in_step :: "diff_result list \<Rightarrow> kube \<Rightarrow> installation \<Rightarrow> bool" where
  "exts_in_step \<equiv> in_step (condition_name \<circ> dr_ext) release_ok"

lemma processed_iff: "extension_already_processed i (dr_ext r) = processed i r"
  by (simp add: extension_already_processed_def marked_done_def)

lemma handle_as_tracked:
  "action \<noteq> ActionNoChange \<Longrightarrow> handle_extension L i (dr_ext r) action process = tracked_step (processed i r) i
     (\<lambda>i. wrap ''mark extension as processing'' (mark_extension_as_processing L i (dr_ext r) action)) (\<lambda>_. process)
     (\<lambda>i e. mark_extension_as_failed L i (dr_ext r) action e) (EWrap ''process extension'')
     (\<lambda>i. wrap ''mark extension as processed'' (mark_extension_as_processed L i (dr_ext r) action))"
  by (simp add: handle_extension_def tracked_step_def processed_iff)

lemma is_mark_extension:
  "is_mark L ((condition_name \<circ> dr_ext) r) s (\<lambda>i. mark_extension L i (dr_ext r) s reason message)"
  unfolding mark_extension_def o_apply by (intro is_mark_wrap is_mark_set)

lemma names_targets: "distinct (map result_name rs) \<Longrightarrow> distinct (map (release_pair \<circ> dr_ext) rs)"
  by (auto simp: distinct_map inj_on_def release_pair_def result_name_def)

lemma advances_handle:
  assumes "sets_condition (lib_set_condition L)" and "distinct (map (condition_name \<circ> dr_ext) rs)"
    "distinct (map result_name rs)" "r \<in> set rs" and action: "action \<noteq> ActionNoChange"
  shows "advances (condition_name \<circ> dr_ext) release_ok rs {r}
    (\<lambda>i. handle_extension L i (dr_ext r) action (process_of unmarshal r))"
  unfolding handle_as_tracked [OF action]
  by (rule ext.advances_tracked_step [OF assms(1,2) names_targets [OF assms(3)] assms(4)])
     (simp_all add: mark_extension_as_processing_def mark_extension_as_failed_def mark_extension_as_processed_def
        is_mark_wrap is_mark_extension [unfolded o_apply] keeps_process_of process_of_Ok)

lemma steps_as_handle:
  "uninstall_step L r i = (if dr_action r = ActionUninstall
     then wrap (''uninstall extension '' @ chart_release (dr_ext r))
       (handle_extension L i (dr_ext r) ActionUninstall (process_of unmarshal r)) else ret i)"
  "apply_step L unmarshal r i = (if dr_action r = ActionUninstall then ret i
     else wrap ((case dr_action r of ActionInstall \<Rightarrow> ''install extension ''
         | ActionUpgrade \<Rightarrow> ''upgrade extension '' | _ \<Rightarrow> ''noop extension '') @ chart_release (dr_ext r))
       (handle_extension L i (dr_ext r)
         (if dr_action r = ActionInstall then ActionInstall else ActionUpgrade) (process_of unmarshal r)))"
  by (cases "dr_action r"; simp add: uninstall_step_def apply_step_def process_of_def handle_extension_uninstall_def
      handle_extension_install_def handle_extension_upgrade_def handle_extension_noop_def Let_def)+

section \<open>What the upgrade does to helm, in order\<close>

lemma quiet_mark: "quiet (mark_extension L i ext s r m)"
  unfolding mark_extension_def
  by (intro emits_wrap quiet_installs_only keeps_set_installation_condition_status)

lemma emits_handle:
  assumes p: "emits A process" and nil: "[] \<in> A"
  shows "emits A (handle_extension L i ext action process)"
proof -
  have "emits A (tracked_step done_already i (\<lambda>i. if action \<noteq> ActionNoChange
      then wrap ''mark extension as processing'' (mark_extension_as_processing L i ext action) else ret i) (\<lambda>_. process)
     (\<lambda>i e. mark_extension_as_failed L i ext action e) (EWrap ''process extension'')
     (\<lambda>i. wrap ''mark extension as processed'' (mark_extension_as_processed L i ext action)))" for done_already
    by (rule emits_tracked_step [OF p nil])
       (auto simp: mark_extension_as_processing_def mark_extension_as_failed_def mark_extension_as_processed_def
         intro!: emits_wrap quiet_mark emits_pure)
  then show ?thesis by (simp add: handle_extension_def tracked_step_def cong: if_cong)
qed

definition uninstall_targets :: "diff_result \<Rightarrow> (string \<times> string) list" where
  "uninstall_targets r = (if dr_action r = ActionUninstall then [release_pair (dr_ext r)] else [])"

definition apply_targets :: "diff_result \<Rightarrow> (string \<times> string) list" where
  "apply_targets r = (if dr_action r \<in> {ActionInstall, ActionUpgrade} then [release_pair (dr_ext r)] else [])"

lemma emits_install_ext: "emits (touches is_install_event [release_pair ext]) (install_ext unmarshal ext)"
  unfolding install_ext_def
  by (rule emits_quiet_bind, rule emits_wrap, rule emits_pure, simp, rule emits_wrap, rule emits_mono [OF emits_helm(3)])
     (auto simp: touches_def release_pair_def event_kind_defs)

lemma emits_upgrade_ext: "emits (touches is_install_event [release_pair ext]) (upgrade_ext unmarshal ext)"
  unfolding upgrade_ext_def
  by (rule emits_quiet_bind, rule emits_wrap, rule emits_pure, simp, rule emits_wrap, rule emits_mono [OF emits_helm(4)])
     (auto simp: touches_def release_pair_def event_kind_defs)

lemma emits_uninstall_ext: "emits (touches is_uninstall_event [release_pair ext]) (uninstall_ext ext)"
  unfolding uninstall_ext_def
  by (rule emits_wrap, rule emits_mono [OF emits_helm(5)]) (auto simp: touches_def release_pair_def event_kind_defs)

lemma emits_uninstall_step: "emits (touches is_uninstall_event (uninstall_targets r)) (uninstall_step L r i)"
  unfolding uninstall_step_def handle_extension_uninstall_def uninstall_targets_def
  by (auto intro!: emits_wrap emits_handle emits_quiet_bind emits_helm emits_pure emits_uninstall_ext)

lemma emits_apply_step: "emits (touches is_install_event (apply_targets r)) (apply_step L unmarshal r i)"
  unfolding apply_step_def handle_extension_install_def handle_extension_upgrade_def handle_extension_noop_def apply_targets_def
  by (cases "dr_action r")
     (auto intro!: emits_wrap emits_handle emits_quiet_bind emits_helm emits_pure emits_install_ext emits_upgrade_ext)

definition only_repos :: "event list set" where
  "only_repos = {es. \<forall>e \<in> set es. is_repo_event e}"

lemma emits_add_repos: "emits only_repos (add_repos rs)"
  unfolding add_repos_def
  by (rule emits_for_each, rule emits_wrap, rule emits_mono [OF emits_helm(1)])
     (auto simp: only_repos_def then_events_def is_repo_event_def)

lemma emits_upgrade_repos: "emits only_repos (upgrade_repos i)"
proof -
  have "[] \<in> only_repos" by (simp add: only_repos_def)
  then show ?thesis unfolding upgrade_repos_def
    by (auto intro!: emits_pure emits_wrap emits_add_repos split: option.splits)
qed

text \<open>Adding repositories touches neither installations nor releases.\<close>

lemma keeps_same_repos: "keeps same_work (upgrade_repos i)"
  unfolding upgrade_repos_def add_repos_def helm_add_repo_def
  by (intro sw.kube_frame_rules) (simp add: keeps_def emit_def modify_def same_work_def)

lemma advances_upgrade_extensions:
  fixes prev i0 arrange
  defines "rs \<equiv> diff_extensions arrange (exts_of prev) (exts_of (Some i0))"
  assumes L: "sets_condition (lib_set_condition L)" and arr: "arranges arrange"
    and names: "distinct (map (condition_name \<circ> dr_ext) rs)"
  shows "advances (condition_name \<circ> dr_ext) release_ok rs (set rs) (\<lambda>i. bind (upgrade_repos i0) (\<lambda>_.
    bind (fold_each (uninstall_step L) (rev rs) i) (fold_each (apply_step L unmarshal) rs)))"
proof -
  have dn: "distinct (map result_name rs)" unfolding rs_def by (rule diff_extensions_facts [OF arr])
  let ?D = "\<lambda>r. if dr_action r = ActionUninstall then {r} else {}"
  let ?E = "\<lambda>r. if dr_action r = ActionUninstall then {} else {r}"
  have "advances (condition_name \<circ> dr_ext) release_ok rs (?D r) (uninstall_step L r)" if "r \<in> set (rev rs)" for r
    using that advances_wrap [OF advances_handle [OF L names dn]]
    by (cases "dr_action r = ActionUninstall")
       (auto simp: steps_as_handle(1) [abs_def, where unmarshal = unmarshal] intro: advances_ret)
  moreover have "advances (condition_name \<circ> dr_ext) release_ok rs (?E r) (apply_step L unmarshal r)" if "r \<in> set rs" for r
    using that advances_wrap [OF advances_handle [OF L names dn]]
    by (cases "dr_action r = ActionUninstall")
       (auto simp: steps_as_handle(2) [abs_def] intro: advances_ret)
  ultimately have "advances (condition_name \<circ> dr_ext) release_ok rs ((\<Union>r \<in> set (rev rs). ?D r) \<union> (\<Union>r \<in> set rs. ?E r))
    (\<lambda>i. bind (fold_each (uninstall_step L) (rev rs) i) (fold_each (apply_step L unmarshal) rs))"
    by (intro advances_bind advances_fold_each) auto
  then show ?thesis
    by (intro ext.advances_after keeps_same_repos) (auto elim!: advances_mono split: if_splits)
qed

section \<open>Sample upgrade\<close>

definition sample_chart :: "string \<Rightarrow> string \<Rightarrow> int \<Rightarrow> chart" where
  "sample_chart ns n k = \<lparr>chart_release = n, chart_name = n, chart_version = ''1'', chart_values = [],
     target_ns = ns, chart_timeout = 0, force_upgrade = None, chart_order = k\<rparr>"

definition sample_with_charts :: "chart list \<Rightarrow> installation" where
  "sample_with_charts cs = sample_install ''1'' []\<lparr>in_spec := sample_spec\<lparr>air_gap := True, spec_config := Some (sample_config [] cs)\<rparr>\<rparr>"

definition sample_decode :: "string \<Rightarrow> helm_values outcome" where
  "sample_decode s = Ok []"

declare sample_decode_def [simp]

definition sample_arrange :: "diff_result list \<Rightarrow> diff_result list" where
  "sample_arrange = sort_key (\<lambda>r. chart_order (dr_ext r))"

lemma sample_arranges: "arranges sample_arrange"
  by (simp add: arranges_def sample_arrange_def)

lemma sample_chart_simps [simp]:
  "chart_release (sample_chart ns n k) = n" "target_ns (sample_chart ns n k) = ns"
  "chart_order (sample_chart ns n k) = k" "chart_values (sample_chart ns n k) = []"
  by (simp_all add: sample_chart_def)

lemma sample_with_charts_simps [simp]:
  "in_name (sample_with_charts cs) = ''1''" "conditions (in_status (sample_with_charts cs)) = []"
  "air_gap (in_spec (sample_with_charts cs))"
  by (simp_all add: sample_with_charts_def sample_install_def)

lemma sample_exts: "exts_of (Some (sample_with_charts cs)) = Some \<lparr>helm_repositories = [], helm_charts = cs\<rparr>"
  by (simp add: exts_of_def sample_with_charts_def sample_install_def)

lemma sample_diff_one: "diff_extensions sample_arrange (exts_of None) (exts_of (Some (sample_with_charts [c]))) =
    [\<lparr>dr_action = ActionInstall, dr_ext = c\<rparr>]"
  unfolding sample_exts
  by (simp add: exts_of_def diff_extensions_def charts_by_name_def new_result_def sample_arrange_def Let_def)

lemma sample_not_processed: "\<not> extension_already_processed (sample_with_charts cs) ext"
  by (simp add: extension_already_processed_def check_installation_condition_status_def)

lemma sample_in_step: "exts_in_step rs (sample_kube [sample_with_charts cs]) (sample_with_charts cs)"
  by (simp add: in_step_def status_of_def processed_iff [symmetric] sample_not_processed)

lemma mark_run:
  assumes "faults w = []" "find_install (installs w) (in_name i) = Some cur"
  shows "mark_extension L i ext s r m w = (let x = cur\<lparr>in_status := set_condition (lib_set_condition L)
      \<lparr>cond_type = condition_name ext, cond_status = s, cond_reason = r, cond_message = m\<rparr> (in_status cur)\<rparr>
    in (Ok x, w\<lparr>installs := put_install x (installs w)\<rparr>))"
  by (simp add: mark_extension_def set_installation_condition_status_def wrap_def
      update_installation_status_run [OF assms] Let_def)

text \<open>An installation step that does not fail.\<close>

definition marked :: "'v lib \<Rightarrow> installation \<Rightarrow> chart \<Rightarrow> string \<Rightarrow> string \<Rightarrow> installation" where
  "marked L i ext s r = i\<lparr>in_status := set_condition (lib_set_condition L)
     \<lparr>cond_type = condition_name ext, cond_status = s, cond_reason = r, cond_message = []\<rparr> (in_status i)\<rparr>"

definition after_install :: "'v lib \<Rightarrow> installation \<Rightarrow> chart \<Rightarrow> installation" where
  "after_install L i ext = marked L (marked L i ext ''False'' ''Installing'') ext ''True'' ''Installed''"

lemma handle_install_run:
  assumes w: "faults w = []" "find_install (installs w) (in_name i) = Some i" and u: "unmarshal (chart_values ext) = Ok v"
    and not: "\<not> extension_already_processed i ext" "release_pair ext \<notin> set (releases w)"
  shows "handle_extension_install L unmarshal i ext w = (Ok (after_install L i ext), w\<lparr>
      releases := release_pair ext # releases w, log := log w @ [HelmInstall \<lparr>ho_release = chart_release ext,
        ho_chart = chart_name ext, ho_version = chart_version ext, ho_values = v, ho_namespace = target_ns ext,
        ho_timeout = chart_timeout ext, ho_force = False, ho_labels = [], ho_disable_ssa = False\<rparr>],
      installs := put_install (after_install L i ext) (installs w)\<rparr>)"
  using assms
  by (simp add: handle_extension_install_def handle_extension_def mark_extension_as_processing_def
      mark_extension_as_processed_def bind_def wrap_def attempt_def mark_run Let_def helm_release_exists_def
      gets_def install_ext_def lift_def helm_install_def ret_def release_pair_def ist.lookup_put
      format_action_def after_install_def marked_def)

text \<open>What two versions call for, read off the charts of each.\<close>

definition called_for :: "helm_extensions option \<Rightarrow> helm_extensions option \<Rightarrow> diff_result \<Rightarrow> bool" where
  "called_for old_exts new_exts r \<longleftrightarrow>
     expected_result (last_chart old_exts (result_name r)) (last_chart new_exts (result_name r)) = Some r"

lemma targets_filtered:
  "concat (map uninstall_targets rs) = map (release_pair \<circ> dr_ext) (filter (\<lambda>r. dr_action r = ActionUninstall) rs)"
  "concat (map apply_targets rs) = map (release_pair \<circ> dr_ext) (filter (\<lambda>r. dr_action r \<in> {ActionInstall, ActionUpgrade}) rs)"
  by (induction rs) (auto simp: uninstall_targets_def apply_targets_def)

lemma subseq_of_map: "subseq xs (map f ys) \<Longrightarrow> \<exists>zs. subseq zs ys \<and> xs = map f zs"
  by (auto simp: subseq_conv_nths nths_map)

lemma subseq_mem: "subseq xs ys \<Longrightarrow> set xs \<subseteq> set ys"
  by (auto simp: subseq_conv_nths set_nths)

lemma subseq_rev: "subseq xs ys \<Longrightarrow> subseq (rev xs) (rev ys)"
  by (induction rule: list_emb.induct) (auto intro: list_emb_append_mono)

lemma subseq_once: "subseq xs ys \<Longrightarrow> distinct ys \<Longrightarrow> distinct xs"
  by (auto simp: subseq_conv_nths)

lemma subseq_sorted: "subseq xs ys \<Longrightarrow> sorted (map f ys) \<Longrightarrow> sorted (map f xs)"
  by (auto simp: subseq_conv_nths nths_map [symmetric] intro: sorted_nths)

text \<open>Two charts, listed in the reverse of their order, are installed in their order.\<close>

definition sample_two_charts :: installation where
  "sample_two_charts = sample_with_charts [sample_chart ''x'' ''b'' 2, sample_chart ''x'' ''a'' 1]"

lemma sample_diff_two: "diff_extensions sample_arrange (exts_of None) (exts_of (Some sample_two_charts)) =
    [\<lparr>dr_action = ActionInstall, dr_ext = sample_chart ''x'' ''a'' 1\<rparr>, \<lparr>dr_action = ActionInstall, dr_ext = sample_chart ''x'' ''b'' 2\<rparr>]"
  unfolding sample_two_charts_def sample_exts
  by (simp add: exts_of_def diff_extensions_def charts_by_name_def new_result_def sample_arrange_def Let_def)

lemma sample_two_run: "\<exists>res w'. upgrade_extensions sample_lib sample_decode sample_arrange None
    sample_two_charts (sample_kube [sample_two_charts]) = (res, w') \<and>
    list_all is_install_event (log w') \<and> map event_target (log w') = [(''x'', ''a''), (''x'', ''b'')]"
proof -
  let ?a = "sample_chart ''x'' ''a'' 1" and ?b = "sample_chart ''x'' ''b'' 2"
  let ?i = "after_install sample_lib sample_two_charts ?a"
  obtain w1 where 1: "handle_extension_install sample_lib sample_decode sample_two_charts ?a (sample_kube [sample_two_charts]) = (Ok ?i, w1)"
    and w1: "faults w1 = []" "list_all is_install_event (log w1)" "releases w1 = [(''x'', ''a'')]" "map event_target (log w1) = [(''x'', ''a'')]"
      "find_install (installs w1) (in_name sample_two_charts) = Some ?i"
    using handle_install_run [of "sample_kube [sample_two_charts]" sample_two_charts sample_decode ?a "[]" sample_lib]
    by (simp add: sample_two_charts_def sample_not_processed sample_kube_def sample_decode_def release_pair_def event_target_def event_kind_defs
       after_install_def marked_def)
  have name: "in_name ?i = in_name sample_two_charts" by (simp add: after_install_def marked_def)
  have "\<not> extension_already_processed ?i ?b"
    by (simp add: extension_already_processed_def check_installation_condition_status_def after_install_def marked_def sample_two_charts_def
        sample_lib_def condition_name_def set_condition_def)
  with handle_install_run [of w1 ?i sample_decode ?b "[]" sample_lib] w1 name
  obtain w2 where 2: "handle_extension_install sample_lib sample_decode ?i ?b w1 = (Ok (after_install sample_lib ?i ?b), w2)"
    and w2: "list_all is_install_event (log w2)" "map event_target (log w2) = [(''x'', ''a''), (''x'', ''b'')]"
    by (simp add: sample_decode_def release_pair_def event_target_def event_kind_defs)
  have air: "air_gap (in_spec sample_two_charts)" by (simp add: sample_two_charts_def)
  show ?thesis using w2 air
    by (simp add: upgrade_extensions_def sample_diff_two upgrade_repos_def bind_def wrap_def ret_def
        uninstall_step_def apply_step_def sample_not_processed 1 2) 
qed

section \<open>Properties\<close>

text \<open>
  The difference lists every chart name of either version exactly once, with the chart and
  the action the two versions call for (install, upgrade when anything differs, no change,
  uninstall), in ascending order.
\<close>

theorem diff_extensions_complete:
  assumes "arranges arrange"
  shows "let rs = diff_extensions arrange old_exts new_exts in
    distinct (map result_name rs) \<and> sorted (map (\<lambda>r. chart_order (dr_ext r)) rs) \<and>
    (\<forall>r. r \<in> set rs \<longleftrightarrow>
      expected_result (last_chart old_exts (result_name r)) (last_chart new_exts (result_name r)) = Some r)"
  using diff_extensions_facts [OF assms] by (simp add: raw_results_mem)

theorem diff_extensions_complete_witness:
  "\<lparr>dr_action = ActionInstall, dr_ext = sample_chart ''x'' ''a'' 1\<rparr> \<in> set (diff_extensions sample_arrange None
     (Some \<lparr>helm_repositories = [], helm_charts = [sample_chart ''x'' ''a'' 1]\<rparr>))"
proof -
  let ?r = "\<lparr>dr_action = ActionInstall, dr_ext = sample_chart ''x'' ''a'' 1\<rparr>"
  have "\<forall>r. r \<in> set (diff_extensions sample_arrange None
       (Some \<lparr>helm_repositories = [], helm_charts = [sample_chart ''x'' ''a'' 1]\<rparr>)) \<longleftrightarrow>
    expected_result (last_chart None (result_name r))
      (last_chart (Some \<lparr>helm_repositories = [], helm_charts = [sample_chart ''x'' ''a'' 1]\<rparr>) (result_name r)) = Some r"
    using diff_extensions_complete [OF sample_arranges] unfolding Let_def by blast
  then show ?thesis by (simp add: expected_result_def last_chart_def result_name_def)
qed

text \<open>
  C11: Whatever fails, the helm operations of an upgrade are: adding repositories, then uninstalling charts that
  the two versions call to be removed, in descending order, then installing or upgrading charts that the two
  versions call for, in ascending order; no release is touched twice. The sort of the differences is only required
  to sort them by their order.
\<close>

theorem upgrade_extensions_order:
  assumes "arranges arrange" and run: "upgrade_extensions L unmarshal arrange prev i w = (res, w')"
  shows "\<exists>repos us as removed applied. log w' = log w @ repos @ us @ as \<and>
    list_all is_repo_event repos \<and> list_all is_uninstall_event us \<and> list_all is_install_event as \<and>
    map event_target us = map (release_pair \<circ> dr_ext) removed \<and> map event_target as = map (release_pair \<circ> dr_ext) applied \<and>
    list_all (\<lambda>r. called_for (exts_of prev) (exts_of (Some i)) r \<and> dr_action r = ActionUninstall) removed \<and>
    list_all (\<lambda>r. called_for (exts_of prev) (exts_of (Some i)) r \<and> dr_action r \<in> {ActionInstall, ActionUpgrade}) applied \<and>
    sorted (rev (map (chart_order \<circ> dr_ext) removed)) \<and> sorted (map (chart_order \<circ> dr_ext) applied) \<and>
    distinct (map event_target (us @ as))"
proof -
  let ?rs = "diff_extensions arrange (exts_of prev) (exts_of (Some i))"
  let ?U = "touches is_uninstall_event (concat (map uninstall_targets (rev ?rs)))"
  let ?A = "touches is_install_event (concat (map apply_targets ?rs))"
  have "emits (then_events only_repos (then_events ?U ?A)) (upgrade_extensions L unmarshal arrange prev i)"
    unfolding upgrade_extensions_def Let_def
    by (rule emits_bind [OF emits_upgrade_repos emits_bind [OF emits_fold_each [OF emits_uninstall_step]
          emits_fold_each [OF emits_apply_step]]]) (auto simp: then_events_def)
  from emitsD [OF this run] obtain repos us as where log: "log w' = log w @ repos @ us @ as"
    and kinds: "list_all is_repo_event repos" "list_all is_uninstall_event us" "list_all is_install_event as"
    and subs: "subseq (map event_target us) (concat (map uninstall_targets (rev ?rs)))"
      "subseq (map event_target as) (concat (map apply_targets ?rs))"
    unfolding then_events_def only_repos_def touches_def list_all_iff by blast
  from subs obtain removed applied where
    r: "subseq removed (filter (\<lambda>r. dr_action r = ActionUninstall) (rev ?rs))" "map event_target us = map (release_pair \<circ> dr_ext) removed" and
    a: "subseq applied (filter (\<lambda>r. dr_action r \<in> {ActionInstall, ActionUpgrade}) ?rs)" "map event_target as = map (release_pair \<circ> dr_ext) applied"
    unfolding targets_filtered by (blast dest: subseq_of_map)
  note facts = diff_extensions_facts [OF assms(1), of "exts_of prev" "exts_of (Some i)"]
  have mem: "set removed \<subseteq> {r \<in> set ?rs. dr_action r = ActionUninstall}"
    "set applied \<subseteq> {r \<in> set ?rs. dr_action r \<in> {ActionInstall, ActionUpgrade}}"
    using subseq_mem [OF r(1)] subseq_mem [OF a(1)] by auto
  have called: "called_for (exts_of prev) (exts_of (Some i)) r" if "r \<in> set ?rs" for r
    using that unfolding facts(1) raw_results_mem called_for_def .
  have "distinct (filter (\<lambda>r. dr_action r = ActionUninstall) (rev ?rs))"
     "distinct (filter (\<lambda>r. dr_action r \<in> {ActionInstall, ActionUpgrade}) ?rs)"
    using facts(2) by (simp_all add: distinct_map)
  with r(1) a(1) have "distinct removed" "distinct applied" by (blast intro: subseq_once)+
  moreover have "set removed \<inter> set applied = {}" using mem by force
  moreover have "set (removed @ applied) \<subseteq> set ?rs" using mem by auto
  ultimately have "distinct (map result_name (removed @ applied))"
    using facts(2) unfolding distinct_map by (metis distinct_append inj_on_subset)
  from names_targets [OF this] have "distinct (map event_target (us @ as))" using r(2) a(2) by simp
  then have once: "distinct (map event_target (us @ as))" .
  have up: "sorted (map (chart_order \<circ> dr_ext) applied)"
    by (rule subseq_sorted [OF a(1)]) (use facts(3) in \<open>simp add: sorted_filter comp_def\<close>)
  have "subseq (rev removed) (filter (\<lambda>r. dr_action r = ActionUninstall) ?rs)"
    using subseq_rev [OF r(1)] by (simp add: rev_filter)
  then have "sorted (map (chart_order \<circ> dr_ext) (rev removed))"
    by (rule subseq_sorted) (use facts(3) in \<open>simp add: sorted_filter comp_def\<close>)
  then have down: "sorted (rev (map (chart_order \<circ> dr_ext) removed))" by (simp add: rev_map)
  have "list_all (\<lambda>r. called_for (exts_of prev) (exts_of (Some i)) r \<and> dr_action r = ActionUninstall) removed"
    "list_all (\<lambda>r. called_for (exts_of prev) (exts_of (Some i)) r \<and> dr_action r \<in> {ActionInstall, ActionUpgrade}) applied"
    unfolding list_all_iff using mem called by blast+
  with log kinds r(2) a(2) down up once show ?thesis by blast
qed


theorem upgrade_extensions_order_witness:
  "\<exists>applied. map (release_pair \<circ> dr_ext) applied = [(''x'', ''a''), (''x'', ''b'')] \<and>
    list_all (called_for None (exts_of (Some sample_two_charts))) applied \<and> sorted (map (chart_order \<circ> dr_ext) applied)"
proof -
  obtain res w' where run: "upgrade_extensions sample_lib sample_decode sample_arrange None
      sample_two_charts (sample_kube [sample_two_charts]) = (res, w')"
    and log: "list_all is_install_event (log w')" "map event_target (log w') = [(''x'', ''a''), (''x'', ''b'')]"
    using sample_two_run by (elim exE conjE)
  have "log (sample_kube [sample_two_charts]) = []" by (simp add: sample_kube_def)
  with upgrade_extensions_order [OF sample_arranges run] obtain repos us as applied where es: "log w' = repos @ us @ as"
    and kinds: "list_all is_repo_event repos" "list_all is_uninstall_event us"
    and a: "map event_target as = map (release_pair \<circ> dr_ext) applied" "sorted (map (chart_order \<circ> dr_ext) applied)"
      "list_all (\<lambda>r. called_for (exts_of None) (exts_of (Some sample_two_charts)) r \<and> dr_action r \<in> {ActionInstall, ActionUpgrade}) applied"
    by (elim exE conjE) simp
  have "repos = []" "us = []"
    using log(1) kinds unfolding es by (cases repos; cases us; auto simp: event_kind_defs split: event.splits)+
  with es log(2) a show ?thesis by (intro exI [of _ applied]) (auto simp: list_all_iff exts_of_def)
qed

text \<open>
  C9: after a successful upgrade every difference is processed and visible in helm's releases:
  what had to be installed or upgraded is there, what was removed is gone. The charts' condition
  names must differ (see the counterexample below) and conditions and releases agree at the
  start, as they do before the first attempt.
\<close>

theorem upgrade_extensions_converges:
  assumes "sets_condition (lib_set_condition L)" and "arranges arrange"
    and "distinct (map (condition_name \<circ> dr_ext) (diff_extensions arrange (exts_of prev) (exts_of (Some i))))"
    and "exts_in_step (diff_extensions arrange (exts_of prev) (exts_of (Some i))) w i"
    and "upgrade_extensions L unmarshal arrange prev i w = (Ok i', w')"
  shows "\<forall>r \<in> set (diff_extensions arrange (exts_of prev) (exts_of (Some i))).
    extension_already_processed i' (dr_ext r) \<and> release_ok r w'"
  using advances_Ok(1,3) [OF advances_upgrade_extensions [OF assms(1-3)] assms(4) assms(5) [unfolded upgrade_extensions_def Let_def]]
  by (simp add: in_step_def processed_iff)

theorem upgrade_extensions_converges_witness:
  "\<exists>w'. fst (upgrade_extensions sample_lib sample_decode sample_arrange None (sample_with_charts [sample_chart ''x'' ''a'' 1])
      (sample_kube [sample_with_charts [sample_chart ''x'' ''a'' 1]])) =
    Ok (after_install sample_lib (sample_with_charts [sample_chart ''x'' ''a'' 1]) (sample_chart ''x'' ''a'' 1)) \<and>
    upgrade_extensions sample_lib sample_decode sample_arrange None (sample_with_charts [sample_chart ''x'' ''a'' 1])
      (sample_kube [sample_with_charts [sample_chart ''x'' ''a'' 1]]) =
    (Ok (after_install sample_lib (sample_with_charts [sample_chart ''x'' ''a'' 1]) (sample_chart ''x'' ''a'' 1)), w') \<and>
    release_ok \<lparr>dr_action = ActionInstall, dr_ext = sample_chart ''x'' ''a'' 1\<rparr> w'"
proof -
  let ?c = "sample_chart ''x'' ''a'' 1"
  let ?i = "sample_with_charts [?c]"
  obtain w' where run: "upgrade_extensions sample_lib sample_decode sample_arrange None ?i (sample_kube [?i]) =
      (Ok (after_install sample_lib ?i ?c), w')"
    using handle_install_run [of "sample_kube [?i]" ?i sample_decode ?c "[]" sample_lib]
    by (simp add: upgrade_extensions_def sample_diff_one upgrade_repos_def bind_def wrap_def ret_def
        uninstall_step_def apply_step_def sample_not_processed) (simp add: sample_kube_def)
  have "\<forall>r \<in> set (diff_extensions sample_arrange (exts_of None) (exts_of (Some ?i))).
      extension_already_processed (after_install sample_lib ?i ?c) (dr_ext r) \<and> release_ok r w'"
    by (rule upgrade_extensions_converges [OF sample_sets_condition sample_arranges _ sample_in_step run])
       (simp add: sample_diff_one)
  then show ?thesis using run by (simp add: sample_diff_one)
qed

text \<open>
  C17: Whatever fails, the stored conditions never call a difference processed that helm's
  releases do not show, so a later attempt may skip what is marked. As in the property before, the
  condition names of the differences must differ (they may collide for different charts, see the
  counterexample below), the sort must sort, and conditions and releases agree at the start, as they
  do before the first attempt.
\<close>

theorem upgrade_extensions_resumable:
  assumes "sets_condition (lib_set_condition L)" and "arranges arrange"
    and "distinct (map (condition_name \<circ> dr_ext) (diff_extensions arrange (exts_of prev) (exts_of (Some i))))"
    and "exts_in_step (diff_extensions arrange (exts_of prev) (exts_of (Some i))) w i"
    and "upgrade_extensions L unmarshal arrange prev i w = (res, w')"
  shows "\<exists>j. find_install (installs w') (in_name i) = Some j \<and>
    (\<forall>r \<in> set (diff_extensions arrange (exts_of prev) (exts_of (Some i))).
       extension_already_processed j (dr_ext r) \<longrightarrow> release_ok r w')"
  using advances_stored [OF advances_upgrade_extensions [OF assms(1-3)] assms(4) assms(5) [unfolded upgrade_extensions_def Let_def]]
  by (auto simp: in_step_def processed_iff status_of_def marked_done_def)

text \<open>The helm client fails on the second try to install: the condition stays false.\<close>

theorem upgrade_extensions_resumable_witness:
  "\<exists>res w' j. upgrade_extensions sample_lib sample_decode sample_arrange None
      (sample_with_charts [sample_chart ''x'' ''a'' 1])
      ((sample_kube [sample_with_charts [sample_chart ''x'' ''a'' 1]])\<lparr>faults :=
        [NoFault, NoFault, NoFault, Failing ''helm'']\<rparr>) = (res, w') \<and> find_install (installs w') ''1'' = Some j \<and>
    (extension_already_processed j (sample_chart ''x'' ''a'' 1) \<longrightarrow> (''x'', ''a'') \<in> set (releases w'))"
proof -
  let ?c = "sample_chart ''x'' ''a'' 1"
  let ?i = "sample_with_charts [?c]"
  let ?w = "(sample_kube [?i])\<lparr>faults := [NoFault, NoFault, NoFault, Failing ''helm'']\<rparr>"
  obtain res w' where run: "upgrade_extensions sample_lib sample_decode sample_arrange None ?i ?w = (res, w')"
    by (cases "upgrade_extensions sample_lib sample_decode sample_arrange None ?i ?w")
  have "\<exists>j. find_install (installs w') (in_name ?i) = Some j \<and>
    (\<forall>r \<in> set (diff_extensions sample_arrange (exts_of None) (exts_of (Some ?i))).
       extension_already_processed j (dr_ext r) \<longrightarrow> release_ok r w')"
    by (rule upgrade_extensions_resumable [OF sample_sets_condition sample_arranges _ _ run])
       (simp_all add: sample_diff_one sample_in_step)
  then show ?thesis using run by (auto simp: sample_diff_one release_ok_def release_pair_def)
qed

text \<open>
  Two charts whose namespace and name join to the same condition name: the second is taken for
  processed and never installed, and the upgrade succeeds.
\<close>

theorem colliding_condition_names_skip_a_chart:
  "releases (snd (upgrade_extensions sample_lib sample_decode sample_arrange None
      (sample_with_charts [sample_chart ''a-b'' ''c'' 1, sample_chart ''a'' ''b-c'' 2])
      (sample_kube [sample_with_charts [sample_chart ''a-b'' ''c'' 1, sample_chart ''a'' ''b-c'' 2]]))) =
    [(''a-b'', ''c'')]"
proof -
  let ?c = "sample_chart ''a-b'' ''c'' 1" and ?d = "sample_chart ''a'' ''b-c'' 2"
  let ?i = "sample_with_charts [?c, ?d]"
  have diff: "diff_extensions sample_arrange (exts_of None) (exts_of (Some ?i)) =
      [\<lparr>dr_action = ActionInstall, dr_ext = ?c\<rparr>, \<lparr>dr_action = ActionInstall, dr_ext = ?d\<rparr>]"
    unfolding sample_exts
    by (simp add: exts_of_def diff_extensions_def charts_by_name_def new_result_def sample_arrange_def Let_def)
  have one: "handle_extension_install sample_lib sample_decode ?i ?c (sample_kube [?i]) = (Ok (after_install sample_lib ?i ?c),
      (sample_kube [?i])\<lparr>releases := [(''a-b'', ''c'')], log := [HelmInstall \<lparr>ho_release = ''c'',
        ho_chart = chart_name ?c, ho_version = chart_version ?c, ho_values = [], ho_namespace = ''a-b'',
        ho_timeout = chart_timeout ?c, ho_force = False, ho_labels = [], ho_disable_ssa = False\<rparr>], installs := [after_install sample_lib ?i ?c]\<rparr>)"
    using handle_install_run [of "sample_kube [?i]" ?i sample_decode ?c "[]" sample_lib]
    by (simp add: sample_not_processed sample_kube_def release_pair_def after_install_def marked_def)
  have two: "extension_already_processed (after_install sample_lib ?i ?c) ?d"
    by (simp add: extension_already_processed_def check_installation_condition_status_def after_install_def
        marked_def set_condition_def sample_lib_def condition_name_def)
  show ?thesis
    unfolding upgrade_extensions_def Let_def diff
    by (simp add: upgrade_repos_def bind_def wrap_def ret_def uninstall_step_def apply_step_def one
        handle_extension_install_def [of _ _ _ ?d] handle_extension_def [of _ _ ?d] two)
qed

end
