(* ===== verification/NetUtils.thy ===== *)
theory NetUtils
  imports Installation
begin

text \<open>
  Networks (\<^verbatim>\<open>pkg/netutils\<close>, \<^verbatim>\<open>pkg/helpers/ip.go\<close>, \<^verbatim>\<open>pkg-new/config\<close>): splitting and
  checking CIDRs, the addresses reserved for cluster services, choosing an interface, and the
  proxy settings.

  Addresses are numbers, with \<open>net.ParseCIDR\<close> and \<open>net.ParseIP\<close> written out for IPv4 text. The
  text form of IPv6 (\<open>nl_parse6\<close>, \<open>nl_show6\<close>) and go-cidr's functions are parameters; the
  environment, the interfaces of the machine and what a cloud's metadata service answers are
  arguments.
\<close>

section \<open>Addresses and networks\<close>

text \<open>An address whose \<open>To4\<close> is not nil is \<open>IP4\<close>, whatever its text form.\<close>

datatype ip = IP4 nat | IP6 nat

record ipnet =
  net_addr :: ip
  net_ones :: nat
  net_bits :: nat

record netlib =
  nl_parse6 :: "string \<Rightarrow> ip option"
  nl_show6 :: "ip \<Rightarrow> string"
  nl_subnet :: "ipnet \<Rightarrow> nat \<Rightarrow> nat \<Rightarrow> ipnet outcome"
  nl_range :: "ipnet \<Rightarrow> ip \<times> ip"
  nl_inc :: "ip \<Rightarrow> ip"

definition clear_low :: "nat \<Rightarrow> nat \<Rightarrow> nat" where
  "clear_low k a = (a div 2 ^ k) * 2 ^ k"

fun ip_num :: "ip \<Rightarrow> nat" where
  "ip_num (IP4 a) = a"
| "ip_num (IP6 a) = a"

fun is_ip4 :: "ip \<Rightarrow> bool" where
  "is_ip4 (IP4 _) = True"
| "is_ip4 (IP6 _) = False"

fun mask_ip :: "nat \<Rightarrow> nat \<Rightarrow> ip \<Rightarrow> ip" where
  "mask_ip bits ones (IP4 a) = (if bits = 128 \<and> ones < 96
     then IP6 (clear_low (128 - ones) (65535 * 2 ^ 32 + a)) else IP4 (clear_low (bits - ones) a))"
| "mask_ip bits ones (IP6 a) = IP6 (clear_low (bits - ones) a)"

definition octets :: "nat \<Rightarrow> nat list" where
  "octets a = [a div 2 ^ 24 mod 256, a div 2 ^ 16 mod 256, a div 2 ^ 8 mod 256, a mod 256]"

definition show_ip4 :: "nat \<Rightarrow> string" where
  "show_ip4 a = join_str ''.'' (map show_nat (octets a))"

definition show_ip :: "netlib \<Rightarrow> ip \<Rightarrow> string" where
  "show_ip N i = (case i of IP4 a \<Rightarrow> show_ip4 a | IP6 _ \<Rightarrow> nl_show6 N i)"

definition show_net :: "netlib \<Rightarrow> ipnet \<Rightarrow> string" where
  "show_net N n = show_ip N (net_addr n) @ ''/'' @
     show_nat (if is_ip4 (net_addr n) then net_ones n - (net_bits n - 32) else net_ones n)"

text \<open>A field of an IPv4 address: at most 255, no leading zero.\<close>

definition parse_octet :: "string \<Rightarrow> nat option" where
  "parse_octet s = (case parse_dec s of None \<Rightarrow> None
     | Some n \<Rightarrow> if n \<le> 255 \<and> (length s = 1 \<or> hd s \<noteq> CHR ''0'') then Some n else None)"

definition parse_ip4 :: "string \<Rightarrow> nat option" where
  "parse_ip4 s = (case map parse_octet (split_on CHR ''.'' s) of
       [Some a, Some b, Some c, Some d] \<Rightarrow> Some (a * 2 ^ 24 + b * 2 ^ 16 + c * 2 ^ 8 + d)
     | _ \<Rightarrow> None)"

text \<open>The first separator decides which form the text is in; the result carries its width.\<close>

definition first_sep :: "string \<Rightarrow> char option" where
  "first_sep s = List.find (\<lambda>c. c = CHR ''.'' \<or> c = CHR '':'' \<or> c = CHR ''%'') s"

definition parse_addr :: "netlib \<Rightarrow> string \<Rightarrow> (ip \<times> nat) option" where
  "parse_addr N s =
     (if first_sep s = Some CHR ''.'' then map_option (\<lambda>a. (IP4 a, 32)) (parse_ip4 s)
      else if first_sep s = Some CHR '':'' then map_option (\<lambda>i. (i, 128)) (nl_parse6 N s)
      else None)"

definition parse_ip :: "netlib \<Rightarrow> string \<Rightarrow> ip option" where
  "parse_ip N s = map_option fst (parse_addr N s)"

definition parse_cidr :: "netlib \<Rightarrow> string \<Rightarrow> (ip \<times> ipnet) outcome" where
  "parse_cidr N s =
     (let bad = Err (EMsg (''invalid CIDR address: '' @ s)); a = takeWhile (\<lambda>c. c \<noteq> CHR ''/'') s;
          rest = dropWhile (\<lambda>c. c \<noteq> CHR ''/'') s in
      case rest of [] \<Rightarrow> bad
      | _ # m \<Rightarrow> (case (parse_addr N a, parse_dec m) of
          (Some (i, bits), Some ones) \<Rightarrow>
            if ones \<le> bits then Ok (i, \<lparr>net_addr = mask_ip bits ones i, net_ones = ones, net_bits = bits\<rparr>)
            else bad
        | _ \<Rightarrow> bad))"

text \<open>\<open>Contains\<close>: both in the same family; a 128-bit mask is cut to the family's width.\<close>

definition net_contains :: "ipnet \<Rightarrow> ip \<Rightarrow> bool" where
  "net_contains n i = (case (net_addr n, i) of
     (IP4 a, IP4 b) \<Rightarrow> (let k = min 32 (net_bits n - net_ones n) in clear_low k a = clear_low k b)
   | (IP6 a, IP6 b) \<Rightarrow> (let k = net_bits n - net_ones n in clear_low k a = clear_low k b)
   | _ \<Rightarrow> False)"

section \<open>Splitting and checking\<close>

definition split_network_cidr :: "netlib \<Rightarrow> string \<Rightarrow> (string \<times> string) outcome" where
  "split_network_cidr N netaddr =
     bindO (wrapO ''unable to parse cidr'' (parse_cidr N netaddr)) (\<lambda>(_, n).
     bindO (wrapO ''unable to determine first cidr'' (nl_subnet N n 1 0)) (\<lambda>podnet.
     bindO (wrapO ''unable to determine second cidr'' (nl_subnet N n 1 1)) (\<lambda>svcnet.
     Ok (show_net N podnet, show_net N svcnet))))"

definition private_nets :: "string list" where
  "private_nets = [''10.0.0.0/8'', ''172.16.0.0/12'', ''192.168.0.0/16'']"

definition in_private_nets :: "netlib \<Rightarrow> ip \<Rightarrow> bool" where
  "in_private_nets N i \<longleftrightarrow> list_ex (\<lambda>s. case parse_cidr N s of Ok (_, p) \<Rightarrow> net_contains p i | _ \<Rightarrow> False) private_nets"

definition net_validate_cidr :: "netlib \<Rightarrow> string \<Rightarrow> nat \<Rightarrow> bool \<Rightarrow> unit outcome" where
  "net_validate_cidr N c not_less_than private =
     bindO (parse_cidr N c) (\<lambda>(_, n).
     if show_net N n \<noteq> c then Err (EMsg (''The provided CIDR block ('' @ c @
       '') is not valid, please use the canonical representation '' @ show_net N n))
     else if net_ones n > not_less_than then Err (EMsg (''The provided CIDR block ('' @ c @
       '') is too small. It must be /'' @ show_nat not_less_than @ '' or larger.''))
     else if \<not> private then Ok ()
     else if in_private_nets N (net_addr n) then Ok ()
     else Err (EMsg (''The provided CIDR block ('' @ c @ '') is not in a private IP address range ('' @
       join_str '', '' private_nets @ '')'')))"

definition config_validate_cidr :: "netlib \<Rightarrow> string \<Rightarrow> unit outcome" where
  "config_validate_cidr N c = wrapO ''unable to validate cidr flag'' (net_validate_cidr N c 16 True)"

definition config_split_cidr :: "netlib \<Rightarrow> string \<Rightarrow> (string \<times> string) outcome" where
  "config_split_cidr N c = wrapO ''unable to split cidr flag'' (split_network_cidr N c)"

definition clean_cidr :: "netlib \<Rightarrow> ipnet \<Rightarrow> string outcome" where
  "clean_cidr N n = bindO (wrapO (''failed to parse local inet CIDR '' @ show_net N n) (parse_cidr N (show_net N n)))
     (\<lambda>(_, m). Ok (show_net N m))"

definition networks_are_adjacent_and_same_size :: "netlib \<Rightarrow> string \<Rightarrow> string \<Rightarrow> (bool \<times> string) outcome" where
  "networks_are_adjacent_and_same_size N a b =
     bindO (wrapO (''unable to parse first cidr '' @ a) (parse_cidr N a)) (\<lambda>(_, anet).
     bindO (wrapO (''unable to parse second cidr '' @ b) (parse_cidr N b)) (\<lambda>(_, bnet).
     if net_ones anet \<noteq> net_ones bnet \<or> net_bits anet \<noteq> net_bits bnet then Ok (False, [])
     else if fst (nl_range N bnet) \<noteq> nl_inc N (snd (nl_range N anet)) then Ok (False, [])
     else Ok (True, show_ip N (fst (nl_range N anet)) @ ''/'' @
       (if net_ones anet = 0 then ''-1'' else show_nat (net_ones anet - 1)))))"

section \<open>Reserved service addresses\<close>

text \<open>\<open>big.Int.Bytes\<close>: big endian, without leading zero bytes.\<close>

fun nat_bytes :: "nat \<Rightarrow> nat list" where
  "nat_bytes n = (if n = 0 then [] else nat_bytes (n div 256) @ [n mod 256])"

declare nat_bytes.simps [simp del]

definition show_int :: "int \<Rightarrow> string" where
  "show_int i = (if i < 0 then ''-'' @ show_nat (nat (- i)) else show_nat (nat i))"

definition get_lower_band_ip :: "netlib \<Rightarrow> string \<Rightarrow> int \<Rightarrow> nat list outcome" where
  "get_lower_band_ip N c index =
     bindO (wrapO ''failed to parse CIDR'' (parse_cidr N c)) (\<lambda>(_, n).
     case net_addr n of IP6 _ \<Rightarrow> Err (EMsg ''only IPv4 is supported'')
     | IP4 a \<Rightarrow>
         let size = 2 ^ (net_bits n - net_ones n);
             offset = max 16 (size div 16);
             band_end = min (a + offset) (a + size);
             selected = int a + (index + 1)
         in if selected \<le> int a \<or> selected > int band_end
            then Err (EMsg (''index '' @ show_int index @ '' is out of the band range''))
            else Ok (nat_bytes (nat selected)))"

section \<open>Network interfaces\<close>

text \<open>An address is an \<open>*net.IPNet\<close> or something else, which the code skips or compares.\<close>

datatype if_addr = IfNet ipnet | IfAddr ip | IfOther

record netif =
  if_name :: string
  if_up :: bool
  if_loopback :: bool
  if_addrs :: "if_addr list outcome"

definition is_loopback :: "ip \<Rightarrow> bool" where
  "is_loopback i = (case i of IP4 a \<Rightarrow> a div 2 ^ 24 = 127 | IP6 a \<Rightarrow> a = 1)"

fun valid_net_of :: "if_addr list \<Rightarrow> ipnet option" where
  "valid_net_of [] = None"
| "valid_net_of (IfNet n # as) =
     (if \<not> is_loopback (net_addr n) \<and> is_ip4 (net_addr n) then Some n else valid_net_of as)"
| "valid_net_of (_ # as) = valid_net_of as"

definition first_valid_ip_net_of :: "netif \<Rightarrow> ipnet outcome" where
  "first_valid_ip_net_of i = bindO (wrapO ''get addresses'' (if_addrs i)) (\<lambda>as. case valid_net_of as of
     Some n \<Rightarrow> Ok n
   | None \<Rightarrow> Err (EMsg ''could not find any non-local, non podnetwork ipv4 addresses''))"

definition is_valid_interface :: "netif \<Rightarrow> bool" where
  "is_valid_interface i \<longleftrightarrow>
     if_name i \<notin> {''vxlan.calico'', ''kube-bridge'', ''dummyvip0''} \<and>
     \<not> prefix ''veth'' (if_name i) \<and> \<not> prefix ''cali'' (if_name i) \<and>
     (case first_valid_ip_net_of i of Ok _ \<Rightarrow> True | _ \<Rightarrow> False)"

definition list_valid_interfaces :: "netif list outcome \<Rightarrow> netif list outcome" where
  "list_valid_interfaces ifs = bindO (wrapO ''list network interfaces'' ifs) (\<lambda>is. Ok (filter is_valid_interface is))"

definition first_valid_ip_net :: "netif list outcome \<Rightarrow> string \<Rightarrow> ipnet outcome" where
  "first_valid_ip_net ifs name =
     bindO (wrapO ''list valid network interfaces'' (list_valid_interfaces ifs)) (\<lambda>is.
     case is of [] \<Rightarrow> Err (EMsg ''no valid network interfaces found on this machine'')
     | i # _ \<Rightarrow>
         if name = [] then first_valid_ip_net_of i
         else case List.find (\<lambda>j. if_name j = name) is of
           Some j \<Rightarrow> first_valid_ip_net_of j
         | None \<Rightarrow> Err (EMsg (''interface '' @ name @ '' not found or is not valid. The following interfaces were detected: '' @
             join_str '', '' (map if_name is))))"

definition first_valid_address :: "netlib \<Rightarrow> netif list outcome \<Rightarrow> string \<Rightarrow> string outcome" where
  "first_valid_address N ifs name = bindO (wrapO (''get ipnet for interface '' @ name) (first_valid_ip_net ifs name))
     (\<lambda>n. Ok (show_ip N (net_addr n)))"

definition list_valid_network_interfaces :: "netif list outcome \<Rightarrow> netif list outcome" where
  "list_valid_network_interfaces ifs = bindO (list_valid_interfaces ifs) (\<lambda>is.
     Ok (filter (\<lambda>i. if_up i \<and> \<not> if_loopback i) is))"

fun ip4_nets :: "if_addr list \<Rightarrow> ip list" where
  "ip4_nets [] = []"
| "ip4_nets (IfNet n # as) =
     (if \<not> is_loopback (net_addr n) \<and> is_ip4 (net_addr n) then net_addr n # ip4_nets as else ip4_nets as)"
| "ip4_nets (_ # as) = ip4_nets as"

fun collect_addresses :: "netif list \<Rightarrow> ip list outcome" where
  "collect_addresses [] = Ok []"
| "collect_addresses (i # is) = bindO (wrapO ''get addresses'' (if_addrs i)) (\<lambda>as.
     bindO (collect_addresses is) (\<lambda>rest. Ok (ip4_nets as @ rest)))"

text \<open>The result may hold a nil address: the public IP is not checked to parse.\<close>

definition list_all_valid_ip_addresses :: "netlib \<Rightarrow> netif list outcome \<Rightarrow> string \<Rightarrow> ip option list outcome" where
  "list_all_valid_ip_addresses N ifs public_ip =
     bindO (wrapO ''list valid network interfaces'' (list_valid_network_interfaces ifs)) (\<lambda>is.
     bindO (collect_addresses is) (\<lambda>ips.
     Ok (map Some ips @ (if public_ip \<noteq> [] then [parse_ip N public_ip] else []))))"

definition addr_ip :: "if_addr \<Rightarrow> ip option" where
  "addr_ip a = (case a of IfNet n \<Rightarrow> Some (net_addr n) | IfAddr i \<Rightarrow> Some i | IfOther \<Rightarrow> None)"

fun find_interface_name :: "netlib \<Rightarrow> ip \<Rightarrow> netif list \<Rightarrow> string outcome" where
  "find_interface_name N i [] = Err (EMsg (''no interface found for IP '' @ show_ip N i))"
| "find_interface_name N i (n # ns) = (case if_addrs n of
     Err e \<Rightarrow> Err (EMsg (''failed to get addresses for interface '' @ if_name n @ '': '' @ err_text e))
   | Panic p \<Rightarrow> Panic p
   | Ok as \<Rightarrow> if list_ex (\<lambda>a. addr_ip a = Some i) as then Ok (if_name n) else find_interface_name N i ns)"

definition determine_best_network_interface ::
    "netlib \<Rightarrow> ip option outcome \<Rightarrow> netif list outcome \<Rightarrow> string outcome" where
  "determine_best_network_interface N chosen ifs = (case chosen of
     Panic p \<Rightarrow> Panic p
   | Ok (Some i) \<Rightarrow>
       if \<not> is_ip4 i then Err (EMsg ''best interface was IPv6'')
       else (case (case ifs of
               Err e \<Rightarrow> Err (EMsg (''failed to list interfaces: '' @ err_text e))
             | Panic p \<Rightarrow> Panic p
             | Ok ns \<Rightarrow> find_interface_name N i ns) of
           Ok name \<Rightarrow> Ok name
         | Err _ \<Rightarrow> Err (EMsg ''cannot determine interface name'')
         | Panic p \<Rightarrow> Panic p)
   | _ \<Rightarrow> Err (EMsg ''no auto interface found''))"

section \<open>Proxy settings\<close>

definition first_env :: "(string \<Rightarrow> string) \<Rightarrow> string \<Rightarrow> string \<Rightarrow> string \<Rightarrow> string" where
  "first_env getenv v lower upper =
     (if v \<noteq> [] then v else if getenv lower \<noteq> [] then getenv lower
      else if getenv upper \<noteq> [] then getenv upper else v)"

definition set_proxy_defaults :: "(string \<Rightarrow> string) \<Rightarrow> proxy_spec \<Rightarrow> proxy_spec" where
  "set_proxy_defaults getenv p = p\<lparr>
     http_proxy := first_env getenv (http_proxy p) ''http_proxy'' ''HTTP_PROXY'',
     https_proxy := first_env getenv (https_proxy p) ''https_proxy'' ''HTTPS_PROXY'',
     provided_no_proxy := first_env getenv (provided_no_proxy p) ''no_proxy'' ''NO_PROXY''\<rparr>"

definition default_no_proxy :: "string list" where
  "default_no_proxy = [''localhost'', ''127.0.0.1'', ''.cluster.local'', ''.svc'', ''169.254.169.254'']"

fun no_proxy_entries :: "netlib \<Rightarrow> string \<Rightarrow> ip \<Rightarrow> string list \<Rightarrow> bool \<Rightarrow> bool outcome" where
  "no_proxy_entries N local_ip parsed [] found = Ok found"
| "no_proxy_entries N local_ip parsed (e # es) found =
     (if e = local_ip then no_proxy_entries N local_ip parsed es True
      else if contains_str e ''/'' then
        bindO (wrapO ''failed to parse CIDR within no-proxy'' (parse_cidr N e)) (\<lambda>(_, n).
        no_proxy_entries N local_ip parsed es (found \<or> net_contains n parsed))
      else no_proxy_entries N local_ip parsed es found)"

definition no_proxy_has_local_ip :: "netlib \<Rightarrow> string \<Rightarrow> string \<Rightarrow> bool outcome" where
  "no_proxy_has_local_ip N np local_ip = (case parse_ip N local_ip of
     None \<Rightarrow> Err (EMsg (''failed to parse local IP '' @ [CHR 0x22] @ local_ip @ [CHR 0x22]))
   | Some i \<Rightarrow> no_proxy_entries N local_ip i (split_on CHR '','' np) False)"

definition populate_no_proxy :: "netlib \<Rightarrow> (string \<Rightarrow> ipnet outcome) \<Rightarrow> string \<Rightarrow> string \<Rightarrow> string \<Rightarrow>
    proxy_spec \<Rightarrow> proxy_spec outcome" where
  "populate_no_proxy N lookup pod service nic p =
     (if provided_no_proxy p = [] \<and> http_proxy p = [] \<and> https_proxy p = [] then Ok p
      else
        let base = default_no_proxy @ [pod, service] @
              (if provided_no_proxy p \<noteq> [] then split_on CHR '','' (provided_no_proxy p) else [])
        in bindO (if http_proxy p \<noteq> [] \<or> https_proxy p \<noteq> []
             then bindO (wrapO ''failed to get first valid ip net'' (lookup nic)) (\<lambda>n.
                  bindO (wrapO ''failed to clean subnet'' (clean_cidr N n)) (\<lambda>clean.
                  bindO (wrapO ''failed to validate no-proxy''
                    (no_proxy_has_local_ip N (join_str '','' base) (show_ip N (net_addr n)))) (\<lambda>valid.
                  Ok (if valid then base else base @ [clean]))))
             else Ok base) (\<lambda>entries. Ok (p\<lparr>no_proxy := join_str '','' entries\<rparr>)))"

definition get_proxy_spec :: "netlib \<Rightarrow> (string \<Rightarrow> string) \<Rightarrow> (string \<Rightarrow> ipnet outcome) \<Rightarrow>
    string \<Rightarrow> string \<Rightarrow> string \<Rightarrow> string \<Rightarrow> string \<Rightarrow> string \<Rightarrow> proxy_spec option outcome" where
  "get_proxy_spec N getenv lookup http https np pod service nic =
     bindO (wrapO ''unable to combine no-proxy supplied values and defaults''
       (populate_no_proxy N lookup pod service nic (set_proxy_defaults getenv
          \<lparr>http_proxy = http, https_proxy = https, provided_no_proxy = np, no_proxy = []\<rparr>))) (\<lambda>p.
     Ok (if http_proxy p = [] \<and> https_proxy p = [] \<and> no_proxy p = [] then None else Some p))"

definition check_proxy_config_for_local_ip :: "netlib \<Rightarrow> (string \<Rightarrow> ipnet outcome) \<Rightarrow>
    proxy_spec option \<Rightarrow> string \<Rightarrow> (bool \<times> string) outcome" where
  "check_proxy_config_for_local_ip N lookup p nic = (case p of None \<Rightarrow> Ok (True, [])
     | Some q \<Rightarrow>
         if http_proxy q = [] \<and> https_proxy q = [] then Ok (True, [])
         else bindO (wrapO ''failed to get default IPNet'' (lookup nic)) (\<lambda>n.
              bindO (no_proxy_has_local_ip N (no_proxy q) (show_ip N (net_addr n))) (\<lambda>ok.
              Ok (ok, show_ip N (net_addr n)))))"

definition set_proxy_env :: "proxy_spec option \<Rightarrow> (string \<times> string) list" where
  "set_proxy_env p = (case p of None \<Rightarrow> []
     | Some q \<Rightarrow>
         (if http_proxy q \<noteq> [] then [(''HTTP_PROXY'', http_proxy q)] else []) @
         (if https_proxy q \<noteq> [] then [(''HTTPS_PROXY'', https_proxy q)] else []) @
         (if no_proxy q \<noteq> [] then [(''NO_PROXY'', no_proxy q)] else []))"

section \<open>Text of addresses and networks\<close>

lemma digit_char_inj: "d < 10 \<Longrightarrow> digit_char d = CHR ''0'' \<longleftrightarrow> d = 0"
proof -
  assume d: "d < 10"
  have "digit_val (CHR ''0'') = 0" "digit_char 0 = CHR ''0''"
    by (simp_all add: digit_val_def digit_char_def char_of_def bit_iff_odd)
  then show ?thesis using digit_char(2) [OF d] by metis
qed

lemma show_nat_no_leading_zero: "0 < n \<Longrightarrow> hd (show_nat n) \<noteq> CHR ''0''"
proof (induction n rule: show_nat.induct)
  case (1 n)
  show ?case
  proof (cases "n < 10")
    case True
    then show ?thesis using 1(2) by (subst show_nat.simps) (simp add: digit_char_inj)
  next
    case False
    then have "hd (show_nat (n div 10)) \<noteq> CHR ''0''" by (intro 1(1)) simp_all
    then show ?thesis using False by (subst show_nat.simps) (simp add: hd_append)
  qed
qed

lemma parse_octet_show: "n \<le> 255 \<Longrightarrow> parse_octet (show_nat n) = Some n"
proof (cases "n = 0")
  case True
  then show ?thesis by (simp add: parse_octet_def) (simp add: show_nat.simps)
qed (simp add: parse_octet_def show_nat_no_leading_zero)

lemma show_nat_chars: "c \<in> set (show_nat n) \<Longrightarrow> is_digit c"
  using show_nat_digits [of n] by (simp add: list_all_iff)

lemma show_nat_no_sep:
  "CHR ''.'' \<notin> set (show_nat n)" "CHR ''/'' \<notin> set (show_nat n)" "CHR '':'' \<notin> set (show_nat n)"
  "CHR ''%'' \<notin> set (show_nat n)" "CHR '','' \<notin> set (show_nat n)"
  using show_nat_chars by (fastforce simp: is_digit_def)+

lemma octets_value:
  fixes a :: nat
  shows "a div 16777216 * 16777216 + a div 65536 mod 256 * 65536 + a div 256 mod 256 * 256 + a mod 256 = a"
proof -
  have sum: "d * 16777216 + r2 * 65536 + r1 * 256 + r0 = x"
    if "b * 256 + r0 = x" "c * 256 + r1 = b" "d * 256 + r2 = c" for b c d r0 r1 r2 x :: nat
    using that by auto
  have s: "a div 65536 = a div 256 div 256" "a div 16777216 = a div 256 div 256 div 256"
    by (simp_all flip: div_mult2_eq)
  show ?thesis unfolding s by (rule sum) (rule div_mult_mod_eq)+
qed

lemma parse_show_ip4 [simp]: "a < 2 ^ 32 \<Longrightarrow> parse_ip4 (show_ip4 a) = Some a"
proof -
  assume a: "a < 2 ^ 32"
  have "split_on CHR ''.'' (show_ip4 a) = map show_nat (octets a)"
    unfolding show_ip4_def by (rule split_join) (auto simp: octets_def show_nat_no_sep)
  then show "parse_ip4 (show_ip4 a) = Some a"
    using a octets_value [of a] by (simp add: parse_ip4_def octets_def parse_octet_show)
qed

lemma show_ip4_alt: "\<exists>rest. show_ip4 a = show_nat (a div 2 ^ 24 mod 256) @ CHR ''.'' # rest"
  by (simp add: show_ip4_def octets_def)

lemma find_append_none: "(\<And>x. x \<in> set xs \<Longrightarrow> \<not> P x) \<Longrightarrow> List.find P (xs @ ys) = List.find P ys"
  by (induction xs) auto

lemma first_sep_show_ip4: "first_sep (show_ip4 a) = Some CHR ''.''"
proof -
  obtain rest where s: "show_ip4 a = show_nat (a div 2 ^ 24 mod 256) @ CHR ''.'' # rest"
    using show_ip4_alt by blast
  have "\<not> (c = CHR ''.'' \<or> c = CHR '':'' \<or> c = CHR ''%'')" if "c \<in> set (show_nat (a div 2 ^ 24 mod 256))" for c
    using that show_nat_no_sep by metis
  then show ?thesis unfolding first_sep_def s by (subst find_append_none) auto
qed

lemma parse_addr_show_ip4: "a < 2 ^ 32 \<Longrightarrow> parse_addr N (show_ip4 a) = Some (IP4 a, 32)"
  by (simp add: parse_addr_def first_sep_show_ip4)

lemma show_ip4_no_slash: "CHR ''/'' \<notin> set (show_ip4 a)"
  by (simp add: show_ip4_def octets_def show_nat_no_sep)

lemma takeWhile_sep: "c \<notin> set xs \<Longrightarrow> takeWhile (\<lambda>x. x \<noteq> c) (xs @ c # ys) = xs"
  "c \<notin> set xs \<Longrightarrow> dropWhile (\<lambda>x. x \<noteq> c) (xs @ c # ys) = c # ys"
  by (induction xs) auto

text \<open>The four-byte form of a network: an address of its size with the host bits clear.\<close>

definition wf_net4 :: "ipnet \<Rightarrow> bool" where
  "wf_net4 n \<longleftrightarrow> net_bits n = 32 \<and> net_ones n \<le> 32 \<and>
     (\<exists>a < 2 ^ 32. net_addr n = IP4 a \<and> clear_low (32 - net_ones n) a = a)"

definition net4 :: "nat \<Rightarrow> nat \<Rightarrow> ipnet" where
  "net4 a ones = \<lparr>net_addr = IP4 a, net_ones = ones, net_bits = 32\<rparr>"

lemma wf_net4_iff: "wf_net4 n \<longleftrightarrow> (\<exists>a ones. n = net4 a ones \<and> ones \<le> 32 \<and> a < 2 ^ 32 \<and> clear_low (32 - ones) a = a)"
  by (cases n) (auto simp: wf_net4_def net4_def)

lemma show_net4: "show_net N (net4 a ones) = show_ip4 a @ ''/'' @ show_nat ones"
  by (simp add: show_net_def net4_def show_ip_def)

lemma parse_cidr_text: "a < 2 ^ 32 \<Longrightarrow> ones \<le> 32 \<Longrightarrow>
    parse_cidr N (show_ip4 a @ ''/'' @ show_nat ones) = Ok (IP4 a, net4 (clear_low (32 - ones) a) ones)"
  by (simp add: parse_cidr_def takeWhile_sep [OF show_ip4_no_slash] parse_addr_show_ip4 net4_def Let_def)

lemma clear_low_idem [simp]: "clear_low k (clear_low k a) = clear_low k a"
  by (simp add: clear_low_def)

lemma clear_low_le: "clear_low k a \<le> a"
  by (simp add: clear_low_def)

lemma parse_octet_le: "parse_octet s = Some n \<Longrightarrow> n \<le> 255"
  by (auto simp: parse_octet_def split: option.splits if_splits)

lemma parse_ip4_less:
  assumes "parse_ip4 s = Some a"
  shows "a < 2 ^ 32"
proof -
  obtain w x y z where "map parse_octet (split_on CHR ''.'' s) = [Some w, Some x, Some y, Some z]"
    and a: "a = w * 2 ^ 24 + x * 2 ^ 16 + y * 2 ^ 8 + z"
    using assms by (auto simp: parse_ip4_def split: list.split_asm option.split_asm)
  then have "w \<le> 255" "x \<le> 255" "y \<le> 255" "z \<le> 255"
    by (auto intro: parse_octet_le)
  then show ?thesis unfolding a by simp
qed

lemma clear_low_less: "a < (2::nat) ^ 32 \<Longrightarrow> clear_low k a < 2 ^ 32"
  using clear_low_le [of k a] by linarith

text \<open>A text in the dotted form gives an IPv4 network in canonical form.\<close>

lemma parse_cidr_dotted:
  assumes "parse_cidr N s = Ok (i, n)" "is_ip4 i" "net_bits n = 32"
  shows "wf_net4 n"
proof -
  obtain a where i: "i = IP4 a" using assms(2) by (cases i) auto
  from assms(1) i obtain s' where "parse_addr N s' = Some (IP4 a, net_bits n)"
    and n: "n = \<lparr>net_addr = mask_ip (net_bits n) (net_ones n) (IP4 a), net_ones = net_ones n, net_bits = net_bits n\<rparr>"
    and ones: "net_ones n \<le> net_bits n"
    by (auto simp: parse_cidr_def Let_def split: list.split_asm option.split_asm prod.split_asm if_split_asm)
  then have "a < 2 ^ 32" using assms(3) parse_ip4_less [of s' a] by (auto simp: parse_addr_def split: if_splits)
  with arg_cong [OF n, of net_addr] ones assms(3) clear_low_less [of a "32 - net_ones n"] show ?thesis
    by (auto simp: wf_net4_def)
qed

section \<open>What the networks contain\<close>

definition members :: "ipnet \<Rightarrow> nat set" where
  "members n = {b. net_contains n (IP4 b)}"

lemma clear_low_eq_iff: "clear_low k a = clear_low k b \<longleftrightarrow> a div 2 ^ k = b div 2 ^ k"
  by (simp add: clear_low_def)

lemma clear_low_fix_iff: "clear_low k a = a \<longleftrightarrow> (\<exists>q. a = q * 2 ^ k)"
  by (auto simp: clear_low_def) (metis)

lemma block_iff:
  fixes b k q :: nat
  shows "b div 2 ^ k = q \<longleftrightarrow> b \<in> {q * 2 ^ k ..< q * 2 ^ k + 2 ^ k}"
proof
  assume "b div 2 ^ k = q"
  then have "q * 2 ^ k + b mod 2 ^ k = b" using div_mult_mod_eq [of b "2 ^ k"] by simp
  moreover have "b mod 2 ^ k < 2 ^ k" by simp
  ultimately show "b \<in> {q * 2 ^ k ..< q * 2 ^ k + 2 ^ k}"
    unfolding atLeastLessThan_iff by linarith
qed (auto intro: div_nat_eqI simp: algebra_simps)

lemma members_net4:
  assumes "wf_net4 (net4 a ones)"
  shows "members (net4 a ones) = {a ..< a + 2 ^ (32 - ones)}"
proof -
  from assms obtain q where q: "a = q * 2 ^ (32 - ones)"
    by (auto simp: wf_net4_def net4_def clear_low_fix_iff)
  then have d: "a div 2 ^ (32 - ones) = q" by simp
  have "min 32 (32 - ones) = 32 - ones" by simp
  then have "net_contains (net4 a ones) (IP4 b) \<longleftrightarrow> b div 2 ^ (32 - ones) = q" for b
    unfolding net_contains_def net4_def
    by (simp only: ipnet.simps prod.case ip.case Let_def clear_low_eq_iff d eq_commute [of q])
  then show ?thesis unfolding members_def block_iff set_eq_iff by (simp only: q mem_Collect_eq simp_thms)
qed

section \<open>Properties\<close>

text \<open>
  What go-cidr documents of the functions used: the halves of a network, its first and last
  address, the next address.
\<close>

definition go_cidr :: "netlib \<Rightarrow> bool" where
  "go_cidr N \<longleftrightarrow>
     (\<forall>a ones k. wf_net4 (net4 a ones) \<longrightarrow> ones < 32 \<longrightarrow> k < 2 \<longrightarrow>
        nl_subnet N (net4 a ones) 1 k = Ok (net4 (a + k * 2 ^ (31 - ones)) (ones + 1))) \<and>
     (\<forall>a ones. wf_net4 (net4 a ones) \<longrightarrow>
        nl_range N (net4 a ones) = (IP4 a, IP4 (a + 2 ^ (32 - ones) - 1))) \<and>
     (\<forall>a. nl_inc N (IP4 a) = IP4 ((a + 1) mod 2 ^ 32))"

lemma parse_wf_net:
  assumes "wf_net4 n"
  shows "parse_cidr N (show_net N n) = Ok (net_addr n, n)"
proof -
  from assms obtain a ones where "n = net4 a ones" "ones \<le> 32" "a < 2 ^ 32" "clear_low (32 - ones) a = a"
    using wf_net4_iff by blast
  then show ?thesis using parse_cidr_text [of a ones N] by (simp add: show_net4) (simp add: net4_def)
qed

text \<open>
  The text of an IPv4 network in canonical form is read back as that network.
\<close>

theorem parse_show_net4:
  assumes "wf_net4 n"
  shows "parse_cidr N (show_net N n) = Ok (net_addr n, n)"
  by (rule parse_wf_net [OF assms])

theorem parse_show_net4_witness:
  "\<forall>N. parse_cidr N (show_net N (net4 (10 * 2 ^ 24) 16)) = Ok (IP4 (10 * 2 ^ 24), net4 (10 * 2 ^ 24) 16)"
  using parse_show_net4 [of "net4 (10 * 2 ^ 24) 16"]
  by (simp add: wf_net4_def net4_def clear_low_def)

lemma wf_half:
  assumes "wf_net4 (net4 a ones)" "ones < 32" "k < 2"
  shows "wf_net4 (net4 (a + k * 2 ^ (31 - ones)) (ones + 1))"
proof -
  from assms(1) obtain q where q: "a = q * 2 ^ (32 - ones)" and a: "a < 2 ^ 32"
    by (auto simp: wf_net4_def net4_def clear_low_fix_iff)
  define j where "j = 31 - ones"
  have k: "32 - ones = Suc j" "32 - (ones + 1) = j" "j < 32" using assms(2) by (simp_all add: j_def)
  have e: "a + k * 2 ^ j = (2 * q + k) * 2 ^ j" unfolding q k by (simp add: algebra_simps)
  have "(2::nat) ^ 32 = 2 ^ (31 - j) * 2 ^ Suc j" using k(3) by (simp flip: power_add)
  with a have "q < 2 ^ (31 - j)" unfolding q k by (metis mult_less_cancel2)
  then have "2 * q + k < 2 * 2 ^ (31 - j)" using assms(3) by linarith
  then have "(2 * q + k) * 2 ^ j < 2 * 2 ^ (31 - j) * 2 ^ j" by simp
  also have "2 * 2 ^ (31 - j) * 2 ^ j = (2::nat) ^ 32" using k(3) by (simp flip: power_Suc power_add)
  finally show ?thesis using assms(2) e
    unfolding wf_net4_def net4_def j_def [symmetric]
    by (simp only: k clear_low_fix_iff ipnet.simps ip.inject) auto
qed

lemma split_net4:
  assumes "go_cidr N" "wf_net4 (net4 a ones)" "ones < 32"
  shows "split_network_cidr N (show_net N (net4 a ones)) =
    Ok (show_net N (net4 a (ones + 1)), show_net N (net4 (a + 2 ^ (31 - ones)) (ones + 1)))"
proof -
  have "nl_subnet N (net4 a ones) 1 0 = Ok (net4 a (ones + 1))"
    "nl_subnet N (net4 a ones) 1 1 = Ok (net4 (a + 2 ^ (31 - ones)) (ones + 1))"
    using assms by (auto simp: go_cidr_def)
  then show ?thesis by (simp add: split_network_cidr_def parse_wf_net [OF assms(2)])
qed

text \<open>
  Splitting a network of fewer than 32 fixed bits gives two networks of one more bit, the
  first for pods and the second for services, that have no address in common and together hold
  exactly the addresses of the one split.
\<close>

theorem split_network_cidr_halves:
  assumes "go_cidr N" "wf_net4 n" "net_ones n < 32"
  shows "\<exists>pods services. split_network_cidr N (show_net N n) = Ok (show_net N pods, show_net N services) \<and>
    wf_net4 pods \<and> wf_net4 services \<and> net_ones pods = net_ones n + 1 \<and> net_ones services = net_ones n + 1 \<and>
    members pods \<inter> members services = {} \<and> members pods \<union> members services = members n"
proof -
  obtain a ones where n: "n = net4 a ones" using assms(2) wf_net4_iff by blast
  have ones: "ones < 32" "net_ones n = ones" using assms(3) by (simp_all add: n net4_def)
  note wf = assms(2) [unfolded n]
  let ?p = "net4 a (ones + 1)" let ?s = "net4 (a + 2 ^ (31 - ones)) (ones + 1)"
  have w: "wf_net4 ?p" "wf_net4 ?s" using wf_half [OF wf ones(1), of 0] wf_half [OF wf ones(1), of 1] by simp_all
  have "32 - ones = Suc (31 - ones)" using ones by simp
  then have "members ?p \<inter> members ?s = {} \<and> members ?p \<union> members ?s = members n"
    unfolding n members_net4 [OF w(1)] members_net4 [OF w(2)] members_net4 [OF wf] by auto
  then show ?thesis using w ones split_net4 [OF assms(1) wf ones(1)]
    by (intro exI [of _ ?p] exI [of _ ?s]) (simp add: n, simp add: net4_def)
qed

text \<open>A library that computes what go-cidr documents.\<close>

definition sample_netlib :: netlib where
  "sample_netlib = \<lparr>nl_parse6 = (\<lambda>_. None), nl_show6 = (\<lambda>_. []),
     nl_subnet = (\<lambda>n k i. case net_addr n of
         IP4 a \<Rightarrow> Ok (net4 (a + i * 2 ^ (32 - (net_ones n + k))) (net_ones n + k))
       | IP6 _ \<Rightarrow> Err (EMsg ''not modelled'')),
     nl_range = (\<lambda>n. (net_addr n, IP4 (ip_num (net_addr n) + 2 ^ (32 - net_ones n) - 1))),
     nl_inc = (\<lambda>i. IP4 ((ip_num i + 1) mod 2 ^ 32))\<rparr>"

lemma sample_go_cidr: "go_cidr sample_netlib"
  by (simp add: go_cidr_def sample_netlib_def net4_def)

theorem split_network_cidr_halves_witness:
  "\<exists>pods services. split_network_cidr sample_netlib (show_net sample_netlib (net4 (10 * 2 ^ 24) 16)) =
     Ok (show_net sample_netlib pods, show_net sample_netlib services) \<and> members pods \<inter> members services = {}"
  using split_network_cidr_halves [OF sample_go_cidr, of "net4 (10 * 2 ^ 24) 16"]
  by (auto simp: wf_net4_def net4_def clear_low_def)

lemma private_nets_parsed:
  "parse_cidr N ''10.0.0.0/8'' = Ok (IP4 167772160, net4 167772160 8)"
  "parse_cidr N ''172.16.0.0/12'' = Ok (IP4 2886729728, net4 2886729728 12)"
  "parse_cidr N ''192.168.0.0/16'' = Ok (IP4 3232235520, net4 3232235520 16)"
  by (simp_all add: parse_cidr_def parse_addr_def first_sep_def parse_ip4_def parse_octet_def parse_dec_def
      is_digit_def digit_val_def net4_def clear_low_def)

text \<open>The private address ranges of RFC 1918.\<close>

definition private_addresses :: "nat set" where
  "private_addresses = {167772160 ..< 184549376} \<union> {2886729728 ..< 2887778304} \<union> {3232235520 ..< 3232301056}"

lemma in_private_nets_iff: "in_private_nets N (IP4 a) \<longleftrightarrow> a \<in> private_addresses"
proof -
  have wf: "wf_net4 (net4 167772160 8)" "wf_net4 (net4 2886729728 12)" "wf_net4 (net4 3232235520 16)"
    by (simp_all add: wf_net4_def net4_def clear_low_def)
  have "in_private_nets N (IP4 a) \<longleftrightarrow>
      a \<in> members (net4 167772160 8) \<union> members (net4 2886729728 12) \<union> members (net4 3232235520 16)"
    by (simp add: in_private_nets_def private_nets_def private_nets_parsed members_def)
  then show ?thesis by (simp add: members_net4 [OF wf(1)] members_net4 [OF wf(2)] members_net4 [OF wf(3)]
      private_addresses_def)
qed

lemma accepted_cidr:
  assumes "config_validate_cidr N c = Ok ()" "first_sep (takeWhile (\<lambda>x. x \<noteq> CHR ''/'') c) = Some CHR ''.''"
  shows "\<exists>a b. c = show_net N (net4 a b) \<and> wf_net4 (net4 a b) \<and> b \<le> 16 \<and> a \<in> private_addresses"
proof -
  from assms(1) obtain i n where p: "parse_cidr N c = Ok (i, n)" and c: "show_net N n = c"
    and ones: "net_ones n \<le> 16" and priv: "in_private_nets N (net_addr n)"
    by (auto simp: config_validate_cidr_def net_validate_cidr_def split: if_split_asm)
  have "is_ip4 i \<and> net_bits n = 32" using p assms(2)
    by (auto simp: parse_cidr_def Let_def parse_addr_def split: list.split_asm option.split_asm prod.split_asm if_split_asm)
  with p have wf: "wf_net4 n" by (auto intro: parse_cidr_dotted)
  then obtain a b where n: "n = net4 a b" using wf_net4_iff by blast
  have "a \<in> private_addresses" using priv by (simp add: n net4_def in_private_nets_iff)
  moreover have "b \<le> 16" using ones by (simp add: n net4_def)
  ultimately show ?thesis using c wf unfolding n by blast
qed

text \<open>
  A dotted text the \<open>--cidr\<close> flag's check accepts is the canonical text of an IPv4 network of
  at least 65536 addresses whose first address is private, and it can be split.
\<close>

theorem config_validate_cidr_sound:
  assumes "go_cidr N" "config_validate_cidr N c = Ok ()" "first_sep (takeWhile (\<lambda>x. x \<noteq> CHR ''/'') c) = Some CHR ''.''"
  shows "\<exists>n a r. c = show_net N n \<and> wf_net4 n \<and> net_addr n = IP4 a \<and> a \<in> private_addresses \<and>
    2 ^ 16 \<le> card (members n) \<and> config_split_cidr N c = Ok r"
proof -
  obtain a b where c: "c = show_net N (net4 a b)" "wf_net4 (net4 a b)" "b \<le> 16" "a \<in> private_addresses"
    using accepted_cidr [OF assms(2,3)] by blast
  have "2 ^ 16 \<le> card (members (net4 a b))"
    unfolding members_net4 [OF c(2)] using c(3) power_increasing [of 16 "32 - b" "2::nat"] by simp
  moreover have "\<exists>r. config_split_cidr N c = Ok r"
    using split_net4 [OF assms(1) c(2)] c(1,3) by (simp add: config_split_cidr_def)
  ultimately show ?thesis using c by (intro exI [of _ "net4 a b"]) (auto simp: net4_def)
qed

theorem config_validate_cidr_sound_witness:
  "\<exists>n a. ''10.0.0.0/16'' = show_net sample_netlib n \<and> net_addr n = IP4 a \<and> a \<in> private_addresses"
proof -
  have t: "''10.0.0.0/16'' = show_net sample_netlib (net4 (10 * 2 ^ 24) 16)"
    by (simp add: show_net4 show_ip4_def octets_def show_nat.simps digit_char_def char_of_def bit_iff_odd)
  have w: "wf_net4 (net4 (10 * 2 ^ 24) 16)" by (simp add: wf_net4_def net4_def clear_low_def)
  have "config_validate_cidr sample_netlib ''10.0.0.0/16'' = Ok ()"
    unfolding config_validate_cidr_def net_validate_cidr_def t parse_wf_net [OF w]
    by (simp add: in_private_nets_iff net4_def private_addresses_def)
  from config_validate_cidr_sound [OF sample_go_cidr this] show ?thesis
    by (auto simp: first_sep_def)
qed

text \<open>
  The check looks at the first address only: \<open>10.0.0.0/7\<close> is accepted as private although it
  holds \<open>11.0.0.0\<close>, which is not.
\<close>

theorem config_validate_cidr_checks_base_only:
  "config_validate_cidr N ''10.0.0.0/7'' = Ok () \<and>
   (\<exists>n. parse_cidr N ''10.0.0.0/7'' = Ok (IP4 167772160, n) \<and> 184549376 \<in> members n \<and>
     184549376 \<notin> private_addresses)"
proof -
  have t: "''10.0.0.0/7'' = show_net N (net4 167772160 7)"
    by (simp add: show_net4 show_ip4_def octets_def show_nat.simps digit_char_def char_of_def bit_iff_odd)
  have w: "wf_net4 (net4 167772160 7)" by (simp add: wf_net4_def net4_def clear_low_def)
  show ?thesis
    unfolding config_validate_cidr_def net_validate_cidr_def t parse_wf_net [OF w]
    by (simp add: in_private_nets_iff net4_def private_addresses_def members_def net_contains_def clear_low_def)
qed

lemma next_block_no_wrap:
  fixes a :: nat
  assumes "a < 2 ^ 32" "a < (a + 2 ^ (32 - ones)) mod 2 ^ 32"
  shows "(a + 2 ^ (32 - ones)) mod 2 ^ 32 = a + 2 ^ (32 - ones)"
proof (rule ccontr)
  assume "(a + 2 ^ (32 - ones)) mod 2 ^ 32 \<noteq> a + 2 ^ (32 - ones)"
  then have "2 ^ 32 \<le> a + 2 ^ (32 - ones)" by (metis mod_less not_le)
  moreover have "(2::nat) ^ (32 - ones) \<le> 2 ^ 32" using power_increasing [of "32 - ones" 32 "2::nat"] by simp
  ultimately have "(a + 2 ^ (32 - ones)) mod 2 ^ 32 \<le> a" using assms(1)
    by (auto simp: le_mod_geq intro: order_trans [OF mod_less_eq_dividend])
  with assms(2) show False by simp
qed

text \<open>
  Of two networks found adjacent, the second starts where the first ends, and the network
  reported to hold them does so exactly when the first starts at a multiple of twice its size:
  for \<open>10.0.1.0/24\<close> and \<open>10.0.2.0/24\<close> it does not.
\<close>

theorem adjacent_networks_supernet:
  assumes "go_cidr N" "wf_net4 n" "wf_net4 m" "0 < net_ones n" "ip_num (net_addr n) < ip_num (net_addr m)"
    and adj: "networks_are_adjacent_and_same_size N (show_net N n) (show_net N m) = Ok (True, s)"
  shows "ip_num (net_addr m) = ip_num (net_addr n) + 2 ^ (32 - net_ones n) \<and> net_ones m = net_ones n \<and>
    (\<exists>i sup. parse_cidr N s = Ok (i, sup) \<and> (members n \<union> members m = members sup \<longleftrightarrow>
      2 ^ (33 - net_ones n) dvd ip_num (net_addr n)))"
proof -
  obtain a ones where n: "n = net4 a ones" and a: "a < 2 ^ 32" and ones: "0 < ones" "ones \<le> 32"
    using assms(2,4) by (auto simp: wf_net4_iff net4_def)
  obtain b ones' where m: "m = net4 b ones'" using assms(3) wf_net4_iff by blast
  note wf = assms(2) [unfolded n] assms(3) [unfolded m]
  have "wf_net4 (net4 c k) \<Longrightarrow> nl_range N (net4 c k) = (IP4 c, IP4 (c + 2 ^ (32 - k) - 1))" for c k
    using assms(1) by (simp add: go_cidr_def)
  note range = this [OF wf(1)] this [OF wf(2)]
  have inc: "nl_inc N (IP4 x) = IP4 ((x + 1) mod 2 ^ 32)" for x using assms(1) by (simp add: go_cidr_def)
  have eq: "ones' = ones" "b = (a + 2 ^ (32 - ones)) mod 2 ^ 32"
    and s: "s = show_ip4 a @ ''/'' @ show_nat (ones - 1)"
    using adj ones unfolding networks_are_adjacent_and_same_size_def parse_wf_net [OF assms(2)] parse_wf_net [OF assms(3)]
    by (auto simp: n m net4_def [of _ ones, symmetric] net4_def [of _ ones', symmetric] range inc show_ip_def split: if_split_asm)
      (auto simp: net4_def)
  have lt: "a < b" using assms(5) by (simp add: n m net4_def)
  have b: "b = a + 2 ^ (32 - ones)" using next_block_no_wrap [OF a] lt eq(2) by simp
  define k where "k = 32 - ones"
  have k: "33 - ones = Suc k" "32 - (ones - 1) = Suc k" using ones by (auto simp: k_def)
  let ?c = "clear_low (Suc k) a"
  have "parse_cidr N s = Ok (IP4 a, net4 ?c (ones - 1))"
    unfolding s using parse_cidr_text [OF a, of "ones - 1" N] ones by (simp add: k)
  moreover have wfc: "wf_net4 (net4 ?c (ones - 1))"
    using ones a clear_low_less [OF a, of "Suc k"] by (simp add: wf_net4_def net4_def k)
  moreover have "members n \<union> members m = members (net4 ?c (ones - 1)) \<longleftrightarrow> ?c = a"
  proof -
    have u: "members n \<union> members m = {a ..< a + 2 ^ Suc k}"
      unfolding n m members_net4 [OF wf(1)] members_net4 [OF wf(2)] unfolding eq(1) b k_def [symmetric] by auto
    show ?thesis unfolding u members_net4 [OF wfc] k by (auto simp: Ico_eq_Ico)
  qed
  moreover have "?c = a \<longleftrightarrow> 2 ^ Suc k dvd a"
    by (auto simp: clear_low_fix_iff dvd_def mult.commute)
  ultimately show ?thesis using eq(1) by (auto simp: n m net4_def b k k_def [symmetric])
qed

theorem adjacent_networks_supernet_witness:
  "\<exists>i sup. parse_cidr sample_netlib ''10.0.1.0/23'' = Ok (i, sup) \<and>
    members (net4 167772416 24) \<union> members (net4 167772672 24) \<noteq> members sup"
proof -
  have w: "wf_net4 (net4 167772416 24)" "wf_net4 (net4 167772672 24)"
    by (simp_all add: wf_net4_def net4_def clear_low_def)
  have s: "show_ip4 167772416 @ ''/'' @ show_nat 23 = ''10.0.1.0/23''"
    by (simp add: show_ip4_def octets_def show_nat.simps digit_char_def char_of_def bit_iff_odd)
  have "networks_are_adjacent_and_same_size sample_netlib (show_net sample_netlib (net4 167772416 24))
      (show_net sample_netlib (net4 167772672 24)) = Ok (True, ''10.0.1.0/23'')"
    unfolding networks_are_adjacent_and_same_size_def parse_wf_net [OF w(1)] parse_wf_net [OF w(2)] s [symmetric]
    by (simp add: net4_def sample_netlib_def show_ip_def)
  from adjacent_networks_supernet [OF sample_go_cidr w _ _ this] show ?thesis by (auto simp: net4_def)
qed

text \<open>The number a big-endian byte string stands for.\<close>

fun bytes_num :: "nat list \<Rightarrow> nat" where
  "bytes_num bs = foldl (\<lambda>a b. 256 * a + b) 0 bs"

lemma nat_bytes_num: "bytes_num (nat_bytes n) = n"
proof (induction n rule: nat_bytes.induct)
  case (1 n)
  then show ?case by (cases "n = 0") (subst nat_bytes.simps, simp)+
qed

text \<open>
  An address reserved in the lower band of a service network with room for it is an address
  of that network, at the position asked for and beyond the network address; the position equal
  to the size, one past the last address, is also accepted in a network of up to 16 addresses.
\<close>

theorem get_lower_band_ip_spec:
  assumes "wf_net4 n"
  shows "case get_lower_band_ip N (show_net N n) index of
      Ok bs \<Rightarrow> 0 \<le> index \<and> int (bytes_num bs) = int (ip_num (net_addr n)) + index + 1 \<and>
        index + 1 \<le> min (max 16 (2 ^ (32 - net_ones n) div 16)) (2 ^ (32 - net_ones n)) \<and>
        (bytes_num bs \<in> members n \<longleftrightarrow> index + 1 < 2 ^ (32 - net_ones n))
    | Err _ \<Rightarrow> index < 0 \<or> min (max 16 (2 ^ (32 - net_ones n) div 16)) (2 ^ (32 - net_ones n)) < index + 1
    | Panic _ \<Rightarrow> False"
proof -
  obtain a ones where n: "n = net4 a ones" using assms wf_net4_iff by blast
  define size :: nat where "size = 2 ^ (32 - ones)"
  have int_size: "int size = 2 ^ (32 - ones)" by (simp add: size_def)
  have band: "int (min (a + max 16 (size div 16)) (a + size)) = int a + min (max 16 (int size div 16)) (int size)"
    by (simp add: min_def max_def zdiv_int) linarith
  let ?sel = "int a + (index + 1)"
  have run: "get_lower_band_ip N (show_net N n) index =
     (if ?sel \<le> int a \<or> ?sel > int (min (a + max 16 (size div 16)) (a + size))
      then Err (EMsg (''index '' @ show_int index @ '' is out of the band range''))
      else Ok (nat_bytes (nat ?sel)))"
    unfolding get_lower_band_ip_def parse_wf_net [OF assms]
    by (simp add: n net4_def Let_def size_def)
  have mem: "nat ?sel \<in> members n \<longleftrightarrow> index + 1 < int size" if "0 \<le> index"
    unfolding n members_net4 [OF assms [unfolded n]] using that
    by (simp add: size_def [symmetric]) linarith
  show ?thesis unfolding run band using mem
    by (auto simp: nat_bytes_num n net4_def simp flip: int_size simp del: bytes_num.simps)
qed

theorem get_lower_band_ip_spec_witness:
  "case get_lower_band_ip sample_netlib (show_net sample_netlib (net4 (10 * 2 ^ 24) 28)) 15 of
      Ok bs \<Rightarrow> bytes_num bs \<notin> members (net4 (10 * 2 ^ 24) 28) | Err _ \<Rightarrow> False | Panic _ \<Rightarrow> False"
  using get_lower_band_ip_spec [of "net4 (10 * 2 ^ 24) 28" 15 sample_netlib]
  by (auto simp: wf_net4_def net4_def clear_low_def split: outcome.splits)

section \<open>The proxy settings cover the local address\<close>

lemma split_on_sep_append: "split_on c (xs @ c # ys) = split_on c xs @ split_on c ys"
  by (induction xs) (auto split: list.splits)

lemma split_join_snoc: "xs \<noteq> [] \<Longrightarrow> c \<notin> set x \<Longrightarrow> split_on c (join_str [c] (xs @ [x])) = split_on c (join_str [c] xs) @ [x]"
proof (induction "[c]" xs rule: join_str.induct)
  case (3 s t ts)
  then show ?case by (simp add: split_on_sep_append)
qed (simp_all add: split_on_sep_append)

lemma no_proxy_entries_append: "no_proxy_entries N ip i (xs @ ys) b =
    bindO (no_proxy_entries N ip i xs b) (no_proxy_entries N ip i ys)"
proof (induction xs arbitrary: b)
  case (Cons e es)
  have a: "bindO (bindO m f) g = bindO m (\<lambda>x. bindO (f x) g)" for m :: "(ip \<times> ipnet) outcome" and f and g :: "bool \<Rightarrow> bool outcome"
    by (cases m) simp_all
  show ?case by (simp add: Cons.IH a split_def)
qed simp

lemma show_net_shape: "CHR ''/'' \<in> set (show_ip4 a @ ''/'' @ show_nat ones)" "CHR '','' \<notin> set (show_ip4 a @ ''/'' @ show_nat ones)"
  by (simp_all add: show_ip4_def octets_def show_nat_no_sep)

lemma contains_one: "contains_str s [c] \<longleftrightarrow> c \<in> set s"
  by (auto simp: contains_str_iff in_set_conv_decomp)

text \<open>The interface's own network holds its address.\<close>

lemma own_net_entry:
  assumes "a < 2 ^ 32" "ones \<le> 32"
  shows "no_proxy_entries N (show_ip4 a) (IP4 a) [show_ip4 (clear_low (32 - ones) a) @ ''/'' @ show_nat ones] b = Ok True"
proof -
  let ?t = "show_ip4 (clear_low (32 - ones) a) @ ''/'' @ show_nat ones"
  have "?t \<noteq> show_ip4 a" using show_net_shape(1) show_ip4_no_slash by metis
  moreover have "contains_str ?t ''/''" unfolding contains_one by (rule show_net_shape)
  moreover have "parse_cidr N ?t = Ok (IP4 (clear_low (32 - ones) a), net4 (clear_low (32 - ones) a) ones)"
    using parse_cidr_text [OF clear_low_less [OF assms(1)] assms(2)] by simp
  moreover have "net_contains (net4 (clear_low (32 - ones) a) ones) (IP4 a)"
    by (simp add: net_contains_def net4_def Let_def min.absorb2)
  ultimately show ?thesis by simp
qed

lemma clean_cidr_net4: "a < 2 ^ 32 \<Longrightarrow> ones \<le> 32 \<Longrightarrow>
    clean_cidr N (net4 a ones) = Ok (show_ip4 (clear_low (32 - ones) a) @ ''/'' @ show_nat ones)"
  using parse_cidr_text [of a ones N] by (simp add: clean_cidr_def show_net4)

text \<open>
  Proxy settings computed with a proxy set pass the check that the node's own address bypasses
  the proxy, whatever the flags, the environment and the networks: the address is among the
  no-proxy entries or inside one of them.
\<close>

theorem proxy_spec_covers_local_ip:
  assumes spec: "get_proxy_spec N getenv lookup http https np pod service nic = Ok (Some p)"
    and proxy: "http_proxy p \<noteq> [] \<or> https_proxy p \<noteq> []"
    and nic: "lookup nic = Ok (net4 a ones)" "a < 2 ^ 32" "ones \<le> 32"
  shows "check_proxy_config_for_local_ip N lookup (Some p) nic = Ok (True, show_ip N (IP4 a))"
proof -
  let ?ip = "show_ip4 a"
  let ?clean = "show_ip4 (clear_low (32 - ones) a) @ ''/'' @ show_nat ones"
  have parse: "parse_ip N ?ip = Some (IP4 a)" using nic(2) by (simp add: parse_ip_def parse_addr_show_ip4)
  obtain q where pop: "populate_no_proxy N lookup pod service nic q = Ok p"
    using spec by (auto simp: get_proxy_spec_def split: if_split_asm)
  define base where "base = default_no_proxy @ [pod, service] @
    (if provided_no_proxy q \<noteq> [] then split_on CHR '','' (provided_no_proxy q) else [])"
  have q: "http_proxy p = http_proxy q \<and> https_proxy p = https_proxy q"
    using pop by (auto simp: populate_no_proxy_def Let_def split: if_split_asm)
  have clean: "clean_cidr N (net4 a ones) = Ok ?clean" using nic by (intro clean_cidr_net4)
  have ip: "show_ip N (net_addr (net4 a ones)) = ?ip" by (simp add: net4_def show_ip_def)
  from q proxy pop [unfolded populate_no_proxy_def Let_def, folded base_def] obtain valid where valid: "no_proxy_has_local_ip N (join_str '','' base) ?ip = Ok valid"
    and np: "no_proxy p = join_str '','' (if valid then base else base @ [?clean])"
    by (auto simp: nic(1) clean ip split: if_split_asm)
  have "no_proxy_has_local_ip N (no_proxy p) ?ip = Ok True"
  proof (cases valid)
    case False
    have "base \<noteq> []" by (simp add: base_def default_no_proxy_def)
    then have "split_on CHR '','' (no_proxy p) = split_on CHR '','' (join_str '','' base) @ [?clean]"
      using split_join_snoc [OF _ show_net_shape(2)] False by (simp add: np)
    then show ?thesis using valid False own_net_entry [OF nic(2,3)]
      by (simp only: no_proxy_has_local_ip_def parse option.case no_proxy_entries_append bindO.simps)
  qed (use valid np in simp)
  then show ?thesis using proxy nic
    by (auto simp: check_proxy_config_for_local_ip_def net4_def show_ip_def)
qed

theorem proxy_spec_covers_local_ip_witness:
  "\<exists>p. get_proxy_spec sample_netlib (\<lambda>_. []) (\<lambda>_. Ok (net4 167772165 24)) ''http://p'' [] [] ''a'' ''b'' [] = Ok (Some p) \<and>
    check_proxy_config_for_local_ip sample_netlib (\<lambda>_. Ok (net4 167772165 24)) (Some p) [] =
      Ok (True, show_ip sample_netlib (IP4 167772165))"
proof -
  have parse: "parse_ip sample_netlib (show_ip4 167772165) = Some (IP4 167772165)"
    by (simp add: parse_ip_def parse_addr_show_ip4)
  have local: "no_proxy_has_local_ip sample_netlib (join_str '','' (default_no_proxy @ [''a'', ''b''])) (show_ip4 167772165) = Ok b"
    if "b = (\<exists>e \<in> set (default_no_proxy @ [''a'', ''b'']). e = show_ip4 167772165)" for b
    unfolding that no_proxy_has_local_ip_def parse
    by (simp add: default_no_proxy_def show_ip4_def octets_def show_nat.simps digit_char_def char_of_def bit_iff_odd)
  obtain p where p: "get_proxy_spec sample_netlib (\<lambda>_. []) (\<lambda>_. Ok (net4 167772165 24)) ''http://p'' [] [] ''a'' ''b'' [] = Ok (Some p)"
    "http_proxy p = ''http://p''"
    using local clean_cidr_net4 [of 167772165 24 sample_netlib]
    by (auto simp: get_proxy_spec_def set_proxy_defaults_def first_env_def populate_no_proxy_def show_ip_def net4_def Let_def)
  from proxy_spec_covers_local_ip [OF p(1), of 167772165 24] p show ?thesis by auto
qed

end
