(* ===== verification/Waits.thy ===== *)
theory Waits
  imports Cluster
begin

text \<open>
  Waiting for cluster objects (\<^verbatim>\<open>pkg/kubeutils/kubeutils.go\<close>, \<^verbatim>\<open>ensure.go\<close>): the readiness
  of each kind of object and the polls on it. A poll tries at most as many times as its backoff
  has steps, keeping the last error for the message; contexts are not cancelled. The locale
  \<open>readiness\<close> is what every poll relies on; each check is an interpretation of it.
\<close>

section \<open>Checks\<close>

definition is_namespace_ready :: "string \<Rightarrow> (kube, bool) call" where
  "is_namespace_ready ns = api (\<lambda>w. case map_of (namespaces w) ns of
      None \<Rightarrow> (Err (ENotFound ns), w) | Some phase \<Rightarrow> (Ok (phase = ''Active''), w))"

definition workload_ready :: "workload \<Rightarrow> bool" where
  "workload_ready x \<longleftrightarrow> (case wl_replicas x of None \<Rightarrow> wl_ready x = 1 | Some n \<Rightarrow> wl_ready x = n)"

definition is_deployment_ready :: "string \<Rightarrow> string \<Rightarrow> (kube, bool) call" where
  "is_deployment_ready ns n = bind (get_in deployments (ns, n)) (\<lambda>d. ret (workload_ready d))"

definition is_stateful_set_ready :: "string \<Rightarrow> string \<Rightarrow> (kube, bool) call" where
  "is_stateful_set_ready ns n = bind (get_in stateful_sets (ns, n)) (\<lambda>d. ret (workload_ready d))"

definition is_daemonset_ready :: "string \<Rightarrow> string \<Rightarrow> (kube, bool) call" where
  "is_daemonset_ready ns n = bind (get_in daemon_sets (ns, n)) (\<lambda>d. ret (ds_desired d = ds_ready d))"

definition is_service_ready :: "string \<Rightarrow> string \<Rightarrow> (kube, bool) call" where
  "is_service_ready ns n = bind (get_in services (ns, n)) (\<lambda>ip. ret (ip \<noteq> []))"

definition is_job_completed :: "job_object \<Rightarrow> int \<Rightarrow> bool" where
  "is_job_completed j completions \<longleftrightarrow> jo_succeeded j \<ge> completions"

definition is_job_failed :: "job_object \<Rightarrow> bool" where
  "is_job_failed j \<longleftrightarrow> jo_failed j > (case jo_backoff_limit j of None \<Rightarrow> 6 | Some n \<Rightarrow> n)"

definition node_ready :: "node \<Rightarrow> bool" where
  "node_ready n \<longleftrightarrow> (''Ready'', ''True'') \<in> set (node_conditions n)"

definition are_nodes_ready :: "(kube, bool) call" where
  "are_nodes_ready = bind (api (gets nodes)) (\<lambda>ns.
     ret (sum_list (map (\<lambda>n. length (filter (\<lambda>c. c = (''Ready'', ''True'')) (node_conditions n))) ns) = length ns
       \<and> ns \<noteq> []))"

section \<open>Polls\<close>

text \<open>One try: an error of the check is kept and the poll goes on.\<close>

definition ready_try :: "string \<Rightarrow> (kube, bool) call \<Rightarrow> err option \<Rightarrow> (kube, err option + unit) call" where
  "ready_try report check lst = bind (attempt check) (\<lambda>r. case r of
      Inl e \<Rightarrow> ret (Inl (Some (EMsg (report @ '': '' @ err_text e))))
    | Inr b \<Rightarrow> ret (if b then Inr () else Inl lst))"

definition timed_out :: "string \<Rightarrow> err option + 'a \<Rightarrow> (kube, 'a) call" where
  "timed_out msg r = (case r of Inr x \<Rightarrow> ret x
     | Inl (Some e) \<Rightarrow> throw (EWrap msg e) | Inl None \<Rightarrow> throw (EMsg msg))"

definition wait_for_ready :: "'v lib \<Rightarrow> nat \<Rightarrow> string \<Rightarrow> string \<Rightarrow> (kube, bool) call \<Rightarrow> (kube, unit) call" where
  "wait_for_ready L steps report msg check =
     bind (poll steps (lib_tick L) (ready_try report check) None) (timed_out msg)"

definition wait_for_namespace :: "'v lib \<Rightarrow> nat \<Rightarrow> string \<Rightarrow> (kube, unit) call" where
  "wait_for_namespace L steps ns = wait_for_ready L steps (''unable to get namespace '' @ ns @ '' status'')
     (''timed out waiting for namespace '' @ ns) (is_namespace_ready ns)"

definition wait_for_deployment :: "'v lib \<Rightarrow> nat \<Rightarrow> string \<Rightarrow> string \<Rightarrow> (kube, unit) call" where
  "wait_for_deployment L steps ns n = wait_for_ready L steps (''unable to get deploy '' @ n @ '' status'')
     (''timed out waiting for '' @ n @ '' to deploy'') (is_deployment_ready ns n)"

definition wait_for_statefulset :: "'v lib \<Rightarrow> nat \<Rightarrow> string \<Rightarrow> string \<Rightarrow> (kube, unit) call" where
  "wait_for_statefulset L steps ns n = wait_for_ready L steps (''unable to get statefulset '' @ n @ '' status'')
     (''timed out waiting for '' @ n @ '' to statefulset'') (is_stateful_set_ready ns n)"

definition wait_for_daemonset :: "'v lib \<Rightarrow> nat \<Rightarrow> string \<Rightarrow> string \<Rightarrow> (kube, unit) call" where
  "wait_for_daemonset L steps ns n = wait_for_ready L steps (''unable to get daemonset '' @ n @ '' status'')
     (''timed out waiting for '' @ n @ '' to deploy'') (is_daemonset_ready ns n)"

definition wait_for_service :: "'v lib \<Rightarrow> nat \<Rightarrow> string \<Rightarrow> string \<Rightarrow> (kube, unit) call" where
  "wait_for_service L steps ns n = wait_for_ready L steps (''unable to get service '' @ n)
     (''timed out waiting for service '' @ n @ '' to have an IP'') (is_service_ready ns n)"

definition wait_for_nodes :: "'v lib \<Rightarrow> (kube, unit) call" where
  "wait_for_nodes L = wait_for_ready L 60 ''unable to list nodes'' ''timed out waiting for nodes to be ready'' are_nodes_ready"

text \<open>A missing or failed job ends the poll.\<close>

definition job_try :: "string \<Rightarrow> string \<Rightarrow> int \<Rightarrow> err option \<Rightarrow> (kube, err option + unit) call" where
  "job_try ns n completions lst = bind (attempt (get_in job_objects (ns, n))) (\<lambda>r. case r of
      Inl e \<Rightarrow> if is_not_found e then throw (EMsg ''job not found'')
        else ret (Inl (Some (EWrap ''unable to get job'' e)))
    | Inr j \<Rightarrow> if is_job_failed j then throw (EMsg ''job failed'')
        else ret (if is_job_completed j completions then Inr () else Inl lst))"

definition wait_for_job :: "'v lib \<Rightarrow> nat \<Rightarrow> string \<Rightarrow> string \<Rightarrow> int \<Rightarrow> (kube, unit) call" where
  "wait_for_job L steps ns n completions =
     (let msg = ''timed out waiting for job '' @ n in
      bind (attempt (poll steps (lib_tick L) (job_try ns n completions) None)) (\<lambda>r. case r of
        Inl e \<Rightarrow> throw (EWrap msg e) | Inr p \<Rightarrow> timed_out msg p))"

definition pod_complete_try :: "string \<Rightarrow> string \<Rightarrow> err option \<Rightarrow> (kube, err option + pod_object) call" where
  "pod_complete_try ns n lst = bind (attempt (get_in pod_objects (ns, n))) (\<lambda>r. case r of
      Inl e \<Rightarrow> if is_not_found e then throw (EMsg ''pod not found'')
        else ret (Inl (Some (EWrap ''get pod'' e)))
    | Inr p \<Rightarrow> ret (if po_phase p = ''Succeeded'' \<or> po_phase p = ''Failed'' then Inr p else Inl lst))"

text \<open>The pod returned beside an error is left out.\<close>

definition wait_for_pod_complete :: "'v lib \<Rightarrow> nat \<Rightarrow> string \<Rightarrow> string \<Rightarrow> (kube, pod_object) call" where
  "wait_for_pod_complete L steps ns n =
     (let msg = ''timed out waiting for pod '' @ n in
      bind (attempt (poll steps (lib_tick L) (pod_complete_try ns n) None)) (\<lambda>r. case r of
        Inl e \<Rightarrow> throw (EWrap msg e) | Inr p \<Rightarrow> timed_out msg p))"

definition pod_deleted_try :: "string \<Rightarrow> string \<Rightarrow> err option \<Rightarrow> (kube, err option + unit) call" where
  "pod_deleted_try ns n lst = bind (attempt (get_in pod_objects (ns, n))) (\<lambda>r. case r of
      Inl e \<Rightarrow> ret (if is_not_found e then Inr () else Inl (Some (EWrap ''get pod'' e)))
    | Inr _ \<Rightarrow> ret (Inl lst))"

definition wait_for_pod_deleted :: "'v lib \<Rightarrow> nat \<Rightarrow> string \<Rightarrow> string \<Rightarrow> (kube, unit) call" where
  "wait_for_pod_deleted L steps ns n = bind (poll steps (lib_tick L) (pod_deleted_try ns n) None)
     (timed_out (''timed out waiting for pod '' @ n @ '' to be deleted''))"

definition node_try :: "string \<Rightarrow> bool \<Rightarrow> err option \<Rightarrow> (kube, err option + unit) call" where
  "node_try n is_worker lst = bind (attempt (api (\<lambda>w. case List.find (\<lambda>x. node_name x = n) (nodes w) of
        None \<Rightarrow> (Err (ENotFound n), w) | Some x \<Rightarrow> (Ok x, w)))) (\<lambda>r. case r of
      Inl e \<Rightarrow> ret (Inl (Some (EMsg (''unable to get node: '' @ err_text e))))
    | Inr x \<Rightarrow>
        if \<not> is_worker \<and> map_of (node_labels x) ''node-role.kubernetes.io/control-plane'' = None
        then ret (Inl (Some (EMsg ''control plane label not found'')))
        else if node_ready x then ret (Inr ())
        else ret (Inl (Some (EMsg (''node '' @ n @ '' not ready'')))))"

definition wait_for_node :: "'v lib \<Rightarrow> string \<Rightarrow> bool \<Rightarrow> (kube, unit) call" where
  "wait_for_node L n is_worker = bind (poll 60 (lib_tick L) (node_try n is_worker) None)
     (timed_out (''timed out waiting for node '' @ n))"

definition num_of_control_plane_nodes :: "(kube, nat) call" where
  "num_of_control_plane_nodes = bind (api (gets nodes)) (\<lambda>ns.
     ret (length (filter (\<lambda>x. map_of (node_labels x) ''node-role.kubernetes.io/control-plane'' \<noteq> None) ns)))"

section \<open>Ensuring an object\<close>

text \<open>
  The wait for the deletion ends when the context does: after \<open>patience\<close> tries. The object that is
  returned is the one the caller's variable holds afterwards.
\<close>

definition deleted_try :: "(kube \<Rightarrow> (nsname \<times> 'x) list) \<Rightarrow> nsname \<Rightarrow> unit \<Rightarrow> (kube, unit + unit) call" where
  "deleted_try get k = (\<lambda>_. bind (attempt (get_in get k)) (\<lambda>r. case r of
      Inl e \<Rightarrow> if is_not_found e then ret (Inr ()) else throw (EWrap ''get object'' e)
    | Inr _ \<Rightarrow> ret (Inl ())))"

definition ensure_object :: "'v lib \<Rightarrow> nat \<Rightarrow> (kube \<Rightarrow> (nsname \<times> 'x) list) \<Rightarrow>
    (((nsname \<times> 'x) list \<Rightarrow> (nsname \<times> 'x) list) \<Rightarrow> kube \<Rightarrow> kube) \<Rightarrow> nsname \<Rightarrow> 'x \<Rightarrow> ('x \<Rightarrow> bool) \<Rightarrow> (kube, 'x) call" where
  "ensure_object L patience get upd k obj should_delete =
     (let create = bind (wrap ''create object'' (create_in get upd k obj)) (\<lambda>_. ret obj) in
      bind (attempt (get_in get k)) (\<lambda>r. case r of
        Inl e \<Rightarrow> if \<not> is_not_found e then throw (EWrap ''get object'' e) else create
      | Inr old \<Rightarrow>
          if should_delete old then
            bind (wrap ''delete object'' (delete_in get upd k)) (\<lambda>_.
            bind (wrap ''wait for delete'' (poll patience (lib_tick L) (deleted_try get k) ())) (\<lambda>d. case d of
              Inl _ \<Rightarrow> throw (EWrap ''wait for delete'' (EMsg ''context deadline exceeded''))
            | Inr _ \<Rightarrow> create))
          else ret old))"

section \<open>What a check promises\<close>

text \<open>
  A check reads: it changes nothing but the answers left, tells whether the object is ready when
  it answers, and does answer when the API server does and the object is ready.
\<close>

locale readiness =
  fixes check :: "(kube, bool) call" and ready :: "kube \<Rightarrow> bool"
  assumes check_reads: "check w = (r, w') \<Longrightarrow> \<exists>fs. w' = w\<lparr>faults := fs\<rparr>"
    and check_answer: "check w = (Ok b, w') \<Longrightarrow> b = ready w"
    and check_quiet: "faults w = [] \<Longrightarrow> \<exists>r. check w = (r, w) \<and> (\<forall>p. r \<noteq> Panic p) \<and> (ready w \<longrightarrow> r = Ok True)"
    and ready_faults: "ready (w\<lparr>faults := fs\<rparr>) = ready w"
begin

lemma try_Inr:
  assumes "ready_try report check lst w = (Ok (Inr u), w')"
  shows "ready w'"
proof -
  from assms obtain r w1 where r: "attempt check w = (Ok r, w1)"
    and k: "(case r of Inl e \<Rightarrow> ret (Inl (Some (EMsg (report @ '': '' @ err_text e))))
      | Inr b \<Rightarrow> ret (if b then Inr () else Inl lst)) w1 = (Ok (Inr u), w')"
    unfolding ready_try_def bind_Ok_iff by blast
  from k have "r = Inr True \<and> w' = w1" by (cases r) (auto split: if_splits)
  with r have "check w = (Ok True, w')" by (simp add: attempt_Inr_iff)
  from check_answer [OF this] check_reads [OF this] show ?thesis by (auto simp: ready_faults)
qed

lemma wait_Ok:
  assumes "wait_for_ready L steps report msg check w = (Ok u, w')"
  shows "ready w'"
proof -
  from assms obtain p w1 where p: "poll steps (lib_tick L) (ready_try report check) None w = (Ok p, w1)"
    and k: "timed_out msg p w1 = (Ok u, w')"
    unfolding wait_for_ready_def bind_Ok_iff by blast
  from k have "p = Inr u" "w' = w1" by (auto simp: timed_out_def split: sum.split_asm option.split_asm)
  with p poll_Inr [of steps "lib_tick L" "ready_try report check" None w u w' "\<lambda>_. True"]
  obtain t v where "ready_try report check t v = (Ok (Inr u), w')" by auto
  then show ?thesis by (rule try_Inr)
qed

lemma try_ready: "faults w = [] \<Longrightarrow> ready w \<Longrightarrow> ready_try report check lst w = (Ok (Inr ()), w)"
  using check_quiet [of w] by (auto simp: ready_try_def bind_def attempt_def ret_def)

lemma try_not_ready:
  assumes "faults w = []" "\<not> ready w"
  shows "\<exists>l. ready_try report check lst w = (Ok (Inl l), w)"
proof -
  obtain r where r: "check w = (r, w)" "\<forall>p. r \<noteq> Panic p" using check_quiet [OF assms(1)] by blast
  show ?thesis using r assms(2) check_answer [of w]
    by (cases r) (auto simp: ready_try_def bind_def attempt_def ret_def)
qed

text \<open>When the API server answers, the poll ends with the first state in which the object is ready.\<close>

lemma poll_ready:
  assumes "\<And>v. faults v = [] \<Longrightarrow> faults (tick v) = []" "faults w = []" "k < n"
    and "ready ((tick ^^ k) w)" "\<And>i. i < k \<Longrightarrow> \<not> ready ((tick ^^ i) w)"
  shows "poll n tick (ready_try report check) lst w = (Ok (Inr ()), (tick ^^ k) w)"
  using assms(2-)
proof (induction n arbitrary: w k lst)
  case (Suc n)
  show ?case
  proof (cases k)
    case 0
    then show ?thesis using Suc.prems try_ready [of w] by (simp add: bind_def ret_def)
  next
    case (Suc j)
    have "\<not> ready w" using Suc.prems(4) [of 0] Suc by simp
    then obtain l where l: "ready_try report check lst w = (Ok (Inl l), w)"
      using try_not_ready Suc.prems(1) by blast
    have shift: "(tick ^^ i) (tick w) = (tick ^^ Suc i) w" for i by (simp add: funpow_swap1)
    have "poll n tick (ready_try report check) l (tick w) = (Ok (Inr ()), (tick ^^ j) (tick w))"
      by (rule Suc.IH) (use Suc.prems Suc assms(1) in \<open>auto simp: shift simp del: funpow.simps\<close>)
    then show ?thesis using l Suc.prems(2) Suc by (simp add: bind_def modify_def funpow_swap1)
  qed
qed simp

lemma poll_never_ready:
  assumes "\<And>v. faults v = [] \<Longrightarrow> faults (tick v) = []" "faults w = []"
    and "\<And>i. i < n \<Longrightarrow> \<not> ready ((tick ^^ i) w)"
  shows "\<exists>l w'. poll n tick (ready_try report check) lst w = (Ok (Inl l), w')"
  using assms(2-)
proof (induction n arbitrary: w lst)
  case (Suc n)
  obtain l where l: "ready_try report check lst w = (Ok (Inl l), w)"
    using try_not_ready [OF Suc.prems(1)] Suc.prems(2) [of 0] by auto
  have "\<exists>l' w'. poll n tick (ready_try report check) l (tick w) = (Ok (Inl l'), w')"
  proof (rule Suc.IH)
    show "\<not> ready ((tick ^^ i) (tick w))" if "i < n" for i
      using Suc.prems(2) [of "Suc i"] that by (simp add: funpow_swap1)
  qed (simp add: assms(1) Suc.prems(1))
  with l show ?case by (auto simp: bind_def modify_def ret_def)
qed (simp add: ret_def)

lemma wait_iff:
  assumes "\<And>v. faults v = [] \<Longrightarrow> faults (lib_tick L v) = []" "faults w = []"
  shows "(\<exists>w'. wait_for_ready L steps report msg check w = (Ok (), w')) \<longleftrightarrow>
    (\<exists>k < steps. ready ((lib_tick L ^^ k) w))"
proof
  assume "\<exists>k < steps. ready ((lib_tick L ^^ k) w)"
  then obtain k where k: "k < steps" "ready ((lib_tick L ^^ k) w)" "\<forall>i < k. \<not> ready ((lib_tick L ^^ i) w)"
    using exists_least_iff [of "\<lambda>k. k < steps \<and> ready ((lib_tick L ^^ k) w)"] by auto
  from poll_ready [OF assms(1,2) k(1,2)] k(3)
  show "\<exists>w'. wait_for_ready L steps report msg check w = (Ok (), w')"
    by (auto simp: wait_for_ready_def bind_def timed_out_def ret_def)
next
  assume ok: "\<exists>w'. wait_for_ready L steps report msg check w = (Ok (), w')"
  show "\<exists>k < steps. ready ((lib_tick L ^^ k) w)"
  proof (rule ccontr)
    assume "\<not> ?thesis"
    then have "\<exists>l w'. poll steps (lib_tick L) (ready_try report check) None w = (Ok (Inl l), w')"
      by (intro poll_never_ready assms) auto
    then obtain l w' where "poll steps (lib_tick L) (ready_try report check) None w = (Ok (Inl l), w')" by blast
    with ok show False
      by (cases l) (auto simp: wait_for_ready_def bind_def timed_out_def throw_def)
  qed
qed

end

section \<open>The checks keep their promise\<close>

lemma api_reads:
  assumes "api body w = (r, w')" "\<And>v. snd (body v) = v"
  shows "\<exists>fs. w' = w\<lparr>faults := fs\<rparr>"
  using api_cases [OF assms(1)] assms(2) by (metis snd_conv)

lemma get_in_reads: "get_in get k w = (r, w') \<Longrightarrow> \<exists>fs. w' = w\<lparr>faults := fs\<rparr>"
  unfolding get_in_def by (erule api_reads) (auto split: option.splits)

lemma get_in_quiet: "faults w = [] \<Longrightarrow> get_in get k w =
    ((case map_of (get w) k of None \<Rightarrow> Err (ENotFound (nsname_text k)) | Some x \<Rightarrow> Ok x), w)"
  by (simp add: get_in_def split: option.splits)

lemma readiness_get_in:
  assumes "\<And>v fs. get (v\<lparr>faults := fs\<rparr>) = get v"
  shows "readiness (bind (get_in get k) (\<lambda>x. ret (ok x)))
    (\<lambda>w. case map_of (get w) k of None \<Rightarrow> False | Some x \<Rightarrow> ok x)"
proof
  fix w w' r
  assume "bind (get_in get k) (\<lambda>x. ret (ok x)) w = (r, w')"
  then obtain r1 where "get_in get k w = (r1, w')"
    by (auto simp: bind_def ret_def split: prod.split_asm outcome.split_asm)
  then show "\<exists>fs. w' = w\<lparr>faults := fs\<rparr>" by (rule get_in_reads)
next
  fix w w' b
  assume "bind (get_in get k) (\<lambda>x. ret (ok x)) w = (Ok b, w')"
  then obtain x w1 where "get_in get k w = (Ok x, w1)" "b = ok x" by (auto simp: bind_Ok_iff)
  with get_in_Ok [OF this(1) assms] show "b = (case map_of (get w) k of None \<Rightarrow> False | Some x \<Rightarrow> ok x)" by simp
next
  fix w :: kube
  assume "faults w = []"
  then show "\<exists>r. bind (get_in get k) (\<lambda>x. ret (ok x)) w = (r, w) \<and> (\<forall>p. r \<noteq> Panic p) \<and>
      ((case map_of (get w) k of None \<Rightarrow> False | Some x \<Rightarrow> ok x) \<longrightarrow> r = Ok True)"
    by (auto simp: get_in_quiet bind_def ret_def split: option.splits)
qed (simp add: assms)

interpretation dep: readiness "is_deployment_ready ns n"
    "\<lambda>w. case map_of (deployments w) (ns, n) of None \<Rightarrow> False | Some d \<Rightarrow> workload_ready d" for ns n
  unfolding is_deployment_ready_def by (rule readiness_get_in) simp

interpretation sts: readiness "is_stateful_set_ready ns n"
    "\<lambda>w. case map_of (stateful_sets w) (ns, n) of None \<Rightarrow> False | Some d \<Rightarrow> workload_ready d" for ns n
  unfolding is_stateful_set_ready_def by (rule readiness_get_in) simp

interpretation dset: readiness "is_daemonset_ready ns n"
    "\<lambda>w. case map_of (daemon_sets w) (ns, n) of None \<Rightarrow> False | Some d \<Rightarrow> ds_desired d = ds_ready d" for ns n
  unfolding is_daemonset_ready_def by (rule readiness_get_in) simp

interpretation svc: readiness "is_service_ready ns n"
    "\<lambda>w. case map_of (services w) (ns, n) of None \<Rightarrow> False | Some ip \<Rightarrow> ip \<noteq> []" for ns n
  unfolding is_service_ready_def by (rule readiness_get_in) simp

interpretation nsp: readiness "is_namespace_ready ns" "\<lambda>w. map_of (namespaces w) ns = Some ''Active''" for ns
proof
  fix w w' and r :: "bool outcome"
  assume "is_namespace_ready ns w = (r, w')"
  then show "\<exists>fs. w' = w\<lparr>faults := fs\<rparr>"
    unfolding is_namespace_ready_def by (rule api_reads) (auto split: option.splits)
next
  fix w w' b
  assume "is_namespace_ready ns w = (Ok b, w')"
  from api_Ok [OF this [unfolded is_namespace_ready_def]]
  show "b = (map_of (namespaces w) ns = Some ''Active'')" by (auto split: option.split_asm)
qed (auto simp: is_namespace_ready_def split: option.splits)

definition all_nodes_ready :: "kube \<Rightarrow> bool" where
  "all_nodes_ready w \<longleftrightarrow> nodes w \<noteq> [] \<and>
     sum_list (map (\<lambda>n. length (filter (\<lambda>c. c = (''Ready'', ''True'')) (node_conditions n))) (nodes w)) = length (nodes w)"

interpretation nds: readiness are_nodes_ready all_nodes_ready
proof
  fix w w' and r :: "bool outcome"
  assume "are_nodes_ready w = (r, w')"
  then obtain r1 where "api (gets nodes) w = (r1, w')"
    by (auto simp: are_nodes_ready_def bind_def ret_def split: prod.split_asm outcome.split_asm)
  then show "\<exists>fs. w' = w\<lparr>faults := fs\<rparr>" by (rule api_reads) (simp add: gets_def)
next
  fix w w' b
  assume "are_nodes_ready w = (Ok b, w')"
  then show "b = all_nodes_ready w"
    by (auto simp: are_nodes_ready_def bind_Ok_iff all_nodes_ready_def dest!: api_Ok)
qed (auto simp: are_nodes_ready_def all_nodes_ready_def bind_def gets_def ret_def)

section \<open>Properties\<close>

text \<open>
  While the API server answers, waiting for a stateful set returns without an error exactly
  when the set has all its replicas ready (one, when it does not say how many) in one of the
  states the poll can see before its tries run out.
\<close>

theorem wait_for_statefulset_returns_iff:
  assumes "\<And>v. faults v = [] \<Longrightarrow> faults (lib_tick L v) = []" "faults w = []"
  shows "(\<exists>w'. wait_for_statefulset L steps ns n w = (Ok (), w')) \<longleftrightarrow>
    (\<exists>k < steps. case map_of (stateful_sets ((lib_tick L ^^ k) w)) (ns, n) of
       None \<Rightarrow> False | Some x \<Rightarrow> workload_ready x)"
  unfolding wait_for_statefulset_def using sts.wait_iff [OF assms] .

definition sample_workload :: "int option \<Rightarrow> int \<Rightarrow> workload" where
  "sample_workload n r = \<lparr>wl_replicas = n, wl_ready = r, wl_containers = []\<rparr>"

theorem wait_for_statefulset_returns_iff_witness:
  "\<exists>w'. wait_for_statefulset sample_lib 60 ''kotsadm'' ''kotsadm-rqlite''
     ((sample_kube [])\<lparr>stateful_sets := [((''kotsadm'', ''kotsadm-rqlite''), sample_workload (Some 3) 3)]\<rparr>) = (Ok (), w')"
  using wait_for_statefulset_returns_iff [of sample_lib "(sample_kube [])\<lparr>stateful_sets :=
      [((''kotsadm'', ''kotsadm-rqlite''), sample_workload (Some 3) 3)]\<rparr>" 60 "''kotsadm''" "''kotsadm-rqlite''"]
  by (auto simp: sample_lib_def sample_kube_def sample_workload_def workload_ready_def intro!: exI [of _ 0])

text \<open>
  A wait that returns without an error leaves a cluster in which the object waited for is
  ready, however many calls failed on the way: the namespace is active, the deployment or
  daemon set has its pods, the service has an address, every node is ready.
\<close>

theorem waits_end_ready:
  "(\<forall>w'. wait_for_namespace L k ns w = (Ok (), w') \<longrightarrow> map_of (namespaces w') ns = Some ''Active'') \<and>
   (\<forall>w'. wait_for_deployment L k ns n w = (Ok (), w') \<longrightarrow>
      (\<exists>d. map_of (deployments w') (ns, n) = Some d \<and> workload_ready d)) \<and>
   (\<forall>w'. wait_for_daemonset L k ns n w = (Ok (), w') \<longrightarrow>
      (\<exists>d. map_of (daemon_sets w') (ns, n) = Some d \<and> ds_desired d = ds_ready d)) \<and>
   (\<forall>w'. wait_for_service L k ns n w = (Ok (), w') \<longrightarrow>
      (\<exists>ip. map_of (services w') (ns, n) = Some ip \<and> ip \<noteq> [])) \<and>
   (\<forall>w'. wait_for_nodes L w = (Ok (), w') \<longrightarrow> all_nodes_ready w')"
  unfolding wait_for_namespace_def wait_for_deployment_def wait_for_daemonset_def wait_for_service_def wait_for_nodes_def
  by (intro conjI allI impI; drule nsp.wait_Ok dep.wait_Ok dset.wait_Ok svc.wait_Ok nds.wait_Ok;
      auto split: option.split_asm)

theorem waits_end_ready_witness:
  "\<exists>w'. wait_for_deployment sample_lib 60 ''registry'' ''registry'' ((sample_kube [])\<lparr>deployments :=
     [((''registry'', ''registry''), sample_workload None 1)]\<rparr>) = (Ok (), w') \<and>
     (\<exists>d. map_of (deployments w') (''registry'', ''registry'') = Some d \<and> workload_ready d)"
proof -
  let ?w = "(sample_kube [])\<lparr>deployments := [((''registry'', ''registry''), sample_workload None 1)]\<rparr>"
  have k: "\<exists>k < 60. case map_of (deployments ((lib_tick sample_lib ^^ k) ?w)) (''registry'', ''registry'') of
      None \<Rightarrow> False | Some d \<Rightarrow> workload_ready d"
    by (intro exI [of _ 0]) (simp add: sample_workload_def workload_ready_def)
  have q: "\<And>v. faults v = [] \<Longrightarrow> faults (lib_tick sample_lib v) = []" "faults ?w = []"
    by (simp_all add: sample_lib_def)
  obtain w' where "wait_for_deployment sample_lib 60 ''registry'' ''registry'' ?w = (Ok (), w')"
    unfolding wait_for_deployment_def using iffD2 [OF dep.wait_iff [OF q] k] by blast
  then show ?thesis using waits_end_ready [of sample_lib 60 _ ?w "''registry''"] by blast
qed

section \<open>Jobs\<close>

lemma poll_stops:
  assumes "m s w = (Err e, w')"
  shows "poll (Suc n) tick m s w = (Err e, w')"
  using assms by (simp add: bind_def)

lemma wait_for_job_stops:
  assumes "job_try ns n c None w = (Err e, w)" "0 < steps"
  shows "wait_for_job L steps ns n c w = (Err (EWrap (''timed out waiting for job '' @ n) e), w)"
proof -
  obtain k where "steps = Suc k" using assms(2) by (cases steps) auto
  then have "poll steps (lib_tick L) (job_try ns n c) None w = (Err e, w)" using poll_stops [of "job_try ns n c"] assms(1) by blast
  then show ?thesis unfolding wait_for_job_def Let_def bind_def attempt_def by (simp add: throw_def)
qed

lemma job_try_Inr:
  assumes "job_try ns n c lst w = (Ok (Inr u), w')"
  shows "\<exists>j. map_of (job_objects w') (ns, n) = Some j \<and> \<not> is_job_failed j \<and> c \<le> jo_succeeded j"
proof -
  from assms obtain r w1 where r: "attempt (get_in job_objects (ns, n)) w = (Ok r, w1)"
    and k: "(case r of Inl e \<Rightarrow> if is_not_found e then throw (EMsg ''job not found'')
        else ret (Inl (Some (EWrap ''unable to get job'' e)))
      | Inr j \<Rightarrow> if is_job_failed j then throw (EMsg ''job failed'')
        else ret (if is_job_completed j c then Inr () else Inl lst)) w1 = (Ok (Inr u), w')"
    unfolding job_try_def bind_Ok_iff by blast
  show ?thesis
  proof (cases r)
    case (Inr j)
    with r have g: "get_in job_objects (ns, n) w = (Ok j, w1)" by (simp add: attempt_Inr_iff)
    from get_in_Ok [OF g] get_in_reads [OF g] have "map_of (job_objects w1) (ns, n) = Some j" by auto
    with k Inr show ?thesis by (auto simp: is_job_completed_def split: if_split_asm)
  qed (use k in \<open>auto split: if_split_asm\<close>)
qed

text \<open>
  Waiting for a job ends without an error only when the job has the completions asked for and
  has not failed more often than it may; a job that is missing, or has failed for good, ends
  the wait at the first try that sees it, with an error that says so.
\<close>

theorem wait_for_job_outcome:
  "(\<forall>w'. wait_for_job L steps ns n c w = (Ok (), w') \<longrightarrow>
     (\<exists>j. map_of (job_objects w') (ns, n) = Some j \<and> \<not> is_job_failed j \<and> c \<le> jo_succeeded j)) \<and>
   (faults w = [] \<longrightarrow> map_of (job_objects w) (ns, n) = None \<longrightarrow> 0 < steps \<longrightarrow>
     wait_for_job L steps ns n c w = (Err (EWrap (''timed out waiting for job '' @ n) (EMsg ''job not found'')), w)) \<and>
   (\<forall>j. faults w = [] \<longrightarrow> map_of (job_objects w) (ns, n) = Some j \<longrightarrow> is_job_failed j \<longrightarrow> 0 < steps \<longrightarrow>
     wait_for_job L steps ns n c w = (Err (EWrap (''timed out waiting for job '' @ n) (EMsg ''job failed'')), w))"
proof (intro conjI allI impI)
  fix w'
  assume "wait_for_job L steps ns n c w = (Ok (), w')"
  then obtain p w1 where p: "attempt (poll steps (lib_tick L) (job_try ns n c) None) w = (Ok p, w1)"
    and k: "(case p of Inl e \<Rightarrow> throw (EWrap (''timed out waiting for job '' @ n) e)
      | Inr q \<Rightarrow> timed_out (''timed out waiting for job '' @ n) q) w1 = (Ok (), w')"
    unfolding wait_for_job_def Let_def bind_Ok_iff by blast
  from k have "p = Inr (Inr ()) \<and> w' = w1"
    by (auto simp: timed_out_def split: sum.split_asm option.split_asm)
  with p have "poll steps (lib_tick L) (job_try ns n c) None w = (Ok (Inr ()), w')" by (simp add: attempt_Inr_iff)
  then obtain t v where "job_try ns n c t v = (Ok (Inr ()), w')"
    using poll_Inr [of steps "lib_tick L" "job_try ns n c" None w "()" w' "\<lambda>_. True"] by auto
  then show "\<exists>j. map_of (job_objects w') (ns, n) = Some j \<and> \<not> is_job_failed j \<and> c \<le> jo_succeeded j"
    by (rule job_try_Inr)
next
  assume q: "faults w = []" "map_of (job_objects w) (ns, n) = None" "0 < steps"
  then have "job_try ns n c None w = (Err (EMsg ''job not found''), w)"
    by (simp add: job_try_def bind_def attempt_def get_in_quiet throw_def)
  then show "wait_for_job L steps ns n c w = (Err (EWrap (''timed out waiting for job '' @ n) (EMsg ''job not found'')), w)"
    using q(3) by (rule wait_for_job_stops)
next
  fix j
  assume q: "faults w = []" "map_of (job_objects w) (ns, n) = Some j" "is_job_failed j" "0 < steps"
  then have "job_try ns n c None w = (Err (EMsg ''job failed''), w)"
    by (simp add: job_try_def bind_def attempt_def get_in_quiet throw_def)
  then show "wait_for_job L steps ns n c w = (Err (EWrap (''timed out waiting for job '' @ n) (EMsg ''job failed'')), w)"
    using q(4) by (rule wait_for_job_stops)
qed

theorem wait_for_job_outcome_witness:
  "fst (wait_for_job sample_lib 60 ''ns'' ''job'' 1 (sample_kube [])) =
    Err (EWrap ''timed out waiting for job job'' (EMsg ''job not found''))"
  using wait_for_job_outcome [of sample_lib 60 "''ns''" "''job''" 1 "sample_kube []"]
  by (simp add: sample_kube_def)

end
