(* ===== verification/HelmValues.thy ===== *)
theory HelmValues
  imports Installs NetUtils
begin

text \<open>
  The helm values of the built-in add-ons (\<^verbatim>\<open>pkg/addons/*/values.go\<close>, \<^verbatim>\<open>pkg/helm/values.go\<close>) and
  the addresses they reserve. YAML, JSON, the merge patch, \<open>--set-json\<close>, the rendered templates of
  the chart values and the chart metadata are parameters (\<open>value_lib\<close>).
\<close>

section \<open>Values\<close>

record value_lib =
  vl_marshal :: "helm_values \<Rightarrow> string outcome"
  vl_unmarshal :: "string \<Rightarrow> helm_values outcome"
  vl_set_json :: "string \<Rightarrow> yaml \<Rightarrow> helm_values \<Rightarrow> helm_values outcome"
  vl_yaml_to_json :: "string \<Rightarrow> string outcome"
  vl_json_to_yaml :: "string \<Rightarrow> string outcome"
  vl_merge_patch :: "string \<Rightarrow> string \<Rightarrow> string outcome"
  vl_template :: "string \<Rightarrow> helm_values outcome"
  vl_location :: "string \<Rightarrow> string"
  vl_chart_version :: "string \<Rightarrow> string"
  vl_version :: string
  vl_k0s_version :: string
  vl_chart_repo_override :: string
  vl_image_override :: string
  vl_migrations_image_override :: string
  vl_kurl_proxy_image_override :: string

definition put :: "string \<Rightarrow> yaml \<Rightarrow> helm_values \<Rightarrow> helm_values" where
  "put k v m = AList.update k v m"

text \<open>\<open>values[k1].(map[string]interface{})[k2] = v\<close> panics when there is no map under \<open>k1\<close>.\<close>

definition put_below :: "string \<Rightarrow> string \<Rightarrow> yaml \<Rightarrow> helm_values \<Rightarrow> helm_values outcome" where
  "put_below k1 k2 v m = (case map_of m k1 of
      Some (YMap inner) \<Rightarrow> Ok (put k1 (YMap (put k2 v inner)) m)
    | _ \<Rightarrow> Panic ''interface conversion'')"

definition when_nonempty :: "string \<Rightarrow> ('v \<Rightarrow> 'v outcome) \<Rightarrow> 'v \<Rightarrow> 'v outcome" where
  "when_nonempty s f v = (if s \<noteq> [] then f v else Ok v)"

definition unmarshal_values :: "value_lib \<Rightarrow> string \<Rightarrow> helm_values outcome" where
  "unmarshal_values V s = wrapO ''unmarshal values'' (vl_unmarshal V s)"

definition marshal_values :: "value_lib \<Rightarrow> helm_values \<Rightarrow> string outcome" where
  "marshal_values V v = wrapO ''marshal values'' (vl_marshal V v)"

definition set_value :: "value_lib \<Rightarrow> string \<Rightarrow> yaml \<Rightarrow> helm_values \<Rightarrow> helm_values outcome" where
  "set_value V path x v = wrapO ''helm set json'' (vl_set_json V path x v)"

definition patch_values :: "value_lib \<Rightarrow> helm_values \<Rightarrow> string \<Rightarrow> helm_values outcome" where
  "patch_values V v patch =
     (if patch = [] then Ok v
      else
        bindO (wrapO ''marshal original values'' (marshal_values V v)) (\<lambda>original_yaml.
        bindO (wrapO ''convert original values to json'' (vl_yaml_to_json V original_yaml)) (\<lambda>original.
        bindO (wrapO ''convert patch to json'' (vl_yaml_to_json V patch)) (\<lambda>patch_json.
        bindO (wrapO ''patch values'' (vl_merge_patch V original patch_json)) (\<lambda>result_json.
        bindO (wrapO ''convert patched values to yaml'' (vl_json_to_yaml V result_json)) (\<lambda>result_yaml.
        wrapO ''unmarshal patched values'' (unmarshal_values V result_yaml)))))))"

fun patch_all :: "value_lib \<Rightarrow> string list \<Rightarrow> helm_values \<Rightarrow> helm_values outcome" where
  "patch_all V [] v = Ok v"
| "patch_all V (p # ps) v = bindO (wrapO ''patch helm values'' (patch_values V v p)) (patch_all V ps)"

text \<open>\<open>strings.ReplaceAll\<close> of a text that is not empty.\<close>

function replace_all :: "string \<Rightarrow> string \<Rightarrow> string \<Rightarrow> string" where
  "replace_all old new [] = []"
| "replace_all old new (x # xs) =
     (if old \<noteq> [] \<and> prefix old (x # xs) then new @ replace_all old new (drop (length old) (x # xs))
      else x # replace_all old new xs)"
  by pat_completeness auto
termination by (relation "measure (\<lambda>(_, _, s). length s)") (auto simp: length_greater_0_conv)

text \<open>What every add-on does first: render, and put the customer's proxy registry in the text.\<close>

definition base_values :: "value_lib \<Rightarrow> domains \<Rightarrow> helm_values outcome \<Rightarrow> helm_values outcome" where
  "base_values V d hv =
     bindO hv (\<lambda>hv.
     bindO (wrapO ''marshal helm values'' (marshal_values V hv)) (\<lambda>text.
     wrapO ''unmarshal helm values'' (unmarshal_values V
       (if proxy_registry_domain d \<noteq> [] then replace_all ''proxy.replicated.com'' (proxy_registry_domain d) text
        else text))))"

definition rendered :: "value_lib \<Rightarrow> string \<Rightarrow> helm_values outcome" where
  "rendered V chart = wrapO ''render helm values'' (vl_template V chart)"

section \<open>Parts the add-ons share\<close>

definition env_var :: "string \<Rightarrow> string \<Rightarrow> yaml" where
  "env_var n v = YMap [(''name'', YStr n), (''value'', YStr v)]"

definition proxy_env :: "proxy_spec option \<Rightarrow> yaml list" where
  "proxy_env p = (case p of None \<Rightarrow> [] | Some q \<Rightarrow>
     [env_var ''HTTP_PROXY'' (http_proxy q), env_var ''HTTPS_PROXY'' (https_proxy q), env_var ''NO_PROXY'' (no_proxy q)])"

definition ca_volumes :: "string \<Rightarrow> yaml" where
  "ca_volumes path = YList (if path = [] then [] else
     [YMap [(''name'', YStr ''host-ca-bundle''),
       (''hostPath'', YMap [(''path'', YStr path), (''type'', YStr ''FileOrCreate'')])]])"

definition ca_volume_mounts :: "string \<Rightarrow> yaml" where
  "ca_volume_mounts path = YList (if path = [] then [] else
     [YMap [(''name'', YStr ''host-ca-bundle''), (''mountPath'', YStr ''/certs/ca-certificates.crt'')]])"

section \<open>Reserved addresses\<close>

text \<open>\<open>net.IP.String\<close> of what \<open>GetLowerBandIP\<close> returns: four bytes are an address.\<close>

definition hex_digit :: "nat \<Rightarrow> char" where
  "hex_digit d = (if d < 10 then digit_char d else char_of (87 + d))"

definition ip_bytes_text :: "nat list \<Rightarrow> string" where
  "ip_bytes_text bs = (if bs = [] then ''<nil>''
     else if length bs = 4 then join_str ''.'' (map show_nat bs)
     else ''?'' @ concat (map (\<lambda>b. [hex_digit (b div 16), hex_digit (b mod 16)]) bs))"

definition get_registry_cluster_ip :: "netlib \<Rightarrow> string \<Rightarrow> string outcome" where
  "get_registry_cluster_ip N cidr =
     bindO (wrapO ''get cluster IP for registry service'' (get_lower_band_ip N cidr 10)) (\<lambda>bs.
     Ok (ip_bytes_text bs))"

definition get_seaweedfs_service_ip :: "netlib \<Rightarrow> string \<Rightarrow> string outcome" where
  "get_seaweedfs_service_ip N cidr =
     bindO (wrapO ''get lower band ip'' (get_lower_band_ip N cidr 11)) (\<lambda>bs. Ok (ip_bytes_text bs))"

definition get_s3_endpoint :: "netlib \<Rightarrow> string \<Rightarrow> string outcome" where
  "get_s3_endpoint N cidr =
     bindO (wrapO ''get service IP'' (get_seaweedfs_service_ip N cidr)) (\<lambda>ip. Ok (ip @ '':8333''))"

definition get_s3_url :: "netlib \<Rightarrow> string \<Rightarrow> string outcome" where
  "get_s3_url N cidr =
     bindO (wrapO ''get s3 endpoint'' (get_s3_endpoint N cidr)) (\<lambda>e. Ok (''http://'' @ e))"

definition maybe_add_https :: "string \<Rightarrow> string" where
  "maybe_add_https d = (if prefix ''http://'' d \<or> prefix ''https://'' d then d else ''https://'' @ d)"

section \<open>The add-ons\<close>

record operator_addon =
  eco_cluster_id :: string
  eco_is_airgap :: bool
  eco_proxy :: "proxy_spec option"
  eco_host_ca_path :: string
  eco_kotsadm_ns :: string
  eco_chart_location :: string
  eco_chart_version :: string
  eco_image_repo :: string
  eco_image_tag :: string
  eco_utils_image :: string

record velero_addon =
  vel_proxy :: "proxy_spec option"
  vel_host_ca_path :: string
  vel_k0s_dir :: string
  vel_config :: "config_spec option"

record admin_console_addon =
  ac_is_airgap :: bool
  ac_is_ha :: bool
  ac_is_multi_node :: bool
  ac_proxy :: "proxy_spec option"
  ac_port :: int
  ac_cluster_id :: string
  ac_service_cidr :: string
  ac_host_ca_path :: string
  ac_data_dir :: string
  ac_k0s_dir :: string
  ac_password :: string
  ac_tls_cert :: string
  ac_tls_key :: string
  ac_hostname :: string
  ac_kots_installer :: bool
  ac_kotsadm_ns :: string

text \<open>
  The implementations of \<open>types.AddOn\<close>: OpenEBS with its data directory, the registry with the
  service network and whether it is highly available, SeaweedFS with the service network and its
  data directory.
\<close>

datatype add_on =
    OpenEBS string
  | Operator operator_addon
  | Registry string bool
  | SeaweedFS string string
  | Velero velero_addon
  | AdminConsole admin_console_addon

section \<open>Generating the values\<close>

definition openebs_values :: "value_lib \<Rightarrow> string \<Rightarrow> domains \<Rightarrow> string list \<Rightarrow> helm_values outcome" where
  "openebs_values V openebs_dir d overrides =
     bindO (base_values V d (wrapO ''get helm values'' (rendered V ''openebs''))) (\<lambda>v.
     bindO (wrapO ''set localpv-provisioner.localpv.basePath''
       (set_value V ''localpv-provisioner.localpv.basePath'' (YStr openebs_dir) v)) (\<lambda>v.
     patch_all V overrides v))"

definition operator_rendered :: "value_lib \<Rightarrow> helm_values outcome" where
  "operator_rendered V = bindO (rendered V ''embeddedclusteroperator'') (\<lambda>hv.
     Ok (put ''embeddedClusterK0sVersion'' (YStr (vl_k0s_version V))
       (put ''embeddedClusterVersion'' (YStr (vl_version V)) hv)))"

definition operator_env :: "operator_addon \<Rightarrow> yaml" where
  "operator_env e = YList (proxy_env (eco_proxy e) @
     (if eco_host_ca_path e = [] then [] else
        [env_var ''SSL_CERT_DIR'' ''/certs'', env_var ''PRIVATE_CA_BUNDLE_PATH'' ''/certs/ca-certificates.crt'']) @
     (if eco_kotsadm_ns e = [] then [] else [env_var ''KOTSADM_NAMESPACE'' (eco_kotsadm_ns e)]))"

definition operator_values :: "value_lib \<Rightarrow> operator_addon \<Rightarrow> domains \<Rightarrow> string list \<Rightarrow> helm_values outcome" where
  "operator_values V e d overrides =
     bindO (base_values V d (wrapO ''get helm values'' (operator_rendered V))) (\<lambda>v.
     bindO (when_nonempty (eco_image_repo e) (put_below ''image'' ''repository'' (YStr (eco_image_repo e))) v) (\<lambda>v.
     bindO (when_nonempty (eco_image_tag e) (put_below ''image'' ''tag'' (YStr (eco_image_tag e))) v) (\<lambda>v.
     bindO (when_nonempty (eco_utils_image e) (\<lambda>v. Ok (put ''utilsImage'' (YStr (eco_utils_image e)) v)) v) (\<lambda>v.
     let v = put ''embeddedClusterID'' (YStr (eco_cluster_id e)) v;
         v = (if eco_is_airgap e then put ''isAirgap'' (YStr ''true'') v else v);
         v = put ''extraEnv'' (operator_env e) v;
         v = put ''extraVolumes'' (ca_volumes (eco_host_ca_path e)) v;
         v = put ''extraVolumeMounts'' (ca_volume_mounts (eco_host_ca_path e)) v
     in patch_all V overrides v))))"

definition registry_key :: nsname where "registry_key = (''registry'', ''registry'')"

definition registry_tls_key :: nsname where "registry_tls_key = (''registry'', ''registry-tls'')"

definition registry_http_key :: nsname where "registry_http_key = (''registry'', ''registry-http-secret'')"

text \<open>The only values that depend on the cluster: the registry's secrets are looked up.\<close>

definition registry_values :: "value_lib \<Rightarrow> netlib \<Rightarrow> string \<Rightarrow> bool \<Rightarrow> domains \<Rightarrow> string list \<Rightarrow>
    (kube, helm_values) call" where
  "registry_values V N cidr ha d overrides =
     bind (lift (base_values V d (if ha then wrapO ''get helm values ha'' (rendered V ''registry-ha'')
         else wrapO ''get helm values'' (rendered V ''registry'')))) (\<lambda>v.
     bind (attempt (get_in secrets registry_tls_key)) (\<lambda>tls.
     bind (case tls of
         Inl e \<Rightarrow> if \<not> is_not_found e then throw (EWrap ''get tls secret'' e) else ret v
       | Inr _ \<Rightarrow> ret (put ''tlsSecretName'' (YStr ''registry-tls'') v)) (\<lambda>v.
     bind (lift (wrapO ''get registry cluster IP'' (get_registry_cluster_ip N cidr))) (\<lambda>ip.
     let v = put ''service'' (YMap [(''clusterIP'', YStr ip)]) v in
     bind (if \<not> ha then ret v
       else bind (lift (wrapO ''get seaweedfs s3 endpoint'' (get_s3_endpoint N cidr))) (\<lambda>endpoint.
            bind (lift (put_below ''s3'' ''regionEndpoint'' (YStr endpoint) v)) (\<lambda>v.
            bind (wrap ''get registry http secret'' (get_in secrets registry_http_key)) (\<lambda>http.
            ret (put ''secrets'' (YMap [
                (''haSharedSecret'', YStr (case map_of http ''secret'' of None \<Rightarrow> [] | Some s \<Rightarrow> s)),
                (''s3'', YMap [(''secretRef'', YStr ''seaweedfs-s3-rw'')])]) v))))) (\<lambda>v.
     lift (patch_all V overrides v))))))"

definition seaweedfs_values :: "value_lib \<Rightarrow> string \<Rightarrow> domains \<Rightarrow> string list \<Rightarrow> helm_values outcome" where
  "seaweedfs_values V dir d overrides =
     bindO (base_values V d (wrapO ''get helm values'' (rendered V ''seaweedfs''))) (\<lambda>v.
     bindO (wrapO ''set helm values global.data.hostPathPrefix''
       (set_value V ''master.data.hostPathPrefix'' (YStr (path_join dir ''ssd'')) v)) (\<lambda>v.
     bindO (wrapO ''set helm values global.logs.hostPathPrefix''
       (set_value V ''master.logs.hostPathPrefix'' (YStr (path_join dir ''storage'')) v)) (\<lambda>v.
     patch_all V overrides v)))"

definition plugin_container :: "velero_plugin \<Rightarrow> yaml" where
  "plugin_container p = YMap [(''name'', YStr (vp_name p)), (''image'', YStr (vp_image p)),
     (''imagePullPolicy'', YStr (if vp_pull_policy p = [] then ''IfNotPresent'' else vp_pull_policy p)),
     (''volumeMounts'', YList [YMap [(''mountPath'', YStr ''/target''), (''name'', YStr ''plugins'')]])]"

definition inject_plugin_init_containers :: "config_spec option \<Rightarrow> helm_values \<Rightarrow> helm_values" where
  "inject_plugin_init_containers cfg v =
     (let plugins = (case cfg of None \<Rightarrow> [] | Some c \<Rightarrow> velero_plugins c) in
      if plugins = [] then v
      else put ''initContainers'' (YList ((case map_of v ''initContainers'' of Some (YList cs) \<Rightarrow> cs | _ \<Rightarrow> []) @
             map plugin_container plugins)) v)"

definition velero_values :: "value_lib \<Rightarrow> velero_addon \<Rightarrow> domains \<Rightarrow> string list \<Rightarrow> helm_values outcome" where
  "velero_values V e d overrides =
     bindO (base_values V d (wrapO ''get helm values''
       (bindO (rendered V ''velero'') (\<lambda>hv. Ok (inject_plugin_init_containers (vel_config e) hv))))) (\<lambda>v.
     let volumes = ca_volumes (vel_host_ca_path e); mounts = ca_volume_mounts (vel_host_ca_path e);
         env = YList (proxy_env (vel_proxy e) @
           (if vel_host_ca_path e = [] then [] else [env_var ''SSL_CERT_DIR'' ''/certs'']));
         v = put ''configuration'' (YMap [(''extraEnvVars'', env)]) v;
         v = put ''extraVolumes'' volumes v;
         v = put ''extraVolumeMounts'' mounts v;
         v = put ''nodeAgent'' (YMap [(''extraVolumes'', volumes), (''extraVolumeMounts'', mounts)]) v
     in bindO (wrapO ''set helm value nodeAgent.podVolumePath''
          (set_value V ''nodeAgent.podVolumePath'' (YStr (path_join (vel_k0s_dir e) ''kubelet/pods'')) v)) (\<lambda>v.
        bindO (wrapO ''set helm value nodeAgent.pluginVolumePath''
          (set_value V ''nodeAgent.pluginVolumePath'' (YStr (path_join (vel_k0s_dir e) ''kubelet/plugins'')) v)) (\<lambda>v.
        patch_all V overrides v)))"

definition admin_console_rendered :: "value_lib \<Rightarrow> helm_values outcome" where
  "admin_console_rendered V = bindO (rendered V ''adminconsole'') (\<lambda>hv.
     let hv = put ''embeddedClusterVersion'' (YStr (vl_version V)) hv in
     bindO (when_nonempty (vl_image_override V) (put_below ''images'' ''kotsadm'' (YStr (vl_image_override V))) hv) (\<lambda>hv.
     bindO (when_nonempty (vl_migrations_image_override V)
       (put_below ''images'' ''migrations'' (YStr (vl_migrations_image_override V))) hv) (\<lambda>hv.
     when_nonempty (vl_kurl_proxy_image_override V)
       (put_below ''images'' ''kurlProxy'' (YStr (vl_kurl_proxy_image_override V))) hv)))"

definition admin_console_env :: "admin_console_addon \<Rightarrow> yaml" where
  "admin_console_env a = YList (
     (if ac_cluster_id a = [] then [] else
        [env_var ''ENABLE_IMPROVED_DR'' ''true'', env_var ''SSL_CERT_CONFIGMAP'' ''kotsadm-private-cas'']) @
     proxy_env (ac_proxy a) @
     (if ac_host_ca_path a = [] then [] else [env_var ''SSL_CERT_DIR'' ''/certs'']))"

definition admin_console_values :: "value_lib \<Rightarrow> admin_console_addon \<Rightarrow> domains \<Rightarrow> string list \<Rightarrow> helm_values outcome" where
  "admin_console_values V a d overrides =
     bindO (base_values V d (wrapO ''get helm values'' (admin_console_rendered V))) (\<lambda>v.
     let v = (if ac_cluster_id a = [] then v else
           put ''embeddedClusterK0sDir'' (YStr (ac_k0s_dir a))
             (put ''embeddedClusterDataDir'' (YStr (ac_data_dir a))
               (put ''embeddedClusterID'' (YStr (ac_cluster_id a)) v)));
         v = put ''isAirgap'' (YBool (ac_is_airgap a))
               (put ''isMultiNodeEnabled'' (YBool (ac_is_multi_node a)) (put ''isHA'' (YBool (ac_is_ha a)) v));
         v = (if replicated_app_domain d = [] then v else
           put ''replicatedAppEndpoint'' (YStr (maybe_add_https (replicated_app_domain d))) v);
         v = (if replicated_registry_domain d = [] then v else
           put ''replicatedRegistryDomain'' (YStr (replicated_registry_domain d)) v);
         v = (if proxy_registry_domain d = [] then v else
           put ''proxyRegistryDomain'' (YStr (proxy_registry_domain d)) v);
         v = put ''extraEnv'' (admin_console_env a) v;
         v = put ''extraVolumes'' (ca_volumes (ac_host_ca_path a)) v;
         v = put ''extraVolumeMounts'' (ca_volume_mounts (ac_host_ca_path a)) v
     in bindO (wrapO ''set kurlProxy.nodePort'' (set_value V ''kurlProxy.nodePort'' (YInt (ac_port a)) v)) (\<lambda>v.
        patch_all V overrides v))"

text \<open>\<open>types.AddOn.GenerateHelmValues\<close>\<close>

definition generate_helm_values :: "value_lib \<Rightarrow> netlib \<Rightarrow> add_on \<Rightarrow> domains \<Rightarrow> string list \<Rightarrow> (kube, helm_values) call" where
  "generate_helm_values V N a d overrides = (case a of
       OpenEBS dir \<Rightarrow> lift (openebs_values V dir d overrides)
     | Operator e \<Rightarrow> lift (operator_values V e d overrides)
     | Registry cidr ha \<Rightarrow> registry_values V N cidr ha d overrides
     | SeaweedFS cidr dir \<Rightarrow> lift (seaweedfs_values V dir d overrides)
     | Velero e \<Rightarrow> lift (velero_values V e d overrides)
     | AdminConsole e \<Rightarrow> lift (admin_console_values V e d overrides))"

section \<open>The reserved addresses exist\<close>

lemma nat_bytes_octets:
  assumes "2 ^ 24 \<le> x" "x < 2 ^ 32"
  shows "nat_bytes x = octets x"
proof -
  have d: "x div 256 div 256 = x div 65536" "x div 65536 div 256 = x div 16777216" "x div 16777216 div 256 = 0"
    using assms by (simp_all flip: div_mult2_eq)
  have nz: "x \<noteq> 0" "x div 256 \<noteq> 0" "x div 65536 \<noteq> 0" "x div 16777216 \<noteq> 0"
    using assms by (simp_all add: div_eq_0_iff)
  have "nat_bytes (x div 16777216) = [x div 16777216 mod 256]"
    using nz d by (subst nat_bytes.simps) (simp add: nat_bytes.simps)
  then have "nat_bytes (x div 65536) = [x div 16777216 mod 256, x div 65536 mod 256]"
    using nz d by (subst nat_bytes.simps) simp
  then have "nat_bytes (x div 256) = [x div 16777216 mod 256, x div 65536 mod 256, x div 256 mod 256]"
    using nz d by (subst nat_bytes.simps) simp
  then show ?thesis using nz by (subst nat_bytes.simps) (simp add: octets_def)
qed

lemma lower_band_ip:
  assumes "wf_net4 (net4 a ones)" "ones \<le> 24" "2 ^ 24 \<le> a" "i < 15"
  shows "\<exists>bs. get_lower_band_ip N (show_net N (net4 a ones)) (int i) = Ok bs \<and>
    ip_bytes_text bs = show_ip4 (a + i + 1) \<and> a + i + 1 \<in> members (net4 a ones)"
proof -
  define size :: nat where "size = 2 ^ (32 - ones)"
  have size: "256 \<le> size" using assms(2) power_increasing [of 8 "32 - ones" "2::nat"] by (simp add: size_def)
  have mem: "a + i + 1 \<in> members (net4 a ones)"
    unfolding members_net4 [OF assms(1)] using assms(4) size by (simp add: size_def)
  obtain q where q: "a = q * size" and a: "a < 2 ^ 32"
    using assms(1) by (auto simp: wf_net4_def net4_def clear_low_fix_iff size_def)
  have "(2::nat) ^ 32 = 2 ^ ones * size" unfolding size_def using assms(2) by (simp flip: power_add)
  with a q have "q < 2 ^ ones" by (metis mult_less_cancel2)
  then have "(q + 1) * size \<le> 2 ^ ones * size" by (intro mult_le_mono1) simp
  with \<open>2 ^ 32 = 2 ^ ones * size\<close> q have "a + size \<le> 2 ^ 32" by (simp add: algebra_simps)
  then have less: "a + i + 1 < 2 ^ 32" using size assms(4) by simp
  have "get_lower_band_ip N (show_net N (net4 a ones)) (int i) = Ok (nat_bytes (a + i + 1))"
    unfolding get_lower_band_ip_def parse_wf_net [OF assms(1)]
    using assms(4) size by (simp add: net4_def Let_def size_def [symmetric] nat_add_distrib)
  moreover have "nat_bytes (a + i + 1) = octets (a + i + 1)"
    using assms(3) less by (intro nat_bytes_octets) simp_all
  ultimately show ?thesis using mem
    by (simp add: ip_bytes_text_def show_ip4_def) (simp add: octets_def)
qed

text \<open>
  For every dotted network the \<open>--cidr\<close> flag accepts, the services half it is split into has
  room for the two addresses the code fixes in advance: the registry's and, next to it, the
  one of SeaweedFS's S3 service, both inside that half.
\<close>

theorem service_addresses_reserved:
  assumes "go_cidr N" "config_validate_cidr N c = Ok ()" "first_sep (takeWhile (\<lambda>x. x \<noteq> CHR ''/'') c) = Some CHR ''.''"
  shows "\<exists>pods services n r. config_split_cidr N c = Ok (pods, services) \<and>
    services = show_net N n \<and> wf_net4 n \<and> r \<in> members n \<and> r + 1 \<in> members n \<and>
    get_registry_cluster_ip N services = Ok (show_ip4 r) \<and>
    get_s3_url N services = Ok (''http://'' @ show_ip4 (r + 1) @ '':8333'')"
proof -
  obtain a b where c: "c = show_net N (net4 a b)" and wf: "wf_net4 (net4 a b)" and b: "b \<le> 16"
    and priv: "a \<in> private_addresses"
    using accepted_cidr [OF assms(2,3)] by blast
  let ?s = "a + 2 ^ (31 - b)"
  have split: "config_split_cidr N c = Ok (show_net N (net4 a (b + 1)), show_net N (net4 ?s (b + 1)))"
    using split_net4 [OF assms(1) wf] b by (simp add: config_split_cidr_def c)
  have ws: "wf_net4 (net4 ?s (b + 1))" using wf_half [OF wf, of 1] b by simp
  have big: "2 ^ 24 \<le> ?s" using priv by (auto simp: private_addresses_def)
  obtain b1 b2 where "get_lower_band_ip N (show_net N (net4 ?s (b + 1))) (int 10) = Ok b1"
    "ip_bytes_text b1 = show_ip4 (?s + 10 + 1)" "?s + 10 + 1 \<in> members (net4 ?s (b + 1))"
    "get_lower_band_ip N (show_net N (net4 ?s (b + 1))) (int 11) = Ok b2"
    "ip_bytes_text b2 = show_ip4 (?s + 11 + 1)" "?s + 11 + 1 \<in> members (net4 ?s (b + 1))"
    using lower_band_ip [OF ws _ big, of 10 N] lower_band_ip [OF ws _ big, of 11 N] b by auto
  then show ?thesis using split ws
    by - (rule exI [of _ "show_net N (net4 a (b + 1))"], rule exI [of _ "show_net N (net4 ?s (b + 1))"],
        rule exI [of _ "net4 ?s (b + 1)"], rule exI [of _ "?s + 11"],
        simp add: get_registry_cluster_ip_def get_s3_url_def get_s3_endpoint_def get_seaweedfs_service_ip_def ac_simps)
qed

theorem service_addresses_reserved_witness:
  "\<exists>pods services n r. config_split_cidr sample_netlib ''10.0.0.0/16'' = Ok (pods, services) \<and>
    services = show_net sample_netlib n \<and> r \<in> members n \<and>
    get_registry_cluster_ip sample_netlib services = Ok (show_ip4 r)"
proof -
  have t: "''10.0.0.0/16'' = show_net sample_netlib (net4 (10 * 2 ^ 24) 16)"
    by (simp add: show_net4 show_ip4_def octets_def show_nat.simps digit_char_def char_of_def bit_iff_odd)
  have w: "wf_net4 (net4 (10 * 2 ^ 24) 16)" by (simp add: wf_net4_def net4_def clear_low_def)
  have "config_validate_cidr sample_netlib ''10.0.0.0/16'' = Ok ()"
    unfolding config_validate_cidr_def net_validate_cidr_def t parse_wf_net [OF w]
    by (simp add: in_private_nets_iff net4_def private_addresses_def)
  from service_addresses_reserved [OF sample_go_cidr this] show ?thesis
    by (auto simp: first_sep_def)
qed

end
