(* ===== verification/BuiltIns.thy ===== *)
theory BuiltIns
  imports HelmValues Waits
begin

text \<open>
  The built-in add-ons (\<^verbatim>\<open>pkg/addons/openebs\<close>, \<open>embeddedclusteroperator\<close>, \<open>registry\<close>,
  \<open>seaweedfs\<close>, \<open>velero\<close>, \<open>adminconsole\<close>): what each creates before its chart, its installation
  and its upgrade. Dry runs, which only render manifests, are left out. Random text, password
  hashes, certificates, the S3 credentials' JSON, the CA file and the installer of the
  application are parameters (\<open>addon_lib\<close>).
\<close>

section \<open>What the add-ons are given\<close>

record addon_lib =
  al_values :: value_lib
  al_net :: netlib
  al_bcrypt :: "string \<Rightarrow> string outcome"
  al_registry_tls :: "string \<Rightarrow> (string \<times> string) outcome"
  al_random :: "string outcome"
  al_registry_password :: string
  al_s3_config :: "string outcome"
  al_s3_identities :: "string \<Rightarrow> (string \<times> (string \<times> string) list) list outcome"
  al_base64 :: "string \<Rightarrow> string"
  al_checksum :: "string \<Rightarrow> string outcome"
  al_read_file :: "string \<Rightarrow> string outcome"
  al_kots_installer :: "(kube, unit) call"

section \<open>Names\<close>

fun addon_name :: "add_on \<Rightarrow> string" where
  "addon_name (OpenEBS _) = ''Storage''"
| "addon_name (Operator _) = ''Runtime Operator''"
| "addon_name (Registry _ _) = ''Registry''"
| "addon_name (SeaweedFS _ _) = ''SeaweedFS''"
| "addon_name (Velero _) = ''Disaster Recovery''"
| "addon_name (AdminConsole _) = ''Admin Console''"

fun addon_release :: "add_on \<Rightarrow> string" where
  "addon_release (OpenEBS _) = ''openebs''"
| "addon_release (Operator _) = ''embedded-cluster-operator''"
| "addon_release (Registry _ _) = ''docker-registry''"
| "addon_release (SeaweedFS _ _) = ''seaweedfs''"
| "addon_release (Velero _) = ''velero''"
| "addon_release (AdminConsole _) = ''admin-console''"

fun addon_namespace :: "add_on \<Rightarrow> string" where
  "addon_namespace (OpenEBS _) = ''openebs''"
| "addon_namespace (Operator _) = ''embedded-cluster''"
| "addon_namespace (Registry _ _) = ''registry''"
| "addon_namespace (SeaweedFS _ _) = ''seaweedfs''"
| "addon_namespace (Velero _) = ''velero''"
| "addon_namespace (AdminConsole a) = ac_kotsadm_ns a"

text \<open>The directory of the add-on's package, which its chart metadata and templates are kept by.\<close>

fun addon_package :: "add_on \<Rightarrow> string" where
  "addon_package (OpenEBS _) = ''openebs''"
| "addon_package (Operator _) = ''embeddedclusteroperator''"
| "addon_package (Registry _ _) = ''registry''"
| "addon_package (SeaweedFS _ _) = ''seaweedfs''"
| "addon_package (Velero _) = ''velero''"
| "addon_package (AdminConsole _) = ''adminconsole''"

definition operator_chart_location :: "value_lib \<Rightarrow> operator_addon \<Rightarrow> domains \<Rightarrow> string" where
  "operator_chart_location V e d =
     (let location = (if eco_chart_location e \<noteq> [] then eco_chart_location e else vl_location V ''embeddedclusteroperator'')
      in if proxy_registry_domain d = [] then location
         else replace_first location ''proxy.replicated.com'' (proxy_registry_domain d))"

definition admin_console_chart_location :: "value_lib \<Rightarrow> domains \<Rightarrow> string" where
  "admin_console_chart_location V d =
     (let chart = (if vl_chart_repo_override V \<noteq> [] then ''oci://proxy.replicated.com/anonymous/'' @ vl_chart_repo_override V
                   else vl_location V ''adminconsole'')
      in if proxy_registry_domain d \<noteq> [] then replace_first chart ''proxy.replicated.com'' (proxy_registry_domain d)
         else chart)"

definition chart_location :: "value_lib \<Rightarrow> add_on \<Rightarrow> domains \<Rightarrow> string" where
  "chart_location V a d = (case a of
       Operator e \<Rightarrow> operator_chart_location V e d
     | AdminConsole _ \<Rightarrow> admin_console_chart_location V d
     | _ \<Rightarrow> if proxy_registry_domain d = [] then vl_location V (addon_package a)
            else replace_first (vl_location V (addon_package a)) ''proxy.replicated.com'' (proxy_registry_domain d))"

definition addon_version :: "value_lib \<Rightarrow> add_on \<Rightarrow> string" where
  "addon_version V a = (case a of
       Operator e \<Rightarrow> if eco_chart_version e \<noteq> [] then eco_chart_version e else vl_chart_version V (addon_package a)
     | _ \<Rightarrow> vl_chart_version V (addon_package a))"

fun backup_labels :: "add_on \<Rightarrow> (string \<times> string) list" where
  "backup_labels (Operator _) = [(''replicated.com/disaster-recovery'', ''infra''),
     (''replicated.com/disaster-recovery-chart'', ''embedded-cluster-operator'')]"
| "backup_labels (Registry _ _) = [(''app'', ''docker-registry'')]"
| "backup_labels (SeaweedFS _ _) = [(''app.kubernetes.io/name'', ''seaweedfs'')]"
| "backup_labels (AdminConsole _) = [(''replicated.com/disaster-recovery'', ''infra''),
     (''replicated.com/disaster-recovery-chart'', ''admin-console'')]"
| "backup_labels _ = []"

text \<open>Server-side apply is disabled for the operator and the registry.\<close>

fun disables_ssa :: "add_on \<Rightarrow> bool" where
  "disables_ssa (Operator _) = True"
| "disables_ssa (Registry _ _) = True"
| "disables_ssa _ = False"

definition addon_options :: "value_lib \<Rightarrow> add_on \<Rightarrow> domains \<Rightarrow> helm_values \<Rightarrow> helm_options" where
  "addon_options V a d v = \<lparr>ho_release = addon_release a, ho_chart = chart_location V a d,
     ho_version = addon_version V a, ho_values = v, ho_namespace = addon_namespace a, ho_timeout = 0,
     ho_force = False, ho_labels = backup_labels a, ho_disable_ssa = disables_ssa a\<rparr>"

section \<open>Prerequisites\<close>

definition create_secret :: "nsname \<Rightarrow> (string \<times> string) list \<Rightarrow> (kube, unit) call" where
  "create_secret = create_in secrets secrets_update"

definition registry_create_auth_secret :: "addon_lib \<Rightarrow> (kube, unit) call" where
  "registry_create_auth_secret A =
     bind (wrap ''hash registry password'' (lift (al_bcrypt A (al_registry_password A)))) (\<lambda>hash.
     create_secret (''registry'', ''registry-auth'') [(''htpasswd'', ''embedded-cluster:'' @ hash)])"

definition registry_create_tls_secret :: "addon_lib \<Rightarrow> string \<Rightarrow> (kube, unit) call" where
  "registry_create_tls_secret A ip =
     bind (wrap ''generate registry tls'' (lift (al_registry_tls A ip))) (\<lambda>(cert, key).
     wrap ''create registry tls secret'' (create_secret registry_tls_key [(''tls.crt'', cert), (''tls.key'', key)]))"

definition registry_ensure_http_secret :: "addon_lib \<Rightarrow> (kube, unit) call" where
  "registry_ensure_http_secret A = bind (wrap ''generate http secret'' (lift (al_random A))) (\<lambda>r.
     wrap ''create http secret'' (ignore_already_exists (create_secret registry_http_key [(''secret'', r)])))"

definition registry_create_prerequisites :: "addon_lib \<Rightarrow> bool \<Rightarrow> string \<Rightarrow> (kube, unit) call" where
  "registry_create_prerequisites A ha ip =
     bind (wrap ''create namespace'' (ignore_already_exists (create_namespace ''registry''))) (\<lambda>_.
     bind (wrap ''create registry-auth secret'' (registry_create_auth_secret A)) (\<lambda>_.
     bind (wrap ''create registry tls secret'' (registry_create_tls_secret A ip)) (\<lambda>_.
     if ha then wrap ''create http secret'' (registry_ensure_http_secret A) else ret ())))"

definition s3_secret_key :: nsname where "s3_secret_key = (''seaweedfs'', ''secret-seaweedfs-s3'')"

fun admin_credentials :: "(string \<times> (string \<times> string) list) list \<Rightarrow> (string \<times> string) option" where
  "admin_credentials [] = None"
| "admin_credentials ((n, cs) # rest) = (if n = ''anvAdmin'' \<and> cs \<noteq> [] then Some (hd cs) else admin_credentials rest)"

definition get_s3_rw_creds :: "addon_lib \<Rightarrow> (kube, string \<times> string) call" where
  "get_s3_rw_creds A = bind (wrap ''get s3 secret'' (get_in secrets s3_secret_key)) (\<lambda>s.
     case map_of s ''seaweedfs_s3_config'' of
       None \<Rightarrow> throw (EMsg ''seaweedfs_s3_config not found in secret'')
     | Some c \<Rightarrow> bind (wrap ''unmarshal seaweedfs_s3_config'' (lift (al_s3_identities A c))) (\<lambda>ids.
         case admin_credentials ids of
           None \<Rightarrow> throw (EMsg ''credentials not found'')
         | Some p \<Rightarrow> ret p))"

definition registry_ensure_s3_secret :: "addon_lib \<Rightarrow> (kube, unit) call" where
  "registry_ensure_s3_secret A = bind (wrap ''get seaweedfs s3 rw creds'' (get_s3_rw_creds A)) (\<lambda>(access, secret).
     wrap ''create s3 secret'' (ignore_already_exists (create_secret (''registry'', ''seaweedfs-s3-rw'')
       [(''s3AccessKey'', access), (''s3SecretKey'', secret)])))"

definition registry_upgrade_prerequisites :: "addon_lib \<Rightarrow> bool \<Rightarrow> (kube, unit) call" where
  "registry_upgrade_prerequisites A ha = (if ha
     then bind (wrap ''create s3 secret'' (registry_ensure_s3_secret A)) (\<lambda>_.
          wrap ''create http secret'' (registry_ensure_http_secret A))
     else ret ())"

definition s3_service_key :: nsname where "s3_service_key = (''seaweedfs'', ''ec-seaweedfs-s3'')"

definition seaweedfs_ensure_service :: "addon_lib \<Rightarrow> string \<Rightarrow> (kube, unit) call" where
  "seaweedfs_ensure_service A cidr =
     (if cidr = [] then throw (EMsg ''service CIDR not present'')
      else bind (wrap ''get s3 service IP'' (lift (get_seaweedfs_service_ip (al_net A) cidr))) (\<lambda>ip.
        let create = wrap ''create s3 service'' (create_in services services_update s3_service_key ip) in
        bind (attempt (get_in services s3_service_key)) (\<lambda>r. case r of
          Inl e \<Rightarrow> if is_not_found e then create else throw (EWrap ''get s3 service'' e)
        | Inr existing \<Rightarrow>
            if existing = ip then ret ()
            else bind (wrap ''delete existing s3 service'' (delete_in services services_update s3_service_key)) (\<lambda>_.
                 create))))"

definition seaweedfs_ensure_s3_secret :: "addon_lib \<Rightarrow> (kube, unit) call" where
  "seaweedfs_ensure_s3_secret A = bind (wrap ''marshal seaweedfs_s3_config'' (lift (al_s3_config A))) (\<lambda>c.
     wrap ''create s3 secret'' (ignore_already_exists (create_secret s3_secret_key [(''seaweedfs_s3_config'', c)])))"

definition seaweedfs_ensure_prerequisites :: "addon_lib \<Rightarrow> string \<Rightarrow> (kube, unit) call" where
  "seaweedfs_ensure_prerequisites A cidr =
     bind (wrap ''create namespace'' (ignore_already_exists (create_namespace ''seaweedfs''))) (\<lambda>_.
     bind (wrap ''create s3 service'' (seaweedfs_ensure_service A cidr)) (\<lambda>_.
     wrap ''create s3 secret'' (seaweedfs_ensure_s3_secret A)))"

definition seaweedfs_hooks_deleted :: "(kube, unit) call" where
  "seaweedfs_hooks_deleted = wrap ''delete seaweedfs-bucket-hook job''
     (ignore_not_found (delete_in job_objects job_objects_update (''seaweedfs'', ''seaweedfs-bucket-hook'')))"

definition velero_create_prerequisites :: "(kube, unit) call" where
  "velero_create_prerequisites =
     bind (wrap ''create namespace'' (ignore_already_exists (create_namespace ''velero''))) (\<lambda>_.
     wrap ''create credentials secret'' (ignore_already_exists (create_secret (''velero'', ''cloud-credentials'') [])))"
text \<open>The trusted certificates of the host, kept in a config map with a checksum.\<close>

definition private_cas_key :: "string \<Rightarrow> nsname" where
  "private_cas_key ns = (ns, ''kotsadm-private-cas'')"

definition patch_cas_config_map :: "string \<Rightarrow> string \<Rightarrow> string \<Rightarrow> (kube, unit) call" where
  "patch_cas_config_map ns checksum cas = api (\<lambda>w. case map_of (config_maps w) (private_cas_key ns) of
       None \<Rightarrow> (Err (ENotFound ''kotsadm-private-cas''), w)
     | Some c \<Rightarrow> (Ok (), w\<lparr>config_maps := AList.update (private_cas_key ns)
         \<lparr>cm_annotations = map_set ''replicated.com/cas-checksum'' checksum (cm_annotations c),
          cm_data = map_set ''ca_0.crt'' cas (cm_data c)\<rparr> (config_maps w)\<rparr>))"

definition ensure_ca_configmap :: "addon_lib \<Rightarrow> string \<Rightarrow> string \<Rightarrow> (kube, unit) call" where
  "ensure_ca_configmap A ns path =
     (if path = [] then ret ()
      else bind (wrap ''calculate checksum'' (lift (al_checksum A path))) (\<lambda>checksum.
        let refresh =
              bind (wrap ''create map'' (wrap ''create map'' (wrap (''read ca file '' @ path) (lift (al_read_file A path))))) (\<lambda>cas.
              bind (attempt (create_in config_maps config_maps_update (private_cas_key ns)
                \<lparr>cm_annotations = [(''replicated.com/cas-checksum'', checksum)], cm_data = [(''ca_0.crt'', cas)]\<rparr>)) (\<lambda>r.
              case r of Inr u \<Rightarrow> ret u
                | Inl e \<Rightarrow> if \<not> is_already_exists e then throw (EWrap ''create configmap'' e)
                    else wrap ''patch configmap'' (patch_cas_config_map ns checksum cas)))
        in bind (attempt (get_in config_maps (private_cas_key ns))) (\<lambda>r. case r of
             Inl e \<Rightarrow> if \<not> is_not_found e then throw (EWrap ''get configmap metadata'' e) else refresh
           | Inr c \<Rightarrow>
               if (case map_of (cm_annotations c) ''replicated.com/cas-checksum'' of None \<Rightarrow> [] | Some s \<Rightarrow> s) = checksum
               then ret () else refresh)))"

definition admin_console_ensure_ca :: "addon_lib \<Rightarrow> admin_console_addon \<Rightarrow> (kube, unit) call" where
  "admin_console_ensure_ca A a = (if ac_host_ca_path a = [] then ret ()
     else bind (attempt (ensure_ca_configmap A (ac_kotsadm_ns a) (ac_host_ca_path a))) (\<lambda>r. case r of
            Inr u \<Rightarrow> ret u | Inl e \<Rightarrow> if is_too_large e \<or> is_not_exist e then ret () else throw e))"

definition admin_console_create_password_secret :: "addon_lib \<Rightarrow> admin_console_addon \<Rightarrow> (kube, unit) call" where
  "admin_console_create_password_secret A a =
     bind (wrap ''generate bcrypt from password'' (lift (al_bcrypt A (ac_password a)))) (\<lambda>hash.
     wrap ''create kotsadm-password secret''
       (create_secret (ac_kotsadm_ns a, ''kotsadm-password'') [(''passwordBcrypt'', hash)]))"

definition new_tls_secret :: "string \<Rightarrow> string \<Rightarrow> string \<Rightarrow> (string \<times> string) list" where
  "new_tls_secret cert key hostname = [(''tls.crt'', cert), (''tls.key'', key)] @
     (if hostname \<noteq> [] then [(''hostname'', hostname)] else [])"

definition admin_console_create_tls_secret :: "admin_console_addon \<Rightarrow> (kube, unit) call" where
  "admin_console_create_tls_secret a = (if ac_tls_cert a = [] \<or> ac_tls_key a = [] then ret ()
     else wrap ''create kotsadm-tls secret'' (create_secret (ac_kotsadm_ns a, ''kotsadm-tls'')
            (new_tls_secret (ac_tls_cert a) (ac_tls_key a) (ac_hostname a))))"

definition registry_auth_config :: "addon_lib \<Rightarrow> string \<Rightarrow> string" where
  "registry_auth_config A ip = (let pw = al_registry_password A in
     ''{'' @ quote_str ''auths'' @ '':{'' @ quote_str (ip @ '':5000'') @ '':{'' @
     quote_str ''username'' @ '': '' @ quote_str ''embedded-cluster'' @ '', '' @
     quote_str ''password'' @ '': '' @ quote_str pw @ '', '' @
     quote_str ''auth'' @ '': '' @ quote_str (al_base64 A (''embedded-cluster:'' @ pw)) @ ''}}}'')"

definition admin_console_create_registry_secret :: "addon_lib \<Rightarrow> admin_console_addon \<Rightarrow> string \<Rightarrow> (kube, unit) call" where
  "admin_console_create_registry_secret A a ip = wrap ''create registry-auth secret''
     (create_secret (ac_kotsadm_ns a, ''registry-creds'') [(''.dockerconfigjson'', registry_auth_config A ip)])"

definition admin_console_create_prerequisites :: "addon_lib \<Rightarrow> admin_console_addon \<Rightarrow> (kube, unit) call" where
  "admin_console_create_prerequisites A a =
     bind (wrap ''create namespace'' (ignore_already_exists (create_namespace (ac_kotsadm_ns a)))) (\<lambda>_.
     bind (wrap ''create kots password secret'' (admin_console_create_password_secret A a)) (\<lambda>_.
     bind (wrap ''create kots TLS secret'' (admin_console_create_tls_secret a)) (\<lambda>_.
     bind (wrap ''ensure CA configmap'' (admin_console_ensure_ca A a)) (\<lambda>_.
     if ac_cluster_id a \<noteq> [] \<and> ac_is_airgap a then
       bind (wrap ''get registry cluster IP'' (lift (get_registry_cluster_ip (al_net A) (ac_service_cidr a)))) (\<lambda>ip.
       wrap ''create registry secret'' (admin_console_create_registry_secret A a ip))
     else ret ()))))"

section \<open>Installation\<close>

text \<open>Generate the values, run helm: what every installation ends with.\<close>

definition install_chart :: "addon_lib \<Rightarrow> add_on \<Rightarrow> domains \<Rightarrow> string list \<Rightarrow> (kube, unit) call" where
  "install_chart A a d overrides =
     bind (wrap ''generate helm values'' (generate_helm_values (al_values A) (al_net A) a d overrides)) (\<lambda>v.
     wrap ''helm install'' (helm_install (addon_options (al_values A) a d v)))"

definition registry_install :: "addon_lib \<Rightarrow> string \<Rightarrow> bool \<Rightarrow> domains \<Rightarrow> string list \<Rightarrow> (kube, unit) call" where
  "registry_install A cidr ha d overrides =
     bind (wrap ''get registry cluster IP'' (lift (get_registry_cluster_ip (al_net A) cidr))) (\<lambda>ip.
     bind (wrap ''create prerequisites'' (registry_create_prerequisites A ha ip)) (\<lambda>_.
     install_chart A (Registry cidr ha) d overrides))"

definition seaweedfs_install :: "addon_lib \<Rightarrow> string \<Rightarrow> string \<Rightarrow> domains \<Rightarrow> string list \<Rightarrow> (kube, unit) call" where
  "seaweedfs_install A cidr dir d overrides =
     bind (wrap ''create prerequisites'' (seaweedfs_ensure_prerequisites A cidr)) (\<lambda>_.
     bind (wrap ''generate helm values''
       (generate_helm_values (al_values A) (al_net A) (SeaweedFS cidr dir) d overrides)) (\<lambda>v.
     bind (wrap ''ensure hooks deleted'' seaweedfs_hooks_deleted) (\<lambda>_.
     wrap ''helm install'' (helm_install (addon_options (al_values A) (SeaweedFS cidr dir) d v)))))"

definition velero_install :: "addon_lib \<Rightarrow> velero_addon \<Rightarrow> domains \<Rightarrow> string list \<Rightarrow> (kube, unit) call" where
  "velero_install A e d overrides = bind (wrap ''create prerequisites'' velero_create_prerequisites) (\<lambda>_.
     install_chart A (Velero e) d overrides)"

definition admin_console_install :: "addon_lib \<Rightarrow> admin_console_addon \<Rightarrow> domains \<Rightarrow> string list \<Rightarrow> (kube, unit) call" where
  "admin_console_install A a d overrides =
     bind (wrap ''create prerequisites'' (admin_console_create_prerequisites A a)) (\<lambda>_.
     bind (install_chart A (AdminConsole a) d overrides) (\<lambda>_.
     if ac_kots_installer a then al_kots_installer A else ret ()))"

definition openebs_install :: "addon_lib \<Rightarrow> string \<Rightarrow> domains \<Rightarrow> string list \<Rightarrow> (kube, unit) call" where
  "openebs_install A dir d overrides = install_chart A (OpenEBS dir) d overrides"

definition operator_install :: "addon_lib \<Rightarrow> operator_addon \<Rightarrow> domains \<Rightarrow> string list \<Rightarrow> (kube, unit) call" where
  "operator_install A e d overrides = install_chart A (Operator e) d overrides"

text \<open>\<open>types.AddOn.Install\<close>\<close>

definition addon_install :: "addon_lib \<Rightarrow> add_on \<Rightarrow> domains \<Rightarrow> string list \<Rightarrow> (kube, unit) call" where
  "addon_install A a d overrides = (case a of
       OpenEBS dir \<Rightarrow> openebs_install A dir d overrides
     | Operator e \<Rightarrow> operator_install A e d overrides
     | Registry cidr ha \<Rightarrow> registry_install A cidr ha d overrides
     | SeaweedFS cidr dir \<Rightarrow> seaweedfs_install A cidr dir d overrides
     | Velero e \<Rightarrow> velero_install A e d overrides
     | AdminConsole e \<Rightarrow> admin_console_install A e d overrides)"

section \<open>SeaweedFS before an upgrade\<close>

definition master_key :: nsname where "master_key = (''seaweedfs'', ''seaweedfs-master'')"

definition get_previous_ec_version :: "'v lib \<Rightarrow> (kube, 'v option) call" where
  "get_previous_ec_version L =
     bind (wrap ''get latest installation'' (get_latest_installation L)) (\<lambda>latest.
     bind (attempt (get_previous_installation L latest)) (\<lambda>r. case r of
       Inl e \<Rightarrow> if is_installation_not_found e then ret None else throw (EWrap ''get previous installation'' e)
     | Inr previous \<Rightarrow> (case spec_config (in_spec previous) of
         None \<Rightarrow> throw (EMsg ''previous installation has no version config'')
       | Some c \<Rightarrow>
           if ec_version c = [] then throw (EMsg ''previous installation has no version config'')
           else bind (wrap (''parse previous version '' @ ec_version c) (lift (lib_semver_new L (ec_version c)))) (\<lambda>v.
                ret (Some v)))))"

text \<open>\<open>semver.MustParse\<close> of a constant panics where it does not parse.\<close>

definition less_than_ec_version_273 :: "'v lib \<Rightarrow> 'v \<Rightarrow> bool outcome" where
  "less_than_ec_version_273 L v = (case lib_semver_new L ''2.7.3'' of
       Ok v273 \<Rightarrow> Ok (lib_semver_less L v v273) | _ \<Rightarrow> Panic ''MustParse'')"

definition replicas_of :: "workload \<Rightarrow> int" where
  "replicas_of x = (case wl_replicas x of None \<Rightarrow> 1 | Some n \<Rightarrow> n)"

definition needs_scaling_restart :: "'v lib \<Rightarrow> (kube, bool) call" where
  "needs_scaling_restart L = bind (wrap ''get previous installation'' (get_previous_ec_version L)) (\<lambda>prev. case prev of
       None \<Rightarrow> ret False
     | Some v \<Rightarrow> bind (lift (less_than_ec_version_273 L v)) (\<lambda>older.
         if \<not> older then ret False
         else bind (attempt (get_in stateful_sets master_key)) (\<lambda>r. case r of
           Inl e \<Rightarrow> if is_not_found e then ret False
             else throw (EWrap ''getting SeaweedFS master StatefulSet'' e)
         | Inr sts \<Rightarrow> ret (replicas_of sts = 1 \<or> replicas_of sts = 3 \<and> wl_ready sts < 3))))"

definition should_disable_raft_hashicorp :: "(kube, bool) call" where
  "should_disable_raft_hashicorp = bind (attempt (get_in stateful_sets master_key)) (\<lambda>r. case r of
       Inl e \<Rightarrow> if is_not_found e then ret False else throw (EWrap ''get seaweedfs master statefulset'' e)
     | Inr sts \<Rightarrow> ret (\<not> list_ex (\<lambda>(n, args). n = ''seaweedfs'' \<and>
         list_ex (\<lambda>arg. contains_str arg ''-raftHashicorp'') args) (wl_containers sts)))"

definition scale_stateful_set :: "int \<Rightarrow> (kube, unit) call" where
  "scale_stateful_set replicas =
     bind (wrap ''getting SeaweedFS master StatefulSet'' (get_in stateful_sets master_key)) (\<lambda>sts.
     if wl_replicas sts = None \<or> wl_replicas sts \<noteq> Some replicas
     then wrap ''updating StatefulSet replica count''
            (write_in stateful_sets stateful_sets_update master_key (sts\<lparr>wl_replicas := Some replicas\<rparr>))
     else ret ())"

definition running_master_pods :: "(kube, nat) call" where
  "running_master_pods = api (gets (\<lambda>w. length (filter (\<lambda>(k, p). fst k = ''seaweedfs'' \<and>
     map_of (po_labels p) ''app.kubernetes.io/name'' = Some ''seaweedfs'' \<and>
     map_of (po_labels p) ''app.kubernetes.io/component'' = Some ''master'' \<and>
     (po_phase p = ''Running'' \<or> po_phase p = ''Pending'')) (pod_objects w))))"

fun wait_for_no_pods :: "'v lib \<Rightarrow> nat \<Rightarrow> (kube, unit) call" where
  "wait_for_no_pods L 0 = ret ()"
| "wait_for_no_pods L (Suc k) = bind (wrap ''listing seaweedfs master pods'' running_master_pods) (\<lambda>running.
     if running = 0 then ret ()
     else if k = 0 then throw (EMsg (''expected 0 running pods after 5 retries, but found '' @ show_nat running @
       '' pods still running/pending''))
     else bind (modify (lib_tick L)) (\<lambda>_. wait_for_no_pods L k))"

definition wait_for_stateful_set_scale_down :: "'v lib \<Rightarrow> (kube, unit) call" where
  "wait_for_stateful_set_scale_down L =
     bind (attempt (wait_for_statefulset L 60 ''seaweedfs'' ''seaweedfs-master'')) (\<lambda>_. wait_for_no_pods L 5)"

definition perform_pre_upgrade_restart :: "'v lib \<Rightarrow> (kube, unit) call" where
  "perform_pre_upgrade_restart L =
     bind (wrap ''scaling StatefulSet down to 0'' (scale_stateful_set 0)) (\<lambda>_.
     wrap ''waiting for pods to terminate'' (wait_for_stateful_set_scale_down L))"

definition disable_raft :: "value_lib \<Rightarrow> helm_values \<Rightarrow> helm_values outcome" where
  "disable_raft V v =
     bindO (wrapO ''setting master.raftHashicorp'' (set_value V ''master.raftHashicorp'' (YBool False) v)) (\<lambda>v.
     wrapO ''setting master.raftBootstrap'' (set_value V ''master.raftBootstrap'' (YBool False) v))"

section \<open>Upgrade\<close>

definition delete_misc :: "string \<Rightarrow> nsname \<Rightarrow> (kube, unit) call" where
  "delete_misc kind k = api (\<lambda>w. if (kind, k) \<in> set (misc_objects w)
     then (Ok (), w\<lparr>misc_objects := removeAll (kind, k) (misc_objects w)\<rparr>)
     else (Err (ENotFound (nsname_text k)), w))"

definition openebs_hooks_deleted :: "(kube, unit) call" where
  "openebs_hooks_deleted =
     bind (wrap ''delete openebs-pre-upgrade-hook job''
       (ignore_not_found (delete_in job_objects job_objects_update (''openebs'', ''openebs-pre-upgrade-hook'')))) (\<lambda>_.
     bind (wrap ''delete openebs-pre-upgrade-hook cluster role binding''
       (ignore_not_found (delete_misc ''ClusterRoleBinding'' ([], ''openebs-pre-upgrade-hook'')))) (\<lambda>_.
     bind (wrap ''delete openebs-pre-upgrade-hook cluster role''
       (ignore_not_found (delete_misc ''ClusterRole'' ([], ''openebs-pre-upgrade-hook'')))) (\<lambda>_.
     wrap ''delete openebs-pre-upgrade-hook service account''
       (ignore_not_found (delete_misc ''ServiceAccount'' (''openebs'', ''openebs-pre-upgrade-hook''))))))"

text \<open>Most upgrades install a release that is missing; the others are given what to do instead.\<close>

definition upgrade_or_else :: "add_on \<Rightarrow> (kube, unit) call \<Rightarrow> (kube, unit) call \<Rightarrow> (kube, unit) call" where
  "upgrade_or_else a missing present =
     bind (wrap ''check if release exists'' (helm_release_exists (addon_namespace a) (addon_release a))) (\<lambda>exists.
     if \<not> exists then missing else present)"

definition upgrade_chart :: "addon_lib \<Rightarrow> add_on \<Rightarrow> domains \<Rightarrow> string list \<Rightarrow> (kube, unit) call" where
  "upgrade_chart A a d overrides =
     bind (wrap ''generate helm values'' (generate_helm_values (al_values A) (al_net A) a d overrides)) (\<lambda>v.
     wrap ''helm upgrade'' (helm_upgrade (addon_options (al_values A) a d v)))"

definition openebs_upgrade :: "addon_lib \<Rightarrow> string \<Rightarrow> domains \<Rightarrow> string list \<Rightarrow> (kube, unit) call" where
  "openebs_upgrade A dir d overrides = bind (wrap ''ensure pre-upgrade hooks deleted'' openebs_hooks_deleted) (\<lambda>_.
     upgrade_or_else (OpenEBS dir) (wrap ''install'' (openebs_install A dir d overrides))
       (upgrade_chart A (OpenEBS dir) d overrides))"

definition operator_upgrade :: "addon_lib \<Rightarrow> operator_addon \<Rightarrow> domains \<Rightarrow> string list \<Rightarrow> (kube, unit) call" where
  "operator_upgrade A e d overrides = upgrade_or_else (Operator e)
     (wrap ''install'' (operator_install A e d overrides)) (upgrade_chart A (Operator e) d overrides)"

definition velero_upgrade :: "addon_lib \<Rightarrow> velero_addon \<Rightarrow> domains \<Rightarrow> string list \<Rightarrow> (kube, unit) call" where
  "velero_upgrade A e d overrides = upgrade_or_else (Velero e)
     (wrap ''install'' (velero_install A e d overrides)) (upgrade_chart A (Velero e) d overrides)"

definition registry_upgrade :: "addon_lib \<Rightarrow> string \<Rightarrow> bool \<Rightarrow> domains \<Rightarrow> string list \<Rightarrow> (kube, unit) call" where
  "registry_upgrade A cidr ha d overrides =
     upgrade_or_else (Registry cidr ha) (wrap ''install'' (registry_install A cidr ha d overrides))
       (bind (wrap ''create prerequisites'' (registry_upgrade_prerequisites A ha)) (\<lambda>_.
        upgrade_chart A (Registry cidr ha) d overrides))"

definition seaweedfs_upgrade :: "'v lib \<Rightarrow> addon_lib \<Rightarrow> string \<Rightarrow> string \<Rightarrow> domains \<Rightarrow> string list \<Rightarrow> (kube, unit) call" where
  "seaweedfs_upgrade L A cidr dir d overrides =
     bind (wrap ''checking release existence'' (helm_release_exists ''seaweedfs'' ''seaweedfs'')) (\<lambda>exists.
     if \<not> exists then seaweedfs_install A cidr dir d overrides
     else
       bind (wrap ''creating prerequisites'' (seaweedfs_ensure_prerequisites A cidr)) (\<lambda>_.
       bind (wrap ''generating helm values''
         (generate_helm_values (al_values A) (al_net A) (SeaweedFS cidr dir) d overrides)) (\<lambda>v.
       bind (wrap ''checking scaling restart need'' (needs_scaling_restart L)) (\<lambda>restart.
       bind (if restart then wrap ''pre-upgrade statefulset restart'' (perform_pre_upgrade_restart L) else ret ()) (\<lambda>_.
       bind (wrap ''checking if raft hashicorp should be disabled'' should_disable_raft_hashicorp) (\<lambda>disable.
       bind (if disable then lift (disable_raft (al_values A) v) else ret v) (\<lambda>v.
       wrap ''helm upgrade'' (helm_upgrade (addon_options (al_values A) (SeaweedFS cidr dir) d v)))))))))"

definition admin_console_hooks_deleted :: "admin_console_addon \<Rightarrow> (kube, unit) call" where
  "admin_console_hooks_deleted a = wrap ''delete kotsadm-keep-resources job''
     (ignore_not_found (delete_in job_objects job_objects_update (ac_kotsadm_ns a, ''kotsadm-keep-resources'')))"

definition admin_console_upgrade :: "addon_lib \<Rightarrow> admin_console_addon \<Rightarrow> domains \<Rightarrow> string list \<Rightarrow> (kube, unit) call" where
  "admin_console_upgrade A a d overrides =
     upgrade_or_else (AdminConsole a) (throw (EMsg ''admin console release not found''))
       (bind (wrap ''generate helm values''
          (generate_helm_values (al_values A) (al_net A) (AdminConsole a) d overrides)) (\<lambda>v.
        bind (wrap ''ensure hooks deleted'' (admin_console_hooks_deleted a)) (\<lambda>_.
        wrap ''helm upgrade'' (helm_upgrade (addon_options (al_values A) (AdminConsole a) d v)))))"

text \<open>\<open>types.AddOn.Upgrade\<close>\<close>

definition addon_upgrade :: "'v lib \<Rightarrow> addon_lib \<Rightarrow> add_on \<Rightarrow> domains \<Rightarrow> string list \<Rightarrow> (kube, unit) call" where
  "addon_upgrade L A a d overrides = (case a of
       OpenEBS dir \<Rightarrow> openebs_upgrade A dir d overrides
     | Operator e \<Rightarrow> operator_upgrade A e d overrides
     | Registry cidr ha \<Rightarrow> registry_upgrade A cidr ha d overrides
     | SeaweedFS cidr dir \<Rightarrow> seaweedfs_upgrade L A cidr dir d overrides
     | Velero e \<Rightarrow> velero_upgrade A e d overrides
     | AdminConsole e \<Rightarrow> admin_console_upgrade A e d overrides)"

end
