(* ===== verification/AddOns.thy ===== *)
theory AddOns
  imports BuiltIns Tracked
begin

text \<open>
  The set of add-ons of an installation, a restore and an upgrade, and the loops that install and
  upgrade them (\<^verbatim>\<open>pkg/addons/install.go\<close>, \<open>upgrade.go\<close>, \<open>util.go\<close>). The state of the type \<open>AddOns\<close>
  is its clients, which are part of the cluster, and what \<open>addons\<close> holds.
\<close>

section \<open>Options\<close>

record addons =
  ads_lib :: addon_lib
  ads_domains :: domains
  ads_progress :: bool

record install_options =
  ins_admin_console_pwd :: string
  ins_admin_console_port :: int
  ins_is_airgap :: bool
  ins_tls_cert :: string
  ins_tls_key :: string
  ins_hostname :: string
  ins_is_multi_node :: bool
  ins_embedded_config :: "config_spec option"
  ins_end_user_config :: "config_spec option"
  ins_kots_installer :: bool
  ins_proxy :: "proxy_spec option"
  ins_cluster_id :: string
  ins_disaster_recovery :: bool
  ins_host_ca_path :: string
  ins_kotsadm_ns :: string
  ins_data_dir :: string
  ins_k0s_dir :: string
  ins_openebs_dir :: string
  ins_service_cidr :: string

record kubernetes_install_options =
  kin_admin_console_pwd :: string
  kin_admin_console_port :: int
  kin_is_airgap :: bool
  kin_tls_cert :: string
  kin_tls_key :: string
  kin_hostname :: string
  kin_is_multi_node :: bool
  kin_embedded_config :: "config_spec option"
  kin_end_user_config :: "config_spec option"
  kin_kots_installer :: bool
  kin_kotsadm_ns :: string
  kin_proxy :: "proxy_spec option"

record restore_options =
  rst_embedded_config :: "config_spec option"
  rst_end_user_config :: "config_spec option"
  rst_proxy :: "proxy_spec option"
  rst_host_ca_path :: string
  rst_data_dir :: string
  rst_openebs_dir :: string
  rst_k0s_dir :: string

record upgrade_options =
  upg_cluster_id :: string
  upg_admin_console_port :: int
  upg_is_airgap :: bool
  upg_is_ha :: bool
  upg_disaster_recovery :: bool
  upg_is_multi_node :: bool
  upg_embedded_config :: "config_spec option"
  upg_end_user_config :: "config_spec option"
  upg_proxy :: "proxy_spec option"
  upg_host_ca_path :: string
  upg_kotsadm_ns :: string
  upg_data_dir :: string
  upg_k0s_dir :: string
  upg_openebs_dir :: string
  upg_seaweedfs_dir :: string
  upg_service_cidr :: string

section \<open>Shared parts\<close>

definition addon_overrides :: "add_on \<Rightarrow> config_spec option \<Rightarrow> config_spec option \<Rightarrow> string list" where
  "addon_overrides a emb eu =
     (case emb of None \<Rightarrow> [] | Some c \<Rightarrow> [override_for_built_in (built_in_extensions c) (addon_release a)]) @
     (case eu of None \<Rightarrow> [] | Some c \<Rightarrow> [override_for_built_in (built_in_extensions c) (addon_release a)])"

definition send_progress :: "addons \<Rightarrow> string \<Rightarrow> string \<Rightarrow> (kube, unit) call" where
  "send_progress s n state = (if ads_progress s then emit (Progress n state) else ret ())"

fun operator_chart :: "chart list \<Rightarrow> (string \<times> string) outcome" where
  "operator_chart [] = Err (EMsg ''no embedded-cluster-operator chart found in release metadata'')"
| "operator_chart (c # cs) = (if chart_release c = ''embedded-cluster-operator''
     then Ok (chart_name c, chart_version c) else operator_chart cs)"

definition last_containing :: "string \<Rightarrow> string list \<Rightarrow> string" where
  "last_containing sub images = foldl (\<lambda>found image. if contains_str image sub then image else found) [] images"

definition operator_images :: "domains \<Rightarrow> string list \<Rightarrow> (string \<times> string \<times> string) outcome" where
  "operator_images d images =
     (let operator_image = last_containing ''/embedded-cluster-operator-image:'' images;
          utils_image = last_containing ''/embedded-cluster-utils:'' images
      in if operator_image = [] then Err (EMsg ''no embedded-cluster-operator-image found in images'')
         else if utils_image = [] then Err (EMsg ''no embedded-cluster-utils found in images'')
         else
           let proxied = (\<lambda>image. if proxy_registry_domain d \<noteq> []
                 then replace_first image ''proxy.replicated.com'' (proxy_registry_domain d) else image);
               parts = split_on CHR '':'' (proxied operator_image)
           in Ok (hd parts, join_str '':'' (tl parts), proxied utils_image))"

section \<open>Installation\<close>

text \<open>The names alone, of add-ons without options.\<close>

definition no_operator :: operator_addon where
  "no_operator = \<lparr>eco_cluster_id = [], eco_is_airgap = False, eco_proxy = None, eco_host_ca_path = [],
     eco_kotsadm_ns = [], eco_chart_location = [], eco_chart_version = [], eco_image_repo = [],
     eco_image_tag = [], eco_utils_image = []\<rparr>"

definition no_velero :: velero_addon where
  "no_velero = \<lparr>vel_proxy = None, vel_host_ca_path = [], vel_k0s_dir = [], vel_config = None\<rparr>"

definition no_admin_console :: admin_console_addon where
  "no_admin_console = \<lparr>ac_is_airgap = False, ac_is_ha = False, ac_is_multi_node = False, ac_proxy = None,
     ac_port = 0, ac_cluster_id = [], ac_service_cidr = [], ac_host_ca_path = [], ac_data_dir = [],
     ac_k0s_dir = [], ac_password = [], ac_tls_cert = [], ac_tls_key = [], ac_hostname = [],
     ac_kots_installer = False, ac_kotsadm_ns = []\<rparr>"

definition get_addons_names_for_install :: "bool \<Rightarrow> bool \<Rightarrow> string list" where
  "get_addons_names_for_install is_airgap disaster_recovery = map addon_name
     ([OpenEBS [], Operator no_operator] @
      (if is_airgap then [Registry [] False] else []) @
      (if disaster_recovery then [Velero no_velero] else []) @
      [AdminConsole no_admin_console])"

definition get_addons_for_install :: "install_options \<Rightarrow> add_on list" where
  "get_addons_for_install opts =
     [OpenEBS (ins_openebs_dir opts),
      Operator (no_operator\<lparr>eco_cluster_id := ins_cluster_id opts, eco_is_airgap := ins_is_airgap opts,
        eco_proxy := ins_proxy opts, eco_host_ca_path := ins_host_ca_path opts, eco_kotsadm_ns := ins_kotsadm_ns opts\<rparr>)] @
     (if ins_is_airgap opts then [Registry (ins_service_cidr opts) False] else []) @
     (if ins_disaster_recovery opts
      then [Velero \<lparr>vel_proxy = ins_proxy opts, vel_host_ca_path = ins_host_ca_path opts,
              vel_k0s_dir = ins_k0s_dir opts, vel_config = ins_embedded_config opts\<rparr>] else []) @
     [AdminConsole \<lparr>ac_is_airgap = ins_is_airgap opts, ac_is_ha = False, ac_is_multi_node = ins_is_multi_node opts,
        ac_proxy = ins_proxy opts, ac_port = ins_admin_console_port opts, ac_cluster_id = ins_cluster_id opts,
        ac_service_cidr = ins_service_cidr opts, ac_host_ca_path = ins_host_ca_path opts,
        ac_data_dir = ins_data_dir opts, ac_k0s_dir = ins_k0s_dir opts, ac_password = ins_admin_console_pwd opts,
        ac_tls_cert = ins_tls_cert opts, ac_tls_key = ins_tls_key opts, ac_hostname = ins_hostname opts,
        ac_kots_installer = ins_kots_installer opts, ac_kotsadm_ns = ins_kotsadm_ns opts\<rparr>]"

definition get_addons_for_restore :: "restore_options \<Rightarrow> add_on list" where
  "get_addons_for_restore opts =
     [OpenEBS (rst_openebs_dir opts),
      Velero \<lparr>vel_proxy = rst_proxy opts, vel_host_ca_path = rst_host_ca_path opts,
        vel_k0s_dir = rst_k0s_dir opts, vel_config = rst_embedded_config opts\<rparr>]"

definition get_addons_names_for_kubernetes_install :: "string list" where
  "get_addons_names_for_kubernetes_install = map addon_name [AdminConsole no_admin_console]"

definition get_addons_for_kubernetes_install :: "kubernetes_install_options \<Rightarrow> add_on list" where
  "get_addons_for_kubernetes_install opts =
     [AdminConsole (no_admin_console\<lparr>ac_is_airgap := kin_is_airgap opts, ac_is_multi_node := kin_is_multi_node opts,
        ac_proxy := kin_proxy opts, ac_port := kin_admin_console_port opts, ac_password := kin_admin_console_pwd opts,
        ac_tls_cert := kin_tls_cert opts, ac_tls_key := kin_tls_key opts, ac_hostname := kin_hostname opts,
        ac_kots_installer := kin_kots_installer opts, ac_kotsadm_ns := kin_kotsadm_ns opts\<rparr>)]"

text \<open>The loop the three installations share, over what they install.\<close>

definition install_addon :: "addons \<Rightarrow> config_spec option \<Rightarrow> config_spec option \<Rightarrow> add_on \<Rightarrow> (kube, unit) call" where
  "install_addon s emb eu a =
     bind (send_progress s (addon_name a) ''Running'') (\<lambda>_.
     bind (attempt (addon_install (ads_lib s) a (ads_domains s) (addon_overrides a emb eu))) (\<lambda>r. case r of
       Inl e \<Rightarrow> bind (send_progress s (addon_name a) ''Failed'') (\<lambda>_.
                 throw (EWrap (''install '' @ addon_name a) e))
     | Inr _ \<Rightarrow> send_progress s (addon_name a) ''Succeeded''))"

definition addons_install :: "addons \<Rightarrow> install_options \<Rightarrow> (kube, unit) call" where
  "addons_install s opts = for_each (install_addon s (ins_embedded_config opts) (ins_end_user_config opts))
     (get_addons_for_install opts)"

definition addons_install_kubernetes :: "addons \<Rightarrow> kubernetes_install_options \<Rightarrow> (kube, unit) call" where
  "addons_install_kubernetes s opts = for_each (install_addon s (kin_embedded_config opts) (kin_end_user_config opts))
     (get_addons_for_kubernetes_install opts)"

definition addons_restore :: "addons \<Rightarrow> restore_options \<Rightarrow> (kube, unit) call" where
  "addons_restore s opts = for_each (install_addon s (rst_embedded_config opts) (rst_end_user_config opts))
     (get_addons_for_restore opts)"

section \<open>Upgrade\<close>

definition get_addons_names_for_upgrade :: "bool \<Rightarrow> bool \<Rightarrow> bool \<Rightarrow> string list" where
  "get_addons_names_for_upgrade is_airgap disaster_recovery is_ha = map addon_name
     ([OpenEBS [], Operator no_operator] @
      (if is_airgap then [Registry [] False] @ (if is_ha then [SeaweedFS [] []] else []) else []) @
      (if disaster_recovery then [Velero no_velero] else []) @
      [AdminConsole no_admin_console])"

definition get_addons_for_upgrade :: "domains \<Rightarrow> release_metadata \<Rightarrow> upgrade_options \<Rightarrow> add_on list outcome" where
  "get_addons_for_upgrade d meta opts =
     bindO (wrapO ''get operator chart location'' (operator_chart (helm_charts (rm_configs meta)))) (\<lambda>(location, version).
     bindO (wrapO ''get operator images'' (operator_images d (case rm_images meta of None \<Rightarrow> [] | Some l \<Rightarrow> l))) (\<lambda>(repo, tag, utils).
     Ok ([OpenEBS (upg_openebs_dir opts),
       Operator \<lparr>eco_cluster_id = upg_cluster_id opts, eco_is_airgap = upg_is_airgap opts,
         eco_proxy = upg_proxy opts, eco_host_ca_path = upg_host_ca_path opts, eco_kotsadm_ns = upg_kotsadm_ns opts,
         eco_chart_location = location, eco_chart_version = version, eco_image_repo = repo,
         eco_image_tag = tag, eco_utils_image = utils\<rparr>] @
      (if upg_is_airgap opts
       then [Registry (upg_service_cidr opts) (upg_is_ha opts)] @
         (if upg_is_ha opts then [SeaweedFS (upg_service_cidr opts) (upg_seaweedfs_dir opts)] else [])
       else []) @
      (if upg_disaster_recovery opts
       then [Velero \<lparr>vel_proxy = upg_proxy opts, vel_host_ca_path = upg_host_ca_path opts,
               vel_k0s_dir = upg_k0s_dir opts, vel_config = upg_embedded_config opts\<rparr>] else []) @
      [AdminConsole (no_admin_console\<lparr>ac_is_airgap := upg_is_airgap opts, ac_is_ha := upg_is_ha opts,
         ac_is_multi_node := upg_is_multi_node opts, ac_proxy := upg_proxy opts,
         ac_port := upg_admin_console_port opts, ac_cluster_id := upg_cluster_id opts,
         ac_service_cidr := upg_service_cidr opts, ac_host_ca_path := upg_host_ca_path opts,
         ac_data_dir := upg_data_dir opts, ac_k0s_dir := upg_k0s_dir opts, ac_kotsadm_ns := upg_kotsadm_ns opts\<rparr>)])))"

definition addon_condition :: "add_on \<Rightarrow> string" where
  "addon_condition a = addon_namespace a @ ''-'' @ addon_release a"

definition addon_set_condition :: "'v lib \<Rightarrow> installation \<Rightarrow> add_on \<Rightarrow> string \<Rightarrow> string \<Rightarrow> string \<Rightarrow>
    (kube, installation) call" where
  "addon_set_condition L i a status reason message = set_installation_condition_status L i
     \<lparr>cond_type = addon_condition a, cond_status = status, cond_reason = reason, cond_message = message\<rparr>"

definition upgrade_addon :: "'v lib \<Rightarrow> addons \<Rightarrow> installation \<Rightarrow> add_on \<Rightarrow> (kube, installation) call" where
  "upgrade_addon L s i a =
     (if check_installation_condition_status (in_status i) (addon_condition a) = ''True'' then ret i
      else bind (wrap ''failed to set condition status'' (addon_set_condition L i a ''False'' ''Upgrading'' [])) (\<lambda>i.
        let overrides = addon_overrides a (spec_config (in_spec i)) None in
        bind (attempt (addon_upgrade L (ads_lib s) a (ads_domains s) overrides)) (\<lambda>r. case r of
          Inl e \<Rightarrow> bind (attempt (addon_set_condition L i a ''False'' ''UpgradeFailed'' (clean_error_message e))) (\<lambda>_.
                     throw (EWrap ''upgrade addon'' e))
        | Inr _ \<Rightarrow> wrap ''set condition upgrade succeeded'' (addon_set_condition L i a ''True'' ''Upgraded'' []))))"

definition upgrade_addon_step :: "'v lib \<Rightarrow> addons \<Rightarrow> add_on \<Rightarrow> installation \<Rightarrow> (kube, installation) call" where
  "upgrade_addon_step L s a i =
     bind (send_progress s (addon_name a) ''Running'') (\<lambda>_.
     bind (attempt (upgrade_addon L s i a)) (\<lambda>r. case r of
       Inl e \<Rightarrow> bind (send_progress s (addon_name a) ''Failed'') (\<lambda>_. throw (EWrap (''addon '' @ addon_name a) e))
     | Inr i \<Rightarrow> bind (send_progress s (addon_name a) ''Succeeded'') (\<lambda>_. ret i)))"

definition addons_upgrade :: "'v lib \<Rightarrow> addons \<Rightarrow> installation \<Rightarrow> release_metadata \<Rightarrow> upgrade_options \<Rightarrow>
    (kube, installation) call" where
  "addons_upgrade L s i meta opts =
     bind (wrap ''get addons for upgrade'' (lift (get_addons_for_upgrade (ads_domains s) meta opts))) (\<lambda>as.
     fold_each (upgrade_addon_step L s) as i)"

section \<open>What an add-on's upgrade does to the cluster\<close>

text \<open>
  All calls before helm's leave the stored statuses, the releases and the log alone, if waiting
  does: what else runs in the cluster may do anything but that (\<open>calm_tick\<close>).
\<close>

definition prepares :: "kube \<Rightarrow> kube \<Rightarrow> bool" where
  "prepares w w' \<longleftrightarrow> (\<forall>n. status_of w' n = status_of w n) \<and>
     map in_name (installs w') = map in_name (installs w) \<and> releases w' = releases w \<and> log w' = log w"

definition calm_tick :: "'v lib \<Rightarrow> bool" where
  "calm_tick L \<longleftrightarrow> (\<forall>w. prepares w (lib_tick L w))"

interpretation pr: kube_frame prepares
  by unfold_locales (auto simp: prepares_def status_of_def)

lemma keeps_prepares_installs:
  assumes "keeps installs_only m" "\<And>n. keeps (status_kept n) m"
  shows "keeps prepares m"
  using assms installs_only_fields(12-14) unfolding keeps_def prepares_def status_kept_def by blast

lemma keeps_prepares_latest:
  "keeps prepares (get_latest_installation L)" "keeps prepares (get_previous_installation L i)"
  unfolding get_latest_installation_def get_previous_installation_def
  by (intro pr.object_rules keeps_prepares_installs keeps_list_installations keeps_status_list)+

lemma prepares_update [simp]:
  "prepares w (secrets_update f w)" "prepares w (services_update g w)" "prepares w (job_objects_update h w)"
  "prepares w (stateful_sets_update k w)" "prepares w (config_maps_update l w)" "prepares w (w\<lparr>namespaces := n\<rparr>)"
  "prepares w (w\<lparr>misc_objects := m\<rparr>)" "prepares w (w\<lparr>config_maps := c\<rparr>)"
  by (simp_all add: prepares_def status_of_def)

lemma keeps_prepares_create_secret: "keeps prepares (create_secret k d)"
  unfolding create_secret_def by (rule pr.keeps_change_in) simp

lemma keeps_prepares_values: "keeps prepares (generate_helm_values V N a d overrides)"
  unfolding generate_helm_values_def registry_values_def
  by (cases a; simp only: add_on.case; intro pr.object_rules)

lemma keeps_prepares_s3: "keeps prepares (get_s3_rw_creds A)"
  unfolding get_s3_rw_creds_def by (intro pr.object_rules)

lemma keeps_prepares_registry:
  "keeps prepares (registry_create_prerequisites A ha ip)" "keeps prepares (registry_upgrade_prerequisites A ha)"
  unfolding registry_create_prerequisites_def registry_upgrade_prerequisites_def registry_create_auth_secret_def
    registry_create_tls_secret_def registry_ensure_http_secret_def registry_ensure_s3_secret_def
  by (intro pr.object_rules keeps_prepares_create_secret keeps_prepares_s3 pr.keeps_create_namespace prepares_update)+

lemma keeps_prepares_seaweedfs:
  "keeps prepares (seaweedfs_ensure_prerequisites A cidr)" "keeps prepares seaweedfs_hooks_deleted"
  "keeps prepares (needs_scaling_restart L)" "keeps prepares should_disable_raft_hashicorp"
  unfolding seaweedfs_ensure_prerequisites_def seaweedfs_ensure_service_def seaweedfs_ensure_s3_secret_def Let_def
    seaweedfs_hooks_deleted_def needs_scaling_restart_def get_previous_ec_version_def should_disable_raft_hashicorp_def
  by (intro pr.object_rules keeps_prepares_create_secret keeps_prepares_latest pr.keeps_create_namespace
      pr.keeps_change_in prepares_update)+

lemma keeps_prepares_no_pods:
  assumes "calm_tick L"
  shows "keeps prepares (wait_for_no_pods L k)"
proof (induction k)
  case (Suc k)
  have "prepares w (lib_tick L w)" for w using assms by (simp add: calm_tick_def)
  then show ?case unfolding wait_for_no_pods.simps running_master_pods_def
    by (intro pr.object_rules pr.keeps_modify Suc)
qed (simp add: pr.keeps_ret)

lemma keeps_prepares_restart:
  assumes "calm_tick L"
  shows "keeps prepares (perform_pre_upgrade_restart L)"
  unfolding perform_pre_upgrade_restart_def scale_stateful_set_def wait_for_stateful_set_scale_down_def
    wait_for_statefulset_def wait_for_ready_def ready_try_def is_stateful_set_ready_def timed_out_def
  by (intro pr.object_rules pr.keeps_change_in pr.keeps_poll keeps_prepares_no_pods assms prepares_update)
     (simp add: assms [unfolded calm_tick_def])

lemma keeps_prepares_others:
  "keeps prepares openebs_hooks_deleted" "keeps prepares velero_create_prerequisites"
  "keeps prepares (admin_console_hooks_deleted e)" "keeps prepares (helm_release_exists ns n)"
  unfolding openebs_hooks_deleted_def delete_misc_def velero_create_prerequisites_def admin_console_hooks_deleted_def
    helm_release_exists_def
  by (intro pr.object_rules pr.keeps_change_in pr.keeps_create_namespace keeps_prepares_create_secret prepares_update;
      auto simp: keeps_def pr.frame_refl)+

lemmas keeps_prepares = keeps_prepares_values keeps_prepares_registry keeps_prepares_seaweedfs
  keeps_prepares_restart keeps_prepares_others

text \<open>A call that ends in one helm operation on the release \<open>p\<close>.\<close>

definition helm_step :: "nsname \<Rightarrow> (kube, unit) call \<Rightarrow> bool" where
  "helm_step p m \<longleftrightarrow> keeps (only_release p) m \<and> emits (touches is_install_event [p]) m \<and>
     (\<forall>w u w'. m w = (Ok u, w') \<longrightarrow> p \<in> set (releases w'))"

lemma prepares_only: "keeps prepares m \<Longrightarrow> keeps (only_release p) m"
  by (auto simp: keeps_def prepares_def only_release_def)

lemma prepares_quiet: "keeps prepares m \<Longrightarrow> quiet m"
  by (auto simp: keeps_def prepares_def emits_def)

lemma helm_step_prepare:
  assumes "keeps prepares m" "\<And>x. helm_step p (f x)"
  shows "helm_step p (bind m f)"
proof -
  have "keeps (only_release p) (bind m f)"
    using assms(2) by (intro rel.keeps_bind [OF prepares_only [OF assms(1)]]) (simp add: helm_step_def)
  moreover have "emits (touches is_install_event [p]) (bind m f)"
    using assms(2) by (intro emits_quiet_bind [OF prepares_quiet [OF assms(1)]]) (simp_all add: helm_step_def)
  moreover have "p \<in> set (releases w')" if "bind m f w = (Ok u, w')" for w u w'
    using that assms(2) unfolding helm_step_def bind_Ok_iff by blast
  ultimately show ?thesis by (simp add: helm_step_def)
qed

lemma helm_step_helm:
  "helm_step (ho_namespace ho, ho_release ho) (helm_install ho)"
  "helm_step (ho_namespace ho, ho_release ho) (helm_upgrade ho)"
  unfolding helm_step_def
  using keeps_only_release_helm(2,3) emits_mono [OF emits_helm(3)] emits_mono [OF emits_helm(4)] helm_Ok(2,3)
  by (auto simp: touches_def event_kind_defs)

lemma helm_step_wrap: "helm_step p m \<Longrightarrow> helm_step p (wrap c m)"
  unfolding helm_step_def by (auto intro: rel.keeps_wrap emits_wrap simp: wrap_Ok_iff)

lemma helm_step_throw: "helm_step p (throw e)"
  by (auto simp: helm_step_def rel.keeps_throw emits_pure)

lemma helm_step_if: "helm_step p m \<Longrightarrow> helm_step p n \<Longrightarrow> helm_step p (if b then m else n)"
  by simp

definition addon_target :: "add_on \<Rightarrow> nsname" where
  "addon_target a = (addon_namespace a, addon_release a)"

lemma helm_step_options:
  "helm_step (addon_target a) (helm_install (addon_options V a d v))"
  "helm_step (addon_target a) (helm_upgrade (addon_options V a d v))"
  using helm_step_helm [of "addon_options V a d v"] by (simp_all add: addon_options_def addon_target_def)

lemmas helm_step_rules = helm_step_wrap helm_step_throw helm_step_if helm_step_prepare helm_step_options
  pr.frame_rules keeps_prepares

lemma helm_step_charts:
  "helm_step (addon_target a) (install_chart A a d ov)" "helm_step (addon_target a) (upgrade_chart A a d ov)"
  unfolding install_chart_def upgrade_chart_def by (intro helm_step_rules)+

lemma helm_step_or_else:
  "helm_step p m \<Longrightarrow> helm_step p n \<Longrightarrow> helm_step p (upgrade_or_else a m n)"
  unfolding upgrade_or_else_def by (intro helm_step_rules)

lemma helm_step_addon_upgrade:
  assumes "calm_tick L"
  shows "helm_step (addon_target a) (addon_upgrade L A a d ov)"
  unfolding addon_upgrade_def openebs_upgrade_def operator_upgrade_def velero_upgrade_def registry_upgrade_def
    seaweedfs_upgrade_def admin_console_upgrade_def openebs_install_def operator_install_def registry_install_def
    seaweedfs_install_def velero_install_def
  by (cases a; simp only: add_on.case; intro helm_step_rules helm_step_or_else helm_step_charts assms)

section \<open>The upgrade of one add-on as a tracked step\<close>

definition addon_ok :: "add_on \<Rightarrow> kube \<Rightarrow> bool" where
  "addon_ok a w \<longleftrightarrow> addon_target a \<in> set (releases w)"

interpretation adn: tracked addon_condition addon_target addon_ok
  by unfold_locales (simp add: addon_ok_def)

abbreviation upgraded :: "installation \<Rightarrow> add_on \<Rightarrow> bool" where
  "upgraded \<equiv> marked_done addon_condition"

abbreviation addons_in_step :: "add_on list \<Rightarrow> kube \<Rightarrow> installation \<Rightarrow> bool" where
  "addons_in_step \<equiv> in_step addon_condition addon_ok"

lemma upgrade_addon_as_tracked:
  "upgrade_addon L s i a = tracked_step (upgraded i a) i
     (\<lambda>i. wrap ''failed to set condition status'' (addon_set_condition L i a ''False'' ''Upgrading'' []))
     (\<lambda>i. addon_upgrade L (ads_lib s) a (ads_domains s) (addon_overrides a (spec_config (in_spec i)) None))
     (\<lambda>i e. addon_set_condition L i a ''False'' ''UpgradeFailed'' (clean_error_message e)) (EWrap ''upgrade addon'')
     (\<lambda>i. wrap ''set condition upgrade succeeded'' (addon_set_condition L i a ''True'' ''Upgraded'' []))"
  by (simp add: upgrade_addon_def tracked_step_def marked_done_def Let_def)

lemma is_mark_addon: "is_mark L (addon_condition a) s (\<lambda>i. addon_set_condition L i a s r m)"
  unfolding addon_set_condition_def by (rule is_mark_set)

lemma keeps_work_progress: "keeps same_work (send_progress s n state)"
  by (auto simp: send_progress_def keeps_def emit_def modify_def ret_def same_work_def)

lemma advances_upgrade_addon_step:
  assumes L: "sets_condition (lib_set_condition L)" and tick: "calm_tick L" and a: "a \<in> set as"
    and names: "distinct (map addon_condition as)" "distinct (map addon_target as)"
  shows "advances addon_condition addon_ok as {a} (upgrade_addon_step L s a)"
  unfolding upgrade_addon_step_def [abs_def] upgrade_addon_as_tracked
proof (rule adn.advances_reported [OF adn.advances_tracked_step [OF L names a]])
  show "keeps (only_release (addon_target a)) (addon_upgrade L (ads_lib s) a d ov)" for d ov
    using helm_step_addon_upgrade [OF tick] by (simp add: helm_step_def)
  show "addon_ok a v'" if "addon_upgrade L (ads_lib s) a (ads_domains s) (addon_overrides a (spec_config (in_spec j)) None) v = (Ok u, v')"
    for j v u v'
    using helm_step_addon_upgrade [OF tick, of a "ads_lib s"] that by (auto simp: helm_step_def addon_ok_def)
qed (simp_all add: is_mark_wrap is_mark_addon keeps_work_progress)

lemma get_addons_for_upgrade_shape:
  assumes "get_addons_for_upgrade d meta opts = Ok as"
  shows "\<exists>e v c. as = [OpenEBS (upg_openebs_dir opts), Operator e] @
     (if upg_is_airgap opts then Registry (upg_service_cidr opts) (upg_is_ha opts) #
        (if upg_is_ha opts then [SeaweedFS (upg_service_cidr opts) (upg_seaweedfs_dir opts)] else []) else []) @
     (if upg_disaster_recovery opts then [Velero v] else []) @ [AdminConsole c]"
  using assms unfolding get_addons_for_upgrade_def bindO_Ok_iff by auto

lemma ends_apart: "x @ ''-admin-console'' \<noteq> y @ [c]" if "c \<noteq> CHR ''e''"
proof
  assume "x @ ''-admin-console'' = y @ [c]"
  then have "last (x @ ''-admin-console'') = last (y @ [c])" by (rule arg_cong)
  with that show False by simp
qed

lemma upgrade_addons_distinct:
  assumes "get_addons_for_upgrade d meta opts = Ok as"
  shows "distinct (map addon_condition as)" "distinct (map addon_target as)"
proof -
  have c: "x @ ''-admin-console'' \<noteq> ''openebs-openebs''" "x @ ''-admin-console'' \<noteq> ''embedded-cluster-embedded-cluster-operator''"
    "x @ ''-admin-console'' \<noteq> ''registry-docker-registry''" "x @ ''-admin-console'' \<noteq> ''seaweedfs-seaweedfs''"
    "x @ ''-admin-console'' \<noteq> ''velero-velero''" for x
    using ends_apart [of "CHR ''s''" x "''openebs-openeb''"] ends_apart [of "CHR ''r''" x "''embedded-cluster-embedded-cluster-operato''"]
      ends_apart [of "CHR ''y''" x "''registry-docker-registr''"] ends_apart [of "CHR ''s''" x "''seaweedfs-seaweedf''"]
      ends_apart [of "CHR ''o''" x "''velero-veler''"] by simp_all
  obtain e v k where as: "as = [OpenEBS (upg_openebs_dir opts), Operator e] @
     (if upg_is_airgap opts then Registry (upg_service_cidr opts) (upg_is_ha opts) #
        (if upg_is_ha opts then [SeaweedFS (upg_service_cidr opts) (upg_seaweedfs_dir opts)] else []) else []) @
     (if upg_disaster_recovery opts then [Velero v] else []) @ [AdminConsole k]"
    using get_addons_for_upgrade_shape [OF assms] by blast
  show "distinct (map addon_condition as)" unfolding as
    by (auto simp: addon_condition_def dest!: c [THEN notE] c [symmetric, THEN notE])
  show "distinct (map addon_target as)" unfolding as by (auto simp: addon_target_def)
qed

lemma advances_addons_upgrade:
  assumes L: "sets_condition (lib_set_condition L)" and tick: "calm_tick L"
    and as: "get_addons_for_upgrade (ads_domains s) meta opts = Ok as"
  shows "advances addon_condition addon_ok as (set as) (fold_each (upgrade_addon_step L s) as)"
proof -
  have "advances addon_condition addon_ok as (\<Union>a \<in> set as. {a}) (fold_each (upgrade_addon_step L s) as)"
    by (rule advances_fold_each)
       (simp_all add: advances_upgrade_addon_step [OF L tick _ upgrade_addons_distinct [OF as]])
  then show ?thesis by simp
qed

lemma addons_upgrade_as_fold:
  "get_addons_for_upgrade (ads_domains s) meta opts = Ok as \<Longrightarrow>
    addons_upgrade L s i meta opts = fold_each (upgrade_addon_step L s) as i"
  by (rule ext) (simp add: addons_upgrade_def bind_def wrap_def lift_def)

lemma emits_progress: "emits (reported []) (send_progress s n state)"
  unfolding send_progress_def
  using reported_progress by (auto simp: emits_def emit_def modify_def ret_def)

lemma quiet_addon_set_condition: "quiet (addon_set_condition L i a s r m)"
  unfolding addon_set_condition_def by (intro quiet_installs_only keeps_set_installation_condition_status)

lemma emits_upgrade_addon_step:
  assumes "calm_tick L"
  shows "emits (reported [addon_target a]) (upgrade_addon_step L s a i)"
proof -
  let ?R = "reported [addon_target a]"
  have u: "emits ?R (upgrade_addon L s i a)" unfolding upgrade_addon_as_tracked
    by (rule emits_tracked_step; (intro emits_wrap quiet_addon_set_condition)?)
       (simp_all add: emits_mono [OF _ reported_touches] helm_step_addon_upgrade [OF assms, unfolded helm_step_def])
  have "emits (then_events ?R (reported [])) (bind (attempt (upgrade_addon L s i a)) (\<lambda>r. case r of
      Inl e \<Rightarrow> bind (send_progress s (addon_name a) ''Failed'') (\<lambda>_. throw (EWrap (''addon '' @ addon_name a) e))
    | Inr i \<Rightarrow> bind (send_progress s (addon_name a) ''Succeeded'') (\<lambda>_. ret i)))"
    by (rule emits_bind [OF emits_attempt [OF u]])
       (auto split: sum.split intro!: emits_bind_quiet emits_progress emits_pure)
  then have k: "emits ?R (bind (attempt (upgrade_addon L s i a)) (\<lambda>r. case r of
      Inl e \<Rightarrow> bind (send_progress s (addon_name a) ''Failed'') (\<lambda>_. throw (EWrap (''addon '' @ addon_name a) e))
    | Inr i \<Rightarrow> bind (send_progress s (addon_name a) ''Succeeded'') (\<lambda>_. ret i)))"
    by (rule emits_mono) (use reported_append [of "[addon_target a]" "[]"] in simp)
  have "emits (then_events (reported []) ?R) (upgrade_addon_step L s a i)"
    unfolding upgrade_addon_step_def by (rule emits_bind [OF emits_progress k]) simp
  then show ?thesis by (rule emits_mono) (use reported_append [of "[]" "[addon_target a]"] in simp)
qed

section \<open>A sample\<close>

definition sample_value_lib :: value_lib where
  "sample_value_lib = \<lparr>vl_marshal = (\<lambda>_. Ok []), vl_unmarshal = (\<lambda>_. Ok []), vl_set_json = (\<lambda>_ _ v. Ok v),
     vl_yaml_to_json = Ok, vl_json_to_yaml = Ok, vl_merge_patch = (\<lambda>v _. Ok v), vl_template = (\<lambda>_. Ok []),
     vl_location = id, vl_chart_version = id, vl_version = [], vl_k0s_version = [], vl_chart_repo_override = [],
     vl_image_override = [], vl_migrations_image_override = [], vl_kurl_proxy_image_override = []\<rparr>"

definition sample_addon_lib :: addon_lib where
  "sample_addon_lib = \<lparr>al_values = sample_value_lib, al_net = sample_netlib, al_bcrypt = Ok,
     al_registry_tls = (\<lambda>_. Ok ([], [])), al_random = Ok [], al_registry_password = [], al_s3_config = Ok [],
     al_s3_identities = (\<lambda>_. Ok []), al_base64 = id, al_checksum = Ok, al_read_file = Ok, al_kots_installer = ret ()\<rparr>"

definition sample_addons :: addons where
  "sample_addons = \<lparr>ads_lib = sample_addon_lib, ads_domains = \<lparr>replicated_app_domain = [],
     proxy_registry_domain = [], replicated_registry_domain = []\<rparr>, ads_progress = False\<rparr>"

definition sample_metadata :: release_metadata where
  "sample_metadata = \<lparr>rm_versions = [(''Kubernetes'', ''v1.31.2+k0s.0'')], rm_k0s_sha = ''sha'', rm_k0s_binary_url = [],
     rm_artifacts = [], rm_images = Some [''r/embedded-cluster-operator-image:1'', ''r/embedded-cluster-utils:1''],
     rm_configs = \<lparr>helm_repositories = [], helm_charts =
       [\<lparr>chart_release = ''embedded-cluster-operator'', chart_name = ''oci'', chart_version = ''1'', chart_values = [],
         target_ns = [], chart_timeout = 0, force_upgrade = None, chart_order = 0\<rparr>]\<rparr>\<rparr>"

definition sample_upgrade_options :: upgrade_options where
  "sample_upgrade_options = \<lparr>upg_cluster_id = [], upg_admin_console_port = 0, upg_is_airgap = False, upg_is_ha = False,
     upg_disaster_recovery = False, upg_is_multi_node = False, upg_embedded_config = None, upg_end_user_config = None,
     upg_proxy = None, upg_host_ca_path = [], upg_kotsadm_ns = ''kotsadm'', upg_data_dir = [], upg_k0s_dir = [],
     upg_openebs_dir = [], upg_seaweedfs_dir = [], upg_service_cidr = []\<rparr>"

text \<open>An upgrade that was stopped after the operator and the admin console.\<close>

definition sample_half_done :: "string \<Rightarrow> installation" where
  "sample_half_done openebs = (sample_install ''1'' [])\<lparr>in_status := (in_status (sample_install ''1'' []))\<lparr>conditions :=
     [\<lparr>cond_type = ''openebs-openebs'', cond_status = openebs, cond_reason = ''Upgraded'', cond_message = []\<rparr>,
      \<lparr>cond_type = ''embedded-cluster-embedded-cluster-operator'', cond_status = ''True'', cond_reason = [], cond_message = []\<rparr>,
      \<lparr>cond_type = ''kotsadm-admin-console'', cond_status = ''True'', cond_reason = [], cond_message = []\<rparr>]\<rparr>\<rparr>"

definition sample_releases :: kube where
  "sample_releases = (sample_kube [sample_half_done ''False''])\<lparr>releases := [(''openebs'', ''openebs''),
     (''embedded-cluster'', ''embedded-cluster-operator''), (''kotsadm'', ''admin-console'')]\<rparr>"

lemma sample_calm: "calm_tick sample_lib"
  by (simp add: calm_tick_def sample_lib_def pr.frame_refl)

lemma sample_upgrade_addons:
  "\<exists>e c. get_addons_for_upgrade (ads_domains sample_addons) sample_metadata sample_upgrade_options =
    Ok [OpenEBS [], Operator e, AdminConsole c] \<and> ac_kotsadm_ns c = ''kotsadm''"
  by (simp add: get_addons_for_upgrade_def sample_addons_def sample_metadata_def sample_upgrade_options_def
      operator_images_def last_containing_def Let_def no_admin_console_def)

lemma sample_openebs_run:
  "faults w = [] \<Longrightarrow> job_objects w = [] \<Longrightarrow> misc_objects w = [] \<Longrightarrow> (''openebs'', ''openebs'') \<in> set (releases w) \<Longrightarrow>
    addon_upgrade L sample_addon_lib (OpenEBS []) (ads_domains sample_addons) [] w =
     (Ok (), w\<lparr>log := log w @ [HelmUpgrade (addon_options sample_value_lib (OpenEBS []) (ads_domains sample_addons) [])]\<rparr>)"
  by (simp add: addon_upgrade_def openebs_upgrade_def openebs_hooks_deleted_def upgrade_or_else_def upgrade_chart_def
      ignore_not_found_def delete_in_def delete_misc_def helm_release_exists_def helm_upgrade_def bind_def wrap_def attempt_def
      gets_def ret_def lift_def generate_helm_values_def openebs_values_def base_values_def rendered_def set_value_def
      marshal_values_def unmarshal_values_def sample_addon_lib_def sample_value_lib_def sample_addons_def addon_options_def
      chart_location_def addon_version_def)

definition sample_done :: installation where
  "sample_done = (let i = sample_half_done ''False'' in i\<lparr>in_status := set_condition (lib_set_condition sample_lib)
     \<lparr>cond_type = ''openebs-openebs'', cond_status = ''True'', cond_reason = ''Upgraded'', cond_message = []\<rparr>
     (set_condition (lib_set_condition sample_lib)
       \<lparr>cond_type = ''openebs-openebs'', cond_status = ''False'', cond_reason = ''Upgrading'', cond_message = []\<rparr> (in_status i))\<rparr>)"

lemma sample_upgrade_run:
  "\<exists>w'. addons_upgrade sample_lib sample_addons (sample_half_done ''False'') sample_metadata sample_upgrade_options
    sample_releases = (Ok sample_done, w')"
proof -
  obtain e c where as: "get_addons_for_upgrade (ads_domains sample_addons) sample_metadata sample_upgrade_options =
      Ok [OpenEBS [], Operator e, AdminConsole c]" and k: "ac_kotsadm_ns c = ''kotsadm''"
    using sample_upgrade_addons by blast
  let ?i = "sample_half_done ''False''"
  have up: "addon_upgrade sample_lib (ads_lib sample_addons) (OpenEBS []) (ads_domains sample_addons)
      (addon_overrides (OpenEBS []) (spec_config (in_spec (?i\<lparr>in_status := x\<rparr>))) None) w = (Ok (),
      w\<lparr>log := log w @ [HelmUpgrade (addon_options sample_value_lib (OpenEBS []) (ads_domains sample_addons) [])]\<rparr>)"
    if "faults w = []" "job_objects w = []" "misc_objects w = []" "(''openebs'', ''openebs'') \<in> set (releases w)" for x w
    using sample_openebs_run [OF that, of sample_lib]
    by (simp add: addon_overrides_def sample_half_done_def sample_install_def sample_spec_def sample_addons_def)
  have n: "in_name ?i = ''1''" "check_installation_condition_status (in_status ?i) ''openebs-openebs'' = ''False''"
    by (simp_all add: sample_half_done_def sample_install_def check_installation_condition_status_def)
  have d: "check_installation_condition_status (in_status sample_done) ''embedded-cluster-embedded-cluster-operator'' = ''True''"
    "check_installation_condition_status (in_status sample_done) ''kotsadm-admin-console'' = ''True''"
    by (simp_all add: sample_done_def sample_half_done_def sample_install_def check_installation_condition_status_def
        set_condition_def sample_lib_def)
  have w: "faults sample_releases = []" "installs sample_releases = [?i]" "job_objects sample_releases = []"
    "misc_objects sample_releases = []" "(''openebs'', ''openebs'') \<in> set (releases sample_releases)"
    by (simp_all add: sample_releases_def sample_kube_def)
  have "\<exists>w'. upgrade_addon_step sample_lib sample_addons (OpenEBS []) ?i sample_releases = (Ok sample_done, w')"
    using up [of _ "set_condition (lib_set_condition sample_lib)
       \<lparr>cond_type = ''openebs-openebs'', cond_status = ''False'', cond_reason = ''Upgrading'', cond_message = []\<rparr> (in_status ?i)"]
    by (simp add: upgrade_addon_step_def upgrade_addon_def send_progress_def sample_addons_def [THEN arg_cong [where f = ads_progress], simplified]
        bind_def wrap_def attempt_def ret_def n w addon_condition_def addon_set_condition_def
        set_installation_condition_status_def update_installation_status_run Let_def sample_done_def)
  then obtain w1 where one: "upgrade_addon_step sample_lib sample_addons (OpenEBS []) ?i sample_releases = (Ok sample_done, w1)" by blast
  have skip: "upgrade_addon_step sample_lib sample_addons a sample_done w1 = (Ok sample_done, w1)"
    if "a \<in> {Operator e, AdminConsole c}" for a
    using that d k by (auto simp: upgrade_addon_step_def upgrade_addon_def send_progress_def addon_condition_def
        sample_addons_def [THEN arg_cong [where f = ads_progress], simplified] bind_def attempt_def ret_def)
  show ?thesis using one
    by (simp add: addons_upgrade_as_fold [OF as] w bind_def skip ret_def)
qed

lemma sample_addons_in_step:
  "as = [OpenEBS [], Operator e, AdminConsole c] \<Longrightarrow> ac_kotsadm_ns c = ''kotsadm'' \<Longrightarrow>
    addons_in_step as (sample_releases\<lparr>faults := fs\<rparr>) (sample_half_done ''False'')"
  by (simp add: in_step_def status_of_def sample_releases_def sample_kube_def sample_half_done_def sample_install_def
      marked_done_def addon_ok_def addon_target_def addon_condition_def check_installation_condition_status_def)

section \<open>Properties\<close>

text \<open>
  C8: After a successful upgrade of the add-ons every one of them has the condition \<open>True\<close> on the
  stored installation and a release in its namespace. The start is one where the conditions claim
  nothing that helm's releases do not show, as before the first attempt and after a failed one.
\<close>

theorem addons_upgrade_completes:
  assumes "sets_condition (lib_set_condition L)" "calm_tick L"
    and "get_addons_for_upgrade (ads_domains s) meta opts = Ok as" and "addons_in_step as w i"
    and "addons_upgrade L s i meta opts w = (Ok i', w')"
  shows "status_of w' (in_name i) = Some (in_status i') \<and>
    (\<forall>a \<in> set as. check_installation_condition_status (in_status i') (addon_condition a) = ''True'' \<and>
      (addon_namespace a, addon_release a) \<in> set (releases w'))"
proof -
  note f = advances_Ok [OF advances_addons_upgrade [OF assms(1-3)] assms(4)
      assms(5) [unfolded addons_upgrade_as_fold [OF assms(3)]]]
  have "upgraded i' a \<and> addon_ok a w'" if "a \<in> set as" for a
    using f(1,3) that unfolding in_step_def by blast
  then show ?thesis using f(1,2) by (simp add: in_step_def marked_done_def addon_ok_def addon_target_def)
qed

theorem addons_upgrade_completes_witness:
  "\<exists>w'. addons_upgrade sample_lib sample_addons (sample_half_done ''False'') sample_metadata sample_upgrade_options
      sample_releases = (Ok sample_done, w') \<and> (''openebs'', ''openebs'') \<in> set (releases w')"
proof -
  obtain e c where as: "get_addons_for_upgrade (ads_domains sample_addons) sample_metadata sample_upgrade_options =
      Ok [OpenEBS [], Operator e, AdminConsole c]" and k: "ac_kotsadm_ns c = ''kotsadm''"
    using sample_upgrade_addons by blast
  obtain w' where run: "addons_upgrade sample_lib sample_addons (sample_half_done ''False'') sample_metadata
      sample_upgrade_options sample_releases = (Ok sample_done, w')" using sample_upgrade_run by blast
  have "addons_in_step [OpenEBS [], Operator e, AdminConsole c] sample_releases (sample_half_done ''False'')"
    using sample_addons_in_step [OF refl k] adn.in_step_faults by blast
  from addons_upgrade_completes [OF sample_sets_condition sample_calm as this run] run show ?thesis by simp
qed

text \<open>
  C10: Whatever fails during the upgrade of the add-ons, the stored conditions never say \<open>True\<close> for an
  add-on whose release is missing, so that the next attempt may skip what is marked.
\<close>

theorem addons_upgrade_resumable:
  assumes "sets_condition (lib_set_condition L)" "calm_tick L"
    and "get_addons_for_upgrade (ads_domains s) meta opts = Ok as" and "addons_in_step as w i"
    and "addons_upgrade L s i meta opts w = (res, w')"
  shows "\<exists>st. status_of w' (in_name i) = Some st \<and>
    (\<forall>a \<in> set as. check_installation_condition_status st (addon_condition a) = ''True'' \<longrightarrow>
      (addon_namespace a, addon_release a) \<in> set (releases w'))"
  using advances_stored [OF advances_addons_upgrade [OF assms(1-3)] assms(4)
      assms(5) [unfolded addons_upgrade_as_fold [OF assms(3)]]]
  by (auto simp: in_step_def marked_done_def addon_ok_def addon_target_def)

text \<open>Helm refuses the upgrade of the storage: its condition does not become true.\<close>

theorem addons_upgrade_resumable_witness:
  "\<exists>st. status_of (snd (addons_upgrade sample_lib sample_addons (sample_half_done ''False'') sample_metadata
      sample_upgrade_options (sample_releases\<lparr>faults := replicate 7 NoFault @ [Failing ''helm'']\<rparr>))) ''1'' = Some st"
proof -
  let ?w = "sample_releases\<lparr>faults := replicate 7 NoFault @ [Failing ''helm'']\<rparr>"
  obtain e c where as: "get_addons_for_upgrade (ads_domains sample_addons) sample_metadata sample_upgrade_options =
      Ok [OpenEBS [], Operator e, AdminConsole c]" and k: "ac_kotsadm_ns c = ''kotsadm''"
    using sample_upgrade_addons by blast
  obtain res w' where run: "addons_upgrade sample_lib sample_addons (sample_half_done ''False'') sample_metadata
      sample_upgrade_options ?w = (res, w')" by (meson surj_pair)
  from addons_upgrade_resumable [OF sample_sets_condition sample_calm as sample_addons_in_step [OF refl k] run] run
  show ?thesis by (auto simp: sample_half_done_def sample_install_def)
qed

text \<open>
  C16: Whatever fails, an upgrade of the add-ons only installs and upgrades: storage, the operator,
  the registry and its object store (only in air gap), disaster recovery, the admin console, each
  at most once and in this order.
\<close>

theorem addons_upgrade_order:
  assumes "calm_tick L" and "get_addons_for_upgrade (ads_domains s) meta opts = Ok as"
  shows "\<exists>es. log (snd (addons_upgrade L s i meta opts w)) = log w @ es \<and>
    list_all (\<lambda>e. is_install_event e \<or> is_progress e) es \<and>
    subseq (map event_target (filter is_install_event es))
      ([(''openebs'', ''openebs''), (''embedded-cluster'', ''embedded-cluster-operator'')] @
       (if upg_is_airgap opts then (''registry'', ''docker-registry'') #
          (if upg_is_ha opts then [(''seaweedfs'', ''seaweedfs'')] else []) else []) @
       (if upg_disaster_recovery opts then [(''velero'', ''velero'')] else []) @
       [(upg_kotsadm_ns opts, ''admin-console'')])"
proof -
  have "emits (reported (concat (map (\<lambda>a. [addon_target a]) as))) (fold_each (upgrade_addon_step L s) as i)"
    by (rule emits_fold_each_in) (simp_all add: emits_upgrade_addon_step assms(1) reported_append)
  moreover have "map addon_target as =
      [(''openebs'', ''openebs''), (''embedded-cluster'', ''embedded-cluster-operator'')] @
       (if upg_is_airgap opts then (''registry'', ''docker-registry'') #
          (if upg_is_ha opts then [(''seaweedfs'', ''seaweedfs'')] else []) else []) @
       (if upg_disaster_recovery opts then [(''velero'', ''velero'')] else []) @
       [(upg_kotsadm_ns opts, ''admin-console'')]"
    using assms(2) unfolding get_addons_for_upgrade_def bindO_Ok_iff
    by (auto simp: addon_target_def)
  ultimately have "emits (reported ([(''openebs'', ''openebs''), (''embedded-cluster'', ''embedded-cluster-operator'')] @
       (if upg_is_airgap opts then (''registry'', ''docker-registry'') #
          (if upg_is_ha opts then [(''seaweedfs'', ''seaweedfs'')] else []) else []) @
       (if upg_disaster_recovery opts then [(''velero'', ''velero'')] else []) @
       [(upg_kotsadm_ns opts, ''admin-console'')])) (fold_each (upgrade_addon_step L s) as i)"
    by (simp add: concat_map_singleton)
  then show ?thesis
    unfolding addons_upgrade_as_fold [OF assms(2)] emits_def reported_def list_all_iff by (simp add: Bex_def conj_ac)
qed

theorem addons_upgrade_order_witness:
  "\<exists>es. log (snd (addons_upgrade sample_lib sample_addons (sample_half_done ''False'') sample_metadata
      sample_upgrade_options sample_releases)) = es \<and> subseq (map event_target (filter is_install_event es))
    [(''openebs'', ''openebs''), (''embedded-cluster'', ''embedded-cluster-operator''), (''kotsadm'', ''admin-console'')]"
proof -
  obtain as where as: "get_addons_for_upgrade (ads_domains sample_addons) sample_metadata sample_upgrade_options = Ok as"
    using sample_upgrade_addons by blast
  show ?thesis using addons_upgrade_order [OF sample_calm as, of "sample_half_done ''False''" sample_releases]
    by (simp add: sample_upgrade_options_def sample_releases_def sample_kube_def)
qed

text \<open>
  The functions that only give the add-ons' names agree with the ones that build them, for
  installations, installations into an existing cluster and upgrades.
\<close>

theorem addon_names_agree:
  assumes "get_addons_for_upgrade d meta opts = Ok as"
  shows "get_addons_names_for_upgrade (upg_is_airgap opts) (upg_disaster_recovery opts) (upg_is_ha opts) = map addon_name as \<and>
    get_addons_names_for_install (ins_is_airgap iopts) (ins_disaster_recovery iopts) =
      map addon_name (get_addons_for_install iopts) \<and>
    get_addons_names_for_kubernetes_install = map addon_name (get_addons_for_kubernetes_install kopts)"
proof -
  have "get_addons_names_for_upgrade (upg_is_airgap opts) (upg_disaster_recovery opts) (upg_is_ha opts) = map addon_name as"
    using get_addons_for_upgrade_shape [OF assms] by (auto simp: get_addons_names_for_upgrade_def)
  then show ?thesis
    by (simp add: get_addons_names_for_install_def get_addons_for_install_def
        get_addons_names_for_kubernetes_install_def get_addons_for_kubernetes_install_def)
qed

theorem addon_names_agree_witness:
  "\<exists>as. get_addons_for_upgrade (ads_domains sample_addons) sample_metadata sample_upgrade_options = Ok as \<and>
    map addon_name as = [''Storage'', ''Runtime Operator'', ''Admin Console'']"
proof -
  obtain as where as: "get_addons_for_upgrade (ads_domains sample_addons) sample_metadata sample_upgrade_options = Ok as"
    using sample_upgrade_addons by blast
  from addon_names_agree [OF as] as show ?thesis
    by (auto simp: get_addons_names_for_upgrade_def sample_upgrade_options_def)
qed

end
