(* ===== verification/HighAvailability.thy ===== *)
theory HighAvailability
  imports AddOns
begin

text \<open>
  High availability (\<^verbatim>\<open>pkg/addons/highavailability.go\<close>): whether it can be enabled, and enabling it,
  which moves the registry's data to the object store with the registry scaled down, by a pod that
  \<^verbatim>\<open>pkg/addons/registry/migrate/pod.go\<close> creates and watches. The progress that is printed while
  the pod runs is left out, the images of the release build are a parameter of the options.
\<close>

section \<open>The data migration\<close>

definition migration_pod_key :: nsname where "migration_pod_key = (''registry'', ''registry-data-migration'')"

definition create_misc :: "string \<Rightarrow> nsname \<Rightarrow> (kube, unit) call" where
  "create_misc kind k = api (\<lambda>w. if (kind, k) \<in> set (misc_objects w)
     then (Err (EAlreadyExists (nsname_text k)), w)
     else (Ok (), w\<lparr>misc_objects := (kind, k) # misc_objects w\<rparr>))"

definition ensure_migration_service_account :: "(kube, unit) call" where
  "ensure_migration_service_account =
     bind (wrap ''create role''
       (ignore_already_exists (create_misc ''Role'' (''registry'', ''registry-data-migration-role'')))) (\<lambda>_.
     bind (wrap ''create service account''
       (ignore_already_exists (create_misc ''ServiceAccount'' (''registry'', ''registry-data-migration-serviceaccount'')))) (\<lambda>_.
     wrap ''create role binding''
       (ignore_already_exists (create_misc ''RoleBinding'' (''registry'', ''registry-data-migration-rolebinding'')))))"

definition s3_rw_key :: nsname where "s3_rw_key = (''registry'', ''seaweedfs-s3-rw'')"

definition migrate_ensure_s3_secret :: "addon_lib \<Rightarrow> (kube, unit) call" where
  "migrate_ensure_s3_secret A =
     bind (wrap ''get seaweedfs s3 rw creds'' (get_s3_rw_creds A)) (\<lambda>(access, secret).
     let data = [(''s3AccessKey'', access), (''s3SecretKey'', secret)] in
     bind (attempt (get_in secrets s3_rw_key)) (\<lambda>r. case r of
       Inl e \<Rightarrow> if \<not> is_not_found e then throw (EWrap ''get secret'' e)
         else wrap ''create secret'' (create_secret s3_rw_key data)
     | Inr _ \<Rightarrow> wrap ''update secret'' (write_in secrets secrets_update s3_rw_key data)))"

definition new_migration_pod :: pod_object where
  "new_migration_pod = \<lparr>po_phase = [], po_labels = [
     (''app.kubernetes.io/component'', ''registry-data-migration''),
     (''app.kubernetes.io/part-of'', ''embedded-cluster''),
     (''app.kubernetes.io/managed-by'', ''embedded-cluster-operator'')], po_claims = []\<rparr>"

definition maybe_delete_data_migration_pod :: "'v lib \<Rightarrow> (kube, unit) call" where
  "maybe_delete_data_migration_pod L =
     bind (attempt (delete_in pod_objects pod_objects_update migration_pod_key)) (\<lambda>r. case r of
       Inl e \<Rightarrow> if \<not> is_not_found e then throw (EWrap ''delete pod'' e) else ret ()
     | Inr _ \<Rightarrow> wrap ''wait for pod deleted'' (wait_for_pod_deleted L 30 ''registry'' ''registry-data-migration''))"

definition ensure_data_migration_pod :: "'v lib \<Rightarrow> (kube, unit) call" where
  "ensure_data_migration_pod L =
     bind (wrap ''delete pod'' (maybe_delete_data_migration_pod L)) (\<lambda>_.
     wrap ''create pod'' (create_in pod_objects pod_objects_update migration_pod_key new_migration_pod))"

text \<open>The first value the monitor sends is the one that is received.\<close>

definition monitor_pod_status :: "'v lib \<Rightarrow> (kube, unit) call" where
  "monitor_pod_status L =
     bind (wait_for_pod_complete L 300 ''registry'' ''registry-data-migration'') (\<lambda>pod.
     if po_phase pod = ''Failed'' then throw (EMsg ''pod failed'')
     else if po_phase pod = ''Succeeded'' then ret ()
     else throw (EMsg ''pod is not succeeded or failed''))"

definition run_data_migration :: "'v lib \<Rightarrow> addon_lib \<Rightarrow> (kube, unit) call" where
  "run_data_migration L A =
     bind (wrap ''ensure service account'' ensure_migration_service_account) (\<lambda>_.
     bind (wrap ''ensure s3 secret'' (migrate_ensure_s3_secret A)) (\<lambda>_.
     wrap ''ensure pod'' (ensure_data_migration_pod L)))"

section \<open>Enabling high availability\<close>

record enable_ha_options =
  ha_cluster_id :: string
  ha_admin_console_port :: int
  ha_is_airgap :: bool
  ha_is_multi_node :: bool
  ha_embedded_config :: "config_spec option"
  ha_end_user_config :: "config_spec option"
  ha_proxy :: "proxy_spec option"
  ha_host_ca_path :: string
  ha_data_dir :: string
  ha_k0s_dir :: string
  ha_seaweedfs_dir :: string
  ha_service_cidr :: string
  ha_kotsadm_ns :: string
  ha_operator_images :: "string list"

definition restore_state_key :: nsname where
  "restore_state_key = (''embedded-cluster'', ''embedded-cluster-restore-state'')"

definition can_enable_ha :: "'v lib \<Rightarrow> (kube, bool \<times> string) call" where
  "can_enable_ha L =
     bind (wrap ''get latest installation'' (get_latest_installation L)) (\<lambda>i.
     if high_availability (in_spec i) then ret (False, ''already enabled'')
     else bind (attempt (get_in config_maps restore_state_key)) (\<lambda>r. case r of
       Inr _ \<Rightarrow> ret (False, ''a restore is in progress'')
     | Inl e \<Rightarrow> if \<not> is_not_found e then throw (EWrap ''get restore state configmap'' e)
         else bind (wrap ''check control plane nodes'' num_of_control_plane_nodes) (\<lambda>ncps.
           if ncps < 3 then ret (False, ''number of control plane nodes is less than 3'')
           else ret (True, []))))"

definition is_registry_ha :: "(kube, bool) call" where
  "is_registry_ha = bind (wrap ''get registry deployment'' (get_in deployments registry_key)) (\<lambda>d.
     ret (case wl_replicas d of None \<Rightarrow> False | Some n \<Rightarrow> n > 1))"

definition scale_registry_down :: "(kube, unit) call" where
  "scale_registry_down = bind (wrap ''get registry deployment'' (get_in deployments registry_key)) (\<lambda>d.
     wrap ''update registry deployment''
       (write_in deployments deployments_update registry_key (d\<lparr>wl_replicas := Some 0\<rparr>)))"

text \<open>
  The deferred function: the result tells whether it gets to the end, where a recovered panic is
  raised again. When it returns before, the panic is gone and the caller returns its zero value.
\<close>

definition maybe_scale_registry_back :: "(kube, bool) call" where
  "maybe_scale_registry_back = bind (attempt (get_in deployments registry_key)) (\<lambda>r. case r of
       Inl _ \<Rightarrow> ret False
     | Inr d \<Rightarrow>
         if (case wl_replicas d of None \<Rightarrow> False | Some n \<Rightarrow> n > 0) then ret False
         else bind (attempt (write_in deployments deployments_update registry_key (d\<lparr>wl_replicas := Some 1\<rparr>))) (\<lambda>_.
              ret True))"

definition deferring_scale_back :: "(kube, unit) call \<Rightarrow> (kube, unit) call" where
  "deferring_scale_back m w = (case m w of (r, w1) \<Rightarrow> (case maybe_scale_registry_back w1 of
       (Ok to_the_end, w2) \<Rightarrow> (case r of Panic p \<Rightarrow> if to_the_end then Panic p else Ok () | _ \<Rightarrow> r, w2)
     | (Err e, w2) \<Rightarrow> (r, w2)
     | (Panic p, w2) \<Rightarrow> (Panic p, w2)))"

fun get_operator_image :: "string list \<Rightarrow> string outcome" where
  "get_operator_image [] = Err (EMsg ''embedded-cluster-operator image not found in metadata'')"
| "get_operator_image (img # images) = (if contains_str img ''/embedded-cluster-operator-image:'' then Ok img
     else get_operator_image images)"

definition migrate_registry_data :: "'v lib \<Rightarrow> addons \<Rightarrow> enable_ha_options \<Rightarrow> (kube, unit) call" where
  "migrate_registry_data L s opts =
     bind (wrap ''get latest installation'' (get_latest_installation L)) (\<lambda>_.
     bind (wrap ''get operator image'' (lift (get_operator_image (ha_operator_images opts)))) (\<lambda>_.
     bind (wrap ''run registry data migration'' (run_data_migration L (ads_lib s))) (\<lambda>_.
     wrap ''registry data migration failed'' (monitor_pod_status L))))"

definition ensure_seaweedfs :: "'v lib \<Rightarrow> addons \<Rightarrow> enable_ha_options \<Rightarrow> (kube, unit) call" where
  "ensure_seaweedfs L s opts = (let sw = SeaweedFS (ha_service_cidr opts) (ha_seaweedfs_dir opts) in
     wrap ''upgrade seaweedfs'' (addon_upgrade L (ads_lib s) sw (ads_domains s)
       (addon_overrides sw (ha_embedded_config opts) (ha_end_user_config opts))))"

definition enable_registry_ha :: "'v lib \<Rightarrow> addons \<Rightarrow> enable_ha_options \<Rightarrow> (kube, unit) call" where
  "enable_registry_ha L s opts = (let r = Registry (ha_service_cidr opts) True in
     wrap ''upgrade registry'' (addon_upgrade L (ads_lib s) r (ads_domains s)
       (addon_overrides r (ha_embedded_config opts) (ha_end_user_config opts))))"

definition ha_admin_console :: "enable_ha_options \<Rightarrow> admin_console_addon" where
  "ha_admin_console opts = no_admin_console\<lparr>ac_is_airgap := ha_is_airgap opts, ac_is_ha := True,
     ac_is_multi_node := ha_is_multi_node opts, ac_proxy := ha_proxy opts, ac_port := ha_admin_console_port opts,
     ac_cluster_id := ha_cluster_id opts, ac_service_cidr := ha_service_cidr opts,
     ac_host_ca_path := ha_host_ca_path opts, ac_data_dir := ha_data_dir opts, ac_k0s_dir := ha_k0s_dir opts,
     ac_kotsadm_ns := ha_kotsadm_ns opts\<rparr>"

definition enable_admin_console_ha :: "'v lib \<Rightarrow> addons \<Rightarrow> enable_ha_options \<Rightarrow> (kube, unit) call" where
  "enable_admin_console_ha L s opts = (let ac = AdminConsole (ha_admin_console opts) in
     bind (wrap ''upgrade admin console'' (addon_upgrade L (ads_lib s) ac (ads_domains s)
       (addon_overrides ac (ha_embedded_config opts) (ha_end_user_config opts)))) (\<lambda>_.
     wrap ''wait for rqlite to be ready'' (wait_for_statefulset L 60 ''kotsadm'' ''kotsadm-rqlite'')))"

text \<open>What follows the migration, and what runs with the scaling back deferred.\<close>

definition finish_ha :: "'v lib \<Rightarrow> addons \<Rightarrow> enable_ha_options \<Rightarrow> (kube, unit) call" where
  "finish_ha L s opts =
     bind (wrap ''enable admin console high availability'' (enable_admin_console_ha L s opts)) (\<lambda>_.
     bind (wrap ''get latest installation'' (get_latest_installation L)) (\<lambda>i.
     bind (wrap ''update installation'' (update_installation L i
       (\<lambda>i. i\<lparr>in_spec := (in_spec i)\<lparr>high_availability := True\<rparr>\<rparr>))) (\<lambda>_. ret ())))"

definition migrate_and_finish_ha :: "'v lib \<Rightarrow> addons \<Rightarrow> enable_ha_options \<Rightarrow> (kube, unit) call" where
  "migrate_and_finish_ha L s opts =
     bind (wrap ''scale registry to 0 replicas'' scale_registry_down) (\<lambda>_.
     bind (wrap ''migrate registry data'' (migrate_registry_data L s opts)) (\<lambda>_.
     bind (wrap ''enable registry high availability'' (enable_registry_ha L s opts)) (\<lambda>_.
     finish_ha L s opts)))"

definition enable_ha :: "'v lib \<Rightarrow> addons \<Rightarrow> enable_ha_options \<Rightarrow> (kube, unit) call" where
  "enable_ha L s opts = (if \<not> ha_is_airgap opts then finish_ha L s opts
     else bind (wrap ''check if registry data has been migrated'' is_registry_ha) (\<lambda>migrated.
       if migrated then finish_ha L s opts
       else bind (wrap ''ensure seaweedfs'' (ensure_seaweedfs L s opts)) (\<lambda>_.
            deferring_scale_back (migrate_and_finish_ha L s opts))))"

section \<open>Lemmas\<close>

definition control_planes :: "kube \<Rightarrow> nat" where
  "control_planes w = length (filter (\<lambda>x. map_of (node_labels x) ''node-role.kubernetes.io/control-plane'' \<noteq> None) (nodes w))"

lemma keeps_prepares_wait:
  assumes "calm_tick L"
  shows "keeps prepares (wait_for_statefulset L steps ns n)"
  unfolding wait_for_statefulset_def wait_for_ready_def ready_try_def is_stateful_set_ready_def timed_out_def
  by (intro pr.object_rules pr.keeps_poll) (simp add: assms [unfolded calm_tick_def])

lemma keeps_names_prepares: "keeps prepares m \<Longrightarrow> keeps names_kept m"
  by (auto simp: keeps_def prepares_def names_kept_def)

lemma keeps_names_addon_upgrade: "calm_tick L \<Longrightarrow> keeps names_kept (addon_upgrade L A a d ov)"
  using helm_step_addon_upgrade [of L a A d ov] by (auto simp: helm_step_def keeps_def only_release_def names_kept_def)

lemma keeps_names_console:
  assumes "calm_tick L"
  shows "keeps names_kept (enable_admin_console_ha L s opts)"
  unfolding enable_admin_console_ha_def Let_def
  by (intro nk.kube_frame_rules keeps_names_addon_upgrade keeps_names_prepares keeps_prepares_wait assms)

lemma keeps_names_misc: "keeps names_kept (create_misc kind k)"
  unfolding create_misc_def by (rule nk.keeps_api) (auto simp: keeps_def names_kept_def)

lemma names_update [simp]:
  "names_kept w (deployments_update f w)" "names_kept w (secrets_update g w)" "names_kept w (pod_objects_update h w)"
  by (simp_all add: names_kept_def)

lemma keeps_names_migrate:
  assumes "calm_tick L"
  shows "keeps names_kept (migrate_registry_data L s opts)"
proof -
  have t: "names_kept w (lib_tick L w)" for w
    using assms by (simp add: calm_tick_def prepares_def names_kept_def)
  show ?thesis
    unfolding migrate_registry_data_def run_data_migration_def monitor_pod_status_def wait_for_pod_complete_def
      pod_complete_try_def timed_out_def ensure_migration_service_account_def migrate_ensure_s3_secret_def Let_def
      ensure_data_migration_pod_def maybe_delete_data_migration_pod_def wait_for_pod_deleted_def pod_deleted_try_def
      get_s3_rw_creds_def create_secret_def
    by (intro nk.object_rules nk.keeps_poll nk.keeps_change_in t keeps_names_prepares keeps_prepares_latest
        keeps_names_misc names_update)
qed

lemma keeps_names_ha:
  assumes "calm_tick L"
  shows "keeps names_kept (ensure_seaweedfs L s opts)" "keeps names_kept (enable_registry_ha L s opts)"
    "keeps names_kept scale_registry_down" "keeps names_kept is_registry_ha" "keeps names_kept maybe_scale_registry_back"
  unfolding ensure_seaweedfs_def enable_registry_ha_def Let_def scale_registry_down_def is_registry_ha_def
    maybe_scale_registry_back_def
  by (intro nk.object_rules nk.keeps_change_in keeps_names_addon_upgrade assms names_update)+

lemma scale_back_installs: "keeps installs_same maybe_scale_registry_back"
  unfolding maybe_scale_registry_back_def
  by (intro same.object_rules same.keeps_change_in) (simp add: installs_same_def)

lemma finish_ha_Ok:
  assumes run: "finish_ha L s opts w = (Ok u, w')"
    and tick: "calm_tick L" and names: "distinct (map in_name (installs w))"
  shows "\<exists>i \<in> set (installs w'). high_availability (in_spec i) \<and> (\<forall>j \<in> set (installs w'). in_name j \<le> in_name i)"
proof -
  from run obtain w1 i w2 x where a: "enable_admin_console_ha L s opts w = (Ok (), w1)"
    and l: "get_latest_installation L w1 = (Ok i, w2)"
    and u: "update_installation L i (\<lambda>i. i\<lparr>in_spec := (in_spec i)\<lparr>high_availability := True\<rparr>\<rparr>) w2 = (Ok x, w')"
    by (auto simp: finish_ha_def call_Ok_iffs)
  have "map in_name (installs w1) = map in_name (installs w)"
    using keepsD [OF keeps_names_console [OF tick] a] by (simp add: names_kept_def)
  with names have "distinct (map in_name (installs w1))" by simp
  note g = get_latest_installation_Ok [OF l this]
  from update_installation_Ok [OF u] obtain cur fs where c: "find_install (installs w2) (in_name i) = Some cur"
    "x = (cur\<lparr>in_spec := (in_spec cur)\<lparr>high_availability := True\<rparr>\<rparr>)\<lparr>in_status := in_status cur\<rparr>"
    "w' = w2\<lparr>faults := fs, installs := put_install x (installs w2)\<rparr>" by auto
  have n: "in_name x = in_name i" using c(1,2) by (auto dest: ist.lookup_key)
  have names': "in_name ` set (installs w') = in_name ` set (installs w2)"
    using c(3) by (simp del: put_install_names) (metis list.set_map put_install_names)
  have "find_install (installs w') (in_name i) = Some x" using c n by (simp add: ist.lookup_put)
  then have "x \<in> set (installs w')" using find_install_name by blast
  moreover have "in_name j \<le> in_name x" if "j \<in> set (installs w')" for j
  proof -
    from that names' have "in_name j \<in> in_name ` set (installs w2)" by blast
    with g(2) n show ?thesis by auto
  qed
  ultimately show ?thesis using c(2) by (auto intro!: bexI [of _ x])
qed

section \<open>Properties\<close>

lemma sample_latest:
  assumes "faults w = []" "installs w = [sample_newer]"
  shows "get_latest_installation sample_lib w = (Ok sample_newer, w)"
  using assms
  by (simp add: get_latest_installation_def list_installations_def list_installs_def gets_def bind_def wrap_def
      attempt_def sort_newest_first_def maybe_override_installation_data_dirs_def lift_def ret_def ensure_gvk_def)

text \<open>
  When the check returns, it says yes exactly when the newest installation is not highly
  available yet, no restore is in progress and there are at least three control plane nodes.
\<close>

theorem can_enable_ha_iff:
  assumes "distinct (map in_name (installs w))" and "can_enable_ha L w = (Ok (yes, reason), w')"
  shows "\<exists>i \<in> set (installs w'). (\<forall>j \<in> set (installs w'). in_name j \<le> in_name i) \<and>
    (yes \<longleftrightarrow> \<not> high_availability (in_spec i) \<and> map_of (config_maps w') restore_state_key = None \<and> 3 \<le> control_planes w')"
proof -
  from assms(2) obtain i w1 where l: "get_latest_installation L w = (Ok i, w1)"
    and rest: "(if high_availability (in_spec i) then ret (False, ''already enabled'')
       else bind (attempt (get_in config_maps restore_state_key)) (\<lambda>r. case r of
         Inr _ \<Rightarrow> ret (False, ''a restore is in progress'')
       | Inl e \<Rightarrow> if \<not> is_not_found e then throw (EWrap ''get restore state configmap'' e)
           else bind (wrap ''check control plane nodes'' num_of_control_plane_nodes) (\<lambda>ncps.
             if ncps < 3 then ret (False, ''number of control plane nodes is less than 3'')
             else ret (True, [])))) w1 = (Ok (yes, reason), w')"
    by (auto simp: can_enable_ha_def bind_Ok_iff wrap_Ok_iff)
  note g = get_latest_installation_Ok [OF l assms(1)]
  show ?thesis
  proof (cases "high_availability (in_spec i)")
    case True
    with rest g(1,2) show ?thesis by auto
  next
    case False
    with rest obtain r w2 where r: "attempt (get_in config_maps restore_state_key) w1 = (Ok r, w2)"
      and k: "(case r of Inr _ \<Rightarrow> ret (False, ''a restore is in progress'')
       | Inl e \<Rightarrow> if \<not> is_not_found e then throw (EWrap ''get restore state configmap'' e)
           else bind (wrap ''check control plane nodes'' num_of_control_plane_nodes) (\<lambda>ncps.
             if ncps < 3 then ret (False, ''number of control plane nodes is less than 3'')
             else ret (True, []))) w2 = (Ok (yes, reason), w')" by (auto simp: bind_Ok_iff)
    from r obtain fs where w2: "w2 = w1\<lparr>faults := fs\<rparr>" by (auto simp: attempt_Ok_iff dest!: get_in_reads)
    show ?thesis
    proof (cases r)
      case (Inr c)
      with r have "map_of (config_maps w1) restore_state_key = Some c"
        by (auto simp: attempt_Ok_iff dest: get_in_Ok)
      with k Inr w2 g(1,2) False show ?thesis by (auto intro!: bexI [of _ i])
    next
      case (Inl e)
      with k have nf: "is_not_found e" by (auto split: if_split_asm)
      with r Inl have "map_of (config_maps w1) restore_state_key = None"
        by (auto simp: attempt_Ok_iff dest: get_in_not_found)
      moreover obtain n where "num_of_control_plane_nodes w2 = (Ok n, w')" "yes \<longleftrightarrow> \<not> n < 3"
        using k Inl nf by (auto simp: bind_Ok_iff wrap_Ok_iff split: if_split_asm)
      moreover obtain fs' where "w' = w2\<lparr>faults := fs'\<rparr>" "n = control_planes w2"
        using calculation(2) unfolding num_of_control_plane_nodes_def control_planes_def
        by (auto simp: bind_Ok_iff dest!: api_Ok)
      ultimately show ?thesis using g(1,2) False w2 by (auto intro!: bexI [of _ i] simp: control_planes_def)
    qed
  qed
qed

theorem can_enable_ha_iff_witness:
  "\<exists>i \<in> set [sample_newer]. \<not> high_availability (in_spec i) \<and>
     control_planes (sample_kube [sample_newer]) = 0"
proof -
  have run: "can_enable_ha sample_lib (sample_kube [sample_newer]) =
      (Ok (False, ''number of control plane nodes is less than 3''), sample_kube [sample_newer])"
  proof -
    have "\<not> high_availability (in_spec sample_newer)" by (simp add: sample_newer_def sample_defs)
    moreover have "config_maps (sample_kube [sample_newer]) = []" "nodes (sample_kube [sample_newer]) = []"
      by (simp_all add: sample_kube_def)
    ultimately show ?thesis
      by (simp add: can_enable_ha_def bind_def wrap_def attempt_def sample_latest get_in_quiet ret_def
        num_of_control_plane_nodes_def gets_def)
  qed
  show ?thesis using can_enable_ha_iff [OF _ run]
    by (simp add: sample_newer_def sample_defs control_planes_def)
qed

lemma scale_back_run:
  assumes "faults w = []" "map_of (deployments w) registry_key = Some d"
  shows "maybe_scale_registry_back w = (if (case wl_replicas d of None \<Rightarrow> False | Some n \<Rightarrow> n > 0) then (Ok False, w)
    else (Ok True, w\<lparr>deployments := AList.update registry_key (d\<lparr>wl_replicas := Some 1\<rparr>) (deployments w)\<rparr>))"
  using assms by (simp add: maybe_scale_registry_back_def bind_def attempt_def get_in_quiet write_in_def ret_def)

definition sample_registry :: kube where
  "sample_registry = (sample_kube [sample_newer])\<lparr>deployments := [(registry_key, sample_workload (Some 1) 1)]\<rparr>"

definition sample_ha_options :: enable_ha_options where
  "sample_ha_options = \<lparr>ha_cluster_id = [], ha_admin_console_port = 0, ha_is_airgap = False, ha_is_multi_node = False,
     ha_embedded_config = None, ha_end_user_config = None, ha_proxy = None, ha_host_ca_path = [], ha_data_dir = [],
     ha_k0s_dir = [], ha_seaweedfs_dir = [], ha_service_cidr = [], ha_kotsadm_ns = ''kotsadm'', ha_operator_images = []\<rparr>"

text \<open>
  C37: Whatever the steps of the migration do, when the two calls that scale the registry back are
  answered the registry is not left without replicas, and the outcome is the one of the steps.
  But a panic with replicas already there is swallowed: enabling high availability then reports
  success.
\<close>

theorem registry_scaled_back:
  assumes "migrate_and_finish_ha L s opts w = (r, w1)" and "faults w1 = []"
    and "map_of (deployments w1) registry_key = Some d"
  shows "\<exists>w' d' n. deferring_scale_back (migrate_and_finish_ha L s opts) w =
      (case r of Panic p \<Rightarrow> if (case wl_replicas d of None \<Rightarrow> False | Some n \<Rightarrow> n > 0) then Ok () else Panic p | _ \<Rightarrow> r, w') \<and>
    map_of (deployments w') registry_key = Some d' \<and> wl_replicas d' = Some n \<and> n > 0"
proof -
  note run = scale_back_run [OF assms(2,3)]
  show ?thesis
  proof (cases "case wl_replicas d of None \<Rightarrow> False | Some n \<Rightarrow> n > 0")
    case True
    with run assms show ?thesis
      by (auto simp: deferring_scale_back_def split: outcome.splits option.splits)
  next
    case False
    with run assms show ?thesis
      by (simp add: deferring_scale_back_def update_conv' split: outcome.splits)
  qed
qed

text \<open>Without the image of the operator the migration fails with the registry scaled down.\<close>

theorem registry_scaled_back_witness:
  "\<exists>w' d' e. deferring_scale_back (migrate_and_finish_ha sample_lib sample_addons sample_ha_options) sample_registry = (Err e, w') \<and>
    map_of (deployments w') registry_key = Some d' \<and> wl_replicas d' = Some 1"
proof -
  let ?d = "sample_workload (Some 0) 1"
  let ?w = "sample_registry\<lparr>deployments := [(registry_key, ?d)]\<rparr>"
  let ?e = "EWrap ''migrate registry data'' (EWrap ''get operator image'' (EMsg ''embedded-cluster-operator image not found in metadata''))"
  have run: "migrate_and_finish_ha sample_lib sample_addons sample_ha_options sample_registry = (Err ?e, ?w)"
    by (simp add: migrate_and_finish_ha_def scale_registry_down_def migrate_registry_data_def bind_def wrap_def
        get_in_quiet write_in_def sample_registry_def sample_latest lift_def sample_ha_options_def sample_workload_def)
  have "faults ?w = []" "map_of (deployments ?w) registry_key = Some ?d" by (simp_all add: sample_registry_def)
  from registry_scaled_back [OF run this] scale_back_run [OF this] run show ?thesis
    by (simp add: deferring_scale_back_def sample_workload_def)
qed

lemma migrate_and_finish_Ok:
  assumes run: "migrate_and_finish_ha L s opts w = (Ok u, w')" and tick: "calm_tick L"
    and names: "distinct (map in_name (installs w))"
  shows "\<exists>i \<in> set (installs w'). high_availability (in_spec i) \<and> (\<forall>j \<in> set (installs w'). in_name j \<le> in_name i)"
proof -
  obtain v where v: "finish_ha L s opts v = (Ok u, w')" and k: "names_kept w v"
    using run keeps_names_ha(2,3) [OF tick] keeps_names_migrate [OF tick]
    unfolding migrate_and_finish_ha_def bind_Ok_iff wrap_Ok_iff by (meson keepsD nk.frame_trans)
  from k names have "distinct (map in_name (installs v))" by (simp add: names_kept_def)
  from finish_ha_Ok [OF v tick this] show ?thesis .
qed

text \<open>
  When enabling high availability reports success, the newest installation is recorded as
  highly available, unless a panic during the migration was swallowed.
\<close>

theorem enable_ha_recorded:
  assumes "calm_tick L" and "distinct (map in_name (installs w))" and "enable_ha L s opts w = (Ok u, w')"
  shows "(\<exists>i \<in> set (installs w'). high_availability (in_spec i) \<and> (\<forall>j \<in> set (installs w'). in_name j \<le> in_name i)) \<or>
    (\<exists>v p v'. migrate_and_finish_ha L s opts v = (Panic p, v'))"
proof -
  consider v where "finish_ha L s opts v = (Ok u, w')" "names_kept w v"
    | v where "deferring_scale_back (migrate_and_finish_ha L s opts) v = (Ok u, w')" "names_kept w v"
  proof (cases "ha_is_airgap opts")
    case False
    with assms(3) that(1) [of w] show ?thesis by (simp add: enable_ha_def nk.frame_refl)
  next
    case True
    with assms(3) obtain b v where b: "is_registry_ha w = (Ok b, v)"
      and k: "(if b then finish_ha L s opts else bind (wrap ''ensure seaweedfs'' (ensure_seaweedfs L s opts)) (\<lambda>_.
            deferring_scale_back (migrate_and_finish_ha L s opts))) v = (Ok u, w')"
      by (auto simp: enable_ha_def bind_Ok_iff wrap_Ok_iff)
    have v: "names_kept w v" using keepsD [OF keeps_names_ha(4) [OF assms(1)] b] .
    show ?thesis
    proof (cases b)
      case True
      with k v that(1) show ?thesis by simp
    next
      case False
      with k obtain x v2 where "ensure_seaweedfs L s opts v = (Ok x, v2)"
        "deferring_scale_back (migrate_and_finish_ha L s opts) v2 = (Ok u, w')" by (auto simp: bind_Ok_iff wrap_Ok_iff)
      with that(2) nk.frame_trans [OF v keepsD [OF keeps_names_ha(1) [OF assms(1)]]] show ?thesis by blast
    qed
  qed
  then show ?thesis
  proof cases
    case 1
    with assms(2) finish_ha_Ok [OF _ assms(1)] show ?thesis by (simp add: names_kept_def)
  next
    case 2
    obtain r w1 where m: "migrate_and_finish_ha L s opts v = (r, w1)" by (cases "migrate_and_finish_ha L s opts v")
    obtain q w2 where q: "maybe_scale_registry_back w1 = (q, w2)" by (cases "maybe_scale_registry_back w1")
    show ?thesis
    proof (cases r)
      case (Ok x)
      have "w' = w2" using 2(1) m q Ok by (auto simp: deferring_scale_back_def split: outcome.splits)
      moreover have "installs w2 = installs w1" using keepsD [OF scale_back_installs q] by (simp add: installs_same_def)
      moreover have "distinct (map in_name (installs v))" using 2(2) assms(2) by (simp add: names_kept_def)
      ultimately show ?thesis using migrate_and_finish_Ok [OF m [unfolded Ok] assms(1)] by simp
    next
      case (Err e)
      with 2(1) m q show ?thesis by (auto simp: deferring_scale_back_def split: outcome.splits)
    next
      case (Panic p)
      with m show ?thesis by blast
    qed
  qed
qed

definition sample_console :: kube where
  "sample_console = (sample_kube [sample_newer])\<lparr>releases := [(''kotsadm'', ''admin-console'')],
     stateful_sets := [((''kotsadm'', ''kotsadm-rqlite''), sample_workload (Some 3) 3)]\<rparr>"

lemma sample_console_run:
  "\<exists>v. addon_upgrade L sample_addon_lib (AdminConsole (ha_admin_console sample_ha_options)) (ads_domains sample_addons) []
      sample_console = (Ok (), sample_console\<lparr>log := v\<rparr>)"
proof -
  have "\<exists>v. admin_console_values sample_value_lib (ha_admin_console sample_ha_options) (ads_domains sample_addons) [] = Ok v"
    by (simp add: admin_console_values_def admin_console_rendered_def base_values_def rendered_def set_value_def
        marshal_values_def unmarshal_values_def when_nonempty_def sample_value_lib_def Let_def)
  then obtain v where "admin_console_values sample_value_lib (ha_admin_console sample_ha_options) (ads_domains sample_addons) [] = Ok v"
    by blast
  moreover have "ac_kotsadm_ns (ha_admin_console sample_ha_options) = ''kotsadm''"
    by (simp add: ha_admin_console_def sample_ha_options_def)
  ultimately show ?thesis
    by (simp add: addon_upgrade_def admin_console_upgrade_def upgrade_or_else_def admin_console_hooks_deleted_def
        ignore_not_found_def delete_in_def helm_release_exists_def helm_upgrade_def bind_def wrap_def attempt_def
        gets_def ret_def lift_def generate_helm_values_def sample_addon_lib_def addon_options_def
        sample_console_def sample_kube_def)
qed

theorem enable_ha_recorded_witness:
  "\<exists>w'. enable_ha sample_lib sample_addons sample_ha_options sample_console = (Ok (), w') \<and>
    ((\<exists>i \<in> set (installs w'). high_availability (in_spec i)) \<or>
     (\<exists>v p v'. migrate_and_finish_ha sample_lib sample_addons sample_ha_options v = (Panic p, v')))"
proof -
  obtain v where up: "addon_upgrade sample_lib sample_addon_lib (AdminConsole (ha_admin_console sample_ha_options))
      (ads_domains sample_addons) [] sample_console = (Ok (), sample_console\<lparr>log := v\<rparr>)"
    using sample_console_run by blast
  let ?w = "sample_console\<lparr>log := v\<rparr>"
  have w: "faults ?w = []" "installs ?w = [sample_newer]" "find_install (installs ?w) (in_name sample_newer) = Some sample_newer"
    by (simp_all add: sample_console_def)
  have "wait_for_statefulset sample_lib (Suc 59) ''kotsadm'' ''kotsadm-rqlite'' ?w = (Ok (), ?w)"
    unfolding wait_for_statefulset_def wait_for_ready_def poll.simps
    by (subst bind_def)+ (simp add: sts.try_ready w sample_console_def sample_workload_def workload_ready_def ret_def timed_out_def)
  then have "\<exists>w'. enable_ha sample_lib sample_addons sample_ha_options sample_console = (Ok (), w')"
    using up by (simp add: enable_ha_def sample_ha_options_def [THEN arg_cong [where f = ha_is_airgap], simplified]
        finish_ha_def enable_admin_console_ha_def addon_overrides_def Let_def bind_def wrap_def sample_latest [OF w(1,2)]
        update_installation_run [OF w(1,3)] ret_def
        sample_addons_def [THEN arg_cong [where f = ads_lib], simplified]
        sample_ha_options_def [THEN arg_cong [where f = ha_embedded_config], simplified]
        sample_ha_options_def [THEN arg_cong [where f = ha_end_user_config], simplified])
  then obtain w' where run: "enable_ha sample_lib sample_addons sample_ha_options sample_console = (Ok (), w')" by blast
  from enable_ha_recorded [OF sample_calm _ run] run show ?thesis by (auto simp: sample_console_def)
qed

end
