(* ===== verification/K0sConfig.thy ===== *)
theory K0sConfig
  imports Installs
begin

text \<open>
  The configuration of k0s (\<^verbatim>\<open>pkg/config/config.go\<close>, \<open>images.go\<close>): what is rendered, how overrides are
  merged, and the flags and labels of a first controller. k0s's defaults, the YAML and JSON
  libraries, the merge patch, the images of the release build and the host's netfilter backend
  are parameters (\<open>config_lib\<close>).
\<close>

section \<open>Parameters\<close>

record config_lib =
  kc_default :: k0s_config
  kc_default_calico :: k0s_calico
  kc_image_metadata :: "(string \<Rightarrow> string \<times> string) option"
  kc_unmarshal_body :: "string \<Rightarrow> (string \<times> yaml) list outcome"
  kc_marshal_body :: "(string \<times> yaml) list \<Rightarrow> string outcome"
  kc_marshal :: "k0s_config \<Rightarrow> string outcome"
  kc_unmarshal :: "string \<Rightarrow> k0s_config outcome"
  kc_yaml_to_json :: "string \<Rightarrow> string outcome"
  kc_json_to_yaml :: "string \<Rightarrow> string outcome"
  kc_merge_patch :: "string \<Rightarrow> string \<Rightarrow> string outcome"

definition deref :: "'a option \<Rightarrow> 'a outcome" where
  "deref p = (case p of None \<Rightarrow> Panic ''nil pointer dereference'' | Some x \<Rightarrow> Ok x)"

lemma deref_simps [simp]: "deref (Some x) = Ok x" "deref None = Panic ''nil pointer dereference''"
  by (simp_all add: deref_def)

lemma deref_Ok_iff [simp]: "deref p = Ok x \<longleftrightarrow> p = Some x"
  by (cases p) (auto simp: deref_def)

section \<open>Rendering\<close>

definition enable_calico :: "config_lib \<Rightarrow> k0s_config \<Rightarrow> k0s_config" where
  "enable_calico C cfg =
     (let net = (case cfg_network cfg of None \<Rightarrow> \<lparr>net_provider = [], net_kube_router = False, net_calico = None,
            net_kube_proxy_mode = None, net_nllb = None, net_pod_cidr = [], net_service_cidr = [], net_rest = []\<rparr> | Some n \<Rightarrow> n);
          calico = (case net_calico net of None \<Rightarrow> kc_default_calico C | Some c \<Rightarrow> c)
      in cfg\<lparr>cfg_network := Some (net\<lparr>net_kube_router := False, net_provider := ''calico'',
           net_calico := Some (calico\<lparr>calico_env :=
             map_set ''FELIX_USAGEREPORTINGENABLED'' ''false'' (calico_env calico)\<rparr>)\<rparr>)\<rparr>)"

text \<open>The image and the version of one component.\<close>

definition override_image :: "(string \<Rightarrow> string \<times> string) \<Rightarrow> string \<Rightarrow> string \<Rightarrow> k0s_image option \<Rightarrow> k0s_image option outcome" where
  "override_image meta proxy name img = bindO (deref img) (\<lambda>i.
     Ok (Some (i\<lparr>ki_image := (if proxy = [] then fst (meta name)
                  else replace_first (fst (meta name)) ''proxy.replicated.com'' proxy),
               ki_version := snd (meta name)\<rparr>)))"

definition empty_images :: k0s_images where
  "empty_images = \<lparr>img_core_dns = None, img_calico_node = None, img_calico_cni = None,
     img_calico_controllers = None, img_metrics_server = None, img_kube_proxy = None, img_pause = None, img_pull_policy = [], img_rest = []\<rparr>"

definition override_k0s_images :: "config_lib \<Rightarrow> string \<Rightarrow> k0s_config \<Rightarrow> k0s_config outcome" where
  "override_k0s_images C proxy cfg = (case kc_image_metadata C of
       None \<Rightarrow> Panic ''k0s version is not set''
     | Some meta \<Rightarrow>
        let images = (case cfg_images cfg of None \<Rightarrow> empty_images | Some i \<Rightarrow> i);
            net = (case cfg_network cfg of None \<Rightarrow> \<lparr>net_provider = [], net_kube_router = False, net_calico = None,
              net_kube_proxy_mode = None, net_nllb = None, net_pod_cidr = [], net_service_cidr = [], net_rest = []\<rparr> | Some n \<Rightarrow> n);
            lb = (case net_nllb net of None \<Rightarrow> \<lparr>nllb_enabled = False, nllb_type = [], nllb_envoy = None, nllb_rest = []\<rparr>
              | Some l \<Rightarrow> l);
            envoy = (case nllb_envoy lb of None \<Rightarrow> None | Some e \<Rightarrow> e)
        in bindO (override_image meta proxy ''coredns'' (img_core_dns images)) (\<lambda>core_dns.
           bindO (override_image meta proxy ''calico-node'' (img_calico_node images)) (\<lambda>node.
           bindO (override_image meta proxy ''calico-cni'' (img_calico_cni images)) (\<lambda>cni.
           bindO (override_image meta proxy ''calico-kube-controllers'' (img_calico_controllers images)) (\<lambda>controllers.
           bindO (override_image meta proxy ''metrics-server'' (img_metrics_server images)) (\<lambda>metrics.
           bindO (override_image meta proxy ''kube-proxy'' (img_kube_proxy images)) (\<lambda>kube_proxy.
           bindO (override_image meta proxy ''pause'' (img_pause images)) (\<lambda>pause.
           bindO (override_image meta proxy ''envoy-distroless'' envoy) (\<lambda>envoy.
           Ok (cfg\<lparr>cfg_images := Some (images\<lparr>img_core_dns := core_dns, img_calico_node := node, img_calico_cni := cni,
                 img_calico_controllers := controllers, img_metrics_server := metrics, img_kube_proxy := kube_proxy,
                 img_pause := pause\<rparr>),
               cfg_network := Some (net\<lparr>net_nllb := Some (lb\<lparr>nllb_envoy := Some envoy\<rparr>)\<rparr>)\<rparr>))))))))))"

definition render_k0s_config :: "config_lib \<Rightarrow> string \<Rightarrow> k0s_config outcome" where
  "render_k0s_config C proxy =
     (let cfg = enable_calico C ((kc_default C)\<lparr>cfg_name := ''k0s'', cfg_konnectivity := False\<rparr>);
          cfg = cfg\<lparr>cfg_telemetry := Some False\<rparr>
      in bindO (deref (cfg_api cfg)) (\<lambda>api.
         bindO (deref (Option.bind (cfg_network cfg) net_nllb)) (\<lambda>lb.
         bindO (deref (cfg_network cfg)) (\<lambda>net.
         override_k0s_images C proxy (cfg\<lparr>cfg_api := Some (api\<lparr>
             api_extra_args := map_set ''service-node-port-range'' default_node_port_range (api_extra_args api),
             api_sans := api_sans api @ [''kubernetes.default.svc.cluster.local'']\<rparr>),
           cfg_network := Some (net\<lparr>net_nllb := Some (lb\<lparr>nllb_enabled := True, nllb_type := ''EnvoyProxy''\<rparr>)\<rparr>)\<rparr>)))))"

text \<open>The backend the host's detection found, or its error, which is not fatal.\<close>

definition apply_host_overrides :: "err + string \<Rightarrow> k0s_config \<Rightarrow> k0s_config" where
  "apply_host_overrides backend cfg = (case backend of
       Inl _ \<Rightarrow> cfg
     | Inr b \<Rightarrow> if b = ''nft'' then
         let net = (case cfg_network cfg of None \<Rightarrow> \<lparr>net_provider = [], net_kube_router = False, net_calico = None,
               net_kube_proxy_mode = None, net_nllb = None, net_pod_cidr = [], net_service_cidr = [], net_rest = []\<rparr> | Some n \<Rightarrow> n)
         in cfg\<lparr>cfg_network := Some (net\<lparr>net_kube_proxy_mode := Some ''nftables''\<rparr>)\<rparr> else cfg)"

section \<open>Overrides\<close>

definition remove_immutable_fields :: "(string \<times> yaml) list \<Rightarrow> (string \<times> yaml) list" where
  "remove_immutable_fields patch = (let p = AList.delete ''metadata'' patch in
     case map_of p ''spec'' of
       Some (YMap spec) \<Rightarrow> AList.update ''spec'' (YMap (AList.delete ''storage'' (AList.delete ''api'' spec))) p
     | _ \<Rightarrow> p)"

definition extract_k0s_config_patch :: "config_lib \<Rightarrow> string \<Rightarrow> bool \<Rightarrow> string outcome" where
  "extract_k0s_config_patch C raw respect_immutable =
     bindO (wrapO ''unable to unmarshal patch body'' (kc_unmarshal_body C raw)) (\<lambda>body.
     wrapO ''unable to marshal patch body''
       (kc_marshal_body C (if respect_immutable then remove_immutable_fields body else body)))"

definition patch_k0s_config :: "config_lib \<Rightarrow> k0s_config \<Rightarrow> string \<Rightarrow> bool \<Rightarrow> k0s_config outcome" where
  "patch_k0s_config C cfg raw respect_immutable = (if raw = [] then Ok cfg else
     bindO (wrapO ''unable to extract k0s config patch'' (extract_k0s_config_patch C raw respect_immutable)) (\<lambda>patch.
     bindO (wrapO ''unable to marshal original config'' (kc_marshal C cfg)) (\<lambda>original.
     bindO (wrapO ''unable to convert original config to json'' (kc_yaml_to_json C original)) (\<lambda>original_json.
     bindO (wrapO ''unable to convert patch to json'' (kc_yaml_to_json C patch)) (\<lambda>patch_json.
     bindO (wrapO ''unable to patch configuration'' (kc_merge_patch C original_json patch_json)) (\<lambda>result.
     bindO (wrapO ''unable to convert patched config to json'' (kc_json_to_yaml C result)) (\<lambda>result_yaml.
     bindO (wrapO ''unable to unmarshal patched config'' (kc_unmarshal C result_yaml)) (\<lambda>patched.
     bindO (deref (cfg_network patched)) (\<lambda>net.
     Ok (if net_provider net = ''calico'' then patched\<lparr>cfg_network := Some (net\<lparr>net_kube_router := False\<rparr>)\<rparr>
         else patched))))))))))"

fun unique_loop :: "string list \<Rightarrow> string list \<Rightarrow> string list \<Rightarrow> string list" where
  "unique_loop seen unique [] = unique"
| "unique_loop seen unique (x # xs) = (if x \<in> set seen then unique_loop seen unique xs
     else unique_loop (x # seen) (unique @ [x]) xs)"

definition unique_string_slice :: "string list \<Rightarrow> string list" where
  "unique_string_slice xs = unique_loop [] [] xs"

section \<open>The first controller's flags\<close>

definition get_controller_role_name :: "config_spec option \<Rightarrow> string" where
  "get_controller_role_name config = (case config of None \<Rightarrow> ''controller''
     | Some c \<Rightarrow> if role_name (controller_role c) \<noteq> [] then role_name (controller_role c) else ''controller'')"

definition has_custom_roles :: "config_spec option \<Rightarrow> bool" where
  "has_custom_roles config = (case config of None \<Rightarrow> False | Some c \<Rightarrow> custom_roles c \<noteq> [])"

definition additional_controller_labels :: "config_spec option \<Rightarrow> (string \<times> string) list" where
  "additional_controller_labels config = (case config of None \<Rightarrow> [] | Some c \<Rightarrow> role_labels (controller_role c))"

definition controller_labels :: "config_spec option \<Rightarrow> (string \<times> string) list" where
  "controller_labels config =
     map_set ''kots.io/embedded-cluster-role'' ''total-1''
       (map_set ''kots.io/embedded-cluster-role-0'' (get_controller_role_name config) (additional_controller_labels config))"

definition k0s_node_labels :: "config_spec option \<Rightarrow> string list" where
  "k0s_node_labels config = sort (map (\<lambda>(k, v). k @ ''='' @ v) (controller_labels config))"

definition additional_install_flags :: "runtime_config_spec \<Rightarrow> string \<Rightarrow> string \<Rightarrow> string list" where
  "additional_install_flags rc node_ip hostname =
     (let args = ''--node-ip='' @ node_ip;
          args = (if hostname \<noteq> [] then args @ '' --hostname-override='' @ hostname else args)
      in [''--kubelet-extra-args'', args, ''--data-dir'', ec_k0s_sub_dir rc])"

definition additional_install_flags_controller :: "string list" where
  "additional_install_flags_controller =
     [''--disable-components'', ''konnectivity-server,update-prober'', ''--enable-dynamic-config'']"

definition controller_worker_profile :: "config_lib \<Rightarrow> string outcome \<Rightarrow> string outcome" where
  "controller_worker_profile C file =
     bindO (wrapO ''unable to read k0s config'' file) (\<lambda>data.
     bindO (wrapO ''unable to unmarshal k0s config'' (kc_unmarshal C data)) (\<lambda>cfg.
     Ok (case cfg_worker_profiles cfg of [] \<Rightarrow> [] | p # _ \<Rightarrow> p)))"

definition profile_install_flag :: "config_lib \<Rightarrow> string outcome \<Rightarrow> string outcome" where
  "profile_install_flag C file =
     bindO (wrapO ''unable to get controller worker profile'' (controller_worker_profile C file)) (\<lambda>p.
     Ok (if p = [] then [] else ''--profile='' @ p))"

definition install_flags :: "config_lib \<Rightarrow> config_spec option \<Rightarrow> string outcome \<Rightarrow> runtime_config_spec \<Rightarrow>
    string \<Rightarrow> string \<Rightarrow> string list outcome" where
  "install_flags C config file rc node_ip hostname =
     bindO (wrapO ''unable to get profile install flag'' (profile_install_flag C file)) (\<lambda>profile.
     Ok ([''install'', ''controller'', ''--labels'', join_str '','' (k0s_node_labels config), ''--enable-worker'',
          ''--no-taints'', ''-c'', ''/etc/k0s/k0s.yaml''] @
         (if profile \<noteq> [] then [profile] else []) @
         additional_install_flags rc node_ip hostname @ additional_install_flags_controller))"

section \<open>Lemmas\<close>

lemma unique_loop_spec:
  "set seen = set unique \<Longrightarrow> distinct unique \<Longrightarrow> distinct (unique_loop seen unique xs) \<and>
    set (unique_loop seen unique xs) = set unique \<union> set xs"
proof (induction xs arbitrary: seen unique)
  case (Cons x xs)
  show ?case
  proof (cases "x \<in> set seen")
    case True
    with Cons show ?thesis by auto
  next
    case False
    with Cons.prems Cons.IH [of "x # seen" "unique @ [x]"] show ?thesis by auto
  qed
qed simp

lemma unique_string_slice_spec: "distinct (unique_string_slice xs)" "set (unique_string_slice xs) = set xs"
  using unique_loop_spec [of "[]" "[]" xs] by (simp_all add: unique_string_slice_def)

lemma removed_keys:
  assumes "k \<noteq> ''spec''"
  shows "map_of (remove_immutable_fields patch) k = map_of (AList.delete ''metadata'' patch) k"
proof -
  let ?p = "AList.delete ''metadata'' patch"
  show ?thesis
  proof (cases "\<exists>spec. map_of ?p ''spec'' = Some (YMap spec)")
    case True
    then obtain spec where "map_of ?p ''spec'' = Some (YMap spec)" by blast
    then have "remove_immutable_fields patch =
        AList.update ''spec'' (YMap (AList.delete ''storage'' (AList.delete ''api'' spec))) ?p"
      by (simp only: remove_immutable_fields_def Let_def option.case yaml.case)
    then show ?thesis using assms by (simp add: update_conv')
  next
    case False
    then have "remove_immutable_fields patch = ?p"
      unfolding remove_immutable_fields_def Let_def
      by (auto split: option.split yaml.split)
    then show ?thesis by (simp only:)
  qed
qed

lemma removed_spec:
  "map_of patch ''spec'' = Some (YMap spec) \<Longrightarrow> map_of (remove_immutable_fields patch) ''spec'' =
    Some (YMap (AList.delete ''storage'' (AList.delete ''api'' spec)))"
  by (simp add: remove_immutable_fields_def Let_def delete_conv' update_conv')

section \<open>Properties\<close>

text \<open>
  What an override contributes has no metadata and, in its specification, neither the API nor
  the storage; every other key it has is passed on unchanged.
\<close>

theorem immutable_fields_removed:
  "map_of (remove_immutable_fields patch) ''metadata'' = None \<and>
   (\<forall>k. k \<noteq> ''metadata'' \<and> k \<noteq> ''spec'' \<longrightarrow> map_of (remove_immutable_fields patch) k = map_of patch k) \<and>
   (\<forall>spec. map_of patch ''spec'' = Some (YMap spec) \<longrightarrow>
      (\<exists>spec'. map_of (remove_immutable_fields patch) ''spec'' = Some (YMap spec') \<and>
        map_of spec' = (map_of spec)(''api'' := None, ''storage'' := None)))"
proof (intro conjI allI impI)
  have "''metadata'' \<noteq> ''spec''" by simp
  from removed_keys [OF this, of patch] show "map_of (remove_immutable_fields patch) ''metadata'' = None"
    unfolding delete_conv' by simp
next
  fix k assume k: "k \<noteq> ''metadata'' \<and> k \<noteq> ''spec''"
  from removed_keys [OF conjunct2 [OF k], of patch] show "map_of (remove_immutable_fields patch) k = map_of patch k"
    unfolding delete_conv' using k by simp
next
  fix spec assume "map_of patch ''spec'' = Some (YMap spec)"
  note r = removed_spec [OF this]
  show "\<exists>spec'. map_of (remove_immutable_fields patch) ''spec'' = Some (YMap spec') \<and>
      map_of spec' = (map_of spec)(''api'' := None, ''storage'' := None)"
    by (rule exI, rule conjI, rule r) (rule trans [OF delete_conv'], rule arg_cong [where f = "\<lambda>m. m(''storage'' := None)"], rule delete_conv')
qed

theorem immutable_fields_removed_witness:
  "map_of (remove_immutable_fields [(''metadata'', YNull), (''kind'', YStr ''ClusterConfig'')]) ''kind'' = Some (YStr ''ClusterConfig'')"
  using conjunct1 [OF conjunct2 [OF immutable_fields_removed [of "[(''metadata'', YNull), (''kind'', YStr ''ClusterConfig'')]"]],
    THEN spec, of "''kind''"] by simp

end
