(* ===== verification/Upgrade.thy ===== *)
theory Upgrade
  imports AddOns Extensions K0sConfig
begin

text \<open>
  The upgrade of a cluster (\<^verbatim>\<open>pkg-new/upgrade\<close>): release metadata and its cache
  (\<^verbatim>\<open>operator/pkg/release\<close>), autopilot plans (\<^verbatim>\<open>operator/pkg/autopilot\<close>, the waits of
  \<^verbatim>\<open>pkg-new/k0s\<close>), the cluster configuration, and the sequence k0s, add-ons, extensions. HTTP, JSON,
  slugs and the names of autopilot's plan states are parameters (\<open>upgrade_lib\<close>).
\<close>

section \<open>Parameters\<close>

record plan_states =
  ps_schedulable :: string
  ps_schedulable_wait :: string
  ps_completed :: string
  ps_warning :: string
  ps_incomplete_targets :: string
  ps_restricted :: string
  ps_apply_failed :: string

definition distinct_states :: "plan_states \<Rightarrow> bool" where
  "distinct_states S \<longleftrightarrow> distinct [[], ps_schedulable S, ps_schedulable_wait S, ps_completed S, ps_warning S,
     ps_incomplete_targets S, ps_restricted S, ps_apply_failed S]"

record upgrade_lib =
  ul_states :: plan_states
  ul_config :: config_lib
  ul_addons :: addon_lib
  ul_unmarshal_values :: "string \<Rightarrow> helm_values outcome"
  ul_arrange :: "diff_result list \<Rightarrow> diff_result list"
  ul_slug :: "string \<Rightarrow> string"
  ul_http_get :: "string \<Rightarrow> (int \<times> string) outcome"
  ul_decode_metadata :: "string \<Rightarrow> release_metadata outcome"
  ul_copy_metadata :: "release_metadata \<Rightarrow> release_metadata outcome"
  ul_metadata_client :: "unit outcome"
  ul_support_bundle_spec :: "string outcome"

section \<open>Release metadata\<close>

definition trim_v :: "string \<Rightarrow> string" where
  "trim_v s = (if prefix ''v'' s then tl s else s)"

definition local_version_metadata_configmap :: "upgrade_lib \<Rightarrow> string \<Rightarrow> nsname" where
  "local_version_metadata_configmap U version = (''embedded-cluster'', ''version-metadata-'' @ ul_slug U (trim_v version))"

definition meta_from_cache :: "upgrade_lib \<Rightarrow> string \<Rightarrow> (kube, release_metadata option) call" where
  "meta_from_cache U version = bind (gets (\<lambda>w. map_of (meta_cache w) version)) (\<lambda>m. case m of
       None \<Rightarrow> ret None
     | Some meta \<Rightarrow> bind (lift (ul_copy_metadata U meta)) (\<lambda>c. ret (Some c)))"

definition cache_meta :: "string \<Rightarrow> release_metadata \<Rightarrow> (kube, unit) call" where
  "cache_meta version meta = modify (\<lambda>w. w\<lparr>meta_cache := AList.update version meta (meta_cache w)\<rparr>)"

definition local_metadata_for :: "upgrade_lib \<Rightarrow> string \<Rightarrow> (kube, release_metadata option) call" where
  "local_metadata_for U version0 = (let version = trim_v version0; nsn = local_version_metadata_configmap U version in
     bind (gets (\<lambda>w. map_of (meta_cache w) version)) (\<lambda>cached.
     if cached \<noteq> None then meta_from_cache U version
     else bind (wrap (''failed to get config map '' @ snd nsn) (get_in config_maps nsn)) (\<lambda>cm.
          case map_of (cm_data cm) ''metadata.json'' of
            None \<Rightarrow> throw (EMsg (''metadata.json not found in config map '' @ snd nsn))
          | Some data \<Rightarrow> bind (wrap ''failed to decode bundle'' (lift (ul_decode_metadata U data))) (\<lambda>meta.
              bind (cache_meta version meta) (\<lambda>_. meta_from_cache U version)))))"

definition remote_metadata_for :: "upgrade_lib \<Rightarrow> installation_spec \<Rightarrow> config_spec \<Rightarrow> (kube, release_metadata option) call" where
  "remote_metadata_for U spec config = (let version = trim_v (ec_version config) in
     bind (gets (\<lambda>w. map_of (meta_cache w) version)) (\<lambda>cached.
     if cached \<noteq> None then meta_from_cache U version
     else
       let url = (if metadata_override_url config \<noteq> [] then metadata_override_url config
                  else metrics_base_url spec @ ''/embedded-cluster-public-files/metadata/v'' @ version @ ''.json'') in
       bind (wrap (''failed to get bundle from '' @ url) (lift (ul_http_get U url))) (\<lambda>(status, body).
       if status \<noteq> 200 then throw (EMsg (''failed to get bundle from '' @ url))
       else bind (wrap ''failed to decode bundle'' (lift (ul_decode_metadata U body))) (\<lambda>meta.
            bind (cache_meta version meta) (\<lambda>_. meta_from_cache U version)))))"

definition metadata_for :: "upgrade_lib \<Rightarrow> installation \<Rightarrow> (kube, release_metadata option) call" where
  "metadata_for U i = bind (lift (deref (spec_config (in_spec i)))) (\<lambda>config.
     if air_gap (in_spec i) then local_metadata_for U (ec_version config)
     else remote_metadata_for U (in_spec i) config)"

section \<open>Autopilot plans\<close>

definition reason_for_state :: "plan_states \<Rightarrow> plan \<Rightarrow> string" where
  "reason_for_state S p = (let s = plan_state p in
     if s = [] then ''Upgrade not yet scheduled''
     else if s = ps_schedulable S then ''Upgrade in being prepared''
     else if s = ps_schedulable_wait S then ''Upgrade is being prepared''
     else if s = ps_completed S then ''Upgrade has been completed''
     else if s = ps_warning S then ''Upgrade has failed with warnings''
     else if s = ps_incomplete_targets S then ''Upgrade has failed (malformed request)''
     else if s = ps_restricted S then ''Upgrade has failed (malformed request)''
     else if s = ps_apply_failed S then ''Upgrade apply has failed''
     else ''Upgrade is in an unknown state ('' @ s @ '')'')"

definition has_the_plan_ended :: "plan_states \<Rightarrow> plan \<Rightarrow> bool" where
  "has_the_plan_ended S p \<longleftrightarrow> \<not> (plan_state p = [] \<or> plan_state p = ps_schedulable S \<or> plan_state p = ps_schedulable_wait S)"

definition has_plan_succeeded :: "plan_states \<Rightarrow> plan \<Rightarrow> bool" where
  "has_plan_succeeded S p \<longleftrightarrow> plan_state p = ps_completed S"

definition has_plan_failed :: "plan_states \<Rightarrow> plan \<Rightarrow> bool" where
  "has_plan_failed S p \<longleftrightarrow> (if plan_state p \<in> {ps_incomplete_targets S, ps_restricted S, ps_warning S, ps_apply_failed S}
     then True else has_the_plan_ended S p \<and> \<not> has_plan_succeeded S p)"

definition get_plan :: "(kube, plan) call" where
  "get_plan = api (\<lambda>w. case autopilot_plan w of None \<Rightarrow> (Err (ENotFound ''autopilot''), w) | Some p \<Rightarrow> (Ok p, w))"

definition create_plan :: "plan \<Rightarrow> (kube, unit) call" where
  "create_plan p = api (\<lambda>w. case autopilot_plan w of Some _ \<Rightarrow> (Err (EAlreadyExists ''autopilot''), w)
     | None \<Rightarrow> (Ok (), w\<lparr>autopilot_plan := Some p, log := log w @ [PlanCreated (plan_installation p)]\<rparr>))"

definition delete_plan :: "(kube, unit) call" where
  "delete_plan = api (\<lambda>w. case autopilot_plan w of None \<Rightarrow> (Err (ENotFound ''autopilot''), w)
     | Some _ \<Rightarrow> (Ok (), w\<lparr>autopilot_plan := None, log := log w @ [PlanDeleted]\<rparr>))"

text \<open>The nodes of the control plane and the workers.\<close>

definition determine_upgrade_targets :: "(kube, string list \<times> string list) call" where
  "determine_upgrade_targets = bind (wrap ''failed to list nodes'' (api (gets nodes))) (\<lambda>ns.
     let control = (\<lambda>n. map_of (node_labels n) ''node-role.kubernetes.io/control-plane'' \<noteq> None) in
     ret (map node_name (filter control ns), map node_name (filter (\<lambda>n. \<not> control n) ns)))"

definition lookup_or_empty :: "(string \<times> string) list \<Rightarrow> string \<Rightarrow> string" where
  "lookup_or_empty m k = (case map_of m k of None \<Rightarrow> [] | Some v \<Rightarrow> v)"

definition k0s_url :: "runtime_config_spec \<Rightarrow> installation_spec \<Rightarrow> release_metadata \<Rightarrow> string" where
  "k0s_url rc spec meta =
     (if air_gap spec then ''http://127.0.0.1:'' @ show_nat (nat (rc_local_artifact_mirror_port rc)) @ ''/bin/k0s-upgrade''
      else let artifact = lookup_or_empty (rm_artifacts meta) ''k0s'' in
        if prefix ''https://'' artifact \<or> prefix ''http://'' artifact then artifact
        else metrics_base_url spec @ ''/embedded-cluster-public-files/'' @ artifact)"

definition start_autopilot_upgrade :: "runtime_config_spec \<Rightarrow> installation \<Rightarrow> release_metadata \<Rightarrow> (kube, installation) call" where
  "start_autopilot_upgrade rc i meta =
     bind (wrap ''failed to determine upgrade targets'' determine_upgrade_targets) (\<lambda>(controllers, workers).
     bind (wrap ''failed to create upgrade plan'' (create_plan \<lparr>plan_installation = in_name i,
        plan_commands = [UpdateK0s \<lparr>update_version = lookup_or_empty (rm_versions meta) ''Kubernetes'',
          update_controllers = controllers, update_workers = workers, update_url = k0s_url rc (in_spec i) meta,
          update_sha = rm_k0s_sha meta\<rparr>],
        plan_state = []\<rparr>)) (\<lambda>_.
     ret (i\<lparr>in_status := set_state InstallationStateEnqueued [] [] (in_status i)\<rparr>)))"

definition create_autopilot_plan :: "runtime_config_spec \<Rightarrow> installation \<Rightarrow> release_metadata \<Rightarrow> (kube, installation) call" where
  "create_autopilot_plan rc i meta = bind (attempt get_plan) (\<lambda>r. case r of
       Inl e \<Rightarrow> if \<not> is_not_found e then throw (EWrap ''get upgrade plan'' e)
         else wrap ''start upgrade'' (start_autopilot_upgrade rc i meta)
     | Inr _ \<Rightarrow> ret i)"

text \<open>Ninety tries, twenty seconds apart, and sixty tries, five seconds apart.\<close>

definition plan_ended_try :: "plan_states \<Rightarrow> err option \<Rightarrow> (kube, err option + plan) call" where
  "plan_ended_try S lst = bind (attempt get_plan) (\<lambda>r. case r of
       Inl e \<Rightarrow> ret (Inl (Some (EWrap ''get autopilot plan'' e)))
     | Inr p \<Rightarrow> ret (if has_the_plan_ended S p then Inr p else Inl lst))"

definition wait_for_autopilot_plan :: "'v lib \<Rightarrow> plan_states \<Rightarrow> (kube, plan) call" where
  "wait_for_autopilot_plan L S = bind (poll 90 (lib_tick L) (plan_ended_try S) None)
     (timed_out ''timed out waiting for autopilot plan'')"

definition cluster_nodes_match_version :: "string \<Rightarrow> (kube, bool) call" where
  "cluster_nodes_match_version version = bind (wrap ''list nodes'' (api (gets nodes))) (\<lambda>ns.
     ret (list_all (\<lambda>n. kubelet_version n = version) ns))"

definition nodes_match_try :: "string \<Rightarrow> err option \<Rightarrow> (kube, err option + unit) call" where
  "nodes_match_try version lst = bind (attempt (cluster_nodes_match_version version)) (\<lambda>r. case r of
       Inl e \<Rightarrow> ret (Inl (Some (EWrap ''check cluster nodes match version'' e)))
     | Inr b \<Rightarrow> ret (if b then Inr () else Inl lst))"

definition wait_for_cluster_nodes_match_version :: "'v lib \<Rightarrow> string \<Rightarrow> (kube, unit) call" where
  "wait_for_cluster_nodes_match_version L version =
     bind (poll 60 (lib_tick L) (nodes_match_try version) None) (\<lambda>r. case r of
       Inr u \<Rightarrow> ret u
     | Inl None \<Rightarrow> throw (EMsg (''cluster nodes did not match version '' @ version @ '' after upgrade''))
     | Inl (Some e) \<Rightarrow> throw (EWrap (''timed out waiting for cluster nodes to match version '' @ version) e))"

section \<open>Upgrading k0s\<close>

text \<open>\<open>strings.Split(s, sep)[0]\<close>\<close>

fun cut_before :: "string \<Rightarrow> string \<Rightarrow> string" where
  "cut_before sep [] = []"
| "cut_before sep (x # xs) = (if prefix sep (x # xs) then [] else x # cut_before sep xs)"

definition k0s_version_from_metadata :: "release_metadata option \<Rightarrow> string" where
  "k0s_version_from_metadata meta = (case meta of None \<Rightarrow> [] | Some m \<Rightarrow>
     (case map_of (rm_versions m) ''Kubernetes'' of None \<Rightarrow> [] | Some v \<Rightarrow> cut_before ''k0s'' v @ ''k0s''))"

definition is_our_plan :: "release_metadata \<Rightarrow> plan \<Rightarrow> bool" where
  "is_our_plan meta p = list_ex (\<lambda>c. case c of UpdateAirgap _ \<Rightarrow> False
     | UpdateK0s u \<Rightarrow> update_version u = lookup_or_empty (rm_versions meta) ''Kubernetes'') (plan_commands p)"

text \<open>
  One activation of the function, and its end, once a plan has ended; \<open>again\<close> is the call it
  ends with when the plan was another one.
\<close>

definition k0s_plan_ended :: "'v lib \<Rightarrow> upgrade_lib \<Rightarrow> (installation \<Rightarrow> (kube, installation) call) \<Rightarrow> string \<Rightarrow>
    release_metadata \<Rightarrow> installation \<Rightarrow> plan \<Rightarrow> (kube, installation) call" where
  "k0s_plan_ended L U again desired meta i p =
     (if has_plan_failed (ul_states U) p
      then throw (EMsg (''autopilot plan failed: '' @ reason_for_state (ul_states U) p))
      else if \<not> is_our_plan meta p
      then bind (wrap ''delete autopilot plan'' delete_plan) (\<lambda>_. again i)
      else
        bind (wrap ''wait for cluster nodes to match version'' (wait_for_cluster_nodes_match_version L desired)) (\<lambda>_.
        bind (wrap ''delete successful upgrade plan'' delete_plan) (\<lambda>_.
        wrap ''set installation state''
          (set_installation_state L i InstallationStateKubernetesInstalled ''Kubernetes upgraded'' []))))"

definition k0s_with_plan :: "'v lib \<Rightarrow> upgrade_lib \<Rightarrow> runtime_config_spec \<Rightarrow> (installation \<Rightarrow> (kube, installation) call) \<Rightarrow>
    string \<Rightarrow> release_metadata \<Rightarrow> installation \<Rightarrow> (kube, installation) call" where
  "k0s_with_plan L U rc again desired meta i =
     bind (wrap ''create autpilot upgrade plan'' (create_autopilot_plan rc i meta)) (\<lambda>i.
     bind (wrap ''wait for autpilot plan'' (wait_for_autopilot_plan L (ul_states U))) (k0s_plan_ended L U again desired meta i))"

definition upgrade_k0s_body :: "'v lib \<Rightarrow> upgrade_lib \<Rightarrow> runtime_config_spec \<Rightarrow>
    (installation \<Rightarrow> (kube, installation) call) \<Rightarrow> installation \<Rightarrow> (kube, installation) call" where
  "upgrade_k0s_body L U rc again i =
     bind (wrap ''get release metadata'' (metadata_for U i)) (\<lambda>meta_ptr.
     let desired = k0s_version_from_metadata meta_ptr in
     bind (wrap ''check cluster nodes match version'' (cluster_nodes_match_version desired)) (\<lambda>matches.
     if matches then ret i
     else
       bind (wrap ''update installation status''
         (set_installation_state L i InstallationStateInstalling ''Upgrading Kubernetes'' [[]])) (\<lambda>i.
       bind (lift (deref meta_ptr)) (\<lambda>meta. k0s_with_plan L U rc again desired meta i))))"

text \<open>The fuel is the depth of calls at which Go gives up with a stack overflow.\<close>

fun upgrade_k0s :: "nat \<Rightarrow> 'v lib \<Rightarrow> upgrade_lib \<Rightarrow> runtime_config_spec \<Rightarrow> installation \<Rightarrow> (kube, installation) call" where
  "upgrade_k0s 0 L U rc i = lift (Panic ''goroutine stack exceeds limit'')"
| "upgrade_k0s (Suc depth) L U rc i = upgrade_k0s_body L U rc (upgrade_k0s depth L U rc) i"

section \<open>The cluster configuration\<close>

definition get_cluster_config :: "(kube, k0s_config) call" where
  "get_cluster_config = api (\<lambda>w. case cluster_cfg w of None \<Rightarrow> (Err (ENotFound ''k0s''), w) | Some c \<Rightarrow> (Ok c, w))"

definition write_cluster_config :: "k0s_config \<Rightarrow> (kube, unit) call" where
  "write_cluster_config c = api (\<lambda>w. case cluster_cfg w of None \<Rightarrow> (Err (ENotFound ''k0s''), w)
     | Some _ \<Rightarrow> (Ok (), w\<lparr>cluster_cfg := Some c\<rparr>))"

definition update_pause_image :: "upgrade_lib \<Rightarrow> installation \<Rightarrow> (kube, unit) call" where
  "update_pause_image U i =
     bind (wrap ''get cluster config'' get_cluster_config) (\<lambda>current.
     bind (lift (render_k0s_config (ul_config U) (proxy_registry_domain (get_domains (spec_config (in_spec i)) None)))) (\<lambda>target.
     case cfg_images current of
       None \<Rightarrow> ret ()
     | Some images \<Rightarrow> bind (lift (deref (cfg_images target))) (\<lambda>target_images.
         if img_pause images = img_pause target_images then ret ()
         else wrap ''update cluster config''
                (write_cluster_config (current\<lparr>cfg_images := Some (images\<lparr>img_pause := img_pause target_images\<rparr>)\<rparr>)))))"

definition envoy_image_of :: "k0s_config \<Rightarrow> k0s_image option" where
  "envoy_image_of cfg = Option.bind (cfg_network cfg) (\<lambda>n. Option.bind (net_nllb n) (\<lambda>l.
     Option.bind (nllb_envoy l) (\<lambda>e. e)))"

definition set_envoy_image :: "k0s_image option \<Rightarrow> k0s_config \<Rightarrow> k0s_config" where
  "set_envoy_image img cfg = cfg\<lparr>cfg_network := map_option (\<lambda>n. n\<lparr>net_nllb :=
     map_option (\<lambda>l. l\<lparr>nllb_envoy := map_option (\<lambda>_. img) (nllb_envoy l)\<rparr>) (net_nllb n)\<rparr>) (cfg_network cfg)\<rparr>"

definition apply_overrides :: "config_lib \<Rightarrow> installation_spec \<Rightarrow> k0s_config \<Rightarrow> k0s_config outcome" where
  "apply_overrides C spec current =
     (let vendor = (case spec_config spec of None \<Rightarrow> [] | Some c \<Rightarrow> overrides_k0s c) in
      if vendor = [] \<and> end_user_k0s_overrides spec = [] then Ok current
      else
        bindO (if vendor \<noteq> [] then wrapO ''apply vendor unsupported overrides'' (patch_k0s_config C current vendor True)
               else Ok current) (\<lambda>cfg.
        bindO (if end_user_k0s_overrides spec \<noteq> []
               then wrapO ''apply end user unsupported overrides'' (patch_k0s_config C cfg (end_user_k0s_overrides spec) True)
               else Ok cfg) (\<lambda>cfg.
        Ok (case cfg_api cfg of None \<Rightarrow> cfg | Some a \<Rightarrow>
          if api_sans a \<noteq> [] then cfg\<lparr>cfg_api := Some (a\<lparr>api_sans := unique_string_slice (api_sans a)\<rparr>)\<rparr> else cfg))))"

definition update_cluster_config :: "upgrade_lib \<Rightarrow> installation \<Rightarrow> (kube, unit) call" where
  "update_cluster_config U i =
     bind (wrap ''get cluster config'' get_cluster_config) (\<lambda>current.
     bind (lift (render_k0s_config (ul_config U) (proxy_registry_domain (get_domains (spec_config (in_spec i)) None)))) (\<lambda>cfg.
     let with_images = (if cfg_images current \<noteq> None then current\<lparr>cfg_images := cfg_images cfg\<rparr> else current);
         with_envoy = (if envoy_image_of with_images \<noteq> None then set_envoy_image (envoy_image_of cfg) with_images
                       else with_images)
     in bind (lift (apply_overrides (ul_config U) (in_spec i) with_envoy)) (\<lambda>new.
        if with_envoy = current \<and> new = with_envoy then ret () else wrap ''update cluster config'' (write_cluster_config new))))"

section \<open>Add-ons, extensions and the whole upgrade\<close>

definition upgrade_options_of :: "runtime_config_spec \<Rightarrow> installation \<Rightarrow> upgrade_options" where
  "upgrade_options_of rc i = \<lparr>upg_cluster_id = cluster_id (in_spec i), upg_admin_console_port = rc_admin_console_port rc,
     upg_is_airgap = air_gap (in_spec i), upg_is_ha = high_availability (in_spec i),
     upg_disaster_recovery = (case spec_license_info (in_spec i) of None \<Rightarrow> False | Some l \<Rightarrow> is_dr_supported l),
     upg_is_multi_node = (case spec_license_info (in_spec i) of None \<Rightarrow> False | Some l \<Rightarrow> is_multi_node_enabled l),
     upg_embedded_config = spec_config (in_spec i), upg_end_user_config = None, upg_proxy = rc_proxy rc,
     upg_host_ca_path = host_ca_bundle_path rc, upg_kotsadm_ns = ''kotsadm'', upg_data_dir = ec_home_directory rc,
     upg_k0s_dir = ec_k0s_sub_dir rc, upg_openebs_dir = ec_openebs_local_sub_dir rc,
     upg_seaweedfs_dir = ec_seaweedfs_sub_dir rc, upg_service_cidr = service_cidr (rc_network rc)\<rparr>"

definition upgrade_addons :: "'v lib \<Rightarrow> upgrade_lib \<Rightarrow> runtime_config_spec \<Rightarrow> bool \<Rightarrow> installation \<Rightarrow> (kube, installation) call" where
  "upgrade_addons L U rc progress i =
     bind (wrap ''set installation state''
       (set_installation_state L i InstallationStateAddonsInstalling ''Upgrading addons'' [])) (\<lambda>i.
     bind (wrap ''get release metadata'' (metadata_for U i)) (\<lambda>meta_ptr. case meta_ptr of
       None \<Rightarrow> throw (EMsg ''no images available'')
     | Some meta \<Rightarrow>
        if rm_images meta = None then throw (EMsg ''no images available'')
        else
          bind (wrap ''create metadata client'' (lift (ul_metadata_client U))) (\<lambda>_.
          bind (wrap ''upgrade addons'' (addons_upgrade L
            \<lparr>ads_lib = ul_addons U, ads_domains = get_domains (spec_config (in_spec i)) None, ads_progress = progress\<rparr>
            i meta (upgrade_options_of rc i))) (\<lambda>i.
          wrap ''set installation state''
            (set_installation_state L i InstallationStateAddonsInstalled ''Addons upgraded'' [])))))"

definition upgrade_exts :: "'v lib \<Rightarrow> upgrade_lib \<Rightarrow> installation \<Rightarrow> (kube, installation) call" where
  "upgrade_exts L U i =
     bind (wrap ''set installation state''
       (set_installation_state L i InstallationStateAddonsInstalling ''Upgrading extensions'' [])) (\<lambda>i.
     bind (wrap ''get previous installation'' (get_previous_installation L i)) (\<lambda>previous.
     bind (wrap ''upgrade extensions''
       (upgrade_extensions L (ul_unmarshal_values U) (ul_arrange U) (Some previous) i)) (\<lambda>i.
     wrap ''set installation state''
       (set_installation_state L i InstallationStateAddonsInstalled ''Extensions upgraded'' []))))"

definition support_bundle_key :: nsname where
  "support_bundle_key = (''kotsadm'', ''embedded-cluster-host-support-bundle'')"

definition create_host_support_bundle :: "upgrade_lib \<Rightarrow> (kube, unit) call" where
  "create_host_support_bundle U = bind (lift (ul_support_bundle_spec U)) (\<lambda>spec.
     let cm = \<lparr>cm_annotations = [], cm_data = [(''support-bundle-spec'', spec)]\<rparr> in
     bind (attempt (create_in config_maps config_maps_update support_bundle_key cm)) (\<lambda>r. case r of
       Inr u \<Rightarrow> ret u
     | Inl e \<Rightarrow> if \<not> is_already_exists e then throw (EWrap ''unable to create config map'' e)
         else wrap ''unable to update config map'' (write_in config_maps config_maps_update support_bundle_key cm)))"

definition override_data_dirs :: "'v lib \<Rightarrow> installation \<Rightarrow> (kube, installation) call" where
  "override_data_dirs L i =
     bind (wrap ''get latest installation'' (get_previous_installation L i)) (\<lambda>previous.
     bind (wrap ''override installation data dirs''
       (lift (maybe_override_installation_data_dirs L i (Some previous)))) (\<lambda>(next, _). ret next))"

text \<open>The steps after k0s, and all of them.\<close>

definition upgrade_after_k0s :: "'v lib \<Rightarrow> upgrade_lib \<Rightarrow> runtime_config_spec \<Rightarrow> installation \<Rightarrow> (kube, installation) call" where
  "upgrade_after_k0s L U rc i =
     bind (wrap ''cluster config update'' (update_cluster_config U i)) (\<lambda>_.
     bind (wrap ''upgrade addons'' (upgrade_addons L U rc False i)) (\<lambda>i.
     bind (wrap ''upgrade extensions'' (upgrade_exts L U i)) (\<lambda>i.
     bind (attempt (create_host_support_bundle U)) (\<lambda>_.
     wrap ''set installation state''
       (set_installation_state L i InstallationStateInstalled ''Installed'' [])))))"

definition prepare_upgrade :: "'v lib \<Rightarrow> upgrade_lib \<Rightarrow> runtime_config_spec \<Rightarrow> installation \<Rightarrow>
    (kube, runtime_config_spec \<times> installation) call" where
  "prepare_upgrade L U rc i =
     bind (lift (deref (spec_config (in_spec i)))) (\<lambda>_.
     bind (wrap ''override installation data dirs'' (override_data_dirs L i)) (\<lambda>i.
     let rc = rc_set (runtime_config (in_spec i)) rc in
     bind (wrap ''pause image update'' (update_pause_image U i)) (\<lambda>_. ret (rc, i))))"

definition upgrade :: "nat \<Rightarrow> 'v lib \<Rightarrow> upgrade_lib \<Rightarrow> runtime_config_spec \<Rightarrow> installation \<Rightarrow> (kube, installation) call" where
  "upgrade depth L U rc i =
     bind (prepare_upgrade L U rc i) (\<lambda>(rc, i).
     bind (wrap ''k0s upgrade'' (upgrade_k0s depth L U rc i)) (upgrade_after_k0s L U rc))"

end
