(* ===== verification/UpgradeK0s.thy ===== *)
theory UpgradeK0s
  imports Upgrade
begin

text \<open>
  The upgrade of k0s. Metadata is read once per version and cached; the call that returns has seen
  every node on that version; it calls itself at most once; and a plan that failed blocks it.
  What the rest of the system may do while the code waits are hypotheses on \<open>lib_tick\<close>.
\<close>

section \<open>Metadata is read once\<close>

text \<open>A call that changes nothing but the cache, to which it may add a version.\<close>

definition only_caches :: "kube \<Rightarrow> kube \<Rightarrow> bool" where
  "only_caches w w' \<longleftrightarrow> w'\<lparr>faults := [], meta_cache := []\<rparr> = w\<lparr>faults := [], meta_cache := []\<rparr> \<and>
     (\<forall>v m. map_of (meta_cache w) v = Some m \<longrightarrow> map_of (meta_cache w') v = Some m)"

interpretation oc: kube_frame only_caches
  by unfold_locales (auto simp: only_caches_def)

lemma only_caches_fields:
  assumes "only_caches w w'"
  shows "installs w' = installs w" "nodes w' = nodes w" "autopilot_plan w' = autopilot_plan w"
    "cluster_cfg w' = cluster_cfg w" "releases w' = releases w" "log w' = log w"
  using assms unfolding only_caches_def by (cases w; cases w'; simp)+

definition cached_metadata :: "upgrade_lib \<Rightarrow> kube \<Rightarrow> installation \<Rightarrow> release_metadata \<Rightarrow> bool" where
  "cached_metadata U w i meta \<longleftrightarrow> (\<exists>config m. spec_config (in_spec i) = Some config \<and>
     map_of (meta_cache w) (trim_v (ec_version config)) = Some m \<and> ul_copy_metadata U m = Ok meta)"

lemma meta_from_cache_run:
  assumes "meta_from_cache U v w = (r, w')" "map_of (meta_cache w) v = Some m"
  shows "w' = w" "r = Ok x \<Longrightarrow> \<exists>c. x = Some c \<and> ul_copy_metadata U m = Ok c"
  using assms unfolding meta_from_cache_def by (cases "ul_copy_metadata U m"; auto simp: call_defs)+

definition or_loaded :: "upgrade_lib \<Rightarrow> string \<Rightarrow> (kube, release_metadata) call \<Rightarrow> (kube, release_metadata option) call" where
  "or_loaded U v load = bind (gets (\<lambda>w. map_of (meta_cache w) v)) (\<lambda>cached. if cached \<noteq> None then meta_from_cache U v
     else bind load (\<lambda>meta. bind (cache_meta v meta) (\<lambda>_. meta_from_cache U v)))"

lemma or_loaded_run:
  assumes load: "keeps faults_only load" and run: "or_loaded U v load w = (r, w')"
  shows "only_caches w w'" "r = Ok x \<Longrightarrow> \<exists>m meta. x = Some meta \<and> map_of (meta_cache w') v = Some m \<and> ul_copy_metadata U m = Ok meta"
proof -
  have "only_caches w w' \<and> (r = Ok x \<longrightarrow> (\<exists>m meta. x = Some meta \<and> map_of (meta_cache w') v = Some m \<and> ul_copy_metadata U m = Ok meta))"
  proof (cases "map_of (meta_cache w) v")
    case (Some m)
    with run have "meta_from_cache U v w = (r, w')" by (simp add: or_loaded_def bind_def gets_def)
    from meta_from_cache_run [OF this Some] Some show ?thesis by (auto simp: oc.frame_refl)
  next
    case None
    obtain q u where q: "load w = (q, u)" by (cases "load w")
    obtain fs where u: "u = w\<lparr>faults := fs\<rparr>" using keepsD [OF load q] unfolding faults_only_def by blast
    show ?thesis
    proof (cases q)
      case (Ok meta)
      let ?v = "u\<lparr>meta_cache := AList.update v meta (meta_cache u)\<rparr>"
      from run None q Ok have k: "meta_from_cache U v ?v = (r, w')"
        by (simp add: or_loaded_def bind_def gets_def cache_meta_def modify_def)
      have m: "map_of (meta_cache ?v) v = Some meta" by (simp add: update_conv')
      have "only_caches w ?v" using None u by (auto simp: only_caches_def update_conv')
      with meta_from_cache_run [OF k m] m show ?thesis by auto
    qed (use run None q u in \<open>auto simp: or_loaded_def bind_def gets_def only_caches_def\<close>)
  qed
  then show "only_caches w w'" "r = Ok x \<Longrightarrow> \<exists>m meta. x = Some meta \<and> map_of (meta_cache w') v = Some m \<and> ul_copy_metadata U m = Ok meta"
    by blast+
qed

definition load_local :: "upgrade_lib \<Rightarrow> nsname \<Rightarrow> (kube, release_metadata) call" where
  "load_local U nsn = bind (wrap (''failed to get config map '' @ snd nsn) (get_in config_maps nsn)) (\<lambda>cm.
     case map_of (cm_data cm) ''metadata.json'' of
       None \<Rightarrow> throw (EMsg (''metadata.json not found in config map '' @ snd nsn))
     | Some data \<Rightarrow> wrap ''failed to decode bundle'' (lift (ul_decode_metadata U data)))"

definition load_remote :: "upgrade_lib \<Rightarrow> string \<Rightarrow> (kube, release_metadata) call" where
  "load_remote U url = bind (wrap (''failed to get bundle from '' @ url) (lift (ul_http_get U url))) (\<lambda>(status, body).
     if status \<noteq> 200 then throw (EMsg (''failed to get bundle from '' @ url))
     else wrap ''failed to decode bundle'' (lift (ul_decode_metadata U body)))"

lemma local_as_loaded: "local_metadata_for U v = or_loaded U (trim_v v) (load_local U (local_version_metadata_configmap U (trim_v v)))"
  unfolding local_metadata_for_def or_loaded_def load_local_def Let_def bind_assoc bind_case_option ..

lemma remote_as_loaded: "remote_metadata_for U spec config = or_loaded U (trim_v (ec_version config))
    (load_remote U (if metadata_override_url config \<noteq> [] then metadata_override_url config
       else metrics_base_url spec @ ''/embedded-cluster-public-files/metadata/v'' @ trim_v (ec_version config) @ ''.json''))"
  unfolding remote_metadata_for_def or_loaded_def load_remote_def Let_def bind_assoc
  by (rule ext, rule bind_cong_run [OF refl]) (auto intro!: bind_cong_run split: prod.split)

lemma keeps_loads: "keeps faults_only (load_local U nsn)" "keeps faults_only (load_remote U url)"
  unfolding load_local_def load_remote_def by (intro fo.object_rules)+

lemma metadata_for_run:
  assumes run: "metadata_for U i w = (r, w')"
  shows "only_caches w w'" "r = Ok x \<Longrightarrow> \<exists>meta. x = Some meta \<and> cached_metadata U w' i meta"
proof -
  have "only_caches w w' \<and> (r = Ok x \<longrightarrow> (\<exists>meta. x = Some meta \<and> cached_metadata U w' i meta))"
  proof (cases "spec_config (in_spec i)")
    case None
    with run show ?thesis by (auto simp: metadata_for_def bind_def lift_def oc.frame_refl)
  next
    case (Some config)
    show ?thesis
    proof (cases "air_gap (in_spec i)")
      case True
      with run Some have "or_loaded U (trim_v (ec_version config))
          (load_local U (local_version_metadata_configmap U (trim_v (ec_version config)))) w = (r, w')"
        by (simp add: metadata_for_def bind_def lift_def local_as_loaded)
      from or_loaded_run [OF keeps_loads(1) this] Some show ?thesis unfolding cached_metadata_def by auto
    next
      case False
      with run Some have "remote_metadata_for U (in_spec i) config w = (r, w')"
        by (simp add: metadata_for_def bind_def lift_def)
      from or_loaded_run [OF keeps_loads(2) this [unfolded remote_as_loaded]] Some
      show ?thesis unfolding cached_metadata_def by auto
    qed
  qed
  then show "only_caches w w'" "r = Ok x \<Longrightarrow> \<exists>meta. x = Some meta \<and> cached_metadata U w' i meta" by blast+
qed

section \<open>The upgrade of k0s reaches the version\<close>

text \<open>What it keeps, and what the rest of the system is taken to keep: the stored specifications and the cache.\<close>

definition spec_of :: "kube \<Rightarrow> string \<Rightarrow> installation_spec option" where
  "spec_of w n = map_option in_spec (find_install (installs w) n)"

definition specs_kept :: "kube \<Rightarrow> kube \<Rightarrow> bool" where
  "specs_kept w w' \<longleftrightarrow> (\<forall>n. spec_of w' n = spec_of w n) \<and>
     (\<forall>v m. map_of (meta_cache w) v = Some m \<longrightarrow> map_of (meta_cache w') v = Some m)"

interpretation sk: kube_frame specs_kept
  by unfold_locales (auto simp: specs_kept_def spec_of_def)

lemma specs_kept_caches: "only_caches w w' \<Longrightarrow> specs_kept w w'"
  using only_caches_fields(1) [of w w'] by (simp add: specs_kept_def spec_of_def) (simp add: only_caches_def)

lemma find_put_status: "find_install ins n = Some cur \<Longrightarrow>
    find_install (put_install (cur\<lparr>in_status := st\<rparr>) ins) m = (if m = n then Some (cur\<lparr>in_status := st\<rparr>) else find_install ins m)"
  using ist.lookup_key [of ins n cur] by (simp add: ist.lookup_put)

lemma keeps_sk_status: "keeps specs_kept (update_installation_status L i f)"
  unfolding keeps_def
proof
  fix w
  obtain r w' where run: "update_installation_status L i f w = (r, w')" by (cases "update_installation_status L i f w")
  from update_installation_status_cases [OF run] show "specs_kept w (snd (update_installation_status L i f w))"
    unfolding run by (auto simp: specs_kept_def spec_of_def find_put_status)
qed

lemma keeps_sk_nodes_match: "keeps specs_kept (cluster_nodes_match_version v)"
  unfolding cluster_nodes_match_version_def by (intro sk.kube_frame_rules)

lemma keeps_sk_get_plan: "keeps specs_kept get_plan"
  unfolding get_plan_def by (rule sk.keeps_api) (auto simp: keeps_def sk.frame_refl split: option.split)

lemma keeps_sk_change_plan: "keeps specs_kept (create_plan p)" "keeps specs_kept delete_plan"
  unfolding create_plan_def delete_plan_def
  by (rule sk.keeps_api; auto simp: keeps_def specs_kept_def spec_of_def split: option.split)+

lemma keeps_sk_create: "keeps specs_kept (create_autopilot_plan rc i meta)"
  unfolding create_autopilot_plan_def start_autopilot_upgrade_def determine_upgrade_targets_def Let_def
  by (intro sk.kube_frame_rules keeps_sk_get_plan keeps_sk_change_plan)

lemma keeps_sk_waits:
  assumes "\<And>v. specs_kept v (lib_tick L v)"
  shows "keeps specs_kept (wait_for_autopilot_plan L S)" "keeps specs_kept (wait_for_cluster_nodes_match_version L v)"
  unfolding wait_for_autopilot_plan_def wait_for_cluster_nodes_match_version_def plan_ended_try_def nodes_match_try_def
    timed_out_def
  by (intro sk.kube_frame_rules sk.keeps_poll keeps_sk_get_plan keeps_sk_nodes_match assms)+

lemma cached_metadata_kept: "cached_metadata U w i meta \<Longrightarrow> specs_kept w w' \<Longrightarrow> cached_metadata U w' i meta"
  unfolding cached_metadata_def specs_kept_def by blast

lemma cached_metadata_cong: "spec_config (in_spec i) = spec_config (in_spec j) \<Longrightarrow> cached_metadata U w i = cached_metadata U w j"
  by (simp add: cached_metadata_def fun_eq_iff)

lemma nodes_match_Ok: "cluster_nodes_match_version v w = (Ok b, w') \<Longrightarrow>
    (\<exists>fs. w' = w\<lparr>faults := fs\<rparr>) \<and> b = list_all (\<lambda>n. kubelet_version n = v) (nodes w)"
  unfolding cluster_nodes_match_version_def by (auto simp: call_Ok_iffs dest!: api_Ok)

lemma wait_nodes_Ok:
  assumes "wait_for_cluster_nodes_match_version L v w = (Ok u, w')"
  shows "list_all (\<lambda>n. kubelet_version n = v) (nodes w')"
proof -
  have "poll 60 (lib_tick L) (nodes_match_try v) None w = (Ok (Inr u), w')"
  proof (cases "poll 60 (lib_tick L) (nodes_match_try v) None w")
    case (Pair q y)
    with assms show ?thesis unfolding wait_for_cluster_nodes_match_version_def bind_def
      by (cases q) (auto simp: throw_def split: sum.split_asm option.split_asm)
  qed
  from poll_Inr [where I = "\<lambda>_. True", OF this TrueI TrueI TrueI] obtain t y where "nodes_match_try v t y = (Ok (Inr u), w')"
    by (elim exE conjE)
  then have "cluster_nodes_match_version v y = (Ok True, w')"
    unfolding nodes_match_try_def bind_attempt_Ok_iff by (auto split: if_split_asm)
  from nodes_match_Ok [OF this] show ?thesis by (elim conjE exE) simp
qed

lemma set_state_Ok: "set_installation_state L i s r ps w = (Ok j, w') \<Longrightarrow> in_name j = in_name i \<and>
    spec_of w (in_name i) = Some (in_spec j) \<and> find_install (installs w') (in_name i) = Some j \<and> in_state (in_status j) = s \<and>
    nodes w' = nodes w \<and> autopilot_plan w' = autopilot_plan w"
  unfolding set_installation_state_def
  by (drule update_installation_status_Ok)
     (auto simp: spec_of_def find_put_status set_state_def find_install_name)

lemma create_plan_name: "create_autopilot_plan rc i meta w = (Ok j, w') \<Longrightarrow> in_name j = in_name i \<and> in_spec j = in_spec i"
  unfolding create_autopilot_plan_def start_autopilot_upgrade_def bind_attempt_Ok_iff
  by (auto simp: call_Ok_iffs split: if_splits prod.splits)

lemma delete_plan_Ok: "delete_plan w = (Ok u, w') \<Longrightarrow> nodes w' = nodes w \<and> autopilot_plan w' = None"
  unfolding delete_plan_def by (auto dest!: api_Ok split: option.splits)

abbreviation on_version :: "release_metadata \<Rightarrow> kube \<Rightarrow> bool" where
  "on_version meta w \<equiv> list_all (\<lambda>n. kubelet_version n = k0s_version_from_metadata (Some meta)) (nodes w)"

text \<open>A call that returned either saw the nodes on the version or removed another plan and called again.\<close>

lemma k0s_plan_ended_Ok:
  assumes tick: "\<And>v. specs_kept v (lib_tick L v)" and run: "k0s_plan_ended L U again desired meta i p w = (Ok i', w')"
  shows "list_all (\<lambda>n. kubelet_version n = desired) (nodes w') \<and> specs_kept w w' \<or>
    (\<exists>u. specs_kept w u \<and> autopilot_plan u = None \<and> again i u = (Ok i', w'))"
proof (cases "is_our_plan meta p")
  case False
  with run obtain u where d: "delete_plan w = (Ok (), u)" and a: "again i u = (Ok i', w')"
    unfolding k0s_plan_ended_def by (auto simp: bind_Ok_iff wrap_Ok_iff split: if_split_asm)
  with keepsD [OF keeps_sk_change_plan(2) d] delete_plan_Ok [OF d] show ?thesis by blast
next
  case True
  with run obtain u v where wn: "wait_for_cluster_nodes_match_version L desired w = (Ok (), u)"
    and d: "delete_plan u = (Ok (), v)"
    and st: "set_installation_state L i InstallationStateKubernetesInstalled ''Kubernetes upgraded'' [] v = (Ok i', w')"
    unfolding k0s_plan_ended_def by (auto simp: bind_Ok_iff wrap_Ok_iff split: if_split_asm)
  have "specs_kept w w'"
    by (rule sk.frame_trans [OF keepsD [OF keeps_sk_waits(2) [OF tick] wn] sk.frame_trans [OF
      keepsD [OF keeps_sk_change_plan(2) d] keepsD [OF keeps_sk_status st [unfolded set_installation_state_def]]]])
  with wait_nodes_Ok [OF wn] delete_plan_Ok [OF d] set_state_Ok [OF st] show ?thesis by simp
qed

lemma k0s_with_plan_Ok:
  assumes tick: "\<And>v. specs_kept v (lib_tick L v)" and run: "k0s_with_plan L U rc again desired meta i w = (Ok i', w')"
  shows "list_all (\<lambda>n. kubelet_version n = desired) (nodes w') \<and> specs_kept w w' \<or>
    (\<exists>j u. in_name j = in_name i \<and> in_spec j = in_spec i \<and> specs_kept w u \<and> autopilot_plan u = None \<and>
      again j u = (Ok i', w'))"
proof -
  from run obtain j v p u where cr: "create_autopilot_plan rc i meta w = (Ok j, v)"
    and wt: "wait_for_autopilot_plan L (ul_states U) v = (Ok p, u)"
    and k: "k0s_plan_ended L U again desired meta j p u = (Ok i', w')"
    unfolding k0s_with_plan_def by (auto simp: bind_Ok_iff wrap_Ok_iff)
  have "specs_kept w u"
    by (rule sk.frame_trans [OF keepsD [OF keeps_sk_create cr] keepsD [OF keeps_sk_waits(1) [OF tick] wt]])
  from k0s_plan_ended_Ok [OF tick k] create_plan_name [OF cr] sk.frame_trans [OF this] show ?thesis by blast
qed

lemma upgrade_k0s_body_Ok:
  assumes tick: "\<And>v. specs_kept v (lib_tick L v)" and run: "upgrade_k0s_body L U rc again i w = (Ok i', w')"
  shows "(\<exists>meta. cached_metadata U w' i meta \<and> on_version meta w' \<and> specs_kept w w') \<or>
    (\<exists>j u. in_name j = in_name i \<and> spec_of w (in_name i) = Some (in_spec j) \<and> specs_kept w u \<and>
      autopilot_plan u = None \<and> again j u = (Ok i', w'))"
proof -
  from run obtain mp v b u where m: "metadata_for U i w = (Ok mp, v)"
    and b: "cluster_nodes_match_version (k0s_version_from_metadata mp) v = (Ok b, u)"
    and k: "(if b then ret i else bind (wrap ''update installation status''
         (set_installation_state L i InstallationStateInstalling ''Upgrading Kubernetes'' [[]])) (\<lambda>i.
       bind (lift (deref mp)) (\<lambda>meta. k0s_with_plan L U rc again (k0s_version_from_metadata mp) meta i))) u = (Ok i', w')"
    unfolding upgrade_k0s_body_def Let_def bind_Ok_iff wrap_Ok_iff by (elim exE conjE) (rule that)
  from metadata_for_run(2) [OF m refl] obtain meta where mp: "mp = Some meta" and c: "cached_metadata U v i meta" by blast
  have s: "specs_kept v u" by (rule keepsD [OF keeps_sk_nodes_match b])
  have wu: "specs_kept w u" by (rule sk.frame_trans [OF specs_kept_caches [OF metadata_for_run(1) [OF m]] s])
  note c = cached_metadata_kept [OF c s]
  show ?thesis
  proof (cases b)
    case True
    with k nodes_match_Ok [OF b] mp have "w' = u" "on_version meta w'" by auto
    with c wu show ?thesis by blast
  next
    case False
    with k mp obtain j t where st: "set_installation_state L i InstallationStateInstalling ''Upgrading Kubernetes'' [[]] u = (Ok j, t)"
      and kt: "k0s_with_plan L U rc again (k0s_version_from_metadata (Some meta)) meta j t = (Ok i', w')"
      by (auto simp: bind_Ok_iff wrap_Ok_iff)
    have ut: "specs_kept u t" using keepsD [OF keeps_sk_status st [unfolded set_installation_state_def]] .
    have j: "in_name j = in_name i" "spec_of w (in_name i) = Some (in_spec j)"
      using set_state_Ok [OF st] wu by (auto simp: specs_kept_def)
    from k0s_with_plan_Ok [OF tick kt] show ?thesis
      using j cached_metadata_kept [OF c sk.frame_trans [OF ut]] sk.frame_trans [OF wu sk.frame_trans [OF ut]]
      by (elim disjE exE conjE) (blast, metis)
  qed
qed

lemma upgrade_k0s_Ok:
  assumes tick: "\<And>v. specs_kept v (lib_tick L v)"
  shows "upgrade_k0s depth L U rc i w = (Ok i', w') \<Longrightarrow>
    (\<And>s. spec_of w (in_name i) = Some s \<Longrightarrow> spec_config s = spec_config (in_spec i)) \<Longrightarrow>
    (\<exists>meta. cached_metadata U w' i meta \<and> on_version meta w') \<and> specs_kept w w'"
proof (induction depth arbitrary: i w)
  case (Suc depth)
  from upgrade_k0s_body_Ok [OF tick Suc.prems(1) [unfolded upgrade_k0s.simps]] show ?case
  proof (elim disjE exE conjE)
    fix j u
    assume j: "in_name j = in_name i" "spec_of w (in_name i) = Some (in_spec j)" and s: "specs_kept w u"
      and run: "upgrade_k0s depth L U rc j u = (Ok i', w')"
    have c: "spec_config (in_spec j) = spec_config (in_spec i)" by (rule Suc.prems(2) [OF j(2)])
    have "(\<exists>meta. cached_metadata U w' j meta \<and> on_version meta w') \<and> specs_kept u w'"
      by (rule Suc.IH [OF run]) (use j s in \<open>simp add: specs_kept_def\<close>)
    with sk.frame_trans [OF s] show ?thesis unfolding cached_metadata_cong [OF c] by blast
  qed blast
qed (simp add: lift_def)

section \<open>A second plan is never needed\<close>

definition commands_of :: "kube \<Rightarrow> plan_command list option" where
  "commands_of w = map_option plan_commands (autopilot_plan w)"

lemma get_plan_run: "get_plan w = (r, w') \<Longrightarrow> autopilot_plan w' = autopilot_plan w \<and>
    (\<forall>p. r = Ok p \<longrightarrow> autopilot_plan w = Some p) \<and> (autopilot_plan w = Some q \<longrightarrow> (\<forall>e. r = Err e \<longrightarrow> \<not> is_not_found e))"
  unfolding get_plan_def api_def using pop_fault_cases [of w]
  by (auto simp: bind_def throw_def split: fault.splits option.splits prod.splits outcome.splits)

lemma create_plan_Ok: "create_plan p w = (Ok u, w') \<Longrightarrow> autopilot_plan w' = Some p"
  unfolding create_plan_def by (auto dest!: api_Ok split: option.splits)

lemma create_autopilot_plan_new:
  assumes "autopilot_plan w = None" "create_autopilot_plan rc i meta w = (Ok j, w')"
  shows "\<exists>u. commands_of w' = Some [UpdateK0s u] \<and> update_version u = lookup_or_empty (rm_versions meta) ''Kubernetes''"
proof -
  from assms obtain v e where "wrap ''start upgrade'' (start_autopilot_upgrade rc i meta) v = (Ok j, w')"
    unfolding create_autopilot_plan_def bind_attempt_Ok_iff by (auto split: if_split_asm dest!: get_plan_run)
  then show ?thesis unfolding start_autopilot_upgrade_def
    by (auto simp: call_Ok_iffs commands_of_def dest!: create_plan_Ok split: prod.split_asm)
qed

lemma wait_for_plan_Ok:
  assumes "wait_for_autopilot_plan L S w = (Ok p, w')" "I w" "\<And>v. I v \<Longrightarrow> I (lib_tick L v)"
    and I: "\<And>v v'. autopilot_plan v' = autopilot_plan v \<Longrightarrow> I v \<Longrightarrow> I v'"
  shows "I w'" "autopilot_plan w' = Some p"
proof -
  from assms(1) have "poll 90 (lib_tick L) (plan_ended_try S) None w = (Ok (Inr p), w')"
    unfolding wait_for_autopilot_plan_def timed_out_def
    by (auto simp: bind_def throw_def split: prod.split_asm outcome.split_asm sum.split_asm option.split_asm)
  then have "\<exists>t v. I v \<and> plan_ended_try S t v = (Ok (Inr p), w')"
  proof (rule poll_Inr [where I = I, OF _ assms(2,3)])
    fix v t t' v' assume "I v" "plan_ended_try S t v = (Ok (Inl t'), v')"
    then show "I v'" unfolding plan_ended_try_def bind_attempt_Ok_iff by (auto dest!: get_plan_run intro: I)
  qed
  then obtain t v where v: "I v" "plan_ended_try S t v = (Ok (Inr p), w')" by (elim exE conjE)
  then have g: "get_plan v = (Ok p, w')"
    unfolding plan_ended_try_def bind_attempt_Ok_iff by (auto split: if_split_asm)
  from get_plan_run [OF g] v(1) show "I w'" "autopilot_plan w' = Some p" by (auto intro: I)
qed

lemma own_plan_no_recursion:
  assumes tick: "\<And>v c. commands_of v = Some c \<Longrightarrow> commands_of (lib_tick L v) = Some c" and none: "autopilot_plan w = None"
  shows "k0s_with_plan L U rc again desired meta i w = k0s_with_plan L U rc again' desired meta i w"
  unfolding k0s_with_plan_def
proof (rule bind_cong_run [OF refl])
  fix j v assume "wrap ''create autpilot upgrade plan'' (create_autopilot_plan rc i meta) w = (Ok j, v)"
  then obtain u where u: "commands_of v = Some [UpdateK0s u]" "update_version u = lookup_or_empty (rm_versions meta) ''Kubernetes''"
    using create_autopilot_plan_new [OF none] unfolding wrap_Ok_iff by blast
  show "bind (wrap ''wait for autpilot plan'' (wait_for_autopilot_plan L (ul_states U))) (k0s_plan_ended L U again desired meta j) v =
    bind (wrap ''wait for autpilot plan'' (wait_for_autopilot_plan L (ul_states U))) (k0s_plan_ended L U again' desired meta j) v"
  proof (rule bind_cong_run [OF refl])
    fix p w' assume "wrap ''wait for autpilot plan'' (wait_for_autopilot_plan L (ul_states U)) v = (Ok p, w')"
    then have wt: "wait_for_autopilot_plan L (ul_states U) v = (Ok p, w')" by (simp add: wrap_Ok_iff)
    have keep: "commands_of v2 = Some [UpdateK0s u]" if "autopilot_plan v2 = autopilot_plan v1" "commands_of v1 = Some [UpdateK0s u]" for v1 v2
      using that by (simp add: commands_of_def)
    have "plan_commands p = [UpdateK0s u]"
      using wait_for_plan_Ok [where I = "\<lambda>v. commands_of v = Some [UpdateK0s u]", OF wt u(1) tick keep]
      by (simp add: commands_of_def)
    then have "is_our_plan meta p" using u(2) by (simp add: is_our_plan_def)
    then show "k0s_plan_ended L U again desired meta j p w' = k0s_plan_ended L U again' desired meta j p w'"
      unfolding k0s_plan_ended_def by (simp cong: if_cong)
  qed
qed

lemma set_state_plan: "set_installation_state L i s r ps w = (Ok j, w') \<Longrightarrow> autopilot_plan w' = autopilot_plan w"
  by (drule set_state_Ok) simp

lemma body_no_recursion:
  assumes tick: "\<And>v c. commands_of v = Some c \<Longrightarrow> commands_of (lib_tick L v) = Some c" and none: "autopilot_plan w = None"
  shows "upgrade_k0s_body L U rc again i w = upgrade_k0s_body L U rc again' i w"
  unfolding upgrade_k0s_body_def Let_def
proof (rule bind_cong_run [OF refl], rule bind_cong_run [OF refl])
  fix mp v b u
  assume m: "wrap ''get release metadata'' (metadata_for U i) w = (Ok mp, v)"
    and b: "wrap ''check cluster nodes match version'' (cluster_nodes_match_version (k0s_version_from_metadata mp)) v = (Ok b, u)"
  have "autopilot_plan v = None" using only_caches_fields(3) [OF metadata_for_run(1) [OF m [unfolded wrap_Ok_iff]]] none by simp
  then have n: "autopilot_plan u = None" using nodes_match_Ok [OF b [unfolded wrap_Ok_iff]] by (elim conjE exE) simp
  have "bind (wrap c (set_installation_state L i s r ps)) (\<lambda>i. bind (lift (deref mp)) (\<lambda>meta.
      k0s_with_plan L U rc again (k0s_version_from_metadata mp) meta i)) u =
    bind (wrap c (set_installation_state L i s r ps)) (\<lambda>i. bind (lift (deref mp)) (\<lambda>meta.
      k0s_with_plan L U rc again' (k0s_version_from_metadata mp) meta i)) u" for c s r ps
    by (rule bind_cong_run [OF refl], rule bind_cong_run [OF refl], rule own_plan_no_recursion [OF tick])
       (use n in \<open>auto simp: wrap_Ok_iff dest: set_state_plan\<close>)
  then show "(if b then ret i else bind (wrap ''update installation status''
      (set_installation_state L i InstallationStateInstalling ''Upgrading Kubernetes'' [[]])) (\<lambda>i. bind (lift (deref mp)) (\<lambda>meta.
      k0s_with_plan L U rc again (k0s_version_from_metadata mp) meta i))) u =
    (if b then ret i else bind (wrap ''update installation status''
      (set_installation_state L i InstallationStateInstalling ''Upgrading Kubernetes'' [[]])) (\<lambda>i. bind (lift (deref mp)) (\<lambda>meta.
      k0s_with_plan L U rc again' (k0s_version_from_metadata mp) meta i))) u"
    by (cases b) simp_all
qed

section \<open>A plan that stays\<close>

definition plan_stays :: "plan \<Rightarrow> kube \<Rightarrow> kube \<Rightarrow> bool" where
  "plan_stays p w w' \<longleftrightarrow> (autopilot_plan w = Some p \<longrightarrow> autopilot_plan w' = Some p)"

interpretation ps: kube_frame "plan_stays p" for p
  by unfold_locales (auto simp: plan_stays_def)

text \<open>With the plan there, the call does not return a value and leaves the plan.\<close>

definition blocked :: "plan \<Rightarrow> (kube, 'a) call \<Rightarrow> bool" where
  "blocked p m \<longleftrightarrow> (\<forall>w r w'. autopilot_plan w = Some p \<longrightarrow> m w = (r, w') \<longrightarrow>
     autopilot_plan w' = Some p \<and> (\<forall>x. r \<noteq> Ok x))"

lemma blocked_bind:
  assumes m: "keeps (plan_stays p) m"
    and f: "\<And>w x w'. autopilot_plan w = Some p \<Longrightarrow> m w = (Ok x, w') \<Longrightarrow> blocked p (f x)"
  shows "blocked p (bind m f)"
  unfolding blocked_def
proof (intro allI impI)
  fix w r w' assume w: "autopilot_plan w = Some p" and run: "bind m f w = (r, w')"
  obtain q v where q: "m w = (q, v)" by (cases "m w")
  have v: "autopilot_plan v = Some p" using keepsD [OF m q] w by (simp add: plan_stays_def)
  show "autopilot_plan w' = Some p \<and> (\<forall>x. r \<noteq> Ok x)"
  proof (cases q)
    case (Ok x)
    with run q have "f x v = (r, w')" by (simp add: bind_def)
    with f [OF w q [unfolded Ok]] v show ?thesis unfolding blocked_def by blast
  qed (use run q v in \<open>auto simp: bind_def\<close>)
qed

lemma blocked_throw: "blocked p (throw e)" "blocked p (lift (Panic s))"
  by (auto simp: blocked_def throw_def lift_def)

lemma keeps_ps_get_plan: "keeps (plan_stays p) get_plan"
  unfolding keeps_def
proof
  fix w show "plan_stays p w (snd (get_plan w))"
    by (cases "get_plan w") (auto simp: plan_stays_def dest: get_plan_run)
qed

lemma keeps_ps_create: "keeps (plan_stays p) (create_autopilot_plan rc i meta)"
proof -
  have "keeps (plan_stays p) (create_plan q)" for q
    unfolding create_plan_def by (rule ps.keeps_api) (auto simp: keeps_def plan_stays_def split: option.split)
  then show ?thesis
    unfolding create_autopilot_plan_def start_autopilot_upgrade_def determine_upgrade_targets_def Let_def
    by (intro ps.kube_frame_rules keeps_ps_get_plan)
qed

lemma keeps_ps_installs: "keeps installs_only m \<Longrightarrow> keeps (plan_stays p) m"
  unfolding keeps_def plan_stays_def using installs_only_fields(4) by metis

definition failed_plan_stays :: "'v lib \<Rightarrow> plan \<Rightarrow> bool" where
  "failed_plan_stays L p \<longleftrightarrow> (\<forall>w. autopilot_plan w = Some p \<longrightarrow> autopilot_plan (lib_tick L w) = Some p)"

lemma keeps_ps_wait:
  assumes "failed_plan_stays L p"
  shows "keeps (plan_stays p) (wait_for_autopilot_plan L S)"
  unfolding wait_for_autopilot_plan_def plan_ended_try_def timed_out_def
  by (intro ps.kube_frame_rules ps.keeps_poll keeps_ps_get_plan)
     (use assms in \<open>simp add: failed_plan_stays_def plan_stays_def\<close>)

lemma blocked_by_failed_plan:
  assumes tick: "failed_plan_stays L p" and failed: "has_plan_failed (ul_states U) p"
  shows "blocked p (k0s_with_plan L U rc again desired meta i)"
  unfolding k0s_with_plan_def
proof (rule blocked_bind, rule ps.keeps_wrap, rule keeps_ps_create, rule blocked_bind, rule ps.keeps_wrap,
    rule keeps_ps_wait [OF tick])
  fix w q w' j assume w: "autopilot_plan w = Some p"
    and "wrap ''wait for autpilot plan'' (wait_for_autopilot_plan L (ul_states U)) w = (Ok q, w')"
  then have wt: "wait_for_autopilot_plan L (ul_states U) w = (Ok q, w')" by (simp add: wrap_Ok_iff)
  have t: "autopilot_plan (lib_tick L v) = Some p" if "autopilot_plan v = Some p" for v
    using tick that by (simp add: failed_plan_stays_def)
  have k: "autopilot_plan v' = Some p" if "autopilot_plan v' = autopilot_plan v" "autopilot_plan v = Some p" for v v' :: kube
    using that by simp
  from wait_for_plan_Ok [where I = "\<lambda>v. autopilot_plan v = Some p", OF wt w t k] have "q = p" by simp
  with failed show "blocked p (k0s_plan_ended L U again desired meta j q)"
    by (simp add: k0s_plan_ended_def blocked_throw)
qed

section \<open>A sample\<close>

definition sample_states :: plan_states where
  "sample_states = \<lparr>ps_schedulable = ''Schedulable'', ps_schedulable_wait = ''SchedulableWait'', ps_completed = ''Completed'',
     ps_warning = ''Warning'', ps_incomplete_targets = ''IncompleteTargets'', ps_restricted = ''Restricted'',
     ps_apply_failed = ''ApplyFailed''\<rparr>"

definition sample_config_lib :: config_lib where
  "sample_config_lib = \<lparr>kc_default = \<lparr>cfg_name = ''k0s'', cfg_konnectivity = False, cfg_telemetry = None, cfg_api = None,
       cfg_network = None, cfg_images = None, cfg_storage = [], cfg_etcd_peer = None, cfg_worker_profiles = [], cfg_extensions = None, cfg_rest = []\<rparr>,
     kc_default_calico = \<lparr>calico_env = [], calico_rest = []\<rparr>, kc_image_metadata = None, kc_unmarshal_body = (\<lambda>_. Ok []),
     kc_marshal_body = (\<lambda>_. Ok []), kc_marshal = (\<lambda>_. Ok []), kc_unmarshal = (\<lambda>_. Err (EMsg ''k0s.yaml'')),
     kc_yaml_to_json = Ok, kc_json_to_yaml = Ok, kc_merge_patch = (\<lambda>a _. Ok a)\<rparr>"

definition sample_upgrade_lib :: upgrade_lib where
  "sample_upgrade_lib = \<lparr>ul_states = sample_states, ul_config = sample_config_lib, ul_addons = sample_addon_lib,
     ul_unmarshal_values = sample_decode, ul_arrange = sample_arrange, ul_slug = id,
     ul_http_get = (\<lambda>_. Ok (200, ''{}'')), ul_decode_metadata = (\<lambda>_. Ok sample_metadata), ul_copy_metadata = Ok,
     ul_metadata_client = Ok (), ul_support_bundle_spec = Ok []\<rparr>"

definition sample_node :: "string \<Rightarrow> node" where
  "sample_node v = \<lparr>node_name = ''n'', node_labels = [], kubelet_version = v, node_info = [], node_capacity = [],
     node_allocatable = [], node_conditions = []\<rparr>"

definition sample_upgrading :: installation where
  "sample_upgrading = (sample_install ''2'' [])\<lparr>in_spec := sample_spec\<lparr>spec_config := Some (sample_config ''2.0.0'' [])\<rparr>\<rparr>"

text \<open>A cluster with one node, and the plan of an earlier attempt.\<close>

definition sample_cluster :: "string \<Rightarrow> plan option \<Rightarrow> kube" where
  "sample_cluster v p = (sample_kube [sample_upgrading])\<lparr>nodes := [sample_node v], autopilot_plan := p\<rparr>"

definition sample_failed_plan :: plan where
  "sample_failed_plan = \<lparr>plan_installation = ''1'', plan_commands = [], plan_state = ''ApplyFailed''\<rparr>"

lemma sample_metadata_run:
  "metadata_for sample_upgrade_lib sample_upgrading (sample_cluster v p) =
    (Ok (Some sample_metadata), (sample_cluster v p)\<lparr>meta_cache := [(''2.0.0'', sample_metadata)]\<rparr>)"
  by (simp add: metadata_for_def sample_upgrading_def sample_install_def sample_spec_def bind_def lift_def deref_def
      remote_metadata_for_def Let_def trim_v_def gets_def sample_cluster_def sample_kube_def wrap_def sample_upgrade_lib_def
      cache_meta_def modify_def meta_from_cache_def ret_def sample_config_def)

lemma nodes_match_run: "faults w = [] \<Longrightarrow>
    cluster_nodes_match_version v w = (Ok (list_all (\<lambda>n. kubelet_version n = v) (nodes w)), w)"
  by (simp add: cluster_nodes_match_version_def bind_def wrap_def gets_def ret_def)

lemma sample_cluster_simps [simp]: "faults (sample_cluster v p) = []" "nodes (sample_cluster v p) = [sample_node v]"
  "autopilot_plan (sample_cluster v p) = p" "kubelet_version (sample_node v) = v"
  by (simp_all add: sample_cluster_def sample_node_def)

lemma sample_version: "k0s_version_from_metadata (Some sample_metadata) = ''v1.31.2+k0s''"
  by (simp add: k0s_version_from_metadata_def sample_metadata_def)

section \<open>Properties\<close>

text \<open>
  C2: When the upgrade of k0s returns without an error, every node runs the version that the
  metadata of the installation's release names, however many plans were made or removed and
  whatever failed on the way.
\<close>

theorem upgrade_k0s_reaches_version:
  assumes "\<And>v. specs_kept v (lib_tick L v)"
    and "\<And>s. spec_of w (in_name i) = Some s \<Longrightarrow> spec_config s = spec_config (in_spec i)"
    and "upgrade_k0s depth L U rc i w = (Ok i', w')"
  shows "\<exists>config m meta. spec_config (in_spec i) = Some config \<and>
    map_of (meta_cache w') (trim_v (ec_version config)) = Some m \<and> ul_copy_metadata U m = Ok meta \<and>
    list_all (\<lambda>n. kubelet_version n = k0s_version_from_metadata (Some meta)) (nodes w')"
  using upgrade_k0s_Ok [OF assms(1,3,2)] unfolding cached_metadata_def by blast

theorem upgrade_k0s_reaches_version_witness:
  "\<exists>i' w'. upgrade_k0s 1 sample_lib sample_upgrade_lib empty_runtime_config sample_upgrading (sample_cluster ''v1.31.2+k0s'' None) = (Ok i', w') \<and>
    (\<exists>config m meta. spec_config (in_spec sample_upgrading) = Some config \<and>
      map_of (meta_cache w') (trim_v (ec_version config)) = Some m \<and> ul_copy_metadata sample_upgrade_lib m = Ok meta \<and>
      list_all (\<lambda>n. kubelet_version n = k0s_version_from_metadata (Some meta)) (nodes w'))"
proof -
  let ?w = "sample_cluster ''v1.31.2+k0s'' None"
  have run: "upgrade_k0s 1 sample_lib sample_upgrade_lib empty_runtime_config sample_upgrading ?w =
      (Ok sample_upgrading, ?w\<lparr>meta_cache := [(''2.0.0'', sample_metadata)]\<rparr>)"
    by (simp add: upgrade_k0s_body_def sample_metadata_run bind_def wrap_def Let_def sample_version
        nodes_match_run ret_def)
  have tick: "specs_kept v (lib_tick sample_lib v)" for v by (simp add: sample_lib_def sk.frame_refl)
  have "spec_config s = spec_config (in_spec sample_upgrading)" if "spec_of ?w (in_name sample_upgrading) = Some s" for s
    using that by (simp add: spec_of_def sample_cluster_def sample_upgrading_def sample_install_def)
  from upgrade_k0s_reaches_version [OF tick this run] run show ?thesis by blast
qed

text \<open>
  C3: The function calls itself at most once: what a second nested call would do, and any larger
  stack, makes no difference. Autopilot keeps a plan's commands.
\<close>

theorem upgrade_k0s_recursion_bounded:
  assumes "\<And>v c. commands_of v = Some c \<Longrightarrow> commands_of (lib_tick L v) = Some c"
  shows "upgrade_k0s (Suc (Suc n)) L U rc i w = upgrade_k0s_body L U rc (upgrade_k0s_body L U rc again) i w"
proof -
  let ?a = "upgrade_k0s (Suc n) L U rc" and ?b = "upgrade_k0s_body L U rc again"
  have inner: "?a j v = ?b j v" if "autopilot_plan v = None" for j v
    using body_no_recursion [OF assms that] by simp
  have ended: "k0s_plan_ended L U ?a d m j p v = k0s_plan_ended L U ?b d m j p v" for d m j p v
  proof (cases "is_our_plan m p")
    case False
    have "bind (wrap c delete_plan) (\<lambda>_. ?a j) v = bind (wrap c delete_plan) (\<lambda>_. ?b j) v" for c
      by (rule bind_cong_run [OF refl], rule inner) (auto simp: wrap_Ok_iff dest: delete_plan_Ok)
    with False show ?thesis unfolding k0s_plan_ended_def by (simp del: upgrade_k0s.simps)
  qed (simp add: k0s_plan_ended_def)
  have "k0s_with_plan L U rc ?a d m j = k0s_with_plan L U rc ?b d m j" for d m j
    unfolding k0s_with_plan_def by (rule ext, rule bind_cong_run [OF refl], rule bind_cong_run [OF refl], rule ended)
  then have "upgrade_k0s_body L U rc ?a i w = upgrade_k0s_body L U rc ?b i w"
    unfolding upgrade_k0s_body_def by (simp only:)
  then show ?thesis by simp
qed

theorem upgrade_k0s_recursion_bounded_witness:
  "upgrade_k0s 7 sample_lib sample_upgrade_lib empty_runtime_config sample_upgrading (sample_cluster ''v1.30.0+k0s'' None) =
    upgrade_k0s_body sample_lib sample_upgrade_lib empty_runtime_config (upgrade_k0s_body sample_lib sample_upgrade_lib empty_runtime_config ret)
      sample_upgrading (sample_cluster ''v1.30.0+k0s'' None)"
proof -
  have tick: "commands_of (lib_tick sample_lib v) = Some c" if "commands_of v = Some c" for v c
    using that by (simp add: sample_lib_def)
  have "(7::nat) = Suc (Suc 5)" by simp
  then show ?thesis by (simp only:) (rule upgrade_k0s_recursion_bounded [OF tick])
qed

text \<open>
  C27: A plan that failed is never removed: while the nodes are not on the release's version, every
  call reports an error and leaves the plan for the next one to find, so no retry and no other
  upgrade succeeds.
\<close>

theorem failed_plan_blocks_upgrade:
  assumes "autopilot_plan w = Some p" "has_plan_failed (ul_states U) p" "failed_plan_stays L p"
    and behind: "\<And>meta v. metadata_for U i w = (Ok meta, v) \<Longrightarrow>
      \<not> list_all (\<lambda>n. kubelet_version n = k0s_version_from_metadata meta) (nodes w)"
    and run: "upgrade_k0s (Suc depth) L U rc i w = (r, w')"
  shows "autopilot_plan w' = Some p \<and> (\<forall>i'. r \<noteq> Ok i')"
proof -
  let ?rest = "\<lambda>mp. bind (wrap ''check cluster nodes match version''
      (cluster_nodes_match_version (k0s_version_from_metadata mp))) (\<lambda>matches.
     if matches then ret i else bind (wrap ''update installation status''
         (set_installation_state L i InstallationStateInstalling ''Upgrading Kubernetes'' [[]])) (\<lambda>i.
       bind (lift (deref mp)) (\<lambda>meta. k0s_with_plan L U rc (upgrade_k0s depth L U rc) (k0s_version_from_metadata mp) meta i)))"
  from run have run: "bind (wrap ''get release metadata'' (metadata_for U i)) ?rest w = (r, w')"
    by (simp only: upgrade_k0s.simps upgrade_k0s_body_def Let_def)
  obtain q v where m: "metadata_for U i w = (q, v)" by (cases "metadata_for U i w")
  note kept = only_caches_fields(2,3) [OF metadata_for_run(1) [OF m]]
  show ?thesis
  proof (cases q)
    case (Ok mp)
    from run m Ok have rest: "?rest mp v = (r, w')" by (simp add: bind_def wrap_def)
    obtain b u where b: "cluster_nodes_match_version (k0s_version_from_metadata mp) v = (b, u)"
      by (cases "cluster_nodes_match_version (k0s_version_from_metadata mp) v")
    have "keeps (plan_stays p) (cluster_nodes_match_version d)" for d
      unfolding cluster_nodes_match_version_def by (intro ps.kube_frame_rules)
    from keepsD [OF this b] assms(1) kept have u: "autopilot_plan u = Some p" by (simp add: plan_stays_def)
    show ?thesis
    proof (cases b)
      case bOk: (Ok x)
      have "\<not> x" using nodes_match_Ok [OF b [unfolded bOk]] behind [OF m [unfolded Ok]] kept by simp
      with rest b bOk have "bind (wrap ''update installation status''
          (set_installation_state L i InstallationStateInstalling ''Upgrading Kubernetes'' [[]])) (\<lambda>i.
        bind (lift (deref mp)) (\<lambda>meta. k0s_with_plan L U rc (upgrade_k0s depth L U rc) (k0s_version_from_metadata mp) meta i)) u = (r, w')"
        by (simp add: bind_def wrap_def)
      moreover have "blocked p (bind (wrap c (set_installation_state L i s t ps)) (\<lambda>i. bind (lift (deref mp))
          (\<lambda>meta. k0s_with_plan L U rc (upgrade_k0s depth L U rc) (k0s_version_from_metadata mp) meta i)))" for c s t ps
        by (intro blocked_bind ps.kube_frame_rules keeps_ps_installs [OF keeps_set_installation_state]
            blocked_by_failed_plan assms(2,3))
      ultimately show ?thesis using u unfolding blocked_def by blast
    qed (use rest b u in \<open>auto simp: bind_def wrap_def\<close>)
  qed (use run m kept assms(1) in \<open>auto simp: bind_def wrap_def\<close>)
qed

theorem failed_plan_blocks_upgrade_witness:
  "autopilot_plan (snd (upgrade_k0s 3 sample_lib sample_upgrade_lib empty_runtime_config sample_upgrading
      (sample_cluster ''v1.30.0+k0s'' (Some sample_failed_plan)))) = Some sample_failed_plan"
proof -
  let ?w = "sample_cluster ''v1.30.0+k0s'' (Some sample_failed_plan)"
  have p: "autopilot_plan ?w = Some sample_failed_plan" by (simp add: sample_cluster_def)
  have f: "has_plan_failed (ul_states sample_upgrade_lib) sample_failed_plan"
    by (simp add: has_plan_failed_def sample_upgrade_lib_def sample_states_def sample_failed_plan_def)
  have t: "failed_plan_stays sample_lib sample_failed_plan" by (simp add: failed_plan_stays_def sample_lib_def)
  have b: "\<not> list_all (\<lambda>n. kubelet_version n = k0s_version_from_metadata meta) (nodes ?w)"
    if "metadata_for sample_upgrade_lib sample_upgrading ?w = (Ok meta, v)" for meta v
    using that by (auto simp: sample_metadata_run sample_version)
  obtain r w' where run: "upgrade_k0s (Suc 2) sample_lib sample_upgrade_lib empty_runtime_config sample_upgrading ?w = (r, w')"
    by (meson surj_pair)
  from failed_plan_blocks_upgrade [OF p f t b run] run show ?thesis by (simp add: eval_nat_numeral del: upgrade_k0s.simps)
qed

end
