(* ===== verification/Artifacts.thy ===== *)
theory Artifacts
  imports UpgradeK0s
begin

text \<open>
  Distributing a release (\<^verbatim>\<open>operator/pkg/metadata\<close>, \<^verbatim>\<open>operator/pkg/artifacts\<close>,
  \<^verbatim>\<open>pkg-new/artifacts\<close>): its metadata into a config map, its files onto every node with one job per
  node, and in air gap its images with an autopilot plan. Registry pulls, files, HTTP, hashes and
  encodings are parameters (\<open>artifact_lib\<close>); a wait without a limit of its own ends when its context is
  cancelled, after \<open>ar_tries\<close> tries.
\<close>

section \<open>Parameters\<close>

record artifact_lib =
  ar_upgrade :: upgrade_lib
  ar_marshal_installation :: "installation \<Rightarrow> string outcome"
  ar_marshal_artifacts :: "artifacts_location option \<Rightarrow> string outcome"
  ar_sha256_hex :: "string \<Rightarrow> string"
  ar_base64 :: "string \<Rightarrow> string"
  ar_mkdir_temp :: "string outcome"
  ar_pull :: "bool \<Rightarrow> string \<Rightarrow> string \<Rightarrow> unit outcome"
  ar_read_file :: "string \<Rightarrow> string outcome"
  ar_retryable :: "err \<Rightarrow> bool"
  ar_tries :: nat

section \<open>Names\<close>

definition name_with_length_limit :: "string \<Rightarrow> string \<Rightarrow> string" where
  "name_with_length_limit pre suf =
     (let candidate = pre @ suf in
      if length candidate \<le> 63 then candidate
      else take 31 candidate @ drop (length candidate - 32) candidate)"

section \<open>Ensuring an object\<close>

text \<open>
  The object is created if it is missing; one that should not stay is deleted first, and its end
  awaited. \<open>get\<close>, \<open>create\<close> and \<open>delete\<close> are the calls on its kind and key.
\<close>

definition gone_try :: "(kube, 'o) call \<Rightarrow> unit \<Rightarrow> (kube, unit + unit) call" where
  "gone_try get u = bind (attempt get) (\<lambda>r. case r of
       Inl e \<Rightarrow> if is_not_found e then ret (Inr ()) else throw (EWrap ''get object'' e)
     | Inr _ \<Rightarrow> ret (Inl ()))"

definition until_cancelled :: "nat \<Rightarrow> (kube \<Rightarrow> kube) \<Rightarrow> (unit \<Rightarrow> (kube, unit + 'a) call) \<Rightarrow> (kube, 'a) call" where
  "until_cancelled n tick cond = bind (poll n tick cond ()) (\<lambda>r. case r of
       Inr x \<Rightarrow> ret x | Inl _ \<Rightarrow> throw (EMsg ''context canceled''))"

definition ensure_artifact_object :: "'v lib \<Rightarrow> nat \<Rightarrow> (kube, 'o) call \<Rightarrow> (kube, unit) call \<Rightarrow> (kube, unit) call \<Rightarrow>
    ('o \<Rightarrow> bool) \<Rightarrow> (kube, unit) call" where
  "ensure_artifact_object L n get create delete should_delete = bind (attempt get) (\<lambda>r. case r of
       Inl e \<Rightarrow> if \<not> is_not_found e then throw (EWrap ''get object'' e) else wrap ''create object'' create
     | Inr x \<Rightarrow> if should_delete x
         then bind (wrap ''delete object'' delete) (\<lambda>_.
              bind (wrap ''wait for delete'' (until_cancelled n (lib_tick L) (gone_try get))) (\<lambda>_.
              wrap ''create object'' create))
         else ret ())"

section \<open>The release's metadata in a config map\<close>

definition pull_artifact :: "artifact_lib \<Rightarrow> string \<Rightarrow> string outcome" where
  "pull_artifact A from_repo = bindO (wrapO ''create temp dir'' (ar_mkdir_temp A)) (\<lambda>dir.
     case ar_pull A False from_repo dir of
       Ok _ \<Rightarrow> Ok dir
     | Panic p \<Rightarrow> Panic p
     | Err e \<Rightarrow> (case ar_pull A True from_repo dir of Ok _ \<Rightarrow> Ok dir | Panic p \<Rightarrow> Panic p | Err _ \<Rightarrow> Err e))"

definition get_remote_metadata_airgap :: "artifact_lib \<Rightarrow> artifacts_location \<Rightarrow> string outcome" where
  "get_remote_metadata_airgap A loc =
     bindO (wrapO ''pull artifact'' (pull_artifact A (art_metadata loc))) (\<lambda>dir.
     wrapO ''read file'' (ar_read_file A (path_join dir ''version-metadata.json'')))"

definition get_remote_metadata_online :: "artifact_lib \<Rightarrow> installation_spec \<Rightarrow> config_spec \<Rightarrow> string outcome" where
  "get_remote_metadata_online A spec config =
     (let url = (if metadata_override_url config \<noteq> [] then metadata_override_url config
        else metrics_base_url spec @ ''/embedded-cluster-public-files/metadata/v'' @ trim_v (ec_version config) @ ''.json'')
      in bindO (wrapO (''http get '' @ url) (ul_http_get (ar_upgrade A) url)) (\<lambda>(status, body).
         if status \<noteq> 200 then Err (EMsg (''http get '' @ url @ '' unexpected status code''))
         else Ok body))"

definition copy_version_metadata_to_cluster :: "artifact_lib \<Rightarrow> installation \<Rightarrow> (kube, unit) call" where
  "copy_version_metadata_to_cluster A i = (case (spec_artifacts (in_spec i), spec_config (in_spec i)) of
       (Some loc, Some config) \<Rightarrow>
         if ec_version config = [] then ret ()
         else
           let nsn = local_version_metadata_configmap (ar_upgrade A) (ec_version config) in
           bind (attempt (get_in config_maps nsn)) (\<lambda>r. case r of
             Inr _ \<Rightarrow> ret ()
           | Inl e \<Rightarrow> if \<not> is_not_found e then throw (EWrap ''get configmap'' e)
               else
                 bind (if air_gap (in_spec i)
                       then wrap ''get remote metadata airgap'' (lift (get_remote_metadata_airgap A loc))
                       else wrap ''get remote metadata online'' (lift (get_remote_metadata_online A (in_spec i) config))) (\<lambda>data.
                 wrap ''create configmap'' (create_in config_maps config_maps_update nsn
                   \<lparr>cm_annotations = [], cm_data = [(''metadata.json'', data)]\<rparr>)))
     | _ \<Rightarrow> ret ())"

section \<open>The jobs\<close>

abbreviation installation_name_annotation :: string where
  "installation_name_annotation \<equiv> ''embedded-cluster.replicated.com/installation-name''"

abbreviation config_hash_annotation :: string where
  "config_hash_annotation \<equiv> ''embedded-cluster.replicated.com/artifacts-config-hash''"

definition ec_operator_labels :: "(string \<times> string) list \<Rightarrow> string \<Rightarrow> (string \<times> string) list" where
  "ec_operator_labels labels component =
     map_set ''app.kubernetes.io/managed-by'' ''embedded-cluster-operator''
       (map_set ''app.kubernetes.io/part-of'' ''embedded-cluster''
         (map_set ''app.kubernetes.io/component'' component labels))"

definition hash_for_airgap_config :: "artifact_lib \<Rightarrow> installation \<Rightarrow> string outcome" where
  "hash_for_airgap_config A i = (if \<not> air_gap (in_spec i) then Ok []
     else bindO (wrapO ''failed to marshal artifacts location'' (ar_marshal_artifacts A (spec_artifacts (in_spec i)))) (\<lambda>data.
          Ok (take 10 (ar_sha256_hex A data))))"

definition artifacts_job_annotations :: "(string \<times> string) list \<Rightarrow> installation \<Rightarrow> string \<Rightarrow> (string \<times> string) list" where
  "artifacts_job_annotations annotations i hash =
     map_set config_hash_annotation hash (map_set installation_name_annotation (in_name i) annotations)"

definition newline :: string where "newline = [CHR 0x0A]"

definition echo_end :: string where "echo_end = ''echo '' @ [CHR 0x27] @ ''done'' @ [CHR 0x27]"

definition copy_artifacts_command_online :: "string list" where
  "copy_artifacts_command_online = [''/bin/sh'', ''-ex'', ''-c'',
     ''/usr/local/bin/local-artifact-mirror pull binaries --data-dir /embedded-cluster '' @
     ''--app-slug $APP_SLUG --channel-id $CHANNEL_ID --app-version $APP_VERSION '' @
     ''$INSTALLATION_DATA; '' @ newline @
     ''/embedded-cluster/bin/local-artifact-mirror migrate-containerd-config; '' @ newline @
     ''sleep 10; '' @ newline @ echo_end]"

definition copy_artifacts_command_airgap :: "string list" where
  "copy_artifacts_command_airgap = [''/bin/sh'', ''-ex'', ''-c'',
     ''/usr/local/bin/local-artifact-mirror pull binaries --data-dir /embedded-cluster $INSTALLATION_DATA; '' @ newline @
     ''/usr/local/bin/local-artifact-mirror pull images --data-dir /embedded-cluster $INSTALLATION_DATA; '' @ newline @
     ''/usr/local/bin/local-artifact-mirror pull helmcharts --data-dir /embedded-cluster $INSTALLATION_DATA; '' @ newline @
     ''/embedded-cluster/bin/local-artifact-mirror migrate-containerd-config --airgap; '' @ newline @
     ''mv /embedded-cluster/bin/k0s /embedded-cluster/bin/k0s-upgrade; '' @ newline @
     ''rm /embedded-cluster/images/images-amd64-* || true; '' @ newline @
     ''sleep 10; '' @ newline @ echo_end]"

text \<open>
  What a node's job is made for. The value of a variable that is read from a secret is the
  secret's name and entry; the mounts of the volumes are left out.
\<close>

record artifact_options =
  ao_mirror_image :: string
  ao_license_id :: string
  ao_app_slug :: string
  ao_channel_id :: string
  ao_app_version :: string

definition proxy_env :: "proxy_spec option \<Rightarrow> (string \<times> string) list" where
  "proxy_env p = (case p of None \<Rightarrow> [] | Some p \<Rightarrow>
     [(''HTTP_PROXY'', http_proxy p), (''HTTPS_PROXY'', https_proxy p), (''NO_PROXY'', no_proxy p)])"

definition ca_path_of :: "installation \<Rightarrow> string" where
  "ca_path_of i = (case runtime_config (in_spec i) of None \<Rightarrow> [] | Some r \<Rightarrow> host_ca_bundle_path r)"

definition artifact_job_image :: "installation \<Rightarrow> string \<Rightarrow> string" where
  "artifact_job_image i img = (case spec_config (in_spec i) of None \<Rightarrow> img | Some c \<Rightarrow>
     if \<not> air_gap (in_spec i) \<and> proxy_registry_domain (spec_domains c) \<noteq> []
     then replace_first img ''proxy.replicated.com'' (proxy_registry_domain (spec_domains c)) else img)"

definition artifact_job_key :: "string \<Rightarrow> nsname" where
  "artifact_job_key node = (''embedded-cluster'', name_with_length_limit ''copy-artifacts-'' node)"

definition get_artifact_job_for_node :: "artifact_lib \<Rightarrow> runtime_config_spec \<Rightarrow> installation \<Rightarrow> string \<Rightarrow>
    artifact_options \<Rightarrow> job_object outcome" where
  "get_artifact_job_for_node A rc i node opts =
     bindO (wrapO ''failed to hash airgap config'' (hash_for_airgap_config A i)) (\<lambda>hash.
     bindO (wrapO ''failed to marshal installation'' (ar_marshal_installation A i)) (\<lambda>data.
     Ok \<lparr>jo_active = 0, jo_succeeded = 0, jo_failed = 0, jo_backoff_limit = Some 2,
        jo_labels = ec_operator_labels [] ''upgrader'',
        jo_annotations = artifacts_job_annotations [] i hash,
        jo_image = artifact_job_image i (ao_mirror_image opts), jo_pull_policy = [],
        jo_env = [(''INSTALLATION'', in_name i), (''INSTALLATION_DATA'', ar_base64 A data),
            (''LOCAL_ARTIFACT_MIRROR_LICENSE_ID'', ''embedded-cluster-license-id/LICENSE_ID''),
            (''APP_SLUG'', ao_app_slug opts), (''CHANNEL_ID'', ao_channel_id opts), (''APP_VERSION'', ao_app_version opts)] @
          proxy_env (rc_proxy rc) @ (if ca_path_of i \<noteq> [] then [(''SSL_CERT_DIR'', ''/certs'')] else []),
        jo_command = (if air_gap (in_spec i) then copy_artifacts_command_airgap else copy_artifacts_command_online),
        jo_host_paths = [(''host'', ec_home_directory rc), (''etc-k0s'', ''/etc/k0s'')] @
          (if ca_path_of i \<noteq> [] then [(''host-ca-bundle'', ca_path_of i)] else []),
        jo_node = node, jo_conditions = []\<rparr>))"

definition job_is_stale :: "installation \<Rightarrow> string \<Rightarrow> job_object \<Rightarrow> bool" where
  "job_is_stale i cfghash j \<longleftrightarrow> lookup_or_empty (jo_annotations j) installation_name_annotation \<noteq> in_name i \<or>
     lookup_or_empty (jo_annotations j) config_hash_annotation \<noteq> cfghash"

definition ensure_artifacts_job_for_node :: "'v lib \<Rightarrow> artifact_lib \<Rightarrow> runtime_config_spec \<Rightarrow> installation \<Rightarrow>
    artifact_options \<Rightarrow> string \<Rightarrow> node \<Rightarrow> (kube, unit) call" where
  "ensure_artifacts_job_for_node L A rc i opts cfghash n =
     bind (wrap ''get job for node'' (lift (get_artifact_job_for_node A rc i (node_name n) opts))) (\<lambda>job.
     let key = artifact_job_key (node_name n) in
     wrap ''ensure object'' (ensure_artifact_object L (ar_tries A) (get_in job_objects key)
       (create_in job_objects job_objects_update key job) (delete_in job_objects job_objects_update key)
       (job_is_stale i cfghash)))"

definition license_id_key :: nsname where
  "license_id_key = (''embedded-cluster'', ''embedded-cluster-license-id'')"

definition ensure_license_id_secret :: "string \<Rightarrow> (kube, unit) call" where
  "ensure_license_id_secret license =
     bind (wrap ''delete secret'' (ignore_not_found (delete_in secrets secrets_update license_id_key))) (\<lambda>_.
     create_in secrets secrets_update license_id_key [(''LICENSE_ID'', license)])"

definition ensure_artifacts_job_for_nodes :: "'v lib \<Rightarrow> artifact_lib \<Rightarrow> runtime_config_spec \<Rightarrow> installation \<Rightarrow>
    artifact_options \<Rightarrow> (kube, unit) call" where
  "ensure_artifacts_job_for_nodes L A rc i opts =
     (if air_gap (in_spec i) \<and> spec_artifacts (in_spec i) = None then throw (EMsg ''no artifacts location defined'')
      else
        bind (wrap ''ensure license ID secret'' (ensure_license_id_secret (ao_license_id opts))) (\<lambda>_.
        bind (wrap ''list nodes'' (api (gets nodes))) (\<lambda>ns.
        bind (wrap ''hash airgap config'' (lift (hash_for_airgap_config A i))) (\<lambda>cfghash.
        for_each (\<lambda>n. wrap ''ensure artifacts job for node''
          (ensure_artifacts_job_for_node L A rc i opts cfghash n)) ns))))"

text \<open>The job of every node; none where it is missing or stale.\<close>

fun list_jobs_loop :: "installation \<Rightarrow> string \<Rightarrow> (string \<times> job_object option) list \<Rightarrow> node list \<Rightarrow>
    (kube, (string \<times> job_object option) list) call" where
  "list_jobs_loop i cfghash acc [] = ret acc"
| "list_jobs_loop i cfghash acc (n # ns) =
     bind (attempt (get_in job_objects (artifact_job_key (node_name n)))) (\<lambda>r. case r of
       Inr j \<Rightarrow> if \<not> job_is_stale i cfghash j
         then list_jobs_loop i cfghash (map_set (node_name n) (Some j) acc) ns
         else list_jobs_loop i cfghash (map_set (node_name n) None acc) ns
     | Inl e \<Rightarrow> if \<not> is_not_found e then throw (EWrap ''get job'' e)
         else list_jobs_loop i cfghash (map_set (node_name n) None acc) ns)"

definition list_artifacts_job_for_nodes :: "artifact_lib \<Rightarrow> installation \<Rightarrow>
    (kube, (string \<times> job_object option) list) call" where
  "list_artifacts_job_for_nodes A i =
     bind (wrap ''list nodes'' (api (gets nodes))) (\<lambda>ns.
     bind (wrap ''hash airgap config'' (lift (hash_for_airgap_config A i))) (\<lambda>cfghash.
     list_jobs_loop i cfghash [] ns))"

text \<open>The errors of the cleanup, which its caller only logs.\<close>

definition cleanup_artifacts_jobs_for_nodes :: "(kube, unit) call" where
  "cleanup_artifacts_jobs_for_nodes =
     bind (attempt (wrap ''list nodes'' (api (gets nodes)))) (\<lambda>r.
     bind (for_each (\<lambda>n. bind (attempt (ignore_not_found
         (delete_in job_objects job_objects_update (artifact_job_key (node_name n))))) (\<lambda>_. ret ()))
       (case r of Inl _ \<Rightarrow> [] | Inr ns \<Rightarrow> ns)) (\<lambda>_.
     bind (attempt (ignore_not_found (delete_in secrets secrets_update license_id_key))) (\<lambda>_. ret ())))"

section \<open>Distribution\<close>

definition registry_creds_key :: "string \<Rightarrow> nsname" where
  "registry_creds_key ns = (ns, ''registry-creds'')"

text \<open>\<open>CreateOrUpdate\<close>: what would only change labels is no change here, as secrets are their data.\<close>

definition ensure_registry_secret_in_ec_namespace :: "(kube, unit) call" where
  "ensure_registry_secret_in_ec_namespace =
     bind (wrap ''get secret in kotsadm namespace'' (get_in secrets (registry_creds_key ''kotsadm''))) (\<lambda>data.
     wrap ''create or update registry creds secret''
       (bind (attempt (get_in secrets (registry_creds_key ''embedded-cluster''))) (\<lambda>r. case r of
          Inl e \<Rightarrow> if \<not> is_not_found e then throw e
            else create_in secrets secrets_update (registry_creds_key ''embedded-cluster'') data
        | Inr old \<Rightarrow> if old = data then ret ()
            else write_in secrets secrets_update (registry_creds_key ''embedded-cluster'') data)))"

fun jobs_ready :: "bool \<Rightarrow> (string \<times> job_object option) list \<Rightarrow> bool outcome" where
  "jobs_ready ready [] = Ok ready"
| "jobs_ready ready ((n, None) # js) = Err (EMsg (''job for node '' @ n @ '' not found''))"
| "jobs_ready ready ((n, Some j) # js) =
     (if jo_succeeded j > 0 then jobs_ready ready js
      else case List.find (\<lambda>c. cond_type c = ''Failed'') (jo_conditions j) of
          Some c \<Rightarrow> if cond_status c = ''True''
            then Err (EMsg (''job for node '' @ n @ '' failed: '' @ cond_reason c @ '' - '' @ cond_message c))
            else jobs_ready False js
        | None \<Rightarrow> jobs_ready False js)"

definition artifacts_try :: "artifact_lib \<Rightarrow> installation \<Rightarrow> unit \<Rightarrow> (kube, unit + unit) call" where
  "artifacts_try A i u = bind (attempt (list_artifacts_job_for_nodes A i)) (\<lambda>r. case r of
       Inl e \<Rightarrow> if ar_retryable A e then ret (Inl ()) else throw (EWrap ''list artifacts jobs for nodes'' e)
     | Inr jobs \<Rightarrow> bind (lift (jobs_ready True jobs)) (\<lambda>ready. ret (if ready then Inr () else Inl ())))"

definition place_artifacts :: "'v lib \<Rightarrow> artifact_lib \<Rightarrow> runtime_config_spec \<Rightarrow> installation \<Rightarrow>
    artifact_options \<Rightarrow> (kube, unit) call" where
  "place_artifacts L A rc i opts =
     bind (if air_gap (in_spec i) then wrap ''ensure registry secret in ec namespace'' ensure_registry_secret_in_ec_namespace
           else ret ()) (\<lambda>_.
     bind (wrap ''ensure artifacts job for nodes'' (ensure_artifacts_job_for_nodes L A rc i opts)) (\<lambda>_.
     wrap ''wait for artifacts job for nodes'' (until_cancelled (ar_tries A) (lib_tick L) (artifacts_try A i))))"

definition ensure_artifacts_on_nodes :: "'v lib \<Rightarrow> artifact_lib \<Rightarrow> runtime_config_spec \<Rightarrow> installation \<Rightarrow>
    artifact_options \<Rightarrow> (kube, unit) call" where
  "ensure_artifacts_on_nodes L A rc i opts =
     bind (place_artifacts L A rc i opts) (\<lambda>_. cleanup_artifacts_jobs_for_nodes)"

definition create_autopilot_airgap_plan_command :: "artifact_lib \<Rightarrow> runtime_config_spec \<Rightarrow> installation \<Rightarrow>
    (kube, plan_command) call" where
  "create_autopilot_airgap_plan_command A rc i =
     bind (wrap ''failed to get release metadata'' (metadata_for (ar_upgrade A) i)) (\<lambda>meta_ptr.
     bind (wrap ''failed to list nodes'' (api (gets nodes))) (\<lambda>ns.
     bind (lift (deref meta_ptr)) (\<lambda>meta.
     ret (UpdateAirgap \<lparr>airgap_version = lookup_or_empty (rm_versions meta) ''Kubernetes'', airgap_workers = map node_name ns,
       airgap_url = ''http://127.0.0.1:'' @ show_nat (nat (rc_local_artifact_mirror_port rc)) @ ''/images/ec-images-amd64.tar''\<rparr>))))"

definition ensure_airgap_artifacts_plan :: "'v lib \<Rightarrow> artifact_lib \<Rightarrow> runtime_config_spec \<Rightarrow> installation \<Rightarrow> (kube, unit) call" where
  "ensure_airgap_artifacts_plan L A rc i =
     bind (wrap ''get autopilot airgap artifacts plan'' (wrap ''create autopilot airgap plan command''
       (create_autopilot_airgap_plan_command A rc i))) (\<lambda>command.
     wrap ''ensure autopilot plan'' (ensure_artifact_object L (ar_tries A) get_plan
       (create_plan \<lparr>plan_installation = in_name i, plan_commands = [command], plan_state = []\<rparr>) delete_plan
       (\<lambda>p. plan_installation p \<noteq> in_name i)))"

definition airgap_plan_try :: "plan_states \<Rightarrow> installation \<Rightarrow> unit \<Rightarrow> (kube, unit + unit) call" where
  "airgap_plan_try S i u = bind (wrap ''get autopilot plan'' get_plan) (\<lambda>p.
     if plan_installation p \<noteq> in_name i then throw (EMsg ''autopilot plan for different installation'')
     else if has_plan_succeeded S p then ret (Inr ())
     else if has_plan_failed S p then throw (EMsg (''autopilot plan failed: '' @ reason_for_state S p))
     else ret (Inl ()))"

definition wait_for_airgap_artifacts_plan :: "'v lib \<Rightarrow> artifact_lib \<Rightarrow> installation \<Rightarrow> (kube, unit) call" where
  "wait_for_airgap_artifacts_plan L A i = wrap ''wait for autopilot plan''
     (until_cancelled (ar_tries A) (lib_tick L) (airgap_plan_try (ul_states (ar_upgrade A)) i))"

definition ensure_airgap_artifacts_in_cluster :: "'v lib \<Rightarrow> artifact_lib \<Rightarrow> runtime_config_spec \<Rightarrow> installation \<Rightarrow>
    (kube, unit) call" where
  "ensure_airgap_artifacts_in_cluster L A rc i =
     bind (wrap ''ensure autopilot plan'' (ensure_airgap_artifacts_plan L A rc i)) (\<lambda>_.
     wrap ''wait for airgap artifacts autopilot plan'' (wait_for_airgap_artifacts_plan L A i))"

definition distribute_artifacts :: "'v lib \<Rightarrow> artifact_lib \<Rightarrow> runtime_config_spec \<Rightarrow> installation \<Rightarrow>
    artifact_options \<Rightarrow> (kube, unit) call" where
  "distribute_artifacts L A rc i opts =
     bind (wrap ''ensure artifacts'' (ensure_artifacts_on_nodes L A rc i opts)) (\<lambda>_.
     if air_gap (in_spec i) then wrap ''autopilot copy airgap artifacts'' (ensure_airgap_artifacts_in_cluster L A rc i)
     else ret ())"

section \<open>What a finished distribution has seen\<close>

lemma jobs_ready_True: "jobs_ready r js = Ok True \<Longrightarrow>
    r \<and> (\<forall>n job. (n, job) \<in> set js \<longrightarrow> (\<exists>j. job = Some j \<and> jo_succeeded j > 0))"
proof (induction r js rule: jobs_ready.induct)
  case (3 r n j js)
  then show ?case by (auto split: if_splits option.splits)
qed auto

lemma list_jobs_loop_Ok:
  "list_jobs_loop i h acc ns w = (Ok js, w') \<Longrightarrow> faults_only w w' \<and>
    (\<forall>n. n \<notin> node_name ` set ns \<longrightarrow> map_of js n = map_of acc n) \<and>
    (\<forall>n \<in> node_name ` set ns. \<exists>job. map_of js n = Some job \<and> (\<forall>j. job = Some j \<longrightarrow>
      map_of (job_objects w) (artifact_job_key n) = Some j \<and> \<not> job_is_stale i h j))"
proof (induction ns arbitrary: acc w)
  case Nil
  then show ?case by (auto simp: fo.frame_refl)
next
  case (Cons n ns)
  let ?g = "get_in job_objects (artifact_job_key (node_name n))"
  have keep: "faults_only w v" if "?g w = (r, v)" for r v by (rule keepsD [OF fo.keeps_get_in that])
  have found: "map_of (job_objects w) (artifact_job_key (node_name n)) = Some j" if "?g w = (Ok j, v)" for j v
    using get_in_Ok [OF that] by simp
  obtain job v where v: "faults_only w v" "list_jobs_loop i h (map_set (node_name n) job acc) ns v = (Ok js, w')"
    and job: "\<And>j. job = Some j \<Longrightarrow> map_of (job_objects w) (artifact_job_key (node_name n)) = Some j \<and> \<not> job_is_stale i h j"
    using Cons.prems unfolding list_jobs_loop.simps bind_attempt_Ok_iff
    by (auto split: if_split_asm dest: keep found)
  note IH = Cons.IH [OF v(2)]
  have f: "faults_only w w'" by (rule fo.frame_trans [OF v(1) conjunct1 [OF IH]])
  show ?case
  proof (intro conjI allI ballI impI)
    show "faults_only w w'" by (rule f)
    fix m assume "m \<notin> node_name ` set (n # ns)"
    then show "map_of js m = map_of acc m" using IH by (simp add: map_set_lookup)
  next
    fix m assume m: "m \<in> node_name ` set (n # ns)"
    show "\<exists>job. map_of js m = Some job \<and> (\<forall>j. job = Some j \<longrightarrow>
      map_of (job_objects w) (artifact_job_key m) = Some j \<and> \<not> job_is_stale i h j)"
    proof (cases "m \<in> node_name ` set ns")
      case True
      with IH faults_only_fields(1) [OF v(1)] show ?thesis by auto
    next
      case False
      with m have "m = node_name n" "map_of js m = Some job" using IH by (auto simp: map_set_lookup)
      with job show ?thesis by auto
    qed
  qed
qed

lemma artifacts_try_Ok:
  assumes "artifacts_try A i u w = (Ok (Inr ()), w')"
  shows "\<exists>h. hash_for_airgap_config A i = Ok h \<and> (\<forall>n \<in> set (nodes w'). \<exists>j.
    map_of (job_objects w') (artifact_job_key (node_name n)) = Some j \<and> \<not> job_is_stale i h j \<and> jo_succeeded j > 0)"
proof -
  from assms obtain js where l: "list_artifacts_job_for_nodes A i w = (Ok js, w')" and r: "jobs_ready True js = Ok True"
    unfolding artifacts_try_def bind_attempt_Ok_iff by (auto simp: bind_Ok_iff split: if_split_asm)
  from l obtain ns v h where ns: "api (gets nodes) w = (Ok ns, v)" and h: "hash_for_airgap_config A i = Ok h"
    and k: "list_jobs_loop i h [] ns v = (Ok js, w')"
    unfolding list_artifacts_job_for_nodes_def by (auto simp: call_Ok_iffs)
  note K = list_jobs_loop_Ok [OF k]
  have "ns = nodes v" using api_Ok [OF ns] by auto
  then have ns': "ns = nodes w'" using faults_only_fields(2) [OF conjunct1 [OF K]] by simp
  have "\<exists>j. map_of (job_objects w') (artifact_job_key (node_name n)) = Some j \<and> \<not> job_is_stale i h j \<and> jo_succeeded j > 0"
    if "n \<in> set (nodes w')" for n
  proof -
    from K that ns' obtain job where job: "map_of js (node_name n) = Some job" "\<And>j. job = Some j \<Longrightarrow>
        map_of (job_objects v) (artifact_job_key (node_name n)) = Some j \<and> \<not> job_is_stale i h j" by blast
    from jobs_ready_True [OF r] map_of_SomeD [OF job(1)] obtain j where "job = Some j" "jo_succeeded j > 0" by blast
    with job(2) faults_only_fields(1) [OF conjunct1 [OF K]] show ?thesis by auto
  qed
  with h show ?thesis by blast
qed

lemma until_cancelled_Ok:
  assumes "until_cancelled n tick cond w = (Ok x, w')"
  shows "\<exists>t v. cond t v = (Ok (Inr x), w')"
proof -
  have "poll n tick cond () w = (Ok (Inr x), w')"
  proof (cases "poll n tick cond () w")
    case (Pair q y)
    with assms show ?thesis unfolding until_cancelled_def bind_def
      by (cases q) (auto simp: throw_def split: sum.split_asm)
  qed
  from poll_Inr [where I = "\<lambda>_. True", OF this TrueI TrueI TrueI] show ?thesis by (elim exE conjE) (intro exI)
qed


section \<open>Names of jobs\<close>

lemma name_short [simp]: "length pre + length suf \<le> 63 \<Longrightarrow> name_with_length_limit pre suf = pre @ suf"
  by (simp add: name_with_length_limit_def Let_def)

lemma name_length: "length (name_with_length_limit pre suf) \<le> 63"
proof -
  have "length (take 31 c @ drop (length c - 32) c) \<le> 63" for c :: string by (simp add: min_def)
  then show ?thesis by (simp add: name_with_length_limit_def Let_def del: length_append take_append drop_append)
qed

lemma name_long: "63 < length (pre @ suf) \<Longrightarrow> length pre \<le> 31 \<Longrightarrow> 32 \<le> length suf \<Longrightarrow>
    name_with_length_limit pre suf = pre @ take (31 - length pre) suf @ drop (length suf - 32) suf"
  by (simp add: name_with_length_limit_def Let_def)

lemma copy_artifacts_length: "length ''copy-artifacts-'' = 15"
  by simp

text \<open>Two nodes share a job exactly when their names agree on the first 16 and the last 32 characters.\<close>

lemma artifact_job_key_long:
  assumes "48 < length a" "48 < length b"
  shows "artifact_job_key a = artifact_job_key b \<longleftrightarrow> take 16 a = take 16 b \<and> drop (length a - 32) a = drop (length b - 32) b"
proof -
  have n: "name_with_length_limit ''copy-artifacts-'' x = ''copy-artifacts-'' @ take 16 x @ drop (length x - 32) x"
    if "48 < length x" for x using name_long [of "''copy-artifacts-''" x] that by simp
  have "length (take 16 a) = length (take 16 b)" using assms by simp
  then show ?thesis unfolding artifact_job_key_def prod.inject n [OF assms(1)] n [OF assms(2)]
    by (simp only: append_eq_append_conv same_append_eq simp_thms)
qed

section \<open>A sample\<close>

definition sample_artifact_lib :: artifact_lib where
  "sample_artifact_lib = \<lparr>ar_upgrade = sample_upgrade_lib, ar_marshal_installation = (\<lambda>i. Ok (in_name i)),
     ar_marshal_artifacts = (\<lambda>_. Ok []), ar_sha256_hex = id, ar_base64 = id, ar_mkdir_temp = Ok ''/tmp/1'',
     ar_pull = (\<lambda>_ _ _. Ok ()), ar_read_file = (\<lambda>_. Ok ''{}''), ar_retryable = (\<lambda>_. False), ar_tries = 3\<rparr>"

definition sample_artifact_options :: artifact_options where
  "sample_artifact_options = \<lparr>ao_mirror_image = ''mirror'', ao_license_id = ''license'', ao_app_slug = ''app'',
     ao_channel_id = ''channel'', ao_app_version = ''1.0.0''\<rparr>"

definition sample_artifact_job :: "string \<Rightarrow> job_object" where
  "sample_artifact_job n = (case get_artifact_job_for_node sample_artifact_lib empty_runtime_config sample_upgrading n
     sample_artifact_options of Ok j \<Rightarrow> j)"

definition sample_done_job :: job_object where
  "sample_done_job = (sample_artifact_job ''n'')\<lparr>jo_succeeded := 1\<rparr>"

lemma sample_artifact_job:
  "get_artifact_job_for_node sample_artifact_lib empty_runtime_config sample_upgrading n sample_artifact_options =
     Ok (sample_artifact_job n)"
  "hash_for_airgap_config sample_artifact_lib sample_upgrading = Ok []"
  "\<not> job_is_stale sample_upgrading [] (sample_artifact_job n)"
  by (simp_all add: sample_artifact_job_def get_artifact_job_for_node_def hash_for_airgap_config_def job_is_stale_def
    sample_upgrading_def sample_install_def sample_spec_def sample_artifact_lib_def artifacts_job_annotations_def
    lookup_or_empty_def map_set_lookup)

lemma sample_not_stale: "\<not> job_is_stale sample_upgrading [] sample_done_job"
  using sample_artifact_job(3) [of "''n''"] by (simp add: sample_done_job_def job_is_stale_def)

lemma sample_done: "jo_succeeded sample_done_job = 1"
  by (simp add: sample_done_job_def)

lemma sample_distribution:
  "place_artifacts sample_lib sample_artifact_lib empty_runtime_config sample_upgrading sample_artifact_options
     ((sample_cluster v None)\<lparr>job_objects := [(artifact_job_key ''n'', sample_done_job)]\<rparr>) =
   (Ok (), (sample_cluster v None)\<lparr>job_objects := [(artifact_job_key ''n'', sample_done_job)],
      secrets := [(license_id_key, [(''LICENSE_ID'', ''license'')])]\<rparr>)" (is ?placed)
  "ensure_artifacts_on_nodes sample_lib sample_artifact_lib empty_runtime_config sample_upgrading sample_artifact_options
     ((sample_cluster v None)\<lparr>job_objects := [(artifact_job_key ''n'', sample_done_job)]\<rparr>) = (Ok (), sample_cluster v None)"
proof -
  let ?w = "(sample_cluster v None)\<lparr>job_objects := [(artifact_job_key ''n'', sample_done_job)]\<rparr>"
  let ?w1 = "?w\<lparr>secrets := [(license_id_key, [(''LICENSE_ID'', ''license'')])]\<rparr>"
  have air: "\<not> air_gap (in_spec sample_upgrading)"
    by (simp add: sample_upgrading_def sample_install_def sample_spec_def)
  have none: "secrets (sample_cluster v None) = []" "job_objects (sample_cluster v None) = []"
    by (simp_all add: sample_cluster_def sample_kube_def)
  then have "ensure_license_id_secret ''license'' ?w = (Ok (), ?w1)"
    by (simp add: ensure_license_id_secret_def wrap_def ignore_not_found_def bind_def attempt_def ret_def
      delete_in_def create_in_def)
  moreover have "ensure_artifacts_job_for_node sample_lib sample_artifact_lib empty_runtime_config sample_upgrading
      sample_artifact_options [] (sample_node v) ?w1 = (Ok (), ?w1)"
    using sample_not_stale by (simp add: ensure_artifacts_job_for_node_def ensure_artifact_object_def bind_def wrap_def lift_def
      attempt_def ret_def Let_def get_in_def sample_artifact_job(1) sample_node_def)
  ultimately have "ensure_artifacts_job_for_nodes sample_lib sample_artifact_lib empty_runtime_config sample_upgrading
      sample_artifact_options ?w = (Ok (), ?w1)"
    using air by (simp add: ensure_artifacts_job_for_nodes_def bind_def wrap_def lift_def gets_def ret_def
      sample_artifact_job(2) sample_artifact_options_def)
  moreover have "artifacts_try sample_artifact_lib sample_upgrading () ?w1 = (Ok (Inr ()), ?w1)"
    using sample_not_stale sample_done by (simp add: artifacts_try_def list_artifacts_job_for_nodes_def bind_def wrap_def
      lift_def gets_def ret_def attempt_def get_in_def sample_artifact_job(2) sample_node_def map_set_def)
  then have "until_cancelled (ar_tries sample_artifact_lib) (lib_tick sample_lib)
      (artifacts_try sample_artifact_lib sample_upgrading) ?w1 = (Ok (), ?w1)"
    by (simp add: until_cancelled_def bind_def ret_def sample_artifact_lib_def numeral_eq_Suc)
  ultimately show placed: ?placed
    using air by (simp add: place_artifacts_def bind_def wrap_def ret_def)
  have "cleanup_artifacts_jobs_for_nodes ?w1 = (Ok (), (sample_cluster v None)\<lparr>job_objects := [], secrets := []\<rparr>)"
    by (simp add: cleanup_artifacts_jobs_for_nodes_def bind_def wrap_def ret_def attempt_def gets_def ignore_not_found_def
      delete_in_def sample_node_def)
  moreover have "(sample_cluster v None)\<lparr>job_objects := [], secrets := []\<rparr> = sample_cluster v None"
    by (simp add: sample_cluster_def sample_kube_def)
  ultimately show "ensure_artifacts_on_nodes sample_lib sample_artifact_lib empty_runtime_config sample_upgrading
      sample_artifact_options ?w = (Ok (), sample_cluster v None)"
    using placed by (simp add: ensure_artifacts_on_nodes_def bind_def)
qed

section \<open>Properties\<close>

text \<open>
  C25: When the files have been placed, every node of the cluster has a job of this installation and of this
  configuration that has succeeded, in the very state the placing returned; only from that state does the run go
  on, to the cleanup of the jobs, which makes its outcome.
\<close>

theorem artifacts_reach_every_node:
  assumes "ensure_artifacts_on_nodes L A rc i opts w = (Ok u, w')"
  shows "\<exists>v h. place_artifacts L A rc i opts w = (Ok (), v) \<and> cleanup_artifacts_jobs_for_nodes v = (Ok u, w') \<and>
    hash_for_airgap_config A i = Ok h \<and>
    (\<forall>n \<in> set (nodes v). \<exists>j. map_of (job_objects v) (artifact_job_key (node_name n)) = Some j \<and> jo_succeeded j > 0 \<and>
      lookup_or_empty (jo_annotations j) installation_name_annotation = in_name i \<and>
      lookup_or_empty (jo_annotations j) config_hash_annotation = h)"
proof -
  from assms obtain v where p: "place_artifacts L A rc i opts w = (Ok (), v)" and c: "cleanup_artifacts_jobs_for_nodes v = (Ok u, w')"
    unfolding ensure_artifacts_on_nodes_def by (auto simp: bind_Ok_iff)
  from p obtain v0 where u: "until_cancelled (ar_tries A) (lib_tick L) (artifacts_try A i) v0 = (Ok (), v)"
    unfolding place_artifacts_def by (auto simp: call_Ok_iffs)
  from until_cancelled_Ok [OF u] obtain t v1 where "artifacts_try A i t v1 = (Ok (Inr ()), v)" by (elim exE)
  from artifacts_try_Ok [OF this] p c show ?thesis unfolding job_is_stale_def by blast
qed

theorem artifacts_reach_every_node_witness:
  "\<exists>j. map_of (job_objects ((sample_cluster ''v1'' None)\<lparr>job_objects := [(artifact_job_key ''n'', sample_done_job)],
        secrets := [(license_id_key, [(''LICENSE_ID'', ''license'')])]\<rparr>)) (artifact_job_key ''n'') = Some j \<and> jo_succeeded j > 0 \<and>
     lookup_or_empty (jo_annotations j) installation_name_annotation = in_name sample_upgrading"
proof -
  have "nodes (sample_cluster ''v1'' None) = [sample_node ''v1'']" "node_name (sample_node ''v1'') = ''n''"
    by (simp_all add: sample_cluster_def sample_node_def)
  with artifacts_reach_every_node [OF sample_distribution(2) [of "''v1''"]] show ?thesis
    unfolding sample_distribution(1) [of "''v1''"] by auto
qed

text \<open>
  The name of a job has at most 63 characters, and nodes with names of at most 48 characters
  have jobs of their own.
\<close>

theorem artifact_job_names:
  "length (snd (artifact_job_key a)) \<le> 63 \<and>
   (length a \<le> 48 \<longrightarrow> length b \<le> 48 \<longrightarrow> (artifact_job_key a = artifact_job_key b \<longleftrightarrow> a = b))"
  using name_length by (simp add: artifact_job_key_def)

theorem artifact_job_names_witness: "artifact_job_key ''node-a'' \<noteq> artifact_job_key ''node-b''"
  using artifact_job_names [of "''node-a''" "''node-b''"] by simp

text \<open>
  Longer names collide, and then a node gets no job: with the job of another node in place
  under the same name, the one for this node is taken to exist already.
\<close>

theorem colliding_nodes_share_a_job:
  assumes "48 < length a" "48 < length b" "take 16 a = take 16 b" "drop (length a - 32) a = drop (length b - 32) b"
    and "faults w = []" "get_artifact_job_for_node A rc i a opts = Ok j" "hash_for_airgap_config A i = Ok h"
    and "map_of (job_objects w) (artifact_job_key a) = Some j"
    and "get_artifact_job_for_node A rc i (node_name n) opts = Ok j'" "node_name n = b"
  shows "ensure_artifacts_job_for_node L A rc i opts h n w = (Ok (), w) \<and> jo_node j = a"
proof -
  have key: "artifact_job_key (node_name n) = artifact_job_key a"
    using artifact_job_key_long [OF assms(2,1)] assms(3,4,10) by simp
  have f: "\<not> job_is_stale i h j" "jo_node j = a"
    using assms(6,7) by (auto simp: get_artifact_job_for_node_def job_is_stale_def artifacts_job_annotations_def
      lookup_or_empty_def map_set_lookup)
  have g: "get_in job_objects (artifact_job_key a) w = (Ok j, w)"
    using assms(5,8) by (simp add: get_in_def)
  show ?thesis using f g assms(9)
    by (simp add: ensure_artifacts_job_for_node_def ensure_artifact_object_def bind_def wrap_def lift_def attempt_def ret_def key Let_def)
qed

definition sample_long_name :: "char \<Rightarrow> string" where
  "sample_long_name c = replicate 16 (CHR ''a'') @ [c] @ replicate 32 (CHR ''b'')"

theorem colliding_nodes_share_a_job_witness:
  "ensure_artifacts_job_for_node sample_lib sample_artifact_lib empty_runtime_config sample_upgrading
     sample_artifact_options [] ((sample_node [])\<lparr>node_name := sample_long_name CHR ''2''\<rparr>)
     ((sample_cluster [] None)\<lparr>job_objects := [(artifact_job_key (sample_long_name CHR ''1''),
        sample_artifact_job (sample_long_name CHR ''1''))]\<rparr>) =
     (Ok (), (sample_cluster [] None)\<lparr>job_objects := [(artifact_job_key (sample_long_name CHR ''1''),
        sample_artifact_job (sample_long_name CHR ''1''))]\<rparr>) \<and>
   jo_node (sample_artifact_job (sample_long_name CHR ''1'')) = sample_long_name CHR ''1''"
  by (rule colliding_nodes_share_a_job [OF _ _ _ _ _ sample_artifact_job(1,2) _ sample_artifact_job(1)])
    (simp_all add: sample_long_name_def)

end
