(* ===== verification/UpgradeOrder.thy ===== *)
theory UpgradeOrder
  imports UpgradeK0s
begin

text \<open>
  The whole upgrade: in which order it acts on the outside, what it changes in the cluster's
  configuration and when, and the state it leaves the installation in.
\<close>

section \<open>Events\<close>








lemma emits_if: "emits A m \<Longrightarrow> emits A n \<Longrightarrow> emits A (if b then m else n)"
  by simp






section \<open>Add-ons and extensions\<close>









lemma quiet_latest: "quiet (get_previous_installation L i)"
  by (rule prepares_quiet [OF keeps_prepares_latest(2)])



lemma quiet_cluster_config: "quiet (update_pause_image U i)" "quiet (update_cluster_config U i)"
proof -
  have g: "quiet get_cluster_config" "quiet (write_cluster_config c)" for c
    unfolding get_cluster_config_def write_cluster_config_def
    by (rule emits_api; auto simp: emits_def split: option.split)+
  show "quiet (update_pause_image U i)"
    unfolding update_pause_image_def
    by (auto split: option.split intro!: emits_bind_quiet emits_wrap g emits_pure emits_if)
  show "quiet (update_cluster_config U i)"
    unfolding update_cluster_config_def Let_def
    by (intro emits_bind_quiet emits_wrap g emits_pure emits_if) simp_all
qed



section \<open>The cluster configuration before k0s is upgraded\<close>

definition without_pause :: "k0s_config \<Rightarrow> k0s_config" where
  "without_pause c = c\<lparr>cfg_images := map_option (\<lambda>i. i\<lparr>img_pause := None\<rparr>) (cfg_images c)\<rparr>"

definition only_pause_image :: "kube \<Rightarrow> kube \<Rightarrow> bool" where
  "only_pause_image w w' \<longleftrightarrow> map_option without_pause (cluster_cfg w') = map_option without_pause (cluster_cfg w)"

interpretation pi: kube_frame only_pause_image
  by unfold_locales (auto simp: only_pause_image_def)

lemma keeps_pi_installs: "keeps installs_only m \<Longrightarrow> keeps only_pause_image m"
  unfolding keeps_def only_pause_image_def using installs_only_fields(5) by metis

lemma get_cluster_config_Ok: "get_cluster_config w = (Ok c, w') \<Longrightarrow> cluster_cfg w' = Some c \<and> cluster_cfg w = Some c"
  unfolding get_cluster_config_def by (auto dest!: api_Ok split: option.splits)

lemma write_pause_image:
  assumes "cluster_cfg w = Some c" "without_pause d = without_pause c"
  shows "only_pause_image w (snd (write_cluster_config d w))"
proof -
  obtain r w' where run: "write_cluster_config d w = (r, w')" by (cases "write_cluster_config d w")
  from api_cases [OF run [unfolded write_cluster_config_def]] assms run show ?thesis
    by (auto simp: only_pause_image_def)
qed

lemma keeps_pi_get: "keeps only_pause_image get_cluster_config"
  unfolding get_cluster_config_def by (rule pi.keeps_api) (auto simp: keeps_def pi.frame_refl split: option.split)

lemma update_pause_image_only: "keeps only_pause_image (update_pause_image U i)"
  unfolding keeps_def
proof
  fix w
  let ?render = "render_k0s_config (ul_config U) (proxy_registry_domain (get_domains (spec_config (in_spec i)) None))"
  obtain g v where g: "get_cluster_config w = (g, v)" by (cases "get_cluster_config w")
  have wv: "only_pause_image w v" by (rule keepsD [OF keeps_pi_get g])
  have "only_pause_image v (snd (wrap c (write_cluster_config
      (current\<lparr>cfg_images := Some (images\<lparr>img_pause := p\<rparr>)\<rparr>)) v))"
    if "g = Ok current" "cfg_images current = Some images" for current images c p
    using write_pause_image [of v current "current\<lparr>cfg_images := Some (images\<lparr>img_pause := p\<rparr>)\<rparr>"]
      get_cluster_config_Ok [OF g [unfolded that(1)]] that(2)
    by (auto simp: wrap_def without_pause_def split: prod.split)
  with wv pi.frame_trans [OF wv] g show "only_pause_image w (snd (update_pause_image U i w))"
    unfolding update_pause_image_def
    by (cases g; cases ?render)
       (auto simp: bind_def wrap_def lift_def ret_def deref_def split: option.split)
qed

lemma keeps_pi_override: "keeps only_pause_image (override_data_dirs L i)"
  unfolding override_data_dirs_def get_previous_installation_def
  by (intro pi.kube_frame_rules keeps_pi_installs keeps_list_installations)

lemma quiet_override: "quiet (override_data_dirs L i)"
  unfolding override_data_dirs_def
  by (intro emits_quiet_bind [OF emits_wrap [OF quiet_latest]] emits_bind_quiet emits_wrap emits_pure)
     (auto split: prod.split intro: emits_pure)

lemma keeps_pi_k0s:
  assumes tick: "\<And>v. cluster_cfg (lib_tick L v) = cluster_cfg v"
  shows "keeps only_pause_image (upgrade_k0s depth L U rc i)"
proof (induction depth arbitrary: i)
  case (Suc depth)
  have plan: "keeps only_pause_image get_plan" "keeps only_pause_image (create_plan p)" "keeps only_pause_image delete_plan" for p
    unfolding get_plan_def create_plan_def delete_plan_def
    by (rule pi.keeps_api; auto simp: keeps_def only_pause_image_def split: option.split)+
  have state: "keeps only_pause_image (set_installation_state L i s r ps)" for i s r ps
    by (rule keeps_pi_installs [OF keeps_set_installation_state])
  have meta: "keeps only_pause_image (metadata_for U i)" for i
    unfolding keeps_def only_pause_image_def
    using only_caches_fields(4) [OF metadata_for_run(1)] by (metis prod.collapse)
  have t: "only_pause_image v (lib_tick L v)" for v by (simp add: only_pause_image_def tick)
  show ?case
    unfolding upgrade_k0s.simps upgrade_k0s_body_def Let_def k0s_with_plan_def k0s_plan_ended_def create_autopilot_plan_def
      start_autopilot_upgrade_def determine_upgrade_targets_def wait_for_autopilot_plan_def plan_ended_try_def timed_out_def
      wait_for_cluster_nodes_match_version_def nodes_match_try_def cluster_nodes_match_version_def
    by (intro pi.kube_frame_rules pi.keeps_poll plan state meta t Suc.IH)
qed (simp add: pi.frame_rules)

section \<open>The parts of a run\<close>

definition before_k0s :: "kube \<Rightarrow> kube \<Rightarrow> bool" where
  "before_k0s w w' \<longleftrightarrow> log w' = log w \<and> only_pause_image w w'"

interpretation bk: kube_frame before_k0s
  by unfold_locales (auto simp: before_k0s_def only_pause_image_def)

lemma keeps_before_k0s: "quiet m \<Longrightarrow> keeps only_pause_image m \<Longrightarrow> keeps before_k0s m"
  unfolding keeps_def before_k0s_def emits_def by auto

lemma keeps_prepare_upgrade: "keeps before_k0s (prepare_upgrade L U rc i)"
proof -
  have "keeps before_k0s (override_data_dirs L i)" "keeps before_k0s (update_pause_image U j)" for j
    by (rule keeps_before_k0s [OF quiet_override keeps_pi_override]
             keeps_before_k0s [OF quiet_cluster_config(1) update_pause_image_only])+
  then show ?thesis unfolding prepare_upgrade_def Let_def
    by (intro bk.kube_frame_rules)
qed

lemma upgrade_runs:
  assumes "upgrade depth L U rc i w = (r, w')"
  shows "before_k0s w w' \<or> (\<exists>rc1 i1 v1 q v2. prepare_upgrade L U rc i w = (Ok (rc1, i1), v1) \<and> before_k0s w v1 \<and>
    upgrade_k0s depth L U rc1 i1 v1 = (q, v2) \<and>
    (w' = v2 \<or> (\<exists>i2. q = Ok i2 \<and> w' = snd (upgrade_after_k0s L U rc1 i2 v2))))"
proof -
  obtain p v1 where p: "prepare_upgrade L U rc i w = (p, v1)" by (cases "prepare_upgrade L U rc i w")
  have v1: "before_k0s w v1" by (rule keepsD [OF keeps_prepare_upgrade p])
  show ?thesis
  proof (cases p)
    case (Ok a)
    obtain rc1 i1 where a: "a = (rc1, i1)" by (cases a)
    obtain q v2 where q: "upgrade_k0s depth L U rc1 i1 v1 = (q, v2)" by (cases "upgrade_k0s depth L U rc1 i1 v1")
    from assms p q have "w' = v2 \<or> (\<exists>i2. q = Ok i2 \<and> w' = snd (upgrade_after_k0s L U rc1 i2 v2))"
      by (cases q) (auto simp: upgrade_def bind_def wrap_def Ok a)
    with p v1 q show ?thesis unfolding Ok a by blast
  qed (use assms p v1 in \<open>auto simp: upgrade_def bind_def\<close>)
qed

section \<open>Properties\<close>



text \<open>
  C29: Until the upgrade of k0s has returned without an error, nothing in the cluster's configuration
  changes but the pause image: the old k0s never rolls out the new release's other images.
\<close>

theorem images_wait_for_k0s:
  assumes tick: "\<And>v. cluster_cfg (lib_tick L v) = cluster_cfg v"
    and run: "upgrade depth L U rc i w = (r, w')"
  shows "only_pause_image w w' \<or> (\<exists>rc1 i1 v1 i2 v2. prepare_upgrade L U rc i w = (Ok (rc1, i1), v1) \<and> only_pause_image w v1 \<and>
    upgrade_k0s depth L U rc1 i1 v1 = (Ok i2, v2) \<and> only_pause_image w v2 \<and> w' = snd (upgrade_after_k0s L U rc1 i2 v2))"
  using upgrade_runs [OF run]
proof (elim disjE exE conjE)
  fix rc1 i1 v1 q v2 assume p: "prepare_upgrade L U rc i w = (Ok (rc1, i1), v1)" and b: "before_k0s w v1" and q: "upgrade_k0s depth L U rc1 i1 v1 = (q, v2)"
  have v: "only_pause_image w v1" using b by (simp add: before_k0s_def)
  have v2: "only_pause_image w v2" by (rule pi.frame_trans [OF v keepsD [OF keeps_pi_k0s [OF tick] q]])
  { assume "w' = v2" with v2 show ?thesis by simp }
  { fix i2 assume "q = Ok i2" "w' = snd (upgrade_after_k0s L U rc1 i2 v2)"
    with p v q v2 show ?thesis by blast }
qed (simp add: before_k0s_def)

theorem images_wait_for_k0s_witness:
  "only_pause_image (sample_cluster ''v1.30.0+k0s'' None) (snd (upgrade 2 sample_lib sample_upgrade_lib empty_runtime_config
      sample_upgrading (sample_cluster ''v1.30.0+k0s'' None))) \<or>
   (\<exists>rc1 i1 v1 i2 v2. upgrade_k0s 2 sample_lib sample_upgrade_lib rc1 i1 v1 = (Ok i2, v2))"
proof -
  have tick: "cluster_cfg (lib_tick sample_lib v) = cluster_cfg v" for v by (simp add: sample_lib_def)
  obtain r w' where run: "upgrade 2 sample_lib sample_upgrade_lib empty_runtime_config sample_upgrading
      (sample_cluster ''v1.30.0+k0s'' None) = (r, w')" by (meson surj_pair)
  from images_wait_for_k0s [OF tick run] show ?thesis unfolding run snd_conv by blast
qed

end
