(* ===== verification/UpgradeJob.thy ===== *)
theory UpgradeJob
  imports Artifacts UpgradeOrder
begin

text \<open>
  The upgrade job: how it is created (\<^verbatim>\<open>pkg-new/upgrade/job.go\<close>, \<^verbatim>\<open>operator/pkg/cli/upgrade.go\<close>), what it
  runs (\<^verbatim>\<open>operator/pkg/cli/upgrade_job.go\<close>) and the migration from the first version it starts with
  (\<^verbatim>\<open>operator/pkg/cli/migratev2\<close>). Kubernetes and helm clients are those of the cluster's state; the
  command line is left out.
\<close>

section \<open>Creating the job\<close>

definition upgrade_job_key :: "string \<Rightarrow> nsname" where
  "upgrade_job_key n = (''kotsadm'', ''embedded-cluster-upgrade-'' @ n)"

definition upgrade_job_config_map_key :: "string \<Rightarrow> nsname" where
  "upgrade_job_config_map_key n = (''kotsadm'', ''upgrade-job-configmap-'' @ n)"

fun operator_image_loop :: "installation \<Rightarrow> string list \<Rightarrow> string outcome" where
  "operator_image_loop i [] = Err (EMsg ''no embedded-cluster-operator image found in release metadata'')"
| "operator_image_loop i (img # imgs) = (if contains_str img ''embedded-cluster-operator-image''
     then Ok (replace_first img ''proxy.replicated.com'' (proxy_registry_domain (get_domains (spec_config (in_spec i)) None)))
     else operator_image_loop i imgs)"

definition operator_image_name :: "upgrade_lib \<Rightarrow> installation \<Rightarrow> (kube, string) call" where
  "operator_image_name U i =
     bind (wrap ''failed to get release metadata'' (metadata_for U i)) (\<lambda>meta_ptr.
     bind (lift (deref meta_ptr)) (\<lambda>meta.
     lift (operator_image_loop i (case rm_images meta of None \<Rightarrow> [] | Some l \<Rightarrow> l))))"

definition upgrade_job_labels :: "(string \<times> string) list" where
  "upgrade_job_labels = [(''app.kubernetes.io/instance'', ''embedded-cluster-upgrade''),
     (''app.kubernetes.io/name'', ''embedded-cluster-upgrade'')]"

text \<open>The affinity to control-plane nodes, the service account and the mounts are left out.\<close>

definition upgrade_job_of :: "runtime_config_spec \<Rightarrow> installation \<Rightarrow> string \<Rightarrow> string \<Rightarrow> job_object" where
  "upgrade_job_of rc i img previous_version =
     \<lparr>jo_active = 0, jo_succeeded = 0, jo_failed = 0, jo_backoff_limit = Some 6, jo_labels = upgrade_job_labels,
      jo_annotations = [(installation_name_annotation, in_name i)], jo_image = img,
      jo_pull_policy = (if air_gap (in_spec i) then ''Never'' else ''IfNotPresent''),
      jo_env = [(''JOB_NAME'', snd (upgrade_job_key (in_name i))), (''JOB_NAMESPACE'', ''kotsadm'')] @
        proxy_env (rc_proxy rc) @ (if ca_path_of i \<noteq> [] then [(''SSL_CERT_DIR'', ''/certs'')] else []),
      jo_command = [''/manager'', ''upgrade-job'', ''--installation'', ''/config/installation.yaml'',
        ''--previous-version'', previous_version],
      jo_host_paths = [(''ec-charts-dir'', ec_charts_sub_dir_no_create rc)] @
        (if ca_path_of i \<noteq> [] then [(''host-ca-bundle'', ca_path_of i)] else []),
      jo_node = [], jo_conditions = []\<rparr>"

text \<open>
  The end of the function, in two parts: the job once its configuration is stored, and the
  configuration once the release has been distributed.
\<close>

definition create_job_object :: "artifact_lib \<Rightarrow> runtime_config_spec \<Rightarrow> installation \<Rightarrow> string \<Rightarrow> (kube, unit) call" where
  "create_job_object A rc i previous_version =
     bind (operator_image_name (ar_upgrade A) i) (\<lambda>img.
     wrap ''failed to create upgrade job'' (create_in job_objects job_objects_update (upgrade_job_key (in_name i))
       (upgrade_job_of rc i img previous_version)))"

definition config_and_job :: "artifact_lib \<Rightarrow> runtime_config_spec \<Rightarrow> installation \<Rightarrow> string \<Rightarrow> string \<Rightarrow> (kube, unit) call" where
  "config_and_job A rc i previous_version data =
     bind (attempt (get_in config_maps (upgrade_job_config_map_key (in_name i)))) (\<lambda>r. case r of
       Inr cm \<Rightarrow> if cm_data cm = [] then lift (Panic ''assignment to entry in nil map'')
         else wrap ''failed to update configmap'' (write_in config_maps config_maps_update (upgrade_job_config_map_key (in_name i))
           (cm\<lparr>cm_data := map_set ''installation.yaml'' data (cm_data cm)\<rparr>))
     | Inl e \<Rightarrow> if \<not> is_not_found e then throw (EWrap ''failed to get configmap'' e)
         else
           bind (wrap ''failed to create upgrade job configmap'' (create_in config_maps config_maps_update
             (upgrade_job_config_map_key (in_name i)) \<lparr>cm_annotations = [], cm_data = [(''installation.yaml'', data)]\<rparr>)) (\<lambda>_.
           create_job_object A rc i previous_version))"

definition create_upgrade_job :: "'v lib \<Rightarrow> artifact_lib \<Rightarrow> runtime_config_spec \<Rightarrow> installation \<Rightarrow> artifact_options \<Rightarrow>
    string \<Rightarrow> (kube, unit) call" where
  "create_upgrade_job L A rc i opts previous_version =
     bind (attempt (get_in job_objects (upgrade_job_key (in_name i)))) (\<lambda>r. case r of
       Inr _ \<Rightarrow> ret ()
     | Inl _ \<Rightarrow>
        if ao_mirror_image opts = [] then throw (EMsg ''local artifact mirror image is required'')
        else
          bind (wrap ''copy version metadata to cluster'' (copy_version_metadata_to_cluster A i)) (\<lambda>_.
          bind (wrap ''distribute artifacts'' (distribute_artifacts L A rc i opts)) (\<lambda>_.
          bind (wrap ''failed to marshal installation spec'' (lift (ar_marshal_installation A i)))
            (config_and_job A rc i previous_version))))"

definition list_upgrade_jobs :: "(kube, (nsname \<times> job_object) list) call" where
  "list_upgrade_jobs = wrap ''list upgrade jobs'' (api (gets (\<lambda>w. filter (\<lambda>(k, j). fst k = ''kotsadm'' \<and>
     set upgrade_job_labels \<subseteq> set (jo_labels j)) (job_objects w))))"

text \<open>What \<open>embedded-cluster-operator upgrade\<close> does with the clients it is given.\<close>

definition run_upgrade_command :: "'v lib \<Rightarrow> artifact_lib \<Rightarrow> crd outcome list \<Rightarrow> runtime_config_spec \<Rightarrow> installation \<Rightarrow>
    artifact_options \<Rightarrow> (kube, unit) call" where
  "run_upgrade_command L A crd_files rc i opts =
     bind (lift (deref (spec_config (in_spec i)))) (\<lambda>_.
     bind (wrap ''apply installation'' (upgrade_create_installation L crd_files i)) (\<lambda>_.
     bind (wrap ''get previous installation'' (get_previous_installation L i)) (\<lambda>previous.
     bind (lift (deref (spec_config (in_spec previous)))) (\<lambda>config.
     wrap ''failed to upgrade'' (create_upgrade_job L A rc i opts (ec_version config))))))"

section \<open>Migration from the first version\<close>

definition needs_migration :: "(kube, bool) call" where
  "needs_migration = wrap ''check if k0s charts need cleanup''
     (bind (wrap ''list k0s charts'' (api (gets k0s_charts))) (\<lambda>charts.
      if charts \<noteq> [] then ret True
      else bind (wrap ''get cluster config'' get_cluster_config) (\<lambda>cfg.
           bind (lift (deref (cfg_extensions cfg))) (\<lambda>helm.
           ret (case helm of None \<Rightarrow> False | Some charts \<Rightarrow> charts \<noteq> [])))))"

definition migration_condition :: "string \<Rightarrow> string \<Rightarrow> string \<Rightarrow> condition" where
  "migration_condition status reason message =
     \<lparr>cond_type = ''V2MigrationInProgress'', cond_status = status, cond_reason = reason, cond_message = message\<rparr>"

definition set_migration_condition :: "'v lib \<Rightarrow> installation \<Rightarrow> string \<Rightarrow> string \<Rightarrow> string \<Rightarrow> (kube, unit) call" where
  "set_migration_condition L i status reason message = wrap ''set v2 migration in progress condition''
     (retry_on_conflict (lib_retries L)
       (bind (wrap ''get installation'' (get_install (in_name i))) (\<lambda>cur.
        wrap ''update installation status'' (write_install_status
          (cur\<lparr>in_status := set_condition (lib_set_condition L) (migration_condition status reason message) (in_status cur)\<rparr>)))))"

definition operator_key :: nsname where
  "operator_key = (''embedded-cluster'', ''embedded-cluster-operator'')"

definition set_operator_deployment_replicas_zero :: "(kube, unit) call" where
  "set_operator_deployment_replicas_zero = wrap ''patch deployment'' (api (\<lambda>w. case map_of (deployments w) operator_key of
       None \<Rightarrow> (Err (ENotFound (nsname_text operator_key)), w)
     | Some d \<Rightarrow> (Ok (), deployments_update (AList.update operator_key (d\<lparr>wl_replicas := Some 0\<rparr>)) w)))"

definition operator_pod_labels :: "(string \<times> string) list" where
  "operator_pod_labels = [(''app.kubernetes.io/instance'', ''embedded-cluster-operator''),
     (''app.kubernetes.io/name'', ''embedded-cluster-operator'')]"

definition is_operator_deployment_updated :: "(kube, bool) call" where
  "is_operator_deployment_updated = wrap ''list embedded-cluster-operator pods'' (api (gets (\<lambda>w.
     list_all (\<lambda>(k, p). \<not> (fst k = ''embedded-cluster'' \<and> set operator_pod_labels \<subseteq> set (po_labels p))) (pod_objects w))))"

definition operator_updated_try :: "err option \<Rightarrow> (kube, err option + unit) call" where
  "operator_updated_try lst = bind (attempt is_operator_deployment_updated) (\<lambda>r. case r of
       Inl e \<Rightarrow> ret (Inl (Some (EWrap ''check deployment'' e)))
     | Inr ready \<Rightarrow> ret (if ready then Inr () else Inl lst))"

definition wait_for_operator_deployment :: "'v lib \<Rightarrow> (kube, unit) call" where
  "wait_for_operator_deployment L = bind (poll 60 (lib_tick L) operator_updated_try None) (\<lambda>r. case r of
       Inr u \<Rightarrow> ret u
     | Inl None \<Rightarrow> throw (EMsg ''timed out waiting for the condition'')
     | Inl (Some e) \<Rightarrow> throw e)"

definition scale_down_operator :: "'v lib \<Rightarrow> (kube, unit) call" where
  "scale_down_operator L =
     bind (wrap ''set operator deployment replicas to 0'' set_operator_deployment_replicas_zero) (\<lambda>_.
     wrap ''wait for operator deployment'' (wait_for_operator_deployment L))"

text \<open>
  Chart objects by their finalizers. Deleting one that has some asks k0s to uninstall its release;
  it is logged with the finalizers it had.
\<close>

definition write_chart :: "nsname \<Rightarrow> string list \<Rightarrow> (kube, unit) call" where
  "write_chart k fs = api (\<lambda>w. case map_of (k0s_charts w) k of
       None \<Rightarrow> (Err (ENotFound (nsname_text k)), w)
     | Some _ \<Rightarrow> (Ok (), w\<lparr>k0s_charts := AList.update k fs (k0s_charts w)\<rparr>))"

definition delete_chart :: "nsname \<Rightarrow> (kube, unit) call" where
  "delete_chart k = api (\<lambda>w. case map_of (k0s_charts w) k of
       None \<Rightarrow> (Err (ENotFound (nsname_text k)), w)
     | Some fs \<Rightarrow> (Ok (), w\<lparr>k0s_charts := AList.delete k (k0s_charts w), log := log w @ [ChartDeleted k fs]\<rparr>))"

text \<open>
  The loop that waits for the finalizers to be gone has no limit; \<open>n\<close> is the number of its turns
  after which the process is killed. It sleeps after every turn, the last one too.
\<close>

fun await_no_finalizers :: "nat \<Rightarrow> (kube \<Rightarrow> kube) \<Rightarrow> (kube, (nsname \<times> string list) list) call" where
  "await_no_finalizers 0 tick = lift (Panic ''killed'')"
| "await_no_finalizers (Suc n) tick =
     bind (wrap ''list charts'' (api (gets k0s_charts))) (\<lambda>charts.
     bind (modify tick) (\<lambda>_.
     if list_ex (\<lambda>(k, fs). fs \<noteq> []) charts then await_no_finalizers n tick else ret charts))"

definition force_delete_chart_crs :: "nat \<Rightarrow> 'v lib \<Rightarrow> (kube, unit) call" where
  "force_delete_chart_crs n L =
     bind (wrap ''list charts'' (api (gets k0s_charts))) (\<lambda>charts.
     bind (for_each (\<lambda>(k, fs). wrap ''update chart'' (write_chart k [])) charts) (\<lambda>_.
     bind (await_no_finalizers n (lib_tick L)) (\<lambda>charts.
     for_each (\<lambda>(k, fs). wrap ''delete chart'' (delete_chart k)) charts)))"

definition remove_cluster_config_helm_extensions :: "(kube, unit) call" where
  "remove_cluster_config_helm_extensions =
     bind (wrap ''get cluster config'' get_cluster_config) (\<lambda>cfg.
     bind (lift (deref (cfg_extensions cfg))) (\<lambda>_.
     wrap ''update cluster config'' (write_cluster_config (cfg\<lparr>cfg_extensions := Some (Some [])\<rparr>))))"

definition run_migration :: "nat \<Rightarrow> 'v lib \<Rightarrow> (kube, unit) call" where
  "run_migration n L =
     bind (wrap ''disable operator'' (scale_down_operator L)) (\<lambda>_.
     wrap ''cleanup k0s''
       (bind (wrap ''delete chart custom resources'' (force_delete_chart_crs n L)) (\<lambda>_.
        wrap ''cleanup cluster config'' remove_cluster_config_helm_extensions)))"

text \<open>\<open>recovered m f\<close>: a panic of \<open>m\<close> runs \<open>f\<close> and goes on.\<close>

definition recovered :: "('w, 'a) call \<Rightarrow> (string \<Rightarrow> ('w, unit) call) \<Rightarrow> ('w, 'a) call" where
  "recovered m f w = (case m w of
       (Panic p, w') \<Rightarrow> bind (attempt (f p)) (\<lambda>_. lift (Panic p)) w'
     | (r, w') \<Rightarrow> (r, w'))"

text \<open>The body is what runs under the deferred recovery.\<close>

definition migration_body :: "nat \<Rightarrow> 'v lib \<Rightarrow> installation \<Rightarrow> (kube, unit) call" where
  "migration_body n L i = recovered
     (bind (attempt (run_migration n L)) (\<lambda>r. case r of
        Inl e \<Rightarrow> bind (attempt (set_migration_condition L i ''False'' ''MigrationFailed'' (clean_error_message e))) (\<lambda>_.
                   throw e)
      | Inr _ \<Rightarrow> wrap ''set v2 migration complete'' (set_migration_condition L i ''False'' ''MigrationComplete'' [])))
     (\<lambda>p. set_migration_condition L i ''False'' ''MigrationFailed'' ''panic: <nil>'')"

definition migrate_v2 :: "nat \<Rightarrow> 'v lib \<Rightarrow> installation \<Rightarrow> (kube, unit) call" where
  "migrate_v2 n L i =
     bind (wrap ''check if migration is needed'' needs_migration) (\<lambda>needed.
     if \<not> needed then ret ()
     else bind (wrap ''set v2 migration in progress'' (set_migration_condition L i ''True'' ''MigrationInProgress'' [])) (\<lambda>_.
          migration_body n L i))"

section \<open>Running the job\<close>

definition perform_upgrade :: "nat \<Rightarrow> 'v lib \<Rightarrow> upgrade_lib \<Rightarrow> runtime_config_spec \<Rightarrow> installation \<Rightarrow> (kube, unit) call" where
  "perform_upgrade n L U rc i w =
     (case bind (wrap ''failed to run v2 migration'' (migrate_v2 n L i)) (\<lambda>_. bind (upgrade n L U rc i) (\<lambda>_. ret ())) w of
        (Panic p, w') \<Rightarrow> (Err (EMsg (''upgrade recovered from panic: '' @ p)), w')
      | (r, w') \<Rightarrow> (r, w'))"

definition is_last_attempt :: "nsname \<Rightarrow> (kube, bool) call" where
  "is_last_attempt key = bind (wrap ''get upgrade job'' (get_in job_objects key)) (\<lambda>j.
     case jo_backoff_limit j of None \<Rightarrow> throw (EMsg ''job backoff limit is nil'')
     | Some limit \<Rightarrow> ret (jo_failed j \<ge> limit))"

definition maybe_mark_as_failed :: "'v lib \<Rightarrow> nsname \<Rightarrow> installation \<Rightarrow> err \<Rightarrow> (kube, unit) call" where
  "maybe_mark_as_failed L key i e =
     bind (wrap ''check if last attempt'' (is_last_attempt key)) (\<lambda>is_last.
     if \<not> is_last then ret ()
     else bind (wrap ''set installation state''
            (set_installation_state L i InstallationStateFailed (clean_error_message e) [])) (\<lambda>_. ret ()))"

text \<open>\<open>key\<close> is the job the pod belongs to, from its environment.\<close>

definition run_upgrade_job :: "nat \<Rightarrow> 'v lib \<Rightarrow> upgrade_lib \<Rightarrow> runtime_config_spec \<Rightarrow> nsname \<Rightarrow> installation \<Rightarrow> (kube, unit) call" where
  "run_upgrade_job n L U rc key i =
     bind (lift (deref (spec_config (in_spec i)))) (\<lambda>_.
     bind (attempt (perform_upgrade n L U rc i)) (\<lambda>r. case r of
       Inl e \<Rightarrow> bind (attempt (maybe_mark_as_failed L key i e)) (\<lambda>_. throw e)
     | Inr u \<Rightarrow> ret u))"

section \<open>A job that was not created\<close>

text \<open>The job and its configuration are not touched.\<close>

definition keys_kept :: "string \<Rightarrow> kube \<Rightarrow> kube \<Rightarrow> bool" where
  "keys_kept n w w' \<longleftrightarrow> map_of (job_objects w') (upgrade_job_key n) = map_of (job_objects w) (upgrade_job_key n) \<and>
     map_of (config_maps w') (upgrade_job_config_map_key n) = map_of (config_maps w) (upgrade_job_config_map_key n)"

interpretation kk: kube_frame "keys_kept n" for n
  by unfold_locales (auto simp: keys_kept_def)

lemma map_of_AList_update: "map_of (AList.update k v al) k' = (if k' = k then Some v else map_of al k')"
  by (simp add: update_conv)

lemma keys_kept_config_maps:
  assumes "k \<noteq> upgrade_job_config_map_key n"
  shows "keeps (keys_kept n) (create_in config_maps config_maps_update k x)"
  unfolding create_in_def
  by (rule kk.keeps_api; use assms in \<open>auto simp: keeps_def keys_kept_def split: option.splits\<close>)

lemma keys_kept_jobs:
  assumes "k \<noteq> upgrade_job_key n"
  shows "keeps (keys_kept n) (create_in job_objects job_objects_update k x)"
    "keeps (keys_kept n) (delete_in job_objects job_objects_update k)"
  unfolding create_in_def delete_in_def
  by (rule kk.keeps_api; use assms in \<open>auto simp: keeps_def keys_kept_def map_of_AList_update delete_conv'
    split: option.splits\<close>)+

lemma keys_kept_secrets: "keys_kept n w (secrets_update f w)"
  by (simp add: keys_kept_def)

lemma copy_job_key_other: "artifact_job_key m \<noteq> upgrade_job_key n"
  by (simp add: artifact_job_key_def upgrade_job_key_def)

lemma metadata_key_other: "local_version_metadata_configmap U v \<noteq> upgrade_job_config_map_key n"
  by (simp add: local_version_metadata_configmap_def upgrade_job_config_map_key_def)

lemma keeps_gone_try: "keeps (keys_kept n) get \<Longrightarrow> keeps (keys_kept n) (gone_try get u)"
  unfolding gone_try_def by (intro kk.object_rules)

lemma keeps_ensure_object:
  assumes "\<And>w. keys_kept n w (lib_tick L w)" "keeps (keys_kept n) get" "keeps (keys_kept n) create" "keeps (keys_kept n) delete"
  shows "keeps (keys_kept n) (ensure_artifact_object L m get create delete p)"
  unfolding ensure_artifact_object_def until_cancelled_def
  by (intro kk.object_rules kk.keeps_poll keeps_gone_try assms)

lemma keeps_copy_metadata: "keeps (keys_kept n) (copy_version_metadata_to_cluster A i)"
  unfolding copy_version_metadata_to_cluster_def Let_def
  by (auto intro!: kk.object_rules keys_kept_config_maps metadata_key_other split: option.splits)

lemma keeps_ensure_jobs:
  assumes "\<And>w. keys_kept n w (lib_tick L w)"
  shows "keeps (keys_kept n) (ensure_artifacts_job_for_nodes L A rc i opts)"
  unfolding ensure_artifacts_job_for_nodes_def ensure_artifacts_job_for_node_def ensure_license_id_secret_def Let_def
  by (intro kk.object_rules kk.keeps_change_in keys_kept_secrets keeps_ensure_object keys_kept_jobs copy_job_key_other assms)

lemma keeps_list_jobs: "keeps (keys_kept n) (list_jobs_loop i h acc ns)"
  by (induction ns arbitrary: acc; simp only: list_jobs_loop.simps; intro kk.object_rules; assumption?)

lemma keeps_artifacts_try: "keeps (keys_kept n) (artifacts_try A i u)"
  unfolding artifacts_try_def list_artifacts_job_for_nodes_def by (intro kk.object_rules keeps_list_jobs)

lemma keeps_cleanup_jobs: "keeps (keys_kept n) cleanup_artifacts_jobs_for_nodes"
  unfolding cleanup_artifacts_jobs_for_nodes_def
  by (intro kk.object_rules kk.keeps_change_in keys_kept_secrets keys_kept_jobs copy_job_key_other)

lemma keeps_registry_secret: "keeps (keys_kept n) ensure_registry_secret_in_ec_namespace"
  unfolding ensure_registry_secret_in_ec_namespace_def
  by (intro kk.object_rules kk.keeps_change_in keys_kept_secrets)

lemma keeps_ensure_on_nodes:
  assumes "\<And>w. keys_kept n w (lib_tick L w)"
  shows "keeps (keys_kept n) (ensure_artifacts_on_nodes L A rc i opts)"
  unfolding ensure_artifacts_on_nodes_def place_artifacts_def until_cancelled_def
  by (intro kk.object_rules kk.keeps_poll keeps_ensure_jobs keeps_artifacts_try keeps_cleanup_jobs keeps_registry_secret assms)

lemma keys_kept_plan: "keys_kept n w (w\<lparr>autopilot_plan := p, log := l\<rparr>)"
  by (simp add: keys_kept_def)

lemma keeps_plan_calls:
  "keeps (keys_kept n) get_plan" "keeps (keys_kept n) (create_plan p)" "keeps (keys_kept n) delete_plan"
  unfolding get_plan_def create_plan_def delete_plan_def
  by (rule kk.keeps_api; auto simp: keeps_def kk.frame_refl keys_kept_plan split: option.splits)+

lemma keeps_half_metadata: "keeps (keys_kept n) (metadata_for U i)"
  unfolding keeps_def
proof
  fix w
  have "only_caches w (snd (metadata_for U i w))"
    by (cases "metadata_for U i w") (simp add: metadata_for_run(1))
  then have "job_objects (snd (metadata_for U i w)) = job_objects w" "config_maps (snd (metadata_for U i w)) = config_maps w"
    unfolding only_caches_def by (cases w; cases "snd (metadata_for U i w)"; simp)+
  then show "keys_kept n w (snd (metadata_for U i w))" by (simp add: keys_kept_def)
qed

lemma keeps_airgap:
  assumes "\<And>w. keys_kept n w (lib_tick L w)"
  shows "keeps (keys_kept n) (ensure_airgap_artifacts_in_cluster L A rc i)"
  unfolding ensure_airgap_artifacts_in_cluster_def ensure_airgap_artifacts_plan_def wait_for_airgap_artifacts_plan_def
    airgap_plan_try_def create_autopilot_airgap_plan_command_def until_cancelled_def
  by (intro kk.object_rules kk.keeps_poll keeps_ensure_object keeps_plan_calls keeps_half_metadata assms)

lemma keeps_distribute:
  assumes "\<And>w. keys_kept n w (lib_tick L w)"
  shows "keeps (keys_kept n) (distribute_artifacts L A rc i opts)"
  unfolding distribute_artifacts_def by (intro kk.object_rules keeps_ensure_on_nodes keeps_airgap assms)

text \<open>The configuration of a job is stored, and the job is not there.\<close>

definition half_created :: "string \<Rightarrow> kube \<Rightarrow> bool" where
  "half_created n w \<longleftrightarrow> map_of (job_objects w) (upgrade_job_key n) = None \<and>
     map_of (config_maps w) (upgrade_job_config_map_key n) \<noteq> None"

definition stays_half :: "string \<Rightarrow> kube \<Rightarrow> kube \<Rightarrow> bool" where
  "stays_half n w w' \<longleftrightarrow> (half_created n w \<longrightarrow> half_created n w')"

interpretation hf: kube_frame "stays_half n" for n
  by unfold_locales (auto simp: stays_half_def half_created_def)

lemma keys_kept_half: "keeps (keys_kept n) m \<Longrightarrow> keeps (stays_half n) m"
  unfolding keeps_def keys_kept_def stays_half_def half_created_def by simp

lemma stays_half_config_maps:
  "keeps (stays_half n) (create_in config_maps config_maps_update k x)"
  "keeps (stays_half n) (write_in config_maps config_maps_update k x)"
  unfolding create_in_def write_in_def
  by (rule hf.keeps_api; auto simp: keeps_def stays_half_def half_created_def map_of_AList_update split: option.splits)+

text \<open>What depends on whether the configuration is there runs with it there.\<close>

lemma keeps_with_config:
  assumes "\<And>e. \<not> is_not_found e \<Longrightarrow> keeps (stays_half n) (f (Inl e))" "\<And>x. keeps (stays_half n) (f (Inr x))"
  shows "keeps (stays_half n) (bind (attempt (get_in config_maps (upgrade_job_config_map_key n))) f)"
  unfolding keeps_def
proof
  fix w
  let ?g = "get_in config_maps (upgrade_job_config_map_key n)"
  obtain q v where q: "?g w = (q, v)" by (cases "?g w")
  have wv: "faults_only w v" by (rule keepsD [OF fo.keeps_get_in q])
  have step: "stays_half n w (snd (f y v))" if "keeps (stays_half n) (f y)" for y
    using that wv by (force simp: keeps_def stays_half_def half_created_def faults_only_def)
  show "stays_half n w (snd (bind (attempt ?g) f w))"
  proof (cases q)
    case (Ok x)
    with q step [OF assms(2)] show ?thesis by (simp add: bind_def attempt_def)
  next
    case (Err e)
    show ?thesis
    proof (cases "is_not_found e")
      case True
      have "map_of (config_maps w) (upgrade_job_config_map_key n) = None"
        by (rule get_in_not_found [OF q [unfolded Err] True]) simp
      then show ?thesis by (simp add: stays_half_def half_created_def)
    next
      case False
      with q Err step [OF assms(1)] show ?thesis by (simp add: bind_def attempt_def)
    qed
  next
    case (Panic p)
    with q wv show ?thesis by (simp add: bind_def attempt_def stays_half_def half_created_def faults_only_fields)
  qed
qed

lemma keeps_unless_missing:
  assumes "\<And>x. keeps (stays_half n) (c x)"
  shows "keeps (stays_half n) (bind (attempt (get_in config_maps (upgrade_job_config_map_key n))) (\<lambda>r. case r of
    Inr x \<Rightarrow> c x | Inl e \<Rightarrow> if \<not> is_not_found e then throw (h e) else b e))"
  by (rule keeps_with_config) (simp_all add: assms hf.keeps_throw)

lemma create_job_Ok: "create_in job_objects job_objects_update k x w = (Ok u, w') \<Longrightarrow>
    map_of (job_objects w') k = Some x \<and> config_maps w' = config_maps w"
  unfolding create_in_def by (auto dest!: api_Ok split: option.splits)

lemma create_config_map_Ok: "create_in config_maps config_maps_update k x w = (Ok u, w') \<Longrightarrow>
    map_of (config_maps w') k = Some x"
  unfolding create_in_def by (auto dest!: api_Ok split: option.splits)

lemma keeps_operator_image: "keeps (keys_kept n) (operator_image_name U i)"
  unfolding operator_image_name_def by (intro kk.object_rules keeps_half_metadata)

lemma config_and_job_Ok:
  assumes "map_of (config_maps w) (upgrade_job_config_map_key (in_name i)) = None"
    and "map_of (job_objects w) (upgrade_job_key (in_name i)) = None"
    and "config_and_job A rc i previous_version data w = (Ok u, w')"
  shows "\<exists>img. map_of (job_objects w') (upgrade_job_key (in_name i)) = Some (upgrade_job_of rc i img previous_version) \<and>
    map_of (config_maps w') (upgrade_job_config_map_key (in_name i)) =
      Some \<lparr>cm_annotations = [], cm_data = [(''installation.yaml'', data)]\<rparr>"
proof -
  let ?n = "in_name i"
  from assms(3) obtain v0 v1 v2 img where
    c: "create_in config_maps config_maps_update (upgrade_job_config_map_key ?n)
      \<lparr>cm_annotations = [], cm_data = [(''installation.yaml'', data)]\<rparr> v0 = (Ok (), v1)"
    and im: "operator_image_name (ar_upgrade A) i v1 = (Ok img, v2)"
    and j: "create_in job_objects job_objects_update (upgrade_job_key ?n) (upgrade_job_of rc i img previous_version) v2 = (Ok (), w')"
    unfolding config_and_job_def create_job_object_def bind_attempt_Ok_iff using assms(1)
    by (auto simp: call_Ok_iffs split: if_split_asm dest!: get_in_Ok)
  from keepsD [OF keeps_operator_image im] create_config_map_Ok [OF c] create_job_Ok [OF j]
  show ?thesis unfolding keys_kept_def by auto
qed

text \<open>
  A first run that returns without an error has created both the job and the configuration it
  mounts, which is the marshalled installation, unless something else touched the two meanwhile.
\<close>

theorem upgrade_job_created:
  assumes "\<And>w. keys_kept (in_name i) w (lib_tick L w)"
    and "map_of (job_objects w) (upgrade_job_key (in_name i)) = None"
    and "map_of (config_maps w) (upgrade_job_config_map_key (in_name i)) = None"
    and "create_upgrade_job L A rc i opts previous_version w = (Ok u, w')"
  shows "\<exists>img data. ar_marshal_installation A i = Ok data \<and>
    map_of (job_objects w') (upgrade_job_key (in_name i)) = Some (upgrade_job_of rc i img previous_version) \<and>
    map_of (config_maps w') (upgrade_job_config_map_key (in_name i)) =
      Some \<lparr>cm_annotations = [], cm_data = [(''installation.yaml'', data)]\<rparr>"
proof -
  let ?n = "in_name i"
  let ?cm = "\<lambda>data. \<lparr>cm_annotations = [], cm_data = [(''installation.yaml'', data)]\<rparr>"
  from assms(4) obtain e v0 v1 v2 data where e: "get_in job_objects (upgrade_job_key ?n) w = (Err e, v0)"
    and c: "copy_version_metadata_to_cluster A i v0 = (Ok (), v1)" "distribute_artifacts L A rc i opts v1 = (Ok (), v2)"
    and d: "ar_marshal_installation A i = Ok data" "config_and_job A rc i previous_version data v2 = (Ok u, w')"
    unfolding create_upgrade_job_def bind_attempt_Ok_iff using assms(2)
    by (auto simp: call_Ok_iffs split: if_split_asm dest!: get_in_Ok)
  have "keys_kept ?n w v2"
    by (rule kk.frame_trans [OF keepsD [OF kk.keeps_get_in e] kk.frame_trans
      [OF keepsD [OF keeps_copy_metadata c(1)] keepsD [OF keeps_distribute [OF assms(1)] c(2)]]])
  then have "map_of (job_objects v2) (upgrade_job_key ?n) = None"
    "map_of (config_maps v2) (upgrade_job_config_map_key ?n) = None"
    using assms(2,3) by (simp_all add: keys_kept_def)
  from config_and_job_Ok [OF this(2,1) d(2)] d(1) show ?thesis by (elim exE conjE) (intro exI conjI)
qed

text \<open>
  If a run stored the configuration of a job and ended before it created the job, no later run
  creates it, whatever it returns: the function returns once it has updated the configuration.
\<close>

theorem retry_never_creates_the_job:
  assumes "\<And>w. keys_kept (in_name i) w (lib_tick L w)" and "half_created (in_name i) w"
    and "create_upgrade_job L A rc i opts previous_version w = (r, w')"
  shows "half_created (in_name i) w'"
proof -
  have "keeps (stays_half (in_name i)) (create_upgrade_job L A rc i opts previous_version)"
    unfolding create_upgrade_job_def config_and_job_def
    by (intro keeps_unless_missing hf.object_rules stays_half_config_maps
      keys_kept_half [OF keeps_copy_metadata] keys_kept_half [OF keeps_distribute [OF assms(1)]])
  from keepsD [OF this assms(3)] assms(2) show ?thesis by (simp add: stays_half_def)
qed

section \<open>What the migration deletes\<close>

definition only_orphans :: "kube \<Rightarrow> kube \<Rightarrow> bool" where
  "only_orphans w w' \<longleftrightarrow> (\<exists>evs. log w' = log w @ evs \<and> (\<forall>e \<in> set evs. \<exists>k. e = ChartDeleted k []))"

definition unpinned :: "kube \<Rightarrow> bool" where
  "unpinned w \<longleftrightarrow> (\<forall>c \<in> set (k0s_charts w). snd c = [])"

text \<open>While the program waits, others delete charts and remove finalizers, and no more than that.\<close>

definition charts_fade :: "'v lib \<Rightarrow> bool" where
  "charts_fade L \<longleftrightarrow> (\<forall>w. log (lib_tick L w) = log w \<and> (unpinned w \<longrightarrow> unpinned (lib_tick L w)) \<and>
     fst ` set (k0s_charts (lib_tick L w)) \<subseteq> fst ` set (k0s_charts w))"

interpretation orph: kube_frame only_orphans
proof
  show "only_orphans u w" if "only_orphans u v" "only_orphans v w" for u v w
    using that unfolding only_orphans_def by (metis Un_iff append_assoc set_append)
qed (auto simp: only_orphans_def)

lemma only_orphans_same: "log w' = log w \<Longrightarrow> only_orphans w w'"
  by (simp add: only_orphans_def)

lemma keeps_recovered:
  fixes m :: "(kube, 'a) call"
  assumes "keeps only_orphans m" "\<And>p. keeps only_orphans (f p)"
  shows "keeps only_orphans (recovered m f)"
  unfolding keeps_def
proof
  fix w
  obtain q v where q: "m w = (q, v)" by (cases "m w")
  note k = keepsD [OF assms(1) q]
  show "only_orphans w (snd (recovered m f w))"
  proof (cases q)
    case (Panic p)
    have "keeps only_orphans (bind (attempt (f p)) (\<lambda>_. lift (Panic p) :: (kube, 'a) call))"
      by (intro orph.object_rules assms(2))
    then have "only_orphans v (snd (bind (attempt (f p)) (\<lambda>_. lift (Panic p) :: (kube, 'a) call) v))" by (simp add: keeps_def)
    with q Panic orph.frame_trans [OF k] show ?thesis by (simp add: recovered_def)
  qed (use q k in \<open>simp_all add: recovered_def\<close>)
qed

lemma keeps_io_set_condition: "keeps installs_only (set_migration_condition L i s r m)"
  unfolding set_migration_condition_def
  by (intro io.kube_frame_rules keeps_get_install keeps_write_install_status)

lemma keeps_orphans_set_condition: "keeps only_orphans (set_migration_condition L i s r m)"
  unfolding keeps_def
proof
  fix w
  have "installs_only w (snd (set_migration_condition L i s r m w))"
    by (rule keepsD [OF keeps_io_set_condition prod.collapse [symmetric]])
  from installs_only_log [OF this] show "only_orphans w (snd (set_migration_condition L i s r m w))" by (rule only_orphans_same)
qed

lemma recovered_Ok: "recovered m f w = (Ok x, w') \<longleftrightarrow> m w = (Ok x, w')"
  by (auto simp: recovered_def bind_def lift_def split: prod.splits outcome.splits)

lemma keeps_orphans_operator:
  assumes "charts_fade L"
  shows "keeps only_orphans (scale_down_operator L)"
proof -
  have "keeps only_orphans set_operator_deployment_replicas_zero"
    unfolding set_operator_deployment_replicas_zero_def
    by (intro orph.object_rules) (auto simp: keeps_def only_orphans_same split: option.splits)
  then show ?thesis unfolding scale_down_operator_def wait_for_operator_deployment_def operator_updated_try_def is_operator_deployment_updated_def
    using assms by (intro orph.object_rules orph.keeps_poll only_orphans_same) (simp_all add: charts_fade_def)
qed

lemma keeps_orphans_write_chart: "keeps only_orphans (write_chart k fs)"
  unfolding write_chart_def by (intro orph.object_rules) (auto simp: keeps_def only_orphans_same split: option.splits)

lemma await_no_finalizers_run:
  assumes "charts_fade L" "await_no_finalizers n (lib_tick L) w = (r, w')"
  shows "log w' = log w \<and> (\<forall>cs. r = Ok cs \<longrightarrow> unpinned w' \<and> fst ` set (k0s_charts w') \<subseteq> fst ` set cs)"
  using assms(2)
proof (induction n arbitrary: w)
  case (Suc n)
  let ?list = "wrap ''list charts'' (api (gets k0s_charts)) :: (kube, (nsname \<times> string list) list) call"
  obtain q v where q: "?list w = (q, v)" by (cases "?list w")
  have k: "keeps faults_only ?list" by (intro fo.object_rules)
  note wv = faults_only_fields(5,6) [OF keepsD [OF k q]]
  show ?case
  proof (cases q)
    case (Ok cs)
    from q Ok have cs: "cs = k0s_charts v" by (auto simp: wrap_Ok_iff gets_def dest!: api_Ok)
    let ?t = "lib_tick L v"
    from assms(1) have t: "log ?t = log v" "unpinned v \<Longrightarrow> unpinned ?t" "fst ` set (k0s_charts ?t) \<subseteq> fst ` set cs"
      unfolding charts_fade_def cs by simp_all
    from Suc.prems q Ok have run: "(if list_ex (\<lambda>(k, fs). fs \<noteq> []) cs then await_no_finalizers n (lib_tick L) else ret cs) ?t = (r, w')"
      by (simp add: bind_def modify_def)
    show ?thesis
    proof (cases "list_ex (\<lambda>(k, fs). fs \<noteq> []) cs")
      case True
      with run have "await_no_finalizers n (lib_tick L) ?t = (r, w')" by simp
      from Suc.IH [OF this] t(1) wv(2) show ?thesis by simp
    next
      case False
      then have "unpinned v" by (auto simp: unpinned_def cs list_ex_iff)
      with run False t wv(2) show ?thesis by (auto simp: ret_def)
    qed
  qed (use Suc.prems q wv in \<open>auto simp: bind_def\<close>)
qed (auto simp: lift_def)

lemma delete_chart_run:
  assumes "delete_chart k w = (r, w')" "unpinned w"
  shows "unpinned w' \<and> only_orphans w w' \<and> (\<forall>u. r = Ok u \<longrightarrow> fst ` set (k0s_charts w') = fst ` set (k0s_charts w) - {k})"
proof -
  have keys: "fst ` set (AList.delete k al) = fst ` set al - {k}" for al :: "(nsname \<times> string list) list"
    by (metis delete_keys image_set set_removeAll)
  have kept: "unpinned (v\<lparr>k0s_charts := AList.delete k (k0s_charts v), log := l\<rparr>)" if "unpinned v" for v l
    using that unfolding unpinned_def by (auto simp: AList.delete_eq)
  have none: "fs = []" if "map_of (k0s_charts w) k = Some fs" for fs
    using assms(2) map_of_SomeD [OF that] by (auto simp: unpinned_def)
  consider (same) fs where "w' = w\<lparr>faults := fs\<rparr>" "\<forall>u. r \<noteq> Ok u"
    | (gone) fs where "w' = w\<lparr>faults := fs, k0s_charts := AList.delete k (k0s_charts w), log := log w @ [ChartDeleted k []]\<rparr>"
  proof (cases "map_of (k0s_charts w) k")
    case None
    with api_cases [OF assms(1) [unfolded delete_chart_def]] show ?thesis by (auto intro: same)
  next
    case (Some fs)
    with none api_cases [OF assms(1) [unfolded delete_chart_def]] show ?thesis by (auto intro: same gone)
  qed
  then show ?thesis
  proof cases
    case same
    with assms(2) show ?thesis by (simp add: unpinned_def only_orphans_same)
  next
    case (gone fs)
    with kept [of "w\<lparr>faults := fs\<rparr>"] assms(2) show ?thesis by (simp add: keys only_orphans_def unpinned_def)
  qed
qed

lemma bind_wrap_Ok: "m w = (Ok x, v) \<Longrightarrow> bind (wrap c m) f w = f x v"
  by (simp add: bind_def wrap_def)

lemma delete_charts_run:
  assumes "for_each (\<lambda>(k, fs). wrap ''delete chart'' (delete_chart k)) cs w = (r, w')" "unpinned w"
  shows "only_orphans w w' \<and> (\<forall>u. r = Ok u \<longrightarrow> fst ` set (k0s_charts w') = fst ` set (k0s_charts w) - fst ` set cs)"
  using assms
proof (induction cs arbitrary: w)
  case (Cons c cs)
  obtain q v where q: "delete_chart (fst c) w = (q, v)" by (cases "delete_chart (fst c) w")
  note d = delete_chart_run [OF q Cons.prems(2)]
  show ?case
  proof (cases q)
    case (Ok x)
    with Cons.prems(1) q have "for_each (\<lambda>(k, fs). wrap ''delete chart'' (delete_chart k)) cs v = (r, w')"
      by (cases c) (simp add: bind_wrap_Ok)
    from Cons.IH [OF this] d Ok orph.frame_trans show ?thesis by auto
  qed (use Cons.prems(1) q d in \<open>cases c; auto simp: bind_def wrap_def\<close>)+
qed (auto simp: ret_def orph.frame_refl)

lemma orphans_then:
  assumes "keeps only_orphans m" "\<And>x v. m w = (Ok x, v) \<Longrightarrow> only_orphans v (snd (f x v))"
  shows "only_orphans w (snd (bind m f w))"
proof -
  obtain q v where q: "m w = (q, v)" by (cases "m w")
  note k = keepsD [OF assms(1) q]
  show ?thesis using k q orph.frame_trans [OF k] assms(2) by (cases q) (simp_all add: bind_def)
qed

lemma keeps_orphans_force_delete:
  assumes "charts_fade L"
  shows "keeps only_orphans (force_delete_chart_crs n L)"
proof -
  have await: "keeps only_orphans (await_no_finalizers n (lib_tick L))"
    unfolding keeps_def using await_no_finalizers_run [OF assms] by (metis only_orphans_same prod.collapse)
  have tail: "keeps only_orphans (bind (await_no_finalizers n (lib_tick L))
      (\<lambda>charts. for_each (\<lambda>(k, fs). wrap ''delete chart'' (delete_chart k)) charts))"
    unfolding keeps_def
  proof (intro allI orphans_then await)
    fix w cs v assume "await_no_finalizers n (lib_tick L) w = (Ok cs, v)"
    with await_no_finalizers_run [OF assms] have "unpinned v" by blast
    from delete_charts_run [OF prod.collapse [symmetric] this]
    show "only_orphans v (snd (for_each (\<lambda>(k, fs). wrap ''delete chart'' (delete_chart k)) cs v))" by blast
  qed
  show ?thesis unfolding force_delete_chart_crs_def
    by (rule orph.keeps_bind, intro orph.object_rules, rule orph.keeps_bind, intro orph.object_rules keeps_orphans_write_chart, rule tail)
qed

lemma force_delete_Ok:
  assumes "charts_fade L" "force_delete_chart_crs n L w = (Ok u, w')"
  shows "k0s_charts w' = []"
proof -
  from assms(2) obtain cs v0 v where a: "await_no_finalizers n (lib_tick L) v0 = (Ok cs, v)"
    and d: "for_each (\<lambda>(k, fs). wrap ''delete chart'' (delete_chart k)) cs v = (Ok u, w')"
    unfolding force_delete_chart_crs_def bind_Ok_iff wrap_Ok_iff by (elim exE conjE) (rule that)
  from await_no_finalizers_run [OF assms(1) a] have v: "unpinned v" "fst ` set (k0s_charts v) \<subseteq> fst ` set cs" by simp_all
  have "fst ` set (k0s_charts w') = fst ` set (k0s_charts v) - fst ` set cs"
    using conjunct2 [OF delete_charts_run [OF d v(1)]] by simp
  also have "\<dots> = {}" using v(2) by (simp only: Diff_eq_empty_iff)
  finally show ?thesis by simp
qed

lemma keeps_orphans_cluster_config: "keeps only_orphans get_cluster_config" "keeps only_orphans (write_cluster_config c)"
  unfolding get_cluster_config_def write_cluster_config_def
  by (rule orph.keeps_api; auto simp: keeps_def only_orphans_same split: option.splits)+

text \<open>
  C5: The migration never uninstalls a release: whatever it returns, all it did outside was to
  delete chart objects that had no finalizer left, as long as nobody adds one meanwhile.
\<close>

theorem migration_uninstalls_nothing:
  assumes "charts_fade L" and "migrate_v2 n L i w = (r, w')"
  shows "\<exists>evs. log w' = log w @ evs \<and> (\<forall>e \<in> set evs. \<exists>k. e = ChartDeleted k [])"
proof -
  have "keeps only_orphans (run_migration n L)"
    unfolding run_migration_def remove_cluster_config_helm_extensions_def
    by (intro orph.object_rules keeps_orphans_operator keeps_orphans_force_delete keeps_orphans_cluster_config assms(1))
  then have "keeps only_orphans (migrate_v2 n L i)"
    unfolding migrate_v2_def migration_body_def needs_migration_def
    by (intro orph.object_rules keeps_recovered keeps_orphans_set_condition keeps_orphans_cluster_config)
  from keepsD [OF this assms(2)] show ?thesis unfolding only_orphans_def .
qed

lemma deref_Ok: "deref x = Ok y \<longleftrightarrow> x = Some y"
  by (cases x) (simp_all add: deref_def)

lemma needs_migration_False:
  assumes "needs_migration w = (Ok False, w')"
  shows "k0s_charts w' = [] \<and> (\<exists>c. cluster_cfg w' = Some c \<and> (cfg_extensions c = Some None \<or> cfg_extensions c = Some (Some [])))"
proof -
  let ?list = "wrap ''list k0s charts'' (api (gets k0s_charts)) :: (kube, (nsname \<times> string list) list) call"
  let ?cfg = "wrap ''get cluster config'' get_cluster_config"
  from assms obtain cs v where l: "?list w = (Ok cs, v)" and r: "(if cs \<noteq> [] then ret True else bind ?cfg (\<lambda>cfg.
        bind (lift (deref (cfg_extensions cfg))) (\<lambda>helm. ret (case helm of None \<Rightarrow> False | Some charts \<Rightarrow> charts \<noteq> [])))) v = (Ok False, w')"
    unfolding needs_migration_def wrap_Ok_iff by (subst (asm) bind_Ok_iff) (elim exE conjE, rule that)
  from l have cs: "k0s_charts v = cs" by (auto simp: wrap_Ok_iff gets_def dest!: api_Ok)
  from r have e: "cs = []" by (auto simp: ret_def split: if_split_asm)
  with r obtain c helm where c: "get_cluster_config v = (Ok c, w')" "cfg_extensions c = Some helm"
    and h: "(case helm of None \<Rightarrow> False | Some charts \<Rightarrow> charts \<noteq> []) = False"
    by (auto simp: call_Ok_iffs deref_Ok)
  from h have "helm = None \<or> helm = Some []" by (cases helm) simp_all
  moreover have "k0s_charts w' = k0s_charts v"
    using c(1) unfolding get_cluster_config_def by (auto dest!: api_Ok split: option.splits)
  ultimately show ?thesis using get_cluster_config_Ok [OF c(1)] c(2) e cs by auto
qed

lemma remove_extensions_Ok:
  assumes "remove_cluster_config_helm_extensions w = (Ok u, w')"
  shows "k0s_charts w' = k0s_charts w \<and> (\<exists>c. cluster_cfg w' = Some c \<and> cfg_extensions c = Some (Some []))"
  using assms unfolding remove_cluster_config_helm_extensions_def bind_Ok_iff wrap_Ok_iff
  by (elim exE conjE) (auto simp: get_cluster_config_def write_cluster_config_def lift_def dest!: api_Ok split: option.splits outcome.splits)

lemma migration_body_Ok:
  assumes "charts_fade L" "migration_body n L i w = (Ok u, w')"
  shows "k0s_charts w' = [] \<and> (\<exists>c. cluster_cfg w' = Some c \<and> cfg_extensions c = Some (Some []))"
proof -
  from assms(2) obtain x v where r: "run_migration n L w = (Ok x, v)"
    and s: "set_migration_condition L i ''False'' ''MigrationComplete'' [] v = (Ok u, w')"
    unfolding migration_body_def recovered_Ok bind_attempt_Ok_iff
    by (auto simp: bind_Ok_iff wrap_Ok_iff throw_def)
  have "installs_only v w'" by (rule keepsD [OF keeps_io_set_condition s])
  then have same: "k0s_charts w' = k0s_charts v" "cluster_cfg w' = cluster_cfg v"
    unfolding installs_only_def by (cases w; cases v; cases w'; simp)+
  from r obtain v0 v1 where "force_delete_chart_crs n L v0 = (Ok (), v1)" "remove_cluster_config_helm_extensions v1 = (Ok x, v)"
    unfolding run_migration_def bind_Ok_iff wrap_Ok_iff by (elim exE conjE) (rule that, simp_all)
  with force_delete_Ok [OF assms(1)] remove_extensions_Ok same show ?thesis by metis
qed

text \<open>
  C33: A migration that returns without an error leaves no chart object and no chart in the cluster
  configuration, as long as nobody, k0s included, adds a chart object while it runs: between two looks chart objects
  may go and lose finalizers, but none may come.
\<close>

theorem migration_completes:
  assumes "charts_fade L" and "migrate_v2 n L i w = (Ok u, w')"
  shows "k0s_charts w' = [] \<and> (\<exists>c. cluster_cfg w' = Some c \<and> (cfg_extensions c = Some None \<or> cfg_extensions c = Some (Some [])))"
proof -
  from assms(2) obtain needed v where v: "needs_migration w = (Ok needed, v)"
    and rest: "(if \<not> needed then ret () else
       bind (wrap ''set v2 migration in progress'' (set_migration_condition L i ''True'' ''MigrationInProgress'' [])) (\<lambda>_. migration_body n L i)) v = (Ok u, w')"
    unfolding migrate_v2_def by (subst (asm) bind_Ok_iff) (auto simp: wrap_Ok_iff)
  show ?thesis
  proof (cases needed)
    case False
    with rest have "w' = v" by (simp add: ret_def)
    with needs_migration_False [OF v [unfolded eq_False [THEN iffD2, OF False]]] show ?thesis by simp
  next
    case True
    with rest obtain v1 where "migration_body n L i v1 = (Ok u, w')"
      by (auto simp: bind_Ok_iff)
    from migration_body_Ok [OF assms(1) this] show ?thesis by blast
  qed
qed

section \<open>Witnesses\<close>

definition sample_job_waiting :: kube where
  "sample_job_waiting = (sample_cluster ''v1'' None)\<lparr>job_objects := [(artifact_job_key ''n'', sample_done_job)]\<rparr>"

lemma sample_job_keys: "get_in job_objects (upgrade_job_key n) sample_job_waiting = (Err (ENotFound (nsname_text (upgrade_job_key n))), sample_job_waiting)"
  "map_of (config_maps sample_job_waiting) k = None"
  by (simp_all add: sample_job_waiting_def get_in_def copy_job_key_other [THEN not_sym] sample_cluster_def sample_kube_def)

lemma sample_create_run:
  "create_upgrade_job sample_lib sample_artifact_lib empty_runtime_config sample_upgrading sample_artifact_options ''1.0.0''
     sample_job_waiting = config_and_job sample_artifact_lib empty_runtime_config sample_upgrading ''1.0.0'' ''2'' (sample_cluster ''v1'' None)"
  using sample_distribution [of "''v1''"] unfolding sample_job_waiting_def [symmetric]
  by (simp add: create_upgrade_job_def bind_def attempt_def wrap_def lift_def ret_def sample_job_keys copy_version_metadata_to_cluster_def
    distribute_artifacts_def sample_artifact_options_def sample_artifact_lib_def sample_upgrading_def sample_install_def sample_spec_def)

lemma sample_config_run:
  "\<exists>w'. config_and_job sample_artifact_lib empty_runtime_config sample_upgrading ''1.0.0'' ''2'' (sample_cluster ''v1'' None) = (Ok (), w')"
  by (simp add: config_and_job_def create_job_object_def operator_image_name_def metadata_for_def bind_def attempt_def wrap_def
    lift_def ret_def sample_upgrading_def sample_install_def sample_spec_def deref_def get_in_def create_in_def
      remote_metadata_for_def Let_def trim_v_def gets_def sample_cluster_def sample_kube_def sample_upgrade_lib_def
      cache_meta_def modify_def meta_from_cache_def sample_config_def sample_artifact_lib_def sample_metadata_def upgrade_job_key_def)

lemma sample_keys_kept: "keys_kept n w (lib_tick sample_lib w)"
  by (simp add: sample_lib_def kk.frame_refl)

theorem upgrade_job_created_witness:
  "\<exists>w' img. create_upgrade_job sample_lib sample_artifact_lib empty_runtime_config sample_upgrading sample_artifact_options
      ''1.0.0'' sample_job_waiting = (Ok (), w') \<and>
    map_of (job_objects w') (upgrade_job_key ''2'') = Some (upgrade_job_of empty_runtime_config sample_upgrading img ''1.0.0'')"
proof -
  have n: "in_name sample_upgrading = ''2''" by (simp add: sample_upgrading_def sample_install_def)
  have none: "map_of (job_objects sample_job_waiting) (upgrade_job_key m) = None" for m
    by (simp add: sample_job_waiting_def copy_job_key_other [THEN not_sym])
  obtain w' where run: "create_upgrade_job sample_lib sample_artifact_lib empty_runtime_config sample_upgrading
      sample_artifact_options ''1.0.0'' sample_job_waiting = (Ok (), w')"
    using sample_config_run unfolding sample_create_run by (elim exE)
  from upgrade_job_created [OF sample_keys_kept none sample_job_keys(2) run] run show ?thesis unfolding n by blast
qed

definition sample_half_created :: kube where
  "sample_half_created = sample_job_waiting\<lparr>config_maps := [(upgrade_job_config_map_key ''2'',
     \<lparr>cm_annotations = [], cm_data = [(''installation.yaml'', ''old'')]\<rparr>)]\<rparr>"

theorem retry_never_creates_the_job_witness:
  "half_created ''2'' (snd (create_upgrade_job sample_lib sample_artifact_lib empty_runtime_config sample_upgrading
     sample_artifact_options ''1.0.0'' sample_half_created))"
proof -
  have n: "in_name sample_upgrading = ''2''" by (simp add: sample_upgrading_def sample_install_def)
  have "half_created (in_name sample_upgrading) sample_half_created"
    by (simp add: n half_created_def sample_half_created_def sample_job_waiting_def copy_job_key_other [THEN not_sym])
  from retry_never_creates_the_job [OF sample_keys_kept this prod.collapse [symmetric]] show ?thesis unfolding n .
qed

text \<open>A cluster with a chart of k0s, and its migration.\<close>

definition sample_migrating :: kube where
  "sample_migrating = (sample_kube [sample_upgrading])\<lparr>
     deployments := [(operator_key, \<lparr>wl_replicas = None, wl_ready = 1, wl_containers = []\<rparr>)],
     cluster_cfg := Some \<lparr>cfg_name = ''k0s'', cfg_konnectivity = True, cfg_telemetry = None, cfg_api = None, cfg_network = None,
       cfg_images = None, cfg_storage = [], cfg_etcd_peer = None, cfg_worker_profiles = [], cfg_extensions = Some (Some [''openebs'']), cfg_rest = []\<rparr>,
     k0s_charts := [((''kube-system'', ''k0s-addon''), [''helm.k0sproject.io/uninstall-helm-release''])]\<rparr>"

lemma sample_fade: "charts_fade sample_lib"
  by (simp add: charts_fade_def sample_lib_def)

lemma sample_set_migration:
  assumes "faults w = []" "installs w = [x]" "in_name x = ''2''"
  shows "\<exists>y. in_name y = ''2'' \<and> set_migration_condition sample_lib sample_upgrading s r m w = (Ok (), w\<lparr>installs := [y]\<rparr>)"
proof -
  have "retry_on_conflict 4 c w = c w" if "c w = (Ok (), v)" for c :: "(kube, unit) call" and v
    using that by (simp add: numeral_eq_Suc bind_def attempt_def ret_def)
  with assms show ?thesis
    by (intro exI [of _ "x\<lparr>in_status := set_condition (lib_set_condition sample_lib) (migration_condition s r m) (in_status x)\<rparr>"])
      (simp add: set_migration_condition_def sample_upgrading_def sample_install_def sample_lib_def wrap_def bind_def
      get_install_def write_install_status_def find_install_def put_install_def)
qed

lemma sample_no_pods: "pod_objects (sample_kube ins) = []"
  by (simp add: sample_kube_def)

lemma sample_migration_run: "\<exists>w'. migrate_v2 1 sample_lib sample_upgrading sample_migrating = (Ok (), w')"
proof -
  let ?w = sample_migrating
  have n: "needs_migration ?w = (Ok True, ?w)"
    by (simp add: needs_migration_def sample_migrating_def bind_def wrap_def gets_def ret_def)
  obtain y where y: "in_name y = ''2''" "set_migration_condition sample_lib sample_upgrading ''True'' ''MigrationInProgress'' [] ?w = (Ok (), ?w\<lparr>installs := [y]\<rparr>)"
  proof -
    have "faults ?w = []" "installs ?w = [sample_upgrading]" "in_name sample_upgrading = ''2''"
      by (simp_all add: sample_migrating_def sample_upgrading_def sample_install_def)
    from sample_set_migration [OF this, where s = "''True''" and r = "''MigrationInProgress''" and m = "[]"] that
    show ?thesis by (elim exE conjE)
  qed
  let ?v = "?w\<lparr>installs := [y]\<rparr>"
  have "\<exists>v'. run_migration 1 sample_lib ?v = (Ok (), v') \<and> faults v' = [] \<and> installs v' = [y]"
    by (simp add: run_migration_def scale_down_operator_def set_operator_deployment_replicas_zero_def wait_for_operator_deployment_def
      operator_updated_try_def is_operator_deployment_updated_def force_delete_chart_crs_def write_chart_def delete_chart_def
      remove_cluster_config_helm_extensions_def get_cluster_config_def write_cluster_config_def sample_migrating_def sample_lib_def
      bind_def wrap_def gets_def ret_def lift_def deref_def attempt_def modify_def numeral_eq_Suc sample_no_pods)
  then obtain v' where v': "run_migration 1 sample_lib ?v = (Ok (), v')" "faults v' = []" "installs v' = [y]" by (elim exE conjE)
  obtain z where "set_migration_condition sample_lib sample_upgrading ''False'' ''MigrationComplete'' [] v' = (Ok (), v'\<lparr>installs := [z]\<rparr>)"
    using sample_set_migration [OF v'(2,3) y(1), where s = "''False''" and r = "''MigrationComplete''" and m = "[]"]
    by (elim exE conjE)
  with n y(2) v'(1) show ?thesis
    by (simp add: migrate_v2_def migration_body_def recovered_def bind_def wrap_def attempt_def)
qed

theorem migration_uninstalls_nothing_witness:
  "\<exists>evs. log (snd (migrate_v2 1 sample_lib sample_upgrading sample_migrating)) = evs \<and> list_all (\<lambda>e. \<exists>k. e = ChartDeleted k []) evs"
proof -
  have "log sample_migrating = []" by (simp add: sample_migrating_def sample_kube_def)
  with migration_uninstalls_nothing [OF sample_fade prod.collapse [symmetric], of 1 sample_upgrading sample_migrating]
  show ?thesis by (auto simp: list_all_iff)
qed

theorem migration_completes_witness:
  "k0s_charts sample_migrating \<noteq> [] \<and> k0s_charts (snd (migrate_v2 1 sample_lib sample_upgrading sample_migrating)) = []"
proof -
  obtain w' where run: "migrate_v2 1 sample_lib sample_upgrading sample_migrating = (Ok (), w')"
    using sample_migration_run by (elim exE)
  have "k0s_charts sample_migrating \<noteq> []" by (simp add: sample_migrating_def)
  with migration_completes [OF sample_fade run] run show ?thesis by simp
qed

end
