(* ===== verification/Controller.thy ===== *)
theory Controller
  imports UpgradeJob
begin

text \<open>
  The operator's controller (\<^verbatim>\<open>operator/controllers/installation_controller.go\<close>) and what one reconcile
  runs: the statuses of the nodes and their events (\<^verbatim>\<open>operator/pkg/metrics\<close>), the jobs that copy
  preflight results, the cleanup of volumes of nodes that are gone (\<^verbatim>\<open>operator/pkg/openebs\<close>), the CA
  bundle and the deletion of upgrade jobs. A node's event is encoded and hashed by a parameter; what
  the metrics server answers is one too, and is only logged.
\<close>

section \<open>Node events\<close>

record node_event =
  ev_cluster :: string
  ev_labels :: "(string \<times> string) list"
  ev_node :: string
  ev_info :: string
  ev_capacity :: string
  ev_allocatable :: string
  ev_role :: string
  ev_version :: string

record node_events_batch =
  nodes_added :: "node_event list"
  nodes_updated :: "node_event list"
  nodes_removed :: "string list"

definition node_event_from_node :: "string \<Rightarrow> string \<Rightarrow> node \<Rightarrow> node_event" where
  "node_event_from_node cluster version n =
     \<lparr>ev_cluster = cluster, ev_labels = node_labels n, ev_node = node_name n, ev_info = node_info n,
      ev_capacity = node_capacity n, ev_allocatable = node_allocatable n,
      ev_role = lookup_or_empty (node_labels n) ''node.k0sproject.io/role'', ev_version = version\<rparr>"

record controller_lib =
  cl_artifacts :: artifact_lib
  cl_event_hash :: "node_event \<Rightarrow> string outcome"
  cl_send_event :: "string \<Rightarrow> string \<Rightarrow> unit outcome"
  cl_unmarshal_config :: "string \<Rightarrow> config_spec outcome"
  cl_utils_image :: string
  cl_ca_path :: string
  cl_kotsadm_ns :: string
  cl_arrange :: "string list \<Rightarrow> string list"

fun node_has_changed :: "(node_event \<Rightarrow> string outcome) \<Rightarrow> node_status list \<Rightarrow> node_event \<Rightarrow> (bool \<times> bool) outcome" where
  "node_has_changed H [] ev = Ok (True, True)"
| "node_has_changed H (s # ss) ev = (if ns_name s \<noteq> ev_node ev then node_has_changed H ss ev
     else bindO (H ev) (\<lambda>h. Ok (ns_hash s \<noteq> h, False)))"

fun put_node_hash :: "string \<Rightarrow> string \<Rightarrow> node_status list \<Rightarrow> node_status list" where
  "put_node_hash n h [] = [\<lparr>ns_name = n, ns_hash = h\<rparr>]"
| "put_node_hash n h (s # ss) = (if ns_name s \<noteq> n then s # put_node_hash n h ss else s\<lparr>ns_hash := h\<rparr> # ss)"

definition update_node_status :: "(node_event \<Rightarrow> string outcome) \<Rightarrow> node_status list \<Rightarrow> node_event \<Rightarrow> node_status list outcome" where
  "update_node_status H ss ev = bindO (H ev) (\<lambda>h. Ok (put_node_hash (ev_node ev) h ss))"

definition config_version :: "installation \<Rightarrow> string" where
  "config_version i = (case spec_config (in_spec i) of None \<Rightarrow> [] | Some c \<Rightarrow> ec_version c)"

text \<open>The two loops of \<open>ReconcileNodeStatuses\<close>; the statuses and the batch are what they assign.\<close>

fun nodes_loop :: "(node_event \<Rightarrow> string outcome) \<Rightarrow> installation \<Rightarrow> node_status list \<Rightarrow> node_events_batch \<Rightarrow> node list \<Rightarrow>
    (kube, node_status list \<times> node_events_batch) call" where
  "nodes_loop H i ss b [] = ret (ss, b)"
| "nodes_loop H i ss b (n # ns) =
     (let ev = node_event_from_node (cluster_id (in_spec i)) (config_version i) n in
      bind (wrap ''failed to check if node has changed'' (lift (node_has_changed H ss ev))) (\<lambda>(changed, isnew).
      if \<not> changed then nodes_loop H i ss b ns
      else
        bind (wrap ''failed to update node status'' (lift (update_node_status H ss ev))) (\<lambda>ss'.
        if isnew then
          bind (emit (Recorded ''NodeAdded'' (node_name n))) (\<lambda>_.
          nodes_loop H i ss' (b\<lparr>nodes_added := nodes_added b @ [ev]\<rparr>) ns)
        else
          bind (emit (Recorded ''NodeUpdated'' (node_name n))) (\<lambda>_.
          nodes_loop H i ss' (b\<lparr>nodes_updated := nodes_updated b @ [ev]\<rparr>) ns))))"

fun trim_loop :: "string list \<Rightarrow> node_status list \<Rightarrow> node_events_batch \<Rightarrow> node_status list \<Rightarrow>
    (kube, node_status list \<times> node_events_batch) call" where
  "trim_loop seen acc b [] = ret (acc, b)"
| "trim_loop seen acc b (s # ss) =
     (if ns_name s \<in> set seen then trim_loop seen (acc @ [s]) b ss
      else bind (emit (Recorded ''NodeRemoved'' (ns_name s))) (\<lambda>_.
           trim_loop seen acc (b\<lparr>nodes_removed := nodes_removed b @ [ns_name s]\<rparr>) ss))"

definition with_node_statuses :: "installation \<Rightarrow> node_status list \<Rightarrow> installation" where
  "with_node_statuses i ss = i\<lparr>in_status := (in_status i)\<lparr>nodes_status := ss\<rparr>\<rparr>"

definition reconcile_node_statuses :: "(node_event \<Rightarrow> string outcome) \<Rightarrow> installation \<Rightarrow>
    (kube, installation \<times> node_events_batch) call" where
  "reconcile_node_statuses H i =
     bind (wrap ''failed to list nodes'' (api (gets nodes))) (\<lambda>ns.
     bind (nodes_loop H i (nodes_status (in_status i)) \<lparr>nodes_added = [], nodes_updated = [], nodes_removed = []\<rparr> ns) (\<lambda>(ss, b).
     bind (trim_loop (map node_name ns) [] b ss) (\<lambda>(trimmed, b).
     ret (with_node_statuses i (sort_key ns_name trimmed), b))))"

text \<open>Events that are sent are logged with their kind and their node; a failure is not an error.\<close>

definition notify_node :: "controller_lib \<Rightarrow> string \<Rightarrow> string \<Rightarrow> (kube, unit) call" where
  "notify_node C kind n = bind (emit (Notified kind n)) (\<lambda>_. bind (attempt (lift (cl_send_event C kind n))) (\<lambda>_. ret ()))"

definition report_nodes_changes :: "controller_lib \<Rightarrow> node_events_batch \<Rightarrow> (kube, unit) call" where
  "report_nodes_changes C b =
     bind (for_each (\<lambda>ev. notify_node C ''NodeAdded'' (ev_node ev)) (nodes_added b)) (\<lambda>_.
     bind (for_each (\<lambda>ev. notify_node C ''NodeUpdated'' (ev_node ev)) (nodes_updated b)) (\<lambda>_.
     for_each (\<lambda>n. notify_node C ''NodeRemoved'' n) (nodes_removed b)))"

section \<open>Volumes of nodes that are gone\<close>

definition is_node_gone :: "node list \<Rightarrow> string \<Rightarrow> bool" where
  "is_node_gone ns n \<longleftrightarrow> n \<noteq> [] \<and> n \<notin> node_name ` set ns"

definition is_stuck :: "node list \<Rightarrow> pvc_object \<Rightarrow> bool" where
  "is_stuck ns p \<longleftrightarrow> pvc_annotations p \<noteq> [] \<and>
     lookup_or_empty (pvc_annotations p) ''volume.kubernetes.io/storage-provisioner'' = ''openebs.io/local'' \<and>
     is_node_gone ns (lookup_or_empty (pvc_annotations p) ''volume.kubernetes.io/selected-node'')"

definition find_stuck_pvcs :: "(kube, (nsname \<times> pvc_object) list) call" where
  "find_stuck_pvcs =
     bind (wrap ''list pvcs'' (api (gets pvc_objects))) (\<lambda>pvcs.
     bind (wrap ''list nodes'' (api (gets nodes))) (\<lambda>ns.
     ret (filter (\<lambda>(k, p). is_stuck ns p) pvcs)))"

definition is_pod_mounting_pvc :: "pod_object \<Rightarrow> nsname list \<Rightarrow> bool" where
  "is_pod_mounting_pvc p pvcs \<longleftrightarrow> list_ex (\<lambda>k. snd k \<in> set (po_claims p)) pvcs"

definition delete_pending_pods :: "string \<Rightarrow> nsname list \<Rightarrow> (kube, unit) call" where
  "delete_pending_pods ns pvcs =
     bind (wrap ''list pods'' (api (gets (\<lambda>w. filter (\<lambda>(k, p). fst k = ns) (pod_objects w))))) (\<lambda>pods.
     for_each (\<lambda>(k, p). if po_phase p \<noteq> ''Pending'' \<or> \<not> is_pod_mounting_pvc p pvcs then ret ()
       else wrap ''delete pod'' (delete_in pod_objects pod_objects_update k)) pods)"

definition get_pv :: "string \<Rightarrow> (kube, unit) call" where
  "get_pv n = api (\<lambda>w. if n \<in> set (pv_objects w) then (Ok (), w) else (Err (ENotFound n), w))"

definition delete_pv :: "string \<Rightarrow> (kube, unit) call" where
  "delete_pv n = api (\<lambda>w. if n \<in> set (pv_objects w) then (Ok (), w\<lparr>pv_objects := removeAll n (pv_objects w)\<rparr>)
     else (Err (ENotFound n), w))"

definition delete_pvc :: "nsname \<times> pvc_object \<Rightarrow> (kube, unit) call" where
  "delete_pvc kp =
     bind (attempt (get_pv (pvc_volume (snd kp)))) (\<lambda>r. bind (case r of
         Inl e \<Rightarrow> if \<not> is_not_found e then throw (EWrap ''get pv'' e) else ret ()
       | Inr _ \<Rightarrow> wrap ''delete pv'' (delete_pv (pvc_volume (snd kp)))) (\<lambda>_.
     wrap ''delete pvc'' (delete_in pvc_objects pvc_objects_update (fst kp))))"

text \<open>The namespaces are those of a map; \<open>arrange\<close> is the order of its iteration.\<close>

definition cleanup_stateful_pods :: "(string list \<Rightarrow> string list) \<Rightarrow> (kube, unit) call" where
  "cleanup_stateful_pods arrange =
     bind (wrap ''find stuck pvcs'' find_stuck_pvcs) (\<lambda>stuck.
     bind (for_each (\<lambda>ns. wrap ''delete pods with pvcs'' (delete_pending_pods ns (filter (\<lambda>k. fst k = ns) (map fst stuck))))
       (arrange (remdups (map (fst \<circ> fst) stuck)))) (\<lambda>_.
     for_each (\<lambda>kp. wrap ''delete stuck pvc'' (delete_pvc kp)) stuck))"

definition reconcile_openebs :: "(string list \<Rightarrow> string list) \<Rightarrow> installation \<Rightarrow> (kube, unit) call" where
  "reconcile_openebs arrange i = bind (attempt (cleanup_stateful_pods arrange)) (\<lambda>r. case r of
       Inr u \<Rightarrow> ret u
     | Inl e \<Rightarrow> bind (attempt (write_install_status i)) (\<lambda>_. throw (EWrap ''failed to cleanup openebs stateful pods'' e)))"

section \<open>The other steps\<close>

text \<open>The objects are those listed, none of them obsolete; the newest gets the statuses of the newest that has some.\<close>

fun first_statuses :: "installation list \<Rightarrow> node_status list" where
  "first_statuses [] = []"
| "first_statuses (i # is) = (if nodes_status (in_status i) = [] then first_statuses is else nodes_status (in_status i))"

definition coalesce_installations :: "installation list \<Rightarrow> installation outcome" where
  "coalesce_installations items = (case sort_newest_first items of
       [] \<Rightarrow> Panic ''index out of range''
     | i # is \<Rightarrow> if is = [] \<or> nodes_status (in_status i) \<noteq> [] then Ok i
         else Ok (with_node_statuses i (first_statuses is)))"

definition read_cluster_config :: "controller_lib \<Rightarrow> installation \<Rightarrow> (kube, installation) call" where
  "read_cluster_config C i = (case spec_config_secret (in_spec i) of
       None \<Rightarrow> ret i
     | Some s \<Rightarrow>
         bind (wrap ''failed to get config secret'' (get_in secrets (cs_namespace s, cs_name s))) (\<lambda>data.
         bind (wrap ''failed to parse config spec from secret'' (lift (parse_config_spec_from_secret (cl_unmarshal_config C)
           (map_of data) (cs_namespace s) (cs_name s) (in_spec i)))) (\<lambda>spec.
         ret (i\<lparr>in_spec := spec\<rparr>))))"

definition preflight_script :: string where
  "preflight_script = ''if [ -f /embedded-cluster/support/host-preflight-results.json ]; then '' @
     ''/embedded-cluster/bin/kubectl create configmap ${HSPF_CM_NAME} '' @
     ''--from-file=results.json=/embedded-cluster/support/host-preflight-results.json '' @
     ''-n embedded-cluster --dry-run=client -oyaml | '' @
     ''/embedded-cluster/bin/kubectl label -f - embedded-cluster/host-preflight-result=${EC_NODE_NAME} --local -o yaml | '' @
     ''/embedded-cluster/bin/kubectl apply -f - && '' @
     ''/embedded-cluster/bin/kubectl annotate configmap ${HSPF_CM_NAME} '' @ [CHR 0x22] @ ''update-timestamp=$(date +'' @ [CHR 0x27] @
     ''%Y-%m-%dT%H:%M:%SZ'' @ [CHR 0x27] @ '')'' @ [CHR 0x22] @ '' --overwrite; else '' @
     ''echo '' @ [CHR 0x27] @ ''/embedded-cluster/support/host-preflight-results.json does not exist'' @ [CHR 0x27] @ ''; fi''"

definition preflight_job_key :: "string \<Rightarrow> nsname" where
  "preflight_job_key n = (''embedded-cluster'', name_with_length_limit ''copy-host-preflight-results-'' n)"

definition construct_host_preflight_job :: "controller_lib \<Rightarrow> runtime_config_spec \<Rightarrow> installation \<Rightarrow> string \<Rightarrow> job_object" where
  "construct_host_preflight_job C rc i n =
     \<lparr>jo_active = 0, jo_succeeded = 0, jo_failed = 0, jo_backoff_limit = Some 2,
      jo_labels = [(''embedded-cluster/node-name'', n), (''embedded-cluster/installation'', in_name i)], jo_annotations = [],
      jo_image = (if cl_utils_image C \<noteq> [] then cl_utils_image C else ''busybox:latest''), jo_pull_policy = [],
      jo_env = [(''KUBECONFIG'', []), (''EC_NODE_NAME'', n), (''HSPF_CM_NAME'', name_with_length_limit n ''-host-preflight-results'')],
      jo_command = [''/bin/sh'', ''-e'', ''-c'', preflight_script],
      jo_host_paths = [(''host'', ec_home_directory rc), (''k0s'', ''/usr/local/bin/k0s'')], jo_node = n, jo_conditions = []\<rparr>"

definition copy_host_preflight_results :: "controller_lib \<Rightarrow> runtime_config_spec \<Rightarrow> installation \<Rightarrow> node_events_batch \<Rightarrow> (kube, unit) call" where
  "copy_host_preflight_results C rc i b = for_each (\<lambda>ev.
     bind (attempt (create_in job_objects job_objects_update (preflight_job_key (ev_node ev))
       (construct_host_preflight_job C rc i (ev_node ev)))) (\<lambda>r. case r of
         Inr _ \<Rightarrow> ret ()
       | Inl e \<Rightarrow> if \<not> is_already_exists e then throw (EWrap ''failed to create job'' e) else ret ())) (nodes_added b)"

definition reconcile_host_ca_bundle :: "controller_lib \<Rightarrow> (kube, unit) call" where
  "reconcile_host_ca_bundle C = (if cl_ca_path C = [] then ret ()
     else let ns = (if cl_kotsadm_ns C = [] then ''kotsadm'' else cl_kotsadm_ns C) in
       bind (attempt (api (\<lambda>w. case map_of (namespaces w) ns of None \<Rightarrow> (Err (ENotFound ns), w) | Some _ \<Rightarrow> (Ok (), w)))) (\<lambda>r. case r of
         Inl e \<Rightarrow> if is_not_found e then ret () else throw (EWrap ''failed to check if kotsadm namespace exists'' e)
       | Inr _ \<Rightarrow> bind (attempt (ensure_ca_configmap (ul_addons (ar_upgrade (cl_artifacts C))) ns (cl_ca_path C))) (\<lambda>r. case r of
           Inl e \<Rightarrow> if is_too_large e \<or> is_not_exist e then ret () else throw e
         | Inr u \<Rightarrow> ret u)))"

text \<open>A job is kept while it is active and when it belongs to an installation newer than \<open>n\<close>.\<close>

definition keeps_upgrade_job :: "string \<Rightarrow> job_object \<Rightarrow> bool" where
  "keeps_upgrade_job n j \<longleftrightarrow> jo_active j > 0 \<or>
     (let owner = lookup_or_empty (jo_annotations j) installation_name_annotation in owner \<noteq> [] \<and> owner > n)"

definition delete_upgrade_jobs :: "installation \<Rightarrow> (kube, unit) call" where
  "delete_upgrade_jobs i =
     bind (wrap ''list upgrade jobs'' list_upgrade_jobs) (\<lambda>jobs.
     for_each (\<lambda>(k, j). if keeps_upgrade_job (in_name i) j then ret ()
       else wrap (''delete upgrade job '' @ snd k) (ignore_not_found (delete_in job_objects job_objects_update k))) jobs)"

section \<open>One reconcile\<close>

definition save_status :: "installation \<Rightarrow> (kube, unit) call" where
  "save_status i = bind (attempt (write_install_status i)) (\<lambda>r. case r of
       Inr u \<Rightarrow> ret u
     | Inl e \<Rightarrow> if is_conflict e then throw (EMsg ''failed to update status: conflict'')
         else throw (EWrap ''failed to update installation status'' e))"

text \<open>
  The result is whether the reconcile is to be repeated after its interval. \<open>reconcile_one\<close> is the
  reconcile of the installation it has picked, \<open>finish_reconcile\<close> its part once the node statuses are known.
\<close>

definition finish_reconcile :: "controller_lib \<Rightarrow> runtime_config_spec \<Rightarrow> installation \<Rightarrow> node_events_batch \<Rightarrow> (kube, bool) call" where
  "finish_reconcile C rc i events =
     bind (wrap ''failed to copy host preflight results'' (copy_host_preflight_results C rc i events)) (\<lambda>_.
     bind (wrap ''failed to reconcile openebs'' (reconcile_openebs (cl_arrange C) i)) (\<lambda>_.
     bind (save_status i) (\<lambda>_.
     bind (if air_gap (in_spec i) then ret () else report_nodes_changes C events) (\<lambda>_.
     bind (wrap ''failed to ensure kotsadm CA configmap'' (reconcile_host_ca_bundle C)) (\<lambda>_.
     bind (if in_state (in_status i) = InstallationStateInstalled
           then wrap ''failed to delete upgrade jobs'' (delete_upgrade_jobs i) else ret ()) (\<lambda>_.
     ret True))))))"

definition reconcile_one :: "controller_lib \<Rightarrow> runtime_config_spec \<Rightarrow> installation \<Rightarrow> (kube, bool) call" where
  "reconcile_one C rc i =
     bind (wrap ''failed to read cluster config from secret'' (read_cluster_config C i)) (\<lambda>i.
     bind (wrap ''failed to reconcile node status'' (reconcile_node_statuses (cl_event_hash C) i)) (\<lambda>(i, events).
     finish_reconcile C rc i events))"

definition reconcile :: "'v lib \<Rightarrow> controller_lib \<Rightarrow> runtime_config_spec \<Rightarrow> (kube, bool) call" where
  "reconcile L C rc =
     bind (wrap ''failed to list installations'' (list_installations L)) (\<lambda>ins.
     let items = filter (\<lambda>i. in_state (in_status i) \<noteq> InstallationStateObsolete) ins in
     if items = [] then ret False
     else bind (lift (coalesce_installations items)) (\<lambda>i.
       if cluster_id (in_spec i) = [] then ret False
       else reconcile_one C (rc_set (runtime_config (in_spec i)) rc) i))"

section \<open>Statuses as a map from nodes to hashes\<close>

definition hashes :: "node_status list \<Rightarrow> string \<rightharpoonup> string" where
  "hashes ss = map_of (map (\<lambda>s. (ns_name s, ns_hash s)) ss)"

lemma hashes_simps [simp]:
  "hashes [] n = None" "hashes (s # ss) n = (if n = ns_name s then Some (ns_hash s) else hashes ss n)"
  by (auto simp: hashes_def)

lemma hashes_None: "hashes ss n = None \<longleftrightarrow> n \<notin> ns_name ` set ss"
  by (induction ss) auto

lemma hashes_put: "hashes (put_node_hash n h ss) m = (if m = n then Some h else hashes ss m)"
  by (induction ss) auto

lemma names_put: "map ns_name (put_node_hash n h ss) = map ns_name ss @ (if hashes ss n = None then [n] else [])"
  by (induction ss) auto

lemma node_has_changed_run: "node_has_changed H ss ev = (case hashes ss (ev_node ev) of
    None \<Rightarrow> Ok (True, True) | Some h' \<Rightarrow> bindO (H ev) (\<lambda>h. Ok (h' \<noteq> h, False)))"
  by (induction H ss ev rule: node_has_changed.induct) auto

lemma hashes_filter: "hashes (filter (\<lambda>s. P (ns_name s)) ss) n = (if P n then hashes ss n else None)"
  by (induction ss) auto

lemma node_status_eta [simp]: "\<lparr>ns_name = ns_name s, ns_hash = ns_hash s\<rparr> = s"
  by (cases s) simp

lemma hashes_Some: "distinct (map ns_name ss) \<Longrightarrow> hashes ss n = Some h \<longleftrightarrow> \<lparr>ns_name = n, ns_hash = h\<rparr> \<in> set ss"
proof -
  assume "distinct (map ns_name ss)"
  then have "hashes ss n = Some h \<longleftrightarrow> (n, h) \<in> (\<lambda>s. (ns_name s, ns_hash s)) ` set ss"
    unfolding hashes_def by (subst map_of_eq_Some_iff) (auto simp: comp_def)
  also have "\<dots> \<longleftrightarrow> \<lparr>ns_name = n, ns_hash = h\<rparr> \<in> set ss"
    by (auto simp: image_iff intro!: bexI [of _ "\<lparr>ns_name = n, ns_hash = h\<rparr>"])
  finally show ?thesis .
qed

lemma hashes_sort: "distinct (map ns_name ss) \<Longrightarrow> hashes (sort_key ns_name ss) n = hashes ss n"
proof -
  assume "distinct (map ns_name ss)"
  then have "hashes (sort_key ns_name ss) n = Some h \<longleftrightarrow> hashes ss n = Some h" for h
    by (simp add: hashes_Some distinct_map)
  then show ?thesis by (metis option.exhaust)
qed

lemma trim_loop_Ok: "\<exists>w'. trim_loop seen acc b ss w = (Ok (acc @ filter (\<lambda>s. ns_name s \<in> set seen) ss,
    b\<lparr>nodes_removed := nodes_removed b @ map ns_name (filter (\<lambda>s. ns_name s \<notin> set seen) ss)\<rparr>), w')"
proof (induction ss arbitrary: acc b w)
  case (Cons s ss)
  show ?case
  proof (cases "ns_name s \<in> set seen")
    case True
    with Cons.IH [of "acc @ [s]" b w] show ?thesis by simp
  next
    case False
    with Cons.IH [of acc "b\<lparr>nodes_removed := nodes_removed b @ [ns_name s]\<rparr>"] show ?thesis
      by (simp add: bind_def emit_def modify_def)
  qed
qed (simp add: ret_def)

text \<open>The hash of a node, and what one pass over the nodes does.\<close>

definition event_of :: "installation \<Rightarrow> node \<Rightarrow> node_event" where
  "event_of i n = node_event_from_node (cluster_id (in_spec i)) (config_version i) n"

lemma ev_node_event_of [simp]: "ev_node (event_of i n) = node_name n"
  by (simp add: event_of_def node_event_from_node_def)

definition node_hash :: "(node_event \<Rightarrow> string outcome) \<Rightarrow> installation \<Rightarrow> node \<Rightarrow> string" where
  "node_hash H i n = (case H (event_of i n) of Ok h \<Rightarrow> h | _ \<Rightarrow> [])"

definition cluster_hashes :: "(node_event \<Rightarrow> string outcome) \<Rightarrow> installation \<Rightarrow> node list \<Rightarrow> string \<rightharpoonup> string" where
  "cluster_hashes H i ns = map_of (map (\<lambda>n. (node_name n, node_hash H i n)) ns)"

lemma cluster_hashes_None: "cluster_hashes H i ns m = None \<longleftrightarrow> m \<notin> node_name ` set ns"
  by (induction ns) (auto simp: cluster_hashes_def)

definition adds :: "installation \<Rightarrow> node_status list \<Rightarrow> node list \<Rightarrow> node_event list" where
  "adds i ss ns = map (event_of i) (filter (\<lambda>n. hashes ss (node_name n) = None) ns)"

definition updates :: "(node_event \<Rightarrow> string outcome) \<Rightarrow> installation \<Rightarrow> node_status list \<Rightarrow> node list \<Rightarrow> node_event list" where
  "updates H i ss ns = map (event_of i)
     (filter (\<lambda>n. hashes ss (node_name n) \<noteq> None \<and> hashes ss (node_name n) \<noteq> Some (node_hash H i n)) ns)"

text \<open>One step: whatever branch it takes, the status of the node becomes its hash.\<close>

lemma nodes_loop_step:
  assumes "nodes_loop H i ss b (n # ns) w = (Ok (ss', b'), w')"
  shows "\<exists>ss1 v. H (event_of i n) = Ok (node_hash H i n) \<and>
    hashes ss1 = (hashes ss)(node_name n \<mapsto> node_hash H i n) \<and> (distinct (map ns_name ss) \<longrightarrow> distinct (map ns_name ss1)) \<and>
    nodes_loop H i ss1 (b\<lparr>nodes_added := nodes_added b @ adds i ss [n], nodes_updated := nodes_updated b @ updates H i ss [n]\<rparr>) ns v =
      (Ok (ss', b'), w')"
proof -
  let ?put = "put_node_hash (node_name n) (node_hash H i n) ss"
  have put: "hashes ?put = (hashes ss)(node_name n \<mapsto> node_hash H i n)" by (auto simp: hashes_put)
  have dis: "distinct (map ns_name ss) \<Longrightarrow> distinct (map ns_name ?put)" by (simp add: names_put hashes_None)
  have ok: "H (event_of i n) = Ok h \<Longrightarrow> node_hash H i n = h" for h by (simp add: node_hash_def)
  show ?thesis
  proof (cases "hashes ss (node_name n)")
    case None
    with assms obtain h v where h: "H (event_of i n) = Ok h" and r: "nodes_loop H i ?put (b\<lparr>nodes_added := nodes_added b @ [event_of i n]\<rparr>) ns v = (Ok (ss', b'), w')"
      by (auto simp: event_of_def [symmetric] node_has_changed_run update_node_status_def call_Ok_iffs Let_def dest: ok)
    show ?thesis
      by (rule exI [of _ ?put], rule exI [of _ v]) (use None h ok [OF h] r put dis in \<open>simp add: adds_def updates_def\<close>)
  next
    case (Some h')
    with assms obtain h where h: "H (event_of i n) = Ok h"
      by (auto simp: event_of_def [symmetric] node_has_changed_run call_Ok_iffs Let_def)
    show ?thesis
    proof (cases "h' = h")
      case True
      with assms Some h have "nodes_loop H i ss b ns w = (Ok (ss', b'), w')"
        by (simp add: event_of_def [symmetric] node_has_changed_run Let_def bind_def wrap_def lift_def)
      then show ?thesis
        by (intro exI [of _ ss] exI [of _ w]) (use True Some h ok [OF h] in \<open>auto simp: adds_def updates_def\<close>)
    next
      case False
      with assms Some h obtain v where r: "nodes_loop H i ?put (b\<lparr>nodes_updated := nodes_updated b @ [event_of i n]\<rparr>) ns v = (Ok (ss', b'), w')"
        by (auto simp: event_of_def [symmetric] node_has_changed_run update_node_status_def call_Ok_iffs Let_def dest: ok)
      show ?thesis
        by (rule exI [of _ ?put], rule exI [of _ v]) (use False Some h ok [OF h] r put dis in \<open>simp add: adds_def updates_def\<close>)
    qed
  qed
qed

lemma nodes_loop_Ok:
  assumes "nodes_loop H i ss b ns w = (Ok (ss', b'), w')" "distinct (map node_name ns)"
  shows "(\<forall>n \<in> set ns. H (event_of i n) = Ok (node_hash H i n)) \<and>
    hashes ss' = hashes ss ++ cluster_hashes H i ns \<and>
    (distinct (map ns_name ss) \<longrightarrow> distinct (map ns_name ss')) \<and>
    b' = b\<lparr>nodes_added := nodes_added b @ adds i ss ns, nodes_updated := nodes_updated b @ updates H i ss ns\<rparr>"
  using assms
proof (induction ns arbitrary: ss b w)
  case Nil
  then show ?case by (simp add: ret_def cluster_hashes_def adds_def updates_def)
next
  case (Cons n ns)
  from nodes_loop_step [OF Cons.prems(1)] obtain ss1 v where h: "H (event_of i n) = Ok (node_hash H i n)"
    and s: "hashes ss1 = (hashes ss)(node_name n \<mapsto> node_hash H i n)" "distinct (map ns_name ss) \<longrightarrow> distinct (map ns_name ss1)"
    and r: "nodes_loop H i ss1 (b\<lparr>nodes_added := nodes_added b @ adds i ss [n], nodes_updated := nodes_updated b @ updates H i ss [n]\<rparr>) ns v =
      (Ok (ss', b'), w')" by (elim exE conjE)
  from Cons.prems(2) have d: "distinct (map node_name ns)" and n: "node_name n \<notin> node_name ` set ns" by simp_all
  have same: "hashes ss1 (node_name m) = hashes ss (node_name m)" if "m \<in> set ns" for m
  proof -
    have "node_name m \<noteq> node_name n" using that n by (metis imageI)
    then show ?thesis by (simp add: s(1))
  qed
  have "adds i ss (n # ns) = adds i ss [n] @ adds i ss1 ns" "updates H i ss (n # ns) = updates H i ss [n] @ updates H i ss1 ns"
    unfolding adds_def updates_def by (simp_all add: same cong: filter_cong)
  moreover have "hashes ss1 ++ cluster_hashes H i ns = hashes ss ++ cluster_hashes H i (n # ns)"
  proof
    fix m
    have "cluster_hashes H i ns (node_name n) = None" using n by (simp add: cluster_hashes_None)
    then show "(hashes ss1 ++ cluster_hashes H i ns) m = (hashes ss ++ cluster_hashes H i (n # ns)) m"
      unfolding s(1) by (auto simp: map_add_def cluster_hashes_def split: option.split)
  qed
  ultimately show ?case using Cons.IH [OF r d] h s(2) by auto
qed

lemma reconcile_node_statuses_Ok:
  assumes run: "reconcile_node_statuses H i w = (Ok (i', b), w')" and "distinct (map node_name (nodes w))"
  shows "\<exists>ss'. i' = with_node_statuses i (sort_key ns_name (filter (\<lambda>s. ns_name s \<in> node_name ` set (nodes w)) ss')) \<and>
    (\<forall>n \<in> set (nodes w). H (event_of i n) = Ok (node_hash H i n)) \<and>
    hashes ss' = hashes (nodes_status (in_status i)) ++ cluster_hashes H i (nodes w) \<and>
    (distinct (map ns_name (nodes_status (in_status i))) \<longrightarrow> distinct (map ns_name ss')) \<and>
    b = \<lparr>nodes_added = adds i (nodes_status (in_status i)) (nodes w), nodes_updated = updates H i (nodes_status (in_status i)) (nodes w),
      nodes_removed = map ns_name (filter (\<lambda>s. ns_name s \<notin> node_name ` set (nodes w)) ss')\<rparr>"
proof -
  let ?ss = "nodes_status (in_status i)" and ?b = "\<lparr>nodes_added = [], nodes_updated = [], nodes_removed = []\<rparr>"
  let ?list = "wrap ''failed to list nodes'' (api (gets nodes)) :: (kube, node list) call"
  obtain ns v where l: "?list w = (Ok ns, v)" and rest: "bind (nodes_loop H i ?ss ?b ns) (\<lambda>(ss, b).
     bind (trim_loop (map node_name ns) [] b ss) (\<lambda>(trimmed, b).
     ret (with_node_statuses i (sort_key ns_name trimmed), b))) v = (Ok (i', b), w')"
    using run unfolding reconcile_node_statuses_def wrap_Ok_iff by (subst (asm) bind_Ok_iff) (elim exE conjE, rule that)
  have "keeps faults_only ?list" by (intro fo.object_rules)
  from faults_only_fields(2) [OF keepsD [OF this l]] l have ns: "ns = nodes w"
    by (auto simp: wrap_Ok_iff gets_def dest!: api_Ok)
  obtain ss' b' u where n: "nodes_loop H i ?ss ?b ns v = (Ok (ss', b'), u)" and t: "bind (trim_loop (map node_name ns) [] b' ss') (\<lambda>(trimmed, b).
     ret (with_node_statuses i (sort_key ns_name trimmed), b)) u = (Ok (i', b), w')"
    using rest by (subst (asm) bind_Ok_iff) auto
  from nodes_loop_Ok [OF n] assms(2) have N: "(\<forall>n \<in> set ns. H (event_of i n) = Ok (node_hash H i n)) \<and>
    hashes ss' = hashes ?ss ++ cluster_hashes H i ns \<and> (distinct (map ns_name ?ss) \<longrightarrow> distinct (map ns_name ss')) \<and>
    b' = ?b\<lparr>nodes_added := nodes_added ?b @ adds i ?ss ns, nodes_updated := nodes_updated ?b @ updates H i ?ss ns\<rparr>"
    unfolding ns by blast
  obtain u' where tr: "trim_loop (map node_name ns) [] b' ss' u = (Ok ([] @ filter (\<lambda>s. ns_name s \<in> set (map node_name ns)) ss',
    b'\<lparr>nodes_removed := nodes_removed b' @ map ns_name (filter (\<lambda>s. ns_name s \<notin> set (map node_name ns)) ss')\<rparr>), u')"
    using trim_loop_Ok [of "map node_name ns" "[]" b' ss' u] by (elim exE)
  from t tr N show ?thesis unfolding ns by (intro exI [of _ ss']) (auto simp: bind_def ret_def)
qed

lemma statuses_of_nodes:
  assumes "distinct (map ns_name ss)" "hashes ss = hashes ss0 ++ cluster_hashes H i ns"
  shows "hashes (sort_key ns_name (filter (\<lambda>s. ns_name s \<in> node_name ` set ns) ss)) = cluster_hashes H i ns"
proof
  fix m
  have "distinct (map ns_name (filter (\<lambda>s. ns_name s \<in> node_name ` set ns) ss))" using assms(1) by (rule distinct_map_filter)
  then have "hashes (sort_key ns_name (filter (\<lambda>s. ns_name s \<in> node_name ` set ns) ss)) m =
      (if m \<in> node_name ` set ns then hashes ss m else None)"
    by (simp only: hashes_sort hashes_filter [where P = "\<lambda>m. m \<in> node_name ` set ns"])
  then show "hashes (sort_key ns_name (filter (\<lambda>s. ns_name s \<in> node_name ` set ns) ss)) m = cluster_hashes H i ns m"
    using cluster_hashes_None [of H i ns m] by (auto simp: assms(2) map_add_def split: option.split)
qed

lemma cluster_hashes_Some:
  assumes "distinct (map node_name ns)" "n \<in> set ns"
  shows "cluster_hashes H i ns (node_name n) = Some (node_hash H i n)"
proof -
  have "fst \<circ> (\<lambda>n. (node_name n, node_hash H i n)) = node_name" by auto
  with assms show ?thesis unfolding cluster_hashes_def by (subst map_of_eq_Some_iff) auto
qed

section \<open>What is deleted\<close>

text \<open>
  \<open>K\<close> bounds the keys of what disappears from one kind of object; nothing appears and nothing is
  rewritten.
\<close>

definition removes :: "(kube \<Rightarrow> (nsname \<times> 'o) list) \<Rightarrow> nsname set \<Rightarrow> kube \<Rightarrow> kube \<Rightarrow> bool" where
  "removes get K w w' \<longleftrightarrow> set (get w') \<subseteq> set (get w) \<and> (\<forall>x \<in> set (get w) - set (get w'). fst x \<in> K)"

lemma removes_trans: "removes get K u v \<Longrightarrow> removes get K v w \<Longrightarrow> removes get K u w"
  unfolding removes_def by blast

lemma removes_mono: "removes get K w w' \<Longrightarrow> K \<subseteq> K' \<Longrightarrow> removes get K' w w'"
  unfolding removes_def by blast

lemma removes_same: "get w' = get w \<Longrightarrow> removes get K w w'"
  unfolding removes_def by simp

interpretation rj: kube_frame "removes job_objects K" for K
  by unfold_locales (auto intro: removes_same removes_trans)

interpretation rp: kube_frame "removes pod_objects K" for K
  by unfold_locales (auto intro: removes_same removes_trans)

interpretation rv: kube_frame "removes pvc_objects K" for K
  by unfold_locales (auto intro: removes_same removes_trans)

lemma set_AList_delete: "set (AList.delete k al) = {x \<in> set al. fst x \<noteq> k}"
  by (auto simp: AList.delete_eq)

lemma keeps_removes_job: "k \<in> K \<Longrightarrow> keeps (removes job_objects K) (delete_in job_objects job_objects_update k)"
  unfolding delete_in_def
  by (intro rj.keeps_api) (auto simp: keeps_def removes_def set_AList_delete split: option.splits)

lemma keeps_removes_pod: "k \<in> K \<Longrightarrow> keeps (removes pod_objects K) (delete_in pod_objects pod_objects_update k)"
  unfolding delete_in_def
  by (intro rp.keeps_api) (auto simp: keeps_def removes_def set_AList_delete split: option.splits)

lemma keeps_removes_pvc: "k \<in> K \<Longrightarrow> keeps (removes pvc_objects K) (delete_in pvc_objects pvc_objects_update k)"
  unfolding delete_in_def
  by (intro rv.keeps_api) (auto simp: keeps_def removes_def set_AList_delete split: option.splits)

text \<open>The pods that wait for one of the claims \<open>ks\<close> in the namespace \<open>ns\<close>.\<close>

definition waiting_pods :: "kube \<Rightarrow> string \<Rightarrow> nsname list \<Rightarrow> nsname set" where
  "waiting_pods w ns ks = {k. \<exists>p. (k, p) \<in> set (pod_objects w) \<and> fst k = ns \<and> po_phase p = ''Pending'' \<and> is_pod_mounting_pvc p ks}"

lemma waiting_pods_mono: "set (pod_objects v) \<subseteq> set (pod_objects w) \<Longrightarrow> waiting_pods v ns ks \<subseteq> waiting_pods w ns ks"
  unfolding waiting_pods_def by blast

lemma delete_pending_pods_run:
  assumes "delete_pending_pods ns ks w = (r, w')"
  shows "removes pod_objects (waiting_pods w ns ks) w w'"
proof -
  let ?list = "wrap ''list pods'' (api (gets (\<lambda>w. filter (\<lambda>(k, p). fst k = ns) (pod_objects w)))) :: (kube, (nsname \<times> pod_object) list) call"
  let ?step = "\<lambda>(k, p). if po_phase p \<noteq> ''Pending'' \<or> \<not> is_pod_mounting_pvc p ks then ret ()
       else wrap ''delete pod'' (delete_in pod_objects pod_objects_update k)"
  obtain q v where l: "?list w = (q, v)" by (cases "?list w")
  have "keeps faults_only ?list" by (intro fo.object_rules)
  from keepsD [OF this l] have same: "pod_objects v = pod_objects w" by (auto simp: faults_only_def)
  show ?thesis
  proof (cases q)
    case (Ok pods)
    with l have "pods = filter (\<lambda>(k, p). fst k = ns) (pod_objects w)"
      by (auto simp: wrap_Ok_iff gets_def dest!: api_Ok)
    then have pods: "set pods = {x \<in> set (pod_objects w). fst (fst x) = ns}" by (simp add: case_prod_beta)
    have "keeps (removes pod_objects (waiting_pods w ns ks)) (?step x)" if "x \<in> set pods" for x
    proof -
      obtain k p where x: "x = (k, p)" by (cases x)
      have "(k, p) \<in> set (pod_objects w)" "fst k = ns" using that unfolding pods x by simp_all
      then have "k \<in> waiting_pods w ns ks" if "po_phase p = ''Pending''" "is_pod_mounting_pvc p ks"
        using that unfolding waiting_pods_def by blast
      then show ?thesis unfolding x prod.case
        by (cases "po_phase p \<noteq> ''Pending'' \<or> \<not> is_pod_mounting_pvc p ks") (simp_all add: rp.keeps_ret rp.keeps_wrap keeps_removes_pod)
    qed
    then have "keeps (removes pod_objects (waiting_pods w ns ks)) (for_each ?step pods)" by (rule rp.keeps_for_each_in)
    moreover have "for_each ?step pods v = (r, w')"
      using assms l Ok by (simp add: delete_pending_pods_def bind_def)
    ultimately have "removes pod_objects (waiting_pods w ns ks) v w'" by (rule keepsD)
    with same show ?thesis by (simp add: removes_def)
  qed (use assms l same in \<open>auto simp: delete_pending_pods_def bind_def removes_same\<close>)
qed

lemma delete_pending_pods_loop:
  assumes "for_each (\<lambda>ns. wrap ''delete pods with pvcs'' (delete_pending_pods ns (f ns))) nss w = (r, w')"
  shows "removes pod_objects {k. k \<in> waiting_pods w (fst k) (f (fst k))} w w'"
  using assms
proof (induction nss arbitrary: w)
  case (Cons ns nss)
  obtain q v where q: "delete_pending_pods ns (f ns) w = (q, v)" by (cases "delete_pending_pods ns (f ns) w")
  have "waiting_pods w ns (f ns) \<subseteq> {k. k \<in> waiting_pods w (fst k) (f (fst k))}" by (auto simp: waiting_pods_def)
  from removes_mono [OF delete_pending_pods_run [OF q] this] have wv: "removes pod_objects {k. k \<in> waiting_pods w (fst k) (f (fst k))} w v" .
  show ?case
  proof (cases q)
    case (Ok x)
    with Cons.prems q have "for_each (\<lambda>ns. wrap ''delete pods with pvcs'' (delete_pending_pods ns (f ns))) nss v = (r, w')"
      by (simp add: bind_wrap_Ok)
    note IH = Cons.IH [OF this]
    have "set (pod_objects v) \<subseteq> set (pod_objects w)" using wv unfolding removes_def by (rule conjunct1)
    then have "{k. k \<in> waiting_pods v (fst k) (f (fst k))} \<subseteq> {k. k \<in> waiting_pods w (fst k) (f (fst k))}"
      using waiting_pods_mono by blast
    from removes_trans [OF wv removes_mono [OF IH this]] show ?thesis .
  qed (use Cons.prems q wv in \<open>auto simp: bind_def wrap_def\<close>)
qed (simp add: ret_def removes_same)

lemma keeps_pods_pvc: "keeps (removes pod_objects K) (delete_pvc kp)"
  unfolding delete_pvc_def get_pv_def delete_pv_def
  by (intro rp.object_rules rp.keeps_change_in removes_same) (auto simp: keeps_def removes_same)

lemma keeps_pvcs_pvc: "fst kp \<in> K \<Longrightarrow> keeps (removes pvc_objects K) (delete_pvc kp)"
  unfolding delete_pvc_def get_pv_def delete_pv_def
  by (intro rv.object_rules keeps_removes_pvc) (auto simp: keeps_def removes_same)

lemma keeps_pvcs_pods: "keeps (removes pvc_objects K) (delete_pending_pods ns ks)"
  unfolding delete_pending_pods_def by (intro rv.object_rules rv.keeps_change_in removes_same) simp

lemma find_stuck_run:
  assumes "wrap c find_stuck_pvcs w = (r, w')"
  shows "faults_only w w' \<and> (\<forall>ks. r = Ok ks \<longrightarrow> ks = filter (\<lambda>(k, p). is_stuck (nodes w) p) (pvc_objects w))"
proof -
  have k: "keeps faults_only (wrap c find_stuck_pvcs)" unfolding find_stuck_pvcs_def by (intro fo.object_rules)
  have "ks = filter (\<lambda>(k, p). is_stuck (nodes w) p) (pvc_objects w)" if "r = Ok ks" for ks
    using assms unfolding that find_stuck_pvcs_def by (auto simp: call_Ok_iffs gets_def dest!: api_Ok)
  with keepsD [OF k assms] show ?thesis by (intro conjI allI impI)
qed

section \<open>What is reported\<close>

fun is_notified :: "event \<Rightarrow> bool" where
  "is_notified (Notified k n) = True"
| "is_notified e = False"

definition unreported :: "kube \<Rightarrow> kube \<Rightarrow> bool" where
  "unreported w w' \<longleftrightarrow> filter is_notified (log w') = filter is_notified (log w)"

interpretation un: kube_frame unreported
  by unfold_locales (auto simp: unreported_def)

lemma unreported_same: "log w' = log w \<Longrightarrow> unreported w w'"
  by (simp add: unreported_def)

lemma keeps_unreported_emit: "keeps unreported (emit (Recorded k n))"
  by (simp add: keeps_def emit_def modify_def unreported_def)

lemma keeps_unreported_nodes: "keeps unreported (nodes_loop H i ss b ns)"
proof (induction ns arbitrary: ss b)
  case (Cons n ns)
  then show ?case unfolding nodes_loop.simps Let_def by (intro un.object_rules keeps_unreported_emit)
qed (simp add: un.keeps_ret)

lemma keeps_unreported_trim: "keeps unreported (trim_loop seen acc b ss)"
proof (induction ss arbitrary: acc b)
  case (Cons s ss)
  then show ?case unfolding trim_loop.simps by (intro un.object_rules keeps_unreported_emit)
qed (simp add: un.keeps_ret)

lemma keeps_unreported_statuses: "keeps unreported (reconcile_node_statuses H i)"
  unfolding reconcile_node_statuses_def by (intro un.object_rules keeps_unreported_nodes keeps_unreported_trim)

lemma keeps_unreported_preflights: "keeps unreported (copy_host_preflight_results C rc i b)"
  unfolding copy_host_preflight_results_def by (intro un.object_rules un.keeps_change_in unreported_same) simp

lemma keeps_unreported_installs: "keeps installs_only m \<Longrightarrow> keeps unreported m"
  unfolding keeps_def by (intro allI unreported_same installs_only_log) (rule spec)

lemma keeps_unreported_pvc: "keeps unreported (delete_pvc kp)"
  unfolding delete_pvc_def get_pv_def delete_pv_def
  by (intro un.object_rules un.keeps_change_in unreported_same) (auto simp: keeps_def unreported_same)

lemma keeps_unreported_openebs: "keeps unreported (reconcile_openebs arrange i)"
  unfolding reconcile_openebs_def cleanup_stateful_pods_def find_stuck_pvcs_def delete_pending_pods_def
  by (intro un.object_rules un.keeps_change_in keeps_unreported_pvc keeps_unreported_installs keeps_write_install_status unreported_same)
    simp

lemma keeps_unreported_save: "keeps unreported (save_status i)"
  unfolding save_status_def by (intro un.object_rules keeps_unreported_installs keeps_write_install_status)

lemma keeps_unreported_ca: "keeps unreported (reconcile_host_ca_bundle C)"
  unfolding reconcile_host_ca_bundle_def ensure_ca_configmap_def patch_cas_config_map_def Let_def
  by (intro un.object_rules un.keeps_change_in unreported_same)
    (auto simp: keeps_def unreported_same split: option.splits)

lemma keeps_unreported_jobs: "keeps unreported (delete_upgrade_jobs i)"
  unfolding delete_upgrade_jobs_def list_upgrade_jobs_def
  by (intro un.object_rules un.keeps_change_in unreported_same) simp

lemma read_cluster_config_air_gap: "read_cluster_config C i w = (Ok i', w') \<Longrightarrow> air_gap (in_spec i') = air_gap (in_spec i)"
  unfolding read_cluster_config_def parse_config_spec_from_secret_def
  by (auto simp: call_Ok_iffs ret_def lift_def split: option.split_asm)

lemma reconcile_node_statuses_spec: "reconcile_node_statuses H i w = (Ok (i', b), w') \<Longrightarrow> in_spec i' = in_spec i"
  unfolding reconcile_node_statuses_def
  by (auto simp: call_Ok_iffs with_node_statuses_def)

section \<open>Properties\<close>

text \<open>
  A reconcile of an air gap installation reports nothing to the metrics server, whatever it
  returns and whatever has changed.
\<close>

theorem airgap_reconcile_never_reports:
  assumes "air_gap (in_spec i)" and "reconcile_one C rc i w = (r, w')"
  shows "filter is_notified (log w') = filter is_notified (log w)"
proof -
  have finish: "keeps unreported (finish_reconcile C rc i events)" if "air_gap (in_spec i)" for i events
    unfolding finish_reconcile_def if_P [OF that]
    by (intro un.object_rules keeps_unreported_preflights keeps_unreported_openebs keeps_unreported_save
      keeps_unreported_ca keeps_unreported_jobs)
  have "keeps unreported (reconcile_one C rc i)"
    unfolding reconcile_one_def
  proof (rule un.keeps_bind_from)
    show "keeps unreported (wrap ''failed to read cluster config from secret'' (read_cluster_config C i))"
      unfolding read_cluster_config_def by (intro un.object_rules)
    fix v i' v' assume "wrap ''failed to read cluster config from secret'' (read_cluster_config C i) v = (Ok i', v')"
    with assms(1) have a: "air_gap (in_spec i')" by (simp add: wrap_Ok_iff read_cluster_config_air_gap)
    show "keeps unreported (bind (wrap ''failed to reconcile node status'' (reconcile_node_statuses (cl_event_hash C) i'))
        (\<lambda>(i, events). finish_reconcile C rc i events))"
    proof (rule un.keeps_bind_from)
      show "keeps unreported (wrap ''failed to reconcile node status'' (reconcile_node_statuses (cl_event_hash C) i'))"
        by (intro un.object_rules keeps_unreported_statuses)
      fix v ib v' assume s: "wrap ''failed to reconcile node status'' (reconcile_node_statuses (cl_event_hash C) i') v = (Ok ib, v')"
      obtain i'' b where ib: "ib = (i'', b)" by (cases ib)
      from s a have "air_gap (in_spec i'')" by (simp add: ib wrap_Ok_iff reconcile_node_statuses_spec)
      then show "keeps unreported (case ib of (i, events) \<Rightarrow> finish_reconcile C rc i events)" by (simp add: ib finish)
    qed
  qed
  from keepsD [OF this assms(2)] show ?thesis by (simp add: unreported_def)
qed

text \<open>
  The deletion of upgrade jobs, whatever it returns, only removes jobs that a listing of upgrade
  jobs shows, that are not active and that are not of a newer installation.
\<close>

theorem delete_upgrade_jobs_only_old:
  assumes "delete_upgrade_jobs i w = (r, w')"
  shows "set (job_objects w') \<subseteq> set (job_objects w) \<and> (\<forall>k j. (k, j) \<in> set (job_objects w) - set (job_objects w') \<longrightarrow>
    (\<exists>j'. (k, j') \<in> set (job_objects w) \<and> fst k = ''kotsadm'' \<and> set upgrade_job_labels \<subseteq> set (jo_labels j') \<and>
      jo_active j' \<le> 0 \<and> (lookup_or_empty (jo_annotations j') installation_name_annotation = [] \<or>
        lookup_or_empty (jo_annotations j') installation_name_annotation \<le> in_name i)))"
proof -
  let ?list = "wrap ''list upgrade jobs'' list_upgrade_jobs"
  let ?K = "\<lambda>jobs. {k. \<exists>j. (k, j) \<in> set jobs \<and> \<not> keeps_upgrade_job (in_name i) j}"
  obtain q v where l: "?list w = (q, v)" by (cases "?list w")
  have "keeps faults_only ?list" unfolding list_upgrade_jobs_def by (intro fo.object_rules)
  note same = faults_only_fields(1) [OF keepsD [OF this l]]
  have "removes job_objects {k. \<exists>j. (k, j) \<in> set (job_objects w) \<and> fst k = ''kotsadm'' \<and>
      set upgrade_job_labels \<subseteq> set (jo_labels j) \<and> \<not> keeps_upgrade_job (in_name i) j} w w'"
    (is "removes _ ?S _ _")
  proof (cases q)
    case (Ok jobs)
    with l have "jobs = filter (\<lambda>(k, j). fst k = ''kotsadm'' \<and> set upgrade_job_labels \<subseteq> set (jo_labels j)) (job_objects w)"
      unfolding list_upgrade_jobs_def by (auto simp: wrap_Ok_iff gets_def dest!: api_Ok)
    then have jobs: "set jobs = {x \<in> set (job_objects w). fst (fst x) = ''kotsadm'' \<and> set upgrade_job_labels \<subseteq> set (jo_labels (snd x))}"
      by (simp add: case_prod_beta)
    let ?step = "\<lambda>(k, j). if keeps_upgrade_job (in_name i) j then ret ()
       else wrap (''delete upgrade job '' @ snd k) (ignore_not_found (delete_in job_objects job_objects_update k))"
    have "keeps (removes job_objects ?S) (?step x)" if "x \<in> set jobs" for x
    proof -
      obtain k j where x: "x = (k, j)" by (cases x)
      have j: "(k, j) \<in> set (job_objects w)" "fst k = ''kotsadm''" "set upgrade_job_labels \<subseteq> set (jo_labels j)"
        using that unfolding jobs x by simp_all
      have "k \<in> ?S" if "\<not> keeps_upgrade_job (in_name i) j" using j that by blast
      then show ?thesis unfolding x prod.case
        by (cases "keeps_upgrade_job (in_name i) j") (simp_all add: rj.keeps_ret rj.keeps_wrap rj.keeps_ignore keeps_removes_job)
    qed
    then have "keeps (removes job_objects ?S) (for_each ?step jobs)" by (rule rj.keeps_for_each_in)
    moreover have "for_each ?step jobs v = (r, w')"
      using assms l Ok by (simp add: delete_upgrade_jobs_def bind_def)
    ultimately have "removes job_objects ?S v w'" by (rule keepsD)
    with same show ?thesis by (simp add: removes_def)
  qed (use assms l same in \<open>auto simp: delete_upgrade_jobs_def bind_def removes_same\<close>)
  then have sub: "set (job_objects w') \<subseteq> set (job_objects w)" and gone: "\<And>x. x \<in> set (job_objects w) - set (job_objects w') \<Longrightarrow> fst x \<in> ?S"
    unfolding removes_def by (rule conjunct1, blast)
  show ?thesis
  proof (intro conjI sub allI impI)
    fix k j assume "(k, j) \<in> set (job_objects w) - set (job_objects w')"
    from gone [OF this] obtain j' where "(k, j') \<in> set (job_objects w)" "fst k = ''kotsadm''"
      "set upgrade_job_labels \<subseteq> set (jo_labels j')" "\<not> keeps_upgrade_job (in_name i) j'" unfolding fst_conv by (elim CollectE exE conjE)
    then show "\<exists>j'. (k, j') \<in> set (job_objects w) \<and> fst k = ''kotsadm'' \<and> set upgrade_job_labels \<subseteq> set (jo_labels j') \<and>
      jo_active j' \<le> 0 \<and> (lookup_or_empty (jo_annotations j') installation_name_annotation = [] \<or>
        lookup_or_empty (jo_annotations j') installation_name_annotation \<le> in_name i)"
      by (intro exI [of _ j']) (simp add: keeps_upgrade_job_def Let_def not_less)
  qed
qed

text \<open>
  The cleanup of volumes, whatever it returns, only deletes claims of local volumes whose node is
  gone, and pods that are pending and mount such a claim of their own namespace.
\<close>

theorem cleanup_only_stuck:
  assumes "cleanup_stateful_pods arrange w = (r, w')"
  shows "removes pvc_objects {k. \<exists>p. (k, p) \<in> set (pvc_objects w) \<and> is_stuck (nodes w) p} w w' \<and>
    removes pod_objects {k. \<exists>p n q. (k, p) \<in> set (pod_objects w) \<and> po_phase p = ''Pending'' \<and> n \<in> set (po_claims p) \<and>
      ((fst k, n), q) \<in> set (pvc_objects w) \<and> is_stuck (nodes w) q} w w'"
proof -
  let ?V = "{k. \<exists>p. (k, p) \<in> set (pvc_objects w) \<and> is_stuck (nodes w) p}"
  let ?P = "{k. \<exists>p n q. (k, p) \<in> set (pod_objects w) \<and> po_phase p = ''Pending'' \<and> n \<in> set (po_claims p) \<and>
      ((fst k, n), q) \<in> set (pvc_objects w) \<and> is_stuck (nodes w) q}"
  let ?find = "wrap ''find stuck pvcs'' find_stuck_pvcs"
  obtain a v where l: "?find w = (a, v)" by (cases "?find w")
  note f = find_stuck_run [OF l]
  then have same: "pod_objects v = pod_objects w" "pvc_objects v = pvc_objects w" by (auto simp: faults_only_def)
  show ?thesis
  proof (cases a)
    case (Ok stuck)
    with f have "stuck = filter (\<lambda>(k, p). is_stuck (nodes w) p) (pvc_objects w)" by simp
    then have stuck: "set stuck = {x \<in> set (pvc_objects w). is_stuck (nodes w) (snd x)}" by (simp add: case_prod_beta)
    let ?own = "\<lambda>ns. filter (\<lambda>k. fst k = ns) (map fst stuck)"
    let ?pods = "for_each (\<lambda>ns. wrap ''delete pods with pvcs'' (delete_pending_pods ns (?own ns))) (arrange (remdups (map (fst \<circ> fst) stuck)))"
    let ?pvcs = "for_each (\<lambda>kp. wrap ''delete stuck pvc'' (delete_pvc kp)) stuck"
    from assms l Ok have run: "bind ?pods (\<lambda>_. ?pvcs) v = (r, w')" by (simp add: cleanup_stateful_pods_def bind_def)
    have V: "keeps (removes pvc_objects ?V) (bind ?pods (\<lambda>_. ?pvcs))"
    proof (intro rv.keeps_bind rv.keeps_for_each_in rv.keeps_wrap keeps_pvcs_pods keeps_pvcs_pvc)
      show "fst kp \<in> ?V" if "kp \<in> set stuck" for kp using that unfolding stuck by (cases kp) auto
    qed
    have own: "{k. k \<in> waiting_pods v (fst k) (?own (fst k))} \<subseteq> ?P"
    proof
      fix k assume "k \<in> {k. k \<in> waiting_pods v (fst k) (?own (fst k))}"
      then obtain p c where p: "(k, p) \<in> set (pod_objects w)" "po_phase p = ''Pending''" and c: "c \<in> set (?own (fst k))" "snd c \<in> set (po_claims p)"
        unfolding waiting_pods_def same is_pod_mounting_pvc_def list_ex_iff by (elim CollectE exE conjE bexE) (rule that)
      from c(1) obtain q where "(c, q) \<in> set stuck" "fst c = fst k" by auto
      then have "((fst k, snd c), q) \<in> set (pvc_objects w)" "is_stuck (nodes w) q" unfolding stuck by (cases c; simp)+
      with p c(2) show "k \<in> ?P" by (intro CollectI exI conjI)
    qed
    obtain b u where p: "?pods v = (b, u)" by (cases "?pods v")
    note pods = removes_mono [OF delete_pending_pods_loop [OF p] own]
    have P: "removes pod_objects ?P v w'"
    proof (cases b)
      case Ok
      have "keeps (removes pod_objects ?P) ?pvcs" by (intro rp.keeps_for_each rp.keeps_wrap keeps_pods_pvc)
      from keepsD [OF this, of u r w'] have "removes pod_objects ?P u w'" using run p Ok by (simp add: bind_def)
      with pods show ?thesis by (rule removes_trans)
    qed (use run p pods in \<open>auto simp: bind_def\<close>)
    from keepsD [OF V run] P same show ?thesis by (simp add: removes_def)
  qed (use assms l same in \<open>auto simp: cleanup_stateful_pods_def bind_def removes_same\<close>)
qed

text \<open>
  C4: Refinement. Read as maps from names to hashes, the statuses after a reconcile of the nodes are
  the nodes of the cluster with the hashes of their events: the loops implement that specification,
  whatever nodes and hashes the statuses had before. Of these only their names must differ, as they do
  when there are none and as every reconcile keeps them, and so must the names of the nodes.
\<close>

theorem node_statuses_refine:
  assumes "reconcile_node_statuses H i w = (Ok (i', b), w')" and "distinct (map node_name (nodes w))"
    and "distinct (map ns_name (nodes_status (in_status i)))"
  shows "hashes (nodes_status (in_status i')) = cluster_hashes H i (nodes w) \<and>
    (\<forall>n \<in> set (nodes w). H (event_of i n) = Ok (node_hash H i n))"
  using reconcile_node_statuses_Ok [OF assms(1,2)] assms(3) by (auto simp: with_node_statuses_def statuses_of_nodes)

text \<open>
  C36: A reconcile of the nodes keeps the names of the statuses distinct: if each name is there once before
  it, as when there are none, and the names of the nodes differ, then the statuses that are saved have each
  name once, and in order; nothing else of the installation changes.
\<close>

theorem node_statuses_well_formed:
  assumes "reconcile_node_statuses H i w = (Ok (i', b), w')" and "distinct (map node_name (nodes w))"
    and "distinct (map ns_name (nodes_status (in_status i)))"
  shows "sorted (map ns_name (nodes_status (in_status i'))) \<and> distinct (map ns_name (nodes_status (in_status i'))) \<and>
    with_node_statuses i' (nodes_status (in_status i)) = i"
proof -
  have sorted_names: "distinct (map ns_name (sort_key ns_name xs)) \<longleftrightarrow> distinct (map ns_name xs)" for xs
    by (simp add: distinct_map)
  show ?thesis using reconcile_node_statuses_Ok [OF assms(1,2)] assms(3)
    by (auto simp: with_node_statuses_def sorted_names intro: distinct_map_filter simp del: distinct_map)
qed

text \<open>
  The events of a reconcile are the difference between the statuses and the nodes: added nodes
  had no status, updated ones had another hash, removed ones are the statuses without a node.
\<close>

theorem node_events_are_the_difference:
  assumes "reconcile_node_statuses H i w = (Ok (i', b), w')" and "distinct (map node_name (nodes w))"
    and "distinct (map ns_name (nodes_status (in_status i)))"
  shows "nodes_added b = adds i (nodes_status (in_status i)) (nodes w) \<and>
    nodes_updated b = updates H i (nodes_status (in_status i)) (nodes w) \<and>
    set (nodes_removed b) = ns_name ` set (nodes_status (in_status i)) - node_name ` set (nodes w)"
proof -
  have names: "n \<in> ns_name ` set ss \<longleftrightarrow> hashes ss n \<noteq> None" for n ss by (simp add: hashes_None)
  from reconcile_node_statuses_Ok [OF assms(1,2)] obtain ss' where b: "nodes_added b = adds i (nodes_status (in_status i)) (nodes w)"
    "nodes_updated b = updates H i (nodes_status (in_status i)) (nodes w)"
    "nodes_removed b = map ns_name (filter (\<lambda>s. ns_name s \<notin> node_name ` set (nodes w)) ss')"
    and h: "hashes ss' = hashes (nodes_status (in_status i)) ++ cluster_hashes H i (nodes w)" by auto
  have "set (nodes_removed b) = ns_name ` set ss' - node_name ` set (nodes w)" unfolding b(3) by auto
  also have "\<dots> = ns_name ` set (nodes_status (in_status i)) - node_name ` set (nodes w)"
  proof (rule set_eqI)
    fix m
    show "m \<in> ns_name ` set ss' - node_name ` set (nodes w) \<longleftrightarrow>
        m \<in> ns_name ` set (nodes_status (in_status i)) - node_name ` set (nodes w)"
      unfolding Diff_iff names h map_add_None cluster_hashes_None de_Morgan_conj not_not by (rule iffI; elim conjE disjE; simp)
  qed
  finally show ?thesis using b by simp
qed

text \<open>When nothing has changed, the next reconcile has no events.\<close>

theorem next_reconcile_is_quiet:
  assumes "reconcile_node_statuses H i w = (Ok (i', b), w')" and "distinct (map node_name (nodes w))"
    and "distinct (map ns_name (nodes_status (in_status i)))"
    and "reconcile_node_statuses H i' v = (Ok (i'', b'), v')" and "nodes v = nodes w"
  shows "b' = \<lparr>nodes_added = [], nodes_updated = [], nodes_removed = []\<rparr>"
proof -
  from reconcile_node_statuses_Ok [OF assms(1,2)] obtain ss' where
    i': "i' = with_node_statuses i (sort_key ns_name (filter (\<lambda>s. ns_name s \<in> node_name ` set (nodes w)) ss'))"
    and ss': "distinct (map ns_name ss')" "hashes ss' = hashes (nodes_status (in_status i)) ++ cluster_hashes H i (nodes w)"
    using assms(3) by auto
  have ev: "event_of i' = event_of i" by (simp add: i' with_node_statuses_def event_of_def config_version_def fun_eq_iff)
  then have hash: "node_hash H i' = node_hash H i" by (simp add: node_hash_def fun_eq_iff)
  let ?ss = "nodes_status (in_status i')"
  have "hashes ?ss = cluster_hashes H i (nodes w)" using statuses_of_nodes [OF ss'] by (simp add: i' with_node_statuses_def)
  with cluster_hashes_Some [OF assms(2)] have now: "hashes ?ss (node_name n) = Some (node_hash H i n)" if "n \<in> set (nodes w)" for n
    using that by simp
  have "distinct (map node_name (nodes v))" using assms(2,5) by simp
  from reconcile_node_statuses_Ok [OF assms(4) this] obtain ss'' where
    b': "b' = \<lparr>nodes_added = adds i' ?ss (nodes w), nodes_updated = updates H i' ?ss (nodes w),
      nodes_removed = map ns_name (filter (\<lambda>s. ns_name s \<notin> node_name ` set (nodes w)) ss'')\<rparr>"
    and s'': "hashes ss'' = hashes ?ss ++ cluster_hashes H i' (nodes w)" unfolding assms(5) by auto
  have "ns_name s \<in> node_name ` set (nodes w)" if "s \<in> set ss''" for s
  proof (rule ccontr)
    assume "ns_name s \<notin> node_name ` set (nodes w)"
    then have "hashes ss'' (ns_name s) = None"
      using cluster_hashes_None [of H i "nodes w" "ns_name s"] cluster_hashes_None [of H i' "nodes w" "ns_name s"]
      by (simp add: s'' \<open>hashes ?ss = cluster_hashes H i (nodes w)\<close>)
    with that show False by (simp add: hashes_None)
  qed
  then have "filter (\<lambda>s. ns_name s \<notin> node_name ` set (nodes w)) ss'' = []" by (simp add: filter_empty_conv)
  moreover have "adds i' ?ss (nodes w) = []" "updates H i' ?ss (nodes w) = []"
    unfolding adds_def updates_def by (simp_all add: filter_empty_conv now hash)
  ultimately show ?thesis unfolding b' by simp
qed

text \<open>A cluster whose statuses are one behind: node a has changed, b is new, c is gone.\<close>

definition sample_hash :: "node_event \<Rightarrow> string outcome" where
  "sample_hash ev = Ok (ev_version ev @ ev_node ev)"

definition sample_watched :: installation where
  "sample_watched = with_node_statuses sample_upgrading [\<lparr>ns_name = ''a'', ns_hash = ''1.0.0a''\<rparr>, \<lparr>ns_name = ''c'', ns_hash = ''x''\<rparr>]"

definition sample_watched_nodes :: kube where
  "sample_watched_nodes = (sample_kube [sample_watched])\<lparr>nodes := [(sample_node [])\<lparr>node_name := ''b''\<rparr>, (sample_node [])\<lparr>node_name := ''a''\<rparr>]\<rparr>"

lemma sample_watched_version: "config_version sample_watched = ''2.0.0''" "config_version (with_node_statuses sample_watched ss) = ''2.0.0''"
  by (simp_all add: config_version_def sample_watched_def with_node_statuses_def sample_upgrading_def sample_install_def
    sample_spec_def sample_config_def)

lemma sample_event_hash: "sample_hash (event_of sample_watched n) = Ok (''2.0.0'' @ node_name n)"
  by (simp add: sample_hash_def event_of_def node_event_from_node_def sample_watched_version)

lemma sample_watched_nodes_simps [simp]: "faults sample_watched_nodes = []"
  "nodes sample_watched_nodes = [(sample_node [])\<lparr>node_name := ''b''\<rparr>, (sample_node [])\<lparr>node_name := ''a''\<rparr>]"
  "nodes_status (in_status sample_watched) = [\<lparr>ns_name = ''a'', ns_hash = ''1.0.0a''\<rparr>, \<lparr>ns_name = ''c'', ns_hash = ''x''\<rparr>]"
  by (simp_all add: sample_watched_nodes_def sample_watched_def with_node_statuses_def)

lemma sample_watched_run: "\<exists>v b. reconcile_node_statuses sample_hash sample_watched sample_watched_nodes =
    (Ok (with_node_statuses sample_watched [\<lparr>ns_name = ''a'', ns_hash = ''2.0.0a''\<rparr>, \<lparr>ns_name = ''b'', ns_hash = ''2.0.0b''\<rparr>], b), v)"
  by (simp add: reconcile_node_statuses_def bind_def wrap_def gets_def Let_def lift_def ret_def emit_def modify_def
    event_of_def [symmetric] node_has_changed_run update_node_status_def sample_event_hash)

text \<open>Its second reconcile.\<close>

definition sample_watched_now :: installation where
  "sample_watched_now = with_node_statuses sample_watched [\<lparr>ns_name = ''a'', ns_hash = ''2.0.0a''\<rparr>, \<lparr>ns_name = ''b'', ns_hash = ''2.0.0b''\<rparr>]"

lemma sample_event_hash_now: "sample_hash (event_of sample_watched_now n) = Ok (''2.0.0'' @ node_name n)"
  "nodes_status (in_status sample_watched_now) = [\<lparr>ns_name = ''a'', ns_hash = ''2.0.0a''\<rparr>, \<lparr>ns_name = ''b'', ns_hash = ''2.0.0b''\<rparr>]"
  by (simp_all add: sample_hash_def event_of_def node_event_from_node_def sample_watched_version sample_watched_now_def)
    (simp add: with_node_statuses_def)

lemma sample_watched_again: "\<exists>v b i. reconcile_node_statuses sample_hash sample_watched_now sample_watched_nodes = (Ok (i, b), v)"
  by (simp add: reconcile_node_statuses_def bind_def wrap_def gets_def Let_def lift_def ret_def emit_def modify_def
    event_of_def [symmetric] node_has_changed_run update_node_status_def sample_event_hash_now)

theorem node_statuses_refine_witness:
  "hashes [\<lparr>ns_name = ''a'', ns_hash = ''2.0.0a''\<rparr>, \<lparr>ns_name = ''b'', ns_hash = ''2.0.0b''\<rparr>] =
     cluster_hashes sample_hash sample_watched (nodes sample_watched_nodes)"
proof -
  obtain v b where "reconcile_node_statuses sample_hash sample_watched sample_watched_nodes =
    (Ok (with_node_statuses sample_watched [\<lparr>ns_name = ''a'', ns_hash = ''2.0.0a''\<rparr>, \<lparr>ns_name = ''b'', ns_hash = ''2.0.0b''\<rparr>], b), v)"
    using sample_watched_run by (elim exE)
  from node_statuses_refine [OF this] show ?thesis by (simp add: with_node_statuses_def)
qed

theorem node_statuses_well_formed_witness:
  "sorted (map ns_name [\<lparr>ns_name = ''a'', ns_hash = ''2.0.0a''\<rparr>, \<lparr>ns_name = ''b'', ns_hash = ''2.0.0b''\<rparr>])"
proof -
  obtain v b where "reconcile_node_statuses sample_hash sample_watched sample_watched_nodes =
    (Ok (with_node_statuses sample_watched [\<lparr>ns_name = ''a'', ns_hash = ''2.0.0a''\<rparr>, \<lparr>ns_name = ''b'', ns_hash = ''2.0.0b''\<rparr>], b), v)"
    using sample_watched_run by (elim exE)
  from node_statuses_well_formed [OF this] show ?thesis by (simp add: with_node_statuses_def)
qed

theorem node_events_are_the_difference_witness:
  "\<exists>i b v. reconcile_node_statuses sample_hash sample_watched sample_watched_nodes = (Ok (i, b), v) \<and>
     map ev_node (nodes_added b) = [''b''] \<and> map ev_node (nodes_updated b) = [''a''] \<and> set (nodes_removed b) = {''c''}"
proof -
  obtain v b i where r: "reconcile_node_statuses sample_hash sample_watched sample_watched_nodes = (Ok (i, b), v)"
    using sample_watched_run by (elim exE)
  from node_events_are_the_difference [OF r] have "map ev_node (nodes_added b) = [''b''] \<and> map ev_node (nodes_updated b) = [''a''] \<and> set (nodes_removed b) = {''c''}"
    by (simp add: adds_def updates_def node_hash_def sample_event_hash)
  with r show ?thesis by (intro exI [of _ i] exI [of _ b] exI [of _ v] conjI) simp_all
qed

theorem next_reconcile_is_quiet_witness:
  "\<exists>i b v. reconcile_node_statuses sample_hash sample_watched_now sample_watched_nodes = (Ok (i, b), v) \<and>
     b = \<lparr>nodes_added = [], nodes_updated = [], nodes_removed = []\<rparr>"
proof -
  obtain v0 b0 where r0: "reconcile_node_statuses sample_hash sample_watched sample_watched_nodes = (Ok (sample_watched_now, b0), v0)"
    using sample_watched_run unfolding sample_watched_now_def by (elim exE)
  obtain v b i where r: "reconcile_node_statuses sample_hash sample_watched_now sample_watched_nodes = (Ok (i, b), v)"
    using sample_watched_again by (elim exE)
  have "b = \<lparr>nodes_added = [], nodes_updated = [], nodes_removed = []\<rparr>"
    by (rule next_reconcile_is_quiet [OF r0 _ _ r refl]) simp_all
  with r show ?thesis by (intro exI conjI)
qed

definition sample_controller :: controller_lib where
  "sample_controller = \<lparr>cl_artifacts = sample_artifact_lib, cl_event_hash = sample_hash, cl_send_event = (\<lambda>_ _. Ok ()),
     cl_unmarshal_config = (\<lambda>_. Ok (sample_config ''2.0.0'' [])), cl_utils_image = [], cl_ca_path = [], cl_kotsadm_ns = [], cl_arrange = id\<rparr>"

theorem airgap_reconcile_never_reports_witness:
  "filter is_notified (log (snd (reconcile_one sample_controller empty_runtime_config
     (sample_watched\<lparr>in_spec := (in_spec sample_watched)\<lparr>air_gap := True\<rparr>\<rparr>) sample_watched_nodes))) = []"
proof -
  have "log sample_watched_nodes = []" by (simp add: sample_watched_nodes_def sample_kube_def)
  with airgap_reconcile_never_reports [OF _ prod.collapse [symmetric], of "sample_watched\<lparr>in_spec := (in_spec sample_watched)\<lparr>air_gap := True\<rparr>\<rparr>"
    sample_controller empty_runtime_config sample_watched_nodes] show ?thesis by simp
qed

text \<open>Two upgrade jobs: one of an older installation, one of a newer.\<close>

definition sample_jobs :: kube where
  "sample_jobs = (sample_kube [])\<lparr>job_objects := [((''kotsadm'', ''old''), upgrade_job_of empty_runtime_config sample_upgrading [] []),
     ((''kotsadm'', ''new''), upgrade_job_of empty_runtime_config (sample_upgrading\<lparr>in_name := ''3''\<rparr>) [] [])]\<rparr>"

theorem delete_upgrade_jobs_only_old_witness:
  "((''kotsadm'', ''new''), upgrade_job_of empty_runtime_config (sample_upgrading\<lparr>in_name := ''3''\<rparr>) [] []) \<in>
     set (job_objects (snd (delete_upgrade_jobs sample_upgrading sample_jobs)))"
proof (rule ccontr)
  let ?j = "upgrade_job_of empty_runtime_config (sample_upgrading\<lparr>in_name := ''3''\<rparr>) [] []"
  assume no: "\<not> ?thesis"
  have "((''kotsadm'', ''new''), ?j) \<in> set (job_objects sample_jobs)" by (simp add: sample_jobs_def)
  with no have gone: "((''kotsadm'', ''new''), ?j) \<in> set (job_objects sample_jobs) - set (job_objects (snd (delete_upgrade_jobs sample_upgrading sample_jobs)))"
    by (rule_tac DiffI)
  have n: "in_name sample_upgrading = ''2''" by (simp add: sample_upgrading_def sample_install_def)
  from delete_upgrade_jobs_only_old [OF prod.collapse [symmetric], of sample_upgrading sample_jobs] gone
  obtain j where "((''kotsadm'', ''new''), j) \<in> set (job_objects sample_jobs)"
    "lookup_or_empty (jo_annotations j) installation_name_annotation = [] \<or> lookup_or_empty (jo_annotations j) installation_name_annotation \<le> ''2''"
    unfolding n by blast
  then show False by (simp add: sample_jobs_def upgrade_job_of_def lookup_or_empty_def)
qed

text \<open>A claim of a node that is gone, one of a node that is there, and a pod that waits for each.\<close>

definition sample_claim :: "string \<Rightarrow> pvc_object" where
  "sample_claim n = \<lparr>pvc_annotations = [(''volume.kubernetes.io/storage-provisioner'', ''openebs.io/local''),
     (''volume.kubernetes.io/selected-node'', n)], pvc_volume = ''pv-'' @ n\<rparr>"

definition sample_volumes :: kube where
  "sample_volumes = (sample_kube [])\<lparr>nodes := [sample_node []],
     pvc_objects := [((''app'', ''lost''), sample_claim ''gone''), ((''app'', ''kept''), sample_claim ''n'')],
     pod_objects := [((''app'', ''p''), \<lparr>po_phase = ''Pending'', po_labels = [], po_claims = [''kept'']\<rparr>)]\<rparr>"

theorem cleanup_only_stuck_witness:
  "((''app'', ''kept''), sample_claim ''n'') \<in> set (pvc_objects (snd (cleanup_stateful_pods id sample_volumes)))"
proof (rule ccontr)
  assume no: "\<not> ?thesis"
  have "((''app'', ''kept''), sample_claim ''n'') \<in> set (pvc_objects sample_volumes)" by (simp add: sample_volumes_def)
  with no have d: "((''app'', ''kept''), sample_claim ''n'') \<in> set (pvc_objects sample_volumes) -
      set (pvc_objects (snd (cleanup_stateful_pods id sample_volumes)))" by (rule_tac DiffI)
  have "fst x \<in> {k. \<exists>p. (k, p) \<in> set (pvc_objects sample_volumes) \<and> is_stuck (nodes sample_volumes) p}"
    if "x \<in> set (pvc_objects sample_volumes) - set (pvc_objects (snd (cleanup_stateful_pods id sample_volumes)))" for x
    using conjunct1 [OF cleanup_only_stuck [OF prod.collapse [symmetric], of sample_volumes id]] that
    unfolding removes_def by (elim conjE bspec)
  from this [OF d] obtain p where "((''app'', ''kept''), p) \<in> set (pvc_objects sample_volumes)" "is_stuck (nodes sample_volumes) p"
    unfolding fst_conv by (elim CollectE exE conjE)
  then show False by (simp add: sample_volumes_def sample_claim_def is_stuck_def is_node_gone_def lookup_or_empty_def sample_node_def)
qed

end
