(* ===== verification/Cli.thy ===== *)
theory Cli
  imports NetUtils K0sConfig HighAvailability Extensions
begin

text \<open>
  The state one run of the command line works on: the cluster, velero's backups and restores, autopilot's control nodes, the
  answers the user will give, the runtime configuration of the program, and a log of the steps
  that matter outside. A call of the components below it is a call on the cluster part; every
  call of the API server takes the next answer from that part's list, and so does a step on the
  host (a command, a file, a service), whose effect on the rest is a parameter.

  \<open>cw_k0s_file\<close> is k0s's configuration file and \<open>cw_rc_disk\<close> the file of the runtime configuration, both as
  the object they are the text of. A time is the number of instants since Go's zero time, which is 0.
\<close>

section \<open>Data\<close>

record velero_backup =
  bk_name :: string
  bk_labels :: "(string \<times> string) list"
  bk_annotations :: "(string \<times> string) list"
  bk_phase :: string
  bk_start :: "nat option"
  bk_completion :: "nat option"

type_synonym replicated_backup = "velero_backup list"

record velero_restore =
  vr_name :: string
  vr_labels :: "(string \<times> string) list"
  vr_annotations :: "(string \<times> string) list"
  vr_backup_name :: string
  vr_selector :: "(string \<times> string) list"
  vr_restore_pvs :: "bool option"
  vr_cluster_resources :: "bool option"
  vr_modifier :: "(string \<times> string) option"
  vr_rest :: string
  vr_phase :: string
  vr_errors :: int
  vr_warnings :: int

datatype cli_event =
    StateSet string string
  | StateReset
  | RestoreCreated string
  | HostStep string

record cli_world =
  cw_kube :: kube
  cw_client :: bool
  cw_backups :: "velero_backup list"
  cw_restores :: "velero_restore list"
  cw_control_nodes :: "string list"
  cw_confirms :: "(err + bool) list"
  cw_inputs :: "(err + string) list"
  cw_rc :: runtime_config_spec
  cw_rc_disk :: "runtime_config_spec option"
  cw_k0s_file :: "k0s_config option"
  cw_log :: "cli_event list"

section \<open>Calls\<close>

text \<open>A call on the cluster, as a call on the larger state; the client may be missing.\<close>

definition on_kube :: "(kube, 'a) call \<Rightarrow> (cli_world, 'a) call" where
  "on_kube m w = (case m (cw_kube w) of (r, k) \<Rightarrow> (r, w\<lparr>cw_kube := k\<rparr>))"

definition kube_client :: "(cli_world, unit) call" where
  "kube_client w = (if cw_client w then (Ok (), w) else (Err (EApi ''unable to process kubernetes config''), w))"

definition cli_api :: "(cli_world, 'a) call \<Rightarrow> (cli_world, 'a) call" where
  "cli_api body = bind (on_kube pop_fault) (\<lambda>f. case f of
      NoFault \<Rightarrow> body
    | Conflicting \<Rightarrow> throw (EConflict ''the object has been modified'')
    | NoMatching \<Rightarrow> throw (ENoMatch ''no matches for kind'')
    | TooLarge \<Rightarrow> throw (ETooLarge ''request entity too large'')
    | Failing s \<Rightarrow> throw (EApi s)
    | LostReply s \<Rightarrow> bind body (\<lambda>_. throw (EApi s)))"

text \<open>
  A step on the host, named by what it runs: it fails or has the effect \<open>E\<close> gives for it.
\<close>

definition host_step :: "(string \<Rightarrow> cli_world \<Rightarrow> cli_world) \<Rightarrow> string \<Rightarrow> (cli_world, unit) call" where
  "host_step E s = cli_api (modify (\<lambda>w. (E s w)\<lparr>cw_log := cw_log (E s w) @ [HostStep s]\<rparr>))"

text \<open>Prompts: an answer is given once; without one the terminal is at its end.\<close>

definition confirm :: "(cli_world, bool) call" where
  "confirm w = (case cw_confirms w of
      [] \<Rightarrow> (Err (EMsg ''EOF''), w)
    | Inl e # rest \<Rightarrow> (Err e, w\<lparr>cw_confirms := rest\<rparr>)
    | Inr b # rest \<Rightarrow> (Ok b, w\<lparr>cw_confirms := rest\<rparr>))"

definition input :: "(cli_world, string) call" where
  "input w = (case cw_inputs w of
      [] \<Rightarrow> (Err (EMsg ''EOF''), w)
    | Inl e # rest \<Rightarrow> (Err e, w\<lparr>cw_inputs := rest\<rparr>)
    | Inr s # rest \<Rightarrow> (Ok s, w\<lparr>cw_inputs := rest\<rparr>))"

definition log_event :: "cli_event \<Rightarrow> (cli_world, unit) call" where
  "log_event e = modify (\<lambda>w. w\<lparr>cw_log := cw_log w @ [e]\<rparr>)"

text \<open>The runtime configuration's file: the old one is removed before the new one is written.\<close>

definition write_runtime_config :: "(cli_world, unit) call" where
  "write_runtime_config =
     bind (wrap ''create directory'' (cli_api (ret ()))) (\<lambda>_.
     bind (wrap ''remove existing file'' (cli_api (modify (\<lambda>w. w\<lparr>cw_rc_disk := None\<rparr>)))) (\<lambda>_.
     bind (gets cw_rc) (\<lambda>rc.
     wrap ''write file'' (cli_api (modify (\<lambda>w. w\<lparr>cw_rc_disk := Some rc\<rparr>))))))"

section \<open>Lemmas\<close>

lemma cli_api_NoFault [simp]: "faults (cw_kube w) = [] \<Longrightarrow> cli_api body w = body w"
  by (simp add: cli_api_def bind_def on_kube_def pop_fault_def)


lemma cli_api_run:
  obtains f k where "faults_only (cw_kube w) k" "cli_api body w = (case f of
      NoFault \<Rightarrow> body
    | Conflicting \<Rightarrow> throw (EConflict ''the object has been modified'')
    | NoMatching \<Rightarrow> throw (ENoMatch ''no matches for kind'')
    | TooLarge \<Rightarrow> throw (ETooLarge ''request entity too large'')
    | Failing s \<Rightarrow> throw (EApi s)
    | LostReply s \<Rightarrow> bind body (\<lambda>_. throw (EApi s))) (w\<lparr>cw_kube := k\<rparr>)"
proof -
  obtain f fs where "pop_fault (cw_kube w) = (Ok f, (cw_kube w)\<lparr>faults := fs\<rparr>)" using pop_fault_cases by blast
  with that [of "(cw_kube w)\<lparr>faults := fs\<rparr>" f] show ?thesis
    by (auto simp: cli_api_def bind_def on_kube_def faults_only_def)
qed

lemma cli_api_Ok:
  assumes "cli_api body w = (Ok x, w')"
  obtains k where "faults_only (cw_kube w) k" "body (w\<lparr>cw_kube := k\<rparr>) = (Ok x, w')"
proof -
  obtain f k where k: "faults_only (cw_kube w) k" "cli_api body w = (case f of
      NoFault \<Rightarrow> body
    | Conflicting \<Rightarrow> throw (EConflict ''the object has been modified'')
    | NoMatching \<Rightarrow> throw (ENoMatch ''no matches for kind'')
    | TooLarge \<Rightarrow> throw (ETooLarge ''request entity too large'')
    | Failing s \<Rightarrow> throw (EApi s)
    | LostReply s \<Rightarrow> bind body (\<lambda>_. throw (EApi s))) (w\<lparr>cw_kube := k\<rparr>)" by (rule cli_api_run)
  with assms have "body (w\<lparr>cw_kube := k\<rparr>) = (Ok x, w')" by (cases f) (auto simp: bind_Ok_iff)
  with k(1) that show ?thesis by blast
qed

text \<open>A frame of the larger state: the answers of the clients are no part of what it compares.\<close>

locale cli_frame = frame R for R :: "cli_world \<Rightarrow> cli_world \<Rightarrow> bool" +
  assumes answers_irrelevant: "faults_only (cw_kube w) k \<Longrightarrow> R w (w\<lparr>cw_kube := k\<rparr>)"
begin

lemma keeps_on_kube:
  assumes "keeps K m" "\<And>w k. K (cw_kube w) k \<Longrightarrow> R w (w\<lparr>cw_kube := k\<rparr>)"
  shows "keeps R (on_kube m)"
  using assms unfolding keeps_def on_kube_def by (auto split: prod.splits) (metis snd_conv)

lemma keeps_reads: "keeps faults_only m \<Longrightarrow> keeps R (on_kube m)"
  by (rule keeps_on_kube [of faults_only]) (simp_all add: answers_irrelevant)

lemma keeps_cli_api: "keeps R body \<Longrightarrow> keeps R (cli_api body)"
  unfolding cli_api_def
  by (rule keeps_bind [OF keeps_reads [OF fo.keeps_pop_fault]]) (auto split: fault.splits intro: frame_rules)

lemma keeps_kube_client: "keeps R kube_client"
  by (auto simp: keeps_def kube_client_def frame_refl)

lemmas cli_rules = frame_rules keeps_cli_api keeps_kube_client

end

text \<open>
  \<open>only_asks\<close>: nothing is changed outside; answers are used up, and the program may have set its own
  runtime configuration.
\<close>

definition only_asks :: "cli_world \<Rightarrow> cli_world \<Rightarrow> bool" where
  "only_asks w w' \<longleftrightarrow> faults_only (cw_kube w) (cw_kube w') \<and> cw_client w' = cw_client w \<and>
     cw_backups w' = cw_backups w \<and> cw_restores w' = cw_restores w \<and> cw_control_nodes w' = cw_control_nodes w \<and>
     cw_rc_disk w' = cw_rc_disk w \<and>
     cw_k0s_file w' = cw_k0s_file w \<and> cw_log w' = cw_log w"

interpretation ask: cli_frame only_asks
proof
  show "only_asks u w" if "only_asks u v" "only_asks v w" for u v w
    using that fo.frame_trans by (auto simp: only_asks_def)
qed (auto simp: only_asks_def fo.frame_refl)

lemma keeps_prompts: "keeps only_asks confirm" "keeps only_asks input"
  by (auto simp: keeps_def confirm_def input_def only_asks_def fo.frame_refl split: list.split sum.split)

definition sample_world :: cli_world where
  "sample_world = \<lparr>cw_kube = sample_kube [], cw_client = True, cw_backups = [], cw_restores = [], cw_control_nodes = [],
     cw_confirms = [], cw_inputs = [], cw_rc = empty_runtime_config, cw_rc_disk = None, cw_k0s_file = None, cw_log = []\<rparr>"

end
