(* ===== verification/Backups.thy ===== *)
theory Backups
  imports Cli
begin

text \<open>
  Disaster recovery backups (\<^verbatim>\<open>pkg/disasterrecovery/backup.go\<close>): what their annotations say,
  how velero backups are grouped into the backups of an instance (one velero backup for a legacy
  backup, otherwise one of the infrastructure and one of the application), and how they are read
  from the cluster. The lemmas show what grouping computes and that a listed backup is found again.
\<close>

section \<open>One velero backup\<close>

definition BackupIsECAnnotation :: string where "BackupIsECAnnotation = ''kots.io/embedded-cluster''"
definition InstanceBackupAnnotation :: string where "InstanceBackupAnnotation = ''kots.io/instance''"
definition InstanceBackupVersionAnnotation :: string where
  "InstanceBackupVersionAnnotation = ''replicated.com/disaster-recovery-version''"
definition InstanceBackupNameLabel :: string where "InstanceBackupNameLabel = ''replicated.com/backup-name''"
definition InstanceBackupTypeAnnotation :: string where
  "InstanceBackupTypeAnnotation = ''replicated.com/backup-type''"
definition InstanceBackupCountAnnotation :: string where
  "InstanceBackupCountAnnotation = ''replicated.com/backup-count''"
definition InstanceBackupResoreSpecAnnotation :: string where
  "InstanceBackupResoreSpecAnnotation = ''replicated.com/restore-spec''"

definition annotation :: "velero_backup \<Rightarrow> string \<Rightarrow> string option" where
  "annotation b = map_of (bk_annotations b)"

text \<open>A Go map gives the empty string for a key it does not have.\<close>

definition annotation_or_empty :: "velero_backup \<Rightarrow> string \<Rightarrow> string" where
  "annotation_or_empty b k = (case annotation b k of None \<Rightarrow> [] | Some v \<Rightarrow> v)"

definition get_instance_backup_version :: "velero_backup \<Rightarrow> string" where
  "get_instance_backup_version b = (case annotation b InstanceBackupVersionAnnotation of Some v \<Rightarrow> v | None \<Rightarrow> [])"

definition is_instance_backup :: "velero_backup \<Rightarrow> bool" where
  "is_instance_backup b = (if get_instance_backup_version b \<noteq> [] then True
     else case annotation b InstanceBackupAnnotation of Some v \<Rightarrow> v = ''true'' | None \<Rightarrow> False)"

definition get_instance_backup_type :: "velero_backup \<Rightarrow> string" where
  "get_instance_backup_type b = (case annotation b InstanceBackupTypeAnnotation of Some v \<Rightarrow> v | None \<Rightarrow> ''legacy'')"

definition get_backup_name :: "velero_backup \<Rightarrow> string" where
  "get_backup_name b = (case map_of (bk_labels b) InstanceBackupNameLabel of Some v \<Rightarrow> v | None \<Rightarrow> bk_name b)"

text \<open>
  \<open>strconv.Atoi\<close> with its error dropped: 0 for what is no number, the nearest representable number
  for one out of range.
\<close>

definition atoi_value :: "string \<Rightarrow> int" where
  "atoi_value s =
     (let (neg, ds) = (case s of
           [] \<Rightarrow> (False, [])
         | c # cs \<Rightarrow> if c = CHR ''-'' then (True, cs) else if c = CHR ''+'' then (False, cs) else (False, s))
      in case parse_dec ds of
           None \<Rightarrow> 0
         | Some n \<Rightarrow> if neg then - min (int n) (2 ^ 63) else min (int n) (2 ^ 63 - 1))"

definition get_instance_backup_count :: "velero_backup \<Rightarrow> int" where
  "get_instance_backup_count b = (case annotation b InstanceBackupCountAnnotation of
      Some v \<Rightarrow> if atoi_value v > 0 then atoi_value v else 1
    | None \<Rightarrow> 1)"

section \<open>A replicated backup\<close>

fun get_name_from :: "string \<Rightarrow> replicated_backup \<Rightarrow> string" where
  "get_name_from name [] = name"
| "get_name_from name (a # as) = (case map_of (bk_labels a) InstanceBackupNameLabel of
      Some v \<Rightarrow> if v \<noteq> [] then v else get_name_from (bk_name a) as
    | None \<Rightarrow> get_name_from (bk_name a) as)"

definition get_name :: "replicated_backup \<Rightarrow> string" where
  "get_name b = get_name_from [] b"

definition get_infra_backup :: "replicated_backup \<Rightarrow> velero_backup option" where
  "get_infra_backup b = List.find (\<lambda>a. get_instance_backup_type a = ''infra'' \<or> get_instance_backup_type a = ''legacy'') b"

definition get_app_backup :: "replicated_backup \<Rightarrow> velero_backup option" where
  "get_app_backup b = List.find (\<lambda>a. get_instance_backup_type a = ''app'' \<or> get_instance_backup_type a = ''legacy'') b"

definition get_expected_backup_count :: "replicated_backup \<Rightarrow> int" where
  "get_expected_backup_count b = (case get_infra_backup b of
      Some a \<Rightarrow> get_instance_backup_count a
    | None \<Rightarrow> (case b of [] \<Rightarrow> 0 | a # _ \<Rightarrow> get_instance_backup_count a))"

text \<open>The decoder of Kubernetes objects is a parameter: the object's kind and the restore.\<close>

definition get_restore :: "(string \<Rightarrow> (string \<times> velero_restore) outcome) \<Rightarrow> replicated_backup \<Rightarrow> velero_restore outcome" where
  "get_restore decode b = (case get_app_backup b of
      None \<Rightarrow> Err (EMsg ''no app backup found'')
    | Some a \<Rightarrow> (case annotation a InstanceBackupResoreSpecAnnotation of
        None \<Rightarrow> Err (EMsg ''missing restore spec annotation'')
      | Some v \<Rightarrow> bindO (wrapO ''failed to decode restore spec'' (decode v)) (\<lambda>(gvk, r).
          if gvk \<noteq> ''velero.io/v1, Kind=Restore'' then Err (EMsg (''unexpected gvk: '' @ gvk)) else Ok r)))"

fun completion_from :: "nat \<Rightarrow> replicated_backup \<Rightarrow> nat" where
  "completion_from t [] = t"
| "completion_from t (a # as) = (case bk_completion a of
      None \<Rightarrow> 0
    | Some c \<Rightarrow> completion_from (if c > t then c else t) as)"

definition get_completion_timestamp :: "replicated_backup \<Rightarrow> nat" where
  "get_completion_timestamp b = (if get_expected_backup_count b \<noteq> int (length b) then 0 else completion_from 0 b)"

definition get_annotation :: "replicated_backup \<Rightarrow> string \<Rightarrow> string option" where
  "get_annotation b k = (case get_infra_backup b of
      Some a \<Rightarrow> annotation a k
    | None \<Rightarrow> (case b of [] \<Rightarrow> None | a # _ \<Rightarrow> annotation a k))"

text \<open>What \<open>ReplicatedBackups.Less\<close> compares: the start of the infrastructure backup, else the first start.\<close>

fun first_start :: "replicated_backup \<Rightarrow> nat" where
  "first_start [] = 0"
| "first_start (a # as) = (case bk_start a of Some t \<Rightarrow> t | None \<Rightarrow> first_start as)"

definition start_time :: "replicated_backup \<Rightarrow> nat" where
  "start_time b = (case get_infra_backup b of
      Some a \<Rightarrow> (case bk_start a of Some t \<Rightarrow> t | None \<Rightarrow> first_start b)
    | None \<Rightarrow> first_start b)"

section \<open>Grouping\<close>

fun add_to_group :: "velero_backup \<Rightarrow> replicated_backup list \<Rightarrow> replicated_backup list" where
  "add_to_group b [] = [[b]]"
| "add_to_group b (g # gs) = (if get_name g = get_backup_name b then (g @ [b]) # gs else g # add_to_group b gs)"

definition is_replicated :: "velero_backup \<Rightarrow> bool" where
  "is_replicated b \<longleftrightarrow> annotation_or_empty b BackupIsECAnnotation = ''true'' \<and> is_instance_backup b"

definition group_backups_by_name :: "velero_backup list \<Rightarrow> replicated_backup list" where
  "group_backups_by_name bs = fold (\<lambda>b gs. if is_replicated b then add_to_group b gs else gs) bs []"

section \<open>Reading them from the cluster\<close>

definition list_backups :: "(cli_world, velero_backup list) call" where
  "list_backups = wrap ''unable to list backups'' (cli_api (gets cw_backups))"

text \<open>The kind of each is asked for; the text of the error has the position of the backup.\<close>

fun ensure_gvks :: "nat \<Rightarrow> velero_backup list \<Rightarrow> (cli_world, unit) call" where
  "ensure_gvks i [] = ret ()"
| "ensure_gvks i (b # bs) = bind (wrap (''ensure gvk '' @ show_nat i) (cli_api (ret ()))) (\<lambda>_. ensure_gvks (Suc i) bs)"

text \<open>
  \<open>sort.Sort\<close> is not stable: \<open>arrange\<close> is what it does to backups that started at the same time,
  any function that \<open>sorts_by_start\<close>.
\<close>

definition sorts_by_start :: "(replicated_backup list \<Rightarrow> replicated_backup list) \<Rightarrow> bool" where
  "sorts_by_start arrange \<longleftrightarrow> (\<forall>gs. mset (arrange gs) = mset gs \<and> sorted (map start_time (arrange gs)))"

definition list_replicated_backups :: "(replicated_backup list \<Rightarrow> replicated_backup list) \<Rightarrow>
    (cli_world, replicated_backup list) call" where
  "list_replicated_backups arrange =
     bind list_backups (\<lambda>bs.
     bind (ensure_gvks 0 bs) (\<lambda>_.
     ret (arrange (group_backups_by_name bs))))"

definition find_backup :: "velero_backup list \<Rightarrow> string \<Rightarrow> velero_backup option" where
  "find_backup bs n = List.find (\<lambda>b. bk_name b = n) bs"

definition ErrBackupNotFound :: err where "ErrBackupNotFound = EMsg ''backup not found''"

definition get_backups_from_name :: "string \<Rightarrow> (cli_world, velero_backup list) call" where
  "get_backups_from_name n =
     bind (wrap ''unable to list backups'' (cli_api (gets (\<lambda>w.
       filter (\<lambda>b. map_of (bk_labels b) InstanceBackupNameLabel = Some n) (cw_backups w))))) (\<lambda>bs.
     if bs \<noteq> [] then bind (ensure_gvks 0 bs) (\<lambda>_. ret bs)
     else bind (attempt (cli_api (\<lambda>w. case find_backup (cw_backups w) n of
            None \<Rightarrow> (Err (ENotFound n), w) | Some b \<Rightarrow> (Ok b, w)))) (\<lambda>r. case r of
          Inl e \<Rightarrow> if is_not_found e then throw ErrBackupNotFound else throw (EWrap ''unable to get backup'' e)
        | Inr b \<Rightarrow> bind (wrap ''ensure gvk'' (cli_api (ret ()))) (\<lambda>_. ret [b])))"

definition get_replicated_backup :: "string \<Rightarrow> (cli_world, replicated_backup) call" where
  "get_replicated_backup n = bind (get_backups_from_name n) (\<lambda>bs. case group_backups_by_name bs of
      [] \<Rightarrow> throw ErrBackupNotFound
    | [g] \<Rightarrow> ret g
    | gs \<Rightarrow> throw (EMsg (''expected 1 backup, got '' @ show_nat (length gs))))"

section \<open>What grouping computes\<close>

text \<open>An empty label is no name: \<open>GetName\<close> skips it and \<open>getBackupName\<close> does not.\<close>

definition named :: "velero_backup \<Rightarrow> bool" where
  "named b \<longleftrightarrow> map_of (bk_labels b) InstanceBackupNameLabel \<noteq> Some []"

lemma get_name_from_same:
  assumes "\<forall>b \<in> set g. named b \<and> get_backup_name b = n" "g \<noteq> [] \<or> x = n"
  shows "get_name_from x g = n"
  using assms by (induction g arbitrary: x) (auto simp: named_def get_backup_name_def split: option.splits)

lemma get_name_same: "g \<noteq> [] \<Longrightarrow> \<forall>b \<in> set g. named b \<and> get_backup_name b = n \<Longrightarrow> get_name g = n"
  unfolding get_name_def by (rule get_name_from_same) simp_all

definition first_names :: "velero_backup list \<Rightarrow> string list" where
  "first_names bs = rev (remdups (rev (map get_backup_name bs)))"

definition of_name :: "velero_backup list \<Rightarrow> string \<Rightarrow> replicated_backup" where
  "of_name bs n = filter (\<lambda>b. get_backup_name b = n) bs"

lemma first_names_simps [simp]:
  "first_names [] = []"
  "first_names (bs @ [b]) = (if get_backup_name b \<in> get_backup_name ` set bs then first_names bs
     else first_names bs @ [get_backup_name b])"
  by (simp_all add: first_names_def)

lemma distinct_first_names [simp]: "distinct (first_names bs)"
  by (simp add: first_names_def)

lemma set_first_names [simp]: "set (first_names bs) = get_backup_name ` set bs"
  by (simp add: first_names_def)

lemma get_name_of_name: "n \<in> get_backup_name ` set bs \<Longrightarrow> \<forall>b \<in> set bs. named b \<Longrightarrow> get_name (of_name bs n) = n"
  unfolding of_name_def by (rule get_name_same) (auto simp: filter_empty_conv)

lemma add_to_group_names:
  assumes "\<forall>n \<in> set ns. get_name (F n) = n" "distinct ns"
  shows "add_to_group b (map F ns) = (if get_backup_name b \<in> set ns
     then map (\<lambda>n. if n = get_backup_name b then F n @ [b] else F n) ns else map F ns @ [[b]])"
  using assms by (induction ns) auto

lemma of_name_snoc: "of_name (bs @ [b]) n = (if n = get_backup_name b then of_name bs n @ [b] else of_name bs n)"
  by (simp add: of_name_def)

lemma of_name_none: "n \<notin> get_backup_name ` set bs \<Longrightarrow> of_name bs n = []"
  by (auto simp: of_name_def filter_empty_conv)

lemma add_to_group_of_names:
  assumes "\<forall>b \<in> set es. named b"
  shows "add_to_group b (map (of_name es) (first_names es)) = map (of_name (es @ [b])) (first_names (es @ [b]))"
proof -
  have gn: "\<forall>n \<in> set (first_names es). get_name (of_name es n) = n"
    using assms by (auto intro!: get_name_of_name)
  show ?thesis
  proof (cases "get_backup_name b \<in> get_backup_name ` set es")
    case True
    then show ?thesis using add_to_group_names [OF gn distinct_first_names, of b] by (simp add: of_name_snoc)
  next
    case False
    then have "map (of_name (es @ [b])) (first_names es) = map (of_name es) (first_names es)"
      by (intro map_cong refl) (metis of_name_snoc set_first_names)
    then show ?thesis using False add_to_group_names [OF gn distinct_first_names, of b]
      by (simp add: of_name_snoc of_name_none)
  qed
qed

lemma group_of_names:
  assumes "\<forall>b \<in> set bs. named b"
  shows "group_backups_by_name bs =
    map (of_name (filter is_replicated bs)) (first_names (filter is_replicated bs))"
  using assms
proof (induction bs rule: rev_induct)
  case (snoc b bs)
  let ?es = "filter is_replicated bs"
  have IH: "group_backups_by_name bs = map (of_name ?es) (first_names ?es)" using snoc by simp
  have step: "group_backups_by_name (bs @ [b]) =
      (if is_replicated b then add_to_group b (map (of_name ?es) (first_names ?es)) else group_backups_by_name bs)"
    using IH by (simp add: group_backups_by_name_def)
  show ?case
    using step IH add_to_group_of_names [of ?es b] snoc.prems by simp
qed (simp add: group_backups_by_name_def)

lemma of_name_nonempty: "n \<in> get_backup_name ` set es \<Longrightarrow> of_name es n \<noteq> []"
  by (auto simp: of_name_def filter_empty_conv)

lemma of_name_members: "b \<in> set (of_name es n) \<Longrightarrow> b \<in> set es \<and> get_backup_name b = n"
  by (simp add: of_name_def)

lemma mset_of_names:
  assumes "distinct ns" "get_backup_name ` set es \<subseteq> set ns"
  shows "mset (concat (map (of_name es) ns)) = mset es"
  using assms
proof (induction es)
  case Nil
  then show ?case by (simp add: of_name_def concat_replicate_trivial map_replicate_const)
next
  case (Cons b es)
  have split: "mset (concat (map (of_name (b # es)) ns)) =
      mset (concat (map (of_name es) ns)) + (if get_backup_name b \<in> set ns then {#b#} else {#})" if "distinct ns" for ns
    using that by (induction ns) (auto simp: of_name_def)
  show ?case using Cons split [of ns] by simp
qed

lemma in_group:
  assumes "\<forall>b \<in> set bs. named b" "g \<in> set (group_backups_by_name bs)"
  shows "g = of_name (filter is_replicated bs) (get_name g)"
    and "get_name g \<in> get_backup_name ` set (filter is_replicated bs)"
proof -
  obtain n where n: "n \<in> get_backup_name ` set (filter is_replicated bs)" "g = of_name (filter is_replicated bs) n"
    using assms group_of_names [OF assms(1)] by auto
  have "get_name g = n" using n assms(1) by (auto intro!: get_name_of_name)
  with n show "g = of_name (filter is_replicated bs) (get_name g)"
    and "get_name g \<in> get_backup_name ` set (filter is_replicated bs)" by simp_all
qed

text \<open>
  Grouping loses and invents no backup: when no name label is empty, the groups together are
  the replicated backups of the input, each once, no group is empty, the groups have different
  names and the members of a group have its name.
\<close>

theorem grouping_partitions:
  assumes "\<forall>b \<in> set bs. named b"
  shows "mset (concat (group_backups_by_name bs)) = mset (filter is_replicated bs) \<and>
    distinct (map get_name (group_backups_by_name bs)) \<and>
    (\<forall>g \<in> set (group_backups_by_name bs). g \<noteq> [] \<and> (\<forall>b \<in> set g. get_backup_name b = get_name g))"
proof (intro conjI)
  let ?es = "filter is_replicated bs"
  note gs = group_of_names [OF assms]
  show "mset (concat (group_backups_by_name bs)) = mset ?es"
    unfolding gs by (rule mset_of_names) simp_all
  have "map get_name (group_backups_by_name bs) = first_names ?es"
    unfolding gs map_map by (rule map_idI) (use assms in \<open>auto intro!: get_name_of_name\<close>)
  then show "distinct (map get_name (group_backups_by_name bs))" by simp
  show "\<forall>g \<in> set (group_backups_by_name bs). g \<noteq> [] \<and> (\<forall>b \<in> set g. get_backup_name b = get_name g)"
    using in_group [OF assms] of_name_nonempty of_name_members by metis
qed


section \<open>Finding a backup again\<close>

lemma ensure_gvks_NoFault: "faults (cw_kube w) = [] \<Longrightarrow> ensure_gvks i bs w = (Ok (), w)"
  by (induction bs arbitrary: i) (simp_all add: bind_def wrap_def ret_def)

definition labelled_alike :: "velero_backup list \<Rightarrow> bool" where
  "labelled_alike bs \<longleftrightarrow> (\<forall>a \<in> set bs. \<forall>b \<in> set bs. get_backup_name a = get_backup_name b \<longrightarrow>
     (map_of (bk_labels a) InstanceBackupNameLabel = None) = (map_of (bk_labels b) InstanceBackupNameLabel = None))"

lemma first_names_same:
  assumes "bs \<noteq> []" "\<forall>b \<in> set bs. get_backup_name b = n"
  shows "first_names bs = [n]"
  using assms
proof (induction bs rule: rev_induct)
  case (snoc b bs)
  then show ?case
  proof (cases "bs = []")
    case False
    then have "hd bs \<in> set bs" by simp
    with snoc have "get_backup_name b \<in> get_backup_name ` set bs" by (intro image_eqI [of _ _ "hd bs"]) simp_all
    with snoc False show ?thesis by simp
  qed (simp add: first_names_def)
qed simp

lemma group_of_one_name:
  assumes "\<forall>b \<in> set bs. named b \<and> get_backup_name b = n" "filter is_replicated bs \<noteq> []"
  shows "group_backups_by_name bs = [filter is_replicated bs]"
proof -
  have "first_names (filter is_replicated bs) = [n]"
    using assms by (intro first_names_same) auto
  moreover have "of_name (filter is_replicated bs) n = filter is_replicated bs"
    unfolding of_name_def by (rule filter_True) (use assms(1) in simp)
  ultimately show ?thesis using assms(1) group_of_names [of bs] by simp
qed

lemma of_name_filter: "of_name (filter P bs) n = filter P (of_name bs n)"
  by (simp add: of_name_def conj_commute)

lemma distinct_of_name:
  assumes "distinct (map bk_name bs)" "b \<in> set bs" "\<forall>a \<in> set bs. get_backup_name a = n \<longleftrightarrow> bk_name a = bk_name b"
  shows "of_name bs n = [b]"
proof -
  have "filter (\<lambda>a. bk_name a = bk_name b) bs = [b]"
    using assms(1,2)
  proof (induction bs)
    case (Cons a bs)
    have "filter (\<lambda>x. bk_name x = bk_name b) bs = []" if "b = a"
      using Cons.prems that by (auto simp: filter_empty_conv) (metis imageI)
    with Cons show ?case by auto
  qed simp
  then show ?thesis using assms(3) unfolding of_name_def by (metis (mono_tags, lifting) filter_cong)
qed

lemma find_backup_distinct: "distinct (map bk_name bs) \<Longrightarrow> b \<in> set bs \<Longrightarrow> find_backup bs (bk_name b) = Some b"
  unfolding find_backup_def by (induction bs) auto

lemma get_backups_of_label:
  assumes "faults (cw_kube w) = []" "labelled_alike (cw_backups w)"
    and "b \<in> set (cw_backups w)" "map_of (bk_labels b) InstanceBackupNameLabel \<noteq> None"
  shows "get_backups_from_name (get_backup_name b) w = (Ok (of_name (cw_backups w) (get_backup_name b)), w)"
proof -
  have same: "filter (\<lambda>a. map_of (bk_labels a) InstanceBackupNameLabel = Some (get_backup_name b)) (cw_backups w) =
      of_name (cw_backups w) (get_backup_name b)"
    unfolding of_name_def
  proof (rule filter_cong [OF refl])
    fix a assume a: "a \<in> set (cw_backups w)"
    show "(map_of (bk_labels a) InstanceBackupNameLabel = Some (get_backup_name b)) = (get_backup_name a = get_backup_name b)"
    proof
      assume "get_backup_name a = get_backup_name b"
      with assms(2,3,4) a have "map_of (bk_labels a) InstanceBackupNameLabel \<noteq> None"
        unfolding labelled_alike_def by metis
      with \<open>get_backup_name a = get_backup_name b\<close> show "map_of (bk_labels a) InstanceBackupNameLabel = Some (get_backup_name b)"
        by (auto simp: get_backup_name_def)
    qed (simp add: get_backup_name_def)
  qed
  have "of_name (cw_backups w) (get_backup_name b) \<noteq> []" using assms(3) by (intro of_name_nonempty) simp
  then show ?thesis using assms(1) same
    by (simp add: get_backups_from_name_def bind_def wrap_def gets_def ret_def ensure_gvks_NoFault)
qed

lemma get_backups_of_object:
  assumes "faults (cw_kube w) = []" "labelled_alike (cw_backups w)" "distinct (map bk_name (cw_backups w))"
    and "b \<in> set (cw_backups w)" "map_of (bk_labels b) InstanceBackupNameLabel = None"
  shows "get_backups_from_name (get_backup_name b) w = (Ok (of_name (cw_backups w) (get_backup_name b)), w)"
proof -
  have n: "get_backup_name b = bk_name b" using assms(5) by (simp add: get_backup_name_def)
  have plain: "map_of (bk_labels a) InstanceBackupNameLabel = None"
    if "a \<in> set (cw_backups w)" "get_backup_name a = get_backup_name b" for a
    using that assms(2,4,5) unfolding labelled_alike_def by metis
  have none: "filter (\<lambda>a. map_of (bk_labels a) InstanceBackupNameLabel = Some (get_backup_name b)) (cw_backups w) = []"
    unfolding filter_empty_conv
  proof (intro ballI notI)
    fix x assume x: "x \<in> set (cw_backups w)" "map_of (bk_labels x) InstanceBackupNameLabel = Some (get_backup_name b)"
    then have "get_backup_name x = get_backup_name b" by (simp add: get_backup_name_def)
    from plain [OF x(1) this] x(2) show False by simp
  qed
  have "of_name (cw_backups w) (get_backup_name b) = [b]"
  proof (rule distinct_of_name [OF assms(3,4)], intro ballI iffI)
    fix a assume a: "a \<in> set (cw_backups w)"
    show "bk_name a = bk_name b" if "get_backup_name a = get_backup_name b"
      using plain [OF a that] that n by (simp add: get_backup_name_def)
    show "get_backup_name a = get_backup_name b" if "bk_name a = bk_name b"
    proof -
      have "a = b" using that a assms(3,4) by (metis distinct_map inj_onD)
      then show ?thesis by simp
    qed
  qed
  then show ?thesis using assms(1) none find_backup_distinct [OF assms(3,4)] n
    by (simp add: get_backups_from_name_def bind_def wrap_def gets_def ret_def attempt_def)
qed

text \<open>
  A backup that a listing shows is found again by its name: when no name label is empty, object names
  differ, backups of one name are all labelled or all not, and the server answers, reading the
  backup of the name of any group of the listing gives that very group.
\<close>

theorem listed_backup_is_found_again:
  assumes "faults (cw_kube w) = []" "\<forall>b \<in> set (cw_backups w). named b" "distinct (map bk_name (cw_backups w))"
    and "labelled_alike (cw_backups w)" "g \<in> set (group_backups_by_name (cw_backups w))"
  shows "get_replicated_backup (get_name g) w = (Ok g, w)"
proof -
  note g = in_group [OF assms(2,5)]
  obtain b where b: "b \<in> set (cw_backups w)" "is_replicated b" "get_backup_name b = get_name g" using g(2) by auto
  have "get_backups_from_name (get_name g) w = (Ok (of_name (cw_backups w) (get_name g)), w)"
    using get_backups_of_label [OF assms(1,4) b(1)] get_backups_of_object [OF assms(1,4,3) b(1)] b(3)
    by (cases "map_of (bk_labels b) InstanceBackupNameLabel") simp_all
  moreover have "group_backups_by_name (of_name (cw_backups w) (get_name g)) = [g]"
  proof -
    have eq: "filter is_replicated (of_name (cw_backups w) (get_name g)) = g"
      using g(1) by (simp add: of_name_filter)
    have "g \<noteq> []" using g of_name_nonempty by metis
    with eq show ?thesis
      using group_of_one_name [of "of_name (cw_backups w) (get_name g)" "get_name g"] assms(2)
      by (auto dest: of_name_members)
  qed
  ultimately show ?thesis by (simp add: get_replicated_backup_def bind_def ret_def)
qed


section \<open>Completion\<close>

lemma completion_from_eq:
  "completion_from t g = (if \<exists>a \<in> set g. bk_completion a = None then 0
     else Max (insert t ((\<lambda>a. the (bk_completion a)) ` set g)))"
proof (induction g arbitrary: t)
  case (Cons a g)
  have swap: "Max (insert (max t c) S) = Max (insert t (insert c S))" if "finite S" for c :: nat and S
    using that by (cases "S = {}") (simp_all add: max.assoc)
  have gt: "(if c > t then c else t) = max t c" for c by (simp add: max_def)
  show ?case
  proof (cases "bk_completion a")
    case (Some c)
    show ?thesis
      using Cons [of "max t c"] swap [of "(\<lambda>a. the (bk_completion a)) ` set g" c] Some
      by (auto simp: gt)
  qed simp
qed simp

section \<open>Samples\<close>

definition sample_backup :: "string \<Rightarrow> string \<Rightarrow> velero_backup" where
  "sample_backup n kind = \<lparr>bk_name = n, bk_labels = [(''replicated.com/backup-name'', ''nightly'')],
     bk_annotations = [(''kots.io/embedded-cluster'', ''true''), (''replicated.com/disaster-recovery-version'', ''1''),
       (''replicated.com/backup-type'', kind), (''replicated.com/backup-count'', ''2'')],
     bk_phase = ''Completed'', bk_start = Some 5, bk_completion = Some 7\<rparr>"

definition sample_backups :: "velero_backup list" where
  "sample_backups = [sample_backup ''nightly-infra'' ''infra'', sample_backup ''nightly-app'' ''app'']"

lemmas backup_label_defs = BackupIsECAnnotation_def InstanceBackupAnnotation_def InstanceBackupVersionAnnotation_def
  InstanceBackupNameLabel_def InstanceBackupTypeAnnotation_def InstanceBackupCountAnnotation_def
  InstanceBackupResoreSpecAnnotation_def

lemma sample_grouped: "group_backups_by_name sample_backups = [sample_backups]"
  by (simp add: group_backups_by_name_def sample_backups_def sample_backup_def is_replicated_def annotation_or_empty_def
      annotation_def is_instance_backup_def get_instance_backup_version_def get_name_def get_backup_name_def backup_label_defs)

lemma sample_named: "\<forall>b \<in> set sample_backups. named b"
  by (simp add: sample_backups_def sample_backup_def named_def backup_label_defs)

theorem grouping_partitions_witness:
  "mset (concat (group_backups_by_name sample_backups)) = mset (filter is_replicated sample_backups)"
  using grouping_partitions [OF sample_named] by (rule conjunct1)

theorem listed_backup_is_found_again_witness:
  "get_replicated_backup (get_name sample_backups) (sample_world\<lparr>cw_backups := sample_backups\<rparr>) =
    (Ok sample_backups, sample_world\<lparr>cw_backups := sample_backups\<rparr>)"
proof (rule listed_backup_is_found_again)
  show "\<forall>b \<in> set (cw_backups (sample_world\<lparr>cw_backups := sample_backups\<rparr>)). named b" using sample_named by simp
  show "distinct (map bk_name (cw_backups (sample_world\<lparr>cw_backups := sample_backups\<rparr>)))"
    by (simp add: sample_backups_def sample_backup_def)
  show "labelled_alike (cw_backups (sample_world\<lparr>cw_backups := sample_backups\<rparr>))"
    by (simp add: labelled_alike_def sample_backups_def sample_backup_def backup_label_defs)
  show "sample_backups \<in> set (group_backups_by_name (cw_backups (sample_world\<lparr>cw_backups := sample_backups\<rparr>)))"
    by (simp add: sample_grouped)
qed (simp add: sample_world_def sample_kube_def)

end
