(* ===== verification/Install.thy ===== *)
theory Install
  imports Cli UpgradeK0s
begin

text \<open>
  Installing the first node (\<^verbatim>\<open>cmd/installer/cli/install.go\<close>, \<^verbatim>\<open>cidr.go\<close>, \<^verbatim>\<open>proxy.go\<close>,
  \<^verbatim>\<open>preflights.go\<close>, \<^verbatim>\<open>install_runpreflights.go\<close>): what the flags become, the checks and questions before
  anything changes, and the order of the steps that change the host and the cluster.

  \<open>install_env\<close> is what the program finds outside: the release and the configuration in its binary,
  the environment, the network, and the files it reads, by path. Parsing a license, a bundle or a
  configuration is that file's parameter. What a step on the host changes is the parameter \<open>E\<close> of
  \<open>host_step\<close>. \<open>ErrNotALicenseFile\<close> is an error of the validation class.
\<close>

section \<open>Data\<close>

record cidr_config =
  cc_pod :: string
  cc_service :: string
  cc_global :: "string option"

record binary_release =
  br_app_slug :: string
  br_channel_id :: string
  br_channel_slug :: string
  br_version_label :: string
  br_airgap :: bool
  br_domains :: domains

record license_channel =
  lc_id :: string
  lc_slug :: string

record kots_license =
  kl_id :: string
  kl_app_slug :: string
  kl_channels :: "license_channel list"
  kl_channel_id :: string
  kl_channel_name :: string
  kl_expires_at :: "string option"
  kl_download_enabled :: bool
  kl_dr_supported :: bool
  kl_multi_node :: bool

record airgap_info =
  ai_app_slug :: string
  ai_channel_id :: string
  ai_version_label :: string
  ai_uncompressed_size :: "64 word"

record airgap_metadata =
  am_info :: "airgap_info option"
  am_k0s_image_size :: "64 word"

record cli_flags =
  fl_admin_console_password :: string
  fl_admin_console_port :: int
  fl_airgap_bundle :: string
  fl_license_file :: string
  fl_assume_yes :: bool
  fl_overrides :: string
  fl_config_values :: string
  fl_data_dir :: string
  fl_lam_port :: int
  fl_skip_host_preflights :: bool
  fl_ignore_host_preflights :: bool
  fl_ignore_app_preflights :: bool
  fl_disable_fs_check :: bool
  fl_network_interface :: string
  fl_cidr :: "cidr_config option"
  fl_proxy :: "proxy_spec option"
  fl_target :: string
  fl_manager_port :: int
  fl_tls_cert :: string
  fl_tls_key :: string
  fl_hostname :: string

record install_config =
  ic_cluster_id :: string
  ic_is_airgap :: bool
  ic_license_bytes :: string
  ic_license :: "kots_license option"
  ic_airgap :: "airgap_metadata option"
  ic_assets_size :: "64 word"
  ic_end_user :: "config_spec option"
  ic_tls_cert_bytes :: string
  ic_tls_key_bytes :: string
  ic_config_values :: "string option"

text \<open>The parsed command line: which flags were given, and the value of each text flag.\<close>

record cmd_line =
  cmd_changed :: "string list"
  cmd_string :: "string \<Rightarrow> string"
  cmd_has :: "string \<Rightarrow> bool"

record install_env =
  ie_release :: "binary_release option"
  ie_embedded_config :: "config_spec option"
  ie_app_slug :: string
  ie_getenv :: "string \<Rightarrow> string"
  ie_netlib :: netlib
  ie_interfaces :: "netif list outcome"
  ie_chosen_ip :: "ip option outcome"
  ie_public_ip :: string
  ie_hostname :: "string outcome"
  ie_is_root :: bool
  ie_uuid :: string
  ie_now :: nat
  ie_stamp :: string
  ie_app_url :: string
  ie_version :: string
  ie_float :: "int \<Rightarrow> int"
  ie_read_file :: "string \<Rightarrow> string outcome"
  ie_abs :: "string \<Rightarrow> string outcome"
  ie_parse_license :: "string \<Rightarrow> kots_license outcome"
  ie_validate_config_values :: "string \<Rightarrow> unit outcome"
  ie_parse_config_values :: "string \<Rightarrow> string outcome"
  ie_airgap_metadata :: "string \<Rightarrow> airgap_metadata outcome"
  ie_assets_size :: "(64 word) outcome"
  ie_end_user_config :: "string \<Rightarrow> config_spec option outcome"
  ie_key_pair :: "string \<Rightarrow> string \<Rightarrow> unit outcome"
  ie_ca_bundle :: "string outcome"
  ie_parse_time :: "string \<Rightarrow> nat outcome"
  ie_latest_label :: "kots_license \<Rightarrow> string \<Rightarrow> string outcome"
  ie_parse_yaml :: "string \<Rightarrow> unit outcome"
  ie_iptables :: "err + string"
  ie_preflights :: "runtime_config_spec \<Rightarrow> string \<Rightarrow> string \<Rightarrow> bool outcome"
  ie_preflight_output :: "(nat \<times> nat) outcome"
  ie_crds :: "crd outcome list"
  ie_metadata :: "string outcome"
  ie_arrange_charts :: "chart list \<Rightarrow> chart list"
  ie_upgrade_lib :: upgrade_lib

section \<open>From flags to the runtime configuration\<close>

definition validate_cidr_flags :: "install_env \<Rightarrow> cmd_line \<Rightarrow> unit outcome" where
  "validate_cidr_flags V c =
     (if ''cidr'' \<in> set (cmd_changed c) \<and> (''pod-cidr'' \<in> set (cmd_changed c) \<or> ''service-cidr'' \<in> set (cmd_changed c))
      then Err (EMsg ''--cidr can't be used with --pod-cidr or --service-cidr'')
      else config_validate_cidr (ie_netlib V) (cmd_string c ''cidr''))"

definition get_cidr_config :: "install_env \<Rightarrow> cmd_line \<Rightarrow> cidr_config outcome" where
  "get_cidr_config V c =
     (if ''pod-cidr'' \<in> set (cmd_changed c) \<or> ''service-cidr'' \<in> set (cmd_changed c)
      then Ok \<lparr>cc_pod = cmd_string c ''pod-cidr'', cc_service = cmd_string c ''service-cidr'', cc_global = None\<rparr>
      else bindO (wrapO ''unable to split cidr flag'' (config_split_cidr (ie_netlib V) (cmd_string c ''cidr''))) (\<lambda>(pod, service).
        Ok \<lparr>cc_pod = pod, cc_service = service, cc_global = Some (cmd_string c ''cidr'')\<rparr>))"

definition cidr_config_from_cmd :: "install_env \<Rightarrow> cmd_line \<Rightarrow> cidr_config outcome" where
  "cidr_config_from_cmd V c = bindO (validate_cidr_flags V c) (\<lambda>_.
     wrapO ''failed to determine pod and service CIDRs'' (get_cidr_config V c))"

definition cmd_proxy_spec :: "install_env \<Rightarrow> cmd_line \<Rightarrow> string \<Rightarrow> cidr_config \<Rightarrow> proxy_spec option outcome" where
  "cmd_proxy_spec V c nic cidr = wrapO ''unable to get proxy spec''
     (get_proxy_spec (ie_netlib V) (ie_getenv V) (first_valid_ip_net (ie_interfaces V))
       (cmd_string c ''http-proxy'') (cmd_string c ''https-proxy'') (cmd_string c ''no-proxy'')
       (cc_pod cidr) (cc_service cidr) nic)"

text \<open>The proxy variables the program then sets for itself are \<open>set_proxy_env\<close>.\<close>

definition parse_proxy_flags :: "install_env \<Rightarrow> cmd_line \<Rightarrow> string \<Rightarrow> cidr_config \<Rightarrow> proxy_spec option outcome" where
  "parse_proxy_flags V c nic cidr = wrapO ''unable to get proxy spec from flags'' (cmd_proxy_spec V c nic cidr)"

definition env_true :: "(string \<Rightarrow> string) \<Rightarrow> string \<Rightarrow> bool" where
  "env_true getenv k \<longleftrightarrow> getenv k = ''1'' \<or> getenv k = ''true''"

text \<open>The target is always \<open>linux\<close> when it is validated, so that check has no branch here.\<close>

definition build_install_flags :: "install_env \<Rightarrow> cmd_line \<Rightarrow> cli_flags \<Rightarrow> cli_flags outcome" where
  "build_install_flags V c f0 =
     (let f = f0\<lparr>fl_target := ''linux''\<rparr> in
      if (fl_tls_cert f = []) \<noteq> (fl_tls_key f = []) then Err (EMsg ''both --tls-cert and --tls-key must be provided together'')
      else
        let f = (if ''skip-host-preflights'' \<notin> set (cmd_changed c) \<and> env_true (ie_getenv V) ''SKIP_HOST_PREFLIGHTS''
                 then f\<lparr>fl_skip_host_preflights := True\<rparr> else f);
            f = (if ''disable-filesystem-performance-check'' \<notin> set (cmd_changed c) \<and>
                    env_true (ie_getenv V) ''DISABLE_FILESYSTEM_PERFORMANCE_CHECK''
                 then f\<lparr>fl_disable_fs_check := True\<rparr> else f);
            f = (if fl_network_interface f = []
                 then (case determine_best_network_interface (ie_netlib V) (ie_chosen_ip V) (ie_interfaces V) of
                         Ok nic \<Rightarrow> f\<lparr>fl_network_interface := nic\<rparr> | _ \<Rightarrow> f)
                 else f)
        in if fl_manager_port f \<noteq> 0 \<and> fl_admin_console_port f \<noteq> 0 \<and> fl_manager_port f = fl_admin_console_port f
           then Err (EMsg ''manager port cannot be the same as admin console port'')
           else if fl_lam_port f \<noteq> 0 \<and> fl_admin_console_port f \<noteq> 0 \<and> fl_lam_port f = fl_admin_console_port f
           then Err (EMsg ''local artifact mirror port cannot be the same as admin console port'')
           else bindO (cidr_config_from_cmd V c) (\<lambda>cidr.
                bindO (parse_proxy_flags V c (fl_network_interface f) cidr) (\<lambda>proxy.
                Ok (f\<lparr>fl_cidr := Some cidr, fl_proxy := proxy\<rparr>))))"

definition process_tls_config :: "install_env \<Rightarrow> cli_flags \<Rightarrow> (string \<times> string) outcome" where
  "process_tls_config V f = (if fl_tls_cert f \<noteq> [] \<and> fl_tls_key f \<noteq> [] then
       bindO (wrapO ''failed to read TLS certificate'' (ie_read_file V (fl_tls_cert f))) (\<lambda>cert.
       bindO (wrapO ''failed to read TLS key'' (ie_read_file V (fl_tls_key f))) (\<lambda>key.
       bindO (wrapO ''failed to parse TLS certificate'' (ie_key_pair V cert key)) (\<lambda>_. Ok (cert, key))))
     else Ok ([], []))"

definition build_install_config :: "install_env \<Rightarrow> cli_flags \<Rightarrow> install_config outcome" where
  "build_install_config V f =
     bindO (if fl_license_file f \<noteq> [] then
         bindO (wrapO ''failed to read license file'' (ie_read_file V (fl_license_file f))) (\<lambda>b.
         (case ie_parse_license V b of
            Ok l \<Rightarrow> Ok (b, Some l)
          | Err e \<Rightarrow> Err (EWrap (if is_validation e
              then ''failed to parse the license file at '' @ quote_str (fl_license_file f) @ '', please ensure it is not corrupt''
              else ''failed to parse license file'') e)
          | Panic p \<Rightarrow> Panic p))
       else Ok ([], None)) (\<lambda>(bytes, license).
     bindO (if fl_config_values f \<noteq> [] then
         bindO (wrapO ''config values file is not valid'' (ie_validate_config_values V (fl_config_values f))) (\<lambda>_.
         bindO (wrapO ''failed to parse config values file'' (ie_parse_config_values V (fl_config_values f))) (\<lambda>cv. Ok (Some cv)))
       else Ok None) (\<lambda>config_vals.
     bindO (if fl_airgap_bundle f \<noteq> [] then
         bindO (wrapO ''failed to get airgap info'' (ie_airgap_metadata V (fl_airgap_bundle f))) (\<lambda>m. Ok (Some m))
       else Ok None) (\<lambda>airgap.
     bindO (wrapO ''failed to get size of embedded files'' (ie_assets_size V)) (\<lambda>size.
     bindO (wrapO ''process overrides file'' (ie_end_user_config V (fl_overrides f))) (\<lambda>eu.
     bindO (wrapO ''process TLS config'' (process_tls_config V f)) (\<lambda>(cert, key).
     Ok \<lparr>ic_cluster_id = ie_uuid V, ic_is_airgap = fl_airgap_bundle f \<noteq> [], ic_license_bytes = bytes,
         ic_license = license, ic_airgap = airgap, ic_assets_size = size, ic_end_user = eu,
         ic_tls_cert_bytes = cert, ic_tls_key_bytes = key, ic_config_values = config_vals\<rparr>))))))"

section \<open>The k0s configuration\<close>

definition set_airgap_config :: "k0s_config \<Rightarrow> k0s_config" where
  "set_airgap_config cfg = cfg\<lparr>cfg_images := Some
     ((case cfg_images cfg of None \<Rightarrow> empty_images | Some i \<Rightarrow> i)\<lparr>img_pull_policy := ''Never''\<rparr>)\<rparr>"

definition apply_unsupported_overrides :: "install_env \<Rightarrow> k0s_config \<Rightarrow> config_spec option \<Rightarrow> k0s_config outcome" where
  "apply_unsupported_overrides V cfg eucfg =
     bindO (case ie_embedded_config V of None \<Rightarrow> Ok cfg
            | Some e \<Rightarrow> wrapO ''unable to patch k0s config'' (patch_k0s_config (ul_config (ie_upgrade_lib V)) cfg (overrides_k0s e) False)) (\<lambda>cfg.
     case eucfg of None \<Rightarrow> Ok cfg
     | Some e \<Rightarrow> wrapO ''unable to apply overrides'' (patch_k0s_config (ul_config (ie_upgrade_lib V)) cfg (overrides_k0s e) False))"

definition release_domains :: "install_env \<Rightarrow> config_spec option \<Rightarrow> domains" where
  "release_domains V c = get_domains c (map_option br_domains (ie_release V))"

text \<open>The addresses and networks written over a rendered configuration.\<close>

definition with_addresses :: "string \<Rightarrow> string \<Rightarrow> string \<Rightarrow> k0s_config \<Rightarrow> k0s_config outcome" where
  "with_addresses address pod service cfg =
     bindO (deref (cfg_api cfg)) (\<lambda>api.
     bindO (deref (cfg_etcd_peer cfg)) (\<lambda>_.
     bindO (deref (cfg_network cfg)) (\<lambda>net.
     Ok (cfg\<lparr>cfg_api := Some (api\<lparr>api_address := address\<rparr>), cfg_etcd_peer := Some address,
         cfg_network := Some (net\<lparr>net_pod_cidr := pod, net_service_cidr := service\<rparr>)\<rparr>))))"

text \<open>No caller passes a \<open>mutate\<close> function, which would run before the overrides.\<close>

definition new_k0s_config :: "install_env \<Rightarrow> string \<Rightarrow> bool \<Rightarrow> string \<Rightarrow> string \<Rightarrow> config_spec option \<Rightarrow> k0s_config outcome" where
  "new_k0s_config V nic is_airgap pod service eucfg =
     bindO (render_k0s_config (ul_config (ie_upgrade_lib V)) (proxy_registry_domain (release_domains V (ie_embedded_config V)))) (\<lambda>cfg.
     bindO (wrapO ''unable to find first valid address''
       (first_valid_address (ie_netlib V) (ie_interfaces V) nic)) (\<lambda>address.
     bindO (with_addresses address pod service cfg) (\<lambda>cfg.
     bindO (wrapO ''unable to apply unsupported overrides''
       (apply_unsupported_overrides V (apply_host_overrides (ie_iptables V) cfg) eucfg)) (\<lambda>cfg.
     Ok (if is_airgap then set_airgap_config cfg else cfg)))))"

definition network_spec_from_k0s_config :: "k0s_config \<Rightarrow> network_spec" where
  "network_spec_from_k0s_config cfg =
     (let n = (case cfg_network cfg of None \<Rightarrow> empty_network
            | Some net \<Rightarrow> empty_network\<lparr>pod_cidr := net_pod_cidr net, service_cidr := net_service_cidr net\<rparr>)
      in case Option.bind (cfg_api cfg) (\<lambda>a. map_of (api_extra_args a) ''service-node-port-range'') of
           None \<Rightarrow> n | Some v \<Rightarrow> n\<lparr>node_port_range := v\<rparr>)"

definition build_k0s_config :: "install_env \<Rightarrow> cli_flags \<Rightarrow> install_config \<Rightarrow> k0s_config outcome" where
  "build_k0s_config V f ic = bindO (deref (fl_cidr f)) (\<lambda>cidr.
     new_k0s_config V (fl_network_interface f) (ic_is_airgap ic) (cc_pod cidr) (cc_service cidr) (ic_end_user ic))"

definition build_network_spec :: "install_env \<Rightarrow> cli_flags \<Rightarrow> install_config \<Rightarrow> network_spec outcome" where
  "build_network_spec V f ic =
     bindO (wrapO ''create k0s config'' (build_k0s_config V f ic)) (\<lambda>cfg.
     bindO (deref (fl_cidr f)) (\<lambda>cidr.
     let n = (network_spec_from_k0s_config cfg)\<lparr>network_interface := fl_network_interface f\<rparr>
     in Ok (case cc_global cidr of None \<Rightarrow> n | Some g \<Rightarrow> n\<lparr>global_cidr := g\<rparr>)))"

definition build_runtime_config :: "install_env \<Rightarrow> cli_flags \<Rightarrow> install_config \<Rightarrow> runtime_config_spec \<Rightarrow> runtime_config_spec outcome" where
  "build_runtime_config V f ic rc =
     bindO (wrapO ''find host CA bundle'' (ie_ca_bundle V)) (\<lambda>ca.
     bindO (wrapO ''build network spec'' (build_network_spec V f ic)) (\<lambda>net.
     bindO (wrapO ''construct path for directory'' (ie_abs V (fl_data_dir f))) (\<lambda>dir.
     Ok (rc\<lparr>admin_console_port := fl_admin_console_port f, manager_port := fl_manager_port f, rc_proxy := fl_proxy f,
        data_dir := dir, local_artifact_mirror_port := fl_lam_port f, host_ca_bundle_path := ca, rc_network := net\<rparr>))))"

definition pre_run_install :: "install_env \<Rightarrow> cmd_line \<Rightarrow> cli_flags \<Rightarrow> (cli_world, cli_flags \<times> install_config) call" where
  "pre_run_install V c f0 =
     bind (lift (build_install_flags V c f0)) (\<lambda>f.
     bind (lift (build_install_config V f)) (\<lambda>ic.
     bind (gets cw_rc) (\<lambda>rc.
     bind (wrap ''build runtime config'' (lift (build_runtime_config V f ic rc))) (\<lambda>rc.
     bind (modify (\<lambda>w. w\<lparr>cw_rc := rc\<rparr>)) (\<lambda>_.
     if \<not> ie_is_root V then throw (EWrap ''pre run install linux'' (EMsg ''install command must be run as root''))
     else ret (f, ic))))))"

section \<open>Checks and questions\<close>

definition min_admin_password_length :: nat where "min_admin_password_length = 6"

definition validate_admin_console_password :: "string \<Rightarrow> string \<Rightarrow> bool" where
  "validate_admin_console_password password check \<longleftrightarrow> password = check \<and> length password \<ge> min_admin_password_length"

fun ask_password :: "nat \<Rightarrow> cli_flags \<Rightarrow> (cli_world, cli_flags) call" where
  "ask_password 0 f = throw (ENothingElse ''password is not valid'')"
| "ask_password (Suc n) f =
     bind (wrap ''failed to get password'' input) (\<lambda>a.
     bind (wrap ''failed to get password confirmation'' input) (\<lambda>b.
     if validate_admin_console_password a b then ret (f\<lparr>fl_admin_console_password := a\<rparr>) else ask_password n f))"

definition ensure_admin_console_password :: "cli_flags \<Rightarrow> (cli_world, cli_flags) call" where
  "ensure_admin_console_password f =
     (if fl_admin_console_password f = [] \<and> \<not> fl_assume_yes f then ask_password 3 f
      else
        let f = (if fl_admin_console_password f = [] then f\<lparr>fl_admin_console_password := ''password''\<rparr> else f)
        in if \<not> validate_admin_console_password (fl_admin_console_password f) (fl_admin_console_password f)
           then throw (ENothingElse ''password is not valid'') else ret f)"

definition verify_license_presence :: "kots_license option \<Rightarrow> binary_release option \<Rightarrow> unit outcome" where
  "verify_license_presence license rel = (case (rel, license) of
      (None, None) \<Rightarrow> Ok ()
    | (None, Some _) \<Rightarrow> Err (EMsg ''a license was provided but no release was found in binary, please rerun without the license flag'')
    | (Some r, None) \<Rightarrow> Err (EMsg (''no license was provided for '' @ br_app_slug r @
        '' and one is required, please rerun with '' @ [CHR 0x27] @ ''--license <path to license file>'' @ [CHR 0x27]))
    | (Some _, Some _) \<Rightarrow> Ok ())"

definition allowed_channels :: "kots_license \<Rightarrow> (string \<times> string) list" where
  "allowed_channels l = (if kl_channels l = [] then [(kl_channel_name l, kl_channel_id l)]
     else map (\<lambda>c. (lc_slug c, lc_id c)) (kl_channels l))"

definition check_channel_existence :: "kots_license \<Rightarrow> binary_release \<Rightarrow> unit outcome" where
  "check_channel_existence l r = (if br_channel_id r \<in> snd ` set (allowed_channels l) then Ok ()
     else Err (EMsg (''binary channel '' @ br_channel_id r @ '' ('' @ br_channel_slug r @
       '') not present in license, channels allowed by license are: '' @
       join_str '', '' (map (\<lambda>(name, i). name @ '' ('' @ i @ '')'') (allowed_channels l)))))"

definition verify_license_fields :: "install_env \<Rightarrow> kots_license option \<Rightarrow> binary_release option \<Rightarrow> unit outcome" where
  "verify_license_fields V license rel = (case (rel, license) of
      (Some r, Some l) \<Rightarrow>
        if br_app_slug r \<noteq> kl_app_slug l
        then Err (EMsg (''license app '' @ kl_app_slug l @ '' does not match binary app '' @ br_app_slug r @
               '', please provide the correct license''))
        else bindO (check_channel_existence l r) (\<lambda>_.
             bindO (case kl_expires_at l of None \<Rightarrow> Ok ()
               | Some s \<Rightarrow> if s = [] then Ok ()
                   else bindO (wrapO ''parse expiration date'' (ie_parse_time V s)) (\<lambda>t.
                        if ie_now V > t then Err (EMsg (''license expired on '' @ s @ '', please provide a valid license''))
                        else Ok ())) (\<lambda>_.
             if \<not> kl_download_enabled l
             then Err (EMsg ''license does not have embedded cluster enabled, please provide a valid license'') else Ok ()))
    | _ \<Rightarrow> Ok ())"

definition verify_license :: "install_env \<Rightarrow> kots_license option \<Rightarrow> kots_license option outcome" where
  "verify_license V license =
     bindO (verify_license_presence license (ie_release V)) (\<lambda>_.
     bindO (verify_license_fields V license (ie_release V)) (\<lambda>_. Ok license))"

definition verify_channel_release :: "install_env \<Rightarrow> bool \<Rightarrow> bool \<Rightarrow> (cli_world, unit) call" where
  "verify_channel_release V is_airgap assume_yes = (case ie_release V of
      Some r \<Rightarrow> if br_airgap r \<and> \<not> is_airgap \<and> \<not> assume_yes then
          bind (wrap ''failed to get confirmation'' confirm) (\<lambda>confirmed.
          if \<not> confirmed then throw (ENothingElse ''user aborted: air gap bundle downloaded but flag not provided'') else ret ())
        else ret ()
    | None \<Rightarrow> ret ())"

text \<open>\<open>k0s.IsInstalled\<close>: asking for the file may fail for another reason than its absence.\<close>

definition k0s_is_installed :: "(cli_world, bool) call" where
  "k0s_is_installed = wrap ''unable to check if already installed'' (cli_api (gets (\<lambda>w. cw_k0s_file w \<noteq> None)))"

definition verify_no_installation :: "(cli_world, unit) call" where
  "verify_no_installation = bind k0s_is_installed (\<lambda>installed.
     if installed then throw (ENothingElse ''previous installation detected'') else ret ())"

definition check_airgap_matches :: "install_env \<Rightarrow> airgap_info option \<Rightarrow> unit outcome" where
  "check_airgap_matches V info = (case info of None \<Rightarrow> Err (EMsg ''airgap info is required'')
    | Some i \<Rightarrow> (case ie_release V of
        None \<Rightarrow> Err (EMsg ''airgap bundle provided but no release was found in binary, please rerun without the airgap-bundle flag'')
      | Some r \<Rightarrow>
          if br_app_slug r \<noteq> ai_app_slug i then Err (EMsg (''airgap bundle app '' @ ai_app_slug i @
            '' does not match binary app '' @ br_app_slug r @ '', please provide the correct bundle''))
          else if br_channel_id r \<noteq> ai_channel_id i then Err (EMsg (''airgap bundle channel '' @ ai_channel_id i @
            '' does not match binary channel '' @ br_channel_id r @ '', please provide the correct bundle''))
          else if br_version_label r \<noteq> ai_version_label i then Err (EMsg (''airgap bundle version '' @ ai_version_label i @
            '' does not match binary version '' @ br_version_label r @ '', please provide the correct bundle''))
          else Ok ()))"

text \<open>The version of the newest release of the channel is asked for over the network.\<close>

definition maybe_prompt_for_app_update :: "install_env \<Rightarrow> kots_license option \<Rightarrow> bool \<Rightarrow> (cli_world, unit) call" where
  "maybe_prompt_for_app_update V license assume_yes = (case ie_release V of None \<Rightarrow> ret ()
    | Some r \<Rightarrow> (case license of None \<Rightarrow> throw (EMsg ''license required'')
      | Some l \<Rightarrow>
          bind (wrap ''get current app channel release'' (lift (ie_latest_label V l (br_channel_id r)))) (\<lambda>current.
          if br_version_label r = current then ret ()
          else if assume_yes then ret ()
          else bind (wrap ''failed to get confirmation'' confirm) (\<lambda>confirmed.
               if \<not> confirmed then throw (ENothingElse ''user aborted: app not up-to-date'') else ret ()))))"

definition verify_proxy_config :: "proxy_spec option \<Rightarrow> bool \<Rightarrow> (cli_world, unit) call" where
  "verify_proxy_config p assume_yes = (case p of
      Some q \<Rightarrow> if http_proxy q \<noteq> [] \<and> https_proxy q = [] \<and> \<not> assume_yes then
          bind (wrap ''failed to confirm proxy settings'' confirm) (\<lambda>confirmed.
          if \<not> confirmed then throw (ENothingElse ''user aborted: HTTP proxy configured without HTTPS proxy'') else ret ())
        else ret ()
    | None \<Rightarrow> ret ())"

fun validate_chart_values :: "install_env \<Rightarrow> chart list \<Rightarrow> unit outcome" where
  "validate_chart_values V [] = Ok ()"
| "validate_chart_values V (c # cs) =
     bindO (wrapO (''failed to parse helm chart values for addon '' @ chart_release c @ '' as yaml'')
       (ie_parse_yaml V (chart_values c))) (\<lambda>_. validate_chart_values V cs)"

definition validate_ec_config :: "install_env \<Rightarrow> unit outcome" where
  "validate_ec_config V = (case Option.bind (ie_embedded_config V) ext_helm of None \<Rightarrow> Ok ()
     | Some h \<Rightarrow> validate_chart_values V (helm_charts h))"

definition airgap_info_of :: "install_config \<Rightarrow> airgap_info option" where
  "airgap_info_of ic = Option.bind (ic_airgap ic) am_info"

definition update_question :: "install_env \<Rightarrow> install_config \<Rightarrow> cli_flags \<Rightarrow> kots_license option \<Rightarrow> (cli_world, unit) call" where
  "update_question V ic f license =
     (if ic_is_airgap ic then ret ()
      else bind (attempt (maybe_prompt_for_app_update V license (fl_assume_yes f))) (\<lambda>r. case r of
             Inr u \<Rightarrow> ret u
           | Inl e \<Rightarrow> if is_nothing_else e then throw e else ret ()))"

definition verify_and_prompt :: "install_env \<Rightarrow> cmd_line \<Rightarrow> cli_flags \<Rightarrow> install_config \<Rightarrow>
    (cli_world, cli_flags \<times> install_config) call" where
  "verify_and_prompt V c f ic =
     bind verify_no_installation (\<lambda>_.
     bind (verify_channel_release V (ic_is_airgap ic) (fl_assume_yes f)) (\<lambda>_.
     bind (lift (verify_license V (ic_license ic))) (\<lambda>license.
     bind (if airgap_info_of ic \<noteq> None then lift (check_airgap_matches V (airgap_info_of ic)) else ret ()) (\<lambda>_.
     bind (update_question V ic f license) (\<lambda>_.
     bind (lift (validate_ec_config V)) (\<lambda>_.
     bind (verify_proxy_config (fl_proxy f) (fl_assume_yes f)) (\<lambda>_.
     bind (if cmd_has c ''admin-console-password'' then ensure_admin_console_password f else ret f) (\<lambda>f.
     ret (f, ic\<lparr>ic_license := license\<rparr>)))))))))"

section \<open>Host preflights\<close>

text \<open>
  \<open>math.Ceil\<close> of a quotient of \<open>float64(requiredBytes)\<close> by a power of two, which is exact; the
  conversion to a float is the parameter \<open>fl\<close>, exact up to \<open>2 ^ 53\<close>. The sums wrap as Go's do.
\<close>

definition ceil_div :: "int \<Rightarrow> int \<Rightarrow> int" where
  "ceil_div a b = - ((- a) div b)"

definition airgap_required_bytes :: "64 word \<Rightarrow> 64 word \<Rightarrow> 64 word \<Rightarrow> bool \<Rightarrow> 64 word" where
  "airgap_required_bytes uncompressed assets k0s_image is_controller =
     (if is_controller then uncompressed * 2 else k0s_image) + assets"

definition calculate_airgap_storage_space :: "(int \<Rightarrow> int) \<Rightarrow> 64 word \<Rightarrow> 64 word \<Rightarrow> 64 word \<Rightarrow> bool \<Rightarrow> string" where
  "calculate_airgap_storage_space fl uncompressed assets k0s_image is_controller =
     (let n = sint (airgap_required_bytes uncompressed assets k0s_image is_controller)
      in if n \<ge> 2 ^ 30 then show_int (ceil_div (fl n) (2 ^ 30)) @ ''Gi''
         else show_int (ceil_div (fl n) (2 ^ 20)) @ ''Mi'')"

definition preflight_summary :: "nat \<Rightarrow> string" where
  "preflight_summary n = (if n = 1 then ''preflight'' else ''preflights'')"

text \<open>
  The preflight binary's result is the numbers of failed and of warned checks; an analysis without
  collectors and analyzers (\<open>checks\<close> is False) is not run. Reports to the metrics server are left out.
\<close>

definition run_host_preflights :: "install_env \<Rightarrow> bool \<Rightarrow> bool \<Rightarrow> bool \<Rightarrow> bool \<Rightarrow> (cli_world, unit) call" where
  "run_host_preflights V checks skip_host ignore_host assume_yes =
     (if \<not> checks then ret ()
      else if skip_host then ret ()
      else bind (wrap ''host preflights failed to run'' (lift (ie_preflight_output V))) (\<lambda>(failed, warned).
        if failed > 0 then
          (if ignore_host then
             (if assume_yes then ret ()
              else bind (wrap ''failed to get confirmation'' confirm) (\<lambda>confirmed.
                   if confirmed then ret () else throw (EPreflightsFail ''cli'')))
           else throw (EPreflightsFail ''cli''))
        else if warned > 0 then
          (if assume_yes then ret ()
           else bind (wrap ''failed to get confirmation'' confirm) (\<lambda>confirmed.
                if \<not> confirmed then throw (EPreflightsFail ''cli'') else ret ()))
        else ret ()))"

definition controller_storage :: "install_env \<Rightarrow> install_config \<Rightarrow> string" where
  "controller_storage V ic = (case ic_airgap ic of
      Some m \<Rightarrow> (case am_info m of
          Some i \<Rightarrow> calculate_airgap_storage_space (ie_float V) (ai_uncompressed_size i) (ic_assets_size ic) (am_k0s_image_size m) True
        | None \<Rightarrow> [])
    | None \<Rightarrow> [])"

text \<open>\<open>PrepareHostPreflights\<close> fills a template with the settings; whether checks result is its parameter.\<close>

definition run_install_preflights :: "install_env \<Rightarrow> cli_flags \<Rightarrow> install_config \<Rightarrow> (cli_world, unit) call" where
  "run_install_preflights V f ic =
     bind (gets cw_rc) (\<lambda>rc.
     bind (wrap ''unable to find first valid address'' (lift (first_valid_address (ie_netlib V) (ie_interfaces V)
       (network_interface (rc_network rc))))) (\<lambda>node_ip.
     bind (lift (ie_preflights V rc node_ip (controller_storage V ic))) (\<lambda>checks.
     run_host_preflights V checks (fl_skip_host_preflights f) (fl_ignore_host_preflights f) (fl_assume_yes f))))"

text \<open>The error the commands make of it: the class they test for is the one of the other package.\<close>

definition checked_preflights :: "string \<Rightarrow> (cli_world, unit) call \<Rightarrow> (cli_world, unit) call" where
  "checked_preflights context m = bind (attempt m) (\<lambda>r. case r of
      Inr u \<Rightarrow> ret u
    | Inl e \<Rightarrow> if is_preflights_fail ''preflights'' e then throw (ENothingElse (err_text e)) else throw (EWrap context e))"

section \<open>Installing the cluster\<close>

definition write_k0s_config :: "k0s_config \<Rightarrow> (cli_world, unit) call" where
  "write_k0s_config cfg = bind (gets cw_k0s_file) (\<lambda>old.
     if old \<noteq> None then throw (EMsg ''configuration file already exists'')
     else cli_api (modify (\<lambda>w. w\<lparr>cw_k0s_file := Some cfg\<rparr>)))"

text \<open>The text of the configuration file, which the flags of the worker profile are read from.\<close>

definition k0s_file_text :: "install_env \<Rightarrow> cli_world \<Rightarrow> string outcome" where
  "k0s_file_text V w = (case cw_k0s_file w of
      None \<Rightarrow> Err (ENotExist ''/etc/k0s/k0s.yaml'') | Some cfg \<Rightarrow> kc_marshal (ul_config (ie_upgrade_lib V)) cfg)"

definition k0s_install :: "(string \<Rightarrow> cli_world \<Rightarrow> cli_world) \<Rightarrow> install_env \<Rightarrow> string \<Rightarrow> (cli_world, unit) call" where
  "k0s_install E V hostname =
     bind (wrap ''unable to move k0s binary'' (host_step E ''mv k0s /usr/local/bin/k0s'')) (\<lambda>_.
     bind (gets cw_rc) (\<lambda>rc.
     bind (wrap ''unable to find first valid address'' (lift (first_valid_address (ie_netlib V) (ie_interfaces V)
       (network_interface (rc_network rc))))) (\<lambda>node_ip.
     bind (gets (k0s_file_text V)) (\<lambda>file.
     bind (wrap ''unable to get install flags''
       (lift (install_flags (ul_config (ie_upgrade_lib V)) (ie_embedded_config V) file rc node_ip hostname))) (\<lambda>flags.
     bind (wrap ''unable to install'' (host_step E (join_str '' '' (''/usr/local/bin/k0s'' # flags)))) (\<lambda>_.
     wrap ''unable to start'' (host_step E ''/usr/local/bin/k0s start'')))))))"

definition wait_for_this_node :: "'v lib \<Rightarrow> install_env \<Rightarrow> (cli_world, unit) call" where
  "wait_for_this_node L V =
     bind (wrap ''create kube client'' kube_client) (\<lambda>_.
     bind (wrap ''get hostname'' (lift (ie_hostname V))) (\<lambda>n.
     wrap ''wait for node'' (on_kube (wait_for_node L n False))))"

definition install_and_start_cluster :: "'v lib \<Rightarrow> (string \<Rightarrow> cli_world \<Rightarrow> cli_world) \<Rightarrow> install_env \<Rightarrow> cli_flags \<Rightarrow>
    install_config \<Rightarrow> (cli_world, k0s_config) call" where
  "install_and_start_cluster L E V f ic =
     bind (wrap ''failed to detect hostname'' (lift (ie_hostname V))) (\<lambda>hostname.
     bind (wrap ''unable to build k0s config'' (lift (build_k0s_config V f ic))) (\<lambda>cfg.
     bind (wrap ''create config file'' (write_k0s_config cfg)) (\<lambda>_.
     bind (wrap ''create systemd unit files'' (host_step E ''create systemd unit files'')) (\<lambda>_.
     bind (wrap ''install cluster'' (k0s_install E V hostname)) (\<lambda>_.
     bind (wrap ''wait for k0s'' (host_step E ''wait for k0s'')) (\<lambda>_.
     bind (wrap ''wait for node'' (wait_for_this_node L V)) (\<lambda>_.
     ret cfg)))))))"

definition cli_addons :: "install_env \<Rightarrow> domains \<Rightarrow> bool \<Rightarrow> addons" where
  "cli_addons V d progress = \<lparr>ads_lib = ul_addons (ie_upgrade_lib V), ads_domains = d, ads_progress = progress\<rparr>"

definition KotsadmNamespace :: string where "KotsadmNamespace = ''kotsadm''"

definition build_addon_install_opts :: "install_env \<Rightarrow> cli_flags \<Rightarrow> install_config \<Rightarrow> runtime_config_spec \<Rightarrow> string \<Rightarrow>
    install_options outcome" where
  "build_addon_install_opts V f ic rc ns = bindO (deref (ic_license ic)) (\<lambda>l. Ok
     \<lparr>ins_admin_console_pwd = fl_admin_console_password f, ins_admin_console_port = rc_admin_console_port rc,
      ins_is_airgap = fl_airgap_bundle f \<noteq> [], ins_tls_cert = ic_tls_cert_bytes ic, ins_tls_key = ic_tls_key_bytes ic,
      ins_hostname = fl_hostname f, ins_is_multi_node = kl_multi_node l, ins_embedded_config = ie_embedded_config V,
      ins_end_user_config = ic_end_user ic, ins_kots_installer = True, ins_proxy = rc_proxy rc,
      ins_cluster_id = ic_cluster_id ic, ins_disaster_recovery = kl_dr_supported l,
      ins_host_ca_path = host_ca_bundle_path rc, ins_kotsadm_ns = ns, ins_data_dir = ec_home_directory rc,
      ins_k0s_dir = ec_k0s_sub_dir rc, ins_openebs_dir = ec_openebs_local_sub_dir rc,
      ins_service_cidr = service_cidr (rc_network rc)\<rparr>)"

definition install_addons :: "install_env \<Rightarrow> cli_flags \<Rightarrow> install_config \<Rightarrow> (cli_world, unit) call" where
  "install_addons V f ic =
     bind (gets cw_rc) (\<lambda>rc.
     bind (lift (build_addon_install_opts V f ic rc KotsadmNamespace)) (\<lambda>opts.
     wrap ''install addons'' (on_kube (addons_install
       (cli_addons V (release_domains V (ie_embedded_config V)) True) opts))))"

definition install_cli_extensions :: "install_env \<Rightarrow> bool \<Rightarrow> (cli_world, unit) call" where
  "install_cli_extensions V is_airgap = wrap ''failed to install extensions'' (on_kube
     (install_extensions (ul_unmarshal_values (ie_upgrade_lib V)) (ie_arrange_charts V)
       (Option.bind (ie_embedded_config V) ext_helm) True is_airgap))"

definition build_record_installation_options :: "install_env \<Rightarrow> install_config \<Rightarrow> runtime_config_spec \<Rightarrow> record_options outcome" where
  "build_record_installation_options V ic rc = bindO (deref (ic_license ic)) (\<lambda>l. Ok
     \<lparr>ro_cluster_id = ic_cluster_id ic, ro_is_airgap = ic_is_airgap ic,
      ro_is_dr_supported = kl_dr_supported l, ro_is_multi_node_enabled = kl_multi_node l,
      ro_config_spec = ie_embedded_config V, ro_metrics_base_url = ie_app_url V, ro_runtime_config = Some rc,
      ro_end_user_k0s = map_option overrides_k0s (ic_end_user ic),
      ro_airgap_uncompressed_size = (case airgap_info_of ic of None \<Rightarrow> 0 | Some i \<Rightarrow> ai_uncompressed_size i),
      ro_k0s_image_size = 0\<rparr>)"

definition create_version_metadata_configmap :: "install_env \<Rightarrow> (kube, unit) call" where
  "create_version_metadata_configmap V =
     bind (lift (ie_metadata V)) (\<lambda>d.
     wrap ''create version metadata config map'' (create_in config_maps config_maps_update
       (local_version_metadata_configmap (ie_upgrade_lib V) (ie_version V))
       \<lparr>cm_annotations = [], cm_data = [(''metadata.json'', d)]\<rparr>))"

text \<open>The in-cluster registry, for which only an air gap installation configures containerd.\<close>

definition setup_registry :: "(string \<Rightarrow> cli_world \<Rightarrow> cli_world) \<Rightarrow> install_env \<Rightarrow> (cli_world, unit) call" where
  "setup_registry E V = bind (gets cw_rc) (\<lambda>rc.
     bind (wrap ''failed to get registry cluster IP'' (lift (get_registry_cluster_ip (ie_netlib V) (service_cidr (rc_network rc))))) (\<lambda>ip.
     wrap ''failed to add insecure registry'' (host_step E (''add insecure registry '' @ ip @ '':5000''))))"

definition initialize_install :: "(string \<Rightarrow> cli_world \<Rightarrow> cli_world) \<Rightarrow> (cli_world, unit) call" where
  "initialize_install E = wrap ''configure host'' (host_step E ''configure host'')"

text \<open>
  What follows the start of the cluster. The wait for Kubernetes runs beside it and only logs; making a
  helm client is a call that may fail.
\<close>

definition populate_cluster :: "'v lib \<Rightarrow> (string \<Rightarrow> cli_world \<Rightarrow> cli_world) \<Rightarrow> install_env \<Rightarrow> cli_flags \<Rightarrow>
    install_config \<Rightarrow> (cli_world, unit) call" where
  "populate_cluster L E V f ic =
     bind (wrap ''failed to create kube client'' kube_client) (\<lambda>_.
     bind (wrap ''failed to create metadata client'' kube_client) (\<lambda>_.
     bind (gets cw_rc) (\<lambda>rc.
     bind (lift (build_record_installation_options V ic rc)) (\<lambda>opts.
     bind (wrap ''record installation'' (on_kube (record_installation L (ie_crds V) (ie_stamp V) (ie_app_slug V) opts))) (\<lambda>i.
     bind (wrap ''failed to create version metadata configmap'' (on_kube (create_version_metadata_configmap V))) (\<lambda>_.
     bind (if ic_is_airgap ic then setup_registry E V else ret ()) (\<lambda>_.
     bind (wrap ''failed to create helm client'' (cli_api (ret ()))) (\<lambda>_.
     bind (install_addons V f ic) (\<lambda>_.
     bind (wrap ''failed to install extensions'' (install_cli_extensions V (ic_is_airgap ic))) (\<lambda>_.
     bind (wrap ''failed to update installation'' (on_kube (set_installation_state L i InstallationStateInstalled ''Installed'' []))) (\<lambda>_.
     bind (attempt (on_kube (create_host_support_bundle (ie_upgrade_lib V)))) (\<lambda>_. ret ()))))))))))))"

definition run_install :: "'v lib \<Rightarrow> (string \<Rightarrow> cli_world \<Rightarrow> cli_world) \<Rightarrow> install_env \<Rightarrow> cli_flags \<Rightarrow>
    install_config \<Rightarrow> (cli_world, unit) call" where
  "run_install L E V f ic =
     bind (wrap ''failed to initialize install'' (initialize_install E)) (\<lambda>_.
     bind (checked_preflights ''failed to run install preflights'' (run_install_preflights V f ic)) (\<lambda>_.
     bind (wrap ''failed to install cluster'' (install_and_start_cluster L E V f ic)) (\<lambda>_.
     populate_cluster L E V f ic)))"

text \<open>The command: everything it checks first, then the installation.\<close>

definition install_cmd :: "'v lib \<Rightarrow> (string \<Rightarrow> cli_world \<Rightarrow> cli_world) \<Rightarrow> install_env \<Rightarrow> cmd_line \<Rightarrow> cli_flags \<Rightarrow>
    (cli_world, unit) call" where
  "install_cmd L E V c f0 =
     bind (pre_run_install V c f0) (\<lambda>(f, ic).
     bind (verify_and_prompt V c f ic) (\<lambda>(f, ic).
     run_install L E V f ic))"

definition get_admin_console_url :: "install_env \<Rightarrow> string \<Rightarrow> string \<Rightarrow> int \<Rightarrow> string" where
  "get_admin_console_url V hostname nic port =
     (let url = (\<lambda>h. ''http://'' @ h @ '':'' @ show_int port) in
      if hostname \<noteq> [] then url hostname
      else if ie_public_ip V \<noteq> [] then url (ie_public_ip V)
      else if ie_getenv V ''EC_PUBLIC_ADDRESS'' \<noteq> [] then url (ie_getenv V ''EC_PUBLIC_ADDRESS'')
      else url (case first_valid_address (ie_netlib V) (ie_interfaces V) nic of Ok a \<Rightarrow> a | _ \<Rightarrow> ''NODE-IP-ADDRESS''))"

section \<open>Nothing is changed before every check has passed\<close>

lemma keeps_pre_run_install: "keeps only_asks (pre_run_install V c f)"
  unfolding pre_run_install_def
  by (intro ask.cli_rules ask.keeps_modify) (simp add: only_asks_def fo.frame_refl)

lemma keeps_ask_password: "keeps only_asks (ask_password n f)"
  by (induction n) (auto intro!: ask.cli_rules keeps_prompts)

lemma keeps_verify_and_prompt: "keeps only_asks (verify_and_prompt V c f ic)"
  unfolding verify_and_prompt_def verify_no_installation_def k0s_is_installed_def verify_channel_release_def update_question_def
    maybe_prompt_for_app_update_def verify_proxy_config_def ensure_admin_console_password_def Let_def
  by (intro ask.cli_rules keeps_prompts keeps_ask_password)

lemma k0s_is_installed_Ok: "k0s_is_installed w = (Ok b, w') \<Longrightarrow> b = (cw_k0s_file w \<noteq> None)"
  unfolding k0s_is_installed_def wrap_Ok_iff by (erule cli_api_Ok) auto

lemma verify_license_same: "verify_license V l = Ok l' \<Longrightarrow> l' = l"
  by (auto simp: verify_license_def)

definition asks_bundle :: "install_env \<Rightarrow> cli_flags \<Rightarrow> install_config \<Rightarrow> bool" where
  "asks_bundle V f ic \<longleftrightarrow> (\<exists>r. ie_release V = Some r \<and> br_airgap r) \<and> \<not> ic_is_airgap ic \<and> \<not> fl_assume_yes f"

definition asks_proxy :: "cli_flags \<Rightarrow> bool" where
  "asks_proxy f \<longleftrightarrow> (\<exists>p. fl_proxy f = Some p \<and> http_proxy p \<noteq> [] \<and> https_proxy p = []) \<and> \<not> fl_assume_yes f"

text \<open>\<open>agrees k\<close>: at least \<open>k\<close> questions were answered with yes; nothing else happened.\<close>

definition agrees :: "nat \<Rightarrow> cli_world \<Rightarrow> cli_world \<Rightarrow> bool" where
  "agrees k w w' \<longleftrightarrow> only_asks w w' \<and> cw_rc w' = cw_rc w \<and>
     (\<exists>used. cw_confirms w = used @ cw_confirms w' \<and> k \<le> count_list used (Inr True))"

lemma agrees_trans:
  assumes "agrees a u v" "agrees b v w"
  shows "agrees (a + b) u w"
proof -
  from assms obtain p q where u: "cw_confirms u = p @ cw_confirms v" "a \<le> count_list p (Inr True)"
    and v: "cw_confirms v = q @ cw_confirms w" "b \<le> count_list q (Inr True)" unfolding agrees_def by blast
  then have "cw_confirms u = (p @ q) @ cw_confirms w" "a + b \<le> count_list (p @ q) (Inr True)" by simp_all
  moreover have "only_asks u w" "cw_rc w = cw_rc u"
    using assms ask.frame_trans unfolding agrees_def by metis+
  ultimately show ?thesis unfolding agrees_def by blast
qed

interpretation ag: cli_frame "agrees 0"
proof
  show "agrees 0 u w" if "agrees 0 u v" "agrees 0 v w" for u v w
    using agrees_trans [OF that] by simp
qed (simp_all add: agrees_def only_asks_def fo.frame_refl)

lemma confirm_agrees: "keeps (agrees 0) confirm" "keeps (agrees 0) input" "confirm w = (Ok True, v) \<Longrightarrow> agrees 1 w v"
  by (auto simp: keeps_def confirm_def input_def agrees_def only_asks_def fo.frame_refl split: list.splits sum.splits)

lemma agrees_more: "agrees 0 u v \<Longrightarrow> agrees k v w \<Longrightarrow> agrees k u w"
  using agrees_trans [of 0 u v k w] by simp

lemma channel_release_agrees:
  assumes "verify_channel_release V (ic_is_airgap ic) (fl_assume_yes f) w = (Ok u, v)"
  shows "agrees (of_bool (asks_bundle V f ic)) w v"
  using assms confirm_agrees(3) ag.frame_refl unfolding verify_channel_release_def asks_bundle_def
  by (auto simp: call_Ok_iffs split: option.splits if_splits)

lemma proxy_agrees:
  assumes "verify_proxy_config (fl_proxy f) (fl_assume_yes f) w = (Ok u, v)"
  shows "agrees (of_bool (asks_proxy f)) w v"
  using assms confirm_agrees(3) ag.frame_refl unfolding verify_proxy_config_def asks_proxy_def
  by (auto simp: call_Ok_iffs split: option.splits if_splits)

lemma ask_password_Ok: "ask_password n f w = (Ok f', v) \<Longrightarrow>
    \<exists>pw. f' = f\<lparr>fl_admin_console_password := pw\<rparr> \<and> min_admin_password_length \<le> length pw"
  by (induction n arbitrary: w) (auto simp: call_Ok_iffs validate_admin_console_password_def split: if_splits)

lemma password_Ok:
  assumes "ensure_admin_console_password f w = (Ok f', v)"
  shows "\<exists>pw. f' = f\<lparr>fl_admin_console_password := pw\<rparr> \<and> min_admin_password_length \<le> length pw"
  using assms unfolding ensure_admin_console_password_def
  by (cases f) (auto simp: Let_def call_Ok_iffs validate_admin_console_password_def dest: ask_password_Ok split: if_splits)

lemma password_agrees: "keeps (agrees 0) (ensure_admin_console_password f)"
proof -
  have "keeps (agrees 0) (ask_password n f)" for n
    by (induction n) (auto intro!: ag.cli_rules confirm_agrees)
  then show ?thesis unfolding ensure_admin_console_password_def Let_def by (intro ag.cli_rules)
qed

lemma update_agrees: "keeps (agrees 0) (update_question V ic f license)"
  unfolding update_question_def maybe_prompt_for_app_update_def
  by (intro ag.cli_rules confirm_agrees)

lemma verify_no_installation_Ok: "verify_no_installation w = (Ok u, v) \<Longrightarrow> cw_k0s_file w = None \<and> agrees 0 w v"
proof
  assume run: "verify_no_installation w = (Ok u, v)"
  then show "cw_k0s_file w = None"
    unfolding verify_no_installation_def by (auto simp: bind_Ok_iff dest!: k0s_is_installed_Ok split: if_splits)
  have "keeps (agrees 0) verify_no_installation"
    unfolding verify_no_installation_def k0s_is_installed_def by (intro ag.cli_rules)
  from keepsD [OF this run] show "agrees 0 w v" .
qed

lemma verify_and_prompt_Ok:
  assumes "verify_and_prompt V c f ic w = (Ok (f', ic'), w')"
  shows "cw_k0s_file w = None" "verify_license V (ic_license ic) = Ok (ic_license ic)" "ic' = ic"
    "airgap_info_of ic = None \<or> check_airgap_matches V (airgap_info_of ic) = Ok ()" "validate_ec_config V = Ok ()"
    "agrees (of_bool (asks_bundle V f ic) + of_bool (asks_proxy f)) w w'"
    "\<exists>pw. f' = f\<lparr>fl_admin_console_password := pw\<rparr> \<and> (cmd_has c ''admin-console-password'' \<longrightarrow> min_admin_password_length \<le> length pw)"
proof -
  from assms obtain u1 w1 u2 w2 license w3 u4 u5 w4 u6 w5 u8 where
    1: "verify_no_installation w = (Ok u1, w1)"
    and 2: "verify_channel_release V (ic_is_airgap ic) (fl_assume_yes f) w1 = (Ok u2, w2)"
    and 3: "verify_license V (ic_license ic) = Ok license"
    and 4: "(if airgap_info_of ic \<noteq> None then lift (check_airgap_matches V (airgap_info_of ic)) else ret ()) w2 = (Ok u4, w3)"
    and 5: "update_question V ic f license w3 = (Ok u5, w4)"
    and 6: "validate_ec_config V = Ok u6"
    and 7: "verify_proxy_config (fl_proxy f) (fl_assume_yes f) w4 = (Ok u8, w5)"
    and 8: "(if cmd_has c ''admin-console-password'' then ensure_admin_console_password f else ret f) w5 = (Ok f', w')"
    and 9: "ic' = ic\<lparr>ic_license := license\<rparr>"
    unfolding verify_and_prompt_def bind_Ok_iff lift_Ok_iff ret_Ok_iff prod.inject by blast
  show "cw_k0s_file w = None" using verify_no_installation_Ok [OF 1] by simp
  show "verify_license V (ic_license ic) = Ok (ic_license ic)" using 3 verify_license_same by metis
  show "ic' = ic" using 9 verify_license_same [OF 3] by simp
  have w3: "w3 = w2" and a: "airgap_info_of ic = None \<or> check_airgap_matches V (airgap_info_of ic) = Ok ()"
    using 4 by (auto simp: lift_def ret_def split: if_splits)
  show "airgap_info_of ic = None \<or> check_airgap_matches V (airgap_info_of ic) = Ok ()" by (rule a)
  show "validate_ec_config V = Ok ()" using 6 by simp
  have "agrees (of_bool (asks_bundle V f ic)) w w2"
    using agrees_more verify_no_installation_Ok [OF 1] channel_release_agrees [OF 2] by blast
  moreover have "agrees (of_bool (asks_proxy f)) w2 w5"
    using agrees_more keepsD [OF update_agrees 5] proxy_agrees [OF 7] unfolding w3 by blast
  moreover have "agrees 0 w5 w'"
    using 8 keepsD [OF password_agrees] ag.frame_refl by (auto simp: ret_def split: if_splits)
  ultimately show "agrees (of_bool (asks_bundle V f ic) + of_bool (asks_proxy f)) w w'"
    using agrees_trans [OF agrees_trans] by fastforce
  show "\<exists>pw. f' = f\<lparr>fl_admin_console_password := pw\<rparr> \<and> (cmd_has c ''admin-console-password'' \<longrightarrow> min_admin_password_length \<le> length pw)"
  proof (cases "cmd_has c ''admin-console-password''")
    case True
    with 8 password_Ok show ?thesis by simp
  next
    case False
    with 8 show ?thesis by (intro exI [of _ "fl_admin_console_password f"]) (simp add: ret_def)
  qed
qed

lemma pre_run_install_Ok:
  assumes "pre_run_install V c f0 w = (Ok (f, ic), v)"
  shows "build_install_flags V c f0 = Ok f" "build_install_config V f = Ok ic" "ie_is_root V"
    "\<exists>rc. build_runtime_config V f ic (cw_rc w) = Ok rc \<and> v = w\<lparr>cw_rc := rc\<rparr>"
  using assms unfolding pre_run_install_def by (auto simp: call_Ok_iffs gets_def modify_def split: if_splits)

lemma bind_run:
  assumes "bind m f w = (r, w')"
  obtains (stop) "\<forall>x. r \<noteq> Ok x" "w' = snd (m w)" "\<forall>x. fst (m w) \<noteq> Ok x" | (go) x v where "m w = (Ok x, v)" "f x v = (r, w')"
proof (cases "m w")
  case (Pair s v)
  then show ?thesis
  proof (cases s)
    case (Ok x)
    with assms Pair show ?thesis by (intro go) (simp_all add: bind_def)
  qed (use assms Pair in \<open>auto intro!: stop simp: bind_def\<close>)
qed

text \<open>
  C24: An installation changes nothing before the checks that precede the preparation of the host. Either the
  command fails with nothing but answers used and its own settings built, or: its flags, files and runtime configuration were built; it runs
  as root; no k0s configuration was there; the license matches the binary, and so does the air gap bundle, when it is
  described; the charts of the embedded configuration parse; the questions about a missing air gap bundle and
  about a proxy without HTTPS, where they arise, were answered with yes; the password of the Admin Console, where
  the command has one, is long enough; and what happens is the installation with those flags, from a state
  nothing has touched. Host preflights are part of that installation and run after the host was prepared.
\<close>

theorem install_checks_before_it_changes:
  assumes "install_cmd L E V c f0 w = (r, w')"
  shows "only_asks w w' \<and> (\<forall>u. r \<noteq> Ok u) \<or>
    (\<exists>f ic rc pw w1. build_install_flags V c f0 = Ok f \<and> build_install_config V f = Ok ic \<and>
       build_runtime_config V f ic (cw_rc w) = Ok rc \<and> ie_is_root V \<and> cw_k0s_file w = None \<and>
       verify_license V (ic_license ic) = Ok (ic_license ic) \<and>
       (airgap_info_of ic = None \<or> check_airgap_matches V (airgap_info_of ic) = Ok ()) \<and> validate_ec_config V = Ok () \<and>
       agrees (of_bool (asks_bundle V f ic) + of_bool (asks_proxy f)) (w\<lparr>cw_rc := rc\<rparr>) w1 \<and>
       (cmd_has c ''admin-console-password'' \<longrightarrow> min_admin_password_length \<le> length pw) \<and>
       run_install L E V (f\<lparr>fl_admin_console_password := pw\<rparr>) ic w1 = (r, w'))"
  using assms unfolding install_cmd_def
proof (cases rule: bind_run)
  case stop
  then show ?thesis using keeps_pre_run_install [of V c f0] by (simp add: keeps_def)
next
  case (go x v)
  obtain f ic where x: "x = (f, ic)" by (cases x)
  note pre = pre_run_install_Ok [OF go(1) [unfolded x]]
  obtain rc where rc: "build_runtime_config V f ic (cw_rc w) = Ok rc" and v: "v = w\<lparr>cw_rc := rc\<rparr>" using pre(4) by blast
  have asks: "only_asks w v" using go(1) keeps_pre_run_install by (metis keepsD)
  from go(2)[unfolded x prod.case] show ?thesis
  proof (cases rule: bind_run)
    case stop
    then show ?thesis using asks keeps_verify_and_prompt ask.frame_trans unfolding keeps_def by metis
  next
    case (go y v')
    obtain f' ic' where y: "y = (f', ic')" by (cases y)
    note ok = verify_and_prompt_Ok [OF go(1) [unfolded y]]
    obtain pw where pw: "f' = f\<lparr>fl_admin_console_password := pw\<rparr>"
      "cmd_has c ''admin-console-password'' \<longrightarrow> min_admin_password_length \<le> length pw" using ok(7) by blast
    have "cw_k0s_file w = None" using ok(1) v by simp
    with pre(1-3) rc ok(2,4-6) pw go(2) show ?thesis unfolding y v ok(3) pw(1) prod.case by blast
  qed
qed

text \<open>
  C28: The license check accepts exactly a license for the application and the channel of the binary, not
  expired and with embedded cluster downloads enabled, or no license and no release in the binary.
\<close>

theorem license_accepted_iff:
  "verify_license V license = Ok license \<longleftrightarrow>
     (case (ie_release V, license) of
        (None, None) \<Rightarrow> True
      | (Some r, Some l) \<Rightarrow> kl_app_slug l = br_app_slug r \<and>
          (if kl_channels l = [] then kl_channel_id l = br_channel_id r else br_channel_id r \<in> lc_id ` set (kl_channels l)) \<and>
          (kl_expires_at l = None \<or> kl_expires_at l = Some [] \<or>
             (\<exists>s t. kl_expires_at l = Some s \<and> ie_parse_time V s = Ok t \<and> ie_now V \<le> t)) \<and> kl_download_enabled l
      | _ \<Rightarrow> False)"
proof -
  have expires: "(if ie_now V > t then Err e else Ok ()) = Ok () \<longleftrightarrow> ie_now V \<le> t" for t e by auto
  show ?thesis
    by (cases "ie_release V"; cases license)
      (auto simp: verify_license_def verify_license_presence_def verify_license_fields_def check_channel_existence_def
        allowed_channels_def image_iff expires split: option.split if_split_asm)
qed

section \<open>Preflights that fail\<close>

text \<open>
  When host preflights fail and are neither skipped nor ignored, the installation stops right after the
  host was prepared, and nothing of the cluster is written. Its error is not one of those that the program
  takes as already reported: the class the command tests for is declared by another package than the error.
\<close>

theorem failed_preflights_stop_the_installation:
  assumes "initialize_install E w = (Ok (), w1)"
    and "first_valid_address (ie_netlib V) (ie_interfaces V) (network_interface (rc_network (cw_rc w1))) = Ok ip"
    and "ie_preflights V (cw_rc w1) ip (controller_storage V ic) = Ok True"
    and "ie_preflight_output V = Ok (failed, warned)" "failed > 0"
    and "\<not> fl_skip_host_preflights f" "\<not> fl_ignore_host_preflights f"
  shows "\<exists>e. run_install L E V f ic w = (Err e, w1) \<and> \<not> is_nothing_else e \<and>
    err_text e = ''failed to run install preflights: host preflight failures detected''"
  using assms
  by (simp add: run_install_def checked_preflights_def run_install_preflights_def run_host_preflights_def
      bind_def wrap_def attempt_def gets_def lift_def throw_def is_preflights_fail_def is_nothing_else_def)

section \<open>The space an air gap bundle needs\<close>

lemma ceil_div_bounds:
  assumes "b > 0"
  shows "(ceil_div a b - 1) * b < a" "a \<le> ceil_div a b * b"
proof -
  define q m where "q = - a div b" and "m = - a mod b"
  have "b * q + m = - a" unfolding q_def m_def by (rule mult_div_mod_eq)
  moreover have "0 \<le> m" "m < b" using assms by (simp_all add: m_def)
  ultimately show "(ceil_div a b - 1) * b < a" "a \<le> ceil_div a b * b"
    unfolding ceil_div_def q_def [symmetric] by (simp_all add: algebra_simps)
qed

text \<open>
  C30: Below the size where a float is exact, and without overflow, the space asked for is the smallest whole
  number of units that holds the bytes needed: twice the uncompressed bundle (or the k0s images on a worker)
  and the embedded files, in \<open>Gi\<close> from one \<open>Gi\<close> on and in \<open>Mi\<close> below.
\<close>

theorem airgap_space_is_least:
  assumes "\<And>n. \<bar>n\<bar> < 2 ^ 53 \<Longrightarrow> fl n = n"
    and "need = (if is_controller then 2 * sint uncompressed else sint k0s_image) + sint assets"
    and "0 \<le> sint uncompressed" "0 \<le> sint k0s_image" "0 \<le> sint assets" "need < 2 ^ 53"
  shows "\<exists>n suffix size. calculate_airgap_storage_space fl uncompressed assets k0s_image is_controller = show_int n @ suffix \<and>
    (suffix, size) = (if need \<ge> 2 ^ 30 then (''Gi'', 2 ^ 30) else (''Mi'', 2 ^ 20)) \<and>
    (n - 1) * size < need \<and> need \<le> n * size"
proof -
  have small: "sint (airgap_required_bytes uncompressed assets k0s_image is_controller) = need"
  proof -
    have m: "sint (uncompressed * 2) = 2 * sint uncompressed" if "2 * sint uncompressed < 2 ^ 53"
      using that assms(3) by (simp add: sint_word_ariths signed_take_bit_int_eq_self)
    show ?thesis
      using assms m unfolding airgap_required_bytes_def
      by (cases is_controller) (simp_all add: sint_word_ariths signed_take_bit_int_eq_self)
  qed
  have "fl need = need" by (rule assms(1)) (use assms in \<open>auto split: if_splits\<close>)
  then show ?thesis
    using small ceil_div_bounds [of "2 ^ 30" need] ceil_div_bounds [of "2 ^ 20" need]
    by (auto simp: calculate_airgap_storage_space_def Let_def)
qed

section \<open>Samples\<close>

definition sample_nic :: netif where
  "sample_nic = \<lparr>if_name = ''eth0'', if_up = True, if_loopback = False, if_addrs = Ok [IfNet (net4 167772165 24)]\<rparr>"

definition sample_env :: install_env where
  "sample_env = \<lparr>ie_release = None, ie_embedded_config = None, ie_app_slug = ''app'', ie_getenv = (\<lambda>_. []),
     ie_netlib = sample_netlib, ie_interfaces = Ok [sample_nic], ie_chosen_ip = Ok None, ie_public_ip = [],
     ie_hostname = Ok ''n'', ie_is_root = True, ie_uuid = ''u'', ie_now = 0, ie_stamp = ''1'', ie_app_url = [],
     ie_version = ''v2.0.0'', ie_float = (\<lambda>n. n), ie_read_file = (\<lambda>p. Ok p), ie_abs = (\<lambda>p. Ok p),
     ie_parse_license = (\<lambda>_. Err (EMsg ''not a license'')), ie_validate_config_values = (\<lambda>_. Ok ()),
     ie_parse_config_values = (\<lambda>s. Ok s), ie_airgap_metadata = (\<lambda>_. Err (EMsg ''no bundle'')), ie_assets_size = Ok 0,
     ie_end_user_config = (\<lambda>_. Ok None), ie_key_pair = (\<lambda>_ _. Ok ()), ie_ca_bundle = Ok [],
     ie_parse_time = (\<lambda>_. Ok 0), ie_latest_label = (\<lambda>_ _. Ok []), ie_parse_yaml = (\<lambda>_. Ok ()),
     ie_iptables = Inr ''nft'', ie_preflights = (\<lambda>_ _ _. Ok True), ie_preflight_output = Ok (1, 0), ie_crds = [],
     ie_metadata = Ok [], ie_arrange_charts = (\<lambda>cs. cs), ie_upgrade_lib = sample_upgrade_lib\<rparr>"

definition sample_flags :: cli_flags where
  "sample_flags = \<lparr>fl_admin_console_password = [], fl_admin_console_port = 30000, fl_airgap_bundle = [], fl_license_file = [],
     fl_assume_yes = True, fl_overrides = [], fl_config_values = [], fl_data_dir = ''/data'', fl_lam_port = 50000,
     fl_skip_host_preflights = False, fl_ignore_host_preflights = False, fl_ignore_app_preflights = False,
     fl_disable_fs_check = False, fl_network_interface = ''eth0'', fl_cidr = None, fl_proxy = None, fl_target = [],
     fl_manager_port = 30000, fl_tls_cert = [], fl_tls_key = [], fl_hostname = []\<rparr>"

definition sample_config_of :: install_config where
  "sample_config_of = \<lparr>ic_cluster_id = ''u'', ic_is_airgap = False, ic_license_bytes = [], ic_license = None, ic_airgap = None,
     ic_assets_size = 0, ic_end_user = None, ic_tls_cert_bytes = [], ic_tls_key_bytes = [], ic_config_values = None\<rparr>"

text \<open>A run that passes every check: no license and no release, with networks and an interface given.\<close>

definition sample_k0s_lib :: config_lib where
  "sample_k0s_lib = sample_config_lib\<lparr>kc_image_metadata := Some (\<lambda>_. ([], [])),
     kc_default := (kc_default sample_config_lib)\<lparr>cfg_etcd_peer := Some [],
       cfg_api := Some \<lparr>api_address = [], api_extra_args = [], api_sans = [], api_rest = []\<rparr>,
       cfg_network := Some \<lparr>net_provider = [], net_kube_router = False, net_calico = None, net_kube_proxy_mode = None,
         net_nllb = Some \<lparr>nllb_enabled = False, nllb_type = [], nllb_envoy = Some (Some \<lparr>ki_image = [], ki_version = []\<rparr>), nllb_rest = []\<rparr>,
         net_pod_cidr = [], net_service_cidr = [], net_rest = []\<rparr>,
       cfg_images := Some (let i = Some \<lparr>ki_image = [], ki_version = []\<rparr> in \<lparr>img_core_dns = i, img_calico_node = i, img_calico_cni = i,
         img_calico_controllers = i, img_metrics_server = i, img_kube_proxy = i, img_pause = i, img_pull_policy = [], img_rest = []\<rparr>)\<rparr>\<rparr>"

definition sample_install_env :: install_env where
  "sample_install_env = sample_env\<lparr>ie_upgrade_lib := sample_upgrade_lib\<lparr>ul_config := sample_k0s_lib\<rparr>\<rparr>"

definition sample_install_line :: cmd_line where
  "sample_install_line = \<lparr>cmd_changed = [''pod-cidr''],
     cmd_string = (\<lambda>s. if s = ''cidr'' then ''10.0.0.0/16'' else []), cmd_has = (\<lambda>_. True)\<rparr>"

definition sample_install_flags :: cli_flags where
  "sample_install_flags = sample_flags\<lparr>fl_manager_port := 30001\<rparr>"

lemma sample_cidr: "config_validate_cidr sample_netlib ''10.0.0.0/16'' = Ok ()"
proof -
  have t: "''10.0.0.0/16'' = show_net sample_netlib (net4 (10 * 2 ^ 24) 16)"
    by (simp add: show_net4 show_ip4_def octets_def show_nat.simps digit_char_def char_of_def bit_iff_odd)
  have w: "wf_net4 (net4 (10 * 2 ^ 24) 16)" by (simp add: wf_net4_def net4_def clear_low_def)
  show ?thesis
    unfolding config_validate_cidr_def net_validate_cidr_def t parse_wf_net [OF w]
    by (simp add: in_private_nets_iff net4_def private_addresses_def)
qed

lemma sample_install_flags_built: "build_install_flags sample_install_env sample_install_line sample_install_flags =
    Ok (sample_install_flags\<lparr>fl_target := ''linux'', fl_cidr := Some \<lparr>cc_pod = [], cc_service = [], cc_global = None\<rparr>, fl_proxy := None\<rparr>)"
  using sample_cidr
  by (simp add: build_install_flags_def sample_install_env_def sample_install_line_def sample_install_flags_def sample_env_def sample_flags_def
     env_true_def cidr_config_from_cmd_def validate_cidr_flags_def get_cidr_config_def parse_proxy_flags_def cmd_proxy_spec_def
     get_proxy_spec_def populate_no_proxy_def set_proxy_defaults_def first_env_def Let_def)

lemma sample_install_config_built: "fl_license_file f = [] \<Longrightarrow> fl_config_values f = [] \<Longrightarrow> fl_airgap_bundle f = [] \<Longrightarrow>
    fl_tls_cert f = [] \<Longrightarrow> build_install_config sample_install_env f = Ok sample_config_of"
  by (simp add: build_install_config_def process_tls_config_def sample_install_env_def sample_env_def sample_config_of_def)

lemma sample_render: "\<exists>cfg. render_k0s_config sample_k0s_lib p = Ok cfg \<and> cfg_api cfg \<noteq> None \<and> cfg_etcd_peer cfg \<noteq> None \<and> cfg_network cfg \<noteq> None"
  by (simp add: render_k0s_config_def sample_k0s_lib_def sample_config_lib_def enable_calico_def override_k0s_images_def override_image_def
     deref_def Let_def)


lemma sample_address: "first_valid_address sample_netlib (Ok [sample_nic]) ''eth0'' = Ok (show_ip sample_netlib (IP4 167772165))"
  by (simp add: sample_nic_def first_valid_address_def first_valid_ip_net_def list_valid_interfaces_def is_valid_interface_def
     first_valid_ip_net_of_def is_loopback_def net4_def)

lemma sample_k0s_config_built:
  assumes "fl_network_interface f = ''eth0''" "fl_cidr f = Some k"
  shows "\<exists>cfg. build_k0s_config sample_install_env f sample_config_of = Ok cfg"
proof -
  obtain cfg where cfg: "render_k0s_config sample_k0s_lib (proxy_registry_domain (release_domains sample_install_env None)) = Ok cfg"
    "cfg_api cfg \<noteq> None" "cfg_etcd_peer cfg \<noteq> None" "cfg_network cfg \<noteq> None"
    using sample_render by blast
  then show ?thesis
    using assms sample_address
    by (auto simp: build_k0s_config_def new_k0s_config_def deref_def with_addresses_def apply_unsupported_overrides_def
       sample_install_env_def sample_env_def sample_config_of_def sample_upgrade_lib_def)
qed

lemma sample_runtime_config_built:
  assumes "fl_network_interface f = ''eth0''" "fl_cidr f = Some k"
  shows "\<exists>rc. build_runtime_config sample_install_env f sample_config_of rc0 = Ok rc \<and> network_interface (rc_network rc) = ''eth0''"
proof -
  obtain cfg where "build_k0s_config sample_install_env f sample_config_of = Ok cfg"
    using sample_k0s_config_built [OF assms] by blast
  moreover have "ie_ca_bundle sample_install_env = Ok []" "ie_abs sample_install_env p = Ok p" for p
    by (simp_all add: sample_install_env_def sample_env_def)
  ultimately show ?thesis using assms
    by (cases "cc_global k") (simp_all add: build_runtime_config_def build_network_spec_def deref_def Let_def)
qed

lemma sample_install_run:
  "\<exists>e w'. install_cmd sample_lib (\<lambda>_ w. w) sample_install_env sample_install_line sample_install_flags sample_world = (Err e, w') \<and>
     cw_log w' = [HostStep ''configure host''] \<and> err_text e = ''failed to run install preflights: host preflight failures detected''"
proof -
  let ?f = "sample_install_flags\<lparr>fl_target := ''linux'', fl_cidr := Some \<lparr>cc_pod = [], cc_service = [], cc_global = None\<rparr>, fl_proxy := None\<rparr>"
  let ?g = "?f\<lparr>fl_admin_console_password := ''password''\<rparr>"
  obtain rc where rc: "build_runtime_config sample_install_env ?f sample_config_of (cw_rc sample_world) = Ok rc"
    "network_interface (rc_network rc) = ''eth0''"
    using sample_runtime_config_built [of ?f] by (auto simp: sample_install_flags_def sample_flags_def)
  let ?w = "sample_world\<lparr>cw_rc := rc\<rparr>"
  have ic: "build_install_config sample_install_env ?f = Ok sample_config_of"
    by (rule sample_install_config_built) (simp_all add: sample_install_flags_def sample_flags_def)
  have root: "ie_is_root sample_install_env" by (simp add: sample_install_env_def sample_env_def)
  have pre: "pre_run_install sample_install_env sample_install_line sample_install_flags sample_world = (Ok (?f, sample_config_of), ?w)"
    using rc(1) ic root sample_install_flags_built
    by (simp add: pre_run_install_def bind_def lift_def wrap_def gets_def modify_def ret_def)
  have "verify_and_prompt sample_install_env sample_install_line ?f sample_config_of ?w = (Ok (?g, sample_config_of), ?w)"
    by (simp add: verify_and_prompt_def verify_no_installation_def k0s_is_installed_def cli_api_def on_kube_def pop_fault_def
      sample_world_def sample_kube_def verify_channel_release_def verify_license_def verify_license_presence_def
      verify_license_fields_def update_question_def maybe_prompt_for_app_update_def validate_ec_config_def verify_proxy_config_def
      ensure_admin_console_password_def validate_admin_console_password_def min_admin_password_length_def airgap_info_of_def
      sample_install_env_def sample_env_def sample_config_of_def sample_install_flags_def sample_flags_def sample_install_line_def
      bind_def lift_def wrap_def gets_def ret_def attempt_def Let_def)
  moreover have "\<exists>e. run_install sample_lib (\<lambda>_ w. w) sample_install_env ?g sample_config_of ?w =
      (Err e, ?w\<lparr>cw_log := [HostStep ''configure host'']\<rparr>) \<and>
      err_text e = ''failed to run install preflights: host preflight failures detected''"
    using rc(2) sample_address
    by (simp add: run_install_def checked_preflights_def run_install_preflights_def run_host_preflights_def initialize_install_def
      host_step_def cli_api_def on_kube_def pop_fault_def sample_world_def sample_kube_def modify_def
      bind_def wrap_def attempt_def gets_def lift_def throw_def is_preflights_fail_def is_nothing_else_def
      sample_install_env_def sample_env_def sample_install_flags_def sample_flags_def)
  ultimately show ?thesis using pre by (auto simp: install_cmd_def bind_def)
qed

theorem install_checks_before_it_changes_witness:
  "ie_is_root sample_install_env \<and> cw_k0s_file sample_world = None \<and> verify_license sample_install_env None = Ok None \<and>
   validate_ec_config sample_install_env = Ok () \<and>
   (\<exists>pw f w1 e w'. min_admin_password_length \<le> length pw \<and> only_asks sample_world w1 \<and>
     run_install sample_lib (\<lambda>_ w. w) sample_install_env (f\<lparr>fl_admin_console_password := pw\<rparr>) sample_config_of w1 = (Err e, w') \<and>
     cw_log w' = [HostStep ''configure host''])"
proof -
  obtain e w' where run: "install_cmd sample_lib (\<lambda>_ w. w) sample_install_env sample_install_line sample_install_flags sample_world = (Err e, w')"
    and log: "cw_log w' = [HostStep ''configure host'']" using sample_install_run by blast
  have "\<not> only_asks sample_world w'" using log by (simp add: only_asks_def sample_world_def)
  with install_checks_before_it_changes [OF run] obtain f ic rc pw w1 where f: "build_install_flags sample_install_env sample_install_line sample_install_flags = Ok f"
    and ic: "build_install_config sample_install_env f = Ok ic" and checks: "ie_is_root sample_install_env" "cw_k0s_file sample_world = None"
      "verify_license sample_install_env (ic_license ic) = Ok (ic_license ic)" "validate_ec_config sample_install_env = Ok ()"
    and w1: "agrees (of_bool (asks_bundle sample_install_env f ic) + of_bool (asks_proxy f)) (sample_world\<lparr>cw_rc := rc\<rparr>) w1"
    and pw: "cmd_has sample_install_line ''admin-console-password'' \<longrightarrow> min_admin_password_length \<le> length pw"
    and go: "run_install sample_lib (\<lambda>_ w. w) sample_install_env (f\<lparr>fl_admin_console_password := pw\<rparr>) ic w1 = (Err e, w')"
    by (elim disjE conjE exE) simp_all
  have "ic = sample_config_of"
    using f ic sample_install_config_built unfolding sample_install_flags_built by (auto simp: sample_install_flags_def sample_flags_def)
  moreover have "min_admin_password_length \<le> length pw" using pw by (simp add: sample_install_line_def)
  moreover have "only_asks sample_world w1" using w1 by (simp add: agrees_def only_asks_def)
  moreover have "ic_license sample_config_of = None" by (simp add: sample_config_of_def)
  ultimately show ?thesis using checks go log by metis
qed

theorem failed_preflights_stop_the_installation_witness: "\<exists>e. run_install sample_lib (\<lambda>_ w. w) sample_env sample_flags
    sample_config_of sample_world = (Err e, sample_world\<lparr>cw_log := [HostStep ''configure host'']\<rparr>) \<and> \<not> is_nothing_else e \<and>
    err_text e = ''failed to run install preflights: host preflight failures detected''"
proof (rule failed_preflights_stop_the_installation [where failed = 1 and warned = 0])
  show "initialize_install (\<lambda>_ w. w) sample_world = (Ok (), sample_world\<lparr>cw_log := [HostStep ''configure host'']\<rparr>)"
    by (simp add: initialize_install_def host_step_def wrap_def modify_def sample_world_def sample_kube_def)
  show "first_valid_address (ie_netlib sample_env) (ie_interfaces sample_env)
      (network_interface (rc_network (cw_rc (sample_world\<lparr>cw_log := [HostStep ''configure host'']\<rparr>)))) =
      Ok (show_ip sample_netlib (IP4 167772165))"
    by (simp add: sample_env_def sample_nic_def sample_world_def empty_runtime_config_def empty_network_def first_valid_address_def
        first_valid_ip_net_def list_valid_interfaces_def is_valid_interface_def first_valid_ip_net_of_def is_loopback_def net4_def)
qed (simp_all add: sample_env_def sample_flags_def)

theorem airgap_space_is_least_witness:
  "\<exists>n suffix size. calculate_airgap_storage_space (\<lambda>n. n) 1000000000 5 0 True = show_int n @ suffix \<and>
    (suffix, size) = (if 2000000005 \<ge> (2 ^ 30 :: int) then (''Gi'', 2 ^ 30) else (''Mi'', 2 ^ 20)) \<and>
    (n - 1) * size < 2000000005 \<and> 2000000005 \<le> n * size"
  using airgap_space_is_least [of "\<lambda>n. n" 2000000005 True 1000000000 0 5] by simp

end
