(* ===== verification/Restore.thy ===== *)
theory Restore
  imports Backups Install
begin

text \<open>
  Restoring an instance from a backup (\<^verbatim>\<open>cmd/installer/cli/restore.go\<close>): the state machine whose state
  is kept in a config map so that an interrupted restore resumes, the choice of a backup the binary can
  restore, the velero restores it creates and waits for, and the steps around them.

  Velero, the user and the rest of the system move between two looks at the cluster (\<open>de_tick\<close>). The
  wait for a velero restore has no bound in the code: it has fuel here, and running out of it is the outcome
  \<open>still_waiting\<close>, which no handler sees, like a call that does not return. The other loops end by
  themselves: the list of backups is read 30 times at most, and the question whether nodes are added ends
  with the input.
\<close>

section \<open>Data\<close>

datatype restore_state =
    RsNew
  | RsConfirmBackup
  | RsRestoreECInstall
  | RsRestoreAdminConsole
  | RsWaitForNodes
  | RsRestoreSeaweedFS
  | RsRestoreRegistry
  | RsAdminConsoleEnableHA
  | RsRestoreECO
  | RsRestoreExtensions
  | RsRestoreApp

fun state_text :: "restore_state \<Rightarrow> string" where
  "state_text RsNew = ''new''"
| "state_text RsConfirmBackup = ''confirm-backup''"
| "state_text RsRestoreECInstall = ''restore-ec-install''"
| "state_text RsRestoreAdminConsole = ''restore-admin-console''"
| "state_text RsWaitForNodes = ''wait-for-nodes''"
| "state_text RsRestoreSeaweedFS = ''restore-seaweedfs''"
| "state_text RsRestoreRegistry = ''restore-registry''"
| "state_text RsAdminConsoleEnableHA = ''admin-console-enable-ha''"
| "state_text RsRestoreECO = ''restore-embedded-cluster-operator''"
| "state_text RsRestoreExtensions = ''restore-extensions''"
| "state_text RsRestoreApp = ''restore-app''"

definition ec_restore_states :: "restore_state list" where
  "ec_restore_states = [RsNew, RsConfirmBackup, RsRestoreECInstall, RsRestoreAdminConsole, RsWaitForNodes,
     RsRestoreSeaweedFS, RsRestoreRegistry, RsAdminConsoleEnableHA, RsRestoreECO, RsRestoreExtensions, RsRestoreApp]"

datatype dr_component = DrECInstall | DrAdminConsole | DrSeaweedFS | DrRegistry | DrECO | DrApp

fun component_text :: "dr_component \<Rightarrow> string" where
  "component_text DrECInstall = ''ec-install''"
| "component_text DrAdminConsole = ''admin-console''"
| "component_text DrSeaweedFS = ''seaweedfs''"
| "component_text DrRegistry = ''registry''"
| "component_text DrECO = ''embedded-cluster-operator''"
| "component_text DrApp = ''app''"

record s3_store =
  s3_endpoint :: string
  s3_region :: string
  s3_bucket :: string
  s3_prefix :: string
  s3_access_key_id :: string
  s3_secret_access_key :: string

text \<open>What a restore finds outside, beside what an installation does.\<close>

record restore_env =
  de_env :: install_env
  de_velero_backup :: bool
  de_velero_restore :: bool
  de_parse_apps :: "string \<Rightarrow> (string \<times> string) list outcome"
  de_parse_port :: "string \<Rightarrow> int outcome"
  de_decode_restore :: "string \<Rightarrow> (string \<times> velero_restore) outcome"
  de_modifiers_yaml :: string
  de_arrange :: "replicated_backup list \<Rightarrow> replicated_backup list"
  de_store_prefixes :: "s3_store \<Rightarrow> nat outcome"
  de_trim_space :: "string \<Rightarrow> string"
  de_tick :: "cli_world \<Rightarrow> cli_world"

section \<open>The state of a restore\<close>

text \<open>The last state of the list whose text is what the config map holds; anything else is a new restore.\<close>

definition parse_state :: "string \<Rightarrow> restore_state" where
  "parse_state s = (case List.find (\<lambda>x. state_text x = s) ec_restore_states of None \<Rightarrow> RsNew | Some x \<Rightarrow> x)"

definition get_restore_state :: "(cli_world, restore_state) call" where
  "get_restore_state =
     bind (attempt (bind kube_client (\<lambda>_. on_kube (get_in config_maps restore_state_key)))) (\<lambda>r. case r of
       Inl _ \<Rightarrow> ret RsNew
     | Inr cm \<Rightarrow> ret (case map_of (cm_data cm) ''state'' of None \<Rightarrow> RsNew | Some s \<Rightarrow> parse_state s))"

definition state_map :: "restore_state \<Rightarrow> string \<Rightarrow> config_map" where
  "state_map s backup_name = \<lparr>cm_annotations = [], cm_data = (''state'', state_text s) #
     (if backup_name \<noteq> [] then [(''backup-name'', backup_name)] else [])\<rparr>"

definition write_restore_state :: "config_map \<Rightarrow> (kube, unit) call" where
  "write_restore_state cm =
     bind (attempt (create_namespace ''embedded-cluster'')) (\<lambda>r.
     bind (case r of Inl e \<Rightarrow> if is_already_exists e then ret () else throw (EWrap ''unable to create namespace'' e)
           | Inr u \<Rightarrow> ret u) (\<lambda>_.
     bind (attempt (create_in config_maps config_maps_update restore_state_key cm)) (\<lambda>r. case r of
       Inr u \<Rightarrow> ret u
     | Inl e \<Rightarrow> if is_already_exists e
         then wrap ''unable to update config map'' (write_in config_maps config_maps_update restore_state_key cm)
         else throw (EWrap ''unable to create config map'' e))))"

definition set_restore_state :: "restore_state \<Rightarrow> string \<Rightarrow> (cli_world, unit) call" where
  "set_restore_state s backup_name =
     bind (wrap ''unable to create kube client'' kube_client) (\<lambda>_.
     bind (on_kube (write_restore_state (state_map s backup_name))) (\<lambda>_.
     log_event (StateSet (state_text s) backup_name)))"

definition reset_restore_state :: "(cli_world, unit) call" where
  "reset_restore_state =
     bind (wrap ''unable to create kube client'' kube_client) (\<lambda>_.
     bind (attempt (on_kube (delete_in config_maps config_maps_update restore_state_key))) (\<lambda>r.
     bind (case r of Inl e \<Rightarrow> if is_not_found e then ret () else throw (EWrap ''unable to delete config map'' e)
           | Inr u \<Rightarrow> ret u) (\<lambda>_. log_event StateReset)))"

section \<open>Which backups can be restored\<close>

definition uses_improved_dr :: "restore_env \<Rightarrow> bool" where
  "uses_improved_dr D \<longleftrightarrow> de_velero_backup D \<and> de_velero_restore D"

text \<open>None for a backup that can be restored, else the reason.\<close>

definition restorable_app_version :: "restore_env \<Rightarrow> velero_backup \<Rightarrow> binary_release \<Rightarrow> string option" where
  "restorable_app_version D b r = (case annotation b ''kots.io/apps-versions'' of
      None \<Rightarrow> Some ''is missing the kots.io/apps-versions annotation''
    | Some s \<Rightarrow> (case de_parse_apps D s of
        Ok apps \<Rightarrow>
          if apps = [] then Some ''has no applications''
          else if length apps > 1 then Some ''has more than one application''
          else (case map_of apps (br_app_slug r) of
              None \<Rightarrow> Some (''does not contain the '' @ quote_str (br_app_slug r) @ '' application'')
            | Some label \<Rightarrow> if label \<noteq> br_version_label r
                then Some (''has a different app version ('' @ quote_str label @ '') than the current version ('' @
                  quote_str (br_version_label r) @ '')'')
                else None)
      | _ \<Rightarrow> Some ''unable to json parse kots.io/apps-versions annotation''))"

definition restorable_airgap :: "velero_backup \<Rightarrow> bool \<Rightarrow> string option" where
  "restorable_airgap b is_airgap = (case annotation b ''kots.io/is-airgap'' of
      None \<Rightarrow> Some ''is missing the kots.io/is-airgap annotation''
    | Some v \<Rightarrow>
        if is_airgap then (if v \<noteq> ''true'' then Some ''is not an airgap backup, but the restore is configured to be airgap'' else None)
        else (if v \<noteq> ''false'' then Some ''is an airgap backup, but the restore is configured to be online'' else None))"

definition restorable_network :: "restore_env \<Rightarrow> velero_backup \<Rightarrow> k0s_config option \<Rightarrow> string option" where
  "restorable_network D b cfg = (case (annotation b ''kots.io/embedded-cluster-pod-cidr'', Option.bind cfg cfg_network) of
      (Some pod, Some net) \<Rightarrow>
        let service = annotation_or_empty b ''kots.io/embedded-cluster-service-cidr''
        in if (net_pod_cidr net \<noteq> [] \<or> net_service_cidr net \<noteq> []) \<and>
              (pod \<noteq> net_pod_cidr net \<or> service \<noteq> net_service_cidr net)
           then (case networks_are_adjacent_and_same_size (ie_netlib (de_env D)) pod service of
               Ok (True, supernet) \<Rightarrow> Some (''has a different network configuration than the current cluster. Please rerun with '' @
                   [CHR 0x27] @ ''--cidr '' @ supernet @ [CHR 0x27] @ ''.'')
             | _ \<Rightarrow> Some (''has a different network configuration than the current cluster. Please rerun with '' @
                   [CHR 0x27] @ ''--pod-cidr '' @ pod @ '' --service-cidr '' @ service @ [CHR 0x27] @ ''.''))
           else None
    | _ \<Rightarrow> None)"

definition restorable_data_dir :: "velero_backup \<Rightarrow> runtime_config_spec \<Rightarrow> string option" where
  "restorable_data_dir b rc =
     (let v = annotation_or_empty b ''kots.io/embedded-cluster-data-dir'' in
      if v \<noteq> [] \<and> v \<noteq> ec_home_directory rc
      then Some (''has a different data directory than the current cluster. Please rerun with '' @ [CHR 0x27] @
        ''--data-dir '' @ v @ [CHR 0x27] @ ''.'')
      else None)"

fun first_some :: "'a option list \<Rightarrow> 'a option" where
  "first_some [] = None"
| "first_some (None # xs) = first_some xs"
| "first_some (Some x # xs) = Some x"

definition is_backup_restorable :: "restore_env \<Rightarrow> velero_backup \<Rightarrow> binary_release \<Rightarrow> bool \<Rightarrow> k0s_config option \<Rightarrow>
    runtime_config_spec \<Rightarrow> string option" where
  "is_backup_restorable D b r is_airgap cfg rc =
     (let version = ie_version (de_env D); v = trim_v (annotation_or_empty b ''kots.io/embedded-cluster-version'') in
      if annotation_or_empty b BackupIsECAnnotation \<noteq> ''true'' then Some ''is not an embedded cluster backup''
      else if v \<noteq> trim_v version then Some (''has a different embedded cluster version ('' @ quote_str v @
        '') than the current version ('' @ quote_str version @ '')'')
      else if bk_phase b \<noteq> ''Completed'' then Some (''has a status of '' @ quote_str (bk_phase b))
      else first_some [restorable_app_version D b r, restorable_airgap b is_airgap, restorable_network D b cfg,
        restorable_data_dir b rc])"

definition is_replicated_backup_restorable :: "restore_env \<Rightarrow> replicated_backup \<Rightarrow> binary_release \<Rightarrow> bool \<Rightarrow> k0s_config option \<Rightarrow>
    runtime_config_spec \<Rightarrow> string option" where
  "is_replicated_backup_restorable D g r is_airgap cfg rc =
     (if get_expected_backup_count g \<noteq> int (length g)
      then Some (''has a different number of backups ('' @ show_nat (length g) @ '') than the expected number ('' @
        show_int (get_expected_backup_count g) @ '')'')
      else case get_app_backup g of None \<Rightarrow> Some ''missing app backup''
      | Some a \<Rightarrow>
          if get_instance_backup_type a = ''app'' \<and> \<not> uses_improved_dr D then Some ''app backup found but improved dr is not enabled''
          else if get_instance_backup_type a = ''legacy'' \<and> uses_improved_dr D then Some ''legacy backup found but improved dr is enabled''
          else first_some (map (\<lambda>b. is_backup_restorable D b r is_airgap cfg rc) g))"

definition is_ha_of :: "string option \<Rightarrow> bool outcome" where
  "is_ha_of v = (case v of None \<Rightarrow> Err (EMsg ''high availability annotation not found in backup'') | Some ha \<Rightarrow> Ok (ha = ''true''))"

definition is_ha_replicated_backup :: "replicated_backup \<Rightarrow> bool outcome" where
  "is_ha_replicated_backup g = is_ha_of (get_annotation g ''kots.io/embedded-cluster-is-ha'')"

definition is_ha_backup :: "velero_backup \<Rightarrow> bool outcome" where
  "is_ha_backup b = is_ha_of (annotation b ''kots.io/embedded-cluster-is-ha'')"

section \<open>Finding the backups\<close>

definition get_k0s_config_from_disk :: "(cli_world, k0s_config) call" where
  "get_k0s_config_from_disk = wrap ''unable to read k0s config file'' (cli_api (\<lambda>w. case cw_k0s_file w of
      None \<Rightarrow> (Err (ENotExist ''/etc/k0s/k0s.yaml''), w) | Some cfg \<Rightarrow> (Ok cfg, w)))"

definition fully_synced :: "replicated_backup \<Rightarrow> bool" where
  "fully_synced g \<longleftrightarrow> get_expected_backup_count g = int (length g)"

fun list_backups_tries :: "restore_env \<Rightarrow> nat \<Rightarrow> (cli_world, replicated_backup list) call" where
  "list_backups_tries D 0 = throw (EMsg ''timed out waiting for backups to become available'')"
| "list_backups_tries D (Suc n) =
     bind (wrap ''unable to list backups'' (list_replicated_backups (de_arrange D))) (\<lambda>gs.
     if list_ex fully_synced gs then ret gs
     else bind (modify (de_tick D)) (\<lambda>_. list_backups_tries D n))"

definition list_backups_with_timeout :: "restore_env \<Rightarrow> nat \<Rightarrow> (cli_world, replicated_backup list) call" where
  "list_backups_with_timeout D tries = list_backups_tries D (if tries = 0 then 1 else tries)"

definition invalid_backups_error :: "(replicated_backup \<times> string) list \<Rightarrow> string" where
  "invalid_backups_error bad =
     (let reasons = join_str [CHR 0x0A] (map (\<lambda>(g, reason). quote_str (get_name g) @ '' '' @ reason) bad)
      in [CHR 0x0A] @ (if length bad = 1 then ''Found 1 backup, but it is not restorable:''
          else ''Found '' @ show_nat (length bad) @ '' backups, but none are restorable:'') @ [CHR 0x0A] @ reasons @ [CHR 0x0A])"

definition wait_for_backups :: "restore_env \<Rightarrow> k0s_config \<Rightarrow> runtime_config_spec \<Rightarrow> bool \<Rightarrow> (cli_world, replicated_backup list) call" where
  "wait_for_backups D cfg rc is_airgap = (case ie_release (de_env D) of
      None \<Rightarrow> throw (EMsg ''no release found in binary'')
    | Some r \<Rightarrow> bind (list_backups_with_timeout D 30) (\<lambda>gs.
        let reason = (\<lambda>g. is_replicated_backup_restorable D g r is_airgap (Some cfg) rc);
            good = filter (\<lambda>g. reason g = None) gs
        in if good = [] then throw (EMsg (invalid_backups_error (map (\<lambda>g. (g, the (reason g))) gs))) else ret good))"

fun pick_from :: "replicated_backup option \<Rightarrow> replicated_backup list \<Rightarrow> replicated_backup option" where
  "pick_from latest [] = latest"
| "pick_from None (g # gs) = pick_from (Some g) gs"
| "pick_from (Some l) (g # gs) =
     pick_from (Some (if get_completion_timestamp g > get_completion_timestamp l then g else l)) gs"

definition pick_backup_to_restore :: "replicated_backup list \<Rightarrow> replicated_backup option" where
  "pick_backup_to_restore gs = pick_from None gs"

definition get_backup_from_restore_state :: "restore_env \<Rightarrow> bool \<Rightarrow> (cli_world, replicated_backup option) call" where
  "get_backup_from_restore_state D is_airgap =
     bind (wrap ''unable to create kube client'' kube_client) (\<lambda>_.
     bind (wrap ''unable to get restore state'' (on_kube (get_in config_maps restore_state_key))) (\<lambda>cm.
     case map_of (cm_data cm) ''backup-name'' of
       None \<Rightarrow> ret None
     | Some n \<Rightarrow> if n = [] then ret None else
         bind (get_replicated_backup n) (\<lambda>g.
         case ie_release (de_env D) of None \<Rightarrow> throw (EMsg ''no release found in binary'')
         | Some r \<Rightarrow>
             bind (wrap ''unable to get k0s config from disk'' get_k0s_config_from_disk) (\<lambda>cfg.
             bind (gets cw_rc) (\<lambda>rc.
             case is_replicated_backup_restorable D g r is_airgap (Some cfg) rc of
               Some reason \<Rightarrow> throw (EMsg (''backup '' @ quote_str (get_name g) @ '' '' @ reason))
             | None \<Rightarrow> ret (Some g))))))"

section \<open>The backup store\<close>

definition s3_has_data :: "s3_store \<Rightarrow> bool" where
  "s3_has_data s \<longleftrightarrow> s3_endpoint s \<noteq> [] \<and> s3_region s \<noteq> [] \<and> s3_bucket s \<noteq> [] \<and> s3_access_key_id s \<noteq> [] \<and>
     s3_secret_access_key s \<noteq> []"

text \<open>The endpoint is asked for until it has a scheme: as long as there are answers.\<close>

fun ask_endpoint :: "restore_env \<Rightarrow> (err + string) list \<Rightarrow> (cli_world, string) call" where
  "ask_endpoint D [] = throw (EWrap ''failed to get input'' (EMsg ''EOF''))"
| "ask_endpoint D (a # rest) = bind (modify (\<lambda>w. w\<lparr>cw_inputs := rest\<rparr>)) (\<lambda>_. case a of
      Inl e \<Rightarrow> throw (EWrap ''failed to get input'' e)
    | Inr s \<Rightarrow> let e = de_trim_space D s in
        if prefix ''http://'' e \<or> prefix ''https://'' e then ret e else ask_endpoint D rest)"

definition ask_trimmed :: "restore_env \<Rightarrow> string \<Rightarrow> (cli_world, string) call" where
  "ask_trimmed D what = bind (wrap (''failed to get '' @ what) input) (\<lambda>s. ret (de_trim_space D s))"

definition prompt_for_s3_store :: "restore_env \<Rightarrow> s3_store \<Rightarrow> (cli_world, s3_store) call" where
  "prompt_for_s3_store D s =
     bind (bind (gets cw_inputs) (ask_endpoint D)) (\<lambda>endpoint.
     bind (ask_trimmed D ''input'') (\<lambda>region.
     bind (ask_trimmed D ''input'') (\<lambda>bucket.
     bind (ask_trimmed D ''input'') (\<lambda>pre.
     bind (ask_trimmed D ''input'') (\<lambda>key.
     bind (ask_trimmed D ''password'') (\<lambda>secret.
     ret (s\<lparr>s3_endpoint := endpoint, s3_region := region, s3_bucket := bucket, s3_prefix := pre,
       s3_access_key_id := key, s3_secret_access_key := secret\<rparr>)))))))"

text \<open>The number of common prefixes the store lists below \<open>backups\<close> is a parameter.\<close>

definition validate_s3_store :: "restore_env \<Rightarrow> s3_store \<Rightarrow> (cli_world, unit) call" where
  "validate_s3_store D s = bind (lift (de_store_prefixes D s)) (\<lambda>n.
     if n = 0 then throw (EMsg (''no backups found in '' @ path_join (s3_bucket s) (s3_prefix s))) else ret ())"

section \<open>Waiting for a velero restore\<close>

definition get_velero_restore :: "string \<Rightarrow> (cli_world, velero_restore) call" where
  "get_velero_restore n = cli_api (\<lambda>w. case List.find (\<lambda>r. vr_name r = n) (cw_restores w) of
      None \<Rightarrow> (Err (ENotFound n), w) | Some r \<Rightarrow> (Ok r, w))"

definition create_velero_restore :: "velero_restore \<Rightarrow> (cli_world, unit) call" where
  "create_velero_restore r = cli_api (\<lambda>w. case List.find (\<lambda>x. vr_name x = vr_name r) (cw_restores w) of
      Some _ \<Rightarrow> (Err (EAlreadyExists (vr_name r)), w)
    | None \<Rightarrow> (Ok (), w\<lparr>cw_restores := cw_restores w @ [r], cw_log := cw_log w @ [RestoreCreated (vr_name r)]\<rparr>))"

definition still_waiting :: "(cli_world, 'a) call" where
  "still_waiting = lift (Panic ''still waiting'')"

text \<open>An error comes with the restore it was found in, where there is one.\<close>

fun velero_wait :: "restore_env \<Rightarrow> nat \<Rightarrow> string \<Rightarrow> (cli_world, (velero_restore option \<times> err) + velero_restore) call" where
  "velero_wait D 0 n = still_waiting"
| "velero_wait D (Suc k) n =
     bind (attempt (wrap ''unable to get restore'' (get_velero_restore n))) (\<lambda>r. case r of
       Inl e \<Rightarrow> ret (Inl (None, e))
     | Inr v \<Rightarrow>
         if vr_phase v = ''Completed'' then ret (Inr v)
         else if vr_phase v = ''Failed'' then ret (Inl (Some v, EMsg ''restore failed''))
         else if vr_phase v = ''PartiallyFailed'' then ret (Inl (Some v, EMsg ''restore partially failed''))
         else bind (modify (de_tick D)) (\<lambda>_. velero_wait D k n))"

definition wait_for_velero_restore_completed :: "restore_env \<Rightarrow> nat \<Rightarrow> string \<Rightarrow>
    (cli_world, (velero_restore option \<times> err) + velero_restore) call" where
  "wait_for_velero_restore_completed D k n =
     bind (attempt (wrap ''unable to create kube client'' kube_client)) (\<lambda>r. case r of
       Inl e \<Rightarrow> ret (Inl (None, e)) | Inr _ \<Rightarrow> velero_wait D k n)"

text \<open>How many of the checks succeed; the first that fails to be made ends the try with its error.\<close>

fun count_ready :: "(string \<times> (kube, bool) call) list \<Rightarrow> nat \<Rightarrow> (kube, err + nat) call" where
  "count_ready [] n = ret (Inr n)"
| "count_ready ((name, check) # cs) n = bind (attempt check) (\<lambda>r. case r of
      Inl e \<Rightarrow> ret (Inl (EMsg (''check status of '' @ name @ '': '' @ err_text e)))
    | Inr b \<Rightarrow> count_ready cs (if b then Suc n else n))"

definition all_ready_try :: "(string \<times> (kube, bool) call) list \<Rightarrow> err option \<Rightarrow> (kube, err option + unit) call" where
  "all_ready_try cs lst = bind (count_ready cs 0) (\<lambda>r. case r of
      Inl e \<Rightarrow> ret (Inl (Some e))
    | Inr n \<Rightarrow> ret (if n = length cs then Inr () else Inl lst))"

definition restore_wait_ready :: "'v lib \<Rightarrow> (string \<times> (kube, bool) call) list \<Rightarrow> (kube, unit) call" where
  "restore_wait_ready L cs = bind (poll 60 (lib_tick L) (all_ready_try cs) None) (\<lambda>r. case r of
      Inr u \<Rightarrow> ret u | Inl (Some e) \<Rightarrow> throw e | Inl None \<Rightarrow> throw (EMsg ''timed out waiting for the condition''))"

definition restore_wait_for_seaweedfs_ready :: "'v lib \<Rightarrow> string \<Rightarrow> (kube, unit) call" where
  "restore_wait_for_seaweedfs_ready L ns = restore_wait_ready L
     (map (\<lambda>n. (n, is_stateful_set_ready ns n)) [''seaweedfs-filer'', ''seaweedfs-master'', ''seaweedfs-volume''])"

definition restore_wait_for_admin_console_ready :: "'v lib \<Rightarrow> string \<Rightarrow> (kube, unit) call" where
  "restore_wait_for_admin_console_ready L ns = restore_wait_ready L
     [(''kotsadm'', is_deployment_ready ns ''kotsadm''), (''kotsadm-rqlite'', is_stateful_set_ready ns ''kotsadm-rqlite'')]"

definition component_ready :: "'v lib \<Rightarrow> bool \<Rightarrow> dr_component \<Rightarrow> (cli_world, unit) call" where
  "component_ready L is_v2 c = (let client = wrap ''unable to create kube client'' kube_client in
     case c of
       DrAdminConsole \<Rightarrow> bind client (\<lambda>_. wrap ''unable to wait for admin console''
         (on_kube (restore_wait_for_admin_console_ready L KotsadmNamespace)))
     | DrSeaweedFS \<Rightarrow> bind client (\<lambda>_. wrap ''unable to wait for seaweedfs to be ready''
         (on_kube (restore_wait_for_seaweedfs_ready L ''seaweedfs'')))
     | DrRegistry \<Rightarrow> bind client (\<lambda>_. wrap ''unable to wait for registry to be ready''
         (on_kube (wait_for_deployment L 60 ''registry'' ''registry'')))
     | DrECO \<Rightarrow> bind client (\<lambda>_. if is_v2
         then wrap ''unable to wait for embedded cluster operator to be ready''
           (on_kube (wait_for_deployment L 60 ''embedded-cluster'' ''embedded-cluster-operator''))
         else wrap ''unable to wait for installation to be ready'' (on_kube (wait_for_installation L True)))
     | _ \<Rightarrow> ret ())"

definition wait_for_dr_component :: "'v lib \<Rightarrow> restore_env \<Rightarrow> nat \<Rightarrow> dr_component \<Rightarrow> string \<Rightarrow> bool \<Rightarrow> (cli_world, unit) call" where
  "wait_for_dr_component L D k c n is_v2 = bind (wait_for_velero_restore_completed D k n) (\<lambda>r. case r of
      Inl (Some v, e) \<Rightarrow> throw (EWrap (''restore failed with '' @ show_int (vr_errors v) @ '' errors and '' @
        show_int (vr_warnings v) @ '' warnings'') e)
    | Inl (None, e) \<Rightarrow> throw (EWrap ''unable to wait for velero restore to complete'' e)
    | Inr _ \<Rightarrow> component_ready L is_v2 c)"

section \<open>Creating a velero restore\<close>

definition get_registry_ip :: "velero_backup \<Rightarrow> string outcome" where
  "get_registry_ip b = (case annotation b ''kots.io/is-airgap'' of
      None \<Rightarrow> Err (EMsg ''unable to get airgap status from backup'')
    | Some v \<Rightarrow> if v \<noteq> ''true'' then Ok []
        else (case annotation b ''kots.io/embedded-registry'' of
            None \<Rightarrow> Err (EMsg ''embedded registry service IP annotation not found in backup'')
          | Some host \<Rightarrow> Ok (hd (split_on CHR '':'' host))))"

definition get_seaweedfs_s3_ip :: "velero_backup \<Rightarrow> string outcome" where
  "get_seaweedfs_s3_ip b = (case annotation b ''kots.io/is-airgap'' of
      None \<Rightarrow> Err (EMsg ''unable to get airgap status from backup'')
    | Some v \<Rightarrow> if v \<noteq> ''true'' then Ok []
        else bindO (wrapO ''unable to check high availability status'' (is_ha_backup b)) (\<lambda>ha.
          if \<not> ha then Ok []
          else (case annotation b ''kots.io/embedded-cluster-seaweedfs-s3-ip'' of
              None \<Rightarrow> Err (EMsg ''unable to get seaweedfs s3 service IP from backup'') | Some ip \<Rightarrow> Ok ip)))"

definition resource_modifiers_key :: nsname where
  "resource_modifiers_key = (''velero'', ''restore-resource-modifiers'')"

definition ensure_restore_resource_modifiers :: "restore_env \<Rightarrow> velero_backup \<Rightarrow> (cli_world, unit) call" where
  "ensure_restore_resource_modifiers D b =
     bind (wrap ''unable to get registry service IP from backup'' (lift (get_registry_ip b))) (\<lambda>registry.
     bind (wrap ''unable to get seaweedfs s3 service IP from backup'' (lift (get_seaweedfs_s3_ip b))) (\<lambda>s3.
     let yaml = replace_first (replace_first (de_modifiers_yaml D) ''__REGISTRY_SERVICE_IP__'' registry) ''__SEAWEEDFS_S3_SERVICE_IP__'' s3 in
     bind (wrap ''unable to create kube client'' kube_client) (\<lambda>_.
     wrap ''unable to create config map'' (on_kube (ignore_already_exists (create_in config_maps config_maps_update
       resource_modifiers_key \<lparr>cm_annotations = [], cm_data = [(''resource-modifiers.yaml'', yaml)]\<rparr>))))))"

definition copy_key :: "string \<Rightarrow> (string \<times> string) list \<Rightarrow> (string \<times> string) list \<Rightarrow> (string \<times> string) list" where
  "copy_key k source target = (case map_of source k of None \<Rightarrow> target | Some v \<Rightarrow> AList.update k v target)"

definition ensure_improved_dr_metadata :: "velero_backup \<Rightarrow> velero_restore \<Rightarrow> velero_restore" where
  "ensure_improved_dr_metadata b r = r
     \<lparr>vr_labels := copy_key InstanceBackupNameLabel (bk_labels b) (vr_labels r),
      vr_annotations := copy_key InstanceBackupCountAnnotation (bk_annotations b)
        (copy_key InstanceBackupTypeAnnotation (bk_annotations b) (vr_annotations r))\<rparr>"

text \<open>Which resources of the backup belong to a component.\<close>

fun restore_labels :: "dr_component \<Rightarrow> (string \<times> string) list" where
  "restore_labels DrAdminConsole = [(''replicated.com/disaster-recovery-chart'', component_text DrAdminConsole)]"
| "restore_labels DrECO = [(''replicated.com/disaster-recovery-chart'', component_text DrECO)]"
| "restore_labels DrECInstall = [(''replicated.com/disaster-recovery'', component_text DrECInstall)]"
| "restore_labels DrApp = [(''replicated.com/disaster-recovery'', component_text DrApp)]"
| "restore_labels DrSeaweedFS = [(''app.kubernetes.io/name'', ''seaweedfs'')]"
| "restore_labels DrRegistry = [(''app'', ''docker-registry'')]"

definition component_restore :: "velero_backup \<Rightarrow> dr_component \<Rightarrow> string \<Rightarrow> velero_restore" where
  "component_restore b c name = ensure_improved_dr_metadata b
     \<lparr>vr_name = name, vr_labels = [], vr_annotations = [(BackupIsECAnnotation, ''true'')], vr_backup_name = bk_name b,
      vr_selector = restore_labels c, vr_restore_pvs = Some True, vr_cluster_resources = Some True,
      vr_modifier = Some (''ConfigMap'', snd resource_modifiers_key), vr_rest = [], vr_phase = [], vr_errors = 0, vr_warnings = 0\<rparr>"

definition app_restore :: "velero_backup \<Rightarrow> velero_restore \<Rightarrow> string \<Rightarrow> velero_restore" where
  "app_restore b r name = (ensure_improved_dr_metadata b
     (r\<lparr>vr_name := name, vr_annotations := AList.update BackupIsECAnnotation ''true'' (vr_annotations r)\<rparr>))
     \<lparr>vr_backup_name := bk_name b\<rparr>"

text \<open>Creating a restore under a name unless one is there, whatever has become of it.\<close>

definition ensure_velero_restore :: "string \<Rightarrow> (cli_world, unit) call \<Rightarrow> velero_restore \<Rightarrow> (cli_world, unit) call" where
  "ensure_velero_restore name prepare r =
     bind (attempt (get_velero_restore name)) (\<lambda>found. case found of
       Inr _ \<Rightarrow> ret ()
     | Inl e \<Rightarrow> if \<not> is_not_found e then throw (EWrap ''unable to get restore'' e)
         else bind prepare (\<lambda>_. wrap ''unable to create restore'' (create_velero_restore r)))"

definition restore_app_from_backup :: "'v lib \<Rightarrow> restore_env \<Rightarrow> nat \<Rightarrow> velero_backup \<Rightarrow> velero_restore \<Rightarrow> bool \<Rightarrow> (cli_world, unit) call" where
  "restore_app_from_backup L D k b r is_v2 = (let name = bk_name b @ ''.restore'' in
     bind (wrap ''unable to create kube client'' kube_client) (\<lambda>_.
     bind (ensure_velero_restore name (ret ()) (app_restore b r name)) (\<lambda>_.
     wait_for_dr_component L D k DrApp name is_v2)))"

definition restore_from_backup :: "'v lib \<Rightarrow> restore_env \<Rightarrow> nat \<Rightarrow> velero_backup \<Rightarrow> dr_component \<Rightarrow> bool \<Rightarrow> (cli_world, unit) call" where
  "restore_from_backup L D k b c is_v2 = (let name = bk_name b @ ''.'' @ component_text c in
     bind (wrap ''unable to create kube client'' kube_client) (\<lambda>_.
     bind (ensure_velero_restore name
       (wrap ''unable to ensure restore resource modifiers'' (ensure_restore_resource_modifiers D b))
       (component_restore b c name)) (\<lambda>_.
     wait_for_dr_component L D k c name is_v2)))"

definition restore_from_replicated_backup :: "'v lib \<Rightarrow> restore_env \<Rightarrow> nat \<Rightarrow> replicated_backup \<Rightarrow> dr_component \<Rightarrow> bool \<Rightarrow>
    (cli_world, unit) call" where
  "restore_from_replicated_backup L D k g c is_v2 =
     (if c = DrApp \<and> uses_improved_dr D
      then (case get_app_backup g of
          None \<Rightarrow> throw (EMsg ''unable to find app backup'')
        | Some b \<Rightarrow> bind (wrap ''failed to get restore resource from backup'' (lift (get_restore (de_decode_restore D) g))) (\<lambda>r.
            wrap ''failed to restore app from backup'' (restore_app_from_backup L D k b r is_v2)))
      else (case get_infra_backup g of
          None \<Rightarrow> throw (EMsg ''unable to find infra backup'')
        | Some b \<Rightarrow> wrap ''failed to restore infra from backup'' (restore_from_backup L D k b c is_v2)))"

section \<open>Nodes and the runtime configuration\<close>

text \<open>
  The question is asked again until the answer is \<open>continue\<close> and, for a highly available backup, there
  are three control planes: as long as there are answers. The cluster moves while the user thinks.
\<close>

fun ask_continue :: "restore_env \<Rightarrow> bool \<Rightarrow> (err + string) list \<Rightarrow> (cli_world, unit) call" where
  "ask_continue D ha [] = throw (EWrap ''failed to get confirmation'' (EMsg ''EOF''))"
| "ask_continue D ha (a # rest) = bind (modify (\<lambda>w. (de_tick D w)\<lparr>cw_inputs := rest\<rparr>)) (\<lambda>_. case a of
      Inl e \<Rightarrow> throw (EWrap ''failed to get confirmation'' e)
    | Inr p \<Rightarrow> if p \<noteq> ''continue'' then ask_continue D ha rest
        else if ha then bind (wrap ''unable to check control plane nodes'' (on_kube num_of_control_plane_nodes)) (\<lambda>n.
          if n < 3 then ask_continue D ha rest else ret ())
        else ret ())"

definition wait_for_additional_nodes :: "'v lib \<Rightarrow> restore_env \<Rightarrow> bool \<Rightarrow> (cli_world, unit) call" where
  "wait_for_additional_nodes L D ha =
     bind (wrap ''unable to create kube client'' kube_client) (\<lambda>_.
     bind (bind (gets cw_inputs) (ask_continue D ha)) (\<lambda>_.
     wrap ''unable to wait for nodes'' (on_kube (wait_for_nodes L))))"

text \<open>
  The client decodes the object it reads into the struct of the caller, which keeps what is absent: the
  empty runtime configuration put into it stays, where the object has none.
\<close>

definition set_mirror_port :: "int \<Rightarrow> installation \<Rightarrow> installation" where
  "set_mirror_port port i = i\<lparr>in_spec := (in_spec i)\<lparr>runtime_config :=
     Some ((rc_or_empty (in_spec i))\<lparr>local_artifact_mirror_port := port\<rparr>)\<rparr>\<rparr>"

definition restore_reconcile_installation :: "'v lib \<Rightarrow> (cli_world, unit) call" where
  "restore_reconcile_installation L =
     bind (wrap ''create kube client'' kube_client) (\<lambda>_.
     bind (wrap ''get latest installation'' (on_kube (get_latest_installation L))) (\<lambda>i.
     bind (gets cw_rc) (\<lambda>rc.
     bind (wrap ''update installation'' (on_kube
       (update_installation L i (set_mirror_port (rc_local_artifact_mirror_port rc))))) (\<lambda>i.
     bind (wrap ''update installation status'' (on_kube
       (set_installation_state L i InstallationStateKubernetesInstalled ''Kubernetes installed'' []))) (\<lambda>_.
     ret ())))))"

definition override_runtime_config_from_backup :: "restore_env \<Rightarrow> int \<Rightarrow> replicated_backup \<Rightarrow> (cli_world, unit) call" where
  "override_runtime_config_from_backup D flag_port g =
     (if flag_port = 0 then ret ()
      else (case get_annotation g ''kots.io/embedded-cluster-local-artifact-mirror-port'' of
          None \<Rightarrow> ret ()
        | Some v \<Rightarrow> if v = [] then ret ()
            else bind (wrap ''parse local artifact mirror port'' (lift (de_parse_port D v))) (\<lambda>port.
              modify (\<lambda>w. w\<lparr>cw_rc := (cw_rc w)\<lparr>local_artifact_mirror_port := port\<rparr>\<rparr>))))"

definition get_runtime_config_from_installation :: "'v lib \<Rightarrow> (cli_world, runtime_config_spec option) call" where
  "get_runtime_config_from_installation L =
     bind (wrap ''unable to create kube client'' kube_client) (\<lambda>_.
     bind (wrap ''unable to get latest installation'' (on_kube (get_latest_installation L))) (\<lambda>i.
     ret (runtime_config (in_spec i))))"


definition update_local_artifact_mirror_service :: "(string \<Rightarrow> cli_world \<Rightarrow> cli_world) \<Rightarrow> (cli_world, unit) call" where
  "update_local_artifact_mirror_service E =
     bind (wrap ''failed to write local artifact mirror environment file'' (host_step E ''write local artifact mirror drop-in file'')) (\<lambda>_.
     bind (wrap ''unable to get reload systemctl daemon'' (host_step E ''systemctl daemon-reload'')) (\<lambda>_.
     wrap ''unable to restart the local artifact mirror service'' (host_step E ''systemctl restart local-artifact-mirror'')))"

section \<open>The steps\<close>

definition restore_options_of :: "install_env \<Rightarrow> runtime_config_spec \<Rightarrow> restore_options" where
  "restore_options_of V rc = \<lparr>rst_embedded_config = ie_embedded_config V, rst_end_user_config = None, rst_proxy = rc_proxy rc,
     rst_host_ca_path = host_ca_bundle_path rc, rst_data_dir = ec_home_directory rc,
     rst_openebs_dir = ec_openebs_local_sub_dir rc, rst_k0s_dir = ec_k0s_sub_dir rc\<rparr>"

definition install_addons_for_restore :: "install_env \<Rightarrow> (cli_world, unit) call" where
  "install_addons_for_restore V = bind (gets cw_rc) (\<lambda>rc. wrap ''install addons'' (on_kube
     (addons_restore (cli_addons V (release_domains V (ie_embedded_config V)) True) (restore_options_of V rc))))"

definition configure_store_step :: "s3_store \<Rightarrow> string" where
  "configure_store_step s = join_str '' '' [''kots velero configure-other-s3'', s3_endpoint s, s3_region s, s3_bucket s, s3_prefix s]"

definition trim_slash :: "string \<Rightarrow> string" where
  "trim_slash s = (case s of [] \<Rightarrow> [] | c # r \<Rightarrow> if c = CHR ''/'' then r else s)"

definition run_restore_step_new :: "'v lib \<Rightarrow> (string \<Rightarrow> cli_world \<Rightarrow> cli_world) \<Rightarrow> restore_env \<Rightarrow> cli_flags \<Rightarrow>
    install_config \<Rightarrow> s3_store \<Rightarrow> bool \<Rightarrow> (cli_world, unit) call" where
  "run_restore_step_new L E D f ic s0 skip_validation = (let V = de_env D in
     bind verify_no_installation (\<lambda>_.
     bind (if s3_has_data s0 then ret s0 else wrap ''failed to prompt for backup store'' (prompt_for_s3_store D s0)) (\<lambda>s.
     let s = s\<lparr>s3_prefix := trim_slash (s3_prefix s)\<rparr> in
     bind (if skip_validation then ret () else wrap ''unable to validate backup store'' (validate_s3_store D s)) (\<lambda>_.
     bind (wrap ''configure host'' (host_step E ''configure host'')) (\<lambda>_.
     bind (checked_preflights ''unable to run install preflights'' (run_install_preflights V f ic)) (\<lambda>_.
     bind (install_and_start_cluster L E V f ic) (\<lambda>_.
     bind (wrap ''unable to create kube client'' kube_client) (\<lambda>_.
     bind (wrap ''unable to create metadata client'' kube_client) (\<lambda>_.
     bind (wrap ''unable to create helm client'' (cli_api (ret ()))) (\<lambda>_.
     bind (install_addons_for_restore V) (\<lambda>_.
     host_step E (configure_store_step s))))))))))))"

definition run_restore_step_confirm_backup :: "restore_env \<Rightarrow> install_config \<Rightarrow> (cli_world, replicated_backup option) call" where
  "run_restore_step_confirm_backup D ic =
     bind (wrap ''unable to create kube client'' kube_client) (\<lambda>_.
     bind (wrap ''unable to get k0s config from disk'' get_k0s_config_from_disk) (\<lambda>cfg.
     bind (gets cw_rc) (\<lambda>rc.
     bind (wait_for_backups D cfg rc (ic_is_airgap ic)) (\<lambda>gs.
     bind (lift (deref (pick_backup_to_restore gs))) (\<lambda>g.
     bind (wrap ''failed to get confirmation'' confirm) (\<lambda>should_restore.
     ret (if should_restore then Some g else None)))))))"

definition run_restore_ec_install :: "'v lib \<Rightarrow> (string \<Rightarrow> cli_world \<Rightarrow> cli_world) \<Rightarrow> restore_env \<Rightarrow> nat \<Rightarrow> replicated_backup \<Rightarrow>
    (cli_world, unit) call" where
  "run_restore_ec_install L E D k g =
     bind (wrap ''unable to restore from backup'' (restore_from_replicated_backup L D k g DrECInstall True)) (\<lambda>_.
     bind (wrap ''unable to update installation from backup'' (restore_reconcile_installation L)) (\<lambda>_.
     wrap ''unable to update local artifact mirror service from backup'' (update_local_artifact_mirror_service E)))"

definition run_restore_wait_for_nodes :: "'v lib \<Rightarrow> restore_env \<Rightarrow> replicated_backup \<Rightarrow> (cli_world, unit) call" where
  "run_restore_wait_for_nodes L D g =
     bind (lift (is_ha_replicated_backup g)) (\<lambda>ha. wait_for_additional_nodes L D ha)"

definition run_restore_seaweedfs :: "'v lib \<Rightarrow> restore_env \<Rightarrow> nat \<Rightarrow> install_config \<Rightarrow> replicated_backup \<Rightarrow> (cli_world, unit) call" where
  "run_restore_seaweedfs L D k ic g =
     bind (lift (is_ha_replicated_backup g)) (\<lambda>ha.
     if \<not> ic_is_airgap ic \<or> \<not> ha then ret () else restore_from_replicated_backup L D k g DrSeaweedFS True)"

definition run_restore_registry :: "'v lib \<Rightarrow> (string \<Rightarrow> cli_world \<Rightarrow> cli_world) \<Rightarrow> restore_env \<Rightarrow> nat \<Rightarrow> install_config \<Rightarrow>
    replicated_backup \<Rightarrow> (cli_world, unit) call" where
  "run_restore_registry L E D k ic g =
     (if \<not> ic_is_airgap ic then ret ()
      else bind (restore_from_replicated_backup L D k g DrRegistry True) (\<lambda>_.
        case get_annotation g ''kots.io/embedded-registry'' of
          None \<Rightarrow> throw (EMsg ''unable to read registry address from backup'')
        | Some a \<Rightarrow> wrap ''failed to add insecure registry'' (host_step E (''add insecure registry '' @ a))))"

definition restore_ha_options :: "install_config \<Rightarrow> runtime_config_spec \<Rightarrow> installation \<Rightarrow> enable_ha_options" where
  "restore_ha_options ic rc i =
     \<lparr>ha_cluster_id = cluster_id (in_spec i), ha_admin_console_port = rc_admin_console_port rc, ha_is_airgap = air_gap (in_spec i),
      ha_is_multi_node = (case spec_license_info (in_spec i) of None \<Rightarrow> False | Some l \<Rightarrow> is_multi_node_enabled l),
      ha_embedded_config = spec_config (in_spec i), ha_end_user_config = ic_end_user ic, ha_proxy = rc_proxy rc,
      ha_host_ca_path = host_ca_bundle_path rc, ha_data_dir = ec_home_directory rc, ha_k0s_dir = ec_k0s_sub_dir rc,
      ha_seaweedfs_dir = ec_seaweedfs_sub_dir rc, ha_service_cidr = service_cidr (rc_network rc),
      ha_kotsadm_ns = KotsadmNamespace, ha_operator_images = []\<rparr>"

definition run_restore_enable_admin_console_ha :: "'v lib \<Rightarrow> restore_env \<Rightarrow> install_config \<Rightarrow> replicated_backup \<Rightarrow> (cli_world, unit) call" where
  "run_restore_enable_admin_console_ha L D ic g = (let V = de_env D in
     bind (lift (is_ha_replicated_backup g)) (\<lambda>ha.
     if \<not> ha then ret ()
     else bind (wrap ''unable to create kube client'' kube_client) (\<lambda>_.
          bind (wrap ''unable to create metadata client'' kube_client) (\<lambda>_.
          bind (wrap ''get latest installation'' (on_kube (get_latest_installation L))) (\<lambda>i.
          bind (wrap ''create helm client'' (cli_api (ret ()))) (\<lambda>_.
          bind (gets cw_rc) (\<lambda>rc.
          on_kube (enable_admin_console_ha L (cli_addons V (release_domains V (ie_embedded_config V)) False)
            (restore_ha_options ic rc i)))))))))"

definition run_restore_extensions :: "restore_env \<Rightarrow> install_config \<Rightarrow> (cli_world, unit) call" where
  "run_restore_extensions D ic =
     bind (wrap ''unable to create helm client'' (cli_api (ret ()))) (\<lambda>_.
     wrap ''unable to install extensions'' (install_cli_extensions (de_env D) (ic_is_airgap ic)))"

definition run_restore_app :: "'v lib \<Rightarrow> restore_env \<Rightarrow> nat \<Rightarrow> replicated_backup \<Rightarrow> (cli_world, unit) call" where
  "run_restore_app L D k g =
     bind (wrap ''create kube client'' kube_client) (\<lambda>_.
     bind (wrap ''get latest installation'' (on_kube (get_latest_installation L))) (\<lambda>i.
     bind (wrap ''update installation status'' (on_kube (set_installation_state L i InstallationStateInstalled ''Installed'' []))) (\<lambda>_.
     bind (restore_from_replicated_backup L D k g DrApp True) (\<lambda>_.
     wrap ''unable to reset restore state'' reset_restore_state))))"

text \<open>What a state runs once it is recorded, with the backup.\<close>

fun restore_step :: "'v lib \<Rightarrow> (string \<Rightarrow> cli_world \<Rightarrow> cli_world) \<Rightarrow> restore_env \<Rightarrow> nat \<Rightarrow> install_config \<Rightarrow> restore_state \<Rightarrow>
    replicated_backup \<Rightarrow> (cli_world, unit) call" where
  "restore_step L E D k ic RsRestoreECInstall g = run_restore_ec_install L E D k g"
| "restore_step L E D k ic RsRestoreAdminConsole g = restore_from_replicated_backup L D k g DrAdminConsole True"
| "restore_step L E D k ic RsWaitForNodes g = run_restore_wait_for_nodes L D g"
| "restore_step L E D k ic RsRestoreSeaweedFS g = run_restore_seaweedfs L D k ic g"
| "restore_step L E D k ic RsRestoreRegistry g = run_restore_registry L E D k ic g"
| "restore_step L E D k ic RsAdminConsoleEnableHA g = run_restore_enable_admin_console_ha L D ic g"
| "restore_step L E D k ic RsRestoreECO g = restore_from_replicated_backup L D k g DrECO True"
| "restore_step L E D k ic RsRestoreExtensions g = run_restore_extensions D ic"
| "restore_step L E D k ic RsRestoreApp g = run_restore_app L D k g"
| "restore_step L E D k ic _ g = ret ()"

section \<open>The state machine\<close>

record restore_args =
  ra_flags :: cli_flags
  ra_config :: install_config
  ra_store :: s3_store
  ra_skip_validation :: bool

text \<open>One case of the switch: None when the user declines the backup, else the backup the next case has.\<close>

definition restore_case :: "'v lib \<Rightarrow> (string \<Rightarrow> cli_world \<Rightarrow> cli_world) \<Rightarrow> restore_env \<Rightarrow> nat \<Rightarrow> restore_args \<Rightarrow> restore_state \<Rightarrow>
    replicated_backup option \<Rightarrow> (cli_world, replicated_backup option option) call" where
  "restore_case L E D k A s b =
     (if s = RsNew then
        bind (run_restore_step_new L E D (ra_flags A) (ra_config A) (ra_store A) (ra_skip_validation A)) (\<lambda>_. ret (Some b))
      else if s = RsConfirmBackup then
        bind (wrap ''unable to set restore state'' (set_restore_state s [])) (\<lambda>_.
        bind (run_restore_step_confirm_backup D (ra_config A)) (\<lambda>g.
        ret (case g of None \<Rightarrow> None | Some x \<Rightarrow> Some (Some x))))
      else
        bind (lift (deref b)) (\<lambda>g.
        bind (wrap ''unable to set restore state'' (set_restore_state s (get_name g))) (\<lambda>_.
        bind (restore_step L E D k (ra_config A) s g) (\<lambda>_. ret (Some b)))))"

text \<open>Each case falls through to the next.\<close>

fun restore_cases :: "'v lib \<Rightarrow> (string \<Rightarrow> cli_world \<Rightarrow> cli_world) \<Rightarrow> restore_env \<Rightarrow> nat \<Rightarrow> restore_args \<Rightarrow> restore_state list \<Rightarrow>
    replicated_backup option \<Rightarrow> (cli_world, unit) call" where
  "restore_cases L E D k A [] b = ret ()"
| "restore_cases L E D k A (s # ss) b = bind (restore_case L E D k A s b) (\<lambda>r. case r of
      None \<Rightarrow> ret () | Some b' \<Rightarrow> restore_cases L E D k A ss b')"

definition run_switch :: "'v lib \<Rightarrow> (string \<Rightarrow> cli_world \<Rightarrow> cli_world) \<Rightarrow> restore_env \<Rightarrow> nat \<Rightarrow> restore_args \<Rightarrow> restore_state \<Rightarrow>
    replicated_backup option \<Rightarrow> (cli_world, unit) call" where
  "run_switch L E D k A s b = restore_cases L E D k A (dropWhile (\<lambda>x. x \<noteq> s) ec_restore_states) b"

definition resume_state :: "(cli_world, restore_state) call" where
  "resume_state = bind get_restore_state (\<lambda>s.
     if s = RsNew then ret RsNew
     else bind (wrap ''failed to get confirmation'' confirm) (\<lambda>resume. ret (if resume then s else RsNew)))"

definition resume_backup :: "restore_env \<Rightarrow> restore_args \<Rightarrow> restore_state \<Rightarrow> (cli_world, replicated_backup option) call" where
  "resume_backup D A s = (if s = RsNew then ret None
     else bind (wrap ''unable to resume'' (get_backup_from_restore_state D (ic_is_airgap (ra_config A)))) (\<lambda>b. case b of
         None \<Rightarrow> ret None
       | Some g \<Rightarrow> bind (wrap ''unable to override runtime config from backup''
           (override_runtime_config_from_backup D (fl_lam_port (ra_flags A)) g)) (\<lambda>_. ret (Some g))))"

definition adopt_runtime_config :: "'v lib \<Rightarrow> (cli_world, unit) call" where
  "adopt_runtime_config L = bind (attempt (get_runtime_config_from_installation L)) (\<lambda>r. case r of
      Inl _ \<Rightarrow> ret ()
    | Inr spec \<Rightarrow> bind (modify (\<lambda>w. w\<lparr>cw_rc := rc_set spec (cw_rc w)\<rparr>)) (\<lambda>_.
        wrap ''unable to write runtime config to disk'' write_runtime_config))"

definition run_restore :: "'v lib \<Rightarrow> (string \<Rightarrow> cli_world \<Rightarrow> cli_world) \<Rightarrow> restore_env \<Rightarrow> nat \<Rightarrow> restore_args \<Rightarrow> (cli_world, unit) call" where
  "run_restore L E D k A = (let V = de_env D; ic = ra_config A in
     bind (verify_channel_release V (ic_is_airgap ic) (fl_assume_yes (ra_flags A))) (\<lambda>_.
     bind (if airgap_info_of ic \<noteq> None then lift (check_airgap_matches V (airgap_info_of ic)) else ret ()) (\<lambda>_.
     bind resume_state (\<lambda>s.
     bind (resume_backup D A s) (\<lambda>b.
     bind (adopt_runtime_config L) (\<lambda>_.
     run_switch L E D k A s b))))))"

definition restore_cmd :: "'v lib \<Rightarrow> (string \<Rightarrow> cli_world \<Rightarrow> cli_world) \<Rightarrow> restore_env \<Rightarrow> nat \<Rightarrow> cmd_line \<Rightarrow> cli_flags \<Rightarrow>
    s3_store \<Rightarrow> bool \<Rightarrow> (cli_world, unit) call" where
  "restore_cmd L E D k c f0 store skip = bind (pre_run_install (de_env D) c f0) (\<lambda>(f, ic).
     run_restore L E D k \<lparr>ra_flags = f, ra_config = ic, ra_store = store, ra_skip_validation = skip\<rparr>)"

end
