(* ===== verification/RestoreRuns.thy ===== *)
theory RestoreRuns
  imports Restore
begin

text \<open>
  What a run of the restore does: the states it records, what a resumed run finds, which backup it
  takes, and when the wait for a velero restore ends.
\<close>

section \<open>The states a run records\<close>

definition states_set :: "cli_world \<Rightarrow> string list" where
  "states_set w = concat (map (\<lambda>e. case e of StateSet s n \<Rightarrow> [s] | _ \<Rightarrow> []) (cw_log w))"

definition same_states :: "cli_world \<Rightarrow> cli_world \<Rightarrow> bool" where
  "same_states w w' \<longleftrightarrow> states_set w' = states_set w"









lemma same_states_reads: "(\<And>w. cw_log (snd (f w)) = cw_log w) \<Longrightarrow> keeps same_states f"
  by (simp add: keeps_def same_states_def states_set_def)


















definition state_texts :: "restore_state list \<Rightarrow> string list" where
  "state_texts ss = map state_text (filter (\<lambda>s. s \<noteq> RsNew) ss)"

lemma state_texts_Cons: "state_texts (s # ss) = (if s = RsNew then [] else [state_text s]) @ state_texts ss"
  by (simp add: state_texts_def)








section \<open>What a resumed run finds\<close>

lemma parse_state_text [simp]: "parse_state (state_text s) = s"
  by (cases s) (simp_all add: parse_state_def ec_restore_states_def)

lemma restore_map_created:
  "create_in config_maps config_maps_update key x w = (Ok u, w') \<Longrightarrow> map_of (config_maps w') key = Some x"
  unfolding create_in_def by (drule api_Ok) (auto split: option.splits)

lemma restore_map_updated:
  "write_in config_maps config_maps_update key x w = (Ok u, w') \<Longrightarrow> map_of (config_maps w') key = Some x"
  unfolding write_in_def by (drule api_Ok) (auto split: option.splits simp: update_conv')

lemma write_restore_state_Ok:
  assumes "write_restore_state cm w = (Ok u, w')"
  shows "map_of (config_maps w') restore_state_key = Some cm"
proof -
  from assms obtain v where "bind (attempt (create_in config_maps config_maps_update restore_state_key cm)) (\<lambda>r. case r of
       Inr u \<Rightarrow> ret u
     | Inl e \<Rightarrow> if is_already_exists e
         then wrap ''unable to update config map'' (write_in config_maps config_maps_update restore_state_key cm)
         else throw (EWrap ''unable to create config map'' e)) v = (Ok u, w')"
    unfolding write_restore_state_def by (auto simp: bind_Ok_iff)
  then show ?thesis
    by (auto simp: bind_attempt_Ok_iff wrap_Ok_iff split: if_splits intro: restore_map_created restore_map_updated)
qed

lemma set_restore_state_Ok:
  assumes "set_restore_state s n w = (Ok u, w')"
  shows "map_of (config_maps (cw_kube w')) restore_state_key = Some (state_map s n)" "cw_client w'"
proof -
  from assms obtain k where "write_restore_state (state_map s n) (cw_kube w) = (Ok (), k)" "cw_client w"
    "w' = (w\<lparr>cw_kube := k\<rparr>)\<lparr>cw_log := cw_log w @ [StateSet (state_text s) n]\<rparr>"
    by (auto simp: set_restore_state_def bind_Ok_iff wrap_Ok_iff kube_client_def on_kube_def log_event_def
      split: if_splits prod.splits)
  then show "map_of (config_maps (cw_kube w')) restore_state_key = Some (state_map s n)" "cw_client w'"
    by (simp_all add: write_restore_state_Ok)
qed

text \<open>
  C18: A run that is started after another has set a state finds that state, and the name of the backup with it;
  when the user wants to resume it goes on from there, and else starts anew.
\<close>

theorem resumed_restore_finds_the_state:
  assumes "set_restore_state s n w = (Ok u, w')" "faults (cw_kube w') = []" "cw_confirms w' = Inr resume # answers"
  shows "get_restore_state w' = (Ok s, w') \<and>
    fst (resume_state w') = Ok (if resume then s else RsNew) \<and>
    (\<exists>cm. map_of (config_maps (cw_kube w')) restore_state_key = Some cm \<and>
       map_of (cm_data cm) ''backup-name'' = (if n = [] then None else Some n))"
proof -
  note stored = set_restore_state_Ok [OF assms(1)]
  have get: "get_restore_state w' = (Ok s, w')" using stored assms(2)
    by (simp add: get_restore_state_def bind_def attempt_def kube_client_def on_kube_def get_in_quiet state_map_def ret_def)
  then have "fst (resume_state w') = Ok (if resume then s else RsNew)" using assms(3)
    by (simp add: resume_state_def bind_def wrap_def confirm_def ret_def)
  with get stored show ?thesis by (simp add: state_map_def)
qed

section \<open>Waiting for velero\<close>

definition settled :: "string \<Rightarrow> cli_world \<Rightarrow> bool" where
  "settled n w \<longleftrightarrow> (case List.find (\<lambda>r. vr_name r = n) (cw_restores w) of
     None \<Rightarrow> True | Some v \<Rightarrow> vr_phase v \<in> {''Completed'', ''Failed'', ''PartiallyFailed''})"

lemma get_velero_restore_quiet: "faults (cw_kube w) = [] \<Longrightarrow> get_velero_restore n w =
    (case List.find (\<lambda>r. vr_name r = n) (cw_restores w) of None \<Rightarrow> (Err (ENotFound n), w) | Some v \<Rightarrow> (Ok v, w))"
  by (simp add: get_velero_restore_def)

lemma velero_wait_step:
  assumes "faults (cw_kube w) = []"
  shows "settled n w \<Longrightarrow> \<exists>x w'. velero_wait D (Suc k) n w = (Ok x, w')"
    and "\<not> settled n w \<Longrightarrow> velero_wait D (Suc k) n w = velero_wait D k n (de_tick D w)"
  using assms by (auto simp: settled_def bind_def wrap_def attempt_def get_velero_restore_quiet ret_def modify_def split: option.split)

text \<open>
  C21: As long as no request to the API fails at any look, the wait for a velero restore comes to an end within
  the looks it has exactly if at one of them velero has reached a state the wait looks for: the restore is
  completed, failed, partially failed or gone. (A request that fails would end the wait as well, with its error.)
\<close>

theorem velero_wait_ends_iff:
  assumes "\<And>j. faults (cw_kube ((de_tick D ^^ j) w)) = []"
  shows "(\<exists>x w'. velero_wait D k n w = (Ok x, w')) \<longleftrightarrow> (\<exists>j<k. settled n ((de_tick D ^^ j) w))"
  using assms
proof (induction k arbitrary: w)
  case 0
  then show ?case by (simp add: still_waiting_def)
next
  case (Suc k)
  have quiet: "faults (cw_kube w) = []" using Suc.prems [of 0] by simp
  have later: "faults (cw_kube ((de_tick D ^^ j) (de_tick D w))) = []" for j
    using Suc.prems [of "Suc j"] by (simp add: funpow_swap1)
  show ?case
  proof (cases "settled n w")
    case True
    then show ?thesis using velero_wait_step(1) [OF quiet True] by (auto intro!: exI [of _ 0])
  next
    case False
    have "(\<exists>j<Suc k. settled n ((de_tick D ^^ j) w)) \<longleftrightarrow> (\<exists>j<k. settled n ((de_tick D ^^ Suc j) w))"
      using False less_Suc_eq_0_disj by auto
    with Suc.IH [OF later] velero_wait_step(2) [OF quiet False] show ?thesis by (simp add: funpow_swap1)
  qed
qed

text \<open>
  C22: A velero restore that has failed is never made again: whenever the step for its component runs it finds it,
  creates nothing, and fails with it; resuming the restore cannot get past that step.
\<close>

theorem failed_restore_fails_every_resume:
  assumes "List.find (\<lambda>r. vr_name r = bk_name b @ ''.'' @ component_text c) (cw_restores w) = Some v" "vr_phase v = ''Failed''"
    "cw_client w" "faults (cw_kube w) = []"
  shows "restore_from_backup L D (Suc k) b c is_v2 w = (Err (EWrap (''restore failed with '' @ show_int (vr_errors v) @
    '' errors and '' @ show_int (vr_warnings v) @ '' warnings'') (EMsg ''restore failed'')), w)"
  using assms
  by (simp add: restore_from_backup_def Let_def bind_def wrap_def attempt_def kube_client_def ensure_velero_restore_def
    get_velero_restore_quiet ret_def throw_def wait_for_dr_component_def wait_for_velero_restore_completed_def)

text \<open>
  C23: A velero restore that is refused (phase \<open>FailedValidation\<close>, which velero never leaves) is waited for without
  end: no number of looks ends the wait, and no error is reported.
\<close>

theorem refused_restore_is_waited_for_forever:
  assumes "\<And>j. faults (cw_kube ((de_tick D ^^ j) w)) = []"
    "\<And>j. \<exists>v. List.find (\<lambda>r. vr_name r = n) (cw_restores ((de_tick D ^^ j) w)) = Some v \<and> vr_phase v = ''FailedValidation''"
    "cw_client w"
  shows "fst (wait_for_velero_restore_completed D k n w) = Panic ''still waiting''"
proof -
  have open_ended: "\<not> settled n ((de_tick D ^^ j) w)" for j using assms(2) [of j] by (auto simp: settled_def)
  have "fst (velero_wait D k n w) = Panic ''still waiting''" using assms(1) open_ended
  proof (induction k arbitrary: w)
    case 0
    then show ?case by (simp add: still_waiting_def lift_def)
  next
    case (Suc k)
    have "faults (cw_kube ((de_tick D ^^ j) (de_tick D w))) = []" "\<not> settled n ((de_tick D ^^ j) (de_tick D w))" for j
      using Suc.prems(1) [of "Suc j"] Suc.prems(2) [of "Suc j"] by (simp_all add: funpow_swap1)
    then have "fst (velero_wait D k n (de_tick D w)) = Panic ''still waiting''" by (rule Suc.IH)
    with velero_wait_step(2) [of w n D k] Suc.prems(1) [of 0] Suc.prems(2) [of 0] show ?case by simp
  qed
  with assms(3) show ?thesis
    by (simp add: wait_for_velero_restore_completed_def bind_def attempt_def wrap_def kube_client_def)
qed

section \<open>The backup that is taken\<close>

lemma first_some_None [simp]: "first_some xs = None \<longleftrightarrow> (\<forall>x \<in> set xs. x = None)"
  by (induction xs rule: first_some.induct) auto

lemma restorable_app_version_None: "restorable_app_version D b r = None \<longleftrightarrow>
    (\<exists>t. annotation b ''kots.io/apps-versions'' = Some t \<and> de_parse_apps D t = Ok [(br_app_slug r, br_version_label r)])"
proof (cases "annotation b ''kots.io/apps-versions''")
  case (Some t)
  show ?thesis
  proof (cases "de_parse_apps D t")
    case (Ok apps)
    with Some show ?thesis
      by (cases apps rule: remdups_adj.cases) (auto simp: restorable_app_version_def)
  qed (simp_all add: restorable_app_version_def Some)
qed (simp add: restorable_app_version_def)

lemma restorable_airgap_None: "restorable_airgap b a = None \<longleftrightarrow>
    annotation b ''kots.io/is-airgap'' = Some (if a then ''true'' else ''false'')"
  by (auto simp: restorable_airgap_def split: option.splits if_splits)

lemma restorable_network_None: "restorable_network D b (Some cfg) = None \<longleftrightarrow>
    (\<forall>pod net. annotation b ''kots.io/embedded-cluster-pod-cidr'' = Some pod \<longrightarrow> cfg_network cfg = Some net \<longrightarrow>
       net_pod_cidr net = [] \<and> net_service_cidr net = [] \<or>
       net_pod_cidr net = pod \<and> net_service_cidr net = annotation_or_empty b ''kots.io/embedded-cluster-service-cidr'')"
  by (auto simp: restorable_network_def Let_def split: option.split outcome.split prod.split bool.split)

lemma restorable_data_dir_None: "restorable_data_dir b rc = None \<longleftrightarrow>
    annotation_or_empty b ''kots.io/embedded-cluster-data-dir'' \<in> {[], ec_home_directory rc}"
  by (auto simp: restorable_data_dir_def Let_def)

text \<open>What one velero backup of a group has to say of itself.\<close>

definition fits :: "restore_env \<Rightarrow> velero_backup \<Rightarrow> binary_release \<Rightarrow> bool \<Rightarrow> k0s_config \<Rightarrow> runtime_config_spec \<Rightarrow> bool" where
  "fits D b r a cfg rc \<longleftrightarrow>
     annotation b BackupIsECAnnotation = Some ''true'' \<and>
     trim_v (annotation_or_empty b ''kots.io/embedded-cluster-version'') = trim_v (ie_version (de_env D)) \<and>
     bk_phase b = ''Completed'' \<and>
     (\<exists>t. annotation b ''kots.io/apps-versions'' = Some t \<and> de_parse_apps D t = Ok [(br_app_slug r, br_version_label r)]) \<and>
     annotation b ''kots.io/is-airgap'' = Some (if a then ''true'' else ''false'') \<and>
     (\<forall>pod net. annotation b ''kots.io/embedded-cluster-pod-cidr'' = Some pod \<longrightarrow> cfg_network cfg = Some net \<longrightarrow>
       net_pod_cidr net = [] \<and> net_service_cidr net = [] \<or>
       net_pod_cidr net = pod \<and> net_service_cidr net = annotation_or_empty b ''kots.io/embedded-cluster-service-cidr'') \<and>
     annotation_or_empty b ''kots.io/embedded-cluster-data-dir'' \<in> {[], ec_home_directory rc}"

lemma is_backup_restorable_None: "is_backup_restorable D b r a (Some cfg) rc = None \<longleftrightarrow> fits D b r a cfg rc"
proof -
  have "annotation_or_empty b BackupIsECAnnotation = ''true'' \<longleftrightarrow> annotation b BackupIsECAnnotation = Some ''true''"
    by (auto simp: annotation_or_empty_def annotation_def split: option.splits)
  then show ?thesis unfolding is_backup_restorable_def Let_def fits_def
    by (simp add: restorable_app_version_None restorable_airgap_None restorable_network_None restorable_data_dir_None)
qed

text \<open>
  C20: A group of velero backups is accepted exactly if it is complete, its application backup is of the kind this
  binary restores (\<open>app\<close> if the release brings its own backup and restore resources, else \<open>legacy\<close>), and each
  of its members is a completed backup of this version, of this one application at this version, of this kind
  of installation, with this cluster's networks and data directory (where it names them).
\<close>

theorem backup_restorable_iff:
  "is_replicated_backup_restorable D g r a (Some cfg) rc = None \<longleftrightarrow>
     get_expected_backup_count g = int (length g) \<and>
     map_option get_instance_backup_type (get_app_backup g) = Some (if uses_improved_dr D then ''app'' else ''legacy'') \<and>
     list_all (\<lambda>b. fits D b r a cfg rc) g"
proof (cases "get_app_backup g")
  case (Some ap)
  then have "get_instance_backup_type ap = ''app'' \<or> get_instance_backup_type ap = ''legacy''"
    by (auto simp: get_app_backup_def find_Some_iff)
  with Some show ?thesis
    by (auto simp: is_replicated_backup_restorable_def is_backup_restorable_None list_all_iff)
qed (simp add: is_replicated_backup_restorable_def)

lemma pick_from_max:
  "pick_from l gs = Some g \<Longrightarrow> g \<in> set gs \<union> set_option l \<and>
     (\<forall>h \<in> set gs \<union> set_option l. get_completion_timestamp h \<le> get_completion_timestamp g)"
proof (induction l gs rule: pick_from.induct)
  case (3 l g' gs)
  let ?m = "if get_completion_timestamp g' > get_completion_timestamp l then g' else l"
  have "get_completion_timestamp l \<le> get_completion_timestamp ?m" "get_completion_timestamp g' \<le> get_completion_timestamp ?m"
    by simp_all
  with 3 show ?case by (fastforce split: if_splits)
qed auto

lemma list_replicated_backups_Ok:
  assumes "list_replicated_backups arrange w = (Ok gs, w')"
  shows "gs = arrange (group_backups_by_name (cw_backups w'))"
proof -
  from assms obtain bs v where bs: "list_backups w = (Ok bs, v)" and kinds: "ensure_gvks 0 bs v = (Ok (), w')"
    and gs: "gs = arrange (group_backups_by_name bs)"
    unfolding list_replicated_backups_def by (auto simp: bind_Ok_iff)
  have "keeps only_asks (ensure_gvks i bs)" for i
    by (induction bs arbitrary: i) (auto intro!: ask.cli_rules)
  from keepsD [OF this kinds] have "cw_backups w' = cw_backups v" by (simp add: only_asks_def)
  moreover have "bs = cw_backups v"
    using bs unfolding list_backups_def wrap_Ok_iff by (auto elim!: cli_api_Ok simp: gets_def)
  ultimately show ?thesis using gs by simp
qed

lemma wait_for_backups_Ok:
  assumes "wait_for_backups D cfg rc a w = (Ok gs, w')"
  obtains r all where "ie_release (de_env D) = Some r"
    "all = de_arrange D (group_backups_by_name (cw_backups w'))" "list_ex fully_synced all"
    "gs = filter (\<lambda>g. is_replicated_backup_restorable D g r a (Some cfg) rc = None) all"
proof -
  have tries: "all = de_arrange D (group_backups_by_name (cw_backups v)) \<and> list_ex fully_synced all"
    if "list_backups_tries D n w = (Ok all, v)" for n all w v
    using that by (induction n arbitrary: w) (auto simp: bind_Ok_iff wrap_Ok_iff dest: list_replicated_backups_Ok split: if_splits)
  from assms obtain r where r: "ie_release (de_env D) = Some r" by (auto simp: wait_for_backups_def split: option.splits)
  with assms obtain all v where v: "list_backups_with_timeout D 30 w = (Ok all, v)"
    and gs: "(let reason = (\<lambda>g. is_replicated_backup_restorable D g r a (Some cfg) rc); good = filter (\<lambda>g. reason g = None) all
      in if good = [] then throw (EMsg (invalid_backups_error (map (\<lambda>g. (g, the (reason g))) all))) else ret good) v = (Ok gs, w')"
    by (auto simp: wait_for_backups_def bind_Ok_iff)
  from v have u: "all = de_arrange D (group_backups_by_name (cw_backups v))" "list_ex fully_synced all"
    using tries unfolding list_backups_with_timeout_def by blast+
  from gs have "w' = v" "gs = filter (\<lambda>g. is_replicated_backup_restorable D g r a (Some cfg) rc = None) all"
    by (auto simp: Let_def split: if_splits)
  with that r u show thesis by simp
qed

lemma confirm_Ok: "confirm w = (Ok b, w') \<Longrightarrow> cw_backups w' = cw_backups w"
  by (auto simp: confirm_def split: list.splits sum.splits)

text \<open>
  C19: The backup a run goes on with after its question is one of the groups of backups the cluster has when the
  step ends, it fits the binary, the k0s configuration and the runtime configuration the step began with, and of
  all groups in the cluster that fit none was completed later; some group was complete. The sort of the listing is
  only required to return what it is given.
\<close>

theorem confirmed_backup_is_newest_restorable:
  assumes arrange: "\<And>gs. set (de_arrange D gs) = set gs"
    and run: "run_restore_step_confirm_backup D ic w = (Ok (Some g), w')"
    and fits: "fits_here = (\<lambda>h. \<exists>r cfg. ie_release (de_env D) = Some r \<and> cw_k0s_file w = Some cfg \<and>
      is_replicated_backup_restorable D h r (ic_is_airgap ic) (Some cfg) (cw_rc w) = None)"
    and groups: "all = set (group_backups_by_name (cw_backups w'))"
  shows "g \<in> all \<and> fits_here g \<and> (\<forall>h \<in> all. fits_here h \<longrightarrow> get_completion_timestamp h \<le> get_completion_timestamp g) \<and>
    (\<exists>h \<in> all. fully_synced h)"
proof -
  from run obtain cfg rc gs w0 w1 w2 where disk: "get_k0s_config_from_disk w = (Ok cfg, w1)" and rc: "rc = cw_rc w1"
    and gs: "wait_for_backups D cfg rc (ic_is_airgap ic) w1 = (Ok gs, w2)" and pick: "pick_backup_to_restore gs = Some g"
    and answer: "confirm w2 = (Ok True, w')"
    by (auto simp: run_restore_step_confirm_backup_def bind_Ok_iff wrap_Ok_iff kube_client_def deref_def
      split: if_splits option.splits)
  from disk have w1: "cw_k0s_file w = Some cfg" "cw_rc w1 = cw_rc w"
    unfolding get_k0s_config_from_disk_def wrap_Ok_iff by (auto elim!: cli_api_Ok split: option.splits)
  obtain r listed where r: "ie_release (de_env D) = Some r"
    and listed: "listed = de_arrange D (group_backups_by_name (cw_backups w2))" "list_ex fully_synced listed"
    and good: "gs = filter (\<lambda>h. is_replicated_backup_restorable D h r (ic_is_airgap ic) (Some cfg) rc = None) listed"
    using gs by (rule wait_for_backups_Ok)
  have all: "set listed = all" unfolding groups listed(1) arrange confirm_Ok [OF answer] by simp
  have fit: "h \<in> set gs \<longleftrightarrow> h \<in> all \<and> fits_here h" for h
    unfolding good fits using r w1 rc by (auto simp: all)
  from pick have "g \<in> set gs" "\<forall>h \<in> set gs. get_completion_timestamp h \<le> get_completion_timestamp g"
    unfolding pick_backup_to_restore_def by (auto dest: pick_from_max)
  with fit listed(2) all show ?thesis by (auto simp: list_ex_iff)
qed

section \<open>The nodes of a highly available backup\<close>

lemma num_of_control_plane_nodes_Ok: "num_of_control_plane_nodes w = (Ok n, w') \<Longrightarrow> n = control_planes w'"
  unfolding num_of_control_plane_nodes_def control_planes_def by (auto simp: bind_Ok_iff dest!: api_Ok)

text \<open>
  The question whether all nodes are there is left, for a highly available backup, only in a cluster of three
  control planes or more.
\<close>

theorem ha_restore_needs_three_control_planes:
  assumes "ask_continue D True ins w = (Ok u, w')"
  shows "3 \<le> control_planes (cw_kube w')"
  using assms
proof (induction ins arbitrary: w)
  case (Cons a ins)
  then show ?case
    by (auto simp: bind_Ok_iff wrap_Ok_iff on_kube_def split: sum.splits if_splits prod.splits dest!: num_of_control_plane_nodes_Ok)
qed simp

section \<open>Samples\<close>

definition sample_release :: binary_release where
  "sample_release = \<lparr>br_app_slug = ''app'', br_channel_id = ''c'', br_channel_slug = ''stable'', br_version_label = ''1.0'',
     br_airgap = False, br_domains = get_domains None None\<rparr>"

definition sample_restore_env :: restore_env where
  "sample_restore_env = \<lparr>de_env = sample_env\<lparr>ie_release := Some sample_release\<rparr>, de_velero_backup = False, de_velero_restore = False,
     de_parse_apps = (\<lambda>_. Ok [(''app'', ''1.0'')]), de_parse_port = (\<lambda>_. Ok 50000), de_decode_restore = (\<lambda>_. Err (EMsg ''no restore'')),
     de_modifiers_yaml = [], de_arrange = (\<lambda>gs. gs), de_store_prefixes = (\<lambda>_. Ok 1), de_trim_space = (\<lambda>s. s), de_tick = (\<lambda>w. w)\<rparr>"


definition sample_legacy :: velero_backup where
  "sample_legacy = \<lparr>bk_name = ''old'', bk_labels = [], bk_annotations = [(''kots.io/embedded-cluster'', ''true''),
     (''replicated.com/disaster-recovery-version'', ''1''), (''replicated.com/backup-type'', ''legacy''),
     (''kots.io/embedded-cluster-version'', ''2.0.0''), (''kots.io/apps-versions'', ''app 1.0''), (''kots.io/is-airgap'', ''false'')],
     bk_phase = ''Completed'', bk_start = Some 5, bk_completion = Some 7\<rparr>"

definition sample_velero_restore :: "string \<Rightarrow> velero_restore" where
  "sample_velero_restore phase = (component_restore sample_legacy DrECO ''old.embedded-cluster-operator'')\<lparr>vr_phase := phase\<rparr>"

lemma sample_quiet [simp]: "faults (cw_kube sample_world) = []" "cw_client sample_world"
  by (simp_all add: sample_world_def sample_kube_def)

lemma sample_same_tick [simp]: "(de_tick sample_restore_env ^^ j) w = w"
  by (induction j) (simp_all add: sample_restore_env_def)


theorem resumed_restore_finds_the_state_witness:
  "get_restore_state (snd (set_restore_state RsWaitForNodes ''old'' (sample_world\<lparr>cw_confirms := [Inr True]\<rparr>))) =
     (Ok RsWaitForNodes, snd (set_restore_state RsWaitForNodes ''old'' (sample_world\<lparr>cw_confirms := [Inr True]\<rparr>)))"
proof (rule resumed_restore_finds_the_state [THEN conjunct1])
  show "set_restore_state RsWaitForNodes ''old'' (sample_world\<lparr>cw_confirms := [Inr True]\<rparr>) =
      (Ok (), snd (set_restore_state RsWaitForNodes ''old'' (sample_world\<lparr>cw_confirms := [Inr True]\<rparr>)))"
    "faults (cw_kube (snd (set_restore_state RsWaitForNodes ''old'' (sample_world\<lparr>cw_confirms := [Inr True]\<rparr>)))) = []"
    "cw_confirms (snd (set_restore_state RsWaitForNodes ''old'' (sample_world\<lparr>cw_confirms := [Inr True]\<rparr>))) = Inr True # []"
    by (simp_all add: set_restore_state_def bind_def wrap_def kube_client_def on_kube_def write_restore_state_def attempt_def
        create_namespace_def create_in_def log_event_def modify_def ret_def restore_state_key_def sample_world_def sample_kube_def throw_def is_already_exists_def)
qed

theorem velero_wait_ends_iff_witness:
  "\<exists>x w'. velero_wait sample_restore_env 4 ''old.embedded-cluster-operator''
     (sample_world\<lparr>cw_restores := [sample_velero_restore ''PartiallyFailed'']\<rparr>) = (Ok x, w')"
  by (subst velero_wait_ends_iff)
    (auto simp: settled_def sample_velero_restore_def component_restore_def ensure_improved_dr_metadata_def intro: exI [of _ 0])

theorem failed_restore_fails_every_resume_witness:
  "restore_from_backup sample_lib sample_restore_env 1 sample_legacy DrECO True
     (sample_world\<lparr>cw_restores := [sample_velero_restore ''Failed'']\<rparr>) = (Err (EWrap (''restore failed with '' @ show_int 0 @
    '' errors and '' @ show_int 0 @ '' warnings'') (EMsg ''restore failed'')), sample_world\<lparr>cw_restores := [sample_velero_restore ''Failed'']\<rparr>)"
  using failed_restore_fails_every_resume [of sample_legacy DrECO "sample_world\<lparr>cw_restores := [sample_velero_restore ''Failed'']\<rparr>"
      "sample_velero_restore ''Failed''" sample_lib sample_restore_env 0 True]
  by (simp add: sample_velero_restore_def component_restore_def ensure_improved_dr_metadata_def sample_legacy_def)

theorem refused_restore_is_waited_for_forever_witness:
  "fst (wait_for_velero_restore_completed sample_restore_env 1000 ''old.embedded-cluster-operator''
     (sample_world\<lparr>cw_restores := [sample_velero_restore ''FailedValidation'']\<rparr>)) = Panic ''still waiting''"
  by (rule refused_restore_is_waited_for_forever)
    (simp_all add: sample_velero_restore_def component_restore_def ensure_improved_dr_metadata_def)

definition sample_restoring :: cli_world where
  "sample_restoring = sample_world\<lparr>cw_backups := [sample_legacy], cw_k0s_file := Some (kc_default sample_config_lib), cw_confirms := [Inr True]\<rparr>"

lemma sample_legacy_labels:
  "annotation sample_legacy BackupIsECAnnotation = Some ''true''" "annotation sample_legacy InstanceBackupVersionAnnotation = Some ''1''"
  "annotation sample_legacy InstanceBackupTypeAnnotation = Some ''legacy''" "annotation sample_legacy InstanceBackupCountAnnotation = None"
  "annotation sample_legacy ''kots.io/embedded-cluster-version'' = Some ''2.0.0''" "annotation sample_legacy ''kots.io/apps-versions'' = Some ''app 1.0''"
  "annotation sample_legacy ''kots.io/is-airgap'' = Some ''false''" "annotation sample_legacy ''kots.io/embedded-cluster-pod-cidr'' = None"
  "annotation sample_legacy ''kots.io/embedded-cluster-data-dir'' = None" "bk_phase sample_legacy = ''Completed''"
  "annotation sample_legacy InstanceBackupAnnotation = None"
  by (simp_all add: sample_legacy_def annotation_def backup_label_defs)

lemma sample_legacy_kind: "get_instance_backup_type sample_legacy = ''legacy''" "get_instance_backup_count sample_legacy = 1"
  "is_replicated sample_legacy"
  by (simp_all add: get_instance_backup_type_def get_instance_backup_count_def is_replicated_def is_instance_backup_def
      get_instance_backup_version_def annotation_or_empty_def sample_legacy_labels)

lemma sample_legacy_group: "get_app_backup [sample_legacy] = Some sample_legacy" "get_infra_backup [sample_legacy] = Some sample_legacy"
  "get_expected_backup_count [sample_legacy] = 1" "group_backups_by_name [sample_legacy] = [[sample_legacy]]"
  by (simp_all add: get_app_backup_def get_infra_backup_def get_expected_backup_count_def sample_legacy_kind group_backups_by_name_def)

lemma sample_legacy_fits:
  "is_replicated_backup_restorable sample_restore_env [sample_legacy] sample_release False (Some (kc_default sample_config_lib)) rc = None"
  unfolding is_replicated_backup_restorable_def
  by (simp add: sample_legacy_group sample_legacy_kind is_backup_restorable_None fits_def sample_legacy_labels annotation_or_empty_def
      sample_restore_env_def sample_env_def sample_release_def trim_v_def uses_improved_dr_def)

text \<open>A second backup that was completed later.\<close>

definition sample_later :: velero_backup where
  "sample_later = sample_legacy\<lparr>bk_name := ''new'', bk_completion := Some 9\<rparr>"

lemma sample_later_labels: "annotation sample_later k = annotation sample_legacy k" "bk_phase sample_later = bk_phase sample_legacy"
  by (simp_all add: sample_later_def annotation_def)

lemma sample_later_kind: "get_instance_backup_type sample_later = ''legacy''" "get_instance_backup_count sample_later = 1"
  "is_replicated sample_later"
  using sample_legacy_kind by (simp_all add: get_instance_backup_type_def get_instance_backup_count_def is_replicated_def
      is_instance_backup_def get_instance_backup_version_def annotation_or_empty_def sample_later_labels)

lemma sample_later_group: "get_app_backup [sample_later] = Some sample_later" "get_infra_backup [sample_later] = Some sample_later"
  "get_expected_backup_count [sample_later] = 1"
  by (simp_all add: get_app_backup_def get_infra_backup_def get_expected_backup_count_def sample_later_kind)

lemma sample_two_groups: "group_backups_by_name [sample_legacy, sample_later] = [[sample_legacy], [sample_later]]"
  using sample_legacy_kind sample_later_kind
  by (simp add: group_backups_by_name_def get_name_def get_backup_name_def sample_later_def sample_legacy_def)

lemma sample_two_fit: "b \<in> {sample_legacy, sample_later} \<Longrightarrow>
    is_replicated_backup_restorable sample_restore_env [b] sample_release False (Some (kc_default sample_config_lib)) rc = None"
  using sample_legacy_fits [of rc]
  unfolding is_replicated_backup_restorable_def
  by (auto simp: sample_later_group sample_legacy_group sample_later_kind is_backup_restorable_None fits_def sample_later_labels
      sample_legacy_labels annotation_or_empty_def sample_restore_env_def sample_env_def sample_release_def trim_v_def uses_improved_dr_def)

definition sample_two_backups :: cli_world where
  "sample_two_backups = sample_restoring\<lparr>cw_backups := [sample_legacy, sample_later]\<rparr>"

theorem confirmed_backup_is_newest_restorable_witness:
  "[sample_later] \<in> set (group_backups_by_name (cw_backups sample_two_backups)) \<and>
   is_replicated_backup_restorable sample_restore_env [sample_later] sample_release False (Some (kc_default sample_config_lib))
     (cw_rc sample_two_backups) = None \<and>
   get_completion_timestamp [sample_legacy] \<le> get_completion_timestamp [sample_later]"
proof -
  let ?w = sample_two_backups
  have quiet: "faults (cw_kube ?w) = []" "cw_client ?w" by (simp_all add: sample_two_backups_def sample_restoring_def)
  have parts: "cw_backups ?w = [sample_legacy, sample_later]" "de_arrange sample_restore_env = (\<lambda>gs. gs)"
    "ie_release (de_env sample_restore_env) = Some sample_release" "cw_k0s_file ?w = Some (kc_default sample_config_lib)"
    "\<not> ic_is_airgap sample_config_of"
    by (simp_all add: sample_two_backups_def sample_restoring_def sample_restore_env_def sample_config_of_def)
  have list: "list_replicated_backups (de_arrange sample_restore_env) ?w = (Ok [[sample_legacy], [sample_later]], ?w)"
    using quiet by (simp add: list_replicated_backups_def list_backups_def bind_def wrap_def gets_def ret_def sample_two_groups
        parts ensure_gvks_NoFault del: ensure_gvks.simps)
  have wait: "wait_for_backups sample_restore_env (kc_default sample_config_lib) rc False ?w = (Ok [[sample_legacy], [sample_later]], ?w)" for rc
  proof -
    have "list_backups_tries sample_restore_env (Suc n) ?w = (Ok [[sample_legacy], [sample_later]], ?w)" for n
      by (simp add: bind_def wrap_def list ret_def fully_synced_def sample_legacy_group)
    from this [of 29] sample_two_fit [of _ rc] show ?thesis
      by (simp add: wait_for_backups_def list_backups_with_timeout_def bind_def Let_def ret_def parts)
  qed
  have disk: "get_k0s_config_from_disk ?w = (Ok (kc_default sample_config_lib), ?w)"
    using quiet parts by (simp add: get_k0s_config_from_disk_def wrap_def)
  have answer: "confirm ?w = (Ok True, ?w\<lparr>cw_confirms := []\<rparr>)"
    by (simp add: confirm_def sample_two_backups_def sample_restoring_def)
  have pick: "pick_backup_to_restore [[sample_legacy], [sample_later]] = Some [sample_later]"
  proof -
    have "completion_from 0 [sample_legacy] = 7" "completion_from 0 [sample_later] = 9"
      by (simp_all add: sample_later_def sample_legacy_def)
    then show ?thesis
      by (simp add: pick_backup_to_restore_def get_completion_timestamp_def sample_legacy_group sample_later_group)
  qed
  have "run_restore_step_confirm_backup sample_restore_env sample_config_of ?w = (Ok (Some [sample_later]), ?w\<lparr>cw_confirms := []\<rparr>)"
    using quiet by (simp add: run_restore_step_confirm_backup_def bind_def wrap_def kube_client_def disk gets_def answer
        wait parts pick lift_def deref_def ret_def)
  then have "[sample_later] \<in> set (group_backups_by_name (cw_backups ?w)) \<and> is_replicated_backup_restorable sample_restore_env
      [sample_later] sample_release False (Some (kc_default sample_config_lib)) (cw_rc ?w) = None \<and>
    (is_replicated_backup_restorable sample_restore_env [sample_legacy] sample_release False (Some (kc_default sample_config_lib))
      (cw_rc ?w) = None \<longrightarrow> get_completion_timestamp [sample_legacy] \<le> get_completion_timestamp [sample_later])"
    using confirmed_backup_is_newest_restorable [of sample_restore_env sample_config_of ?w "[sample_later]", OF _ _ refl refl]
    by (simp add: parts sample_two_groups)
  then show ?thesis using sample_legacy_fits by simp
qed

definition sample_three :: cli_world where
  "sample_three = sample_world\<lparr>cw_kube := (sample_kube [])\<lparr>nodes :=
     replicate 3 ((sample_node ''v1'')\<lparr>node_labels := [(''node-role.kubernetes.io/control-plane'', ''true'')]\<rparr>)\<rparr>\<rparr>"

theorem ha_restore_needs_three_control_planes_witness:
  "3 \<le> control_planes (cw_kube (snd (ask_continue sample_restore_env True [Inr ''wait'', Inr ''continue''] sample_three)))"
proof (rule ha_restore_needs_three_control_planes)
  show "ask_continue sample_restore_env True [Inr ''wait'', Inr ''continue''] sample_three =
      (Ok (), snd (ask_continue sample_restore_env True [Inr ''wait'', Inr ''continue''] sample_three))"
    by (simp add: bind_def modify_def wrap_def on_kube_def num_of_control_plane_nodes_def ret_def gets_def sample_three_def
        sample_restore_env_def sample_kube_def numeral_eq_Suc)
qed

end
