(* ===== verification/Join.thy ===== *)
theory Join
  imports Install
begin

text \<open>
  Joining a node (\<^verbatim>\<open>cmd/installer/cli/join.go\<close>, \<^verbatim>\<open>join_runpreflights.go\<close>, \<^verbatim>\<open>kinds/types/join\<close>): what the cluster
  tells the node, the checks of it, the node's own k0s configuration, and what a controller asks once it has
  joined.

  An override of the k0s configuration is reduced to the three parts a node takes from one; parsing and writing
  them is a parameter. An empty list of worker profiles counts as none.
\<close>

section \<open>Data\<close>

record join_response =
  jr_command :: string
  jr_token :: string
  jr_cluster_id :: string
  jr_ec_version :: string
  jr_app_version_label :: string
  jr_registry_address :: string
  jr_tcp_connections :: "string list"
  jr_spec :: installation_spec

record join_flags =
  jf_no_ha :: bool
  jf_network_interface :: string
  jf_assume_yes :: bool
  jf_skip_host_preflights :: bool
  jf_ignore_host_preflights :: bool
  jf_disable_fs_check :: bool
  jf_assets_size :: "64 word"

record k0s_patch =
  kp_api :: "(string \<times> string) list"
  kp_storage :: "(string \<times> string) list"
  kp_worker_profiles :: "string option"

record join_preflights =
  jp_cidr :: cidr_config
  jp_node_ip :: string
  jp_airgap :: bool
  jp_connections :: "string list"
  jp_disable_fs_check :: bool
  jp_controller_storage :: string
  jp_worker_storage :: string

record join_env =
  jn_env :: install_env
  jn_response :: "join_response outcome"
  jn_parse_patch :: "string \<Rightarrow> k0s_patch outcome"
  jn_marshal_patch :: "k0s_patch \<Rightarrow> string outcome"
  jn_bare_config :: k0s_config
  jn_preflights :: "runtime_config_spec \<Rightarrow> join_preflights \<Rightarrow> bool outcome"
  jn_operator_images :: "string list"

section \<open>Before anything is changed\<close>

definition pre_run_join :: "install_env \<Rightarrow> string list \<Rightarrow> join_flags \<Rightarrow> join_flags outcome" where
  "pre_run_join V changed f =
     (if \<not> ie_is_root V then Err (EMsg ''join command must be run as root'')
      else
        let f = (if jf_network_interface f = []
            then (case determine_best_network_interface (ie_netlib V) (ie_chosen_ip V) (ie_interfaces V) of
                Ok nic \<Rightarrow> f\<lparr>jf_network_interface := nic\<rparr> | _ \<Rightarrow> f)
            else f)
        in bindO (wrapO ''failed to get size of embedded files'' (ie_assets_size V)) (\<lambda>size.
          let f = f\<lparr>jf_assets_size := size\<rparr> in
          Ok (if ''disable-filesystem-performance-check'' \<notin> set changed \<and>
                env_true (ie_getenv V) ''DISABLE_FILESYSTEM_PERFORMANCE_CHECK''
              then f\<lparr>jf_disable_fs_check := True\<rparr> else f)))"

definition is_controller_join :: "join_response \<Rightarrow> bool" where
  "is_controller_join r \<longleftrightarrow> contains_str (jr_command r) ''controller''"

text \<open>The versions the cluster runs against those of the binary.\<close>

definition check_join_versions :: "install_env \<Rightarrow> join_response \<Rightarrow> unit outcome" where
  "check_join_versions V r =
     (case ie_release V of
        Some b \<Rightarrow> if jr_app_version_label r \<noteq> [] \<and> jr_app_version_label r \<noteq> br_version_label b
          then Err (EMsg (''embedded cluster application version mismatch - this binary is compiled for app version '' @
            quote_str (br_version_label b) @ '', but the cluster is running version '' @ quote_str (jr_app_version_label r)))
          else Ok ()
      | None \<Rightarrow> Ok ())"

definition check_join_ec_version :: "install_env \<Rightarrow> join_response \<Rightarrow> unit outcome" where
  "check_join_ec_version V r =
     (if trim_v (jr_ec_version r) \<noteq> trim_v (ie_version V)
      then Err (EMsg (''embedded cluster version mismatch - this binary is version '' @ quote_str (ie_version V) @
        '', but the cluster is running version '' @ quote_str (jr_ec_version r)))
      else Ok ())"

definition check_join_proxy :: "install_env \<Rightarrow> join_flags \<Rightarrow> runtime_config_spec \<Rightarrow> unit outcome" where
  "check_join_proxy V f rc = (case rc_proxy rc of
      None \<Rightarrow> Ok ()
    | Some p \<Rightarrow> bindO (wrapO ''failed to check proxy config for local IP''
        (check_proxy_config_for_local_ip (ie_netlib V) (first_valid_ip_net (ie_interfaces V)) (Some p) (jf_network_interface f)))
        (\<lambda>(ok, ip). if ok then Ok () else Err (ENothingElse ''node ip address not included in no-proxy list'')))"

definition run_join_verify_and_prompt :: "install_env \<Rightarrow> join_flags \<Rightarrow> join_response \<Rightarrow> (cli_world, unit) call" where
  "run_join_verify_and_prompt V f r =
     bind verify_no_installation (\<lambda>_.
     bind (modify (\<lambda>w. w\<lparr>cw_rc := rc_set (runtime_config (jr_spec r)) (cw_rc w)\<rparr>)) (\<lambda>_.
     bind (wrap ''unable to write runtime config'' write_runtime_config) (\<lambda>_.
     bind (lift (check_join_versions V r)) (\<lambda>_.
     bind (lift (check_join_ec_version V r)) (\<lambda>_.
     bind (gets cw_rc) (\<lambda>rc.
     lift (check_join_proxy V f rc)))))))"

definition get_join_cidr_config :: "netlib \<Rightarrow> runtime_config_spec \<Rightarrow> cidr_config outcome" where
  "get_join_cidr_config N rc =
     (let net = rc_network rc; global = (if global_cidr net \<noteq> [] then global_cidr net else default_network_cidr) in
      bindO (wrapO ''unable to split global network CIDR'' (split_network_cidr N global)) (\<lambda>(pod, service).
      Ok \<lparr>cc_pod = (if pod_cidr net \<noteq> [] then pod_cidr net else pod),
          cc_service = (if service_cidr net \<noteq> [] then service_cidr net else service), cc_global = None\<rparr>))"

section \<open>Preparing the host\<close>

definition materialize_files_for_join :: "(string \<Rightarrow> cli_world \<Rightarrow> cli_world) \<Rightarrow> join_response \<Rightarrow> (cli_world, unit) call" where
  "materialize_files_for_join E r =
     bind (wrap ''materialize binaries'' (host_step E ''materialize binaries'')) (\<lambda>_.
     bind (wrap ''materialize support bundle spec'' (host_step E ''materialize support bundle spec'')) (\<lambda>_.
     if air_gap (jr_spec r) then wrap ''failed to fetch artifacts'' (host_step E ''fetch artifacts'') else ret ()))"

definition best_effort :: "(cli_world, unit) call \<Rightarrow> (cli_world, unit) call" where
  "best_effort m = bind (attempt m) (\<lambda>_. ret ())"

definition initialize_join :: "(string \<Rightarrow> cli_world \<Rightarrow> cli_world) \<Rightarrow> install_env \<Rightarrow> join_response \<Rightarrow> (cli_world, cidr_config) call" where
  "initialize_join E V r =
     bind (wrap ''failed to materialize files'' (materialize_files_for_join E r)) (\<lambda>_.
     bind (best_effort (host_step E ''configure sysctl'')) (\<lambda>_.
     bind (best_effort (host_step E ''configure kernel modules'')) (\<lambda>_.
     bind (wrap ''unable to configure network manager'' (host_step E ''configure network manager'')) (\<lambda>_.
     bind (gets cw_rc) (\<lambda>rc.
     bind (wrap ''unable to get join CIDR config'' (lift (get_join_cidr_config (ie_netlib V) rc))) (\<lambda>cidr.
     bind (best_effort (host_step E (''configure firewalld '' @ cc_pod cidr @ '' '' @ cc_service cidr))) (\<lambda>_.
     ret cidr)))))))"

definition join_storage :: "install_env \<Rightarrow> join_flags \<Rightarrow> join_response \<Rightarrow> string" where
  "join_storage V f r = calculate_airgap_storage_space (ie_float V) (airgap_uncompressed_size (jr_spec r)) (jf_assets_size f)
     (k0s_image_size (jr_spec r)) (is_controller_join r)"

definition run_join_preflights :: "join_env \<Rightarrow> join_flags \<Rightarrow> join_response \<Rightarrow> cidr_config \<Rightarrow> (cli_world, unit) call" where
  "run_join_preflights J f r cidr = (let V = jn_env J; air = air_gap (jr_spec r); controller = is_controller_join r in
     bind (wrap ''unable to find first valid address''
       (lift (first_valid_address (ie_netlib V) (ie_interfaces V) (jf_network_interface f)))) (\<lambda>node_ip.
     bind (gets cw_rc) (\<lambda>rc.
     bind (lift (jn_preflights J rc \<lparr>jp_cidr = cidr, jp_node_ip = node_ip, jp_airgap = air, jp_connections = jr_tcp_connections r,
       jp_disable_fs_check = jf_disable_fs_check f,
       jp_controller_storage = (if air \<and> controller then join_storage V f r else []),
       jp_worker_storage = (if air \<and> \<not> controller then join_storage V f r else [])\<rparr>)) (\<lambda>checks.
     run_host_preflights V checks (jf_skip_host_preflights f) (jf_ignore_host_preflights f) (jf_assume_yes f)))))"

section \<open>The node's configuration\<close>

definition with_node_port_range :: "string \<Rightarrow> k0s_config \<Rightarrow> k0s_config outcome" where
  "with_node_port_range ports cfg = (if ports = [] then Ok cfg
     else bindO (deref (cfg_api cfg)) (\<lambda>api.
       Ok (cfg\<lparr>cfg_api := Some (api\<lparr>api_extra_args := map_set ''service-node-port-range'' ports (api_extra_args api)\<rparr>)\<rparr>)))"

definition apply_network_configuration :: "install_env \<Rightarrow> join_flags \<Rightarrow> join_response \<Rightarrow> (cli_world, unit) call" where
  "apply_network_configuration V f r =
     bind (gets cw_rc) (\<lambda>rc.
     bind (lift (render_k0s_config (ul_config (ie_upgrade_lib V))
       (proxy_registry_domain (release_domains V (spec_config (jr_spec r)))))) (\<lambda>cfg.
     bind (wrap ''unable to find first valid address''
       (lift (first_valid_address (ie_netlib V) (ie_interfaces V) (jf_network_interface f)))) (\<lambda>address.
     bind (wrap ''unable to get join CIDR config'' (lift (get_join_cidr_config (ie_netlib V) rc))) (\<lambda>cidr.
     bind (lift (with_addresses address (cc_pod cidr) (cc_service cidr) cfg)) (\<lambda>cfg.
     bind (lift (with_node_port_range (node_port_range (rc_network rc)) cfg)) (\<lambda>cfg.
     let cfg = apply_host_overrides (ie_iptables V) cfg in
     bind (wrap ''unable to marshal cluster spec'' (lift (kc_marshal (ul_config (ie_upgrade_lib V)) cfg))) (\<lambda>_.
     wrap ''unable to write cluster spec to /etc/k0s/k0s.yaml'' (cli_api (modify (\<lambda>w. w\<lparr>cw_k0s_file := Some cfg\<rparr>))))))))))"

text \<open>Only the API, the storage and the worker profiles are taken over from the patched configuration.\<close>

definition node_parts :: "k0s_config \<Rightarrow> k0s_config \<Rightarrow> k0s_config" where
  "node_parts new cfg =
     (let cfg = (if cfg_api new \<noteq> None then cfg\<lparr>cfg_api := cfg_api new\<rparr> else cfg);
          cfg = (if cfg_storage new \<noteq> [] \<or> cfg_etcd_peer new \<noteq> None
                 then cfg\<lparr>cfg_storage := cfg_storage new, cfg_etcd_peer := cfg_etcd_peer new\<rparr> else cfg)
      in if cfg_worker_profiles new \<noteq> [] then cfg\<lparr>cfg_worker_profiles := cfg_worker_profiles new\<rparr> else cfg)"

definition patch_k0s_file :: "join_env \<Rightarrow> string \<Rightarrow> (cli_world, unit) call" where
  "patch_k0s_file J patch = (let C = ul_config (ie_upgrade_lib (jn_env J)) in
     if patch = [] then ret ()
     else bind (gets cw_k0s_file) (\<lambda>file. let cfg = (case file of None \<Rightarrow> jn_bare_config J | Some c \<Rightarrow> c) in
       bind (wrap ''unable to patch node config'' (lift (patch_k0s_config C cfg patch False))) (\<lambda>new.
       wrap ''unable to write node config file'' (cli_api (modify (\<lambda>w. w\<lparr>cw_k0s_file := Some (node_parts new cfg)\<rparr>))))))"

definition extract_override_patch :: "join_env \<Rightarrow> string \<Rightarrow> k0s_patch outcome" where
  "extract_override_patch J text = wrapO ''unable to unmarshal embedded config'' (jn_parse_patch J text)"

definition embedded_overrides :: "join_env \<Rightarrow> join_response \<Rightarrow> k0s_patch outcome" where
  "embedded_overrides J r = bindO (deref (spec_config (jr_spec r))) (\<lambda>c. extract_override_patch J (overrides_k0s c))"

definition end_user_overrides :: "join_env \<Rightarrow> join_response \<Rightarrow> k0s_patch outcome" where
  "end_user_overrides J r = extract_override_patch J (end_user_k0s_overrides (jr_spec r))"

definition patch_is_empty :: "k0s_patch \<Rightarrow> bool" where
  "patch_is_empty p \<longleftrightarrow> kp_api p = [] \<and> kp_storage p = [] \<and> kp_worker_profiles p = None"

definition apply_override :: "join_env \<Rightarrow> k0s_patch \<Rightarrow> (cli_world, unit) call" where
  "apply_override J p = (if patch_is_empty p then ret ()
     else bind (wrap ''unable to marshal embedded overrides'' (lift (jn_marshal_patch J p))) (\<lambda>data.
       wrap ''unable to patch config with embedded data'' (patch_k0s_file J data)))"

definition apply_join_configuration_overrides :: "join_env \<Rightarrow> join_response \<Rightarrow> (cli_world, unit) call" where
  "apply_join_configuration_overrides J r =
     bind (wrap ''unable to get embedded overrides'' (lift (embedded_overrides J r))) (\<lambda>p.
     bind (apply_override J p) (\<lambda>_.
     bind (wrap ''unable to get embedded overrides'' (lift (end_user_overrides J r))) (\<lambda>p.
     apply_override J p)))"

definition get_first_defined_profile :: "install_env \<Rightarrow> cli_world \<Rightarrow> string outcome" where
  "get_first_defined_profile V w =
     bindO (wrapO ''unable to read k0s config'' (k0s_file_text V w)) (\<lambda>data.
     bindO (wrapO ''unable to parse k0s config'' (kc_unmarshal (ul_config (ie_upgrade_lib V)) data)) (\<lambda>cfg.
     Ok (case cfg_worker_profiles cfg of [] \<Rightarrow> [] | p # _ \<Rightarrow> p)))"

section \<open>Joining\<close>

definition k0s_join_arguments :: "runtime_config_spec \<Rightarrow> string \<Rightarrow> string \<Rightarrow> string \<Rightarrow> string \<Rightarrow> string list" where
  "k0s_join_arguments rc node_ip hostname fullcmd profile =
     split_on CHR '' '' fullcmd @ [''--token-file'', ''/etc/k0s/join-token''] @
     (if profile \<noteq> [] then [''--profile'', profile] else []) @
     additional_install_flags rc node_ip hostname @
     (if contains_str fullcmd ''controller'' then additional_install_flags_controller else [])"

definition run_k0s_install_command :: "(string \<Rightarrow> cli_world \<Rightarrow> cli_world) \<Rightarrow> install_env \<Rightarrow> string \<Rightarrow> string \<Rightarrow> string \<Rightarrow> string \<Rightarrow>
    (cli_world, unit) call" where
  "run_k0s_install_command E V nic hostname fullcmd profile =
     bind (wrap ''unable to find first valid address'' (lift (first_valid_address (ie_netlib V) (ie_interfaces V) nic))) (\<lambda>node_ip.
     bind (gets cw_rc) (\<lambda>rc.
     host_step E (join_str '' '' (k0s_join_arguments rc node_ip hostname fullcmd profile))))"

definition start_and_wait_for_k0s :: "(string \<Rightarrow> cli_world \<Rightarrow> cli_world) \<Rightarrow> (cli_world, unit) call" where
  "start_and_wait_for_k0s E =
     bind (wrap ''unable to start service'' (host_step E ''/usr/local/bin/k0s start'')) (\<lambda>_.
     wrap ''unable to wait for node'' (host_step E ''wait for k0s''))"

text \<open>What precedes the configuration of k0s; the host's name is what the rest needs of it.\<close>

definition prepare_to_join :: "(string \<Rightarrow> cli_world \<Rightarrow> cli_world) \<Rightarrow> join_env \<Rightarrow> join_response \<Rightarrow> (cli_world, string) call" where
  "prepare_to_join E J r =
     bind (wrap ''unable to detect hostname'' (lift (ie_hostname (jn_env J)))) (\<lambda>hostname.
     bind (wrap ''unable to save token to disk'' (host_step E ''write /etc/k0s/join-token'')) (\<lambda>_.
     bind (wrap ''unable to install k0s binary'' (wrap ''unable to move k0s binary'' (host_step E ''mv k0s /usr/local/bin/k0s''))) (\<lambda>_.
     bind (if jr_registry_address r \<noteq> []
       then wrap ''unable to add insecure registry'' (host_step E (''add insecure registry '' @ jr_registry_address r)) else ret ()) (\<lambda>_.
     bind (wrap ''unable to create systemd unit files'' (host_step E ''create systemd unit files'')) (\<lambda>_.
     ret hostname)))))"

definition configure_and_join :: "(string \<Rightarrow> cli_world \<Rightarrow> cli_world) \<Rightarrow> join_env \<Rightarrow> join_flags \<Rightarrow> join_response \<Rightarrow> string \<Rightarrow>
    (cli_world, unit) call" where
  "configure_and_join E J f r hostname = (let V = jn_env J in
     bind (wrap ''unable to apply network configuration'' (apply_network_configuration V f r)) (\<lambda>_.
     bind (wrap ''unable to apply configuration overrides'' (apply_join_configuration_overrides J r)) (\<lambda>_.
     bind (gets (get_first_defined_profile V)) (\<lambda>found.
     bind (wrap ''unable to get first defined profile'' (lift found)) (\<lambda>profile.
     bind (wrap ''unable to join node to cluster''
       (run_k0s_install_command E V (jf_network_interface f) hostname (jr_command r) profile)) (\<lambda>_.
     start_and_wait_for_k0s E))))))"

definition install_and_join_cluster :: "(string \<Rightarrow> cli_world \<Rightarrow> cli_world) \<Rightarrow> join_env \<Rightarrow> join_flags \<Rightarrow> join_response \<Rightarrow> (cli_world, unit) call" where
  "install_and_join_cluster E J f r = bind (prepare_to_join E J r) (configure_and_join E J f r)"

definition join_ha_options :: "join_env \<Rightarrow> runtime_config_spec \<Rightarrow> installation_spec \<Rightarrow> enable_ha_options" where
  "join_ha_options J rc i =
     \<lparr>ha_cluster_id = cluster_id i, ha_admin_console_port = rc_admin_console_port rc, ha_is_airgap = air_gap i,
      ha_is_multi_node = (case spec_license_info i of None \<Rightarrow> False | Some l \<Rightarrow> is_multi_node_enabled l),
      ha_embedded_config = spec_config i, ha_end_user_config = None, ha_proxy = rc_proxy rc,
      ha_host_ca_path = host_ca_bundle_path rc, ha_data_dir = ec_home_directory rc, ha_k0s_dir = ec_k0s_sub_dir rc,
      ha_seaweedfs_dir = ec_seaweedfs_sub_dir rc, ha_service_cidr = service_cidr (rc_network rc),
      ha_kotsadm_ns = KotsadmNamespace, ha_operator_images = jn_operator_images J\<rparr>"

definition maybe_enable_ha :: "'v lib \<Rightarrow> join_env \<Rightarrow> join_flags \<Rightarrow> join_response \<Rightarrow> (cli_world, unit) call" where
  "maybe_enable_ha L J f r = (let V = jn_env J in
     if jf_no_ha f then ret ()
     else bind (wrap ''unable to create kubernetes client'' kube_client) (\<lambda>_.
       bind (wrap ''unable to create helm client'' (cli_api (ret ()))) (\<lambda>_.
       bind (wrap ''unable to check if HA can be enabled'' (on_kube (can_enable_ha L))) (\<lambda>(can, reason).
       if \<not> can then ret ()
       else bind (if jf_assume_yes f then ret True else wrap ''failed to get confirmation'' confirm) (\<lambda>should_enable.
         if \<not> should_enable then ret ()
         else bind (gets cw_rc) (\<lambda>rc.
           on_kube (enable_ha L (cli_addons V (release_domains V (ie_embedded_config V)) False) (join_ha_options J rc (jr_spec r)))))))))"

text \<open>After the checks of \<open>run_join_verify_and_prompt\<close>.\<close>

definition join_verified :: "'v lib \<Rightarrow> (string \<Rightarrow> cli_world \<Rightarrow> cli_world) \<Rightarrow> join_env \<Rightarrow> join_flags \<Rightarrow> join_response \<Rightarrow> (cli_world, unit) call" where
  "join_verified L E J f r = (let V = jn_env J in
     bind (wrap ''unable to initialize join'' (initialize_join E V r)) (\<lambda>cidr.
     bind (checked_preflights ''unable to run join preflights'' (run_join_preflights J f r cidr)) (\<lambda>_.
     bind (install_and_join_cluster E J f r) (\<lambda>_.
     bind (wrap ''unable to get kube client'' kube_client) (\<lambda>_.
     bind (wrap ''unable to get metadata client'' kube_client) (\<lambda>_.
     bind (wrap ''unable to get hostname'' (lift (ie_hostname V))) (\<lambda>n.
     bind (wrap ''unable to wait for node'' (wrap ''unable to wait for node'' (on_kube (wait_for_node L n (\<not> is_controller_join r))))) (\<lambda>_.
     if \<not> is_controller_join r then ret ()
     else wrap ''unable to enable high availability'' (maybe_enable_ha L J f r)))))))))"

definition run_join :: "'v lib \<Rightarrow> (string \<Rightarrow> cli_world \<Rightarrow> cli_world) \<Rightarrow> join_env \<Rightarrow> join_flags \<Rightarrow> join_response \<Rightarrow> (cli_world, unit) call" where
  "run_join L E J f r = bind (run_join_verify_and_prompt (jn_env J) f r) (\<lambda>_. join_verified L E J f r)"

definition join_cmd :: "'v lib \<Rightarrow> (string \<Rightarrow> cli_world \<Rightarrow> cli_world) \<Rightarrow> join_env \<Rightarrow> string list \<Rightarrow> join_flags \<Rightarrow> (cli_world, unit) call" where
  "join_cmd L E J changed f0 =
     bind (lift (pre_run_join (jn_env J) changed f0)) (\<lambda>f.
     bind (wrap ''unable to get join token'' (lift (jn_response J))) (\<lambda>r.
     run_join L E J f r))"

text \<open>The command that only runs the preflights.\<close>

definition run_join_run_preflights :: "(string \<Rightarrow> cli_world \<Rightarrow> cli_world) \<Rightarrow> join_env \<Rightarrow> join_flags \<Rightarrow> join_response \<Rightarrow> (cli_world, unit) call" where
  "run_join_run_preflights E J f r = (let V = jn_env J in
     bind (run_join_verify_and_prompt V f r) (\<lambda>_.
     bind (wrap ''failed to materialize files'' (materialize_files_for_join E r)) (\<lambda>_.
     bind (best_effort (host_step E ''configure sysctl'')) (\<lambda>_.
     bind (best_effort (host_step E ''configure kernel modules'')) (\<lambda>_.
     bind (gets cw_rc) (\<lambda>rc.
     bind (wrap ''unable to get join CIDR config'' (lift (get_join_cidr_config (ie_netlib V) rc))) (\<lambda>cidr.
     checked_preflights ''unable to run join preflights'' (run_join_preflights J f r cidr))))))))"

section \<open>Nothing but the runtime configuration is written before every check has passed\<close>

definition only_writes_rc :: "cli_world \<Rightarrow> cli_world \<Rightarrow> bool" where
  "only_writes_rc w w' \<longleftrightarrow> faults_only (cw_kube w) (cw_kube w') \<and> cw_client w' = cw_client w \<and>
     cw_backups w' = cw_backups w \<and> cw_restores w' = cw_restores w \<and> cw_control_nodes w' = cw_control_nodes w \<and>
     cw_k0s_file w' = cw_k0s_file w \<and> cw_log w' = cw_log w"

interpretation jc: cli_frame only_writes_rc
proof
  show "only_writes_rc u w" if "only_writes_rc u v" "only_writes_rc v w" for u v w
    using that fo.frame_trans by (auto simp: only_writes_rc_def)
qed (auto simp: only_writes_rc_def fo.frame_refl)

lemma keeps_verify_no_installation: "keeps only_writes_rc verify_no_installation"
  unfolding verify_no_installation_def k0s_is_installed_def by (intro jc.cli_rules)

lemma keeps_write_runtime_config: "keeps only_writes_rc write_runtime_config"
  unfolding write_runtime_config_def
  by (intro jc.cli_rules jc.keeps_modify) (simp_all add: only_writes_rc_def fo.frame_refl)

lemma keeps_join_verify: "keeps only_writes_rc (run_join_verify_and_prompt V f r)"
  unfolding run_join_verify_and_prompt_def
  by (intro jc.cli_rules keeps_verify_no_installation keeps_write_runtime_config jc.keeps_modify)
    (simp add: only_writes_rc_def fo.frame_refl)

lemma write_runtime_config_Ok:
  assumes "write_runtime_config w = (Ok u, w')"
  shows "cw_rc_disk w' = Some (cw_rc w)" "cw_rc w' = cw_rc w"
proof -
  from assms obtain v k where "cw_rc v = cw_rc w" "w' = v\<lparr>cw_kube := k, cw_rc_disk := Some (cw_rc v)\<rparr>"
    by (auto simp: write_runtime_config_def bind_Ok_iff wrap_Ok_iff elim!: cli_api_Ok)
  then show "cw_rc_disk w' = Some (cw_rc w)" "cw_rc w' = cw_rc w" by simp_all
qed

text \<open>
  C12: A node joins only a cluster of its own version. Either the join is refused, and no more than the runtime
  configuration of the cluster was written; or no k0s was there, the versions are those of the cluster, the
  cluster's runtime configuration is on disk, the proxy lets the node reach itself, and what follows is the join.
\<close>

theorem join_checks_before_it_changes:
  assumes "run_join L E J f r w = (q, w')"
  shows "only_writes_rc w w' \<and> (\<forall>u. q \<noteq> Ok u) \<or>
    (\<exists>w1. only_writes_rc w w1 \<and> cw_k0s_file w = None \<and> trim_v (jr_ec_version r) = trim_v (ie_version (jn_env J)) \<and>
       check_join_versions (jn_env J) r = Ok () \<and> cw_rc w1 = rc_set (runtime_config (jr_spec r)) (cw_rc w) \<and>
       cw_rc_disk w1 = Some (cw_rc w1) \<and> check_join_proxy (jn_env J) f (cw_rc w1) = Ok () \<and>
       join_verified L E J f r w1 = (q, w'))"
  using assms unfolding run_join_def
proof (cases rule: bind_run)
  case stop
  then show ?thesis using keeps_join_verify by (simp add: keeps_def)
next
  case (go x w1)
  have "only_writes_rc w w1" using keeps_join_verify go(1) by (rule keepsD)
  moreover obtain v v1 where v: "verify_no_installation w = (Ok (), v)"
    "write_runtime_config (v\<lparr>cw_rc := rc_set (runtime_config (jr_spec r)) (cw_rc v)\<rparr>) = (Ok (), v1)" "w1 = v1"
    and checks: "check_join_versions (jn_env J) r = Ok ()" "check_join_ec_version (jn_env J) r = Ok ()"
    "check_join_proxy (jn_env J) f (cw_rc v1) = Ok ()"
    using go(1) unfolding run_join_verify_and_prompt_def by (auto simp: bind_Ok_iff wrap_Ok_iff)
  moreover have "trim_v (jr_ec_version r) = trim_v (ie_version (jn_env J))"
    using checks(2) by (simp add: check_join_ec_version_def split: if_splits)
  ultimately show ?thesis using verify_no_installation_Ok [OF v(1), unfolded agrees_def] write_runtime_config_Ok [OF v(2)] go(2) by auto
qed

section \<open>The networks of a node are those of its cluster\<close>

lemma node_parts_network [simp]: "cfg_network (node_parts new cfg) = cfg_network cfg"
  by (simp add: node_parts_def Let_def)

lemma apply_override_network:
  assumes "apply_override J p w = (Ok u, w')" "cw_k0s_file w = Some c"
  shows "\<exists>c'. cw_k0s_file w' = Some c' \<and> cfg_network c' = cfg_network c"
  using assms
  by (auto simp: apply_override_def patch_k0s_file_def Let_def bind_Ok_iff wrap_Ok_iff split: if_splits elim!: cli_api_Ok)

lemma overrides_network:
  assumes "apply_join_configuration_overrides J r w = (Ok u, w')" "cw_k0s_file w = Some c"
  shows "\<exists>c'. cw_k0s_file w' = Some c' \<and> cfg_network c' = cfg_network c"
proof -
  from assms(1) obtain p q v where "apply_override J p w = (Ok (), v)" "apply_override J q v = (Ok (), w')"
    by (auto simp: apply_join_configuration_overrides_def bind_Ok_iff wrap_Ok_iff)
  with assms(2) show ?thesis using apply_override_network by metis
qed

lemma apply_network_configuration_Ok:
  assumes "apply_network_configuration V f r w = (Ok u, w')"
  shows "\<exists>c cidr net. cw_k0s_file w' = Some c \<and> get_join_cidr_config (ie_netlib V) (cw_rc w) = Ok cidr \<and>
    cfg_network c = Some net \<and> net_pod_cidr net = cc_pod cidr \<and> net_service_cidr net = cc_service cidr"
proof -
  from assms obtain c0 address cidr c1 c2 where cidr: "get_join_cidr_config (ie_netlib V) (cw_rc w) = Ok cidr"
    and c1: "with_addresses address (cc_pod cidr) (cc_service cidr) c0 = Ok c1"
    and c2: "with_node_port_range (node_port_range (rc_network (cw_rc w))) c1 = Ok c2"
    and w': "cw_k0s_file w' = Some (apply_host_overrides (ie_iptables V) c2)"
    by (auto simp: apply_network_configuration_def Let_def bind_Ok_iff wrap_Ok_iff elim!: cli_api_Ok)
  from c1 obtain net where "cfg_network c1 = Some net" "net_pod_cidr net = cc_pod cidr" "net_service_cidr net = cc_service cidr"
    by (auto simp: with_addresses_def)
  moreover from c2 have "cfg_network c2 = cfg_network c1"
    by (auto simp: with_node_port_range_def split: if_splits)
  ultimately show ?thesis using cidr w' by (auto simp: apply_host_overrides_def Let_def split: sum.split)
qed

definition same_config :: "cli_world \<Rightarrow> cli_world \<Rightarrow> bool" where
  "same_config w w' \<longleftrightarrow> cw_k0s_file w' = cw_k0s_file w \<and> cw_rc w' = cw_rc w"

interpretation sc: cli_frame same_config
  by unfold_locales (auto simp: same_config_def)

definition leaves_config :: "(string \<Rightarrow> cli_world \<Rightarrow> cli_world) \<Rightarrow> bool" where
  "leaves_config E \<longleftrightarrow> (\<forall>s w. cw_k0s_file (E s w) = cw_k0s_file w \<and> cw_rc (E s w) = cw_rc w)"

lemma host_step_config: "leaves_config E \<Longrightarrow> keeps same_config (host_step E s)"
  unfolding host_step_def by (intro sc.cli_rules sc.keeps_modify) (simp add: leaves_config_def same_config_def)

lemma keeps_start_and_wait: "leaves_config E \<Longrightarrow> keeps same_config (start_and_wait_for_k0s E)"
  unfolding start_and_wait_for_k0s_def by (intro sc.cli_rules host_step_config)

lemma keeps_run_k0s_install_command: "leaves_config E \<Longrightarrow> keeps same_config (run_k0s_install_command E V nic h c p)"
  unfolding run_k0s_install_command_def by (intro sc.cli_rules host_step_config)

lemma two_wrapped:
  "bind (wrap a m) (\<lambda>_. bind (wrap b n) (\<lambda>_. rest)) v = (Ok u, w') \<Longrightarrow>
    \<exists>v1 v2 x y. m v = (Ok x, v1) \<and> n v1 = (Ok y, v2) \<and> rest v2 = (Ok u, w')"
  by (auto simp: bind_Ok_iff wrap_Ok_iff)

lemma keeps_then: "keeps R m \<Longrightarrow> bind m f w = (Ok x, w') \<Longrightarrow> (\<And>y v. R w v \<Longrightarrow> f y v = (Ok x, w') \<Longrightarrow> P) \<Longrightarrow> P"
  unfolding bind_Ok_iff by (blast dest: keepsD)

text \<open>
  C13: Whatever the overrides of the application and of the user say, the k0s configuration of a node that has joined
  has the pod and service networks of the cluster: those of its runtime configuration, else the halves of the global
  (or default) network. The steps on the host are only assumed to leave that file and the configuration alone.
\<close>

theorem joined_node_has_cluster_networks:
  assumes "leaves_config E" "install_and_join_cluster E J f r w = (Ok u, w')"
  shows "\<exists>c cidr net. cw_k0s_file w' = Some c \<and> get_join_cidr_config (ie_netlib (jn_env J)) (cw_rc w) = Ok cidr \<and>
    cfg_network c = Some net \<and> net_pod_cidr net = cc_pod cidr \<and> net_service_cidr net = cc_service cidr"
proof -
  have "keeps same_config (prepare_to_join E J r)"
    unfolding prepare_to_join_def by (intro sc.cli_rules host_step_config assms(1))
  from keeps_then [OF this assms(2) [unfolded install_and_join_cluster_def]] obtain hostname v
    where before: "same_config w v" and joined: "configure_and_join E J f r hostname v = (Ok u, w')" by blast
  obtain v1 v2 where v1: "apply_network_configuration (jn_env J) f r v = (Ok (), v1)"
    and v2: "apply_join_configuration_overrides J r v1 = (Ok (), v2)"
    and rest: "bind (gets (get_first_defined_profile (jn_env J))) (\<lambda>found.
     bind (wrap ''unable to get first defined profile'' (lift found)) (\<lambda>profile.
     bind (wrap ''unable to join node to cluster''
       (run_k0s_install_command E (jn_env J) (jf_network_interface f) hostname (jr_command r) profile)) (\<lambda>_.
     start_and_wait_for_k0s E))) v2 = (Ok u, w')"
    using two_wrapped [OF joined [unfolded configure_and_join_def Let_def]] by auto
  obtain c cidr net where c: "cw_k0s_file v1 = Some c" "get_join_cidr_config (ie_netlib (jn_env J)) (cw_rc v) = Ok cidr"
    "cfg_network c = Some net" "net_pod_cidr net = cc_pod cidr" "net_service_cidr net = cc_service cidr"
    using apply_network_configuration_Ok [OF v1] by auto
  obtain c' where c': "cw_k0s_file v2 = Some c'" "cfg_network c' = cfg_network c"
    using overrides_network [OF v2 c(1)] by auto
  have "same_config v2 w'"
    using rest
  proof (rule keepsD [rotated])
    show "keeps same_config (bind (gets (get_first_defined_profile (jn_env J))) (\<lambda>found.
     bind (wrap ''unable to get first defined profile'' (lift found)) (\<lambda>profile.
     bind (wrap ''unable to join node to cluster''
       (run_k0s_install_command E (jn_env J) (jf_network_interface f) hostname (jr_command r) profile)) (\<lambda>_.
     start_and_wait_for_k0s E))))"
      by (intro sc.cli_rules keeps_start_and_wait keeps_run_k0s_install_command assms(1))
  qed
  then show ?thesis using c c' before by (intro exI [of _ c'] exI [of _ cidr] exI [of _ net]) (simp add: same_config_def)
qed

section \<open>Samples\<close>

definition no_image :: k0s_image where "no_image = \<lparr>ki_image = [], ki_version = []\<rparr>"

definition joining_config :: k0s_config where
  "joining_config = (kc_default sample_config_lib)\<lparr>
     cfg_api := Some \<lparr>api_address = [], api_extra_args = [], api_sans = [], api_rest = []\<rparr>,
     cfg_network := Some \<lparr>net_provider = ''calico'', net_kube_router = False, net_calico = None, net_kube_proxy_mode = None,
       net_nllb = Some \<lparr>nllb_enabled = False, nllb_type = [], nllb_envoy = Some (Some no_image), nllb_rest = []\<rparr>, net_pod_cidr = [], net_service_cidr = [], net_rest = []\<rparr>,
     cfg_images := Some \<lparr>img_core_dns = Some no_image, img_calico_node = Some no_image, img_calico_cni = Some no_image,
       img_calico_controllers = Some no_image, img_metrics_server = Some no_image, img_kube_proxy = Some no_image,
       img_pause = Some no_image, img_pull_policy = [], img_rest = []\<rparr>,
     cfg_storage := ''etcd'', cfg_etcd_peer := Some []\<rparr>"

definition joining_env :: install_env where
  "joining_env = sample_env\<lparr>ie_upgrade_lib := sample_upgrade_lib\<lparr>ul_config := sample_config_lib\<lparr>
     kc_default := joining_config, kc_image_metadata := Some (\<lambda>_. ([], [])), kc_unmarshal := (\<lambda>_. Ok joining_config)\<rparr>\<rparr>\<rparr>"

definition sample_join_env :: join_env where
  "sample_join_env = \<lparr>jn_env = joining_env, jn_response = Err (EMsg ''not asked''),
     jn_parse_patch = (\<lambda>_. Ok \<lparr>kp_api = [], kp_storage = [], kp_worker_profiles = Some ''ip-forward''\<rparr>),
     jn_marshal_patch = (\<lambda>_. Ok ''workerProfiles: []''), jn_bare_config = joining_config,
     jn_preflights = (\<lambda>_ _. Ok True), jn_operator_images = []\<rparr>"

definition sample_join_flags :: join_flags where
  "sample_join_flags = \<lparr>jf_no_ha = False, jf_network_interface = ''eth0'', jf_assume_yes = True, jf_skip_host_preflights = False,
     jf_ignore_host_preflights = False, jf_disable_fs_check = False, jf_assets_size = 0\<rparr>"

definition sample_response :: join_response where
  "sample_response = \<lparr>jr_command = ''k0s install controller'', jr_token = ''t'', jr_cluster_id = ''c'', jr_ec_version = ''2.0.0'',
     jr_app_version_label = [], jr_registry_address = [], jr_tcp_connections = [], jr_spec = in_spec sample_upgrading\<rparr>"

lemma sample_join_cidr: "\<exists>c. get_join_cidr_config sample_netlib empty_runtime_config = Ok c"
proof -
  have p: "parse_cidr N ''10.244.0.0/16'' = Ok (IP4 183762944, net4 183762944 16)" for N
    by (simp add: parse_cidr_def parse_addr_def first_sep_def parse_ip4_def parse_octet_def parse_dec_def
      is_digit_def digit_val_def net4_def clear_low_def)
  show ?thesis by (simp add: get_join_cidr_config_def empty_runtime_config_def empty_network_def default_network_cidr_def split_network_cidr_def p, simp add: sample_netlib_def net4_def)
qed

lemma sample_join_address: "first_valid_address sample_netlib (Ok [sample_nic]) ''eth0'' =
      Ok (show_ip sample_netlib (IP4 167772165))"
    by (simp add: sample_nic_def first_valid_address_def
        first_valid_ip_net_def list_valid_interfaces_def is_valid_interface_def first_valid_ip_net_of_def is_loopback_def net4_def)

lemma sample_join_rendered: "\<exists>c. render_k0s_config (ul_config (ie_upgrade_lib joining_env)) d = Ok c \<and> cfg_api c \<noteq> None \<and> cfg_etcd_peer c \<noteq> None \<and> cfg_network c \<noteq> None"
  by (simp add: render_k0s_config_def joining_env_def joining_config_def sample_config_lib_def sample_env_def sample_upgrade_lib_def no_image_def
   enable_calico_def override_k0s_images_def override_image_def)

lemma sample_join_networks:
  assumes "faults (cw_kube w) = []" "cw_rc w = empty_runtime_config"
  shows "\<exists>c. apply_network_configuration joining_env sample_join_flags sample_response w = (Ok (), w\<lparr>cw_k0s_file := Some c\<rparr>)"
proof -
  obtain c0 api etcd net where c0: "render_k0s_config (ul_config (ie_upgrade_lib joining_env)) (proxy_registry_domain (release_domains joining_env (spec_config (jr_spec sample_response)))) = Ok c0"
   "cfg_api c0 = Some api" "cfg_etcd_peer c0 = Some etcd" "cfg_network c0 = Some net"
    using sample_join_rendered by blast
  obtain cidr where cidr: "get_join_cidr_config sample_netlib empty_runtime_config = Ok cidr" using sample_join_cidr by blast
  have e: "ie_netlib joining_env = sample_netlib" "ie_interfaces joining_env = Ok [sample_nic]" "kc_marshal (ul_config (ie_upgrade_lib joining_env)) c = Ok []" for c
    by (simp_all add: joining_env_def sample_env_def sample_config_lib_def)
  have p: "node_port_range (rc_network empty_runtime_config) = []"
    by (simp add: empty_runtime_config_def empty_network_def)
  have nic: "jf_network_interface sample_join_flags = ''eth0''" by (simp add: sample_join_flags_def)
  show ?thesis
    unfolding apply_network_configuration_def
    by (intro exI) (simp add: bind_def c0 cidr gets_def lift_def wrap_def e sample_join_address with_addresses_def with_node_port_range_def assms p nic modify_def)
qed

lemma sample_join_overrides: "faults (cw_kube w) = [] \<Longrightarrow> \<exists>c. apply_join_configuration_overrides sample_join_env sample_response (w\<lparr>cw_k0s_file := Some c0\<rparr>) =
   (Ok (), w\<lparr>cw_k0s_file := Some c\<rparr>)"
  by (intro exI) (simp add: apply_join_configuration_overrides_def apply_override_def patch_k0s_file_def patch_k0s_config_def extract_k0s_config_patch_def
    embedded_overrides_def end_user_overrides_def extract_override_patch_def patch_is_empty_def
    bind_def lift_def gets_def wrap_def modify_def sample_join_env_def joining_env_def joining_config_def sample_env_def sample_upgrade_lib_def sample_config_lib_def
    sample_response_def sample_upgrading_def sample_spec_def sample_config_def)

lemma quiet_host_step: "faults (cw_kube w) = [] \<Longrightarrow> host_step (\<lambda>_ w. w) s w = (Ok (), w\<lparr>cw_log := cw_log w @ [HostStep s]\<rparr>)"
  by (simp add: host_step_def modify_def)

lemma sample_joined: "\<exists>w'. install_and_join_cluster (\<lambda>_ w. w) sample_join_env sample_join_flags sample_response sample_world =
   (Ok (), w')"
proof -
  have w: "faults (cw_kube sample_world) = []" "cw_rc sample_world = empty_runtime_config" by (simp_all add: sample_world_def sample_kube_def)
  have e: "ie_netlib joining_env = sample_netlib" "ie_interfaces joining_env = Ok [sample_nic]" "ie_hostname joining_env = Ok ''n''"
    "kc_marshal (ul_config (ie_upgrade_lib joining_env)) c = Ok []" "kc_unmarshal (ul_config (ie_upgrade_lib joining_env)) t = Ok joining_config"
    "jn_env sample_join_env = joining_env" "jf_network_interface sample_join_flags = ''eth0''" "jr_registry_address sample_response = []" for c t
    by (simp_all add: joining_env_def sample_env_def sample_config_lib_def sample_join_env_def sample_join_flags_def sample_response_def)
  obtain logged where log: "prepare_to_join (\<lambda>_ w. w) sample_join_env sample_response sample_world = (Ok ''n'', sample_world\<lparr>cw_log := logged\<rparr>)"
    by (simp add: prepare_to_join_def bind_def wrap_def lift_def e w quiet_host_step)
  let ?w = "sample_world\<lparr>cw_log := logged\<rparr>"
  obtain c where c: "apply_network_configuration joining_env sample_join_flags sample_response ?w = (Ok (), ?w\<lparr>cw_k0s_file := Some c\<rparr>)"
    using sample_join_networks [of ?w] w by auto
  obtain c' where c': "apply_join_configuration_overrides sample_join_env sample_response (?w\<lparr>cw_k0s_file := Some c\<rparr>) =
   (Ok (), ?w\<lparr>cw_k0s_file := Some c'\<rparr>)" using sample_join_overrides [of ?w c] w by auto
  have "\<exists>w'. configure_and_join (\<lambda>_ w. w) sample_join_env sample_join_flags sample_response ''n'' ?w = (Ok (), w')"
    by (simp add: configure_and_join_def bind_def wrap_def c c' gets_def lift_def get_first_defined_profile_def k0s_file_text_def e
      run_k0s_install_command_def start_and_wait_for_k0s_def sample_join_address quiet_host_step w)
  then show ?thesis by (simp add: install_and_join_cluster_def bind_def log)
qed

text \<open>A cluster of another version.\<close>

theorem join_checks_before_it_changes_witness:
  "\<exists>q w'. run_join sample_lib (\<lambda>_ w. w) sample_join_env sample_join_flags (sample_response\<lparr>jr_ec_version := ''3.0.0''\<rparr>) sample_world =
     (q, w') \<and> only_writes_rc sample_world w' \<and> (\<forall>u. q \<noteq> Ok u)"
proof -
  obtain q w' where run: "run_join sample_lib (\<lambda>_ w. w) sample_join_env sample_join_flags
      (sample_response\<lparr>jr_ec_version := ''3.0.0''\<rparr>) sample_world = (q, w')" by fastforce
  have "trim_v (jr_ec_version (sample_response\<lparr>jr_ec_version := ''3.0.0''\<rparr>)) \<noteq> trim_v (ie_version (jn_env sample_join_env))"
    by (simp add: trim_v_def sample_join_env_def joining_env_def sample_env_def)
  then show ?thesis using join_checks_before_it_changes [OF run] run by blast
qed

theorem joined_node_has_cluster_networks_witness: "\<exists>w'. install_and_join_cluster (\<lambda>_ w. w) sample_join_env sample_join_flags
    sample_response sample_world = (Ok (), w') \<and> (\<exists>c net. cw_k0s_file w' = Some c \<and> cfg_network c = Some net)"
proof -
  obtain w' where run: "install_and_join_cluster (\<lambda>_ w. w) sample_join_env sample_join_flags sample_response sample_world =
    (Ok (), w')" using sample_joined by blast
  then show ?thesis using joined_node_has_cluster_networks [OF _ run] by (auto simp: leaves_config_def)
qed

end
