(* ===== verification/Reset.thy ===== *)
theory Reset
  imports Install Waits
begin

text \<open>
  Resetting a node (\<^verbatim>\<open>cmd/installer/cli/reset.go\<close>, \<^verbatim>\<open>pkg/runtimeconfig/util\<close>): the runtime configuration the program finds, what it knows of its
  host, whether the node may go, leaving the cluster, and what is removed from the host.

  Which files and services the host has, what k0s and etcd answer and whether the API server lets the node delete itself
  are parameters; a file is a question about the state. A removal is a step on the host that also takes the file of k0s or of
  the runtime configuration from the state. Messages and pauses are left out.
\<close>

section \<open>Data\<close>

record k0s_status =
  ks_role :: string
  ks_admin_config :: string
  ks_kubelet_config :: string

record reset_env =
  xe_env :: install_env
  xe_status :: "k0s_status outcome"
  xe_present :: "cli_world \<Rightarrow> string \<Rightarrow> bool"
  xe_service :: "cli_world \<Rightarrow> string \<Rightarrow> bool"
  xe_etcd_client :: "unit outcome"
  xe_etcd_healthy :: bool
  xe_members :: "nat \<Rightarrow> (string \<times> string) list outcome"
  xe_may_delete :: bool

record host_info =
  hi_hostname :: string
  hi_client_error :: "err option"
  hi_node :: "node option"
  hi_node_error :: "err option"
  hi_control_node :: "string option"
  hi_control_error :: "err option"
  hi_role :: string
  hi_role_name :: string

definition k0s_binary :: string where "k0s_binary = ''/usr/local/bin/k0s''"

definition empty_host :: host_info where
  "empty_host = \<lparr>hi_hostname = [], hi_client_error = None, hi_node = None, hi_node_error = None, hi_control_node = None,
     hi_control_error = None, hi_role = [], hi_role_name = []\<rparr>"

section \<open>The runtime configuration\<close>

definition k0s_get_status :: "reset_env \<Rightarrow> (cli_world, k0s_status) call" where
  "k0s_get_status R = bind (gets (\<lambda>w. xe_present R w k0s_binary)) (\<lambda>there.
     lift (if there then xe_status R else Err (ENotExist k0s_binary)))"

definition legacy_runtime_config :: runtime_config_spec where
  "legacy_runtime_config = empty_runtime_config\<lparr>data_dir := default_data_dir, k0s_data_dir_override := ''/var/lib/k0s'',
     openebs_data_dir_override := ''/var/openebs''\<rparr>"

definition runtime_config_from_filesystem :: "reset_env \<Rightarrow> (cli_world, runtime_config_spec) call" where
  "runtime_config_from_filesystem R = bind (gets (xe_present R)) (\<lambda>there.
     if there (path_join (ec_k0s_sub_dir empty_runtime_config) ''pki/ca.crt'') then ret empty_runtime_config
     else if there (path_join (ec_k0s_sub_dir legacy_runtime_config) ''pki/ca.crt'') then ret legacy_runtime_config
     else throw (EMsg ''unable to discover runtime config from filesystem''))"

definition runtime_config_from_cluster :: "'v lib \<Rightarrow> reset_env \<Rightarrow> (cli_world, runtime_config_spec) call" where
  "runtime_config_from_cluster L R = bind (attempt (k0s_get_status R)) (\<lambda>r. case r of
      Inl e \<Rightarrow> (case err_cause e of
          ENotExist _ \<Rightarrow> throw (EMsg (ie_app_slug (xe_env R) @ '' does not seem to be installed on this node''))
        | _ \<Rightarrow> throw (EWrap ''get k0s status'' e))
    | Inr _ \<Rightarrow>
        bind (wrap ''create kube client'' kube_client) (\<lambda>_.
        bind (wrap ''get latest installation'' (on_kube (get_latest_installation L))) (\<lambda>i.
        case runtime_config (in_spec i) of
          None \<Rightarrow> runtime_config_from_filesystem R
        | Some rc \<Rightarrow> if data_dir rc = [] then runtime_config_from_filesystem R else ret rc)))"

definition runtime_config_from_disk :: "(cli_world, runtime_config_spec) call" where
  "runtime_config_from_disk = wrap ''unable to read runtime config'' (cli_api (bind (gets cw_rc_disk) (\<lambda>d. case d of
      None \<Rightarrow> throw (ENotExist ''/etc/embedded-cluster/ec.yaml'') | Some rc \<Rightarrow> ret rc)))"

definition or_else :: "('w, 'a) call \<Rightarrow> ('w, 'a) call \<Rightarrow> ('w, 'a) call" where
  "or_else m n = bind (attempt m) (\<lambda>r. case r of Inr x \<Rightarrow> ret x | Inl _ \<Rightarrow> n)"

definition init_best_runtime_config :: "'v lib \<Rightarrow> reset_env \<Rightarrow> (cli_world, runtime_config_spec) call" where
  "init_best_runtime_config L R = or_else (runtime_config_from_cluster L R) (or_else runtime_config_from_disk
     (or_else (runtime_config_from_filesystem R) (ret empty_runtime_config)))"

section \<open>What the program knows of its host\<close>

definition configure_kubernetes_client :: "host_info \<Rightarrow> (cli_world, host_info) call" where
  "configure_kubernetes_client h = bind (attempt kube_client) (\<lambda>r. ret (case r of
      Inl e \<Rightarrow> h\<lparr>hi_client_error := Some (EWrap ''unable to create kube client'' e)\<rparr> | Inr _ \<Rightarrow> h))"

definition get_node_object :: "host_info \<Rightarrow> (cli_world, host_info) call" where
  "get_node_object h = (case hi_client_error h of
      Some e \<Rightarrow> ret (h\<lparr>hi_node_error := Some (EWrap ''unable to load cluster client'' e)\<rparr>)
    | None \<Rightarrow> bind (attempt (on_kube (api (gets nodes)))) (\<lambda>r. ret (case r of
          Inl e \<Rightarrow> h\<lparr>hi_node_error := Some (EWrap ''unable to get Node'' e)\<rparr>
        | Inr ns \<Rightarrow> (case List.find (\<lambda>x. node_name x = hi_hostname h) ns of
              None \<Rightarrow> h\<lparr>hi_node_error := Some (EWrap ''unable to get Node'' (ENotFound (hi_hostname h)))\<rparr>
            | Some x \<Rightarrow> h\<lparr>hi_node := Some x\<rparr>))))"

definition get_control_node_object :: "host_info \<Rightarrow> (cli_world, host_info) call" where
  "get_control_node_object h = (case hi_client_error h of
      Some e \<Rightarrow> ret (h\<lparr>hi_control_error := Some (EWrap ''unable to load cluster client'' e)\<rparr>)
    | None \<Rightarrow> bind (attempt (cli_api (gets cw_control_nodes))) (\<lambda>r. ret (case r of
          Inl e \<Rightarrow> h\<lparr>hi_control_error := Some (EWrap ''unable to get ControlNode'' e)\<rparr>
        | Inr ns \<Rightarrow> (if hi_hostname h \<in> set ns then h\<lparr>hi_control_node := Some (hi_hostname h)\<rparr>
            else h\<lparr>hi_control_error := Some (EWrap ''unable to get ControlNode'' (ENotFound (hi_hostname h)))\<rparr>))))"

definition with_role_name :: "host_info \<Rightarrow> host_info" where
  "with_role_name h = (case hi_node h of
      None \<Rightarrow> h
    | Some x \<Rightarrow> (case map_of (node_labels x) ''kots.io/embedded-cluster-role-0'' of
          None \<Rightarrow> h | Some v \<Rightarrow> h\<lparr>hi_role_name := v\<rparr>))"

text \<open>The information goes on with an error beside it.\<close>

definition new_host_info :: "reset_env \<Rightarrow> (cli_world, host_info \<times> err option) call" where
  "new_host_info R = bind (attempt (wrap ''unable to get hostname'' (wrap ''unable to get hostname'' (lift (ie_hostname (xe_env R)))))) (\<lambda>r.
     case r of
       Inl e \<Rightarrow> ret (empty_host\<lparr>hi_client_error := Some e\<rparr>, Some e)
     | Inr n \<Rightarrow> bind (attempt (k0s_get_status R)) (\<lambda>s. case s of
           Inl _ \<Rightarrow> (let e = EMsg ''client not initialized''
             in ret (empty_host\<lparr>hi_hostname := n, hi_client_error := Some e\<rparr>, Some e))
         | Inr st \<Rightarrow>
             bind (configure_kubernetes_client (empty_host\<lparr>hi_hostname := n, hi_role := ks_role st, hi_role_name := ks_role st\<rparr>)) (\<lambda>h.
             bind (get_node_object h) (\<lambda>h.
             bind (if hi_role h = ''controller'' then get_control_node_object h else ret h) (\<lambda>h.
             ret (with_role_name h, None))))))"

section \<open>Going on after an error\<close>

definition check_err_prompt :: "bool \<Rightarrow> bool \<Rightarrow> err option \<Rightarrow> (cli_world, bool) call" where
  "check_err_prompt no_prompt force e =
     (if e = None \<or> force then ret True
      else if no_prompt then ret False
      else bind (attempt confirm) (\<lambda>r. ret (case r of Inl _ \<Rightarrow> False | Inr b \<Rightarrow> b)))"

definition proceed :: "bool \<Rightarrow> bool \<Rightarrow> err option \<Rightarrow> (cli_world, unit) call" where
  "proceed yes force e = bind (check_err_prompt yes force e) (\<lambda>ok.
     if ok then ret () else case e of None \<Rightarrow> ret () | Some e \<Rightarrow> throw e)"

definition error_of :: "err + 'a \<Rightarrow> err option" where
  "error_of r = (case r of Inl e \<Rightarrow> Some e | Inr _ \<Rightarrow> None)"

section \<open>May the node go\<close>

definition maybe_print_ha_warning :: "'v lib \<Rightarrow> reset_env \<Rightarrow> runtime_config_spec \<Rightarrow> (cli_world, unit) call" where
  "maybe_print_ha_warning L R rc = bind (gets (\<lambda>w. xe_present R w (path_to_kube_config rc))) (\<lambda>there.
     if \<not> there then ret ()
     else bind (wrap ''unable to create kube client'' kube_client) (\<lambda>_.
       bind (attempt (on_kube (get_latest_installation L))) (\<lambda>r. case r of
           Inl e \<Rightarrow> if err_cause e = ENoInstallations then ret () else throw (EWrap ''unable to get installation'' e)
         | Inr i \<Rightarrow> if \<not> high_availability (in_spec i) then ret ()
             else bind (wrap ''unable to check control plane nodes'' (on_kube num_of_control_plane_nodes)) (\<lambda>_. ret ()))))"

definition is_control_plane :: "node \<Rightarrow> bool" where
  "is_control_plane x \<longleftrightarrow> map_of (node_labels x) ''node-role.kubernetes.io/control-plane'' \<noteq> None"

definition last_controller :: "node list \<Rightarrow> bool" where
  "last_controller ns \<longleftrightarrow> filter (\<lambda>x. \<not> is_control_plane x) ns \<noteq> [] \<and> length (filter is_control_plane ns) = 1"

definition check_reset_safety :: "reset_env \<Rightarrow> host_info \<Rightarrow> bool \<Rightarrow> (cli_world, bool \<times> string) call" where
  "check_reset_safety R h force =
     (if force then ret (True, [])
      else case hi_client_error h of
        Some e \<Rightarrow> throw (EWrap ''unable to load cluster client'' e)
      | None \<Rightarrow>
          bind (wrap ''unable to create etcd client'' (lift (xe_etcd_client R))) (\<lambda>_.
          if \<not> xe_etcd_healthy R then ret (False, ''Etcd is not ready. Please wait up to 5 minutes and try again.'')
          else bind (wrap ''unable to list Nodes'' (on_kube (api (gets nodes)))) (\<lambda>ns.
            if last_controller ns
            then ret (False, ''Cannot reset the last '' @ hi_role_name h @ '' node when there are other nodes in the cluster.'')
            else ret (True, []))))"

definition require_reset_safety :: "reset_env \<Rightarrow> bool \<Rightarrow> bool \<Rightarrow> host_info \<Rightarrow> (cli_world, unit) call" where
  "require_reset_safety R yes force h = (if hi_role h \<noteq> ''controller'' then ret ()
     else bind (attempt (check_reset_safety R h force)) (\<lambda>r.
       bind (proceed yes force (error_of r)) (\<lambda>_.
       let verdict = (case r of Inl _ \<Rightarrow> (False, []) | Inr x \<Rightarrow> x)
       in if fst verdict then ret ()
          else throw (EMsg (snd verdict @ [CHR 0x0A] @ ''Run reset command with --force to ignore this'')))))"

section \<open>Leaving the cluster\<close>

definition quietly :: "(cli_world, unit) call \<Rightarrow> (cli_world, unit) call" where
  "quietly m = bind (attempt m) (\<lambda>_. ret ())"

definition drain_node :: "(string \<Rightarrow> cli_world \<Rightarrow> cli_world) \<Rightarrow> reset_env \<Rightarrow> host_info \<Rightarrow> (cli_world, unit) call" where
  "drain_node E R h = bind (gets (\<lambda>w. xe_present R w k0s_binary)) (\<lambda>there. if \<not> there then ret ()
     else quietly (host_step E (''k0s kubectl drain --ignore-daemonsets --delete-emptydir-data --timeout 60s '' @ hi_hostname h)))"

definition delete_node_object :: "reset_env \<Rightarrow> string \<Rightarrow> (kube, unit) call" where
  "delete_node_object R n = api (\<lambda>k. if \<not> xe_may_delete R then (Err (EForbidden n), k)
     else if n \<notin> node_name ` set (nodes k) then (Err (ENotFound n), k)
     else (Ok (), k\<lparr>nodes := filter (\<lambda>x. node_name x \<noteq> n) (nodes k)\<rparr>))"

definition tolerate_not_found :: "string \<Rightarrow> (cli_world, unit) call \<Rightarrow> (cli_world, unit) call" where
  "tolerate_not_found msg m = bind (attempt m) (\<lambda>r. case r of
      Inr u \<Rightarrow> ret u | Inl e \<Rightarrow> if is_not_found e then ret () else throw (EWrap msg e))"

definition delete_node :: "reset_env \<Rightarrow> host_info \<Rightarrow> (cli_world, unit) call" where
  "delete_node R h = (case hi_client_error h of
      Some e \<Rightarrow> throw (EWrap ''unable to delete Node'' e)
    | None \<Rightarrow> tolerate_not_found ''unable to delete Node'' (case hi_node_error h of
        Some e \<Rightarrow> throw e | None \<Rightarrow> on_kube (delete_node_object R (case hi_node h of None \<Rightarrow> [] | Some x \<Rightarrow> node_name x))))"

definition delete_control_node :: "host_info \<Rightarrow> (cli_world, unit) call" where
  "delete_control_node h = (case hi_client_error h of
      Some e \<Rightarrow> throw (EWrap ''unable to delete ControlNode'' e)
    | None \<Rightarrow> tolerate_not_found ''unable to delete ControlNode'' (case hi_control_error h of
        Some e \<Rightarrow> throw e
      | None \<Rightarrow> (let n = (case hi_control_node h of None \<Rightarrow> [] | Some n \<Rightarrow> n) in
          cli_api (\<lambda>w. if n \<notin> set (cw_control_nodes w) then (Err (ENotFound n), w)
            else (Ok (), w\<lparr>cw_control_nodes := filter (\<lambda>x. x \<noteq> n) (cw_control_nodes w)\<rparr>)))))"

text \<open>At most as many tries as are left; the list of the members, then leaving.\<close>

fun list_members :: "(string \<Rightarrow> cli_world \<Rightarrow> cli_world) \<Rightarrow> reset_env \<Rightarrow> nat \<Rightarrow> nat \<Rightarrow> (cli_world, (string \<times> string) list) call" where
  "list_members E R 0 i = throw (EMsg ''no try left'')"
| "list_members E R (Suc n) i =
     bind (attempt (bind (host_step E ''k0s etcd member-list'') (\<lambda>_. lift (xe_members R i)))) (\<lambda>r. case r of
        Inr ms \<Rightarrow> ret ms | Inl e \<Rightarrow> if n = 0 then throw e else list_members E R n (Suc i))"

fun leave_etcd :: "(string \<Rightarrow> cli_world \<Rightarrow> cli_world) \<Rightarrow> nat \<Rightarrow> (cli_world, unit) call" where
  "leave_etcd E 0 = ret ()"
| "leave_etcd E (Suc n) = bind (attempt (host_step E ''k0s etcd leave'')) (\<lambda>r. case r of
      Inr _ \<Rightarrow> ret () | Inl e \<Rightarrow> if contains_str (err_text e) ''etcdserver: server stopped'' then ret () else leave_etcd E n)"

definition leave_etcd_cluster :: "(string \<Rightarrow> cli_world \<Rightarrow> cli_world) \<Rightarrow> reset_env \<Rightarrow> host_info \<Rightarrow> (cli_world, unit) call" where
  "leave_etcd_cluster E R h = bind (gets (\<lambda>w. xe_present R w k0s_binary)) (\<lambda>there. if \<not> there then ret ()
     else bind (attempt (list_members E R 3 0)) (\<lambda>r. case r of
         Inl _ \<Rightarrow> ret ()
       | Inr ms \<Rightarrow> if length ms = 1 \<and> (case map_of ms (hi_hostname h) of None \<Rightarrow> False | Some v \<Rightarrow> v \<noteq> []) then ret ()
           else leave_etcd E 3))"

definition delete_worker_or_prompt :: "reset_env \<Rightarrow> bool \<Rightarrow> bool \<Rightarrow> host_info \<Rightarrow> (cli_world, unit) call" where
  "delete_worker_or_prompt R yes force h = bind (attempt (delete_node R h)) (\<lambda>r. case r of
      Inr _ \<Rightarrow> ret ()
    | Inl e \<Rightarrow> if is_forbidden e \<and> hi_role h = ''worker''
        then (if force \<or> yes then ret ()
          else bind (wrap ''failed to get confirmation'' confirm) (\<lambda>b. if b then ret () else throw (EMsg ''reset aborted'')))
        else proceed yes force (Some e))"

definition leave_cluster :: "(string \<Rightarrow> cli_world \<Rightarrow> cli_world) \<Rightarrow> reset_env \<Rightarrow> bool \<Rightarrow> bool \<Rightarrow> host_info \<Rightarrow> (cli_world, unit) call" where
  "leave_cluster E R yes force h =
     bind (if hi_client_error h = None
       then bind (attempt (on_kube num_of_control_plane_nodes)) (\<lambda>r. ret (case r of Inl _ \<Rightarrow> 0 | Inr n \<Rightarrow> n)) else ret 0) (\<lambda>n.
     if hi_role h = ''controller'' \<and> n = 1 then ret ()
     else bind (drain_node E R h) (\<lambda>_.
       bind (delete_worker_or_prompt R yes force h) (\<lambda>_.
       if hi_role h \<noteq> ''controller'' then ret ()
       else bind (attempt (delete_control_node h)) (\<lambda>r.
         bind (proceed yes force (error_of r)) (\<lambda>_.
         leave_etcd_cluster E R h)))))"

section \<open>Clearing the host\<close>

definition stop_and_reset_k0s :: "(string \<Rightarrow> cli_world \<Rightarrow> cli_world) \<Rightarrow> reset_env \<Rightarrow> string \<Rightarrow> (cli_world, unit) call" where
  "stop_and_reset_k0s E R dir = bind (gets (\<lambda>w. xe_present R w k0s_binary)) (\<lambda>there. if \<not> there then ret ()
     else bind (gets (xe_service R)) (\<lambda>service.
       if \<not> service ''k0scontroller.service'' \<and> \<not> service ''k0sworker.service'' then ret ()
       else bind (quietly (host_step E ''k0s stop --verbose'')) (\<lambda>_.
         wrap ''could not reset k0s'' (host_step E (''k0s reset --data-dir '' @ dir @ '' --verbose'')))))"

definition forget :: "string \<Rightarrow> cli_world \<Rightarrow> cli_world" where
  "forget p w = (if p = ''/etc/k0s/k0s.yaml'' then w\<lparr>cw_k0s_file := None\<rparr>
     else if p = ''/etc/embedded-cluster/ec.yaml'' then w\<lparr>cw_rc_disk := None\<rparr> else w)"

definition remove_all :: "(string \<Rightarrow> cli_world \<Rightarrow> cli_world) \<Rightarrow> string \<Rightarrow> (cli_world, unit) call" where
  "remove_all E p = host_step (\<lambda>s w. forget p (E s w)) (''rm '' @ p)"

fun remove_each :: "(string \<Rightarrow> cli_world \<Rightarrow> cli_world) \<Rightarrow> (string \<times> string) list \<Rightarrow> (cli_world, unit) call" where
  "remove_each E [] = ret ()"
| "remove_each E ((p, what) # ps) = bind (wrap (''failed to remove '' @ what) (remove_all E p)) (\<lambda>_. remove_each E ps)"

definition lam_path :: string where "lam_path = ''/etc/systemd/system/local-artifact-mirror.service''"

definition clear_services :: "(string \<Rightarrow> cli_world \<Rightarrow> cli_world) \<Rightarrow> reset_env \<Rightarrow> (cli_world, unit) call" where
  "clear_services E R =
     bind (gets (\<lambda>w. xe_present R w lam_path)) (\<lambda>there.
     bind (if there then host_step E ''systemctl stop local-artifact-mirror'' else ret ()) (\<lambda>_.
     remove_each E [(lam_path, ''local-artifact-mirror service file''),
       (''/etc/systemd/system/local-artifact-mirror.service.d'', ''local-artifact-mirror config directory''),
       (''/etc/systemd/system/k0scontroller.service.d'', ''proxy controller config directory''),
       (''/etc/systemd/system/k0sworker.service.d'', ''proxy worker config directory''),
       (''/etc/systemd/system/k0scontroller.service'', ''k0scontroller service file''),
       (''/etc/systemd/system/k0sworker.service'', ''k0sworker service file'')]))"

definition final_removals :: "runtime_config_spec \<Rightarrow> (string \<times> string) list" where
  "final_removals rc = [(''/var/log/embedded-cluster'', ''logs directory''),
     (ec_openebs_local_sub_dir rc, ''openebs storage''),
     (''/etc/NetworkManager/conf.d/embedded-cluster.conf'', ''NetworkManager configuration''),
     (k0s_binary, ''k0s binary''),
     (''/etc/embedded-cluster/ec.yaml'', ''embedded cluster data config''),
     (''/etc/sysctl.d/99-embedded-cluster.conf'', ''embedded cluster sysctl config'')]"

definition clear_host :: "(string \<Rightarrow> cli_world \<Rightarrow> cli_world) \<Rightarrow> reset_env \<Rightarrow> runtime_config_spec \<Rightarrow> (cli_world, unit) call" where
  "clear_host E R rc =
     bind (remove_each E [(''/etc/k0s/k0s.yaml'', ''k0s config'')]) (\<lambda>_.
     bind (clear_services E R) (\<lambda>_.
     bind (quietly (remove_all E (ec_home_directory rc))) (\<lambda>_.
     bind (remove_each E (final_removals rc)) (\<lambda>_.
     host_step E ''reboot''))))"

definition reset_host :: "(string \<Rightarrow> cli_world \<Rightarrow> cli_world) \<Rightarrow> reset_env \<Rightarrow> bool \<Rightarrow> bool \<Rightarrow> runtime_config_spec \<Rightarrow> (cli_world, unit) call" where
  "reset_host E R yes force rc =
     bind (quietly (stop_and_reset_k0s E R (ec_k0s_sub_dir rc))) (\<lambda>_.
     bind (attempt (host_step E ''reset firewalld'')) (\<lambda>r.
     bind (wrap ''failed to reset firewalld'' (proceed yes force (error_of r))) (\<lambda>_.
     clear_host E R rc)))"

section \<open>The command\<close>

definition confirm_reset :: "'v lib \<Rightarrow> reset_env \<Rightarrow> runtime_config_spec \<Rightarrow> bool \<Rightarrow> bool \<Rightarrow> (cli_world, unit) call" where
  "confirm_reset L R rc yes force =
     bind (attempt (maybe_print_ha_warning L R rc)) (\<lambda>r. case r of
        Inl e \<Rightarrow> if force then ret () else throw e
      | Inr _ \<Rightarrow> if force \<or> yes then ret ()
          else bind (wrap ''failed to get confirmation'' confirm) (\<lambda>b. if b then ret () else throw (EMsg ''Aborting'')))"

definition run_reset :: "'v lib \<Rightarrow> (string \<Rightarrow> cli_world \<Rightarrow> cli_world) \<Rightarrow> reset_env \<Rightarrow> bool \<Rightarrow> bool \<Rightarrow> runtime_config_spec \<Rightarrow>
    (cli_world, unit) call" where
  "run_reset L E R yes force rc =
     bind (confirm_reset L R rc yes force) (\<lambda>_.
     bind (new_host_info R) (\<lambda>(h, e).
     bind (proceed yes force e) (\<lambda>_.
     bind (require_reset_safety R yes force h) (\<lambda>_.
     bind (leave_cluster E R yes force h) (\<lambda>_.
     reset_host E R yes force rc)))))"

definition reset_cmd :: "'v lib \<Rightarrow> (string \<Rightarrow> cli_world \<Rightarrow> cli_world) \<Rightarrow> reset_env \<Rightarrow> bool \<Rightarrow> bool \<Rightarrow> (cli_world, unit) call" where
  "reset_cmd L E R yes force = (if \<not> ie_is_root (xe_env R) then throw (EMsg ''reset command must be run as root'')
     else bind (init_best_runtime_config L R) (\<lambda>rc.
       bind (modify (\<lambda>w. w\<lparr>cw_rc := rc\<rparr>)) (\<lambda>_. run_reset L E R yes force rc)))"

section \<open>A controller leaves only when the cluster survives it\<close>

text \<open>Looking at the installations may write the directories an old one lacks; all else but the answers stays.\<close>

definition only_looks :: "cli_world \<Rightarrow> cli_world \<Rightarrow> bool" where
  "only_looks w w' \<longleftrightarrow> installs_only (cw_kube w) (cw_kube w') \<and> cw_client w' = cw_client w \<and>
     cw_backups w' = cw_backups w \<and> cw_restores w' = cw_restores w \<and> cw_control_nodes w' = cw_control_nodes w \<and>
     cw_rc_disk w' = cw_rc_disk w \<and> cw_k0s_file w' = cw_k0s_file w \<and> cw_log w' = cw_log w"

interpretation lk: cli_frame only_looks
proof
  show "only_looks u w" if "only_looks u v" "only_looks v w" for u v w
    using that io.frame_trans by (auto simp: only_looks_def)
  show "only_looks w (w\<lparr>cw_kube := k\<rparr>)" if "faults_only (cw_kube w) k" for w k
    using that by (auto simp: only_looks_def faults_only_def installs_only_def)
qed (auto simp: only_looks_def io.frame_refl)

lemma looks_nodes: "only_looks w w' \<Longrightarrow> nodes (cw_kube w') = nodes (cw_kube w)"
  by (simp add: only_looks_def installs_only_fields)

lemma looks_installation: "keeps only_looks (on_kube (get_latest_installation L))"
  unfolding get_latest_installation_def
  by (rule lk.keeps_on_kube [where K = installs_only])
    (intro io.frame_rules keeps_list_installations, simp add: only_looks_def)

lemma looks_confirm: "keeps only_looks confirm"
  by (auto simp: keeps_def confirm_def only_looks_def io.frame_refl split: list.split sum.split)

lemma looks_proceed: "keeps only_looks (proceed yes force e)"
  unfolding proceed_def check_err_prompt_def by (intro lk.cli_rules looks_confirm)

lemma looks_control_planes: "keeps only_looks (on_kube num_of_control_plane_nodes)"
  unfolding num_of_control_plane_nodes_def by (intro lk.keeps_reads fo.object_rules)

lemma looks_confirm_reset: "keeps only_looks (confirm_reset L R rc yes force)"
  unfolding confirm_reset_def maybe_print_ha_warning_def
  by (intro lk.cli_rules looks_confirm looks_installation looks_control_planes)

lemma looks_nodes_read: "keeps only_looks (on_kube (api (gets nodes)))"
  by (intro lk.keeps_reads fo.object_rules)

lemma looks_host_info: "keeps only_looks (new_host_info R)"
  unfolding new_host_info_def k0s_get_status_def configure_kubernetes_client_def get_node_object_def get_control_node_object_def
  by (intro lk.cli_rules looks_nodes_read)

lemma looks_safety: "keeps only_looks (require_reset_safety R yes force h)"
  unfolding require_reset_safety_def check_reset_safety_def
  by (intro lk.cli_rules looks_proceed looks_nodes_read)

lemma api_nodes_Ok: "api (gets nodes) k = (Ok ns, k') \<Longrightarrow> ns = nodes k"
  by (auto dest!: api_Ok simp: gets_def)

lemma check_reset_safety_Ok:
  assumes "check_reset_safety R h False w = (Ok (True, reason), w')"
  shows "hi_client_error h = None \<and> xe_etcd_healthy R \<and> \<not> last_controller (nodes (cw_kube w))"
  using assms unfolding check_reset_safety_def
  by (auto simp: bind_Ok_iff wrap_Ok_iff on_kube_def split: option.splits if_splits prod.splits dest!: api_nodes_Ok)

lemma require_reset_safety_Ok:
  assumes "require_reset_safety R yes False h w = (Ok u, w')" "hi_role h = ''controller''"
  shows "hi_client_error h = None \<and> xe_etcd_healthy R \<and> \<not> last_controller (nodes (cw_kube w))"
proof -
  obtain r v where r: "attempt (check_reset_safety R h False) w = (Ok r, v)" "fst (case r of Inl _ \<Rightarrow> (False, []) | Inr x \<Rightarrow> x)"
    using assms unfolding require_reset_safety_def
    by (auto simp: bind_Ok_iff Let_def split: prod.splits if_splits)
  then obtain reason where "check_reset_safety R h False w = (Ok (True, reason), v)"
    by (auto simp: attempt_def split: sum.splits prod.splits outcome.splits)
  then show ?thesis by (rule check_reset_safety_Ok)
qed

text \<open>
  C14: Without \<open>--force\<close> a reset changes something (the cluster, the host, its files) only after a look at the host, and if k0s says
  that the host is a controller, then only with a client of the cluster, a healthy etcd, and not as the last control plane
  of a cluster that has other nodes.
\<close>

theorem reset_keeps_the_cluster:
  assumes "run_reset L E R yes False rc w = (q, w')"
  shows "only_looks w w' \<and> (\<forall>u. q \<noteq> Ok u) \<or>
    (\<exists>h e v v1 w1. new_host_info R v = (Ok (h, e), v1) \<and> only_looks w v \<and> only_looks w w1 \<and>
       (hi_role h = ''controller'' \<longrightarrow>
          hi_client_error h = None \<and> xe_etcd_healthy R \<and> \<not> last_controller (nodes (cw_kube w))) \<and>
       bind (leave_cluster E R yes False h) (\<lambda>_. reset_host E R yes False rc) w1 = (q, w'))"
  using assms unfolding run_reset_def
proof (cases rule: bind_run)
  case stop
  then show ?thesis using looks_confirm_reset [of L R rc yes False] by (simp add: keeps_def)
next
  case (go _ v)
  have v: "only_looks w v" using looks_confirm_reset go(1) by (rule keepsD)
  from go(2) show ?thesis
  proof (cases rule: bind_run)
    case stop
    then show ?thesis using looks_host_info [of R] v by (simp add: keeps_def lk.frame_trans [OF v])
  next
    case (go he v1)
    obtain h e where he: "he = (h, e)" by fastforce
    note info = go(1) [unfolded he]
    have v1: "only_looks w v1" using v keepsD [OF looks_host_info info] by (rule lk.frame_trans)
    have k: "keeps only_looks (bind (proceed yes False e) (\<lambda>_. require_reset_safety R yes False h))"
      by (intro lk.cli_rules looks_proceed looks_safety)
    have "bind (bind (proceed yes False e) (\<lambda>_. require_reset_safety R yes False h))
        (\<lambda>_. bind (leave_cluster E R yes False h) (\<lambda>_. reset_host E R yes False rc)) v1 = (q, w')"
      using go(2) unfolding he by (simp add: bind_assoc)
    then show ?thesis
    proof (cases rule: bind_run)
      case stop
      then show ?thesis using k by (simp add: keeps_def lk.frame_trans [OF v1])
    next
      case (go _ w1)
      from go(1) obtain v2 where v2: "proceed yes False e v1 = (Ok (), v2)" "require_reset_safety R yes False h v2 = (Ok (), w1)"
        by (auto simp: bind_Ok_iff)
      have "only_looks w v2" using v1 keepsD [OF looks_proceed v2(1)] by (rule lk.frame_trans)
      then have "nodes (cw_kube v2) = nodes (cw_kube w)" by (rule looks_nodes)
      then have "hi_role h = ''controller'' \<longrightarrow>
          hi_client_error h = None \<and> xe_etcd_healthy R \<and> \<not> last_controller (nodes (cw_kube w))"
        using require_reset_safety_Ok [OF v2(2)] by simp
      moreover have "only_looks w w1" using v1 keepsD [OF k go(1)] by (rule lk.frame_trans)
      ultimately show ?thesis using info v go(2) by blast
    qed
  qed
qed

lemma attempt_Ok: "attempt m w = (Ok r, v) \<Longrightarrow> m w = ((case r of Inl e \<Rightarrow> Err e | Inr x \<Rightarrow> Ok x), v)"
  by (auto simp: attempt_def split: prod.splits outcome.splits)

text \<open>
  C26: An error of the safety check (no client of the cluster, no client of etcd, no list of the nodes) cannot be waived: also
  when the user answers that the reset should go on, it ends, and its message gives no reason.
\<close>

theorem failed_safety_check_is_final:
  assumes "check_reset_safety R h False w = (Err e, v)" "hi_role h = ''controller''" "cw_confirms v = Inr True # rest"
  shows "require_reset_safety R False False h w =
    (Err (EMsg (CHR 0x0A # ''Run reset command with --force to ignore this'')), v\<lparr>cw_confirms := rest\<rparr>)"
  using assms(2,3)
  by (simp add: require_reset_safety_def bind_def attempt_def assms(1) error_of_def proceed_def check_err_prompt_def
      confirm_def ret_def throw_def)

section \<open>Nothing of the installation is left\<close>

definition forgets :: "cli_world \<Rightarrow> cli_world \<Rightarrow> bool" where
  "forgets w w' \<longleftrightarrow> (cw_k0s_file w = None \<longrightarrow> cw_k0s_file w' = None) \<and> (cw_rc_disk w = None \<longrightarrow> cw_rc_disk w' = None)"

interpretation fg: cli_frame forgets
  by unfold_locales (auto simp: forgets_def)

definition creates_nothing :: "(string \<Rightarrow> cli_world \<Rightarrow> cli_world) \<Rightarrow> bool" where
  "creates_nothing E \<longleftrightarrow> (\<forall>s w. (cw_k0s_file w = None \<longrightarrow> cw_k0s_file (E s w) = None) \<and>
     (cw_rc_disk w = None \<longrightarrow> cw_rc_disk (E s w) = None))"

lemma forgets_host_step: "creates_nothing E \<Longrightarrow> keeps forgets (host_step E s)"
  unfolding host_step_def by (intro fg.cli_rules fg.keeps_modify) (simp add: creates_nothing_def forgets_def)

lemma creates_nothing_forget: "creates_nothing E \<Longrightarrow> creates_nothing (\<lambda>s w. forget p (E s w))"
  by (simp add: creates_nothing_def forget_def)

lemma forgets_remove_all: "creates_nothing E \<Longrightarrow> keeps forgets (remove_all E p)"
  unfolding remove_all_def by (rule forgets_host_step) (rule creates_nothing_forget)

lemma forgets_remove_each: "creates_nothing E \<Longrightarrow> keeps forgets (remove_each E ps)"
  by (induction E ps rule: remove_each.induct) (auto intro!: fg.cli_rules forgets_remove_all)

lemma removed:
  assumes "creates_nothing E" "remove_all E p w = (Ok u, w')"
  shows "p = ''/etc/k0s/k0s.yaml'' \<Longrightarrow> cw_k0s_file w' = None" "p = ''/etc/embedded-cluster/ec.yaml'' \<Longrightarrow> cw_rc_disk w' = None"
  using assms(2) unfolding remove_all_def host_step_def by (auto elim!: cli_api_Ok simp: forget_def)

lemma removed_each:
  assumes "creates_nothing E" "remove_each E ps w = (Ok u, w')"
  shows "(''/etc/k0s/k0s.yaml'' \<in> fst ` set ps \<longrightarrow> cw_k0s_file w' = None) \<and>
    (''/etc/embedded-cluster/ec.yaml'' \<in> fst ` set ps \<longrightarrow> cw_rc_disk w' = None)"
  using assms(2)
proof (induction ps arbitrary: w)
  case (Cons pw ps)
  obtain p what where pw: "pw = (p, what)" by fastforce
  from Cons.prems obtain v where v: "remove_all E p w = (Ok (), v)" "remove_each E ps v = (Ok u, w')"
    by (auto simp: pw bind_Ok_iff wrap_Ok_iff)
  have "forgets v w'" using forgets_remove_each [OF assms(1)] v(2) by (rule keepsD)
  then show ?case using Cons.IH [OF v(2)] removed [OF assms(1) v(1)] by (auto simp: pw forgets_def)
qed simp

text \<open>
  C15: A reset that ends without an error has removed the files that a later installation or join would be refused for, or
  would take its configuration from, and the last thing it did was to reboot the host. The steps on the host are only assumed not to
  bring back a file that is gone.
\<close>

theorem reset_leaves_nothing:
  assumes "creates_nothing E" "run_reset L E R yes force rc w = (Ok u, w')"
  shows "cw_k0s_file w' = None \<and> cw_rc_disk w' = None \<and> (\<exists>before. cw_log w' = before @ [HostStep ''reboot''])"
proof -
  from assms(2) obtain h v where "reset_host E R yes force rc v = (Ok u, w')"
    unfolding run_reset_def by (auto simp: bind_Ok_iff split: prod.splits)
  then obtain v where "clear_host E R rc v = (Ok u, w')"
    unfolding reset_host_def by (auto simp: bind_Ok_iff)
  then obtain v1 v2 v3 v4 where v: "remove_each E [(''/etc/k0s/k0s.yaml'', ''k0s config'')] v = (Ok (), v1)"
    "clear_services E R v1 = (Ok (), v2)" "quietly (remove_all E (ec_home_directory rc)) v2 = (Ok (), v3)"
    "remove_each E (final_removals rc) v3 = (Ok (), v4)" "host_step E ''reboot'' v4 = (Ok u, w')"
    unfolding clear_host_def by (auto simp: bind_Ok_iff)
  have "keeps forgets (clear_services E R)"
    unfolding clear_services_def by (intro fg.cli_rules forgets_remove_each forgets_host_step assms(1))
  from keepsD [OF this v(2)] have "forgets v1 v2" .
  moreover have "keeps forgets (quietly (remove_all E (ec_home_directory rc)))"
    unfolding quietly_def by (intro fg.cli_rules forgets_remove_all assms(1))
  from keepsD [OF this v(3)] have "forgets v2 v3" .
  moreover have "forgets v3 v4" using forgets_remove_each [OF assms(1)] v(4) by (rule keepsD)
  moreover have "forgets v4 w'" using forgets_host_step [OF assms(1)] v(5) by (rule keepsD)
  moreover have "cw_k0s_file v1 = None" using removed_each [OF assms(1) v(1)] by simp
  moreover have "cw_rc_disk v4 = None" using removed_each [OF assms(1) v(4)] by (simp add: final_removals_def)
  moreover have "\<exists>before. cw_log w' = before @ [HostStep ''reboot'']"
    using v(5) unfolding host_step_def by (auto elim!: cli_api_Ok)
  ultimately show ?thesis by (simp add: forgets_def)
qed

section \<open>Samples\<close>

text \<open>A controller whose etcd is not healthy.\<close>

definition sample_reset_env :: reset_env where
  "sample_reset_env = \<lparr>xe_env = sample_env, xe_status = Ok \<lparr>ks_role = ''controller'', ks_admin_config = [], ks_kubelet_config = []\<rparr>,
     xe_present = (\<lambda>_ p. p = k0s_binary), xe_service = (\<lambda>_ _. True), xe_etcd_client = Ok (), xe_etcd_healthy = False,
     xe_members = (\<lambda>_. Ok [(''n'', ''10.0.0.5'')]), xe_may_delete = True\<rparr>"

lemma computed: "bind m (\<lambda>r. ret (g r)) w = (Ok y, w') \<Longrightarrow> \<exists>r. y = g r"
  by (auto simp: bind_def ret_def split: prod.splits outcome.splits)

lemma same_role:
  "configure_kubernetes_client h w = (Ok h', w') \<Longrightarrow> hi_role h' = hi_role h"
  "get_node_object h w = (Ok h', w') \<Longrightarrow> hi_role h' = hi_role h"
  "get_control_node_object h w = (Ok h', w') \<Longrightarrow> hi_role h' = hi_role h"
  "hi_role (with_role_name h) = hi_role h"
  by (auto simp: configure_kubernetes_client_def get_node_object_def get_control_node_object_def with_role_name_def
      dest!: computed split: option.split option.split_asm sum.split if_split_asm)

lemma host_info_role:
  assumes "new_host_info sample_reset_env v = (Ok (h, e), v1)"
  shows "hi_role h = ''controller''"
proof -
  let ?h = "empty_host\<lparr>hi_hostname := ''n'', hi_role := ''controller'', hi_role_name := ''controller''\<rparr>"
  have e: "xe_present sample_reset_env v k0s_binary" "ie_hostname (xe_env sample_reset_env) = Ok ''n''"
    "xe_status sample_reset_env = Ok \<lparr>ks_role = ''controller'', ks_admin_config = [], ks_kubelet_config = []\<rparr>"
    by (simp_all add: sample_reset_env_def sample_env_def)
  have "new_host_info sample_reset_env v = bind (configure_kubernetes_client ?h) (\<lambda>h.
     bind (get_node_object h) (\<lambda>h.
     bind (if hi_role h = ''controller'' then get_control_node_object h else ret h) (\<lambda>h.
     ret (with_role_name h, None)))) v"
    by (simp add: new_host_info_def k0s_get_status_def bind_def attempt_def wrap_def lift_def gets_def e)
  with assms obtain h1 h2 h3 v2 v3 v4 where "configure_kubernetes_client ?h v = (Ok h1, v2)" "get_node_object h1 v2 = (Ok h2, v3)"
    "(if hi_role h2 = ''controller'' then get_control_node_object h2 else ret h2) v3 = (Ok h3, v4)" "h = with_role_name h3"
    by (auto simp: bind_Ok_iff)
  then show ?thesis using same_role by (simp split: if_splits)
qed

theorem reset_keeps_the_cluster_witness: "\<exists>q w'. run_reset sample_lib (\<lambda>_ w. w) sample_reset_env True False empty_runtime_config sample_world =
     (q, w') \<and> only_looks sample_world w' \<and> (\<forall>u. q \<noteq> Ok u)"
proof -
  obtain q w' where run: "run_reset sample_lib (\<lambda>_ w. w) sample_reset_env True False empty_runtime_config sample_world = (q, w')"
    by fastforce
  have "\<not> xe_etcd_healthy sample_reset_env" by (simp add: sample_reset_env_def)
  then show ?thesis using reset_keeps_the_cluster [OF run] run host_info_role by blast
qed

theorem failed_safety_check_is_final_witness: "require_reset_safety sample_reset_env False False
    (empty_host\<lparr>hi_role := ''controller'', hi_client_error := Some (EMsg ''no client'')\<rparr>) (sample_world\<lparr>cw_confirms := [Inr True]\<rparr>) =
    (Err (EMsg (CHR 0x0A # ''Run reset command with --force to ignore this'')), sample_world)"
  using failed_safety_check_is_final [of sample_reset_env "empty_host\<lparr>hi_role := ''controller'', hi_client_error := Some (EMsg ''no client'')\<rparr>"
    "sample_world\<lparr>cw_confirms := [Inr True]\<rparr>" "EWrap ''unable to load cluster client'' (EMsg ''no client'')"
    "sample_world\<lparr>cw_confirms := [Inr True]\<rparr>" "[]"]
  by (simp add: check_reset_safety_def sample_world_def throw_def)

text \<open>A host without k0s's binary, with \<open>--force\<close>.\<close>

definition bare_reset_env :: reset_env where
  "bare_reset_env = sample_reset_env\<lparr>xe_present := (\<lambda>_ _. False)\<rparr>"

lemma sample_removal: "faults (cw_kube w) = [] \<Longrightarrow>
    remove_all (\<lambda>_ w. w) p w = (Ok (), (forget p w)\<lparr>cw_log := cw_log w @ [HostStep (''rm '' @ p)]\<rparr>)"
  by (simp add: remove_all_def host_step_def modify_def forget_def)

lemma sample_removals: "faults (cw_kube w) = [] \<Longrightarrow>
    \<exists>v. remove_each (\<lambda>_ w. w) ps w = (Ok (), v) \<and> faults (cw_kube v) = []"
  by (induction ps arbitrary: w) (auto simp: bind_def wrap_def sample_removal ret_def forget_def)

lemma sample_cleared:
  assumes "faults (cw_kube w) = []"
  shows "fst (clear_host (\<lambda>_ w. w) bare_reset_env rc w) = Ok ()"
proof -
  have "xe_present bare_reset_env v p = False" for v p by (simp add: bare_reset_env_def)
  then have services: "clear_services (\<lambda>_ w. w) bare_reset_env v = remove_each (\<lambda>_ w. w) [(lam_path, ''local-artifact-mirror service file''),
       (''/etc/systemd/system/local-artifact-mirror.service.d'', ''local-artifact-mirror config directory''),
       (''/etc/systemd/system/k0scontroller.service.d'', ''proxy controller config directory''),
       (''/etc/systemd/system/k0sworker.service.d'', ''proxy worker config directory''),
       (''/etc/systemd/system/k0scontroller.service'', ''k0scontroller service file''),
       (''/etc/systemd/system/k0sworker.service'', ''k0sworker service file'')] v" for v
    unfolding clear_services_def by (simp only: bind_def gets_def ret_def prod.case outcome.case if_False)
  obtain v1 where v1: "remove_each (\<lambda>_ w. w) [(''/etc/k0s/k0s.yaml'', ''k0s config'')] w = (Ok (), v1)" "faults (cw_kube v1) = []"
    using sample_removals assms by blast
  obtain v2 where v2: "clear_services (\<lambda>_ w. w) bare_reset_env v1 = (Ok (), v2)" "faults (cw_kube v2) = []"
    unfolding services using sample_removals v1(2) by blast
  define v3 where "v3 = (forget (ec_home_directory rc) v2)\<lparr>cw_log := cw_log v2 @ [HostStep (''rm '' @ ec_home_directory rc)]\<rparr>"
  have v3: "quietly (remove_all (\<lambda>_ w. w) (ec_home_directory rc)) v2 = (Ok (), v3)" "faults (cw_kube v3) = []"
    by (simp_all add: quietly_def bind_def attempt_def sample_removal v2(2) ret_def v3_def forget_def)
  obtain v4 where v4: "remove_each (\<lambda>_ w. w) (final_removals rc) v3 = (Ok (), v4)" "faults (cw_kube v4) = []"
    using sample_removals v3(2) by blast
  show ?thesis
    unfolding clear_host_def by (simp add: bind_def v1(1) v2(1) v3(1) v4(1) host_step_def v4(2) modify_def del: remove_each.simps)
qed

theorem reset_leaves_nothing_witness: "\<exists>w'. run_reset sample_lib (\<lambda>_ w. w) bare_reset_env True True empty_runtime_config sample_world =
    (Ok (), w') \<and> cw_k0s_file w' = None \<and> cw_rc_disk w' = None"
proof -
  have e: "xe_present bare_reset_env v p = False" "ie_hostname (xe_env bare_reset_env) = Ok ''n''" for v p
    by (simp_all add: bare_reset_env_def sample_reset_env_def sample_env_def)
  let ?e = "EMsg ''client not initialized''"
  let ?h = "empty_host\<lparr>hi_hostname := ''n'', hi_client_error := Some ?e\<rparr>"
  have "new_host_info bare_reset_env sample_world = (Ok (?h, Some ?e), sample_world)"
    by (simp add: new_host_info_def k0s_get_status_def bind_def attempt_def wrap_def lift_def gets_def ret_def Let_def e)
  moreover have "confirm_reset sample_lib bare_reset_env empty_runtime_config True True sample_world = (Ok (), sample_world)"
    by (simp add: confirm_reset_def maybe_print_ha_warning_def bind_def attempt_def gets_def ret_def e)
  moreover have "leave_cluster (\<lambda>_ w. w) bare_reset_env True True ?h sample_world = (Ok (), sample_world)"
    by (simp add: leave_cluster_def empty_host_def drain_node_def delete_worker_or_prompt_def delete_node_def proceed_def
        check_err_prompt_def is_forbidden_def bind_def attempt_def gets_def ret_def throw_def e)
  moreover have "faults (cw_kube sample_world) = []" by (simp add: sample_world_def sample_kube_def)
  then have "fst (reset_host (\<lambda>_ w. w) bare_reset_env True True empty_runtime_config sample_world) = Ok ()"
    by (simp add: reset_host_def stop_and_reset_k0s_def quietly_def bind_def attempt_def wrap_def gets_def ret_def e error_of_def
        proceed_def check_err_prompt_def host_step_def modify_def sample_cleared)
  ultimately have "fst (run_reset sample_lib (\<lambda>_ w. w) bare_reset_env True True empty_runtime_config sample_world) = Ok ()"
    by (simp add: run_reset_def bind_def proceed_def check_err_prompt_def require_reset_safety_def empty_host_def ret_def)
  then obtain w' where run: "run_reset sample_lib (\<lambda>_ w. w) bare_reset_env True True empty_runtime_config sample_world = (Ok (), w')"
    by (metis prod.collapse)
  then show ?thesis using reset_leaves_nothing [OF _ run] by (auto simp: creates_nothing_def)
qed

end
