(* ===== verification/Linter.thy ===== *)
theory Linter
  imports NetUtils Installs
begin

text \<open>
  The linter of a release's configuration (\<^verbatim>\<open>pkg/lint\<close>, \<^verbatim>\<open>cmd/installer/cli/lint.go\<close>): supported ports in the overrides, the plugins of
  velero, custom domains against those of the vendor's account, and the command over many files.

  Decoding YAML and JSON, the HTTP client and the grammar of image references are parameters. A map of Go is the list of
  its entries; the order in which it is walked is the order of that list, and the order of a set of domains is a
  parameter. A floating point number is what the conversion to an integer makes of it. What is printed in verbose mode is
  left out.
\<close>

section \<open>Data\<close>

text \<open>A decoded value: keys of a map that are no string have no name.\<close>

datatype doc = DInt int | DFloat int | DStr string | DMap "(string option \<times> doc) list" | DList "doc list" | DOther

record lint_issue =
  li_field :: string
  li_message :: string

record lint_result =
  lr_errors :: "lint_issue list"
  lr_warnings :: "lint_issue list"

record file_result =
  fr_path :: string
  fr_valid :: bool
  fr_errors :: "lint_issue list"
  fr_warnings :: "lint_issue list"

record lint_api =
  la_token :: string
  la_origin :: string
  la_app :: string
  la_request :: "string \<Rightarrow> unit outcome"
  la_get :: "string \<Rightarrow> (nat \<times> string outcome) outcome"
  la_channels :: "string \<Rightarrow> string list outcome"
  la_releases :: "string \<Rightarrow> domains option list outcome"
  la_hostnames :: "string \<Rightarrow> string list outcome"
  la_strings :: "string \<Rightarrow> string list outcome"
  la_app_domains :: "string \<Rightarrow> (domains option \<times> domains option) outcome"
  la_order :: "string list \<Rightarrow> string list"

record lint_lib =
  ll_open :: "string \<Rightarrow> unit outcome"
  ll_read :: "string \<Rightarrow> string outcome"
  ll_syntax_error :: "string \<Rightarrow> string option"
  ll_parse_config :: "string \<Rightarrow> config_spec outcome"
  ll_parse_values :: "string \<Rightarrow> doc outcome"
  ll_is_reference :: "string \<Rightarrow> bool"
  ll_marshal :: "file_result list \<Rightarrow> string outcome"

section \<open>Syntax\<close>

fun leading_digits :: "string \<Rightarrow> string" where
  "leading_digits [] = []"
| "leading_digits (c # cs) = (if is_digit c then c # leading_digits cs else [])"

text \<open>\<open>strconv.Atoi\<close>.\<close>

definition atoi :: "string \<Rightarrow> int option" where
  "atoi s =
     (let (neg, ds) = (case s of
           [] \<Rightarrow> (False, [])
         | c # cs \<Rightarrow> if c = CHR ''-'' then (True, cs) else if c = CHR ''+'' then (False, cs) else (False, s))
      in case parse_dec ds of
           None \<Rightarrow> None
         | Some n \<Rightarrow> let v = (if neg then - int n else int n) in if - (2 ^ 63) \<le> v \<and> v < 2 ^ 63 then Some v else None)"

fun extract_line_number :: "string \<Rightarrow> int" where
  "extract_line_number [] = 0"
| "extract_line_number (c # cs) =
     (if prefix ''line '' (c # cs) \<and> leading_digits (drop 5 (c # cs)) \<noteq> []
      then (case atoi (leading_digits (drop 5 (c # cs))) of Some n \<Rightarrow> n | None \<Rightarrow> 0)
      else extract_line_number cs)"

definition validate_yaml_syntax :: "lint_lib \<Rightarrow> string \<Rightarrow> unit outcome" where
  "validate_yaml_syntax X data = (case ll_syntax_error X data of
      None \<Rightarrow> Ok ()
    | Some e \<Rightarrow> (let n = extract_line_number e in
        Err (EMsg (if n > 0 then ''YAML syntax error at line '' @ show_int n @ '': '' @ e else ''YAML syntax error: '' @ e))))"

section \<open>Ports\<close>

fun extract_port_value :: "doc \<Rightarrow> int" where
  "extract_port_value (DInt n) = n"
| "extract_port_value (DFloat n) = n"
| "extract_port_value (DStr s) = (case atoi s of Some n \<Rightarrow> n | None \<Rightarrow> 0)"
| "extract_port_value _ = 0"

definition index_text :: "nat \<Rightarrow> string" where
  "index_text i = ''['' @ show_nat i @ '']''"

fun extract_node_ports :: "doc \<Rightarrow> string list \<Rightarrow> (int \<times> string list) list"
and entry_ports :: "(string option \<times> doc) list \<Rightarrow> string list \<Rightarrow> (int \<times> string list) list"
and item_ports :: "nat \<Rightarrow> doc list \<Rightarrow> string list \<Rightarrow> (int \<times> string list) list" where
  "extract_node_ports (DMap kvs) path = entry_ports kvs path"
| "extract_node_ports (DList xs) path = item_ports 0 xs path"
| "extract_node_ports (DInt _) path = []"
| "extract_node_ports (DFloat _) path = []"
| "extract_node_ports (DStr _) path = []"
| "extract_node_ports DOther path = []"
| "entry_ports [] path = []"
| "entry_ports ((k, v) # kvs) path = (case k of
       None \<Rightarrow> []
     | Some k \<Rightarrow> if k = ''nodePort''
         then (let port = extract_port_value v in if port > 0 then [(port, path @ [k])] else [])
         else extract_node_ports v (path @ [k])) @ entry_ports kvs path"
| "item_ports i [] path = []"
| "item_ports i (x # xs) path = extract_node_ports x (path @ [index_text i]) @ item_ports (Suc i) xs path"

definition min_supported_port :: int where "min_supported_port = 80"
definition max_supported_port :: int where "max_supported_port = 32767"

definition port_warning :: "string \<Rightarrow> int \<times> string list \<Rightarrow> lint_issue list" where
  "port_warning name p = (case p of (port, path) \<Rightarrow>
     if min_supported_port \<le> port \<and> port \<le> max_supported_port
     then [\<lparr>li_field = ''unsupportedOverrides.builtInExtensions['' @ name @ ''].'' @ join_str ''.'' path,
            li_message = ''port '' @ show_int port @ '' is already supported (supported range: '' @ show_int min_supported_port @ ''-'' @
              show_int max_supported_port @ '') and should not be in unsupportedOverrides''\<rparr>]
     else [])"

definition extension_warnings :: "lint_lib \<Rightarrow> built_in_extension \<Rightarrow> lint_issue list" where
  "extension_warnings X e = (if bi_values e = [] then []
     else case ll_parse_values X (bi_values e) of
       Ok v \<Rightarrow> concat (map (port_warning (bi_name e)) (extract_node_ports v []))
     | Err r \<Rightarrow> [\<lparr>li_field = ''unsupportedOverrides.builtInExtensions['' @ bi_name e @ '']'',
         li_message = ''failed to parse YAML values: '' @ err_text r\<rparr>]
     | Panic _ \<Rightarrow> [])"

definition validate_ports :: "lint_lib \<Rightarrow> built_in_extension list \<Rightarrow> lint_issue list" where
  "validate_ports X es = concat (map (extension_warnings X) es)"

section \<open>The plugins of velero\<close>

definition validate_image_format :: "lint_lib \<Rightarrow> string \<Rightarrow> unit outcome" where
  "validate_image_format X img =
     (if img = [] then Err (EMsg ''image cannot be empty'')
      else if \<not> ll_is_reference X img then Err (EMsg (''invalid image reference '' @ quote_str img)) else Ok ())"

definition plugin_field :: "nat \<Rightarrow> string \<Rightarrow> string" where
  "plugin_field i part = ''extensions.velero.plugins['' @ show_nat i @ ''].'' @ part"

definition duplicate_issue :: "(string \<Rightarrow> nat option) \<Rightarrow> nat \<Rightarrow> string \<Rightarrow> string \<Rightarrow> lint_issue list" where
  "duplicate_issue seen i part s = (case seen s of
      None \<Rightarrow> []
    | Some j \<Rightarrow> [\<lparr>li_field = plugin_field i part, li_message = ''duplicate plugin '' @ part @ '' '' @ quote_str s @
        '' (also specified at index '' @ show_nat j @ '')''\<rparr>])"

definition see :: "string \<Rightarrow> nat \<Rightarrow> (string \<Rightarrow> nat option) \<Rightarrow> string \<Rightarrow> nat option" where
  "see s i seen = (if seen s = None then seen(s \<mapsto> i) else seen)"

fun plugin_issues :: "lint_lib \<Rightarrow> (string \<Rightarrow> nat option) \<Rightarrow> (string \<Rightarrow> nat option) \<Rightarrow> nat \<Rightarrow> velero_plugin list \<Rightarrow> lint_issue list" where
  "plugin_issues X names images i [] = []"
| "plugin_issues X names images i (p # ps) =
     (if vp_name p = []
      then \<lparr>li_field = plugin_field i ''name'', li_message = ''plugin name is required''\<rparr> # plugin_issues X names images (Suc i) ps
      else duplicate_issue names i ''name'' (vp_name p) @
        (let names = see (vp_name p) i names in
         if vp_image p = []
         then \<lparr>li_field = plugin_field i ''image'', li_message = ''plugin image is required''\<rparr> # plugin_issues X names images (Suc i) ps
         else duplicate_issue images i ''image'' (vp_image p) @
           (case validate_image_format X (vp_image p) of
              Err e \<Rightarrow> [\<lparr>li_field = plugin_field i ''image'', li_message = err_text e\<rparr>] | _ \<Rightarrow> []) @
           plugin_issues X names (see (vp_image p) i images) (Suc i) ps))"

definition validate_velero_plugins :: "lint_lib \<Rightarrow> velero_plugin list \<Rightarrow> lint_issue list" where
  "validate_velero_plugins X ps = plugin_issues X Map.empty Map.empty 0 ps"

section \<open>Custom domains\<close>

definition trim_right_slashes :: "string \<Rightarrow> string" where
  "trim_right_slashes s = rev (dropWhile (\<lambda>c. c = CHR ''/'') (rev s))"

text \<open>\<open>NewAPIClient\<close> over the rest of the client.\<close>

definition new_api_client :: "lint_api \<Rightarrow> string \<Rightarrow> string \<Rightarrow> string \<Rightarrow> lint_api" where
  "new_api_client A token origin app = A\<lparr>la_token := token, la_origin := trim_right_slashes origin, la_app := app\<rparr>"

definition is_configured :: "lint_api \<Rightarrow> bool" where
  "is_configured A \<longleftrightarrow> la_token A \<noteq> [] \<and> la_origin A \<noteq> [] \<and> la_app A \<noteq> []"

definition get_missing_config :: "lint_api \<Rightarrow> string list" where
  "get_missing_config A = (if la_token A = [] then [''REPLICATED_API_TOKEN''] else []) @
     (if la_origin A = [] then [''REPLICATED_API_ORIGIN''] else []) @ (if la_app A = [] then [''REPLICATED_APP''] else [])"

definition domain_values :: "domains option \<Rightarrow> string list" where
  "domain_values d = (case d of None \<Rightarrow> []
     | Some d \<Rightarrow> filter (\<lambda>s. s \<noteq> []) [replicated_app_domain d, proxy_registry_domain d, replicated_registry_domain d])"

definition app_url :: "lint_api \<Rightarrow> string \<Rightarrow> string" where
  "app_url A path = la_origin A @ ''/v3/app/'' @ la_app A @ path"

text \<open>A request that is answered with 200, and its body; its error is passed on as it is.\<close>

definition fetch_ok :: "lint_api \<Rightarrow> string \<Rightarrow> string outcome" where
  "fetch_ok A url = bindO (la_request A url) (\<lambda>_. bindO (la_get A url) (\<lambda>(status, body).
     if status \<noteq> 200 then Err (EMsg ''failed to get channels'') else body))"

definition domains_of_channel :: "lint_api \<Rightarrow> string \<Rightarrow> string list" where
  "domains_of_channel A channel =
     (case bindO (fetch_ok A (app_url A (''/channel/'' @ channel @ ''/releases''))) (la_releases A) of
        Ok rs \<Rightarrow> concat (map domain_values rs) | _ \<Rightarrow> [])"

definition domains_from_channel_releases :: "lint_api \<Rightarrow> string list outcome" where
  "domains_from_channel_releases A =
     bindO (fetch_ok A (app_url A ''/channels'')) (\<lambda>body.
     bindO (la_channels A body) (\<lambda>ids.
     Ok (la_order A (remdups (concat (map (domains_of_channel A) ids))))))"

definition bad_status :: "lint_api \<Rightarrow> nat \<Rightarrow> string outcome \<Rightarrow> 'a outcome" where
  "bad_status A status body = Err (EMsg (''API request failed with status '' @ show_nat status @ '' for app '' @ quote_str (la_app A) @
     '': '' @ (case body of Ok b \<Rightarrow> b | _ \<Rightarrow> [])))"

definition domains_from_app :: "lint_api \<Rightarrow> string list outcome" where
  "domains_from_app A = (let url = app_url A [] in
     bindO (wrapO ''failed to create request'' (la_request A url)) (\<lambda>_.
     bindO (wrapO (''failed to execute request for app '' @ quote_str (la_app A)) (la_get A url)) (\<lambda>(status, body).
     if status \<noteq> 200 then bad_status A status body
     else bindO (wrapO ''failed to read response body'' body) (\<lambda>data.
       bindO (wrapO ''failed to parse app response'' (la_app_domains A data)) (\<lambda>(custom, plain).
       Ok (la_order A (remdups (domain_values custom @ domain_values plain))))))))"

definition parse_hostnames :: "lint_api \<Rightarrow> string \<Rightarrow> string list outcome" where
  "parse_hostnames A data = (case la_hostnames A data of
      Ok ds \<Rightarrow> Ok (filter (\<lambda>d. d \<noteq> []) ds)
    | Panic p \<Rightarrow> Panic p
    | Err e \<Rightarrow> (case la_strings A data of
          Ok ds \<Rightarrow> Ok ds | Panic p \<Rightarrow> Panic p | Err _ \<Rightarrow> Err (EWrap ''failed to parse response'' e)))"

definition domains_from_hostnames :: "lint_api \<Rightarrow> string list outcome" where
  "domains_from_hostnames A = (let url = app_url A ''/custom-hostnames'' in
     bindO (wrapO (''failed to create request for app '' @ quote_str (la_app A)) (la_request A url)) (\<lambda>_.
     bindO (wrapO (''failed to execute request for app '' @ quote_str (la_app A)) (la_get A url)) (\<lambda>(status, body).
     if status = 404 then domains_from_app A
     else if status \<noteq> 200 then bad_status A status body
     else bindO (wrapO ''failed to read response body'' body) (parse_hostnames A))))"

definition get_custom_domains :: "lint_api \<Rightarrow> string list outcome" where
  "get_custom_domains A =
     (if \<not> is_configured A
      then Err (EMsg (''API client not configured - missing: ['' @ join_str '' '' (get_missing_config A) @ '']''))
      else case domains_from_channel_releases A of
        Panic p \<Rightarrow> Panic p
      | Ok ds \<Rightarrow> if ds \<noteq> [] then Ok ds else domains_from_hostnames A
      | Err _ \<Rightarrow> domains_from_hostnames A)"

definition domain_issue :: "string list \<Rightarrow> string \<Rightarrow> string \<Rightarrow> lint_issue list" where
  "domain_issue allowed field d =
     (if d \<noteq> [] \<and> d \<notin> set (allowed @ [''replicated.app'', ''proxy.replicated.com'', ''registry.replicated.com''])
      then [\<lparr>li_field = ''domains.'' @ field, li_message = ''custom domain '' @ quote_str d @ '' not found in app's configured domains''\<rparr>]
      else [])"

definition validate_domains :: "domains \<Rightarrow> string list \<Rightarrow> lint_issue list" where
  "validate_domains d allowed = domain_issue allowed ''replicatedAppDomain'' (replicated_app_domain d) @
     domain_issue allowed ''proxyRegistryDomain'' (proxy_registry_domain d) @
     domain_issue allowed ''replicatedRegistryDomain'' (replicated_registry_domain d)"

definition domain_errors :: "lint_api \<Rightarrow> domains \<Rightarrow> lint_issue list outcome" where
  "domain_errors A d = (if \<not> is_configured A then Ok []
     else case get_custom_domains A of
       Ok allowed \<Rightarrow> Ok (validate_domains d allowed)
     | Err e \<Rightarrow> Ok [\<lparr>li_field = ''domains'', li_message = ''failed to fetch custom domains from API: '' @ err_text e\<rparr>]
     | Panic p \<Rightarrow> Panic p)"

section \<open>Files\<close>

definition validate_file :: "lint_lib \<Rightarrow> lint_api \<Rightarrow> string \<Rightarrow> lint_result outcome" where
  "validate_file X A path =
     bindO (wrapO ''failed to open file'' (ll_open X path)) (\<lambda>_.
     bindO (wrapO ''failed to read file'' (ll_read X path)) (\<lambda>data.
     bindO (validate_yaml_syntax X data) (\<lambda>_.
     bindO (wrapO ''failed to parse YAML'' (ll_parse_config X data)) (\<lambda>c.
     bindO (domain_errors A (spec_domains c)) (\<lambda>ds.
     Ok \<lparr>lr_errors = validate_velero_plugins X (velero_plugins c) @ ds, lr_warnings = validate_ports X (built_in_extensions c)\<rparr>)))))"

definition to_json :: "lint_result \<Rightarrow> string \<Rightarrow> file_result" where
  "to_json r path = \<lparr>fr_path = path, fr_valid = lr_errors r = [], fr_errors = lr_errors r, fr_warnings = lr_warnings r\<rparr>"

datatype lint_output =
    Linting string
  | FileError string string
  | Warned string lint_issue
  | Faulty string lint_issue
  | Passed string
  | PassedWarned string nat
  | FailedFile string
  | JsonText string

definition text_output :: "string \<Rightarrow> lint_result \<Rightarrow> lint_output list" where
  "text_output path r = map (Warned path) (lr_warnings r) @ map (Faulty path) (lr_errors r) @
     [if lr_errors r = [] \<and> lr_warnings r = [] then Passed path
      else if lr_errors r = [] then PassedWarned path (length (lr_warnings r)) else FailedFile path]"

text \<open>The loop over the files: what is printed, the results for JSON, and whether something failed.\<close>

fun lint_files :: "lint_lib \<Rightarrow> lint_api \<Rightarrow> bool \<Rightarrow> string list \<Rightarrow> (lint_output list \<times> file_result list \<times> bool) outcome" where
  "lint_files X A json [] = Ok ([], [], False)"
| "lint_files X A json (f # fs) = (case validate_file X A f of
       Panic p \<Rightarrow> Panic p
     | Err e \<Rightarrow> bindO (lint_files X A json fs) (\<lambda>(out, rs, _).
         Ok ((if json then [] else [Linting f, FileError f (err_text e)]) @ out,
             (if json then [\<lparr>fr_path = f, fr_valid = False, fr_errors = [\<lparr>li_field = [], li_message = err_text e\<rparr>], fr_warnings = []\<rparr>]
              else []) @ rs, True))
     | Ok r \<Rightarrow> bindO (lint_files X A json fs) (\<lambda>(out, rs, bad).
         Ok ((if json then [] else Linting f # text_output f r) @ out, (if json then [to_json r f] else []) @ rs,
             lr_errors r \<noteq> [] \<or> bad)))"

definition in_ticks :: "string \<Rightarrow> string" where
  "in_ticks s = CHR 0x27 # s @ [CHR 0x27]"

definition lint_cmd :: "lint_lib \<Rightarrow> lint_api \<Rightarrow> (string \<Rightarrow> string) \<Rightarrow> string \<Rightarrow> string list \<Rightarrow> lint_output list \<times> unit outcome" where
  "lint_cmd X A env format files =
     (if format \<noteq> ''text'' \<and> format \<noteq> ''json''
      then ([], Err (EMsg (''invalid output format '' @ quote_str format @ '': must be '' @ in_ticks ''text'' @ '' or '' @ in_ticks ''json'')))
      else let json = (format = ''json'');
             A = new_api_client A (env ''REPLICATED_API_TOKEN'') (env ''REPLICATED_API_ORIGIN'') (env ''REPLICATED_APP'')
        in case lint_files X A json files of
             Panic p \<Rightarrow> ([], Panic p)
           | Err e \<Rightarrow> ([], Err e)
           | Ok (out, rs, bad) \<Rightarrow>
               let verdict = (if bad then Err (EMsg ''validation failed with errors'') else Ok ()) in
               if \<not> json then (out, verdict)
               else (case wrapO ''failed to marshal JSON output'' (ll_marshal X rs) of
                   Ok t \<Rightarrow> (out @ [JsonText t], verdict) | Err e \<Rightarrow> (out, Err e) | Panic p \<Rightarrow> (out, Panic p)))"

section \<open>Every supported port is found, and nothing else\<close>

text \<open>
  The ports of a value, by the place they are at: a number under the key \<open>nodePort\<close>, below any keys but that one and any
  positions of lists.
\<close>

inductive node_port_at :: "doc \<Rightarrow> string list \<Rightarrow> int \<Rightarrow> bool" where
  here: "(Some ''nodePort'', v) \<in> set kvs \<Longrightarrow> 0 < extract_port_value v \<Longrightarrow> node_port_at (DMap kvs) [''nodePort''] (extract_port_value v)"
| below: "(Some k, v) \<in> set kvs \<Longrightarrow> k \<noteq> ''nodePort'' \<Longrightarrow> node_port_at v path n \<Longrightarrow> node_port_at (DMap kvs) (k # path) n"
| inside: "i < length vs \<Longrightarrow> node_port_at (vs ! i) path n \<Longrightarrow> node_port_at (DList vs) (index_text i # path) n"

inductive_simps in_map: "node_port_at (DMap kvs) path n"
inductive_simps in_list: "node_port_at (DList vs) path n"
inductive_simps in_scalar: "node_port_at (DInt i) path n" "node_port_at (DFloat i) path n" "node_port_at (DStr s) path n"
  "node_port_at DOther path n"

lemma in_map_Nil: "\<not> node_port_at (DMap []) path n"
  by (simp add: in_map)

lemma in_map_Cons: "node_port_at (DMap ((k, v) # kvs)) path n \<longleftrightarrow>
    (case k of None \<Rightarrow> False
     | Some k \<Rightarrow> if k = ''nodePort'' then path = [''nodePort''] \<and> n = extract_port_value v \<and> 0 < n
         else (\<exists>q. path = k # q \<and> node_port_at v q n)) \<or> node_port_at (DMap kvs) path n"
  by (auto simp: in_map split: option.split)

lemma ports_found:
  "(n, p) \<in> set (extract_node_ports v path) \<longleftrightarrow> (\<exists>q. p = path @ q \<and> node_port_at v q n)"
  "(n, p) \<in> set (entry_ports kvs path) \<longleftrightarrow> (\<exists>q. p = path @ q \<and> node_port_at (DMap kvs) q n)"
  "(n, p) \<in> set (item_ports i vs path) \<longleftrightarrow>
     (\<exists>j q. j < length vs \<and> p = path @ index_text (i + j) # q \<and> node_port_at (vs ! j) q n)"
proof (induction v path and kvs path and i vs path arbitrary: p and p and p
    rule: extract_node_ports_entry_ports_item_ports.induct)
  case (2 xs path)
  then show ?case by (auto simp: in_list)
next
  case (8 k v kvs path)
  show ?case
  proof (cases k)
    case None
    with 8 show ?thesis by (simp add: in_map_Cons)
  next
    case (Some s)
    with 8 show ?thesis
      by (cases "s = ''nodePort''") (auto simp: in_map_Cons Let_def split: if_splits)
  qed
next
  case (10 i x xs path)
  have "(\<exists>j q. j < length (x # xs) \<and> p = path @ index_text (i + j) # q \<and> node_port_at ((x # xs) ! j) q n) \<longleftrightarrow>
      (\<exists>q. p = (path @ [index_text i]) @ q \<and> node_port_at x q n) \<or>
      (\<exists>j q. j < length xs \<and> p = path @ index_text (Suc i + j) # q \<and> node_port_at (xs ! j) q n)"
    by (simp add: less_Suc_eq_0_disj) (metis (no_types, lifting) add_0_right add_Suc_right nth_Cons_0 nth_Cons_Suc)
  then show ?case by (simp add: 10)
qed (simp_all add: in_scalar in_map_Nil)

text \<open>
  C34: The linter warns of exactly the supported node ports: a place in the values of a built-in extension is reported if and
  only if a number from 80 to 32767 is there under the key \<open>nodePort\<close>, however deep.
\<close>

theorem port_warnings_exact:
  "ll_parse_values X (bi_values e) = Ok v \<and> bi_values e \<noteq> [] \<Longrightarrow>
    lw \<in> set (validate_ports X [e]) \<longleftrightarrow>
      (\<exists>path n. node_port_at v path n \<and> 80 \<le> n \<and> n \<le> 32767 \<and> port_warning (bi_name e) (n, path) = [lw])"
  using ports_found(1) [of _ _ v "[]"]
  by (auto simp: validate_ports_def extension_warnings_def port_warning_def min_supported_port_def max_supported_port_def
      split: if_splits)

section \<open>Plugins\<close>

lemma see_dom: "seen s = None \<Longrightarrow> dom (see s i seen) = insert s (dom seen)" "seen s \<noteq> None \<Longrightarrow> see s i seen = seen"
  by (auto simp: see_def)

lemma plugin_issues_Nil_iff:
  "plugin_issues X names imgs i ps = [] \<longleftrightarrow>
     list_all (\<lambda>p. vp_name p \<noteq> [] \<and> vp_image p \<noteq> [] \<and> ll_is_reference X (vp_image p)) ps \<and>
     distinct (map vp_name ps) \<and> distinct (map vp_image ps) \<and>
     set (map vp_name ps) \<inter> dom names = {} \<and> set (map vp_image ps) \<inter> dom imgs = {}"
proof (induction ps arbitrary: names imgs i)
  case (Cons p ps)
  have "dom (see s i seen) = insert s (dom seen)" for s and seen :: "string \<rightharpoonup> nat"
    by (cases "seen s = None") (auto simp: see_dom)
  then show ?case
    by (auto simp: Cons.IH Let_def duplicate_issue_def validate_image_format_def split: option.splits if_splits)
qed simp

text \<open>
  C35: The plugins of velero pass if and only if each has a name and an image that is a reference, and no name and no image
  occurs twice.
\<close>

theorem velero_plugins_accepted_iff:
  "validate_velero_plugins X ps = [] \<longleftrightarrow>
     list_all (\<lambda>p. vp_name p \<noteq> [] \<and> vp_image p \<noteq> [] \<and> ll_is_reference X (vp_image p)) ps \<and>
     distinct (map vp_name ps) \<and> distinct (map vp_image ps)"
  by (simp add: validate_velero_plugins_def plugin_issues_Nil_iff)

section \<open>Both formats agree\<close>

lemma lint_files_bad:
  "(case lint_files X A False fs of Ok (_, _, bad) \<Rightarrow> Ok bad | Err e \<Rightarrow> Err e | Panic p \<Rightarrow> Panic p) =
   (case lint_files X A True fs of Ok (_, _, bad) \<Rightarrow> Ok bad | Err e \<Rightarrow> Err e | Panic p \<Rightarrow> Panic p)"
proof (induction fs)
  case (Cons f fs)
  then show ?case
    by (cases "validate_file X A f"; cases "lint_files X A False fs"; cases "lint_files X A True fs") auto
qed simp

text \<open>
  The verdict of the linter does not depend on the format of its output, if the results can be written as JSON.
\<close>

theorem lint_formats_agree:
  assumes "\<And>rs. \<exists>t. ll_marshal X rs = Ok t"
  shows "snd (lint_cmd X A env ''json'' files) = snd (lint_cmd X A env ''text'' files)"
proof -
  let ?A = "new_api_client A (env ''REPLICATED_API_TOKEN'') (env ''REPLICATED_API_ORIGIN'') (env ''REPLICATED_APP'')"
  show ?thesis
  proof (cases "lint_files X ?A True files")
    case (Ok r)
    obtain out rs bad where r: "r = (out, rs, bad)" by (cases r) auto
    obtain t where "ll_marshal X rs = Ok t" using assms by blast
    with Ok r lint_files_bad [of X ?A files] show ?thesis
      by (cases "lint_files X ?A False files") (auto simp: lint_cmd_def Let_def)
  qed (use lint_files_bad [of X ?A files] in \<open>cases "lint_files X ?A False files"; auto simp: lint_cmd_def Let_def\<close>)+
qed

section \<open>Samples\<close>

definition sample_lint :: lint_lib where
  "sample_lint = \<lparr>ll_open = (\<lambda>_. Ok ()), ll_read = (\<lambda>p. Ok p), ll_syntax_error = (\<lambda>_. None),
     ll_parse_config = (\<lambda>_. Err (EMsg ''not a config'')),
     ll_parse_values = (\<lambda>_. Ok (DMap [(Some ''service'', DMap [(Some ''nodePort'', DInt 30000)])])), ll_is_reference = (\<lambda>_. True),
     ll_marshal = (\<lambda>_. Ok ''{}'')\<rparr>"

definition sample_api :: lint_api where
  "sample_api = \<lparr>la_token = [], la_origin = [], la_app = [], la_request = (\<lambda>_. Ok ()), la_get = (\<lambda>_. Ok (404, Ok [])),
     la_channels = (\<lambda>_. Ok []), la_releases = (\<lambda>_. Ok []), la_hostnames = (\<lambda>_. Ok []), la_strings = (\<lambda>_. Ok []),
     la_app_domains = (\<lambda>_. Ok (None, None)), la_order = (\<lambda>ds. ds)\<rparr>"

definition sample_values :: built_in_extension where
  "sample_values = \<lparr>bi_name = ''adminconsole'', bi_values = ''service: {nodePort: 30000}''\<rparr>"

theorem port_warnings_exact_witness:
  "\<exists>lw. port_warning ''adminconsole'' (30000, [''service'', ''nodePort'']) = [lw] \<and> lw \<in> set (validate_ports sample_lint [sample_values])"
proof -
  let ?v = "DMap [(Some ''service'', DMap [(Some ''nodePort'', DInt 30000)])]"
  have at: "node_port_at ?v [''service'', ''nodePort''] 30000" by (simp add: in_map_Cons)
  have v: "ll_parse_values sample_lint (bi_values sample_values) = Ok ?v \<and> bi_values sample_values \<noteq> []"
    by (simp add: sample_lint_def sample_values_def)
  obtain lw where lw: "port_warning ''adminconsole'' (30000, [''service'', ''nodePort'']) = [lw]"
    by (simp add: port_warning_def min_supported_port_def max_supported_port_def)
  have n: "bi_name sample_values = ''adminconsole''" by (simp add: sample_values_def)
  have "lw \<in> set (validate_ports sample_lint [sample_values])"
    unfolding port_warnings_exact [OF v] n
    by (intro exI [of _ "[''service'', ''nodePort'']"] exI [of _ 30000] conjI at lw) simp_all
  with lw show ?thesis by blast
qed

theorem lint_formats_agree_witness:
  "snd (lint_cmd sample_lint sample_api (\<lambda>_. []) ''json'' [''a.yaml'']) = snd (lint_cmd sample_lint sample_api (\<lambda>_. []) ''text'' [''a.yaml''])"
  by (rule lint_formats_agree) (simp add: sample_lint_def)

end
