(* ===== verification/ReleaseData.thy ===== *)
theory ReleaseData
  imports Installs
begin

text \<open>
  Reading a release (\<^verbatim>\<open>pkg/release/release.go\<close>): the files of the archive in the binary, and which part of the release each
  document becomes.

  The archive and its compression, the splitting of a file into YAML documents and the decoders of the parts are
  parameters. Decoded objects stay as opaque texts but the lists of the host preflights. An empty document decodes to
  nothing.
\<close>

section \<open>Data\<close>

record preflight_spec =
  ps_collectors :: "string list"
  ps_analyzers :: "string list"

record channel_release =
  cr_version_label :: string
  cr_channel_id :: string
  cr_channel_sequence :: int
  cr_channel_slug :: string
  cr_app_slug :: string
  cr_airgap :: bool
  cr_domains :: domains

record release_data =
  rd_application :: "string option"
  rd_app_config :: "string option"
  rd_host_preflights :: "preflight_spec option"
  rd_config :: "config_spec option"
  rd_channel :: "channel_release option"
  rd_velero_backup :: "string option"
  rd_velero_restore :: "string option"
  rd_chart_crs :: "string list"
  rd_chart_archives :: "string list"

record release_lib =
  rl_application :: "string \<Rightarrow> string outcome"
  rl_app_config :: "string \<Rightarrow> string outcome"
  rl_host_preflights :: "string \<Rightarrow> preflight_spec outcome"
  rl_config :: "string \<Rightarrow> config_spec outcome"
  rl_channel :: "string \<Rightarrow> channel_release outcome"
  rl_velero_backup :: "string \<Rightarrow> string outcome"
  rl_velero_restore :: "string \<Rightarrow> string outcome"
  rl_documents :: "string \<Rightarrow> string list outcome"
  rl_blank :: "string \<Rightarrow> bool"

text \<open>What the reader of the archive gives: entries and, at the end, an error or none.\<close>

record tar_entry =
  te_name :: string
  te_regular :: bool
  te_content :: "string outcome"

record archive =
  ar_entries :: "tar_entry list"
  ar_error :: "err option"

definition empty_release :: release_data where
  "empty_release = \<lparr>rd_application = None, rd_app_config = None, rd_host_preflights = None, rd_config = None, rd_channel = None,
     rd_velero_backup = None, rd_velero_restore = None, rd_chart_crs = [], rd_chart_archives = []\<rparr>"

section \<open>Documents\<close>

definition parse_nonempty :: "(string \<Rightarrow> 'a outcome) \<Rightarrow> string \<Rightarrow> string \<Rightarrow> 'a option outcome" where
  "parse_nonempty decode msg data = (if data = [] then Ok None else bindO (wrapO msg (decode data)) (\<lambda>x. Ok (Some x)))"

fun last_element :: "string list \<Rightarrow> string" where
  "last_element [] = []"
| "last_element [x] = x"
| "last_element (_ # x # xs) = last_element (x # xs)"

definition base_name :: "string \<Rightarrow> string" where
  "base_name path = (if path = [] then ''.''
     else let p = rev (dropWhile (\<lambda>c. c = CHR ''/'') (rev path)) in if p = [] then ''/'' else last_element (split_on CHR ''/'' p))"

definition is_system_file :: "string \<Rightarrow> bool" where
  "is_system_file f = (let b = base_name f in prefix ''._'' b \<or> b = ''.DS_Store'' \<or> b = ''Thumbs.db'')"

definition has_suffix :: "string \<Rightarrow> string \<Rightarrow> bool" where
  "has_suffix s suf = suffix suf s"

definition process_document :: "release_lib \<Rightarrow> string \<Rightarrow> string \<Rightarrow> release_data \<Rightarrow> release_data outcome" where
  "process_document R content name r =
     (if contains_str content ''# channel release object''
      then bindO (wrapO ''failed to parse channel release'' (parse_nonempty (rl_channel R) ''unable to unmarshal channel release'' content))
        (\<lambda>c. Ok (r\<lparr>rd_channel := c\<rparr>))
      else if has_suffix name ''.tgz'' \<and> \<not> is_system_file name then Ok (r\<lparr>rd_chart_archives := rd_chart_archives r @ [content]\<rparr>)
      else Ok r)"

definition add_host_preflights :: "preflight_spec option \<Rightarrow> preflight_spec option \<Rightarrow> preflight_spec option" where
  "add_host_preflights new old = (case new of
      None \<Rightarrow> old
    | Some n \<Rightarrow> let h = (case old of None \<Rightarrow> \<lparr>ps_collectors = [], ps_analyzers = []\<rparr> | Some h \<Rightarrow> h)
        in Some \<lparr>ps_collectors = ps_collectors h @ ps_collectors n, ps_analyzers = ps_analyzers h @ ps_analyzers n\<rparr>)"

definition decode_host_preflights :: "release_lib \<Rightarrow> string \<Rightarrow> preflight_spec option outcome" where
  "decode_host_preflights R content = (if content = [] then Ok None else bindO (rl_host_preflights R content) (\<lambda>s. Ok (Some s)))"

definition process_yaml_document :: "release_lib \<Rightarrow> string \<Rightarrow> release_data \<Rightarrow> release_data outcome" where
  "process_yaml_document R content r = (let has = contains_str content in
     if has ''apiVersion: kots.io/v1beta1'' then
       (if has ''kind: Application''
        then bindO (wrapO ''failed to parse application'' (parse_nonempty (rl_application R) ''unable to unmarshal application'' content))
          (\<lambda>x. Ok (r\<lparr>rd_application := x\<rparr>))
        else if has ''kind: Config''
        then bindO (wrapO ''failed to parse app config'' (parse_nonempty (rl_app_config R) ''unable to unmarshal app config'' content))
          (\<lambda>x. Ok (r\<lparr>rd_app_config := x\<rparr>))
        else Ok r)
     else if has ''apiVersion: troubleshoot.sh/v1beta2'' then
       (if \<not> has ''kind: HostPreflight'' \<or> has ''cluster.kurl.sh/v1beta1'' then Ok r
        else bindO (wrapO ''failed to parse host preflights'' (decode_host_preflights R content)) (\<lambda>h.
          Ok (r\<lparr>rd_host_preflights := add_host_preflights h (rd_host_preflights r)\<rparr>)))
     else if has ''apiVersion: embeddedcluster.replicated.com/v1beta1'' then
       (if \<not> has ''kind: Config'' then Ok r
        else bindO (wrapO ''failed to parse embedded cluster config''
            (parse_nonempty (rl_config R) ''unable to unmarshal embedded cluster config'' content))
          (\<lambda>x. Ok (r\<lparr>rd_config := x\<rparr>)))
     else if has ''apiVersion: velero.io/v1'' then
       (if has ''kind: Backup''
        then bindO (wrapO ''failed to parse velero backup'' (parse_nonempty (rl_velero_backup R) ''unable to unmarshal velero backup'' content))
          (\<lambda>x. Ok (r\<lparr>rd_velero_backup := x\<rparr>))
        else if has ''kind: Restore''
        then bindO (wrapO ''failed to parse velero restore'' (parse_nonempty (rl_velero_restore R) ''unable to unmarshal velero restore'' content))
          (\<lambda>x. Ok (r\<lparr>rd_velero_restore := x\<rparr>))
        else Ok r)
     else if has ''apiVersion: kots.io/v1beta2'' \<and> has ''kind: HelmChart'' then Ok (r\<lparr>rd_chart_crs := rd_chart_crs r @ [content]\<rparr>)
     else Ok r)"

fun process_documents :: "release_lib \<Rightarrow> string list \<Rightarrow> release_data \<Rightarrow> release_data outcome" where
  "process_documents R [] r = Ok r"
| "process_documents R (d # ds) r = bindO (process_yaml_document R d r) (process_documents R ds)"

section \<open>Files\<close>

definition is_yaml_name :: "string \<Rightarrow> bool" where
  "is_yaml_name n \<longleftrightarrow> \<not> prefix ''.'' n \<and> (has_suffix n ''.yaml'' \<or> has_suffix n ''.yml'')"

definition split_yaml_documents :: "release_lib \<Rightarrow> string \<Rightarrow> string list outcome" where
  "split_yaml_documents R data = bindO (wrapO ''read YAML document'' (rl_documents R data)) (\<lambda>ds. Ok (filter (\<lambda>d. \<not> rl_blank R d) ds))"

text \<open>The documents a file is processed as.\<close>

definition documents_of :: "release_lib \<Rightarrow> string \<Rightarrow> string \<Rightarrow> string list" where
  "documents_of R name content = (if is_yaml_name name
     then (case split_yaml_documents R content of Ok ds \<Rightarrow> ds | _ \<Rightarrow> [content]) else [content])"

definition process_file :: "release_lib \<Rightarrow> string \<Rightarrow> string \<Rightarrow> release_data \<Rightarrow> release_data outcome" where
  "process_file R name content r =
     bindO (process_document R content name r) (process_documents R (documents_of R name content))"

fun parse_entries :: "release_lib \<Rightarrow> tar_entry list \<Rightarrow> err option \<Rightarrow> release_data \<Rightarrow> release_data outcome" where
  "parse_entries R [] e r = (case e of None \<Rightarrow> Ok r | Some e \<Rightarrow> Err (EWrap ''failed to read file'' e))"
| "parse_entries R (t # ts) e r =
     (if \<not> te_regular t then parse_entries R ts e r
      else bindO (wrapO ''failed to copy file out of tar'' (te_content t)) (\<lambda>content.
        bindO (process_file R (te_name t) content r) (parse_entries R ts e)))"

text \<open>No data gives an empty release.\<close>

definition new_release_data_from :: "release_lib \<Rightarrow> archive outcome option \<Rightarrow> release_data outcome" where
  "new_release_data_from R data = (case data of
      None \<Rightarrow> Ok empty_release
    | Some a \<Rightarrow> wrapO ''unable to parse release data''
        (bindO (wrapO ''unable to create gzip reader'' a) (\<lambda>a. parse_entries R (ar_entries a) (ar_error a) empty_release)))"

definition get_helm_chart_crs :: "release_data \<Rightarrow> string list" where
  "get_helm_chart_crs r = rd_chart_crs r"

definition get_helm_chart_archives :: "release_data \<Rightarrow> string list" where
  "get_helm_chart_archives r = rd_chart_archives r"

definition get_host_preflights :: "release_data \<Rightarrow> preflight_spec option" where
  "get_host_preflights r = rd_host_preflights r"

section \<open>What a release is made of\<close>

text \<open>The kind a document counts as, and all documents of an archive in their order.\<close>

datatype doc_kind = AppDoc | AppConfigDoc | PreflightDoc | ClusterConfigDoc | BackupDoc | RestoreDoc | ChartDoc | OtherDoc

definition kind_of :: "string \<Rightarrow> doc_kind" where
  "kind_of d = (let has = contains_str d in
     if has ''apiVersion: kots.io/v1beta1'' then if has ''kind: Application'' then AppDoc else if has ''kind: Config'' then AppConfigDoc else OtherDoc
     else if has ''apiVersion: troubleshoot.sh/v1beta2''
       then if has ''kind: HostPreflight'' \<and> \<not> has ''cluster.kurl.sh/v1beta1'' then PreflightDoc else OtherDoc
     else if has ''apiVersion: embeddedcluster.replicated.com/v1beta1'' then if has ''kind: Config'' then ClusterConfigDoc else OtherDoc
     else if has ''apiVersion: velero.io/v1'' then if has ''kind: Backup'' then BackupDoc else if has ''kind: Restore'' then RestoreDoc else OtherDoc
     else if has ''apiVersion: kots.io/v1beta2'' \<and> has ''kind: HelmChart'' then ChartDoc else OtherDoc)"

definition of_kind :: "doc_kind \<Rightarrow> string list \<Rightarrow> string list" where
  "of_kind k ds = filter (\<lambda>d. kind_of d = k) ds"

definition content_of :: "tar_entry \<Rightarrow> string" where
  "content_of t = (case te_content t of Ok c \<Rightarrow> c | _ \<Rightarrow> [])"

definition release_documents :: "release_lib \<Rightarrow> tar_entry list \<Rightarrow> string list" where
  "release_documents R ts = concat (map (\<lambda>t. documents_of R (te_name t) (content_of t)) (filter te_regular ts))"

definition is_chart_archive :: "tar_entry \<Rightarrow> bool" where
  "is_chart_archive t \<longleftrightarrow> te_regular t \<and> \<not> contains_str (content_of t) ''# channel release object'' \<and>
     has_suffix (te_name t) ''.tgz'' \<and> \<not> is_system_file (te_name t)"

definition value_of :: "'a outcome \<Rightarrow> 'a option" where
  "value_of x = (case x of Ok v \<Rightarrow> Some v | _ \<Rightarrow> None)"

definition last_value :: "(string \<Rightarrow> 'a outcome) \<Rightarrow> string list \<Rightarrow> 'a option \<Rightarrow> 'a option" where
  "last_value decode ds old = (if ds = [] then old else value_of (decode (last ds)))"

definition collectors :: "release_data \<Rightarrow> string list" where
  "collectors r = (case rd_host_preflights r of None \<Rightarrow> [] | Some h \<Rightarrow> ps_collectors h)"

definition analyzers :: "release_data \<Rightarrow> string list" where
  "analyzers r = (case rd_host_preflights r of None \<Rightarrow> [] | Some h \<Rightarrow> ps_analyzers h)"

definition decoded_preflights :: "release_lib \<Rightarrow> (preflight_spec \<Rightarrow> string list) \<Rightarrow> string list \<Rightarrow> string list" where
  "decoded_preflights R part ds = concat (map (\<lambda>d. case value_of (rl_host_preflights R d) of None \<Rightarrow> [] | Some h \<Rightarrow> part h) ds)"

text \<open>The state \<open>r'\<close> after the documents \<open>ds\<close>, from \<open>r\<close>.\<close>

definition made_of :: "release_lib \<Rightarrow> string list \<Rightarrow> release_data \<Rightarrow> release_data \<Rightarrow> bool" where
  "made_of R ds r r' \<longleftrightarrow>
     rd_application r' = last_value (rl_application R) (of_kind AppDoc ds) (rd_application r) \<and>
     rd_app_config r' = last_value (rl_app_config R) (of_kind AppConfigDoc ds) (rd_app_config r) \<and>
     rd_config r' = last_value (rl_config R) (of_kind ClusterConfigDoc ds) (rd_config r) \<and>
     rd_velero_backup r' = last_value (rl_velero_backup R) (of_kind BackupDoc ds) (rd_velero_backup r) \<and>
     rd_velero_restore r' = last_value (rl_velero_restore R) (of_kind RestoreDoc ds) (rd_velero_restore r) \<and>
     rd_chart_crs r' = rd_chart_crs r @ of_kind ChartDoc ds \<and>
     collectors r' = collectors r @ decoded_preflights R ps_collectors (of_kind PreflightDoc ds) \<and>
     analyzers r' = analyzers r @ decoded_preflights R ps_analyzers (of_kind PreflightDoc ds)"

lemma last_value_append: "last_value f (xs @ ys) old = last_value f ys (last_value f xs old)"
  by (simp add: last_value_def)

lemma made_of_trans: "made_of R ds r r1 \<Longrightarrow> made_of R es r1 r2 \<Longrightarrow> made_of R (ds @ es) r r2"
  by (simp add: made_of_def of_kind_def last_value_append decoded_preflights_def)

lemma made_of_Nil [simp]: "made_of R [] r r"
  by (simp add: made_of_def of_kind_def last_value_def decoded_preflights_def)

lemma process_by_kind:
  "process_yaml_document R d r = (case kind_of d of
     AppDoc \<Rightarrow> bindO (wrapO ''failed to parse application'' (parse_nonempty (rl_application R) ''unable to unmarshal application'' d))
       (\<lambda>x. Ok (r\<lparr>rd_application := x\<rparr>))
   | AppConfigDoc \<Rightarrow> bindO (wrapO ''failed to parse app config'' (parse_nonempty (rl_app_config R) ''unable to unmarshal app config'' d))
       (\<lambda>x. Ok (r\<lparr>rd_app_config := x\<rparr>))
   | PreflightDoc \<Rightarrow> bindO (wrapO ''failed to parse host preflights'' (decode_host_preflights R d)) (\<lambda>h.
       Ok (r\<lparr>rd_host_preflights := add_host_preflights h (rd_host_preflights r)\<rparr>))
   | ClusterConfigDoc \<Rightarrow> bindO (wrapO ''failed to parse embedded cluster config''
       (parse_nonempty (rl_config R) ''unable to unmarshal embedded cluster config'' d)) (\<lambda>x. Ok (r\<lparr>rd_config := x\<rparr>))
   | BackupDoc \<Rightarrow> bindO (wrapO ''failed to parse velero backup'' (parse_nonempty (rl_velero_backup R) ''unable to unmarshal velero backup'' d))
       (\<lambda>x. Ok (r\<lparr>rd_velero_backup := x\<rparr>))
   | RestoreDoc \<Rightarrow> bindO (wrapO ''failed to parse velero restore'' (parse_nonempty (rl_velero_restore R) ''unable to unmarshal velero restore'' d))
       (\<lambda>x. Ok (r\<lparr>rd_velero_restore := x\<rparr>))
   | ChartDoc \<Rightarrow> Ok (r\<lparr>rd_chart_crs := rd_chart_crs r @ [d]\<rparr>)
   | OtherDoc \<Rightarrow> Ok r)"
proof -
  have f: "(if \<not> p \<or> q then x else y) = (if p \<and> \<not> q then y else x)" for p q and x y :: "release_data outcome" by simp
  show ?thesis unfolding process_yaml_document_def kind_of_def Let_def f by (simp only: if_distrib [of "case_doc_kind _ _ _ _ _ _ _ _"] doc_kind.case if_not_P if_P not_not if_cancel
    if_False if_True) auto
qed

lemma kind_nonempty: "kind_of d \<noteq> OtherDoc \<Longrightarrow> d \<noteq> []"
  by (auto simp: kind_of_def)

lemma process_yaml_document_made:
  assumes "process_yaml_document R d r = Ok r'"
  shows "made_of R [d] r r'" "rd_chart_archives r' = rd_chart_archives r"
  using assms kind_nonempty [of d] unfolding process_by_kind
  by (auto simp: made_of_def of_kind_def last_value_def value_of_def decoded_preflights_def
      collectors_def analyzers_def parse_nonempty_def decode_host_preflights_def add_host_preflights_def Let_def
      split: doc_kind.splits option.split)

lemma process_documents_made:
  "process_documents R ds r = Ok r' \<Longrightarrow> made_of R ds r r' \<and> rd_chart_archives r' = rd_chart_archives r"
proof (induction ds arbitrary: r)
  case (Cons d ds)
  then obtain r1 where r1: "process_yaml_document R d r = Ok r1" "process_documents R ds r1 = Ok r'" by auto
  show ?case
    using made_of_trans [OF process_yaml_document_made(1) [OF r1(1)]] process_yaml_document_made(2) [OF r1(1)] Cons.IH [OF r1(2)]
    by simp
qed simp

lemma process_document_made:
  assumes "process_document R c n r = Ok r'"
  shows "made_of R [] r r'" "rd_chart_archives r' = rd_chart_archives r @
    (if \<not> contains_str c ''# channel release object'' \<and> has_suffix n ''.tgz'' \<and> \<not> is_system_file n then [c] else [])"
  using assms by (auto simp: process_document_def made_of_def of_kind_def last_value_def decoded_preflights_def collectors_def
      analyzers_def split: if_splits)

lemma process_file_made:
  assumes "process_file R n c r = Ok r'"
  shows "made_of R (documents_of R n c) r r'" "rd_chart_archives r' = rd_chart_archives r @
    (if \<not> contains_str c ''# channel release object'' \<and> has_suffix n ''.tgz'' \<and> \<not> is_system_file n then [c] else [])"
proof -
  from assms obtain r1 where r1: "process_document R c n r = Ok r1" "process_documents R (documents_of R n c) r1 = Ok r'"
    by (auto simp: process_file_def)
  show "made_of R (documents_of R n c) r r'"
    using made_of_trans [OF process_document_made(1) [OF r1(1)]] process_documents_made [OF r1(2)] by (metis append_Nil)
  show "rd_chart_archives r' = rd_chart_archives r @
    (if \<not> contains_str c ''# channel release object'' \<and> has_suffix n ''.tgz'' \<and> \<not> is_system_file n then [c] else [])"
    using process_document_made(2) [OF r1(1)] process_documents_made [OF r1(2)] by simp
qed

lemma parse_entries_made:
  "parse_entries R ts e r = Ok r' \<Longrightarrow> made_of R (release_documents R ts) r r' \<and>
     rd_chart_archives r' = rd_chart_archives r @ map content_of (filter is_chart_archive ts)"
proof (induction ts arbitrary: r)
  case (Cons t ts)
  show ?case
  proof (cases "te_regular t")
    case False
    with Cons show ?thesis by (simp add: release_documents_def is_chart_archive_def)
  next
    case True
    with Cons.prems obtain c r1 where c: "te_content t = Ok c" and f: "process_file R (te_name t) c r = Ok r1"
      and rest: "parse_entries R ts e r1 = Ok r'" by auto
    have c': "content_of t = c" by (simp add: content_of_def c)
    note m = process_file_made [OF f]
    have t: "is_chart_archive t \<longleftrightarrow> \<not> contains_str c ''# channel release object'' \<and>
        has_suffix (te_name t) ''.tgz'' \<and> \<not> is_system_file (te_name t)"
      using True by (simp add: is_chart_archive_def c')
    have "made_of R (release_documents R (t # ts)) r r'"
      using made_of_trans [OF m(1)] Cons.IH [OF rest] True by (simp add: release_documents_def c')
    moreover have "rd_chart_archives r' = rd_chart_archives r @ map content_of (filter is_chart_archive (t # ts))"
      using m(2) Cons.IH [OF rest] c' by (simp add: t)
    ultimately show ?thesis by simp
  qed
qed (auto simp: release_documents_def split: option.splits)

text \<open>
  C31: What a release is made of. Read without an error, its application, config of the application, cluster configuration and
  velero objects are those of the last document of their kind, the charts are all documents and all archives of theirs, and
  the host preflights are the collectors and analyzers of all their documents, each in the order of the archive.
\<close>

theorem release_is_made_of_its_documents:
  assumes "new_release_data_from R (Some (Ok a)) = Ok r"
  shows "made_of R (release_documents R (ar_entries a)) empty_release r \<and>
    rd_chart_archives r = map content_of (filter is_chart_archive (ar_entries a))"
  using assms parse_entries_made [of R "ar_entries a" "ar_error a" empty_release r]
  by (auto simp: new_release_data_from_def empty_release_def)

text \<open>
  C32: Kinds are found as parts of the text, so values for the config of the application count as that config: the document is
  decoded as one and takes its place.
\<close>

theorem config_values_replace_the_app_config:
  assumes "contains_str d ''apiVersion: kots.io/v1beta1''" "contains_str d ''kind: ConfigValues''"
    "\<not> contains_str d ''kind: Application''" "rl_app_config R d = Ok c"
  shows "process_yaml_document R d r = Ok (r\<lparr>rd_app_config := Some c\<rparr>)"
proof -
  have "contains_str d ''kind: Config''"
  proof -
    from assms(2) obtain x y where "d = x @ ''kind: ConfigValues'' @ y" by (auto simp: contains_str_iff)
    then have "d = x @ ''kind: Config'' @ (''Values'' @ y)" by simp
    then show ?thesis unfolding contains_str_iff by blast
  qed
  moreover have "d \<noteq> []" using assms(1) by auto
  ultimately show ?thesis
    using assms by (simp add: process_yaml_document_def parse_nonempty_def)
qed

section \<open>Samples\<close>

definition sample_release_lib :: release_lib where
  "sample_release_lib = \<lparr>rl_application = Ok, rl_app_config = Ok, rl_host_preflights = (\<lambda>_. Ok \<lparr>ps_collectors = [], ps_analyzers = []\<rparr>),
     rl_config = (\<lambda>_. Err (EMsg ''not a config'')), rl_channel = (\<lambda>_. Err (EMsg ''not a release'')), rl_velero_backup = Ok,
     rl_velero_restore = Ok, rl_documents = (\<lambda>c. Ok [c]), rl_blank = (\<lambda>_. False)\<rparr>"

definition sample_archive :: archive where
  "sample_archive = \<lparr>ar_entries = [\<lparr>te_name = ''c.tgz'', te_regular = True, te_content = Ok ''chart''\<rparr>], ar_error = None\<rparr>"

theorem release_is_made_of_its_documents_witness:
  "\<exists>r. new_release_data_from sample_release_lib (Some (Ok sample_archive)) = Ok r \<and> rd_chart_archives r = [''chart'']"
proof -
  have "is_system_file ''c.tgz'' = False" "has_suffix ''c.tgz'' ''.tgz''"
    by (simp_all add: is_system_file_def base_name_def has_suffix_def suffix_def)
  note f = this
  have "\<exists>r. new_release_data_from sample_release_lib (Some (Ok sample_archive)) = Ok r"
    by (simp add: new_release_data_from_def sample_archive_def process_file_def process_document_def f documents_of_def is_yaml_name_def
        has_suffix_def suffix_def process_yaml_document_def)
  then obtain r where r: "new_release_data_from sample_release_lib (Some (Ok sample_archive)) = Ok r" ..
  then show ?thesis using release_is_made_of_its_documents [OF r] f
    by (simp add: sample_archive_def is_chart_archive_def content_of_def)
qed

theorem config_values_replace_the_app_config_witness: "process_yaml_document sample_release_lib
    ''apiVersion: kots.io/v1beta1, kind: ConfigValues'' (empty_release\<lparr>rd_app_config := Some ''the config''\<rparr>) =
  Ok (empty_release\<lparr>rd_app_config := Some ''apiVersion: kots.io/v1beta1, kind: ConfigValues''\<rparr>)"
  using config_values_replace_the_app_config [of "''apiVersion: kots.io/v1beta1, kind: ConfigValues''" sample_release_lib
    "''apiVersion: kots.io/v1beta1, kind: ConfigValues''" "empty_release\<lparr>rd_app_config := Some ''the config''\<rparr>"]
  by (simp add: sample_release_lib_def)

end
