(* ===== verification/HostPreflights.thy ===== *)
theory HostPreflights
  imports ReleaseData NetUtils
begin

text \<open>
  Host preflights (\<^verbatim>\<open>pkg-new/preflights\<close>): preparing the specification from the release's and the cluster's own, the
  environment the preflight program runs in, what its end means, and how its results are shown.

  The templates, their rendering and loading, the JSON of a collector and the program itself are parameters.
  \<open>prepare_host_preflights\<close> has the release's specification as a state, because the code appends to the object it
  is given. White space is that of ASCII, the length of a text its number of bytes.
\<close>

section \<open>Data\<close>

record cidr_data =
  cd_cidr :: string
  cd_size :: nat

record preflight_options =
  po_app_url :: string
  po_registry_url :: string
  po_admin_console_port :: int
  po_lam_port :: int
  po_data_dir :: string
  po_k0s_dir :: string
  po_openebs_dir :: string
  po_proxy :: "proxy_spec option"
  po_pod_cidr :: string
  po_service_cidr :: string
  po_global_cidr :: "string option"
  po_node_ip :: string
  po_airgap :: bool
  po_connections :: "string list"
  po_join :: bool
  po_ui :: bool
  po_v3 :: bool
  po_mode :: string
  po_controller_storage :: string
  po_worker_storage :: string
  po_disable_fs_check :: bool
  po_k8s_version :: string

record template_data =
  td_options :: preflight_options
  td_architecture :: string
  td_service :: cidr_data
  td_pod :: cidr_data
  td_global :: cidr_data
  td_requires_cgroup_v2 :: bool
  td_http_proxy :: string
  td_https_proxy :: string
  td_provided_no_proxy :: string
  td_no_proxy :: string

record preflight_lib =
  pl_netlib :: netlib
  pl_semver :: "string \<Rightarrow> (nat \<times> nat) outcome"
  pl_architecture :: string
  pl_render :: "string \<Rightarrow> template_data \<Rightarrow> string outcome"
  pl_load :: "string list \<Rightarrow> preflight_spec list outcome"

section \<open>Preparing\<close>

definition k8s_version_requires_cgroup_v2 :: "preflight_lib \<Rightarrow> string \<Rightarrow> bool outcome" where
  "k8s_version_requires_cgroup_v2 P version = (if version = [] then Ok False
     else bindO (wrapO (''parse k8s version '' @ version) (pl_semver P version)) (\<lambda>(major, minor). Ok (major = 1 \<and> minor \<ge> 35)))"

definition empty_cidr :: cidr_data where "empty_cidr = \<lparr>cd_cidr = [], cd_size = 0\<rparr>"

definition cidr_data_of :: "preflight_lib \<Rightarrow> string \<Rightarrow> string \<Rightarrow> cidr_data outcome" where
  "cidr_data_of P msg cidr = bindO (wrapO msg (parse_cidr (pl_netlib P) cidr)) (\<lambda>(_, n).
     Ok \<lparr>cd_cidr = show_net (pl_netlib P) n, cd_size = net_ones n\<rparr>)"

definition with_cidr_data :: "preflight_lib \<Rightarrow> string \<Rightarrow> string \<Rightarrow> string option \<Rightarrow> template_data \<Rightarrow> template_data outcome" where
  "with_cidr_data P pod service global t =
     (if global \<noteq> None \<and> global \<noteq> Some []
      then bindO (cidr_data_of P ''invalid cidr'' (the global)) (\<lambda>g. Ok (t\<lparr>td_global := g\<rparr>))
      else bindO (if service = [] then Ok empty_cidr else cidr_data_of P ''invalid service cidr'' service) (\<lambda>s.
        bindO (if pod = [] then Ok empty_cidr else cidr_data_of P ''invalid pod cidr'' pod) (\<lambda>p.
        Ok (t\<lparr>td_service := s, td_pod := p\<rparr>))))"

definition template_data_of :: "preflight_lib \<Rightarrow> preflight_options \<Rightarrow> bool \<Rightarrow> template_data" where
  "template_data_of P opts cgroup = \<lparr>td_options = opts, td_architecture = pl_architecture P, td_service = empty_cidr, td_pod = empty_cidr,
     td_global = empty_cidr, td_requires_cgroup_v2 = cgroup, td_http_proxy = [], td_https_proxy = [], td_provided_no_proxy = [],
     td_no_proxy = []\<rparr>"

definition with_proxy_data :: "proxy_spec option \<Rightarrow> template_data \<Rightarrow> template_data" where
  "with_proxy_data proxy t = (case proxy of None \<Rightarrow> t
     | Some p \<Rightarrow> t\<lparr>td_http_proxy := http_proxy p, td_https_proxy := https_proxy p,
         td_provided_no_proxy := provided_no_proxy p, td_no_proxy := no_proxy p\<rparr>)"

definition get_cluster_host_preflights :: "preflight_lib \<Rightarrow> string \<Rightarrow> template_data \<Rightarrow> preflight_spec list outcome" where
  "get_cluster_host_preflights P mode t =
     bindO (wrapO ''render host preflight common template'' (pl_render P ''common'' t)) (\<lambda>common.
     bindO (wrapO ''render host preflight main template'' (pl_render P (if mode = ''upgrade'' then ''upgrade'' else ''install'') t)) (\<lambda>main.
     wrapO ''load host preflight specs'' (pl_load P [common, main])))"

definition cluster_specs :: "preflight_lib \<Rightarrow> preflight_options \<Rightarrow> preflight_spec list outcome" where
  "cluster_specs P opts =
     bindO (wrapO ''check cgroup v2 requirement'' (k8s_version_requires_cgroup_v2 P (po_k8s_version opts))) (\<lambda>cgroup.
     bindO (wrapO ''get host preflights data''
       (with_cidr_data P (po_pod_cidr opts) (po_service_cidr opts) (po_global_cidr opts) (template_data_of P opts cgroup))) (\<lambda>t.
     wrapO ''get cluster host preflights'' (get_cluster_host_preflights P (po_mode opts) (with_proxy_data (po_proxy opts) t))))"

fun append_specs :: "preflight_spec \<Rightarrow> preflight_spec list \<Rightarrow> preflight_spec" where
  "append_specs h [] = h"
| "append_specs h (s # ss) = append_specs \<lparr>ps_collectors = ps_collectors h @ ps_collectors s,
     ps_analyzers = ps_analyzers h @ ps_analyzers s\<rparr> ss"

text \<open>The specification, and the release's own afterwards.\<close>

definition prepare_host_preflights ::
    "preflight_lib \<Rightarrow> preflight_options \<Rightarrow> preflight_spec option \<Rightarrow> preflight_spec outcome \<times> preflight_spec option" where
  "prepare_host_preflights P opts release = (case cluster_specs P opts of
      Err e \<Rightarrow> (Err e, release)
    | Panic p \<Rightarrow> (Panic p, release)
    | Ok specs \<Rightarrow> (case release of
          None \<Rightarrow> (Ok (append_specs \<lparr>ps_collectors = [], ps_analyzers = []\<rparr> specs), None)
        | Some h \<Rightarrow> (Ok (append_specs h specs), Some (append_specs h specs))))"

section \<open>Running\<close>

fun dedup_loop :: "('a \<Rightarrow> string outcome) \<Rightarrow> string list \<Rightarrow> 'a list \<Rightarrow> 'a list" where
  "dedup_loop key seen [] = []"
| "dedup_loop key seen (x # xs) = (case key x of
      Ok k \<Rightarrow> if k \<in> set seen then dedup_loop key seen xs else x # dedup_loop key (k # seen) xs
    | _ \<Rightarrow> x # dedup_loop key seen xs)"

definition dedup :: "('a \<Rightarrow> string outcome) \<Rightarrow> 'a list \<Rightarrow> 'a list" where
  "dedup key xs = dedup_loop key [] xs"

text \<open>The name of a variable: what precedes the first equals sign, else all.\<close>

definition variable_name :: "string \<Rightarrow> string" where
  "variable_name e = takeWhile (\<lambda>c. c \<noteq> CHR ''='') e"

definition proxy_variables :: "string list" where
  "proxy_variables = [''HTTP_PROXY'', ''HTTPS_PROXY'', ''NO_PROXY'', ''http_proxy'', ''https_proxy'', ''no_proxy'']"

definition preflight_proxy_env :: "proxy_spec option \<Rightarrow> string list \<Rightarrow> string list" where
  "preflight_proxy_env proxy env = filter (\<lambda>e. variable_name e \<notin> set proxy_variables) env @
     (case proxy of None \<Rightarrow> []
      | Some p \<Rightarrow> [''HTTP_PROXY='' @ http_proxy p, ''HTTPS_PROXY='' @ https_proxy p, ''NO_PROXY='' @ no_proxy p])"

text \<open>The value of a variable that is split off; without an equals sign there is no second part.\<close>

definition variable_value :: "string \<Rightarrow> string outcome" where
  "variable_value e = (if CHR ''='' \<in> set e then Ok (drop (Suc (length (variable_name e))) e) else Panic ''index out of range'')"

fun path_of :: "string list \<Rightarrow> string \<Rightarrow> string outcome" where
  "path_of [] path = Ok path"
| "path_of (e # es) path = (if variable_name e = ''PATH'' then bindO (variable_value e) (path_of es) else path_of es path)"

definition path_env :: "string list \<Rightarrow> string list \<Rightarrow> string list outcome" where
  "path_env extra env = bindO (path_of env []) (\<lambda>path.
     let rest = filter (\<lambda>e. variable_name e \<noteq> ''PATH'') env in
     Ok (if path \<noteq> [] then rest @ [''PATH='' @ path @ '':'' @ join_str '':'' extra]
         else if extra \<noteq> [] then rest @ [''PATH='' @ join_str '':'' extra] else rest))"

definition disable_auto_update_env :: "string list \<Rightarrow> string list" where
  "disable_auto_update_env env = env @ [''PREFLIGHT_AUTO_UPDATE=false'']"

definition prepare_preflight_env :: "proxy_spec option \<Rightarrow> string list \<Rightarrow> string list \<Rightarrow> string list outcome" where
  "prepare_preflight_env proxy extra env =
     bindO (path_env extra (preflight_proxy_env proxy env)) (\<lambda>env. Ok (disable_auto_update_env env))"

text \<open>How the program ended, what it printed, and what that is decoded as.\<close>

datatype program_end = Finished | Exited int string | NotStarted string

definition run_preflights :: "(string \<Rightarrow> 'a outcome) \<Rightarrow> program_end \<Rightarrow> string \<Rightarrow> string \<Rightarrow> 'a outcome" where
  "run_preflights decode ending out err = (let result = wrapO ''unable to decode preflight output'' (decode out);
       failed = (\<lambda>e. Err (EMsg (''error running preflight: '' @ e @ '', stderr='' @ quote_str err))) in
     case ending of
       Finished \<Rightarrow> result
     | NotStarted e \<Rightarrow> failed e
     | Exited n e \<Rightarrow> if n < 2 then failed e else result)"

text \<open>Both kinds of preflights: without duplicates, written, and run.\<close>

definition run_spec :: "(string \<Rightarrow> string outcome) \<Rightarrow> string \<Rightarrow> (preflight_spec \<Rightarrow> string outcome) \<Rightarrow> (string \<Rightarrow> 'a outcome) \<Rightarrow>
    preflight_spec \<Rightarrow> 'a outcome" where
  "run_spec key msg marshal run s =
     bindO (wrapO msg (marshal \<lparr>ps_collectors = dedup key (ps_collectors s), ps_analyzers = dedup key (ps_analyzers s)\<rparr>)) run"

section \<open>Showing\<close>

definition is_space :: "char \<Rightarrow> bool" where
  "is_space c \<longleftrightarrow> c \<in> {CHR '' '', CHR 0x09, CHR 0x0A, CHR 0x0B, CHR 0x0C, CHR 0x0D}"

text \<open>\<open>strings.Fields\<close>.\<close>

fun fields_loop :: "string \<Rightarrow> string \<Rightarrow> string list" where
  "fields_loop word [] = (if word = [] then [] else [word])"
| "fields_loop word (c # cs) =
     (if is_space c then (if word = [] then [] else [word]) @ fields_loop [] cs else fields_loop (word @ [c]) cs)"

definition fields :: "string \<Rightarrow> string list" where
  "fields s = fields_loop [] s"

fun wrap_words :: "int \<Rightarrow> string \<Rightarrow> string list \<Rightarrow> string" where
  "wrap_words width line [] = line"
| "wrap_words width line (w # ws) =
     (if int (length line) + int (length w) + 1 > width then line @ [CHR 0x0A] @ wrap_words width w ws
      else wrap_words width (line @ (if line \<noteq> [] then '' '' else []) @ w) ws)"

definition wrap_text :: "string \<Rightarrow> int \<Rightarrow> string" where
  "wrap_text text width = (if int (length text) \<le> width then text else wrap_words width [] (fields text))"

text \<open>Of the bundles in the directory the one whose name is last; no bundle is no error.\<close>

fun newest_bundle :: "string \<Rightarrow> string list \<Rightarrow> string" where
  "newest_bundle src [] = src"
| "newest_bundle src (m # ms) = newest_bundle (if base_name m > base_name src then m else src) ms"

definition bundle_to_copy :: "string list \<Rightarrow> string option" where
  "bundle_to_copy ms = (case ms of [] \<Rightarrow> None | m # _ \<Rightarrow> Some (newest_bundle m ms))"

section \<open>Shown text\<close>

lemma fields_loop_word: "word \<noteq> [] \<Longrightarrow> \<exists>w ws. fields_loop word s = (word @ w) # ws"
proof (induction s arbitrary: word)
  case (Cons c s)
  show ?case
  proof (cases "is_space c")
    case True
    with Cons.prems show ?thesis by simp
  next
    case False
    with Cons.IH [of "word @ [c]"] show ?thesis by auto
  qed
qed simp

lemma fields_loop_sep: "is_space c \<Longrightarrow> fields_loop word (a @ c # b) = fields_loop word a @ fields_loop [] b"
  by (induction a arbitrary: word) auto

lemma fields_sep: "is_space c \<Longrightarrow> fields (a @ c # b) = fields a @ fields b"
  by (simp add: fields_def fields_loop_sep)

lemma fields_loop_plain: "list_all (\<lambda>c. \<not> is_space c) s \<Longrightarrow> fields_loop word s = (if word @ s = [] then [] else [word @ s])"
  by (induction s arbitrary: word) auto

lemma fields_plain: "list_all (\<lambda>c. \<not> is_space c) w \<Longrightarrow> fields w = (if w = [] then [] else [w])"
  by (simp add: fields_def fields_loop_plain)

definition is_word :: "string \<Rightarrow> bool" where
  "is_word w \<longleftrightarrow> w \<noteq> [] \<and> list_all (\<lambda>c. \<not> is_space c) w"

lemma fields_loop_words: "list_all (\<lambda>c. \<not> is_space c) word \<Longrightarrow> list_all is_word (fields_loop word s)"
  by (induction s arbitrary: word) (auto simp: is_word_def)

lemma fields_words: "list_all is_word (fields s)"
  by (simp add: fields_def fields_loop_words)

lemma spaces [simp]: "is_space (CHR '' '')" "is_space (CHR 0x0A)"
  by (simp_all add: is_space_def)

lemma wrap_words_fields: "list_all is_word ws \<Longrightarrow> fields (wrap_words width line ws) = fields line @ ws"
proof (induction width line ws rule: wrap_words.induct)
  case (2 width line w ws)
  have w: "is_word w" "list_all is_word ws" using 2(3) by simp_all
  then have f: "fields w = [w]" by (simp add: is_word_def fields_plain)
  have g: "fields (line @ (if line \<noteq> [] then '' '' else []) @ w) = fields line @ [w]"
    using fields_sep [of "CHR '' ''" line w] f by (simp add: fields_def)
  show ?case
  proof (cases "int (length line) + int (length w) + 1 > width")
    case True
    then show ?thesis using 2(1) w f fields_sep [of "CHR 0x0A" line "wrap_words width w ws"] by simp
  next
    case False
    then show ?thesis using 2(2) w g by simp
  qed
qed simp

lemma wrap_words_lines:
  "list_all (\<lambda>w. is_word w \<and> int (length w) < width) ws \<Longrightarrow> CHR 0x0A \<notin> set line \<Longrightarrow> int (length line) \<le> width \<Longrightarrow>
    list_all (\<lambda>l. int (length l) \<le> width) (split_on (CHR 0x0A) (wrap_words width line ws))"
proof (induction width line ws rule: wrap_words.induct)
  case (2 width line w ws)
  have n: "CHR 0x0A \<notin> set w" using 2(3) by (auto simp: is_word_def list_all_iff)
  show ?case
  proof (cases "int (length line) + int (length w) + 1 > width")
    case True
    then show ?thesis using 2 n by (simp add: split_on_append)
  next
    case False
    then show ?thesis using 2 n by (cases "line = []") simp_all
  qed
qed simp

lemma split_on_length: "l \<in> set (split_on c s) \<Longrightarrow> length l \<le> length s"
proof (induction s arbitrary: l)
  case (Cons x s)
  obtain y ys where y: "split_on c s = y # ys" by (cases "split_on c s") auto
  have "\<And>l. l \<in> set (y # ys) \<Longrightarrow> length l \<le> length s" using Cons.IH y by simp
  then show ?case using Cons.prems y by (fastforce split: if_splits)
qed simp

text \<open>
  Wrapping a message changes its white space only, and if every word is shorter than the width, no line of the result is longer
  than it.
\<close>

theorem wrapped_text_fits:
  "fields (wrap_text text width) = fields text \<and>
    (0 \<le> width \<and> list_all (\<lambda>w. int (length w) < width) (fields text) \<longrightarrow>
      list_all (\<lambda>l. int (length l) \<le> width) (split_on (CHR 0x0A) (wrap_text text width)))"
proof (cases "int (length text) \<le> width")
  case True
  then show ?thesis using split_on_length [of _ "CHR 0x0A" "text"] by (fastforce simp: wrap_text_def list_all_iff)
next
  case False
  then have w: "wrap_text text width = wrap_words width [] (fields text)" by (simp add: wrap_text_def)
  have "fields (wrap_words width [] (fields text)) = fields text"
    using wrap_words_fields [OF fields_words, of width "[]" "text"] by (simp add: fields_def)
  moreover have "list_all (\<lambda>l. int (length l) \<le> width) (split_on (CHR 0x0A) (wrap_words width [] (fields text)))"
    if "0 \<le> width" "list_all (\<lambda>w. int (length w) < width) (fields text)"
    using wrap_words_lines [of width "fields text" "[]"] fields_words [of "text"] that by (simp add: list_all_iff)
  ultimately show ?thesis unfolding w by blast
qed

section \<open>Duplicates\<close>

lemma dedup_loop_spec:
  "distinct (map k (dedup_loop (\<lambda>x. Ok (k x)) seen xs)) \<and>
   set (map k (dedup_loop (\<lambda>x. Ok (k x)) seen xs)) = set (map k xs) - set seen \<and>
   subseq (dedup_loop (\<lambda>x. Ok (k x)) seen xs) xs"
  by (induction xs arbitrary: seen) auto

text \<open>
  Without an error of the encoder, one collector or analyzer of each encoding is run, in the order of the specification.
\<close>

theorem dedup_keeps_one_of_each:
  "distinct (map k (dedup (\<lambda>x. Ok (k x)) xs)) \<and> set (map k (dedup (\<lambda>x. Ok (k x)) xs)) = set (map k xs) \<and>
    subseq (dedup (\<lambda>x. Ok (k x)) xs) xs"
  using dedup_loop_spec [of k "[]" xs] by (simp add: dedup_def)

section \<open>The environment\<close>

text \<open>
  C40: Whatever proxy the environment of the installer names, the preflights see the one of the installation: its three
  variables, and no other way to write them; without a proxy none.
\<close>

theorem preflights_see_the_proxy_of_the_installation:
  assumes "prepare_preflight_env proxy extra env = Ok env'"
  shows "filter (\<lambda>e. variable_name e \<in> set proxy_variables) env' = (case proxy of None \<Rightarrow> []
    | Some p \<Rightarrow> [''HTTP_PROXY='' @ http_proxy p, ''HTTPS_PROXY='' @ https_proxy p, ''NO_PROXY='' @ no_proxy p])"
proof -
  define is_proxy where "is_proxy e \<longleftrightarrow> variable_name e \<in> set proxy_variables" for e
  have own: "is_proxy (''HTTP_PROXY='' @ s)" "is_proxy (''HTTPS_PROXY='' @ s)" "is_proxy (''NO_PROXY='' @ s)"
    and other: "\<not> is_proxy (''PATH='' @ s)" "\<not> is_proxy ''PREFLIGHT_AUTO_UPDATE=false''"
    and path: "is_proxy e \<Longrightarrow> variable_name e \<noteq> ''PATH''" for s e
    by (auto simp: is_proxy_def variable_name_def proxy_variables_def)
  have "filter is_proxy (filter (\<lambda>e. \<not> is_proxy e) env) = []" by simp
  then have kept: "filter is_proxy (preflight_proxy_env proxy env) = (case proxy of None \<Rightarrow> []
    | Some p \<Rightarrow> [''HTTP_PROXY='' @ http_proxy p, ''HTTPS_PROXY='' @ https_proxy p, ''NO_PROXY='' @ no_proxy p])"
    unfolding preflight_proxy_env_def is_proxy_def [symmetric] filter_append using own by (simp only: filter.simps if_True split: option.split) simp
  have same: "filter is_proxy es' = filter is_proxy es" if p: "path_env extra es = Ok es'" for es es'
  proof -
    have f: "filter is_proxy (filter (\<lambda>e. variable_name e \<noteq> ''PATH'') es) = filter is_proxy es"
      unfolding filter_filter using path by (intro filter_cong) auto
    from p consider "es' = filter (\<lambda>e. variable_name e \<noteq> ''PATH'') es"
      | s where "es' = filter (\<lambda>e. variable_name e \<noteq> ''PATH'') es @ [''PATH='' @ s]"
      by (auto simp: path_env_def Let_def split: if_splits)
    then show ?thesis
    proof cases
      case 2
      show ?thesis unfolding 2 filter_append f using other(1) by (simp only: filter.simps if_False append_Nil2)
    qed (simp only: f)
  qed
  from assms obtain es where es: "path_env extra (preflight_proxy_env proxy env) = Ok es" "env' = es @ [''PREFLIGHT_AUTO_UPDATE=false'']"
    by (auto simp: prepare_preflight_env_def disable_auto_update_env_def)
  have "filter is_proxy env' = filter is_proxy es" using other(2) by (simp add: es(2))
  with same [OF es(1)] kept show ?thesis unfolding is_proxy_def by simp
qed

section \<open>Samples\<close>

theorem wrapped_text_fits_witness: "fields ''a bc d'' = [''a'', ''bc'', ''d''] \<and>
    list_all (\<lambda>l. int (length l) \<le> 4) (split_on (CHR 0x0A) (wrap_text ''a bc d'' 4))"
proof
  show f: "fields ''a bc d'' = [''a'', ''bc'', ''d'']" by (simp add: fields_def is_space_def)
  show "list_all (\<lambda>l. int (length l) \<le> 4) (split_on (CHR 0x0A) (wrap_text ''a bc d'' 4))"
    using wrapped_text_fits [of "''a bc d''" 4] by (simp add: f)
qed

theorem preflights_see_the_proxy_of_the_installation_witness:
  "\<exists>env'. prepare_preflight_env None [''/bin''] [''http_proxy=http://p'', ''HOME=/root''] = Ok env' \<and>
    filter (\<lambda>e. variable_name e \<in> set proxy_variables) env' = []"
proof -
  obtain env' where run: "prepare_preflight_env None [''/bin''] [''http_proxy=http://p'', ''HOME=/root''] = Ok env'"
    by (simp add: prepare_preflight_env_def path_env_def Let_def preflight_proxy_env_def proxy_variables_def variable_name_def)
  from preflights_see_the_proxy_of_the_installation [OF run] run show ?thesis by simp
qed

end
