(* ===== verification/Commands.thy ===== *)
theory Commands
  imports Reset
begin

text \<open>
  The other commands that change the cluster (\<^verbatim>\<open>cmd/installer/cli/enable_ha.go\<close>, \<^verbatim>\<open>adminconsole_updatetls.go\<close>, \<^verbatim>\<open>adminconsole_resettls.go\<close>,
  \<^verbatim>\<open>adminconsole_resetpassword.go\<close>, \<^verbatim>\<open>update.go\<close>, \<^verbatim>\<open>join_printcommand.go\<close>), the calls of the program of the Admin Console they make
  (\<^verbatim>\<open>cmd/installer/kotscli\<close>), and what is read of a kURL cluster (\<^verbatim>\<open>pkg-new/kurl\<close>).

  A call of that program is a step on the host named by its environment and arguments; what it prints is a parameter. A
  secret is the list of its entries, whichever of its two fields they were written to.
\<close>

section \<open>High availability\<close>

definition enable_ha_options_of :: "reset_env \<Rightarrow> string list \<Rightarrow> runtime_config_spec \<Rightarrow> installation_spec \<Rightarrow> enable_ha_options" where
  "enable_ha_options_of R images rc i =
     \<lparr>ha_cluster_id = cluster_id i, ha_admin_console_port = rc_admin_console_port rc, ha_is_airgap = air_gap i,
      ha_is_multi_node = (case spec_license_info i of None \<Rightarrow> False | Some l \<Rightarrow> is_multi_node_enabled l),
      ha_embedded_config = spec_config i, ha_end_user_config = None, ha_proxy = rc_proxy rc,
      ha_host_ca_path = host_ca_bundle_path rc, ha_data_dir = ec_home_directory rc, ha_k0s_dir = ec_k0s_sub_dir rc,
      ha_seaweedfs_dir = ec_seaweedfs_sub_dir rc, ha_service_cidr = service_cidr (rc_network rc),
      ha_kotsadm_ns = KotsadmNamespace, ha_operator_images = images\<rparr>"

definition run_enable_ha :: "'v lib \<Rightarrow> reset_env \<Rightarrow> string list \<Rightarrow> runtime_config_spec \<Rightarrow> (cli_world, unit) call" where
  "run_enable_ha L R images rc = (let V = xe_env R in
     bind (wrap ''unable to get kube client'' kube_client) (\<lambda>_.
     bind (wrap ''unable to create metadata client'' kube_client) (\<lambda>_.
     bind (wrap ''unable to create kubernetes client'' kube_client) (\<lambda>_.
     bind (wrap ''unable to get latest installation'' (on_kube (get_latest_installation L))) (\<lambda>i.
     bind (wrap ''unable to create helm client'' (cli_api (ret ()))) (\<lambda>_.
     bind (wrap ''unable to check if HA can be enabled'' (on_kube (can_enable_ha L))) (\<lambda>(can, reason).
     if \<not> can then throw (ENothingElse (''high availability cannot be enabled: '' @ reason))
     else on_kube (enable_ha L (cli_addons V (release_domains V (spec_config (in_spec i))) True)
       (enable_ha_options_of R images rc (in_spec i))))))))))"

definition as_root :: "reset_env \<Rightarrow> string \<Rightarrow> (cli_world, 'a) call \<Rightarrow> (cli_world, 'a) call" where
  "as_root R name m = (if \<not> ie_is_root (xe_env R) then throw (EMsg (name @ '' command must be run as root'')) else m)"

definition enable_ha_cmd :: "'v lib \<Rightarrow> reset_env \<Rightarrow> string list \<Rightarrow> (cli_world, unit) call" where
  "enable_ha_cmd L R images = as_root R ''enable-ha'' (bind (init_best_runtime_config L R) (\<lambda>rc.
     bind (modify (\<lambda>w. w\<lparr>cw_rc := rc\<rparr>)) (\<lambda>_. run_enable_ha L R images rc)))"

section \<open>The certificate of the Admin Console\<close>

definition tls_secret :: nsname where "tls_secret = (KotsadmNamespace, ''kotsadm-tls'')"

definition read_and_validate_tls_files :: "install_env \<Rightarrow> string \<Rightarrow> string \<Rightarrow> (string \<times> string) outcome" where
  "read_and_validate_tls_files V cert_path key_path =
     bindO (wrapO ''failed to read TLS certificate file'' (ie_read_file V cert_path)) (\<lambda>cert.
     bindO (wrapO ''failed to read TLS key file'' (ie_read_file V key_path)) (\<lambda>key.
     bindO (wrapO ''invalid TLS certificate/key pair'' (ie_key_pair V cert key)) (\<lambda>_. Ok (cert, key))))"

text \<open>Creating the secret, or changing the entries given in it.\<close>

definition write_tls_secret :: "string \<Rightarrow> string \<Rightarrow> string \<Rightarrow> (kube, unit) call" where
  "write_tls_secret cert key hostname =
     bind (attempt (get_in secrets tls_secret)) (\<lambda>r. case r of
        Inl e \<Rightarrow> if is_not_found e
          then wrap ''creating kotsadm-tls secret'' (create_secret tls_secret (new_tls_secret cert key hostname))
          else throw (EWrap ''getting kotsadm-tls secret'' e)
      | Inr d \<Rightarrow>
          let d = AList.update ''tls.key'' key (AList.update ''tls.crt'' cert d);
              d = (if hostname \<noteq> [] then AList.update ''hostname'' hostname d else d)
          in wrap ''updating kotsadm-tls secret'' (write_in secrets secrets_update tls_secret d))"

definition update_tls_secret :: "string \<Rightarrow> string \<Rightarrow> string \<Rightarrow> (kube, unit) call" where
  "update_tls_secret cert key hostname = write_tls_secret cert key hostname"

definition reset_tls_secret :: "string \<Rightarrow> string \<Rightarrow> (kube, unit) call" where
  "reset_tls_secret cert key = write_tls_secret cert key []"

definition run_update_tls :: "install_env \<Rightarrow> string \<Rightarrow> string \<Rightarrow> string \<Rightarrow> (cli_world, unit) call" where
  "run_update_tls V cert_path key_path hostname =
     bind (lift (read_and_validate_tls_files V cert_path key_path)) (\<lambda>(cert, key).
     bind (wrap ''failed to create kubernetes client'' kube_client) (\<lambda>_.
     on_kube (update_tls_secret cert key hostname)))"

text \<open>The certificate is made for the addresses of the host, by a function that is not modelled.\<close>

definition run_reset_tls :: "install_env \<Rightarrow> (ip option list \<Rightarrow> (string \<times> string) outcome) \<Rightarrow> (cli_world, unit) call" where
  "run_reset_tls V generate =
     bind (wrap ''failed to create kubernetes client'' kube_client) (\<lambda>_.
     bind (wrap ''failed to list IP addresses''
       (lift (list_all_valid_ip_addresses (ie_netlib V) (ie_interfaces V) (ie_public_ip V)))) (\<lambda>ips.
     bind (wrap ''failed to generate self-signed certificate'' (lift (generate ips))) (\<lambda>(cert, key).
     on_kube (reset_tls_secret cert key))))"

section \<open>The program of the Admin Console\<close>

record kots_command =
  kt_env :: "(string \<times> string) list"
  kt_args :: "string list"
  kt_stdin :: string

definition kots_text :: "kots_command \<Rightarrow> string" where
  "kots_text c = join_str '' '' (map (\<lambda>(k, v). k @ ''='' @ v) (kt_env c) @ ''kubectl-kots'' # kt_args c) @
     (if kt_stdin c = [] then [] else '' <<< '' @ kt_stdin c)"

definition run_kots :: "(string \<Rightarrow> cli_world \<Rightarrow> cli_world) \<Rightarrow> string \<Rightarrow> string \<Rightarrow> kots_command outcome \<Rightarrow> (cli_world, unit) call" where
  "run_kots E materialize failed c =
     bind (wrap materialize (host_step E ''materialize kubectl-kots'')) (\<lambda>_.
     bind (lift c) (\<lambda>c. wrap failed (host_step E (kots_text c))))"

definition cluster_env :: "string \<Rightarrow> string \<Rightarrow> string \<Rightarrow> (string \<times> string) list" where
  "cluster_env cluster ns endpoint = [(''EMBEDDED_CLUSTER_ID'', cluster), (''POD_NAMESPACE'', ns)] @
     (if endpoint \<noteq> [] then [(''REPLICATED_APP_ENDPOINT'', endpoint)] else [])"

record kots_install_options =
  ki_app_slug :: string
  ki_license :: string
  ki_namespace :: string
  ki_cluster_id :: string
  ki_airgap_bundle :: string
  ki_config_values_file :: string
  ki_app_endpoint :: string
  ki_skip_preflights :: bool
  ki_disable_image_push :: bool

definition kots_install_command :: "binary_release option \<Rightarrow> string \<Rightarrow> string \<Rightarrow> kots_install_options \<Rightarrow> kots_command" where
  "kots_install_command release channel_slug license_file o1 =
     (let label = (case release of None \<Rightarrow> [] | Some r \<Rightarrow> br_version_label r);
          slug = (case release of None \<Rightarrow> [] | Some _ \<Rightarrow> channel_slug);
          uri = (if slug \<noteq> [] \<and> slug \<noteq> ''stable'' then ki_app_slug o1 @ ''/'' @ slug else ki_app_slug o1)
      in \<lparr>kt_env = cluster_env (ki_cluster_id o1) (ki_namespace o1) (ki_app_endpoint o1),
          kt_args = [''install'', uri, ''--license-file'', license_file, ''--namespace'', ki_namespace o1, ''--app-version-label'', label,
              ''--exclude-admin-console''] @
            (if ki_disable_image_push o1 then [''--disable-image-push''] else []) @
            (if ki_airgap_bundle o1 \<noteq> [] then [''--airgap-bundle'', ki_airgap_bundle o1] else []) @
            (if ki_config_values_file o1 \<noteq> [] then [''--config-values'', ki_config_values_file o1] else []) @
            (if ki_skip_preflights o1 then [''--skip-preflights''] else []),
          kt_stdin = []\<rparr>)"

definition kots_reset_password_command :: "runtime_config_spec \<Rightarrow> string \<Rightarrow> kots_command" where
  "kots_reset_password_command rc password = \<lparr>kt_env = [(''KUBECONFIG'', path_to_kube_config rc)],
     kt_args = [''reset-password'', ''kotsadm''], kt_stdin = password @ [CHR 0x0A]\<rparr>"

definition kots_airgap_update_command :: "string \<Rightarrow> string \<Rightarrow> string \<Rightarrow> string \<Rightarrow> kots_command" where
  "kots_airgap_update_command slug ns bundle cluster = \<lparr>kt_env = cluster_env cluster ns [],
     kt_args = [''airgap-update'', slug, ''--namespace'', ns, ''--airgap-bundle'', bundle], kt_stdin = []\<rparr>"

definition kots_velero_command :: "string \<Rightarrow> string \<Rightarrow> string \<Rightarrow> string \<Rightarrow> string \<Rightarrow> string \<Rightarrow> string \<Rightarrow> kots_command" where
  "kots_velero_command endpoint region bucket path access_key secret_key ns = \<lparr>kt_env = [],
     kt_args = [''velero'', ''configure-other-s3'', ''--endpoint'', endpoint, ''--region'', region, ''--bucket'', bucket,
         ''--access-key-id'', access_key, ''--secret-access-key'', secret_key, ''--namespace'', ns, ''--skip-validation''] @
       (if path \<noteq> [] then [''--path'', path] else []), kt_stdin = []\<rparr>"

definition kots_push_images_command :: "string \<Rightarrow> string \<Rightarrow> string \<Rightarrow> string \<Rightarrow> string \<Rightarrow> string \<Rightarrow> kots_command" where
  "kots_push_images_command bundle ns registry username password cluster = \<lparr>kt_env = cluster_env cluster ns [],
     kt_args = [''admin-console'', ''push-images'', bundle, registry, ''--registry-username'', username,
       ''--registry-password'', password], kt_stdin = []\<rparr>"

definition kots_get_config_command :: "string \<Rightarrow> string \<Rightarrow> string \<Rightarrow> string \<Rightarrow> kots_command" where
  "kots_get_config_command slug ns cluster endpoint = \<lparr>kt_env = cluster_env cluster ns endpoint,
     kt_args = [''get'', ''config'', ''--appslug'', slug, ''--namespace'', ns, ''--current'', ''--decrypt''], kt_stdin = []\<rparr>"

record deploy_options =
  dp_app_slug :: string
  dp_license :: string
  dp_namespace :: string
  dp_cluster_id :: string
  dp_airgap_bundle :: string
  dp_config_values_file :: string
  dp_channel_id :: string
  dp_channel_sequence :: int
  dp_app_endpoint :: string
  dp_skip_preflights :: bool

text \<open>The license is written to a file, whose name or error is a parameter, for air gap deployments only.\<close>

definition kots_deploy_command :: "string outcome \<Rightarrow> deploy_options \<Rightarrow> kots_command outcome" where
  "kots_deploy_command license_file d =
     bindO (if dp_airgap_bundle d \<noteq> []
       then (if dp_license d = [] then Err (EMsg ''license is required for airgap deployments'')
         else bindO (wrapO ''create temp license file'' license_file) (\<lambda>f.
           Ok [''--license'', f, ''--airgap-bundle'', dp_airgap_bundle d, ''--disable-image-push'']))
       else if dp_channel_id d = [] then Err (EMsg ''channel id is required for online deployments'')
       else if dp_channel_sequence d = 0 then Err (EMsg ''channel sequence is required for online deployments'')
       else Ok [''--channel-id'', dp_channel_id d, ''--channel-sequence'', show_int (dp_channel_sequence d)]) (\<lambda>source.
     Ok \<lparr>kt_env = cluster_env (dp_cluster_id d) (dp_namespace d) (dp_app_endpoint d),
         kt_args = [''deploy'', dp_app_slug d, ''--config-values'', dp_config_values_file d] @ source @
           (if dp_namespace d \<noteq> [] then [''--namespace'', dp_namespace d] else []) @
           (if dp_skip_preflights d then [''--skip-preflights''] else []),
         kt_stdin = []\<rparr>)"

record app_version_info =
  av_label :: string
  av_channel_sequence :: int
  av_sequence :: int
  av_status :: string

definition get_last_deployed_app_version :: "app_version_info list \<Rightarrow> app_version_info outcome" where
  "get_last_deployed_app_version vs =
     (case List.find (\<lambda>v. av_status v = ''deployed'' \<or> av_status v = ''failed'') vs of
        None \<Rightarrow> Err (EMsg ''no deployed version found'') | Some v \<Rightarrow> Ok v)"

definition get_current_app_version ::
    "(string \<Rightarrow> cli_world \<Rightarrow> cli_world) \<Rightarrow> app_version_info list outcome \<Rightarrow> string \<Rightarrow> string \<Rightarrow> (cli_world, app_version_info) call" where
  "get_current_app_version E printed slug ns =
     bind (run_kots E ''materialize kubectl-kots binary'' ''get versions from kots''
       (Ok \<lparr>kt_env = [], kt_args = [''get'', ''versions'', slug, ''-n'', ns, ''-o'', ''json''], kt_stdin = []\<rparr>)) (\<lambda>_.
     bind (wrap ''unmarshal versions output'' (lift printed)) (\<lambda>vs. case get_last_deployed_app_version vs of
        Ok v \<Rightarrow> ret v | _ \<Rightarrow> throw (EMsg (''no deployed version found for app '' @ slug))))"

text \<open>What the user sees of the program's messages.\<close>

definition mask_online :: "string \<Rightarrow> string" where
  "mask_online m = (if contains_str m ''Finished'' then m else ''Finalizing Admin Console'')"

definition mask_airgap_step :: "string \<Rightarrow> string \<Rightarrow> string" where
  "mask_airgap_step current m =
     (if contains_str m ''Pushing application images'' then m
      else if contains_str m ''Pushing embedded cluster artifacts'' then replace_all ''embedded cluster'' ''additional'' m
      else if contains_str m ''Waiting for the Admin Console'' then ''Finalizing Admin Console''
      else if contains_str m ''Update complete'' then m else current)"

fun mask_airgap :: "string \<Rightarrow> string list \<Rightarrow> string list" where
  "mask_airgap current [] = []"
| "mask_airgap current (m # ms) = mask_airgap_step current m # mask_airgap (mask_airgap_step current m) ms"

section \<open>Commands that call it\<close>

fun ask_new_password :: "nat \<Rightarrow> (cli_world, string) call" where
  "ask_new_password 0 = ret []"
| "ask_new_password (Suc n) =
     bind (wrap ''failed to get password'' input) (\<lambda>a.
     bind (wrap ''failed to get password confirmation'' input) (\<lambda>b.
     if validate_admin_console_password a b then ret a else ask_new_password n))"

definition reset_password_cmd :: "'v lib \<Rightarrow> (string \<Rightarrow> cli_world \<Rightarrow> cli_world) \<Rightarrow> reset_env \<Rightarrow> string option \<Rightarrow> (cli_world, unit) call" where
  "reset_password_cmd L E R given = as_root R ''reset-password''
     (bind (wrap ''failed to get runtime config from cluster'' (runtime_config_from_cluster L R)) (\<lambda>rc.
      bind (case given of
          Some p \<Rightarrow> ret p
        | None \<Rightarrow> bind (ask_new_password 3) (\<lambda>p. if p = [] then throw (ENothingElse ''password is not valid'') else ret p)) (\<lambda>p.
      run_kots E ''unable to materialize kubectl-kots binary'' ''unable to reset admin console password''
        (Ok (kots_reset_password_command rc p)))))"

definition update_cmd :: "'v lib \<Rightarrow> (string \<Rightarrow> cli_world \<Rightarrow> cli_world) \<Rightarrow> reset_env \<Rightarrow> string \<Rightarrow> (cli_world, unit) call" where
  "update_cmd L E R bundle = (let V = xe_env R in as_root R ''update''
     (bind (wrap ''failed to init runtime config from cluster'' (runtime_config_from_cluster L R)) (\<lambda>rc.
      bind (modify (\<lambda>w. w\<lparr>cw_rc := rc\<rparr>)) (\<lambda>_.
      bind (if bundle = [] then ret () else
        bind (wrap ''failed to get airgap metadata'' (lift (ie_airgap_metadata V bundle))) (\<lambda>m.
        lift (check_airgap_matches V (am_info m)))) (\<lambda>_.
      bind (wrap ''failed to create kubernetes client'' kube_client) (\<lambda>_.
      bind (wrap ''failed to get latest installation'' (on_kube (get_latest_installation L))) (\<lambda>i.
      run_kots E ''unable to materialize kubectl-kots binary'' ''unable to update the application''
        (Ok (kots_airgap_update_command (ie_app_slug V) KotsadmNamespace bundle (cluster_id (in_spec i)))))))))))"

definition join_print_command_cmd :: "'v lib \<Rightarrow> (string \<Rightarrow> cli_world \<Rightarrow> cli_world) \<Rightarrow> reset_env \<Rightarrow> string \<Rightarrow> (cli_world, string) call" where
  "join_print_command_cmd L E R printed = as_root R ''print-command''
     (bind (wrap ''failed to init runtime config from cluster'' (runtime_config_from_cluster L R)) (\<lambda>rc.
      bind (modify (\<lambda>w. w\<lparr>cw_rc := rc\<rparr>)) (\<lambda>_.
      bind (wrap ''unable to get join command'' (run_kots E ''unable to materialize kubectl-kots binary'' ''unable to get join command''
        (Ok \<lparr>kt_env = [(''KUBECONFIG'', path_to_kube_config rc)], kt_args = [''get'', ''join-command'', ''-n'', ''kotsadm''], kt_stdin = []\<rparr>))) (\<lambda>_.
      ret printed))))"

section \<open>A kURL cluster\<close>

definition get_install_directory :: "(kube, string) call" where
  "get_install_directory = bind (get_in config_maps (''kube-system'', ''kurl-config'')) (\<lambda>d.
     ret (case map_of (cm_data d) ''kurl_install_directory'' of None \<Rightarrow> ''/var/lib/kurl''
        | Some v \<Rightarrow> if v = [] then ''/var/lib/kurl'' else v))"

text \<open>Nothing is there for a host without kURL: no kubeconfig, or no config map.\<close>

definition get_kurl_config :: "unit outcome \<Rightarrow> unit outcome \<Rightarrow> (kube, string option) call" where
  "get_kurl_config stat client = (case stat of
      Panic p \<Rightarrow> lift (Panic p)
    | Err e \<Rightarrow> (case err_cause e of ENotExist _ \<Rightarrow> ret None
        | _ \<Rightarrow> throw (EWrap ''failed to check kurl kubeconfig at /etc/kubernetes/admin.conf'' e))
    | Ok _ \<Rightarrow> bind (wrap ''failed to create kurl client'' (lift client)) (\<lambda>_.
        bind (attempt get_install_directory) (\<lambda>r. case r of
          Inr d \<Rightarrow> ret (Some d)
        | Inl e \<Rightarrow> if is_not_found e then ret None else throw (EWrap ''failed to check for kurl configmap'' e))))"

definition discover_kotsadm_namespace :: "(nsname \<Rightarrow> bool) \<Rightarrow> (kube, string) call" where
  "discover_kotsadm_namespace is_kotsadm = bind (attempt (get_in services (''default'', ''kotsadm''))) (\<lambda>r. case r of
      Inr _ \<Rightarrow> ret ''default''
    | Inl _ \<Rightarrow> bind (wrap ''failed to list services'' (api (gets services))) (\<lambda>ss.
        case filter (\<lambda>s. is_kotsadm (fst s)) ss of
          [] \<Rightarrow> throw (EMsg ''kotsadm service not found in any namespace'') | s # _ \<Rightarrow> ret (fst (fst s))))"

definition get_password_hash :: "(nsname \<Rightarrow> bool) \<Rightarrow> string \<Rightarrow> (kube, string) call" where
  "get_password_hash is_kotsadm ns =
     bind (if ns = [] then wrap ''discover kotsadm namespace'' (discover_kotsadm_namespace is_kotsadm) else ret ns) (\<lambda>ns.
     bind (wrap (''read kotsadm-password secret from namespace '' @ ns) (get_in secrets (ns, ''kotsadm-password''))) (\<lambda>d.
     case map_of d ''passwordBcrypt'' of
       None \<Rightarrow> throw (EMsg ''kotsadm-password secret is missing required passwordBcrypt data'')
     | Some h \<Rightarrow> if h = [] then throw (EMsg ''kotsadm-password secret is missing required passwordBcrypt data'') else ret h))"

section \<open>What the commands leave behind\<close>

lemma faults_only_secrets: "faults_only w w' \<Longrightarrow> secrets w' = secrets w"
  by (auto simp: faults_only_def)

lemma get_in_secrets: "get_in secrets k w = (Err e, v) \<Longrightarrow> secrets v = secrets w"
  unfolding get_in_def by (drule api_Err) (auto split: option.splits)

definition entry_of :: "kube \<Rightarrow> nsname \<Rightarrow> string \<Rightarrow> string option" where
  "entry_of w s k = Option.bind (map_of (secrets w) s) (\<lambda>d. map_of d k)"

lemma create_secret_Ok:
  assumes "create_secret k d w = (Ok (), w')"
  shows "map_of (secrets w') = (map_of (secrets w))(k \<mapsto> d) \<and> map_of (secrets w) k = None"
  using assms unfolding create_secret_def create_in_def by (auto dest!: api_Ok split: option.splits)

lemma change_secret_Ok:
  assumes "write_in secrets secrets_update k d w = (Ok (), w')"
  shows "map_of (secrets w') = (map_of (secrets w))(k \<mapsto> d)"
  using assms unfolding write_in_def by (auto dest!: api_Ok simp: update_conv' split: option.splits)

lemma changed_hostname:
  "map_of (if h \<noteq> [] then AList.update ''hostname'' h (AList.update ''tls.key'' key (AList.update ''tls.crt'' cert d))
     else AList.update ''tls.key'' key (AList.update ''tls.crt'' cert d)) =
   (\<lambda>k. if k = ''tls.crt'' then Some cert else if k = ''tls.key'' then Some key
        else if k = ''hostname'' \<and> h \<noteq> [] then Some h else map_of d k)"
  by (rule ext) (simp add: update_conv')

lemma new_secret_entries:
  "map_of (new_tls_secret cert key h) =
   (\<lambda>k. if k = ''tls.crt'' then Some cert else if k = ''tls.key'' then Some key
        else if k = ''hostname'' \<and> h \<noteq> [] then Some h else None)"
  by (rule ext) (simp add: new_tls_secret_def)

lemma write_tls_secret_Ok:
  assumes "write_tls_secret cert key h w = (Ok (), w')"
  shows "\<exists>d. map_of (secrets w') = (map_of (secrets w))(tls_secret \<mapsto> d) \<and>
     map_of d = (\<lambda>k. if k = ''tls.crt'' then Some cert else if k = ''tls.key'' then Some key
        else if k = ''hostname'' \<and> h \<noteq> [] then Some h else entry_of w tls_secret k)"
proof -
  obtain r v where got: "attempt (get_in secrets tls_secret) w = (Ok r, v)"
    and go: "(case r of Inl e \<Rightarrow> if is_not_found e
          then wrap ''creating kotsadm-tls secret'' (create_secret tls_secret (new_tls_secret cert key h))
          else throw (EWrap ''getting kotsadm-tls secret'' e)
      | Inr d \<Rightarrow> wrap ''updating kotsadm-tls secret'' (write_in secrets secrets_update tls_secret
          (if h \<noteq> [] then AList.update ''hostname'' h (AList.update ''tls.key'' key (AList.update ''tls.crt'' cert d))
           else AList.update ''tls.key'' key (AList.update ''tls.crt'' cert d)))) v = (Ok (), w')"
    using assms unfolding write_tls_secret_def bind_Ok_iff Let_def by blast
  show ?thesis
  proof (cases r)
    case (Inl e)
    with go have nf: "is_not_found e" and c: "create_secret tls_secret (new_tls_secret cert key h) v = (Ok (), w')"
      by (auto simp: wrap_Ok_iff throw_def split: if_splits)
    from got Inl have e: "get_in secrets tls_secret w = (Err e, v)" by (simp add: attempt_Ok_iff)
    have "map_of (secrets w) tls_secret = None" using get_in_not_found [OF e nf] by simp
    moreover have "secrets v = secrets w" using e by (rule get_in_secrets)
    ultimately show ?thesis using create_secret_Ok [OF c]
      by (intro exI [of _ "new_tls_secret cert key h"] conjI) (simp_all add: new_secret_entries entry_of_def fun_eq_iff)
  next
    case (Inr d)
    with got have d: "get_in secrets tls_secret w = (Ok d, v)" by (simp add: attempt_Ok_iff)
    from go Inr have u: "write_in secrets secrets_update tls_secret (if h \<noteq> [] then AList.update ''hostname'' h (AList.update ''tls.key'' key (AList.update ''tls.crt'' cert d))
           else AList.update ''tls.key'' key (AList.update ''tls.crt'' cert d)) v = (Ok (), w')" by (simp add: wrap_Ok_iff)
    have old: "map_of (secrets w) tls_secret = Some d" and fo: "faults_only w v" using get_in_Ok [OF d] by simp_all
    have "map_of (secrets w') = (map_of (secrets w))(tls_secret \<mapsto> (if h \<noteq> [] then AList.update ''hostname'' h (AList.update ''tls.key'' key (AList.update ''tls.crt'' cert d))
           else AList.update ''tls.key'' key (AList.update ''tls.crt'' cert d)))"
      using change_secret_Ok [OF u] faults_only_secrets [OF fo] by simp
    moreover have "map_of d = entry_of w tls_secret" by (simp add: entry_of_def old fun_eq_iff)
    ultimately show ?thesis by - (intro exI conjI, assumption, simp only: changed_hostname)
  qed
qed

text \<open>C39: Changing the certificate of the Admin Console puts the given certificate and key into its secret, together; the
  name shown to users changes only when one is given, every other entry of the secret and every other secret stays. Going
  back to a certificate made for the host keeps the name.\<close>

theorem certificate_change_keeps_the_rest:
  assumes "update_tls_secret cert key hostname w = (Ok (), w') \<or>
    hostname = [] \<and> reset_tls_secret cert key w = (Ok (), w')"
  shows "entry_of w' s k =
    (if s \<noteq> tls_secret then entry_of w s k else if k = ''tls.crt'' then Some cert else if k = ''tls.key'' then Some key
     else if k = ''hostname'' \<and> hostname \<noteq> [] then Some hostname else entry_of w s k)"
proof -
  have "write_tls_secret cert key hostname w = (Ok (), w')"
    using assms by (auto simp: update_tls_secret_def reset_tls_secret_def)
  then obtain d where all: "map_of (secrets w') = (map_of (secrets w))(tls_secret \<mapsto> d)"
    and d: "map_of d = (\<lambda>k. if k = ''tls.crt'' then Some cert else if k = ''tls.key'' then Some key
        else if k = ''hostname'' \<and> hostname \<noteq> [] then Some hostname else entry_of w tls_secret k)"
    using write_tls_secret_Ok by blast
  have "entry_of w' s k = (if s = tls_secret then map_of d k else entry_of w s k)"
    by (simp only: entry_of_def all fun_upd_apply) simp
  then show ?thesis by (simp only: d) simp
qed

definition sample_secured :: kube where
  "sample_secured = (sample_kube [])\<lparr>secrets := [(tls_secret, [(''tls.crt'', ''c''), (''hostname'', ''host'')]),
     ((''kotsadm'', ''other''), [(''a'', ''b'')])], faults := []\<rparr>"

theorem certificate_change_keeps_the_rest_witness:
  "\<exists>w'. reset_tls_secret ''cert'' ''key'' sample_secured = (Ok (), w') \<and>
     entry_of w' tls_secret ''tls.key'' = Some ''key'' \<and> entry_of w' tls_secret ''hostname'' = Some ''host''"
proof -
  have "fst (reset_tls_secret ''cert'' ''key'' sample_secured) = Ok ()" by code_simp
  then obtain w' where run: "reset_tls_secret ''cert'' ''key'' sample_secured = (Ok (), w')"
    by (cases "reset_tls_secret ''cert'' ''key'' sample_secured") simp
  note kept = certificate_change_keeps_the_rest [OF disjI2, OF conjI, OF refl run]
  have "entry_of sample_secured tls_secret ''hostname'' = Some ''host''" by code_simp
  then show ?thesis using run kept [of tls_secret "''tls.key''"] kept [of tls_secret "''hostname''"] by (intro exI [of _ w'] conjI) simp_all
qed

text \<open>A deployment is started exactly when its source is given: the license for an air gap bundle, the channel and its
  sequence otherwise.\<close>

theorem deployment_names_its_source:
  "(\<exists>c. kots_deploy_command (Ok f) d = Ok c) \<longleftrightarrow>
   (if dp_airgap_bundle d \<noteq> [] then dp_license d \<noteq> [] else dp_channel_id d \<noteq> [] \<and> dp_channel_sequence d \<noteq> 0)"
  by (simp add: kots_deploy_command_def)

end
