(* ===== verification/License.thy ===== *)
theory License
  imports NetUtils
begin

text \<open>
  The signature of a license (\<^verbatim>\<open>pkg-new/license/signature.go\<close>). JSON, PEM, key parsing, MD5 and RSA-PSS are parameters; a
  key that parses to another kind than RSA is a failing type assertion. A map is the list of its entries in the order they are
  visited. Quoting adds the quotes only.
\<close>

section \<open>Data\<close>

record 'v entitlement =
  en_value :: 'v
  en_title :: string
  en_description :: string
  en_hidden :: bool
  en_value_type :: string

record 'v license_doc =
  ld_api_version :: string
  ld_kind :: string
  ld_name :: string
  ld_app_slug :: string
  ld_endpoint :: string
  ld_customer_name :: string
  ld_customer_email :: string
  ld_channel_id :: string
  ld_channel_name :: string
  ld_sequence :: int
  ld_license_id :: string
  ld_type :: string
  ld_airgap :: bool
  ld_gitops :: bool
  ld_identity :: bool
  ld_geoaxis :: bool
  ld_snapshot :: bool
  ld_dr :: bool
  ld_bundle_upload :: bool
  ld_semver :: bool
  ld_entitlements :: "(string \<times> 'v entitlement) list"
  ld_signature :: string

record inner_signature =
  isg_license_signature :: string
  isg_public_key :: string
  isg_key_signature :: string

record outer_signature =
  osg_license_data :: string
  osg_inner_signature :: string

record key_signature =
  ksg_signature :: string
  ksg_global_key_id :: string

datatype public_key = RSA string | OtherKey

record 'v license_lib =
  ll_outer :: "string \<Rightarrow> outer_signature outcome"
  ll_inner :: "string \<Rightarrow> inner_signature outcome"
  ll_key :: "string \<Rightarrow> key_signature outcome"
  ll_doc :: "string \<Rightarrow> 'v license_doc outcome"
  ll_pem :: "string \<Rightarrow> string option"
  ll_parse_key :: "string \<Rightarrow> public_key outcome"
  ll_md5 :: "string \<Rightarrow> string"
  ll_verify_pss :: "string \<Rightarrow> string \<Rightarrow> string \<Rightarrow> unit outcome"
  ll_value_text :: "'v \<Rightarrow> string"
  ll_json :: "(string \<times> string) list \<Rightarrow> string outcome"

definition public_keys :: "(string \<times> string) list" where
  "public_keys = [
   (''1d3f7f6b50714fe7b895554dd65773b0'', join_str [CHR 0x0A] [
     ''-----BEGIN PUBLIC KEY-----'',
     ''MIIBIjANBgkqhkiG9w0BAQEFAAOCAQ8AMIIBCgKCAQEAugyKfZV2gIDaY1Rzkjoo'',
     ''fbNywGa04sGQIAqYwifMay2e2xzqRwswTRHQnr9SIWypkN86Cfn6QzOB8kkjERC1'',
     ''DPNdsiKdjBFdcLaxxdyHgrXLgfdzhh6We+Lpq19JT5LCK3PXleZgt/a0aRBpIc1l'',
     ''xKs57d8MTWUTVh3W3WYi6LbqAPScdmSiG7A145HhKXmmtZFEv4puE5dKmS5lkV2d'',
     ''VU789XWrNFk74FKKHVwYMdppqAabB6cRBmU8YFiVEULOn+d1FtKRbO/vv/fbA9nX'',
     ''PUG/1PgEQHogP+3cC4J7b7s9+kBmtHkpSq9x+OUu/5B+nT21dooS6adfQiI8iB/+'',
     ''NQIDAQAB'',
     ''-----END PUBLIC KEY-----'']),
   (''bdee56560cfb43c9b28bf98eacafa646'', join_str [CHR 0x0A] [
     ''-----BEGIN PUBLIC KEY-----'',
     ''MIIBIjANBgkqhkiG9w0BAQEFAAOCAQ8AMIIBCgKCAQEAwdSHE8v64QH/yELBoPBl'',
     ''GanhS3AD5vMAaqLLFnftwjmDKrxWwqNB9w1GVJWb5gVLvt/UlE/k+HVr5HFdomVI'',
     ''TMvnvxhD0UvNyGFuUbXBMvQPPW9joR48LcCBLZl+RZTqR5HRhsIbujiExRDnteaq'',
     ''mU1jG/oVlQkRoyOYrObTeoD0BdcZAr2PdGvgvJvpZduZtrKvjvsSJEBYExoPtko+'',
     ''8AqhMBAI+qX1/SMix21qpmYSYLNeqN2Pplna0p2MK8yyaHY8KSqTF90ZJF1+P0ZF'',
     ''MLt6S8/6PIX9WD+vFqmDpW1GCkB+p2OfxsYiAIX1ej98Ck3hoPQnOuiFIovV8aFQ'',
     ''bQIDAQAB'',
     ''-----END PUBLIC KEY-----'']),
   (''de2c275656d04b1bb0f15cf70f0ea2a2'', join_str [CHR 0x0A] [
     ''-----BEGIN PUBLIC KEY-----'',
     ''MIIBIjANBgkqhkiG9w0BAQEFAAOCAQ8AMIIBCgKCAQEA2hHg1HER6NYlsqBs+B+B'',
     ''txibtctT6YB5kxgE1sz7UmVnlcLs+Olc4OZJwD4vLsEU60SVW0HRoTfaGaradv0R'',
     ''GUIxlFRSOnzjZEMkm/YKL3sdPQigi2m9O0P5tC9LQvzk49dFg5HJxiLODCgWwJ9g'',
     ''q3pGs8OaAc0dop/tqUE7WqQfHLWJdTPP5pVDLDWybfAO4OmgVmx+oVXdCfMVlOzu'',
     ''num6SOF+eBuERXQGbEfnd6eSRVokWhfMCfXNPTYtq14DaK9tvX4uzHsub+Asn6UN'',
     ''OBIAESJntpZfdDDrNqbfOQYql2rqx1lJtU7lVFbTQTkKhj4teInEGO6FvLzy0UE9'',
     ''swIDAQAB'',
     ''-----END PUBLIC KEY-----'']),
   (''6f21b4d9865f45b8a15bd884fb4028d2'', join_str [CHR 0x0A] [
     ''-----BEGIN PUBLIC KEY-----'',
     ''MIIBIjANBgkqhkiG9w0BAQEFAAOCAQ8AMIIBCgKCAQEAwWEoVA/AQhzgG81k4V+C'',
     ''7c7xoNKSnP8XKSkuYiCbsYyicsWxMtwExkueVKXvEa/DQm7NCDBOdFQFhFQKzKvn'',
     ''Jh2rXnPZn3OyNQ9Ru+4XBi4kOa1V9g5VFSgwbBttuVtWtPZC2B4vdCVXyX4TzLYe'',
     ''c0rGbq+obBb4RNKBBGTdoWy+IHlObc5QOpEzubUmJ1VqmCTUyduKeOn24b+TvcmJ'',
     ''i5PY1r8iKGhJJOAPt4KjBlIj67uqcGq3N9RA8pHQjn0ZXsfiLOmCeR6kFHbnNr4n'',
     ''L7HvoEDR12K2Ci4+n7A/EAowHI/ZywcM7wADcWx4tOERPz0Pm2SUvVCjPVPc0xdN'',
     ''KwIDAQAB'',
     ''-----END PUBLIC KEY-----''])]"

section \<open>One signature\<close>

definition verify_rsa_pss :: "'v license_lib \<Rightarrow> string \<Rightarrow> string \<Rightarrow> string \<Rightarrow> unit outcome" where
  "verify_rsa_pss L message signature key = (case ll_pem L key of
      None \<Rightarrow> Err (EMsg ''failed to decode PEM block from public key'')
    | Some block \<Rightarrow> bindO (wrapO ''failed to load public key from PEM'' (ll_parse_key L block)) (\<lambda>k. case k of
          OtherKey \<Rightarrow> Panic ''interface conversion: public key''
        | RSA k \<Rightarrow> (case ll_verify_pss L k (ll_md5 L message) signature of
              Ok _ \<Rightarrow> Ok ()
            | Err e \<Rightarrow> Err (EMsg (''signature is invalid: '' @ err_text e))
            | Panic p \<Rightarrow> Panic p)))"

section \<open>The terms of two licenses\<close>

definition quoted :: "string \<Rightarrow> string" where
  "quoted s = [CHR 0x22] @ s @ [CHR 0x22]"

definition show_bool :: "bool \<Rightarrow> string" where
  "show_bool b = (if b then ''true'' else ''false'')"

definition same :: "string \<Rightarrow> ('b \<Rightarrow> string) \<Rightarrow> ('a \<Rightarrow> 'b) \<Rightarrow> 'a \<Rightarrow> 'a \<Rightarrow> unit outcome" where
  "same name text_of f x y = requireO (f x = f y) (EMsg (quoted name @ '' field has changed to '' @ text_of (f x) @
     '' (license) from '' @ text_of (f y) @ '' (within signature)''))"

definition same_entry :: "string \<Rightarrow> string \<Rightarrow> ('b \<Rightarrow> string) \<Rightarrow> ('a \<Rightarrow> 'b) \<Rightarrow> 'a \<Rightarrow> 'a \<Rightarrow> unit outcome" where
  "same_entry k name text_of f x y = requireO (f x = f y) (EMsg (''entitlement '' @ quoted k @ '' '' @ name @ '' has changed to '' @
     text_of (f x) @ '' (license) from '' @ text_of (f y) @ '' (within signature)''))"

fun first_failure :: "unit outcome list \<Rightarrow> unit outcome" where
  "first_failure [] = Ok ()"
| "first_failure (c # cs) = bindO c (\<lambda>_. first_failure cs)"

definition verify_entitlement :: "'v license_lib \<Rightarrow> (string \<times> 'v entitlement) list \<Rightarrow> string \<times> 'v entitlement \<Rightarrow> unit outcome" where
  "verify_entitlement L inner_entries = (\<lambda>(k, outer_entry). case map_of inner_entries k of
      None \<Rightarrow> Err (EMsg (''entitlement '' @ quoted k @ '' not found in the inner license''))
    | Some inner_entry \<Rightarrow> first_failure [
        same_entry k ''value'' (ll_value_text L) en_value outer_entry inner_entry,
        same_entry k ''title'' quoted en_title outer_entry inner_entry,
        same_entry k ''description'' quoted en_description outer_entry inner_entry,
        same_entry k ''hidden'' show_bool en_hidden outer_entry inner_entry,
        same_entry k ''value type'' quoted en_value_type outer_entry inner_entry])"

definition verify_license_data :: "'v license_lib \<Rightarrow> 'v license_doc \<Rightarrow> 'v license_doc \<Rightarrow> unit outcome" where
  "verify_license_data L outer_doc inner_doc = first_failure ([
       same ''appSlug'' quoted ld_app_slug outer_doc inner_doc,
       same ''endpoint'' quoted ld_endpoint outer_doc inner_doc,
       same ''CustomerName'' quoted ld_customer_name outer_doc inner_doc,
       same ''CustomerEmail'' quoted ld_customer_email outer_doc inner_doc,
       same ''channelID'' quoted ld_channel_id outer_doc inner_doc,
       same ''channelName'' quoted ld_channel_name outer_doc inner_doc,
       same ''licenseSequence'' show_int ld_sequence outer_doc inner_doc,
       same ''licenseID'' quoted ld_license_id outer_doc inner_doc,
       same ''LicenseType'' quoted ld_type outer_doc inner_doc,
       same ''IsAirgapSupported'' show_bool ld_airgap outer_doc inner_doc,
       same ''IsGitOpsSupported'' show_bool ld_gitops outer_doc inner_doc,
       same ''IsIdentityServiceSupported'' show_bool ld_identity outer_doc inner_doc,
       same ''IsGeoaxisSupported'' show_bool ld_geoaxis outer_doc inner_doc,
       same ''IsSnapshotSupported'' show_bool ld_snapshot outer_doc inner_doc,
       same ''IsDisasterRecoverySupported'' show_bool ld_dr outer_doc inner_doc,
       same ''IsSupportBundleUploadSupported'' show_bool ld_bundle_upload outer_doc inner_doc,
       same ''IsSemverRequired'' show_bool ld_semver outer_doc inner_doc,
       requireO (length (ld_entitlements outer_doc) = length (ld_entitlements inner_doc))
         (EMsg (quoted ''entitlements'' @ '' field length has changed to '' @ show_nat (length (ld_entitlements outer_doc)) @
            '' (license) from '' @ show_nat (length (ld_entitlements inner_doc)) @ '' (within signature)''))] @
     map (verify_entitlement L (ld_entitlements inner_doc)) (ld_entitlements outer_doc))"

section \<open>The two formats\<close>

definition verify_key_signature :: "'v license_lib \<Rightarrow> inner_signature \<Rightarrow> unit outcome" where
  "verify_key_signature L s =
     bindO (wrapO ''failed to unmarshal key signature'' (ll_key L (isg_key_signature s))) (\<lambda>k.
     case map_of public_keys (ksg_global_key_id k) of
       None \<Rightarrow> Err (EMsg ''unknown global key'')
     | Some pem \<Rightarrow> wrapO ''failed to verify key signature'' (verify_rsa_pss L (isg_public_key s) (ksg_signature k) pem))"

definition get_message_from_license :: "'v license_lib \<Rightarrow> 'v license_doc \<Rightarrow> string outcome" where
  "get_message_from_license L d =
     (let fields = [(''apiVersion'', ld_api_version d), (''kind'', ld_kind d), (''metadata.name'', ld_name d),
            (''spec.licenseID'', ld_license_id d), (''spec.appSlug'', ld_app_slug d), (''spec.channelName'', ld_channel_name d),
            (''spec.endpoint'', ld_endpoint d), (''spec.isAirgapSupported'', show_bool (ld_airgap d))] @
          (if ld_sequence d > 0 then [(''spec.licenseSequence'', show_int (ld_sequence d))] else [])
      in bindO (foldr (\<lambda>(k, e) rest. bindO (wrapO (''failed to marshal entitlement value: '' @ k)
             (ll_json L [(''title'', en_title e), (''description'', en_description e), (''value'', ll_value_text L (en_value e))])) (\<lambda>v.
           bindO rest (\<lambda>vs. Ok ((''spec.entitlements.'' @ k, v) # vs)))) (ld_entitlements d) (Ok [])) (\<lambda>es.
         wrapO ''failed to marshal message JSON'' (ll_json L (fields @ es))))"

definition verify_old_signature :: "'v license_lib \<Rightarrow> 'v license_doc \<Rightarrow> 'v license_doc outcome" where
  "verify_old_signature L d = (case ll_inner L (ld_signature d) of
      Panic p \<Rightarrow> Panic p
    | Err e \<Rightarrow> if length (ld_signature d) = 0 \<or> length (ld_signature d) = 1 then Err (EMsg ''signature is missing'')
        else Err (EWrap ''failed to unmarshal license signature'' e)
    | Ok s \<Rightarrow>
        bindO (verify_key_signature L s) (\<lambda>_.
        bindO (wrapO ''failed to convert license to message'' (get_message_from_license L d)) (\<lambda>message.
        bindO (wrapO ''failed to verify license signature''
          (verify_rsa_pss L message (isg_license_signature s) (isg_public_key s))) (\<lambda>_. Ok d))))"

definition verify_new_signature :: "'v license_lib \<Rightarrow> outer_signature \<Rightarrow> 'v license_doc \<Rightarrow> 'v license_doc outcome" where
  "verify_new_signature L outer_sig d =
     bindO (wrapO ''failed to unmarshal license inner signature'' (ll_inner L (osg_inner_signature outer_sig))) (\<lambda>s.
     bindO (verify_key_signature L s) (\<lambda>_.
     bindO (wrapO ''failed to verify license signature''
       (verify_rsa_pss L (osg_license_data outer_sig) (isg_license_signature s) (isg_public_key s))) (\<lambda>_.
     bindO (wrapO ''failed to unmarshal license data'' (ll_doc L (osg_license_data outer_sig))) (\<lambda>verified.
     case verify_license_data L d verified of
       Err e \<Rightarrow> Err (EMsg (err_text e))
     | Panic p \<Rightarrow> Panic p
     | Ok _ \<Rightarrow> Ok (verified\<lparr>ld_signature := ld_signature d\<rparr>)))))"

definition verify_signature :: "'v license_lib \<Rightarrow> 'v license_doc \<Rightarrow> 'v license_doc outcome" where
  "verify_signature L d =
     bindO (wrapO ''failed to unmarshal license outer signature'' (ll_outer L (ld_signature d))) (\<lambda>outer_sig.
     if osg_inner_signature outer_sig = [] then verify_old_signature L d else verify_new_signature L outer_sig d)"

section \<open>What a verified license says\<close>

definition agree :: "'v license_doc \<Rightarrow> 'v license_doc \<Rightarrow> bool" where
  "agree x y \<longleftrightarrow>
     ld_app_slug x = ld_app_slug y \<and> ld_endpoint x = ld_endpoint y \<and> ld_customer_name x = ld_customer_name y \<and>
     ld_customer_email x = ld_customer_email y \<and> ld_channel_id x = ld_channel_id y \<and> ld_channel_name x = ld_channel_name y \<and>
     ld_sequence x = ld_sequence y \<and> ld_license_id x = ld_license_id y \<and> ld_type x = ld_type y \<and>
     ld_airgap x = ld_airgap y \<and> ld_gitops x = ld_gitops y \<and> ld_identity x = ld_identity y \<and>
     ld_geoaxis x = ld_geoaxis y \<and> ld_snapshot x = ld_snapshot y \<and> ld_dr x = ld_dr y \<and>
     ld_bundle_upload x = ld_bundle_upload y \<and> ld_semver x = ld_semver y \<and>
     map_of (ld_entitlements x) = map_of (ld_entitlements y)"

lemma first_failure_Ok [simp]: "first_failure cs = Ok u \<longleftrightarrow> list_all (\<lambda>c. c = Ok ()) cs"
  by (induction cs) auto

lemma same_Ok [simp]: "same name t f x y = Ok u \<longleftrightarrow> f x = f y"
  by (simp add: same_def)

lemma same_entry_Ok [simp]: "same_entry k name t f x y = Ok u \<longleftrightarrow> f x = f y"
  by (simp add: same_entry_def)

lemma verify_entitlement_Ok: "verify_entitlement L es (k, e) = Ok u \<longleftrightarrow> map_of es k = Some e"
  by (auto simp: verify_entitlement_def split: option.splits)

lemma same_size_submap:
  assumes "length xs = length ys" "\<And>k e. (k, e) \<in> set xs \<Longrightarrow> map_of ys k = Some e"
    "distinct (map fst xs)" "distinct (map fst ys)"
  shows "map_of xs = map_of ys"
proof -
  have "set xs \<subseteq> set ys" using assms(2) by (auto dest!: map_of_SomeD)
  moreover have "card (set xs) = card (set ys)"
    using assms(1,3,4) by (simp add: distinct_card distinct_map)
  ultimately have "set xs = set ys" by (simp add: card_subset_eq)
  then show ?thesis using map_of_inject_set [OF assms(3,4)] by simp
qed

lemma verify_license_data_Ok:
  assumes "distinct (map fst (ld_entitlements x))" "distinct (map fst (ld_entitlements y))"
  shows "verify_license_data L x y = Ok u \<longleftrightarrow> agree x y"
proof -
  have "length (ld_entitlements x) = length (ld_entitlements y) \<and>
      (\<forall>ke \<in> set (ld_entitlements x). verify_entitlement L (ld_entitlements y) ke = Ok ()) \<longleftrightarrow>
      map_of (ld_entitlements x) = map_of (ld_entitlements y)" (is "?l \<longleftrightarrow> ?r")
  proof
    assume ?l
    then show ?r using assms by (intro same_size_submap) (auto simp: verify_entitlement_Ok)
  next
    assume r: ?r
    then have "set (ld_entitlements x) = set (ld_entitlements y)" using map_of_inject_set assms by metis
    then have "length (ld_entitlements x) = length (ld_entitlements y)"
      using assms by (metis distinct_card distinct_map)
    moreover have "map_of (ld_entitlements y) k = Some e" if "(k, e) \<in> set (ld_entitlements x)" for k e
      using that r assms(1) by (metis map_of_is_SomeI)
    ultimately show ?l by (auto simp: verify_entitlement_Ok)
  qed
  then show ?thesis by (simp add: verify_license_data_def agree_def list_all_iff)
qed

section \<open>The chain of signatures\<close>

definition decodes_maps :: "'v license_lib \<Rightarrow> bool" where
  "decodes_maps L \<longleftrightarrow> (\<forall>s d. ll_doc L s = Ok d \<longrightarrow> distinct (map fst (ld_entitlements d)))"

definition signed_by_known_key :: "'v license_lib \<Rightarrow> string \<Rightarrow> bool" where
  "signed_by_known_key L message \<longleftrightarrow> (\<exists>(s :: inner_signature) (k :: key_signature) pem. map_of public_keys (ksg_global_key_id k) = Some pem \<and>
     verify_rsa_pss L (isg_public_key s) (ksg_signature k) pem = Ok () \<and>
     verify_rsa_pss L message (isg_license_signature s) (isg_public_key s) = Ok ())"

lemma bindO_assoc: "bindO (bindO m f) g = bindO m (\<lambda>x. bindO (f x) g)"
  by (cases m) simp_all

lemma verify_key_signature_Ok: "verify_key_signature L s = Ok u \<longleftrightarrow>
    (\<exists>k pem. ll_key L (isg_key_signature s) = Ok k \<and> map_of public_keys (ksg_global_key_id k) = Some pem \<and>
       verify_rsa_pss L (isg_public_key s) (ksg_signature k) pem = Ok ())"
  by (auto simp: verify_key_signature_def split: option.splits)

lemma verify_old_signature_Ok:
  assumes "verify_old_signature L d = Ok v"
  shows "v = d \<and> (\<exists>m. get_message_from_license L d = Ok m \<and> signed_by_known_key L m)"
  using assms unfolding verify_old_signature_def signed_by_known_key_def
  by (auto simp: verify_key_signature_Ok split: outcome.splits if_splits)

lemma verify_new_signature_Ok:
  assumes "verify_new_signature L w d = Ok v"
  shows "\<exists>y. ll_doc L (osg_license_data w) = Ok y \<and> v = y\<lparr>ld_signature := ld_signature d\<rparr> \<and>
     verify_license_data L d y = Ok () \<and> signed_by_known_key L (osg_license_data w)"
proof -
  from assms obtain s y a b where s: "verify_key_signature L s = Ok a"
      "verify_rsa_pss L (osg_license_data w) (isg_license_signature s) (isg_public_key s) = Ok b"
    and y: "ll_doc L (osg_license_data w) = Ok y"
    and v: "(case verify_license_data L d y of Err e \<Rightarrow> Err (EMsg (err_text e)) | Panic p \<Rightarrow> Panic p
       | Ok _ \<Rightarrow> Ok (y\<lparr>ld_signature := ld_signature d\<rparr>)) = Ok v"
    unfolding verify_new_signature_def bindO_Ok_iff wrapO_Ok_iff by (elim exE conjE) (rule that)
  have "signed_by_known_key L (osg_license_data w)"
    using s unfolding signed_by_known_key_def verify_key_signature_Ok by (auto simp del: split_paired_Ex)
  with y v show ?thesis by (cases "verify_license_data L d y") auto
qed

lemma agree_signature [simp]: "agree x (y\<lparr>ld_signature := s\<rparr>) = agree x y"
  by (simp add: agree_def)

text \<open>A license verifies only along a chain of signatures from one of the four known keys: the key signs the key of the
  vendor, which signs the text of the license. In the newer format the result is what was signed, and the license that was given
  agrees with it in every compared field and in all its entitlements, none missing and none added; in the older format
  the result is the license itself, and its message was signed.\<close>

theorem verified_license_was_signed:
  assumes "verify_signature L d = Ok v" "decodes_maps L" "distinct (map fst (ld_entitlements d))"
  shows "\<exists>m. signed_by_known_key L m \<and>
     (v = d \<and> get_message_from_license L d = Ok m \<or>
      (\<exists>y. ll_doc L m = Ok y \<and> v = y\<lparr>ld_signature := ld_signature d\<rparr>) \<and> agree d v)"
proof -
  obtain w where w: "(if osg_inner_signature w = [] then verify_old_signature L d else verify_new_signature L w d) = Ok v"
    using assms(1) unfolding verify_signature_def by auto
  show ?thesis
  proof (cases "osg_inner_signature w = []")
    case True
    with w verify_old_signature_Ok [of L d v] show ?thesis by auto
  next
    case False
    with w have "verify_new_signature L w d = Ok v" by simp
    from verify_new_signature_Ok [OF this] obtain y where y: "ll_doc L (osg_license_data w) = Ok y"
      "v = y\<lparr>ld_signature := ld_signature d\<rparr>" "verify_license_data L d y = Ok ()" "signed_by_known_key L (osg_license_data w)"
      by blast
    have "agree d v" using y verify_license_data_Ok [of d y L] assms(2,3) by (auto simp: decodes_maps_def)
    then show ?thesis using y by blast
  qed
qed

definition sample_license_doc :: "string \<Rightarrow> nat license_doc" where
  "sample_license_doc signature = \<lparr>ld_api_version = ''v1'', ld_kind = ''License'', ld_name = ''a'', ld_app_slug = ''app'', ld_endpoint = [],
     ld_customer_name = ''c'', ld_customer_email = [], ld_channel_id = ''1'', ld_channel_name = ''Stable'', ld_sequence = 3,
     ld_license_id = ''id'', ld_type = ''prod'', ld_airgap = True, ld_gitops = False, ld_identity = False, ld_geoaxis = False,
     ld_snapshot = True, ld_dr = True, ld_bundle_upload = False, ld_semver = False,
     ld_entitlements = [(''seats'', \<lparr>en_value = 5, en_title = ''Seats'', en_description = [], en_hidden = False, en_value_type = ''Integer''\<rparr>)],
     ld_signature = signature\<rparr>"

definition sample_license_lib :: "string \<Rightarrow> nat license_lib" where
  "sample_license_lib inner_sig = \<lparr>
     ll_outer = (\<lambda>_. Ok \<lparr>osg_license_data = ''data'', osg_inner_signature = inner_sig\<rparr>),
     ll_inner = (\<lambda>_. Ok \<lparr>isg_license_signature = ''v(data)'', isg_public_key = ''v'', isg_key_signature = ''k''\<rparr>),
     ll_key = (\<lambda>_. Ok \<lparr>ksg_signature = ''k(v)'', ksg_global_key_id = ''bdee56560cfb43c9b28bf98eacafa646''\<rparr>),
     ll_doc = (\<lambda>_. Ok (sample_license_doc [])),
     ll_pem = (\<lambda>p. if p = ''v'' then Some ''v'' else Some ''k''), ll_parse_key = (\<lambda>b. Ok (RSA b)), ll_md5 = (\<lambda>m. m),
     ll_verify_pss = (\<lambda>k m s. if s = k @ ''('' @ m @ '')'' then Ok () else Err (EMsg ''verification error'')),
     ll_value_text = show_nat, ll_json = (\<lambda>_. Ok ''data'')\<rparr>"

theorem verified_license_was_signed_witness:
  "\<exists>v m. verify_signature (sample_license_lib ''inner'') (sample_license_doc ''sig'') = Ok v \<and>
     signed_by_known_key (sample_license_lib ''inner'') m"
proof -
  have ok: "verify_signature (sample_license_lib ''inner'') (sample_license_doc ''sig'') = Ok (sample_license_doc ''sig'')"
    by code_simp
  have "decodes_maps (sample_license_lib ''inner'')" by (simp add: decodes_maps_def sample_license_lib_def sample_license_doc_def)
  moreover have "distinct (map fst (ld_entitlements (sample_license_doc ''sig'')))" by (simp add: sample_license_doc_def)
  ultimately show ?thesis using verified_license_was_signed [OF ok] ok by blast
qed

text \<open>In the older format the flags of a license, its channel and its customer are not part of the message that was signed:
  changing them does not change the verdict, and the changed license is the result.\<close>

theorem old_format_leaves_terms_unsigned:
  assumes "\<exists>w. ll_outer L (ld_signature d) = Ok w \<and> osg_inner_signature w = []"
    and "d' = d\<lparr>ld_channel_id := c, ld_customer_name := n, ld_type := t, ld_snapshot := b1, ld_dr := b2, ld_semver := b3\<rparr>"
  shows "verify_signature L d' = bindO (verify_signature L d) (\<lambda>_. Ok d')"
proof -
  have "get_message_from_license L d' = get_message_from_license L d"
    by (simp add: assms(2) get_message_from_license_def Let_def)
  moreover have "ld_signature d' = ld_signature d" by (simp add: assms(2))
  ultimately have "verify_old_signature L d' = bindO (verify_old_signature L d) (\<lambda>_. Ok d')"
    by (auto simp: verify_old_signature_def bindO_assoc split: outcome.splits)
  then show ?thesis using assms(1) \<open>ld_signature d' = ld_signature d\<close> by (auto simp: verify_signature_def)
qed

theorem old_format_leaves_terms_unsigned_witness:
  "\<exists>v. verify_signature (sample_license_lib []) (sample_license_doc ''sig'') = Ok v \<and> ld_dr v \<and>
     verify_signature (sample_license_lib []) ((sample_license_doc ''sig'')\<lparr>ld_channel_id := ''2'', ld_customer_name := ''x'',
       ld_type := ''dev'', ld_snapshot := False, ld_dr := False, ld_semver := True\<rparr>) \<noteq> Ok v"
proof -
  have ok: "verify_signature (sample_license_lib []) (sample_license_doc ''sig'') = Ok (sample_license_doc ''sig'')"
    by code_simp
  have "\<exists>w. ll_outer (sample_license_lib []) (ld_signature (sample_license_doc ''sig'')) = Ok w \<and> osg_inner_signature w = []"
    by (simp add: sample_license_lib_def)
  from old_format_leaves_terms_unsigned [OF this refl, where c = "''2''" and n = "''x''" and t = "''dev''" and ?b1.0 = False and ?b2.0 = False and ?b3.0 = True]
  show ?thesis using ok by (simp add: sample_license_doc_def)
qed

end
