(* ===== verification/HostSystem.thy ===== *)
theory HostSystem
  imports NetUtils "HOL-Library.AList"
begin

text \<open>
  The host below the commands: running programs (\<^verbatim>\<open>pkg/helpers/command.go\<close>), files (\<^verbatim>\<open>pkg/helpers/fs.go\<close>), systemd over
  D-Bus (\<^verbatim>\<open>pkg/helpers/systemd\<close>), firewalld (\<^verbatim>\<open>pkg/helpers/firewalld\<close>, \<^verbatim>\<open>pkg-new/hostutils/network.go\<close>) and the
  kernel (\<^verbatim>\<open>pkg/helpers/kernel\<close>).

  The files the program works with are a list; which of them may be written is a parameter. What other programs do, and what
  systemd answers, is a parameter that works on the rest of the host. A write happens as a whole or not at all. Contexts are
  not cancelled, file modes are left out.
\<close>

section \<open>The state and its parameters\<close>

datatype exec_result = Finished string | Exited int string | NotStarted string

record 's host =
  h_files :: "(string \<times> string) list"
  h_system :: 's
  h_ran :: "string list list"

record 's host_lib =
  hl_exec :: "string list \<Rightarrow> 's \<Rightarrow> exec_result \<times> 's"
  hl_found :: "string \<Rightarrow> 's \<Rightarrow> bool outcome"
  hl_tick :: "'s \<Rightarrow> 's"
  hl_may_write :: "string \<Rightarrow> 's \<Rightarrow> unit outcome"
  hl_may_read :: "string \<Rightarrow> 's \<Rightarrow> unit outcome"
  hl_mkdir :: "string \<Rightarrow> 's \<Rightarrow> unit outcome"
  hl_dbus :: "'s \<Rightarrow> unit outcome"
  hl_units :: "'s \<Rightarrow> string list outcome"
  hl_property :: "string \<Rightarrow> string \<Rightarrow> 's \<Rightarrow> string outcome"
  hl_unit_change :: "string \<Rightarrow> string \<Rightarrow> 's \<Rightarrow> string outcome \<times> 's"

section \<open>Programs\<close>

definition exec :: "'s host_lib \<Rightarrow> string list \<Rightarrow> ('s host, exec_result) call" where
  "exec L args h = (case hl_exec L args (h_system h) of
     (r, s) \<Rightarrow> (Ok r, h\<lparr>h_system := s, h_ran := h_ran h @ [args]\<rparr>))"

definition exec_error :: "exec_result \<Rightarrow> err" where
  "exec_error r = (case r of
      Exited n stderr \<Rightarrow> EMsg (''exit status '' @ show_int n @ (if stderr = [] then [] else '': '' @ stderr))
    | NotStarted m \<Rightarrow> EMsg m
    | Finished _ \<Rightarrow> EMsg [])"

definition run_command :: "'s host_lib \<Rightarrow> string list \<Rightarrow> ('s host, string) call" where
  "run_command L args = bind (exec L args) (\<lambda>r. case r of Finished stdout \<Rightarrow> ret stdout | _ \<Rightarrow> throw (exec_error r))"

definition run_quietly :: "'s host_lib \<Rightarrow> string list \<Rightarrow> ('s host, unit) call" where
  "run_quietly L args = bind (run_command L args) (\<lambda>_. ret ())"

definition found :: "'s host_lib \<Rightarrow> string \<Rightarrow> ('s host, bool) call" where
  "found L program = bind (gets h_system) (\<lambda>s. lift (hl_found L program s))"

section \<open>Files\<close>

definition mkdir_all :: "'s host_lib \<Rightarrow> string \<Rightarrow> ('s host, unit) call" where
  "mkdir_all L dir = bind (gets h_system) (\<lambda>s. lift (hl_mkdir L dir s))"

definition host_write :: "'s host_lib \<Rightarrow> string \<Rightarrow> string \<Rightarrow> ('s host, unit) call" where
  "host_write L path contents = bind (gets h_system) (\<lambda>s. bind (lift (hl_may_write L path s)) (\<lambda>_.
     modify (\<lambda>h. h\<lparr>h_files := AList.update path contents (h_files h)\<rparr>)))"

definition host_exists :: "string \<Rightarrow> ('s host, bool) call" where
  "host_exists path = gets (\<lambda>h. map_of (h_files h) path \<noteq> None)"

definition host_read :: "'s host_lib \<Rightarrow> string \<Rightarrow> ('s host, string) call" where
  "host_read L path = bind (gets (\<lambda>h. map_of (h_files h) path)) (\<lambda>f. case f of
      None \<Rightarrow> throw (ENotExist path)
    | Some contents \<Rightarrow> bind (gets h_system) (\<lambda>s. bind (lift (hl_may_read L path s)) (\<lambda>_. ret contents)))"

definition host_remove :: "'s host_lib \<Rightarrow> string \<Rightarrow> ('s host, unit) call" where
  "host_remove L path = bind (host_exists path) (\<lambda>there.
     if \<not> there then throw (ENotExist path)
     else bind (gets h_system) (\<lambda>s. bind (lift (hl_may_write L path s)) (\<lambda>_.
       modify (\<lambda>h. h\<lparr>h_files := AList.delete path (h_files h)\<rparr>))))"

definition host_rename :: "'s host_lib \<Rightarrow> string \<Rightarrow> string \<Rightarrow> ('s host, unit) call" where
  "host_rename L from_path to_path = bind (gets (\<lambda>h. map_of (h_files h) from_path)) (\<lambda>f. case f of
      None \<Rightarrow> throw (ENotExist from_path)
    | Some contents \<Rightarrow> bind (gets h_system) (\<lambda>s. bind (lift (hl_may_write L to_path s)) (\<lambda>_.
        modify (\<lambda>h. h\<lparr>h_files := AList.update to_path contents (AList.delete from_path (h_files h))\<rparr>))))"

text \<open>Moving over file systems: the copy is written before the original is removed. These errors lose their class.\<close>

definition restate :: "string \<Rightarrow> ('w, 'a) call \<Rightarrow> ('w, 'a) call" where
  "restate c m w = (case m w of (Err e, w') \<Rightarrow> (Err (EMsg (c @ '': '' @ err_text e)), w') | r \<Rightarrow> r)"

definition move_file :: "'s host_lib \<Rightarrow> string \<Rightarrow> string \<Rightarrow> ('s host, unit) call" where
  "move_file L src dst = bind (host_exists src) (\<lambda>there.
     if \<not> there then throw (ENotExist src)
     else bind (restate ''open source file'' (host_read L src)) (\<lambda>contents.
       bind (restate ''open destination file'' (host_write L dst contents)) (\<lambda>_.
       restate ''remove source file'' (host_remove L src))))"

definition dir_of :: "string \<Rightarrow> string" where
  "dir_of path = path_clean (rev (dropWhile (\<lambda>c. c \<noteq> CHR ''/'') (rev path)))"

definition copy_file :: "'s host_lib \<Rightarrow> string \<Rightarrow> string \<Rightarrow> ('s host, unit) call" where
  "copy_file L src dst =
     (if src = [] then throw (EMsg ''source path cannot be empty'')
      else bind (host_exists src) (\<lambda>there.
        if \<not> there then throw (EWrap ''stat source file'' (ENotExist src))
        else bind (wrap ''create parent directories'' (mkdir_all L (dir_of dst))) (\<lambda>_.
          bind (wrap ''read source file'' (host_read L src)) (\<lambda>contents.
          wrap ''write destination file'' (host_write L dst contents)))))"

section \<open>systemd\<close>

definition normalize_unit_name :: "string \<Rightarrow> string" where
  "normalize_unit_name u = (if suffix ''.service'' u then u else u @ ''.service'')"

definition normalize_drop_in_file_name :: "string \<Rightarrow> string" where
  "normalize_drop_in_file_name n = (if suffix ''.conf'' n then n else n @ ''.conf'')"

definition drop_in_dir_path :: "string \<Rightarrow> string" where
  "drop_in_dir_path u = path_join ''/etc/systemd/system'' (normalize_unit_name u @ ''.d'')"

definition drop_in_file_path :: "string \<Rightarrow> string \<Rightarrow> string" where
  "drop_in_file_path u n = path_join (drop_in_dir_path u) (normalize_drop_in_file_name n)"

definition write_drop_in_file :: "'s host_lib \<Rightarrow> string \<Rightarrow> string \<Rightarrow> string \<Rightarrow> ('s host, unit) call" where
  "write_drop_in_file L u n contents = bind (wrap ''create directory'' (mkdir_all L (drop_in_dir_path u))) (\<lambda>_.
     wrap ''write file'' (host_write L (drop_in_file_path u n) contents))"

definition dbus :: "'s host_lib \<Rightarrow> ('s host, unit) call" where
  "dbus L = wrap ''new dbus connection'' (bind (gets h_system) (\<lambda>s. lift (hl_dbus L s)))"

definition unit_property :: "'s host_lib \<Rightarrow> string \<Rightarrow> string \<Rightarrow> ('s host, string) call" where
  "unit_property L u p = bind (dbus L) (\<lambda>_. wrap ''get unit property''
     (bind (gets h_system) (\<lambda>s. lift (hl_property L p (normalize_unit_name u) s))))"

definition service_is_active :: "'s host_lib \<Rightarrow> string \<Rightarrow> ('s host, bool) call" where
  "service_is_active L u = bind (unit_property L u ''ActiveState'') (\<lambda>v. ret (v = ''active''))"

definition service_is_enabled :: "'s host_lib \<Rightarrow> string \<Rightarrow> ('s host, bool) call" where
  "service_is_enabled L u = bind (unit_property L u ''LoadState'') (\<lambda>v. ret (v = ''loaded''))"

definition unit_exists :: "'s host_lib \<Rightarrow> string \<Rightarrow> ('s host, bool) call" where
  "unit_exists L u = bind (dbus L) (\<lambda>_. bind (wrap ''list units'' (bind (gets h_system) (\<lambda>s. lift (hl_units L s)))) (\<lambda>us.
     ret (normalize_unit_name u \<in> set us)))"

definition change_unit :: "'s host_lib \<Rightarrow> string \<Rightarrow> string \<Rightarrow> ('s host, string) call" where
  "change_unit L what u h = (case hl_unit_change L what u (h_system h) of (r, s) \<Rightarrow> (r, h\<lparr>h_system := s\<rparr>))"

definition unit_job :: "'s host_lib \<Rightarrow> string \<Rightarrow> string \<Rightarrow> ('s host, unit) call" where
  "unit_job L what u = bind (wrap (what @ '' unit'') (change_unit L what u)) (\<lambda>result.
     if result = ''done'' then ret ()
     else throw (EMsg (''failed to '' @ what @ '' systemd unit, '' @ u @ '' expected done but received '' @ result)))"

definition service_enable_and_start :: "'s host_lib \<Rightarrow> string \<Rightarrow> ('s host, unit) call" where
  "service_enable_and_start L u = bind (dbus L) (\<lambda>_.
     bind (wrap ''enable unit'' (change_unit L ''enable'' (normalize_unit_name u))) (\<lambda>_.
     unit_job L ''start'' (normalize_unit_name u)))"

definition service_restart :: "'s host_lib \<Rightarrow> string \<Rightarrow> ('s host, unit) call" where
  "service_restart L u = bind (dbus L) (\<lambda>_. unit_job L ''restart'' (normalize_unit_name u))"

definition service_stop :: "'s host_lib \<Rightarrow> string \<Rightarrow> ('s host, unit) call" where
  "service_stop L u = bind (dbus L) (\<lambda>_. bind (wrap ''check if active'' (service_is_active L u)) (\<lambda>active.
     if \<not> active then ret () else unit_job L ''stop'' (normalize_unit_name u)))"

definition service_disable :: "'s host_lib \<Rightarrow> string \<Rightarrow> ('s host, unit) call" where
  "service_disable L u = bind (dbus L) (\<lambda>_. bind (wrap ''check if enabled'' (service_is_enabled L u)) (\<lambda>enabled.
     if \<not> enabled then ret ()
     else bind (wrap ''disable unit'' (change_unit L ''disable'' (normalize_unit_name u))) (\<lambda>_. ret ())))"

section \<open>The kernel\<close>

definition module_exists :: "'s host_lib \<Rightarrow> string \<Rightarrow> ('s host, bool) call" where
  "module_exists L m = bind (exec L [''modprobe'', ''-n'', m]) (\<lambda>r. ret (case r of Finished _ \<Rightarrow> True | _ \<Rightarrow> False))"

definition module_loaded :: "'s host_lib \<Rightarrow> string \<Rightarrow> ('s host, bool) call" where
  "module_loaded L m = bind (attempt (host_read L ''/proc/modules'')) (\<lambda>r. ret (case r of
      Inl _ \<Rightarrow> False
    | Inr text \<Rightarrow> list_ex (\<lambda>l. prefix (m @ '' '') l) (split_on (CHR 0x0A) text)))"

definition module_available :: "'s host_lib \<Rightarrow> string \<Rightarrow> ('s host, bool) call" where
  "module_available L m = bind (module_exists L m) (\<lambda>there. if there then ret True else module_loaded L m)"

datatype iptables_backend = BackendLegacy | BackendNFT

definition detect_iptables_backend :: "'s host_lib \<Rightarrow> ('s host, iptables_backend) call" where
  "detect_iptables_backend L = bind (host_exists ''/proc/net/ip_tables_names'') (\<lambda>builtin.
     if builtin then ret BackendLegacy
     else bind (module_available L ''ip_tables'') (\<lambda>legacy.
       if legacy then ret BackendLegacy
       else bind (module_available L ''nf_tables'') (\<lambda>nft.
         bind (if nft then module_available L ''nft_compat'' else ret False) (\<lambda>both.
         if both then ret BackendNFT
         else throw (EMsg ''neither ip_tables (legacy iptables) nor nf_tables+nft_compat (nftables) is available'')))))"

end
