(* ===== verification/Firewalld.thy ===== *)
theory Firewalld
  imports HostSystem
begin

text \<open>
  The firewall of a host (\<^verbatim>\<open>pkg/helpers/firewalld\<close>, \<^verbatim>\<open>pkg-new/hostutils/network.go\<close>): the commands that are run, and
  what configuring and resetting leave behind.

  What \<open>firewall-cmd\<close> does is a parameter. \<open>documented\<close> states what its manual says of the calls made here: it has permanent
  zones and zones that are live, a permanent change is live after a reload, a zone is asked for among the live ones, and
  the default zone takes the ports.
\<close>

section \<open>The commands\<close>

record fw_context =
  fwc_permanent :: bool
  fwc_zone :: string

definition fw_args :: "fw_context \<Rightarrow> string list" where
  "fw_args c = (if fwc_permanent c then [''--permanent''] else []) @ (if fwc_zone c \<noteq> [] then [''--zone'', fwc_zone c] else [])"

definition fw_zone_exists :: "'s host_lib \<Rightarrow> string \<Rightarrow> ('s host, bool) call" where
  "fw_zone_exists L zone = bind (exec L [''firewall-cmd'', ''--info-zone'', zone]) (\<lambda>r. case r of
      Finished _ \<Rightarrow> ret True
    | Exited n stderr \<Rightarrow> if n = 112 then ret False else throw (exec_error r)
    | NotStarted _ \<Rightarrow> throw (exec_error r))"

definition fw_run :: "'s host_lib \<Rightarrow> string \<Rightarrow> string \<Rightarrow> fw_context \<Rightarrow> ('s host, unit) call" where
  "fw_run L flag argument c = run_quietly L ([''firewall-cmd'', flag, argument] @ fw_args c)"

definition fw_new_zone :: "'s host_lib \<Rightarrow> string \<Rightarrow> fw_context \<Rightarrow> ('s host, unit) call" where
  "fw_new_zone L = fw_run L ''--new-zone''"

definition fw_delete_zone :: "'s host_lib \<Rightarrow> string \<Rightarrow> fw_context \<Rightarrow> ('s host, unit) call" where
  "fw_delete_zone L = fw_run L ''--delete-zone''"

definition fw_set_zone_target :: "'s host_lib \<Rightarrow> string \<Rightarrow> fw_context \<Rightarrow> ('s host, unit) call" where
  "fw_set_zone_target L = fw_run L ''--set-target''"

definition fw_add_source :: "'s host_lib \<Rightarrow> string \<Rightarrow> fw_context \<Rightarrow> ('s host, unit) call" where
  "fw_add_source L = fw_run L ''--add-source''"

definition fw_add_interface :: "'s host_lib \<Rightarrow> string \<Rightarrow> fw_context \<Rightarrow> ('s host, unit) call" where
  "fw_add_interface L = fw_run L ''--add-interface''"

definition fw_add_port :: "'s host_lib \<Rightarrow> string \<Rightarrow> fw_context \<Rightarrow> ('s host, unit) call" where
  "fw_add_port L = fw_run L ''--add-port''"

definition fw_remove_port :: "'s host_lib \<Rightarrow> string \<Rightarrow> fw_context \<Rightarrow> ('s host, unit) call" where
  "fw_remove_port L = fw_run L ''--remove-port''"

definition fw_reload :: "'s host_lib \<Rightarrow> ('s host, unit) call" where
  "fw_reload L = run_quietly L [''firewall-cmd'', ''--reload'']"

definition is_firewalld_active :: "'s host_lib \<Rightarrow> ('s host, bool) call" where
  "is_firewalld_active L = bind (wrap ''exists'' (unit_exists L ''firewalld'')) (\<lambda>there.
     if \<not> there then ret False else wrap ''active'' (service_is_active L ''firewalld''))"

definition firewall_cmd_exists :: "'s host_lib \<Rightarrow> ('s host, bool) call" where
  "firewall_cmd_exists L = wrap ''lookpath'' (found L ''firewall-cmd'')"

section \<open>Configuring and resetting\<close>

definition ec_net :: string where "ec_net = ''ec-net''"

definition ec_net_context :: fw_context where "ec_net_context = \<lparr>fwc_permanent = True, fwc_zone = ec_net\<rparr>"

definition default_context :: fw_context where "default_context = \<lparr>fwc_permanent = True, fwc_zone = []\<rparr>"

definition calico_interfaces :: "string list" where
  "calico_interfaces = [''cali+'', ''tunl+'', ''vxlan-v6.calico'', ''vxlan.calico'', ''wg-v6.cali'', ''wireguard.cali'']"

definition k0s_ports :: "string list" where
  "k0s_ports = [''6443/tcp'', ''10250/tcp'', ''9443/tcp'', ''2380/tcp'', ''4789/udp'']"

definition ensure_ec_net_zone :: "'s host_lib \<Rightarrow> string \<Rightarrow> string \<Rightarrow> ('s host, unit) call" where
  "ensure_ec_net_zone L pods services =
     bind (wrap ''check if ec-net zone exists'' (fw_zone_exists L ec_net)) (\<lambda>there.
     bind (if there then ret () else wrap ''create ec-net zone'' (fw_new_zone L ec_net ec_net_context)) (\<lambda>_.
     bind (wrap ''set target to ACCEPT'' (fw_set_zone_target L ''ACCEPT'' ec_net_context)) (\<lambda>_.
     bind (wrap ''add pod network source'' (fw_add_source L pods ec_net_context)) (\<lambda>_.
     bind (wrap ''add service network source'' (fw_add_source L services ec_net_context)) (\<lambda>_.
     for_each (\<lambda>i. wrap (''add '' @ i @ '' interface'') (fw_add_interface L i ec_net_context)) calico_interfaces)))))"

definition ensure_default_zone :: "'s host_lib \<Rightarrow> ('s host, unit) call" where
  "ensure_default_zone L = for_each (\<lambda>p. wrap (''add '' @ p @ '' port'') (fw_add_port L p default_context)) k0s_ports"

definition configure_firewalld :: "'s host_lib \<Rightarrow> string \<Rightarrow> string \<Rightarrow> ('s host, unit) call" where
  "configure_firewalld L pods services =
     bind (wrap ''check if firewalld is active'' (is_firewalld_active L)) (\<lambda>active.
     if \<not> active then ret () else
     bind (wrap ''check if firewall-cmd exists'' (firewall_cmd_exists L)) (\<lambda>there.
     if \<not> there then ret () else
     bind (wrap ''ensure ec-net zone'' (ensure_ec_net_zone L pods services)) (\<lambda>_.
     bind (wrap ''ensure default zone'' (ensure_default_zone L)) (\<lambda>_.
     wrap ''reload firewalld'' (fw_reload L)))))"

text \<open>Errors of a reset are collected; the reload is tried all the same, and its own error hides them.\<close>

definition collect_err :: "err list \<Rightarrow> string \<Rightarrow> err + 'a \<Rightarrow> err list" where
  "collect_err es c r = (case r of Inl e \<Rightarrow> es @ [EWrap c e] | Inr _ \<Rightarrow> es)"

fun combined :: "err list \<Rightarrow> (unit) outcome" where
  "combined [] = Ok ()"
| "combined [e] = Err e"
| "combined es = Err (EMsg (join_str ''; '' (map err_text es)))"

definition reset_ec_net_zone :: "'s host_lib \<Rightarrow> ('s host, unit) call" where
  "reset_ec_net_zone L = bind (wrap ''check if ec-net zone exists'' (fw_zone_exists L ec_net)) (\<lambda>there.
     if \<not> there then ret () else wrap ''delete ec-net zone'' (fw_delete_zone L ec_net default_context))"

fun remove_ports :: "'s host_lib \<Rightarrow> err list \<Rightarrow> string list \<Rightarrow> ('s host, err list) call" where
  "remove_ports L es [] = ret es"
| "remove_ports L es (p # ps) = bind (attempt (fw_remove_port L p default_context)) (\<lambda>r.
     remove_ports L (collect_err es (''remove '' @ p @ '' port'') r) ps)"

definition reset_default_zone :: "'s host_lib \<Rightarrow> ('s host, unit) call" where
  "reset_default_zone L = bind (remove_ports L [] k0s_ports) (\<lambda>es. lift (combined es))"

definition reset_firewalld :: "'s host_lib \<Rightarrow> ('s host, unit) call" where
  "reset_firewalld L =
     bind (wrap ''check if firewall-cmd exists'' (firewall_cmd_exists L)) (\<lambda>there.
     if \<not> there then ret () else
     bind (attempt (reset_ec_net_zone L)) (\<lambda>a.
     bind (attempt (reset_default_zone L)) (\<lambda>b.
     bind (wrap ''reload firewalld'' (fw_reload L)) (\<lambda>_.
     lift (combined (collect_err (collect_err [] ''reset ec-net zone'' a) ''reset default zone'' b))))))"

section \<open>What the manual says\<close>

record firewall =
  fw_live :: "string set"
  fw_zones :: "string \<Rightarrow> (string \<times> string) set option"
  fw_ports :: "string set"

definition changes_flags :: "string list" where
  "changes_flags = [''--new-zone'', ''--delete-zone'', ''--set-target'', ''--add-source'', ''--add-interface'', ''--add-port'', ''--remove-port'']"

definition fw_says :: "string \<Rightarrow> string \<Rightarrow> fw_context \<Rightarrow> firewall \<Rightarrow> firewall option" where
  "fw_says flag a c f =
     (if flag = ''--new-zone'' then (if fw_zones f a = None then Some (f\<lparr>fw_zones := (fw_zones f)(a \<mapsto> {})\<rparr>) else None)
      else if flag = ''--delete-zone'' then (if fw_zones f a = None then None else Some (f\<lparr>fw_zones := (fw_zones f)(a := None)\<rparr>))
      else if flag = ''--add-port'' then Some (f\<lparr>fw_ports := insert a (fw_ports f)\<rparr>)
      else if flag = ''--remove-port'' then Some (f\<lparr>fw_ports := fw_ports f - {a}\<rparr>)
      else (case fw_zones f (fwc_zone c) of None \<Rightarrow> None
        | Some z \<Rightarrow> Some (f\<lparr>fw_zones := (fw_zones f)(fwc_zone c \<mapsto> insert (flag, a)
            (if flag = ''--set-target'' then {x \<in> z. fst x \<noteq> flag} else z))\<rparr>)))"

definition obeys :: "'s host_lib \<Rightarrow> ('s \<Rightarrow> firewall) \<Rightarrow> bool" where
  "obeys L fw \<longleftrightarrow>
     (\<forall>s z. \<exists>r s'. hl_exec L [''firewall-cmd'', ''--info-zone'', z] s = (r, s') \<and> fw s' = fw s \<and>
        (if z \<in> fw_live (fw s) then \<exists>out. r = Finished out else \<exists>e. r = Exited 112 e)) \<and>
     (\<forall>flag \<in> set changes_flags. \<forall>s a c. fwc_permanent c \<longrightarrow>
        (\<exists>r s'. hl_exec L ([''firewall-cmd'', flag, a] @ fw_args c) s = (r, s') \<and>
          (case fw_says flag a c (fw s) of Some f \<Rightarrow> (\<exists>out. r = Finished out) \<and> fw s' = f
             | None \<Rightarrow> (\<exists>n e. r = Exited n e) \<and> fw s' = fw s))) \<and>
     (\<forall>s. \<exists>out s'. hl_exec L [''firewall-cmd'', ''--reload''] s = (Finished out, s') \<and>
        fw s' = (fw s)\<lparr>fw_live := dom (fw_zones (fw s))\<rparr>)"

definition runs_firewalld :: "'s host_lib \<Rightarrow> bool" where
  "runs_firewalld L \<longleftrightarrow> (\<forall>s. hl_dbus L s = Ok () \<and> hl_units L s = Ok [''firewalld.service''] \<and>
     hl_property L ''ActiveState'' ''firewalld.service'' s = Ok ''active'' \<and> hl_found L ''firewall-cmd'' s = Ok True)"

section \<open>Calls that do what they say\<close>

text \<open>In a state with \<open>P\<close>, the call succeeds and changes what is seen of the state by \<open>f\<close>.\<close>

definition does :: "('w \<Rightarrow> 'b) \<Rightarrow> ('w, unit) call \<Rightarrow> ('b \<Rightarrow> bool) \<Rightarrow> ('b \<Rightarrow> 'b) \<Rightarrow> bool" where
  "does seen m P f \<longleftrightarrow> (\<forall>w. P (seen w) \<longrightarrow> (\<exists>w'. m w = (Ok (), w') \<and> seen w' = f (seen w)))"

lemma does_bind:
  assumes "does seen m P f" "does seen n Q g" "\<And>x. P x \<Longrightarrow> Q (f x)"
  shows "does seen (bind m (\<lambda>_. n)) P (\<lambda>x. g (f x))"
  unfolding does_def
proof (intro allI impI)
  fix w assume "P (seen w)"
  then obtain v where "m w = (Ok (), v)" "seen v = f (seen w)" using assms(1) unfolding does_def by blast
  moreover from this obtain u where "n v = (Ok (), u)" "seen u = g (seen v)"
    using assms(2,3) \<open>P (seen w)\<close> unfolding does_def by metis
  ultimately show "\<exists>w'. bind m (\<lambda>_. n) w = (Ok (), w') \<and> seen w' = g (f (seen w))" by (simp add: bind_def)
qed

lemma does_wrap: "does seen m P f \<Longrightarrow> does seen (wrap c m) P f"
  unfolding does_def wrap_def by (metis (no_types, lifting) case_prod_conv wrapO.simps(1))

lemma does_ret: "does seen (ret ()) P (\<lambda>x. x)"
  by (simp add: does_def ret_def)

lemma does_for_each:
  assumes "\<And>x. x \<in> set xs \<Longrightarrow> does seen (m x) P (f x)" "\<And>x y. x \<in> set xs \<Longrightarrow> P y \<Longrightarrow> P (f x y)"
  shows "does seen (for_each m xs) P (fold f xs)"
  using assms
proof (induction xs)
  case Nil
  then show ?case by (simp add: does_def ret_def)
next
  case (Cons x xs)
  have "does seen (bind (m x) (\<lambda>_. for_each m xs)) P (\<lambda>y. fold f xs (f x y))"
    by (rule does_bind [OF _ Cons.IH]) (use Cons.prems in auto)
  then show ?case by (simp add: comp_def)
qed

lemma does_weaken: "does seen m P f \<Longrightarrow> (\<And>x. Q x \<Longrightarrow> P x) \<Longrightarrow> (\<And>x. Q x \<Longrightarrow> f x = g x) \<Longrightarrow> does seen m Q g"
  unfolding does_def by metis

section \<open>Configuring\<close>

abbreviation seen :: "('s \<Rightarrow> firewall) \<Rightarrow> 's host \<Rightarrow> firewall" where
  "seen fw h \<equiv> fw (h_system h)"

definition configured_zone :: "string \<Rightarrow> string \<Rightarrow> (string \<times> string) set" where
  "configured_zone pods services = {(''--set-target'', ''ACCEPT''), (''--add-source'', pods), (''--add-source'', services)} \<union>
     Pair ''--add-interface'' ` set calico_interfaces"

lemma run_quietly_Finished:
  assumes "hl_exec L args (h_system h) = (Finished out, s')"
  shows "run_quietly L args h = (Ok (), h\<lparr>h_system := s', h_ran := h_ran h @ [args]\<rparr>)"
  by (simp add: run_quietly_def run_command_def exec_def bind_def assms ret_def)

lemma fw_run_does:
  assumes "obeys L fw" "flag \<in> set changes_flags" "fwc_permanent c"
  shows "does (seen fw) (fw_run L flag a c) (\<lambda>f. fw_says flag a c f \<noteq> None) (\<lambda>f. the (fw_says flag a c f))"
  unfolding does_def
proof (intro allI impI)
  fix h :: "'a host" assume ok: "fw_says flag a c (seen fw h) \<noteq> None"
  obtain r s' where "hl_exec L ([''firewall-cmd'', flag, a] @ fw_args c) (h_system h) = (r, s')"
    "case fw_says flag a c (seen fw h) of Some f \<Rightarrow> (\<exists>out. r = Finished out) \<and> fw s' = f
       | None \<Rightarrow> (\<exists>n e. r = Exited n e) \<and> fw s' = seen fw h"
    using assms unfolding obeys_def by blast
  then show "\<exists>h'. fw_run L flag a c h = (Ok (), h') \<and> seen fw h' = the (fw_says flag a c (seen fw h))"
    using ok by (auto simp: fw_run_def run_quietly_Finished)
qed

lemma fw_reload_does:
  assumes "obeys L fw"
  shows "does (seen fw) (fw_reload L) (\<lambda>_. True) (\<lambda>f. f\<lparr>fw_live := dom (fw_zones f)\<rparr>)"
  unfolding does_def
proof (intro allI impI)
  fix h :: "'a host"
  obtain out s' where "hl_exec L [''firewall-cmd'', ''--reload''] (h_system h) = (Finished out, s')"
    "fw s' = (seen fw h)\<lparr>fw_live := dom (fw_zones (seen fw h))\<rparr>"
    using assms unfolding obeys_def by blast
  then show "\<exists>h'. fw_reload L h = (Ok (), h') \<and> seen fw h' = (seen fw h)\<lparr>fw_live := dom (fw_zones (seen fw h))\<rparr>"
    by (auto simp: fw_reload_def run_quietly_Finished)
qed

lemma fw_zone_exists_run:
  assumes "obeys L fw"
  shows "\<exists>h'. fw_zone_exists L z h = (Ok (z \<in> fw_live (seen fw h)), h') \<and> seen fw h' = seen fw h"
proof -
  obtain r s' where "hl_exec L [''firewall-cmd'', ''--info-zone'', z] (h_system h) = (r, s')" "fw s' = seen fw h"
    "if z \<in> fw_live (seen fw h) then \<exists>out. r = Finished out else \<exists>e. r = Exited 112 e"
    using assms unfolding obeys_def by blast
  then show ?thesis by (auto simp: fw_zone_exists_def exec_def bind_def ret_def split: if_splits)
qed

lemma ec_net_facts [simp]: "fwc_permanent ec_net_context" "fwc_zone ec_net_context = ec_net" "fwc_permanent default_context"
  by (simp_all add: ec_net_context_def default_context_def)

lemmas zone_calls = fw_set_zone_target_def fw_add_source_def fw_add_interface_def

definition zone_flags :: "string list" where "zone_flags = [''--set-target'', ''--add-source'', ''--add-interface'']"

lemma says_of_zone:
  assumes "flag \<in> set zone_flags"
  shows "flag \<in> set changes_flags" and "fw_says flag a c f = (case fw_zones f (fwc_zone c) of None \<Rightarrow> None
    | Some z \<Rightarrow> Some (f\<lparr>fw_zones := (fw_zones f)(fwc_zone c \<mapsto> insert (flag, a)
        (if flag = ''--set-target'' then {x \<in> z. fst x \<noteq> flag} else z))\<rparr>))"
proof -
  have "flag = ''--set-target'' \<or> flag = ''--add-source'' \<or> flag = ''--add-interface''" using assms by (simp add: zone_flags_def)
  note cases = this
  from cases show "flag \<in> set changes_flags" by (elim disjE; simp add: changes_flags_def)
  from cases show "fw_says flag a c f = (case fw_zones f (fwc_zone c) of None \<Rightarrow> None
    | Some z \<Rightarrow> Some (f\<lparr>fw_zones := (fw_zones f)(fwc_zone c \<mapsto> insert (flag, a)
        (if flag = ''--set-target'' then {x \<in> z. fst x \<noteq> flag} else z))\<rparr>))"
    by (elim disjE; simp add: fw_says_def split: option.splits)
qed

lemma zone_call_does:
  assumes "obeys L fw" "flag \<in> set zone_flags"
  shows "does (seen fw) (fw_run L flag a ec_net_context) (\<lambda>f. fw_zones f ec_net \<noteq> None)
     (\<lambda>f. the (fw_says flag a ec_net_context f))"
  by (rule does_weaken [OF fw_run_does [OF assms(1) says_of_zone(1) [OF assms(2)]]])
    (simp_all only: ec_net_facts says_of_zone(2) [OF assms(2)] split: option.splits, simp_all)

lemma zone_stays:
  assumes "flag \<in> set zone_flags" "fw_zones f ec_net \<noteq> None"
  shows "fw_zones (the (fw_says flag a ec_net_context f)) ec_net \<noteq> None"
  using assms(2) by (auto simp only: ec_net_facts says_of_zone(2) [OF assms(1)] split: option.splits) simp

lemma zone_settings_does:
  assumes "obeys L fw"
  shows "does (seen fw)
     (bind (wrap ''set target to ACCEPT'' (fw_set_zone_target L ''ACCEPT'' ec_net_context)) (\<lambda>_.
      bind (wrap ''add pod network source'' (fw_add_source L pods ec_net_context)) (\<lambda>_.
      bind (wrap ''add service network source'' (fw_add_source L services ec_net_context)) (\<lambda>_.
      for_each (\<lambda>i. wrap (''add '' @ i @ '' interface'') (fw_add_interface L i ec_net_context)) calico_interfaces))))
     (\<lambda>f. fw_zones f ec_net = Some {})
     (\<lambda>f. f\<lparr>fw_zones := (fw_zones f)(ec_net \<mapsto> configured_zone pods services)\<rparr>)"
proof (rule does_weaken)
  let ?P = "\<lambda>f. fw_zones f ec_net \<noteq> None"
  show "does (seen fw)
     (bind (wrap ''set target to ACCEPT'' (fw_set_zone_target L ''ACCEPT'' ec_net_context)) (\<lambda>_.
      bind (wrap ''add pod network source'' (fw_add_source L pods ec_net_context)) (\<lambda>_.
      bind (wrap ''add service network source'' (fw_add_source L services ec_net_context)) (\<lambda>_.
      for_each (\<lambda>i. wrap (''add '' @ i @ '' interface'') (fw_add_interface L i ec_net_context)) calico_interfaces)))) ?P
     (\<lambda>f. fold (\<lambda>i f. the (fw_says ''--add-interface'' i ec_net_context f)) calico_interfaces
        (the (fw_says ''--add-source'' services ec_net_context (the (fw_says ''--add-source'' pods ec_net_context
           (the (fw_says ''--set-target'' ''ACCEPT'' ec_net_context f)))))))"
    unfolding zone_calls
    by (intro does_bind [where Q = ?P] does_wrap zone_call_does does_for_each zone_stays assms)
      (simp_all add: zone_flags_def)
  show "fold (\<lambda>i f. the (fw_says ''--add-interface'' i ec_net_context f)) calico_interfaces
        (the (fw_says ''--add-source'' services ec_net_context (the (fw_says ''--add-source'' pods ec_net_context
           (the (fw_says ''--set-target'' ''ACCEPT'' ec_net_context f)))))) =
      f\<lparr>fw_zones := (fw_zones f)(ec_net \<mapsto> configured_zone pods services)\<rparr>"
    if "fw_zones f ec_net = Some {}" for f :: firewall
    using that by (simp add: fw_says_def configured_zone_def calico_interfaces_def insert_commute)
qed simp

lemma default_zone_does:
  assumes "obeys L fw"
  shows "does (seen fw) (ensure_default_zone L) (\<lambda>_. True) (\<lambda>f. f\<lparr>fw_ports := set k0s_ports \<union> fw_ports f\<rparr>)"
proof (rule does_weaken)
  show "does (seen fw) (ensure_default_zone L) (\<lambda>_. True)
     (fold (\<lambda>p f. the (fw_says ''--add-port'' p default_context f)) k0s_ports)"
    unfolding ensure_default_zone_def fw_add_port_def
    by (intro does_for_each does_wrap does_weaken [OF fw_run_does [OF assms]])
      (simp_all add: changes_flags_def fw_says_def)
qed (simp_all add: fw_says_def k0s_ports_def insert_commute)

section \<open>Resetting\<close>

lemma active_run:
  assumes "runs_firewalld L"
  shows "is_firewalld_active L h = (Ok True, h)" "firewall_cmd_exists L h = (Ok True, h)"
proof -
  have u: "normalize_unit_name ''firewalld'' = ''firewalld.service''" by code_simp
  have "hl_dbus L s = Ok ()" "hl_units L s = Ok [''firewalld.service'']"
    "hl_property L ''ActiveState'' ''firewalld.service'' s = Ok ''active''" "hl_found L ''firewall-cmd'' s = Ok True" for s
    using assms unfolding runs_firewalld_def by blast+
  then show "is_firewalld_active L h = (Ok True, h)" "firewall_cmd_exists L h = (Ok True, h)"
    by (simp_all add: is_firewalld_active_def unit_exists_def service_is_active_def unit_property_def dbus_def
        firewall_cmd_exists_def found_def call_defs u)
qed

lemma ensure_fresh_zone:
  assumes "obeys L fw" "ec_net \<notin> fw_live (seen fw h)" "fw_zones (seen fw h) ec_net = None"
  shows "\<exists>h'. ensure_ec_net_zone L pods services h = (Ok (), h') \<and>
     seen fw h' = (seen fw h)\<lparr>fw_zones := (fw_zones (seen fw h))(ec_net \<mapsto> configured_zone pods services)\<rparr>"
proof -
  obtain h1 where 1: "fw_zone_exists L ec_net h = (Ok False, h1)" "seen fw h1 = seen fw h"
    using fw_zone_exists_run [OF assms(1), of ec_net h] assms(2) by auto
  let ?f = "(seen fw h)\<lparr>fw_zones := (fw_zones (seen fw h))(ec_net \<mapsto> {})\<rparr>"
  have says: "fw_says ''--new-zone'' ec_net ec_net_context (seen fw h1) = Some ?f"
    using assms(3) 1(2) by (simp add: fw_says_def)
  have "''--new-zone'' \<in> set changes_flags" by (simp add: changes_flags_def)
  from fw_run_does [OF assms(1) this, of ec_net_context ec_net] says
  obtain h2 where 2: "fw_new_zone L ec_net ec_net_context h1 = (Ok (), h2)" "seen fw h2 = ?f"
    unfolding does_def fw_new_zone_def by (metis ec_net_facts(1) option.distinct(1) option.sel)
  have "fw_zones (seen fw h2) ec_net = Some {}" by (simp add: 2(2))
  with zone_settings_does [OF assms(1), of pods services] obtain h3 where
    "bind (wrap ''set target to ACCEPT'' (fw_set_zone_target L ''ACCEPT'' ec_net_context)) (\<lambda>_.
      bind (wrap ''add pod network source'' (fw_add_source L pods ec_net_context)) (\<lambda>_.
      bind (wrap ''add service network source'' (fw_add_source L services ec_net_context)) (\<lambda>_.
      for_each (\<lambda>i. wrap (''add '' @ i @ '' interface'') (fw_add_interface L i ec_net_context)) calico_interfaces))) h2 = (Ok (), h3)"
    "seen fw h3 = (seen fw h2)\<lparr>fw_zones := (fw_zones (seen fw h2))(ec_net \<mapsto> configured_zone pods services)\<rparr>"
    unfolding does_def by blast
  then show ?thesis using 1 2 by (simp add: ensure_ec_net_zone_def bind_def [of "wrap _ _"] wrap_def)
qed

lemma configure_fresh:
  assumes "obeys L fw" "runs_firewalld L" "ec_net \<notin> fw_live (seen fw h)" "fw_zones (seen fw h) ec_net = None"
  shows "\<exists>h'. configure_firewalld L pods services h = (Ok (), h') \<and>
     fw_zones (seen fw h') = (fw_zones (seen fw h))(ec_net \<mapsto> configured_zone pods services) \<and>
     fw_ports (seen fw h') = set k0s_ports \<union> fw_ports (seen fw h) \<and> fw_live (seen fw h') = dom (fw_zones (seen fw h'))"
proof -
  obtain h1 where 1: "ensure_ec_net_zone L pods services h = (Ok (), h1)"
    "seen fw h1 = (seen fw h)\<lparr>fw_zones := (fw_zones (seen fw h))(ec_net \<mapsto> configured_zone pods services)\<rparr>"
    using ensure_fresh_zone [OF assms(1,3,4)] by blast
  obtain h2 where 2: "ensure_default_zone L h1 = (Ok (), h2)" "seen fw h2 = (seen fw h1)\<lparr>fw_ports := set k0s_ports \<union> fw_ports (seen fw h1)\<rparr>"
    using default_zone_does [OF assms(1)] unfolding does_def by blast
  obtain h3 where 3: "fw_reload L h2 = (Ok (), h3)" "seen fw h3 = (seen fw h2)\<lparr>fw_live := dom (fw_zones (seen fw h2))\<rparr>"
    using fw_reload_does [OF assms(1)] unfolding does_def by blast
  have "configure_firewalld L pods services h = (Ok (), h3)"
    by (simp add: configure_firewalld_def bind_def wrap_def active_run [OF assms(2)] 1(1) 2(1) 3(1))
  then show ?thesis by (intro exI conjI, assumption) (simp_all add: 1(2) 2(2) 3(2))
qed

lemma remove_ports_run:
  assumes "obeys L fw"
  shows "\<exists>h'. remove_ports L es ps h = (Ok es, h') \<and> seen fw h' = (seen fw h)\<lparr>fw_ports := fw_ports (seen fw h) - set ps\<rparr>"
proof (induction ps arbitrary: h)
  case Nil
  then show ?case by (simp add: ret_def)
next
  case (Cons p ps)
  have "''--remove-port'' \<in> set changes_flags" by (simp add: changes_flags_def)
  moreover have "fw_says ''--remove-port'' p default_context (seen fw h) = Some ((seen fw h)\<lparr>fw_ports := fw_ports (seen fw h) - {p}\<rparr>)"
    by (simp add: fw_says_def)
  ultimately obtain h1 where 1: "fw_remove_port L p default_context h = (Ok (), h1)"
    "seen fw h1 = (seen fw h)\<lparr>fw_ports := fw_ports (seen fw h) - {p}\<rparr>"
    using fw_run_does [OF assms, of "''--remove-port''" default_context p]
    unfolding does_def fw_remove_port_def by (metis ec_net_facts(3) option.distinct(1) option.sel)
  obtain h2 where 2: "remove_ports L es ps h1 = (Ok es, h2)" "seen fw h2 = (seen fw h1)\<lparr>fw_ports := fw_ports (seen fw h1) - set ps\<rparr>"
    using Cons.IH by blast
  have "remove_ports L es (p # ps) h = (Ok es, h2)" by (simp add: bind_def attempt_def 1(1) 2(1) collect_err_def)
  moreover have "fw_ports (seen fw h) - {p} - set ps = fw_ports (seen fw h) - set (p # ps)" by auto
  ultimately show ?case by - (intro exI conjI, assumption, simp add: 1(2) 2(2))
qed

lemma reset_default_run:
  assumes "obeys L fw"
  shows "\<exists>h'. reset_default_zone L h = (Ok (), h') \<and> seen fw h' = (seen fw h)\<lparr>fw_ports := fw_ports (seen fw h) - set k0s_ports\<rparr>"
  using remove_ports_run [OF assms, of "[]" k0s_ports h] by (auto simp: reset_default_zone_def bind_def lift_def)

lemma reset_run:
  assumes "obeys L fw" "runs_firewalld L" "reset_ec_net_zone L h = (Ok (), h1)"
  shows "\<exists>h'. reset_firewalld L h = (Ok (), h') \<and>
    seen fw h' = (seen fw h1)\<lparr>fw_ports := fw_ports (seen fw h1) - set k0s_ports, fw_live := dom (fw_zones (seen fw h1))\<rparr>"
proof -
  obtain h2 where 2: "reset_default_zone L h1 = (Ok (), h2)" "seen fw h2 = (seen fw h1)\<lparr>fw_ports := fw_ports (seen fw h1) - set k0s_ports\<rparr>"
    using reset_default_run [OF assms(1)] by blast
  obtain h3 where 3: "fw_reload L h2 = (Ok (), h3)" "seen fw h3 = (seen fw h2)\<lparr>fw_live := dom (fw_zones (seen fw h2))\<rparr>"
    using fw_reload_does [OF assms(1)] unfolding does_def by blast
  have "reset_firewalld L h = (Ok (), h3)"
    by (simp add: reset_firewalld_def bind_def wrap_def attempt_def lift_def active_run [OF assms(2)] assms(3) 2(1) 3(1) collect_err_def)
  then show ?thesis by (intro exI conjI, assumption) (simp add: 2(2) 3(2))
qed

lemma reset_live_zone:
  assumes "obeys L fw" "ec_net \<in> fw_live (seen fw h)" "fw_zones (seen fw h) ec_net \<noteq> None"
  shows "\<exists>h'. reset_ec_net_zone L h = (Ok (), h') \<and> seen fw h' = (seen fw h)\<lparr>fw_zones := (fw_zones (seen fw h))(ec_net := None)\<rparr>"
proof -
  obtain h1 where 1: "fw_zone_exists L ec_net h = (Ok True, h1)" "seen fw h1 = seen fw h"
    using fw_zone_exists_run [OF assms(1), of ec_net h] assms(2) by auto
  have "''--delete-zone'' \<in> set changes_flags" by (simp add: changes_flags_def)
  moreover have "fw_says ''--delete-zone'' ec_net default_context (seen fw h1) = Some ((seen fw h)\<lparr>fw_zones := (fw_zones (seen fw h))(ec_net := None)\<rparr>)"
    using assms(3) 1(2) by (simp add: fw_says_def)
  ultimately obtain h2 where "fw_delete_zone L ec_net default_context h1 = (Ok (), h2)"
    "seen fw h2 = (seen fw h)\<lparr>fw_zones := (fw_zones (seen fw h))(ec_net := None)\<rparr>"
    using fw_run_does [OF assms(1), of "''--delete-zone''" default_context ec_net]
    unfolding does_def fw_delete_zone_def by (metis ec_net_facts(3) option.distinct(1) option.sel)
  then show ?thesis using 1(1) by (simp add: reset_ec_net_zone_def bind_def wrap_def)
qed

text \<open>On a host whose firewall runs and has neither the zone of the cluster nor its ports, configuring opens the zone to the networks
  of the pods and services and to the interfaces of calico, and the ports of k0s in the default zone; and a reset takes exactly
  this back: the firewall is what it was.\<close>

theorem firewall_reset_undoes_configuration:
  assumes "obeys L fw" "runs_firewalld L"
    and "fw_live (seen fw h) = dom (fw_zones (seen fw h))" "fw_zones (seen fw h) ec_net = None"
    and "set k0s_ports \<inter> fw_ports (seen fw h) = {}"
  shows "\<exists>h1 h2. configure_firewalld L pods services h = (Ok (), h1) \<and> ec_net \<in> fw_live (seen fw h1) \<and>
     fw_zones (seen fw h1) ec_net = Some (configured_zone pods services) \<and> set k0s_ports \<subseteq> fw_ports (seen fw h1) \<and>
     reset_firewalld L h1 = (Ok (), h2) \<and> seen fw h2 = seen fw h"
proof -
  obtain h1 where 1: "configure_firewalld L pods services h = (Ok (), h1)"
    "fw_zones (seen fw h1) = (fw_zones (seen fw h))(ec_net \<mapsto> configured_zone pods services)"
    "fw_ports (seen fw h1) = set k0s_ports \<union> fw_ports (seen fw h)" "fw_live (seen fw h1) = dom (fw_zones (seen fw h1))"
    using configure_fresh [OF assms(1,2) _ assms(4), of pods services] assms(3,4) by (metis domIff)
  obtain h2 where 2: "reset_ec_net_zone L h1 = (Ok (), h2)" "seen fw h2 = (seen fw h1)\<lparr>fw_zones := (fw_zones (seen fw h1))(ec_net := None)\<rparr>"
    using reset_live_zone [OF assms(1), of h1] 1(2,4) by auto
  obtain h3 where 3: "reset_firewalld L h1 = (Ok (), h3)"
    "seen fw h3 = (seen fw h2)\<lparr>fw_ports := fw_ports (seen fw h2) - set k0s_ports, fw_live := dom (fw_zones (seen fw h2))\<rparr>"
    using reset_run [OF assms(1,2) 2(1)] by blast
  have "(fw_zones (seen fw h))(ec_net := None) = fw_zones (seen fw h)" using assms(4) by auto
  moreover have "set k0s_ports \<union> fw_ports (seen fw h) - set k0s_ports = fw_ports (seen fw h)" using assms(5) by auto
  ultimately have "seen fw h3 = seen fw h" using assms(3) by (simp add: 3(2) 2(2) 1(2,3))
  then show ?thesis using 1 3(1) by (intro exI [of _ h1] exI [of _ h3]) auto
qed

text \<open>When the zone of the cluster was created but the firewall was not reloaded, because configuring it failed in between,
  configuring fails every time, since the zone is asked for among the live ones and cannot be created twice; and a reset does not
  see the zone and leaves it behind.\<close>

theorem unloaded_zone_blocks_configuration:
  assumes "obeys L fw" "runs_firewalld L"
    and "ec_net \<notin> fw_live (seen fw h)" "fw_zones (seen fw h) ec_net = Some z"
  shows "\<exists>e h1 h2. configure_firewalld L pods services h = (Err e, h1) \<and> seen fw h1 = seen fw h \<and>
     reset_firewalld L h1 = (Ok (), h2) \<and> fw_zones (seen fw h2) ec_net = Some z"
proof -
  obtain h1 where 1: "fw_zone_exists L ec_net h = (Ok False, h1)" "seen fw h1 = seen fw h"
    using fw_zone_exists_run [OF assms(1), of ec_net h] assms(3) by auto
  have says: "fw_says ''--new-zone'' ec_net ec_net_context (seen fw h1) = None" using assms(4) 1(2) by (simp add: fw_says_def)
  have "''--new-zone'' \<in> set changes_flags" by (simp add: changes_flags_def)
  then obtain r s' where "hl_exec L ([''firewall-cmd'', ''--new-zone'', ec_net] @ fw_args ec_net_context) (h_system h1) = (r, s')"
    "case fw_says ''--new-zone'' ec_net ec_net_context (seen fw h1) of Some f \<Rightarrow> (\<exists>out. r = Finished out) \<and> fw s' = f
       | None \<Rightarrow> (\<exists>n e. r = Exited n e) \<and> fw s' = seen fw h1"
    using assms(1) ec_net_facts(1) unfolding obeys_def by blast
  then obtain n e h2 where 2: "fw_new_zone L ec_net ec_net_context h1 = (Err (exec_error (Exited n e)), h2)" "seen fw h2 = seen fw h"
    using says 1(2) by (auto simp: fw_new_zone_def fw_run_def run_quietly_def run_command_def exec_def bind_def throw_def)
  have fails: "\<exists>e. configure_firewalld L pods services h = (Err e, h2)"
    by (simp add: configure_firewalld_def ensure_ec_net_zone_def bind_def wrap_def active_run [OF assms(2)] 1(1) 2(1))
  obtain h3 where 3: "fw_zone_exists L ec_net h2 = (Ok False, h3)" "seen fw h3 = seen fw h2"
    using fw_zone_exists_run [OF assms(1), of ec_net h2] assms(3) 2(2) by auto
  have "reset_ec_net_zone L h2 = (Ok (), h3)" by (simp add: reset_ec_net_zone_def bind_def wrap_def ret_def 3(1))
  from reset_run [OF assms(1,2) this] obtain h4 where "reset_firewalld L h2 = (Ok (), h4)" "fw_zones (seen fw h4) = fw_zones (seen fw h3)"
    by auto
  then show ?thesis using fails 2(2) 3(2) assms(4) by auto
qed

section \<open>A firewall\<close>

definition sample_fw_exec :: "string list \<Rightarrow> firewall \<Rightarrow> exec_result \<times> firewall" where
  "sample_fw_exec args f = (case args of
      [_, _] \<Rightarrow> (Finished [], f\<lparr>fw_live := dom (fw_zones f)\<rparr>)
    | [_, _, z] \<Rightarrow> (if z \<in> fw_live f then Finished [] else Exited 112 [], f)
    | _ # flag # a # _ # rest \<Rightarrow> (case fw_says flag a \<lparr>fwc_permanent = True, fwc_zone = (case rest of [_, z] \<Rightarrow> z | _ \<Rightarrow> [])\<rparr> f of
          Some g \<Rightarrow> (Finished [], g) | None \<Rightarrow> (Exited 26 [], f))
    | _ \<Rightarrow> (NotStarted [], f))"

definition sample_fw_host :: "firewall host_lib" where
  "sample_fw_host = \<lparr>hl_exec = sample_fw_exec, hl_found = (\<lambda>_ _. Ok True), hl_tick = (\<lambda>s. s), hl_may_write = (\<lambda>_ _. Ok ()),
     hl_may_read = (\<lambda>_ _. Ok ()), hl_mkdir = (\<lambda>_ _. Ok ()), hl_dbus = (\<lambda>_. Ok ()), hl_units = (\<lambda>_. Ok [''firewalld.service'']),
     hl_property = (\<lambda>_ _ _. Ok ''active''), hl_unit_change = (\<lambda>_ _ s. (Ok ''done'', s))\<rparr>"

lemma sample_fw_change:
  assumes "fwc_permanent c"
  shows "sample_fw_exec ([''firewall-cmd'', flag, a] @ fw_args c) f =
    (case fw_says flag a c f of Some g \<Rightarrow> (Finished [], g) | None \<Rightarrow> (Exited 26 [], f))"
  using assms by (cases c) (simp add: sample_fw_exec_def fw_args_def)

lemma sample_fw_obeys: "obeys sample_fw_host (\<lambda>f. f)"
  unfolding obeys_def sample_fw_host_def
proof (intro conjI ballI allI impI)
  fix flag a f and c :: fw_context assume "fwc_permanent c"
  from sample_fw_change [OF this, of flag a f]
  show "\<exists>r s'. hl_exec \<lparr>hl_exec = sample_fw_exec, hl_found = \<lambda>_ _. Ok True, hl_tick = \<lambda>s. s, hl_may_write = \<lambda>_ _. Ok (),
     hl_may_read = \<lambda>_ _. Ok (), hl_mkdir = \<lambda>_ _. Ok (), hl_dbus = \<lambda>_. Ok (), hl_units = \<lambda>_. Ok [''firewalld.service''],
     hl_property = \<lambda>_ _ _. Ok ''active'', hl_unit_change = \<lambda>_ _ s. (Ok ''done'', s)\<rparr> ([''firewall-cmd'', flag, a] @ fw_args c) f = (r, s') \<and>
     (case fw_says flag a c f of None \<Rightarrow> (\<exists>n e. r = Exited n e) \<and> s' = f | Some g \<Rightarrow> (\<exists>out. r = Finished out) \<and> s' = g)"
    by (cases "fw_says flag a c f") simp_all
qed (simp_all add: sample_fw_exec_def)

lemma sample_fw_runs: "runs_firewalld sample_fw_host"
  by (simp add: runs_firewalld_def sample_fw_host_def)

definition sample_firewall :: "(string \<times> string) set option \<Rightarrow> firewall host" where
  "sample_firewall zone = \<lparr>h_files = [], h_system = \<lparr>fw_live = {''public''}, fw_zones = [''public'' \<mapsto> {}](ec_net := zone), fw_ports = {''22/tcp''}\<rparr>,
     h_ran = []\<rparr>"

theorem firewall_reset_undoes_configuration_witness:
  "\<exists>h1 h2. configure_firewalld sample_fw_host ''10.244.0.0/17'' ''10.244.128.0/17'' (sample_firewall None) = (Ok (), h1) \<and>
     ec_net \<in> fw_live (h_system h1) \<and> reset_firewalld sample_fw_host h1 = (Ok (), h2) \<and> fw_ports (h_system h2) = {''22/tcp''}"
proof -
  have "fw_live (h_system (sample_firewall None)) = dom (fw_zones (h_system (sample_firewall None)))"
    "fw_zones (h_system (sample_firewall None)) ec_net = None" "set k0s_ports \<inter> fw_ports (h_system (sample_firewall None)) = {}"
    by (simp_all add: sample_firewall_def ec_net_def k0s_ports_def)
  from firewall_reset_undoes_configuration [OF sample_fw_obeys sample_fw_runs this, of "''10.244.0.0/17''" "''10.244.128.0/17''"]
  show ?thesis by (elim exE conjE) (intro exI conjI, assumption+, simp add: sample_firewall_def)
qed

theorem unloaded_zone_blocks_configuration_witness:
  "\<exists>e h1. configure_firewalld sample_fw_host ''10.244.0.0/17'' ''10.244.128.0/17'' (sample_firewall (Some {})) = (Err e, h1)"
proof -
  have "ec_net \<notin> fw_live (h_system (sample_firewall (Some {})))" "fw_zones (h_system (sample_firewall (Some {}))) ec_net = Some {}"
    by (simp_all add: sample_firewall_def ec_net_def)
  from unloaded_zone_blocks_configuration [OF sample_fw_obeys sample_fw_runs this, of "''10.244.0.0/17''" "''10.244.128.0/17''"]
  show ?thesis by blast
qed

end
