(* ===== verification/HostSetup.thy ===== *)
theory HostSetup
  imports Firewalld HelmValues
begin

text \<open>
  Setting up a host (\<^verbatim>\<open>pkg-new/hostutils\<close>, \<^verbatim>\<open>cmd/installer/goods\<close>, \<^verbatim>\<open>pkg/support/materialize.go\<close>): kernel parameters and
  modules, services, the registry of containerd, SELinux, and the files the binary carries.

  The embedded files, the semantic version of k0s, the text of templates and the unpacking of an air gap bundle are
  parameters. A link is a file whose contents are its target; file modes, and errors that are only logged, are left out.
\<close>

section \<open>Parameters and texts\<close>

record 's host_env =
  he_k0s_version :: "(nat \<times> nat) outcome"
  he_app_slug :: string
  he_executable :: "string outcome"
  he_asset :: "string \<Rightarrow> string outcome"
  he_asset_dir :: "string \<Rightarrow> string list outcome"
  he_sysctl_conf :: string
  he_modules_conf :: string
  he_completion :: "string outcome"
  he_remote_support_spec :: string
  he_render :: "string \<Rightarrow> (string \<times> string) list \<Rightarrow> string outcome"
  he_runtime_config_yaml :: "runtime_config_spec \<Rightarrow> string outcome"
  he_unpack_airgap :: "string \<Rightarrow> ('s host, unit) call"

definition text_of_lines :: "string list \<Rightarrow> string" where
  "text_of_lines ls = concat (map (\<lambda>l. l @ [CHR 0x0A]) ls)"

text \<open>Texts of the sources have \<open>^\<close> for a quotation mark here.\<close>

definition dq :: "string \<Rightarrow> string" where
  "dq s = map (\<lambda>c. if c = CHR ''^'' then CHR 0x22 else c) s"

definition ignoring :: "('w, 'a) call \<Rightarrow> ('w, unit) call" where
  "ignoring m = bind (attempt m) (\<lambda>_. ret ())"

definition path_to_binary :: "runtime_config_spec \<Rightarrow> string \<Rightarrow> string" where
  "path_to_binary rc n = path_join (path_join (ec_home_directory rc) ''bin'') n"

definition path_to_support_file :: "runtime_config_spec \<Rightarrow> string \<Rightarrow> string" where
  "path_to_support_file rc n = path_join (path_join (ec_home_directory rc) ''support'') n"

definition is_blank :: "char \<Rightarrow> bool" where
  "is_blank c \<longleftrightarrow> c \<in> {CHR 0x20, CHR 0x09, CHR 0x0A, CHR 0x0B, CHR 0x0C, CHR 0x0D}"

definition trim_space :: "string \<Rightarrow> string" where
  "trim_space s = rev (dropWhile is_blank (rev (dropWhile is_blank s)))"

section \<open>Kernel parameters and modules\<close>

datatype sysctl_operator = OperatorMin | OperatorMax

record sysctl_constraint =
  sc_key :: string
  sc_value :: int
  sc_operator :: sysctl_operator

definition dynamic_sysctl_constraints :: "sysctl_constraint list" where
  "dynamic_sysctl_constraints = [
     \<lparr>sc_key = ''fs.inotify.max_user_instances'', sc_value = 1024, sc_operator = OperatorMin\<rparr>,
     \<lparr>sc_key = ''fs.inotify.max_user_watches'', sc_value = 65536, sc_operator = OperatorMin\<rparr>]"

definition sysctl_needs_update :: "sysctl_constraint \<Rightarrow> int \<Rightarrow> bool" where
  "sysctl_needs_update c current = (case sc_operator c of OperatorMin \<Rightarrow> current < sc_value c | OperatorMax \<Rightarrow> current > sc_value c)"

fun dynamic_settings :: "(string \<Rightarrow> ('w, int) call) \<Rightarrow> sysctl_constraint list \<Rightarrow> ('w, (string \<times> int) list) call" where
  "dynamic_settings getter [] = ret []"
| "dynamic_settings getter (c # cs) = bind (wrap (''check current value for '' @ sc_key c) (getter (sc_key c))) (\<lambda>current.
     bind (dynamic_settings getter cs) (\<lambda>rest.
     ret (if sysctl_needs_update c current then (sc_key c, sc_value c) # rest else rest)))"

definition dynamic_sysctl_text :: "(string \<times> int) list \<Rightarrow> string" where
  "dynamic_sysctl_text settings = text_of_lines ([''# Dynamic sysctl configuration for embedded-cluster'',
     ''# This file is generated based on system values'', []] @ map (\<lambda>(k, v). k @ '' = '' @ show_int v) settings)"

definition generate_dynamic_sysctl_config :: "'s host_lib \<Rightarrow> (string \<Rightarrow> ('s host, int) call) \<Rightarrow> string \<Rightarrow> ('s host, unit) call" where
  "generate_dynamic_sysctl_config L getter path =
     bind (wrap ''create directory'' (mkdir_all L (dir_of path))) (\<lambda>_.
     bind (dynamic_settings getter dynamic_sysctl_constraints) (\<lambda>settings.
     wrap ''write dynamic config file'' (host_write L path (dynamic_sysctl_text settings))))"

text \<open>\<open>strconv.ParseInt\<close> with 64 bits.\<close>

definition parse_sysctl_value :: "string \<Rightarrow> int outcome" where
  "parse_sysctl_value s =
     (let n = (case s of c # t \<Rightarrow> if c = CHR ''-'' then map_option (\<lambda>n. - int n) (parse_dec t)
                  else if c = CHR ''+'' then map_option int (parse_dec t) else map_option int (parse_dec s)
               | [] \<Rightarrow> None)
      in case n of None \<Rightarrow> Err (EMsg (''strconv.ParseInt: parsing '' @ s @ '': invalid syntax''))
         | Some v \<Rightarrow> if - (2 ^ 63) \<le> v \<and> v < 2 ^ 63 then Ok v
             else Err (EMsg (''strconv.ParseInt: parsing '' @ s @ '': value out of range'')))"

definition get_current_sysctl_value :: "'s host_lib \<Rightarrow> string \<Rightarrow> ('s host, int) call" where
  "get_current_sysctl_value L key = bind (wrap ''get sysctl value'' (run_command L [''sysctl'', ''-n'', key])) (\<lambda>out.
     wrap ''parse sysctl value'' (lift (parse_sysctl_value (trim_space out))))"

definition sysctl_config_path :: string where "sysctl_config_path = ''/etc/sysctl.d/99-embedded-cluster.conf''"

definition dynamic_sysctl_config_path :: string where
  "dynamic_sysctl_config_path = ''/etc/sysctl.d/99-dynamic-embedded-cluster.conf''"

definition modules_load_config_path :: string where
  "modules_load_config_path = ''/etc/modules-load.d/99-embedded-cluster.conf''"

definition write_embedded :: "'s host_lib \<Rightarrow> string \<Rightarrow> string \<Rightarrow> ('s host, unit) call" where
  "write_embedded L path contents = bind (wrap ''create directory'' (mkdir_all L (dir_of path))) (\<lambda>_.
     wrap ''write file'' (host_write L path contents))"

definition require_program :: "'s host_lib \<Rightarrow> string \<Rightarrow> ('s host, unit) call" where
  "require_program L p = wrap (''find '' @ p @ '' binary'') (bind (found L p) (\<lambda>there.
     if there then ret () else throw (EMsg (''executable file not found: '' @ p))))"

definition configure_sysctl :: "'s host_lib \<Rightarrow> 's host_env \<Rightarrow> ('s host, unit) call" where
  "configure_sysctl L E = bind (require_program L ''sysctl'') (\<lambda>_.
     bind (wrap ''materialize sysctl config'' (write_embedded L sysctl_config_path (he_sysctl_conf E))) (\<lambda>_.
     bind (wrap ''materialize dynamic sysctl config''
       (generate_dynamic_sysctl_config L (get_current_sysctl_value L) dynamic_sysctl_config_path)) (\<lambda>_.
     wrap ''configure sysctl'' (run_quietly L [''sysctl'', ''--system'']))))"

definition modules_of :: "string \<Rightarrow> string list" where
  "modules_of conf = filter (\<lambda>m. m \<noteq> [] \<and> \<not> prefix ''#'' m) (map trim_space (split_on (CHR 0x0A) conf))"

fun load_modules :: "'s host_lib \<Rightarrow> err list \<Rightarrow> string list \<Rightarrow> ('s host, err list) call" where
  "load_modules L es [] = ret es"
| "load_modules L es (m # ms) = bind (module_exists L m) (\<lambda>there.
     if \<not> there then load_modules L es ms
     else bind (attempt (run_quietly L [''modprobe'', m])) (\<lambda>r. load_modules L (collect_err es (''modprobe '' @ m) r) ms))"

definition ensure_kernel_modules_loaded :: "'s host_lib \<Rightarrow> 's host_env \<Rightarrow> ('s host, unit) call" where
  "ensure_kernel_modules_loaded L E = bind (load_modules L [] (modules_of (he_modules_conf E))) (\<lambda>es. lift (combined es))"

definition configure_kernel_modules :: "'s host_lib \<Rightarrow> 's host_env \<Rightarrow> ('s host, unit) call" where
  "configure_kernel_modules L E = bind (require_program L ''modprobe'') (\<lambda>_.
     bind (wrap ''materialize kernel modules config'' (write_embedded L modules_load_config_path (he_modules_conf E))) (\<lambda>_.
     wrap ''ensure kernel modules are loaded'' (ensure_kernel_modules_loaded L E)))"

section \<open>SELinux and the network manager\<close>

definition configure_selinux_fcontext :: "'s host_lib \<Rightarrow> runtime_config_spec \<Rightarrow> ('s host, unit) call" where
  "configure_selinux_fcontext L rc = bind (attempt (found L ''semanage'')) (\<lambda>r. case r of
      Inr True \<Rightarrow> ignoring (exec L [''semanage'', ''fcontext'', ''-a'', ''-s'', ''system_u'', ''-t'', ''bin_t'',
        path_join (ec_home_directory rc) ''bin'' @ ''(/.*)?''])
    | _ \<Rightarrow> ret ())"

definition restore_selinux_context :: "'s host_lib \<Rightarrow> runtime_config_spec \<Rightarrow> ('s host, unit) call" where
  "restore_selinux_context L rc = bind (attempt (found L ''restorecon'')) (\<lambda>r. case r of
      Inr True \<Rightarrow> ignoring (exec L [''restorecon'', ''-RvF'', ec_home_directory rc])
    | _ \<Rightarrow> ret ())"

definition calico_network_manager_config :: "'s host_lib \<Rightarrow> 's host_env \<Rightarrow> ('s host, unit) call" where
  "calico_network_manager_config L E =
     bind (wrap ''unable to open network manager config file'' (lift (he_asset E ''systemd/calico-network-manager.conf''))) (\<lambda>c.
     wrap ''unable to write file'' (host_write L ''/etc/NetworkManager/conf.d/embedded-cluster.conf'' c))"

definition configure_network_manager :: "'s host_lib \<Rightarrow> 's host_env \<Rightarrow> ('s host, unit) call" where
  "configure_network_manager L E =
     bind (wrap ''check if NetworkManager is active'' (service_is_active L ''NetworkManager'')) (\<lambda>active.
     if \<not> active then ret () else
     bind (host_exists ''/etc/NetworkManager/conf.d'') (\<lambda>there.
     if \<not> there then ret () else
     bind (wrap ''materialize configuration'' (calico_network_manager_config L E)) (\<lambda>_.
     wrap ''restart network manager'' (run_quietly L [''systemctl'', ''restart'', ''NetworkManager'']))))"

section \<open>Services\<close>

definition systemd_config_path :: string where "systemd_config_path = ''/etc/systemd/system''"

definition ensure_proxy_config :: "'s host_lib \<Rightarrow> string \<Rightarrow> proxy_spec \<Rightarrow> ('s host, unit) call" where
  "ensure_proxy_config L dir p = bind (wrap ''unable to create directory'' (mkdir_all L dir)) (\<lambda>_.
     wrap ''unable to create and write proxy file'' (host_write L (path_join dir ''http-proxy.conf'')
       (join_str [CHR 0x0A] [''[Service]'', dq ''Environment=^HTTP_PROXY='' @ http_proxy p @ dq ''^'',
          dq ''Environment=^HTTPS_PROXY='' @ https_proxy p @ dq ''^'', dq ''Environment=^NO_PROXY='' @ no_proxy p @ dq ''^''])))"

definition ensure_autopilot_config :: "'s host_lib \<Rightarrow> string \<Rightarrow> string \<Rightarrow> ('s host, unit) call" where
  "ensure_autopilot_config L dir hostname = bind (wrap ''unable to create directory'' (mkdir_all L dir)) (\<lambda>_.
     wrap ''unable to create and write autopilot hostname file'' (host_write L (path_join dir ''autopilot-hostname.conf'')
       (join_str [CHR 0x0A] [''[Service]'', dq ''Environment=^AUTOPILOT_HOSTNAME='' @ hostname @ dq ''^''])))"

definition write_mirror_drop_in :: "'s host_lib \<Rightarrow> runtime_config_spec \<Rightarrow> ('s host, unit) call" where
  "write_mirror_drop_in L rc = wrap ''write drop-in file'' (write_drop_in_file L ''local-artifact-mirror.service'' ''embedded-cluster.conf''
     (text_of_lines [''[Service]'',
        dq ''Environment=^LOCAL_ARTIFACT_MIRROR_PORT='' @ show_int (rc_local_artifact_mirror_port rc) @ dq ''^'',
        dq ''Environment=^LOCAL_ARTIFACT_MIRROR_DATA_DIR='' @ ec_home_directory rc @ dq ''^'',
        ''# Empty ExecStart= will clear out the previous ExecStart value'',
        ''ExecStart='', ''ExecStart='' @ path_to_binary rc ''local-artifact-mirror'' @ '' serve'']))"

text \<open>Three good answers in a row, of at most thirty; without them the last failure.\<close>

fun mirror_wait :: "'s host_lib \<Rightarrow> nat \<Rightarrow> nat \<Rightarrow> err option \<Rightarrow> ('s host, unit) call" where
  "mirror_wait L 0 successes last_error = (case last_error of None \<Rightarrow> ret () | Some e \<Rightarrow> throw e)"
| "mirror_wait L (Suc n) successes last_error =
     bind (attempt (run_quietly L [''systemctl'', ''status'', ''local-artifact-mirror''])) (\<lambda>r. case r of
       Inr _ \<Rightarrow> if successes + 1 \<ge> 3 then ret ()
         else bind (modify (\<lambda>h. h\<lparr>h_system := hl_tick L (h_system h)\<rparr>)) (\<lambda>_. mirror_wait L n (successes + 1) last_error)
     | Inl e \<Rightarrow> bind (modify (\<lambda>h. h\<lparr>h_system := hl_tick L (h_system h)\<rparr>)) (\<lambda>_. mirror_wait L n 0 (Some e)))"

definition wait_for_local_artifact_mirror :: "'s host_lib \<Rightarrow> ('s host, unit) call" where
  "wait_for_local_artifact_mirror L = mirror_wait L 30 0 None"

definition local_artifact_mirror_unit_file :: "'s host_lib \<Rightarrow> 's host_env \<Rightarrow> ('s host, unit) call" where
  "local_artifact_mirror_unit_file L E =
     bind (wrap ''unable to open unit file'' (lift (he_asset E ''systemd/local-artifact-mirror.service''))) (\<lambda>c.
     wrap ''unable to write file'' (host_write L ''/etc/systemd/system/local-artifact-mirror.service'' c))"

definition install_and_enable_mirror :: "'s host_lib \<Rightarrow> 's host_env \<Rightarrow> runtime_config_spec \<Rightarrow> ('s host, unit) call" where
  "install_and_enable_mirror L E rc =
     bind (wrap ''failed to materialize artifact mirror unit'' (local_artifact_mirror_unit_file L E)) (\<lambda>_.
     bind (wrap ''failed to write local artifact mirror environment file'' (write_mirror_drop_in L rc)) (\<lambda>_.
     bind (wrap ''unable to get reload systemctl daemon'' (run_quietly L [''systemctl'', ''daemon-reload''])) (\<lambda>_.
     bind (wrap ''unable to enable the local artifact mirror service'' (run_quietly L [''systemctl'', ''enable'', ''local-artifact-mirror''])) (\<lambda>_.
     bind (wrap ''unable to start the local artifact mirror'' (run_quietly L [''systemctl'', ''start'', ''local-artifact-mirror''])) (\<lambda>_.
     wrap ''unable to wait for the local artifact mirror'' (wait_for_local_artifact_mirror L))))))"

definition host_symlink :: "'s host_lib \<Rightarrow> string \<Rightarrow> string \<Rightarrow> ('s host, unit) call" where
  "host_symlink L src dst = bind (host_exists dst) (\<lambda>there.
     if there then throw (EMsg (''symlink '' @ src @ '' '' @ dst @ '': file exists'')) else host_write L dst src)"

definition create_systemd_unit_files :: "'s host_lib \<Rightarrow> 's host_env \<Rightarrow> runtime_config_spec \<Rightarrow> string \<Rightarrow> bool \<Rightarrow> ('s host, unit) call" where
  "create_systemd_unit_files L E rc hostname worker =
     (let dst = systemd_config_path @ ''/'' @ he_app_slug E @ ''.service'';
          src = systemd_config_path @ (if worker then ''/k0sworker.service'' else ''/k0scontroller.service'')
      in bind (host_exists dst) (\<lambda>there.
         bind (if there then host_remove L dst else ret ()) (\<lambda>_.
         bind (case rc_proxy rc of None \<Rightarrow> ret ()
           | Some p \<Rightarrow> wrap ''unable to create proxy config'' (ensure_proxy_config L (src @ ''.d'') p)) (\<lambda>_.
         bind (if hostname \<noteq> [] then wrap ''unable to create autopilot hostname config'' (ensure_autopilot_config L (src @ ''.d'') hostname)
           else ret ()) (\<lambda>_.
         bind (wrap ''failed to create symlink'' (host_symlink L src dst)) (\<lambda>_.
         bind (wrap ''unable to get reload systemctl daemon'' (run_quietly L [''systemctl'', ''daemon-reload''])) (\<lambda>_.
         wrap ''unable to install and enable local artifact mirror'' (install_and_enable_mirror L E rc))))))))"

section \<open>The registry of containerd\<close>

definition containerd_config_path :: string where "containerd_config_path = ''/etc/k0s/containerd.d/''"

definition containerd_certs_dir :: string where "containerd_certs_dir = ''/etc/k0s/containerd/certs.d''"

definition registry_drop_in :: string where "registry_drop_in = path_join containerd_config_path ''embedded-registry.toml''"

definition v2_marker :: string where "v2_marker = dq ''io.containerd.grpc.v1.cri^.registry.configs.^''"

definition registry_config_v2 :: "string \<Rightarrow> string" where
  "registry_config_v2 registry = text_of_lines [[], dq ''[plugins.^io.containerd.grpc.v1.cri^.registry]'',
      dq ''  [plugins.^io.containerd.grpc.v1.cri^.registry.configs]''] @
     dq ''    [plugins.^'' @ v2_marker @ registry @ text_of_lines [dq ''^.tls]'', ''      insecure_skip_verify = true'']"

definition registry_config_v3 :: "string \<Rightarrow> string" where
  "registry_config_v3 dir = text_of_lines [''version = 3'', [], dq ''[plugins.^io.containerd.cri.v1.images^.registry]'',
     dq ''  config_path = ^'' @ dir @ dq ''^'']"

definition hosts_toml_v3 :: "string \<Rightarrow> string" where
  "hosts_toml_v3 registry = text_of_lines [dq ''server = ^https://'' @ registry @ dq ''^'', [],
     dq ''[host.^https://'' @ registry @ dq ''^]'', ''  skip_verify = true'']"

definition use_containerd_v3_schema :: "'s host_env \<Rightarrow> bool" where
  "use_containerd_v3_schema E = (case he_k0s_version E of Ok (major, minor) \<Rightarrow> major = 1 \<and> minor \<ge> 36 | _ \<Rightarrow> False)"

definition add_insecure_registry_v3 :: "'s host_lib \<Rightarrow> string \<Rightarrow> ('s host, unit) call" where
  "add_insecure_registry_v3 L registry =
     bind (wrap ''failed to write embedded-registry.toml'' (host_write L registry_drop_in (registry_config_v3 containerd_certs_dir))) (\<lambda>_.
     bind (wrap ''failed to ensure containerd certs.d directory exists'' (mkdir_all L (path_join containerd_certs_dir registry))) (\<lambda>_.
     wrap ''failed to write hosts.toml'' (host_write L (path_join (path_join containerd_certs_dir registry) ''hosts.toml'')
       (hosts_toml_v3 registry))))"

definition add_insecure_registry :: "'s host_lib \<Rightarrow> 's host_env \<Rightarrow> string \<Rightarrow> ('s host, unit) call" where
  "add_insecure_registry L E registry =
     bind (wrap ''failed to ensure containerd directory exists'' (mkdir_all L containerd_config_path)) (\<lambda>_.
     if use_containerd_v3_schema E then add_insecure_registry_v3 L registry
     else wrap ''failed to write embedded-registry.toml'' (host_write L registry_drop_in (registry_config_v2 registry)))"

text \<open>The leftmost match of \<open>io\.containerd\.grpc\.v1\.cri"\.registry\.configs\."([^"]+)"\.tls\<close>.\<close>

definition v2_host_here :: "string \<Rightarrow> string option" where
  "v2_host_here s = (if prefix v2_marker s then
       (let t = drop (length v2_marker) s; host = takeWhile (\<lambda>c. c \<noteq> CHR 0x22) t
        in if host \<noteq> [] \<and> prefix (dq ''^.tls'') (drop (length host) t) then Some host else None)
     else None)"

fun v2_registry_host :: "string \<Rightarrow> string option" where
  "v2_registry_host [] = None"
| "v2_registry_host (c # cs) = (case v2_host_here (c # cs) of Some host \<Rightarrow> Some host | None \<Rightarrow> v2_registry_host cs)"

definition migrate_containerd_config_to_v3 :: "'s host_lib \<Rightarrow> 's host_env \<Rightarrow> bool \<Rightarrow> ('s host, unit) call" where
  "migrate_containerd_config_to_v3 L E airgap =
     (if \<not> use_containerd_v3_schema E then ret ()
      else if \<not> airgap then bind (attempt (host_remove L registry_drop_in)) (\<lambda>r. case r of
          Inr _ \<Rightarrow> ret ()
        | Inl e \<Rightarrow> if is_not_exist e then ret () else throw (EWrap ''failed to remove embedded-registry.toml'' e))
      else bind (attempt (host_read L registry_drop_in)) (\<lambda>r. case r of
          Inl e \<Rightarrow> if is_not_exist e then ret () else throw (EWrap ''failed to read embedded-registry.toml'' e)
        | Inr contents \<Rightarrow> (case v2_registry_host contents of
              None \<Rightarrow> ret ()
            | Some registry \<Rightarrow> wrap ''failed to migrate containerd registry config to v3'' (add_insecure_registry_v3 L registry))))"

section \<open>The files of the binary\<close>

definition placeholder :: string where "placeholder = ''.placeholder''"

definition backup_of :: "string \<Rightarrow> string" where "backup_of path = path @ ''.bkp''"

text \<open>A running binary cannot be overwritten: an old file is renamed first. The renamed files are removed at the end, also
  when a step failed.\<close>

fun write_binaries :: "'s host_lib \<Rightarrow> 's host_env \<Rightarrow> runtime_config_spec \<Rightarrow> string list \<Rightarrow> string list \<Rightarrow>
    ('s host, string list \<times> err option) call" where
  "write_binaries L E rc olds [] = ret (olds, None)"
| "write_binaries L E rc olds (n # ns) =
     (if n = placeholder then write_binaries L E rc olds ns
      else let dst = path_to_binary rc n in
        bind (attempt (wrap ''unable to read asset'' (lift (he_asset E (''bins/'' @ n))))) (\<lambda>a. case a of
          Inl e \<Rightarrow> ret (olds, Some e)
        | Inr contents \<Rightarrow>
            bind (host_exists dst) (\<lambda>there.
            bind (attempt (if there then wrap (''unable to rename '' @ dst) (host_rename L dst (backup_of dst)) else ret ())) (\<lambda>r. case r of
              Inl e \<Rightarrow> ret (olds, Some e)
            | Inr _ \<Rightarrow>
                bind (attempt (wrap ''unable to write file'' (host_write L dst contents))) (\<lambda>w. case w of
                  Inl e \<Rightarrow> ret (if there then olds @ [backup_of dst] else olds, Some e)
                | Inr _ \<Rightarrow> write_binaries L E rc (if there then olds @ [backup_of dst] else olds) ns)))))"

definition materialize_ourselves :: "'s host_lib \<Rightarrow> 's host_env \<Rightarrow> runtime_config_spec \<Rightarrow> ('s host, unit) call" where
  "materialize_ourselves L E rc =
     bind (wrap ''unable to get our own executable path'' (lift (he_executable E))) (\<lambda>src.
     let dst = path_to_binary rc (he_app_slug E) in
     if src = dst then ret ()
     else bind (host_exists dst) (\<lambda>there.
       bind (if there then wrap (''unable to rename '' @ dst) (host_rename L dst (backup_of dst)) else ret ()) (\<lambda>_.
       bind (attempt (bind (wrap ''unable to open source file'' (host_read L src)) (\<lambda>contents.
         wrap ''unable to open destination file'' (host_write L dst contents)))) (\<lambda>r.
       bind (if there then ignoring (host_remove L (backup_of dst)) else ret ()) (\<lambda>_.
       case r of Inl e \<Rightarrow> throw e | Inr _ \<Rightarrow> ret ())))))"

definition materialize_binaries :: "'s host_lib \<Rightarrow> 's host_env \<Rightarrow> runtime_config_spec \<Rightarrow> ('s host, unit) call" where
  "materialize_binaries L E rc =
     bind (wrap ''unable to read embedded-cluster bins dir'' (lift (he_asset_dir E ''bins''))) (\<lambda>names.
     bind (wrap ''unable to materialize ourselves'' (materialize_ourselves L E rc)) (\<lambda>_.
     bind (write_binaries L E rc [] names) (\<lambda>(olds, failure).
     bind (for_each (\<lambda>f. ignoring (host_remove L f)) olds) (\<lambda>_.
     case failure of None \<Rightarrow> ret () | Some e \<Rightarrow> throw e))))"

definition materialize_kubectl :: "'s host_lib \<Rightarrow> 's host_env \<Rightarrow> runtime_config_spec \<Rightarrow> ('s host, unit) call" where
  "materialize_kubectl L E rc =
     (let kubectl = path_to_binary rc ''kubectl''; completion = path_to_binary rc ''kubectl_completion_bash.sh''
      in bind (ignoring (host_remove L kubectl)) (\<lambda>_.
         bind (wrap ''write kubectl completion'' (host_write L kubectl
           (''#!/bin/sh'' @ [CHR 0x0A] @ dq ''exec /usr/local/bin/k0s kubectl ^$@^''))) (\<lambda>_.
         bind (ignoring (host_remove L completion)) (\<lambda>_.
         bind (wrap ''generate kubectl completion'' (lift (he_completion E))) (\<lambda>c.
         wrap ''write kubectl completion'' (host_write L completion c))))))"

definition materialize_support_files :: "'s host_lib \<Rightarrow> 's host_env \<Rightarrow> runtime_config_spec \<Rightarrow> ('s host, unit) call" where
  "materialize_support_files L E rc =
     bind (wrap ''unable to read embedded-cluster support dir'' (lift (he_asset_dir E ''support''))) (\<lambda>names.
     bind (for_each (\<lambda>n. bind (wrap ''unable to read asset'' (lift (he_asset E (''support/'' @ n)))) (\<lambda>c.
       let dst = path_to_support_file rc n in wrap (''unable to write file '' @ dst) (host_write L dst c))) names) (\<lambda>_.
     let dst = path_to_support_file rc ''host-support-bundle-remote.yaml''
     in wrap (''unable to write file '' @ dst) (host_write L dst (he_remote_support_spec E))))"

definition materialize_all :: "'s host_lib \<Rightarrow> 's host_env \<Rightarrow> runtime_config_spec \<Rightarrow> ('s host, unit) call" where
  "materialize_all L E rc =
     bind (wrap ''unable to materialize embedded binaries'' (materialize_binaries L E rc)) (\<lambda>_.
     bind (wrap ''unable to materialize kubectl'' (materialize_kubectl L E rc)) (\<lambda>_.
     wrap ''unable to materialize embedded support files'' (materialize_support_files L E rc)))"

definition support_template_data :: "domains \<Rightarrow> runtime_config_spec \<Rightarrow> bool \<Rightarrow> (string \<times> string) list" where
  "support_template_data d rc airgap =
     [(''DataDir'', ec_home_directory rc), (''K0sDataDir'', ec_k0s_sub_dir rc), (''OpenEBSDataDir'', ec_openebs_local_sub_dir rc),
      (''LogsDir'', ''/var/log/embedded-cluster''), (''IsAirgap'', if airgap then ''true'' else ''false''),
      (''ReplicatedAppURL'', maybe_add_https (replicated_app_domain d)), (''ProxyRegistryURL'', maybe_add_https (proxy_registry_domain d))] @
     (case rc_proxy rc of None \<Rightarrow> [(''HTTPProxy'', []), (''HTTPSProxy'', []), (''NoProxy'', [])]
      | Some p \<Rightarrow> [(''HTTPProxy'', http_proxy p), (''HTTPSProxy'', https_proxy p), (''NoProxy'', no_proxy p)])"

definition materialize_support_bundle_spec :: "'s host_lib \<Rightarrow> 's host_env \<Rightarrow> domains \<Rightarrow> runtime_config_spec \<Rightarrow> bool \<Rightarrow> ('s host, unit) call" where
  "materialize_support_bundle_spec L E d rc airgap =
     bind (wrap ''read support bundle template'' (host_read L (path_to_support_file rc ''host-support-bundle.tmpl.yaml''))) (\<lambda>t.
     bind (wrap ''render support bundle template'' (lift (he_render E t (support_template_data d rc airgap)))) (\<lambda>c.
     wrap ''write support bundle spec'' (host_write L (path_to_support_file rc ''host-support-bundle.yaml'') c)))"

definition materialize_files :: "'s host_lib \<Rightarrow> 's host_env \<Rightarrow> domains \<Rightarrow> runtime_config_spec \<Rightarrow> string \<Rightarrow> ('s host, unit) call" where
  "materialize_files L E d rc bundle =
     bind (wrap ''materialize binaries'' (materialize_all L E rc)) (\<lambda>_.
     bind (wrap ''materialize support bundle spec'' (materialize_support_bundle_spec L E d rc (bundle \<noteq> []))) (\<lambda>_.
     if bundle = [] then ret ()
     else bind (wrap ''failed to open airgap file'' (bind (host_read L bundle) (\<lambda>_. ret ()))) (\<lambda>_.
       wrap ''materialize airgap files'' (he_unpack_airgap E bundle))))"

section \<open>A host for an installation\<close>

definition runtime_config_path :: string where "runtime_config_path = ''/etc/embedded-cluster/ec.yaml''"

definition runtime_config_to_disk :: "'s host_lib \<Rightarrow> 's host_env \<Rightarrow> runtime_config_spec \<Rightarrow> ('s host, unit) call" where
  "runtime_config_to_disk L E rc =
     bind (wrap ''create directory'' (mkdir_all L (dir_of runtime_config_path))) (\<lambda>_.
     bind (host_exists runtime_config_path) (\<lambda>there.
     bind (if there then wrap ''remove existing file'' (host_remove L runtime_config_path) else ret ()) (\<lambda>_.
     bind (wrap ''marshal spec'' (lift (he_runtime_config_yaml E rc))) (\<lambda>y.
     wrap ''write file'' (host_write L runtime_config_path y)))))"

definition configure_host :: "'s host_lib \<Rightarrow> 's host_env \<Rightarrow> domains \<Rightarrow> runtime_config_spec \<Rightarrow> string option \<Rightarrow> string \<Rightarrow> ('s host, unit) call" where
  "configure_host L E d rc license bundle =
     bind (wrap ''write runtime config to disk'' (runtime_config_to_disk L E rc)) (\<lambda>_.
     bind (wrap ''materialize files'' (materialize_files L E d rc bundle)) (\<lambda>_.
     bind (case license of None \<Rightarrow> ret ()
       | Some l \<Rightarrow> ignoring (host_write L (path_join (ec_home_directory rc) ''license.yaml'') l)) (\<lambda>_.
     bind (ignoring (configure_selinux_fcontext L rc)) (\<lambda>_.
     bind (ignoring (restore_selinux_context L rc)) (\<lambda>_.
     bind (ignoring (configure_sysctl L E)) (\<lambda>_.
     bind (ignoring (configure_kernel_modules L E)) (\<lambda>_.
     bind (wrap ''configure network manager'' (configure_network_manager L E)) (\<lambda>_.
     ignoring (configure_firewalld L (pod_cidr (rc_network rc)) (service_cidr (rc_network rc)))))))))))"

section \<open>The wait for the mirror\<close>

fun mirror_answers :: "'s host_lib \<Rightarrow> nat \<Rightarrow> 's host \<Rightarrow> bool list" where
  "mirror_answers L 0 h = []"
| "mirror_answers L (Suc n) h = (case run_quietly L [''systemctl'', ''status'', ''local-artifact-mirror''] h of
     (r, h') \<Rightarrow> (r = Ok ()) # mirror_answers L n (h'\<lparr>h_system := hl_tick L (h_system h')\<rparr>))"

fun in_a_row :: "nat \<Rightarrow> bool list \<Rightarrow> bool" where
  "in_a_row k [] = False"
| "in_a_row k (b # bs) = (if b then k + 1 \<ge> 3 \<or> in_a_row (k + 1) bs else in_a_row 0 bs)"

lemma in_a_row_iff: "k < 3 \<Longrightarrow> in_a_row k bs \<longleftrightarrow>
    (\<exists>c. bs = replicate (3 - k) True @ c) \<or> (\<exists>a c. bs = a @ [True, True, True] @ c)"
proof (induction bs arbitrary: k)
  case Nil
  then show ?case by simp
next
  case (Cons b bs)
  have row: "(\<exists>a c. b # bs = a @ [True, True, True] @ c) \<longleftrightarrow>
      (\<exists>c. b # bs = [True, True, True] @ c) \<or> (\<exists>a c. bs = a @ [True, True, True] @ c)"
    by (metis append_Cons append_Nil list.sel(3) neq_Nil_conv)
  have rep: "replicate (3 - k) True = True # replicate (3 - Suc k) True"
    using Cons.prems by (metis Suc_diff_Suc replicate_Suc)
  show ?case
  proof (cases b)
    case False
    then show ?thesis using Cons.IH [of 0] Cons.prems row rep by (auto simp: numeral_3_eq_3)
  next
    case True
    show ?thesis
    proof (cases "k = 2")
      case True
      then show ?thesis using \<open>b\<close> by simp
    next
      case False
      then have k: "Suc k < 3" using Cons.prems by simp
      have "(\<exists>c. b # bs = [True, True, True] @ c) \<Longrightarrow> (\<exists>c. bs = replicate (3 - Suc k) True @ c)"
        using k by (cases k) (auto simp: numeral_3_eq_3 numeral_2_eq_2)
      then show ?thesis using Cons.IH [OF k] row rep \<open>b\<close> False Cons.prems by auto
    qed
  qed
qed

lemma run_quietly_cases: "(\<exists>h'. run_quietly L args h = (Ok (), h')) \<or> (\<exists>e h'. run_quietly L args h = (Err e, h'))"
  by (auto simp: run_quietly_def run_command_def exec_def call_defs split: exec_result.splits prod.splits)

lemma mirror_wait_iff:
  "k < 3 \<Longrightarrow> (last_error = None \<Longrightarrow> n + k \<ge> 3) \<Longrightarrow>
   (\<exists>h'. mirror_wait L n k last_error h = (Ok (), h')) \<longleftrightarrow> in_a_row k (mirror_answers L n h)"
proof (induction n arbitrary: k last_error h)
  case 0
  then show ?case by (auto simp: throw_def split: option.splits)
next
  case (Suc n)
  let ?tick = "\<lambda>h. h\<lparr>h_system := hl_tick L (h_system h)\<rparr>"
  consider (good) h' where "run_quietly L [''systemctl'', ''status'', ''local-artifact-mirror''] h = (Ok (), h')"
    | (bad) e h' where "run_quietly L [''systemctl'', ''status'', ''local-artifact-mirror''] h = (Err e, h')"
    using run_quietly_cases by blast
  then show ?case
  proof cases
    case good
    show ?thesis
    proof (cases "k + 1 \<ge> 3")
      case True
      then show ?thesis by (simp add: good bind_def attempt_def ret_def)
    next
      case False
      then have "(\<exists>v. mirror_wait L n (k + 1) last_error (?tick h') = (Ok (), v)) \<longleftrightarrow> in_a_row (k + 1) (mirror_answers L n (?tick h'))"
        using Suc.prems by (intro Suc.IH) auto
      then show ?thesis using False by (simp add: good bind_def attempt_def modify_def)
    qed
  next
    case bad
    have "(\<exists>v. mirror_wait L n 0 (Some e) (?tick h') = (Ok (), v)) \<longleftrightarrow> in_a_row 0 (mirror_answers L n (?tick h'))"
      by (intro Suc.IH) auto
    then show ?thesis by (simp add: bad bind_def attempt_def modify_def)
  qed
qed

text \<open>The wait for the local artifact mirror succeeds exactly if three of its thirty questions in a row are answered well;
  otherwise it fails: it never ends without an error and without them.\<close>

theorem mirror_wait_succeeds_iff:
  "(\<exists>h'. wait_for_local_artifact_mirror L h = (Ok (), h')) \<longleftrightarrow>
   (\<exists>a c. mirror_answers L 30 h = a @ [True, True, True] @ c)"
proof -
  have "(\<exists>h'. wait_for_local_artifact_mirror L h = (Ok (), h')) \<longleftrightarrow> in_a_row 0 (mirror_answers L 30 h)"
    unfolding wait_for_local_artifact_mirror_def by (rule mirror_wait_iff) simp_all
  also have "\<dots> \<longleftrightarrow> (\<exists>c. mirror_answers L 30 h = replicate 3 True @ c) \<or> (\<exists>a c. mirror_answers L 30 h = a @ [True, True, True] @ c)"
    using in_a_row_iff [of 0 "mirror_answers L 30 h"] by simp
  also have "\<dots> \<longleftrightarrow> (\<exists>a c. mirror_answers L 30 h = a @ [True, True, True] @ c)"
    by (metis append_Nil numeral_3_eq_3 replicate_0 replicate_Suc)
  finally show ?thesis .
qed

section \<open>Kernel parameters only rise\<close>

definition reads :: "(string \<Rightarrow> ('w, int) call) \<Rightarrow> (string \<Rightarrow> int) \<Rightarrow> bool" where
  "reads getter current \<longleftrightarrow> (\<forall>k v w w'. getter k w = (Ok v, w') \<longrightarrow> v = current k)"

lemma dynamic_settings_Ok:
  assumes "reads getter current" "dynamic_settings getter cs w = (Ok settings, w')"
  shows "settings = map (\<lambda>c. (sc_key c, sc_value c)) (filter (\<lambda>c. sysctl_needs_update c (current (sc_key c))) cs)"
  using assms(2)
proof (induction cs arbitrary: w w' settings)
  case (Cons c cs)
  then obtain v w1 w2 rest where g: "getter (sc_key c) w = (Ok v, w1)" "dynamic_settings getter cs w1 = (Ok rest, w2)"
    and s: "settings = (if sysctl_needs_update c v then (sc_key c, sc_value c) # rest else rest)"
    by (auto simp: bind_Ok_iff wrap_Ok_iff)
  have "v = current (sc_key c)" using assms(1) g(1) unfolding reads_def by blast
  then show ?case using Cons.IH [OF g(2)] s by simp
qed simp

text \<open>With the parameters that the generated file sets, every parameter has the larger of its current value and the required
  minimum, and one without a minimum keeps its value: the file never lowers a parameter.\<close>

theorem sysctl_never_lowered:
  assumes "reads getter current" "dynamic_settings getter dynamic_sysctl_constraints w = (Ok settings, w')"
  shows "(case map_of settings k of Some v \<Rightarrow> v | None \<Rightarrow> current k) =
    (case map_of (map (\<lambda>c. (sc_key c, sc_value c)) dynamic_sysctl_constraints) k of
       Some minimum \<Rightarrow> max minimum (current k) | None \<Rightarrow> current k)"
  unfolding dynamic_settings_Ok [OF assms]
  by (simp add: dynamic_sysctl_constraints_def sysctl_needs_update_def max_def)

definition sample_reading :: "string \<Rightarrow> (unit, int) call" where "sample_reading k = ret 8192"

theorem sysctl_never_lowered_witness:
  "\<exists>settings. dynamic_settings sample_reading dynamic_sysctl_constraints () = (Ok settings, ()) \<and>
     (case map_of settings ''fs.inotify.max_user_watches'' of Some v \<Rightarrow> v | None \<Rightarrow> 8192) = 65536"
proof -
  have reading: "reads sample_reading (\<lambda>_. 8192)" by (simp add: reads_def sample_reading_def)
  have run: "dynamic_settings sample_reading dynamic_sysctl_constraints () = (Ok [(''fs.inotify.max_user_watches'', 65536)], ())"
    by code_simp
  have "map_of (map (\<lambda>c. (sc_key c, sc_value c)) dynamic_sysctl_constraints) ''fs.inotify.max_user_watches'' = Some 65536"
    by code_simp
  with sysctl_never_lowered [OF reading run, of "''fs.inotify.max_user_watches''"] run show ?thesis
    by (intro exI [of _ "[(''fs.inotify.max_user_watches'', 65536)]"] conjI) simp_all
qed

section \<open>Migrating the registry of containerd\<close>

lemma v2_marker_chars: "v2_marker = ''io.containerd.grpc.v1.cri'' @ [CHR 0x22] @ ''.registry.configs.'' @ [CHR 0x22]"
  by code_simp

lemma v2_host_found:
  assumes "registry \<noteq> []" "CHR 0x22 \<notin> set registry"
  shows "v2_host_here (v2_marker @ registry @ CHR 0x22 # ''.tls'' @ rest) = Some registry"
proof -
  have "takeWhile (\<lambda>c. c \<noteq> CHR 0x22) (registry @ CHR 0x22 # ''.tls'' @ rest) = registry"
    using assms(2) by (subst takeWhile_append2) auto
  moreover have "prefix (dq ''^.tls'') (CHR 0x22 # ''.tls'' @ rest)" by (simp add: dq_def)
  ultimately show ?thesis using assms(1) by (simp add: v2_host_here_def Let_def)
qed

lemma v2_registry_host_found:
  assumes "registry \<noteq> []" "CHR 0x22 \<notin> set registry"
  shows "v2_registry_host (v2_marker @ registry @ CHR 0x22 # ''.tls'' @ rest) = Some registry"
  using v2_host_found [OF assms, of rest] by (simp add: v2_marker_chars)

fun clear_of_marker :: "string \<Rightarrow> bool" where
  "clear_of_marker [] = True"
| "clear_of_marker (c # cs) \<longleftrightarrow> \<not> prefix (c # cs) v2_marker \<and> \<not> prefix v2_marker (c # cs) \<and> clear_of_marker cs"

lemma v2_registry_host_skips: "clear_of_marker head \<Longrightarrow> v2_registry_host (head @ tail) = v2_registry_host tail"
proof (induction head)
  case (Cons c cs)
  then have "\<not> prefix v2_marker ((c # cs) @ tail)"
    unfolding prefix_append clear_of_marker.simps by (metis prefixI)
  then have "v2_host_here ((c # cs) @ tail) = None" by (simp add: v2_host_here_def)
  then show ?case using Cons by simp
qed simp

lemma v2_head_clear: "clear_of_marker (text_of_lines [[], dq ''[plugins.^io.containerd.grpc.v1.cri^.registry]'',
      dq ''  [plugins.^io.containerd.grpc.v1.cri^.registry.configs]''] @ dq ''    [plugins.^'')"
  by code_simp

lemma registry_of_v2_config:
  assumes "registry \<noteq> []" "CHR 0x22 \<notin> set registry"
  shows "v2_registry_host (registry_config_v2 registry) = Some registry"
proof -
  have tail: "text_of_lines [dq ''^.tls]'', ''      insecure_skip_verify = true''] =
      CHR 0x22 # ''.tls'' @ '']'' @ [CHR 0x0A] @ ''      insecure_skip_verify = true'' @ [CHR 0x0A]"
    by code_simp
  show ?thesis
    unfolding registry_config_v2_def tail
    using v2_registry_host_skips [OF v2_head_clear] v2_registry_host_found [OF assms] by (simp only: append_assoc)
qed

lemma no_registry_in_v3_config: "v2_registry_host (registry_config_v3 containerd_certs_dir) = None"
  by code_simp

lemma new_config_not_migrated:
  assumes "map_of (h_files h) registry_drop_in = Some (registry_config_v3 containerd_certs_dir)"
    "hl_may_read L registry_drop_in (h_system h) = Ok ()"
  shows "migrate_containerd_config_to_v3 L E True h = (Ok (), h)"
proof -
  have "host_read L registry_drop_in h = (Ok (registry_config_v3 containerd_certs_dir), h)"
    using assms by (simp add: host_read_def call_defs)
  then show ?thesis
    using no_registry_in_v3_config by (simp add: migrate_containerd_config_to_v3_def bind_def attempt_def ret_def)
qed

text \<open>Migrating the drop-in that an older release wrote for a registry leaves the same files as adding the registry anew with the
  newer release: the address of the registry is read back from the old file.\<close>

theorem migrated_registry_as_if_added:
  assumes "use_containerd_v3_schema E" "map_of (h_files h) registry_drop_in = Some (registry_config_v2 registry)"
    and "registry \<noteq> []" "CHR 0x22 \<notin> set registry" "\<And>p. hl_may_read L p (h_system h) = Ok ()" "\<And>p. hl_mkdir L p (h_system h) = Ok ()"
    and "add_insecure_registry L E registry h = (Ok (), h')"
  shows "migrate_containerd_config_to_v3 L E True h = (Ok (), h')"
proof -
  have "add_insecure_registry_v3 L registry h = (Ok (), h')"
    using assms(1,6,7) by (simp add: add_insecure_registry_def mkdir_all_def call_defs)
  moreover have "host_read L registry_drop_in h = (Ok (registry_config_v2 registry), h)"
    using assms(2,5) by (simp add: host_read_def call_defs)
  ultimately show ?thesis
    using assms(1) registry_of_v2_config [OF assms(3,4)]
    by (simp add: migrate_containerd_config_to_v3_def bind_def attempt_def wrap_def)
qed

definition sample_host_lib :: "(string \<Rightarrow> bool) \<Rightarrow> unit host_lib" where
  "sample_host_lib writable = \<lparr>hl_exec = (\<lambda>_ s. (Finished [], s)), hl_found = (\<lambda>_ _. Ok True), hl_tick = (\<lambda>s. s),
     hl_may_write = (\<lambda>p _. if writable p then Ok () else Err (EMsg ''no space left on device'')),
     hl_may_read = (\<lambda>_ _. Ok ()), hl_mkdir = (\<lambda>_ _. Ok ()), hl_dbus = (\<lambda>_. Ok ()), hl_units = (\<lambda>_. Ok []),
     hl_property = (\<lambda>_ _ _. Ok ''inactive''), hl_unit_change = (\<lambda>_ _ s. (Ok ''done'', s))\<rparr>"

definition sample_host_env :: "unit host_env" where
  "sample_host_env = \<lparr>he_k0s_version = Ok (1, 36), he_app_slug = ''app'', he_executable = Ok ''/data/bin/app'', he_asset = (\<lambda>n. Ok n),
     he_asset_dir = (\<lambda>_. Ok [''local-artifact-mirror'']), he_sysctl_conf = [], he_modules_conf = [], he_completion = Ok [],
     he_remote_support_spec = [], he_render = (\<lambda>t _. Ok t), he_runtime_config_yaml = (\<lambda>_. Ok []), he_unpack_airgap = (\<lambda>_. ret ())\<rparr>"

theorem migrated_registry_as_if_added_witness:
  "\<exists>h'. migrate_containerd_config_to_v3 (sample_host_lib (\<lambda>_. True)) sample_host_env True
     \<lparr>h_files = [(registry_drop_in, registry_config_v2 ''10.0.0.11:5000'')], h_system = (), h_ran = []\<rparr> = (Ok (), h')"
proof -
  define h :: "unit host" where "h = \<lparr>h_files = [(registry_drop_in, registry_config_v2 ''10.0.0.11:5000'')], h_system = (), h_ran = []\<rparr>"
  have v3: "use_containerd_v3_schema sample_host_env" by (simp add: use_containerd_v3_schema_def sample_host_env_def)
  have old: "map_of (h_files h) registry_drop_in = Some (registry_config_v2 ''10.0.0.11:5000'')" by (simp add: h_def)
  obtain h' where new: "add_insecure_registry (sample_host_lib (\<lambda>_. True)) sample_host_env ''10.0.0.11:5000'' h = (Ok (), h')"
    by (simp add: add_insecure_registry_def add_insecure_registry_v3_def use_containerd_v3_schema_def sample_host_env_def
        sample_host_lib_def mkdir_all_def host_write_def call_defs)
  have "migrate_containerd_config_to_v3 (sample_host_lib (\<lambda>_. True)) sample_host_env True h = (Ok (), h')"
    by (rule migrated_registry_as_if_added [OF v3 old _ _ _ _ new]) (simp_all add: sample_host_lib_def)
  then show ?thesis unfolding h_def by blast
qed

section \<open>A binary that cannot be written\<close>

lemma backup_differs [simp]: "backup_of p \<noteq> p" "p \<noteq> backup_of p"
  by (simp_all add: backup_of_def)

text \<open>When a new binary cannot be written after the old one was renamed, for want of space for instance, the old one is removed all
  the same: neither is left.\<close>

theorem failed_write_loses_the_binary:
  assumes "he_asset_dir E ''bins'' = Ok [n]" "n \<noteq> placeholder" "he_asset E (''bins/'' @ n) = Ok contents"
    and "he_executable E = Ok (path_to_binary rc (he_app_slug E))"
    and "map_of (h_files h) (path_to_binary rc n) = Some old"
    and "hl_may_write L (path_to_binary rc n) (h_system h) = Err e" "hl_may_write L (backup_of (path_to_binary rc n)) (h_system h) = Ok ()"
  shows "\<exists>f h'. materialize_binaries L E rc h = (Err f, h') \<and>
    map_of (h_files h') (path_to_binary rc n) = None \<and> map_of (h_files h') (backup_of (path_to_binary rc n)) = None"
proof -
  define dst where "dst = path_to_binary rc n"
  have "materialize_ourselves L E rc h = (Ok (), h)"
    by (simp add: materialize_ourselves_def assms(4) call_defs)
  then show ?thesis
    using assms(1-3,5-7) unfolding dst_def [symmetric]
    by (simp add: materialize_binaries_def call_defs ignoring_def host_exists_def host_rename_def host_write_def host_remove_def
        Let_def dst_def [symmetric] update_conv' delete_conv')
qed

theorem failed_write_loses_the_binary_witness:
  "\<exists>f h'. materialize_binaries (sample_host_lib (\<lambda>p. p \<noteq> ''/data/bin/local-artifact-mirror'')) sample_host_env
     (empty_runtime_config\<lparr>data_dir := ''/data''\<rparr>)
     \<lparr>h_files = [(''/data/bin/local-artifact-mirror'', ''old'')], h_system = (), h_ran = []\<rparr> = (Err f, h')"
proof -
  have p: "path_to_binary (empty_runtime_config\<lparr>data_dir := ''/data''\<rparr>) ''local-artifact-mirror'' = ''/data/bin/local-artifact-mirror''"
    "path_to_binary (empty_runtime_config\<lparr>data_dir := ''/data''\<rparr>) ''app'' = ''/data/bin/app''"
    "''local-artifact-mirror'' \<noteq> placeholder"
    by code_simp+
  show ?thesis
    using failed_write_loses_the_binary [of sample_host_env "''local-artifact-mirror''" "''bins/local-artifact-mirror''"
      "empty_runtime_config\<lparr>data_dir := ''/data''\<rparr>"
      "\<lparr>h_files = [(''/data/bin/local-artifact-mirror'', ''old'')], h_system = (), h_ran = []\<rparr>" "''old''"
      "sample_host_lib (\<lambda>p. p \<noteq> ''/data/bin/local-artifact-mirror'')" "EMsg ''no space left on device''"]
    by (simp add: p sample_host_env_def sample_host_lib_def backup_of_def) blast
qed

end
