(* ===== verification/Spec2Isabelle.thy ===== *)
theory Spec2Isabelle
  imports Upgradable Extensions NetUtils Waits HighAvailability Controller RestoreRuns Join Reset
    Linter HostPreflights Commands License HostSetup
begin

text \<open>
  \<^bold>\<open>The program.\<close> Embedded Cluster packages an application with a Kubernetes distribution (k0s) in one
  binary. The binary (\<^verbatim>\<open>cmd/installer\<close>) installs the first node, joins others, and restores an instance from a
  backup; an operator in the cluster (\<^verbatim>\<open>operator\<close>) reconciles \<open>Installation\<close> objects, and upgrades run as a job
  that the binary of the new release creates. They meet in the cluster: in the \<open>Installation\<close> object, its status
  conditions, config maps, autopilot plans and helm releases.

  \<^bold>\<open>How it is modelled.\<close> A function that reads or changes the outside is a \<open>call\<close>: from a state to an outcome (a
  value, an error, a panic) and the state after it (\<open>Prelude\<close>). The state of everything that talks to Kubernetes
  and helm is the record \<open>kube\<close> of \<open>Cluster\<close>: the stored objects, the effects outside in their order (\<open>log\<close>), and
  the answers the API server and helm will give (\<open>faults\<close>: a conflict, a failure, a lost reply, ...), so that every
  error path is a branch and a theorem about all states is one about all interleavings of failures. The command
  line has the larger record \<open>cli_world\<close> of \<open>Cli\<close> around it. Where code waits, the rest of the system moves
  between two tries (\<open>lib_tick\<close>, \<open>de_tick\<close>), an arbitrary function that theorems restrict by hypotheses where
  they must. Libraries (semver, YAML, JSON, go-cidr, HTTP, sorts that are not stable, map iteration) are
  parameters, collected in records (\<open>lib\<close>, \<open>netlib\<close>, \<open>addon_lib\<close>, \<open>config_lib\<close>, \<open>upgrade_lib\<close>, \<open>install_env\<close>,
  \<open>restore_env\<close>). Go errors keep the class the sources test for below any number of wrappings.

  \<^bold>\<open>The theories.\<close>
  \<^item> \<open>Prelude\<close>: errors, outcomes, calls, the locale \<open>frame\<close> (a relation kept by every step of a call), strings.
  \<^item> \<open>Installation\<close>: \<^verbatim>\<open>kinds/apis/v1beta1\<close> (types, the migration of old objects, conditions), \<^verbatim>\<open>pkg/runtimeconfig\<close>,
    \<^verbatim>\<open>pkg-new/domains\<close>. Its lemmas: migrating is idempotent and keeps what was set.
  \<^item> \<open>Cluster\<close>: the state, client calls, conflicts and retries, helm; the locale \<open>kube_frame\<close> with its instances
    (which fields a call leaves alone), and \<open>emits\<close>, the possible effects of a call.
  \<^item> \<open>Installs\<close>: \<^verbatim>\<open>pkg/kubeutils/installation.go\<close>. Listing is newest first, retiring leaves the newest.
  \<^item> \<open>Waits\<close>: \<^verbatim>\<open>pkg/kubeutils/kubeutils.go\<close>, \<^verbatim>\<open>ensure.go\<close>. The locale \<open>readiness\<close>: a wait returns exactly if one of
    its tries finds what it waits for.
  \<^item> \<open>NetUtils\<close>: \<^verbatim>\<open>pkg/netutils\<close>, \<^verbatim>\<open>pkg-new/config\<close>: splitting, validating and reserving networks, the proxy.
  \<^item> \<open>Upgradable\<close>: \<^verbatim>\<open>pkg-new/validation\<close>, the gate of an upgrade, and when exactly it opens.
  \<^item> \<open>Tracked\<close>: work tracked by status conditions, whose locales \<open>AddOns\<close> and \<open>Extensions\<close> interpret.
  \<^item> \<open>HelmValues\<close>, \<open>BuiltIns\<close>, \<open>AddOns\<close>: \<^verbatim>\<open>pkg/addons\<close>: the values of each add-on, installing and upgrading one,
    and the loops over all of them: their order, that they resume, that they complete.
  \<^item> \<open>Extensions\<close>: \<^verbatim>\<open>pkg/extensions\<close>: the difference of two releases' charts, and that an upgrade ends with the
    charts of the new one, removals first.
  \<^item> \<open>HighAvailability\<close>: \<^verbatim>\<open>pkg/addons/highavailability.go\<close>, and the migration of the registry's data.
  \<^item> \<open>K0sConfig\<close>: \<^verbatim>\<open>pkg/config\<close>: rendering the configuration of k0s and patching it.
  \<^item> \<open>Upgrade\<close>, \<open>UpgradeK0s\<close>, \<open>UpgradeOrder\<close>: \<^verbatim>\<open>pkg-new/upgrade\<close>, the release metadata and autopilot: the upgrade of
    k0s (the first file has the definitions), what it guarantees, and the order of the whole upgrade.
  \<^item> \<open>Artifacts\<close>: \<^verbatim>\<open>operator/pkg/artifacts\<close>, \<^verbatim>\<open>operator/pkg/metadata\<close>, \<^verbatim>\<open>pkg-new/artifacts\<close>: a release's files on every node.
  \<^item> \<open>UpgradeJob\<close>: \<^verbatim>\<open>pkg-new/upgrade/job.go\<close>, \<^verbatim>\<open>operator/pkg/cli\<close>: the job, its retries, the migration from version 1.
  \<^item> \<open>Controller\<close>: \<^verbatim>\<open>operator/controllers\<close>, \<^verbatim>\<open>operator/pkg/openebs\<close>, \<^verbatim>\<open>operator/pkg/metrics\<close>: one reconcile. The
    status of the nodes refines the set of nodes of the cluster.
  \<^item> \<open>Cli\<close>, \<open>Install\<close>: \<^verbatim>\<open>cmd/installer/cli\<close>, installing the first node: nothing changes before the checks
    that precede the preparation of the host.
  \<^item> \<open>Backups\<close>, \<open>Restore\<close>, \<open>RestoreRuns\<close>: \<^verbatim>\<open>pkg/disasterrecovery\<close> and \<^verbatim>\<open>restore.go\<close>: grouping velero backups, the
    state machine of a restore, the states a run records and what the next run finds.
  \<^item> \<open>Join\<close>: \<^verbatim>\<open>join.go\<close>: a node joins a cluster of its own version only, and with the networks of that cluster.
  \<^item> \<open>Reset\<close>: \<^verbatim>\<open>reset.go\<close>, \<^verbatim>\<open>pkg/runtimeconfig/util\<close>: a node leaves only when the cluster survives it, and nothing of the
    installation is left on its host.
  \<^item> \<open>Commands\<close>: the other commands that change the cluster, their calls of the Admin Console's program
    (\<^verbatim>\<open>cmd/installer/kotscli\<close>), \<^verbatim>\<open>pkg-new/kurl\<close>: a new certificate changes nothing else in its secret.
  \<^item> \<open>HostSystem\<close>, \<open>Firewalld\<close>, \<open>HostSetup\<close>: \<^verbatim>\<open>pkg/helpers\<close>, \<^verbatim>\<open>pkg-new/hostutils\<close>, \<^verbatim>\<open>cmd/installer/goods\<close>: what the steps
    that the commands take on a host do there. Resetting the firewall undoes configuring it, given what the manual of
    \<^verbatim>\<open>firewall-cmd\<close> says; kernel parameters only rise; a migrated registry is as one added anew.
  \<^item> \<open>License\<close>: \<^verbatim>\<open>pkg-new/license\<close>: a license that verifies was signed along a chain from a known key.
  \<^item> \<open>ReleaseData\<close>: \<^verbatim>\<open>pkg/release\<close>: which document of a release becomes which of its parts.
  \<^item> \<open>HostPreflights\<close>: \<^verbatim>\<open>pkg-new/preflights\<close>: assembling the checks of a host, running them, printing them.
  \<^item> \<open>Linter\<close>: \<^verbatim>\<open>pkg/lint\<close>, \<^verbatim>\<open>lint.go\<close>: the linter of release configurations, and exactly what it warns of.

  \<^bold>\<open>Bounds and fuel.\<close> A poll has the number of tries of the code's backoff (60, 300 for installations, 30 for
  backups) and ends with the code's time-out error. \<open>retry_on_conflict\<close> has the library's number of retries,
  a parameter. Four loops have no bound in the code. \<open>upgrade_k0s\<close> calls itself after it has removed a plan; its
  fuel is the depth, and \<open>upgrade_k0s_recursion_bounded\<close> shows that one level is enough. The wait for the finalizers
  of charts in the migration from version 1 has \<open>n\<close> tries, after which the process is killed; its theorems
  hold for every \<open>n\<close>, and \<open>migration_completes\<close> says when it is done. The wait for deleted objects of
  \<open>EnsureObject\<close> ends with its context, after \<open>patience\<close> tries. The wait for a velero restore has fuel, running
  out of which is the outcome \<open>still waiting\<close>; \<open>velero_wait_ends_iff\<close> gives the fuel that is enough and
  \<open>refused_restore_is_waited_for_forever\<close> a case where none is. Recursions over answers of the user end
  with the input. Machine integers are words where the code can overflow (sizes of air gap bundles), else integers.

  \<^bold>\<open>Not modelled.\<close> What is input and output of third-party libraries: downloading and unpacking, the helm and
  Kubernetes clients themselves, the metrics reporter, spinners and messages, the printing of tables, prompts
  beyond their answers, the registry data migration program (an upload with the AWS SDK), the local artifact
  mirror (a file server), the program that runs host preflights, support bundles beyond their config maps. The
  commands name their steps on a host and keep the effect a parameter; what the steps do is modelled apart, in
  \<open>HostSetup\<close>, on the files of a host. The type definitions in \<^verbatim>\<open>api/types\<close> and the build tools and
  end-to-end harnesses have no part in the program. Concurrency appears as the moves of the system between
  two steps of the code; the goroutines of the code itself (progress channels, the watch of Kubernetes
  deployments that only logs) are left out.
\<close>

end
